(* ===== verification/Float64.thy ===== *)
theory Float64
  imports Complex_Main
begin

text \<open>
  Python floats: IEEE 754 doubles as the rationals they denote.  \<open>fl\<close> rounds an exact value to the
  nearest double, ties to even, so that \<open>fl (a * b)\<close> is the float product of two doubles.  The model
  has no exponent bounds, infinities or NaNs: every value the modelled code computes lies far
  inside the normal range.  \<open>py_round1\<close> and \<open>py_round2\<close> are
  \<open>round(x, 1)\<close> and \<open>round(x, 2)\<close>.
\<close>

section \<open>Rounding to an integer, ties to even\<close>

definition round_even :: "rat \<Rightarrow> int" where
  "round_even x = (let n = \<lfloor>x\<rfloor>; d = x - of_int n in
     if d < 1/2 then n else if 1/2 < d then n + 1 else if even n then n else n + 1)"

lemma round_even_bounds: "\<lfloor>x\<rfloor> \<le> round_even x" "round_even x \<le> \<lfloor>x\<rfloor> + 1"
  by (simp_all add: round_even_def Let_def)

lemma round_even_int [simp]: "round_even (of_int n) = n"
  by (simp add: round_even_def)

lemma round_even_mono: "x \<le> y \<Longrightarrow> round_even x \<le> round_even y"
proof (cases "\<lfloor>x\<rfloor> = \<lfloor>y\<rfloor>")
  case True
  then show "x \<le> y \<Longrightarrow> ?thesis" by (auto simp: round_even_def Let_def)
next
  case False
  assume "x \<le> y"
  then have "\<lfloor>x\<rfloor> \<le> \<lfloor>y\<rfloor>" by (rule floor_mono)
  with False have "\<lfloor>x\<rfloor> + 1 \<le> \<lfloor>y\<rfloor>" by simp
  with round_even_bounds(2) [of x] round_even_bounds(1) [of y] show ?thesis by linarith
qed

lemma round_even_ge: "of_int n \<le> x \<Longrightarrow> n \<le> round_even x"
  using round_even_mono [of "of_int n" x] by simp

lemma round_even_le: "x \<le> of_int n \<Longrightarrow> round_even x \<le> n"
  using round_even_mono [of x "of_int n"] by simp

section \<open>Powers of two and binary exponents\<close>

definition pow2 :: "int \<Rightarrow> rat" where
  "pow2 e = (if 0 \<le> e then 2 ^ nat e else 1 / 2 ^ nat (- e))"

lemma pow2_powi: "pow2 e = 2 powi e"
  by (simp add: pow2_def power_int_def power_one_over inverse_eq_divide)

lemma pow2_pos [simp]: "0 < pow2 e"
  by (simp add: pow2_def)

lemma pow2_add: "pow2 (a + b) = pow2 a * pow2 b"
  by (simp add: pow2_powi power_int_add)

lemma pow2_less: "a < b \<Longrightarrow> pow2 a < pow2 b"
proof -
  assume "a < b"
  then have "pow2 b = pow2 a * pow2 (b - a)" by (simp add: pow2_add [symmetric])
  moreover have "1 < pow2 (b - a)" using \<open>a < b\<close> by (simp add: pow2_def)
  ultimately show ?thesis by simp
qed

lemma pow2_less_iff: "pow2 a < pow2 b \<longleftrightarrow> a < b"
  using pow2_less [of a b] pow2_less [of b a] by (cases a b rule: linorder_cases) auto

lemma pow2_le_iff: "pow2 a \<le> pow2 b \<longleftrightarrow> a \<le> b"
  using pow2_less_iff [of b a] by (simp add: linorder_not_less [symmetric])

text \<open>The exponent of a positive rational: \<open>2 ^ e \<le> x < 2 ^ (e + 1)\<close>.\<close>

fun int_log2 :: "int \<Rightarrow> int" where
  "int_log2 n = (if n < 2 then 0 else 1 + int_log2 (n div 2))"

declare int_log2.simps [simp del]

definition exponent :: "rat \<Rightarrow> int" where
  "exponent x = (let nd = quotient_of x; e = int_log2 (fst nd) - int_log2 (snd nd)
     in if pow2 e \<le> x then e else e - 1)"

lemma int_log2_bounds:
  "0 < n \<Longrightarrow> 0 \<le> int_log2 n \<and> pow2 (int_log2 n) \<le> of_int n \<and> rat_of_int (n + 1) \<le> pow2 (int_log2 n + 1)"
proof (induction n rule: int_log2.induct)
  case (1 n)
  show ?case
  proof (cases "n < 2")
    case True
    with 1(2) have "n = 1" by simp
    then show ?thesis by (simp add: int_log2.simps pow2_def)
  next
    case False
    define m where "m = n div 2"
    have m: "0 < m" "2 * m \<le> n" "n + 1 \<le> 2 * (m + 1)" using False by (auto simp: m_def)
    with 1(1) [OF False] have IH: "0 \<le> int_log2 m" "pow2 (int_log2 m) \<le> of_int m"
      "rat_of_int (m + 1) \<le> pow2 (int_log2 m + 1)" by (simp_all add: m_def)
    have "pow2 (1 + e) = 2 * pow2 e" for e by (simp add: pow2_add pow2_def [of 1])
    from this [of "int_log2 m"] this [of "int_log2 m + 1"]
    have "pow2 (1 + int_log2 m) = 2 * pow2 (int_log2 m)"
      "pow2 (1 + int_log2 m + 1) = 2 * pow2 (int_log2 m + 1)" by (simp_all add: add.assoc)
    moreover have "rat_of_int (2 * m) \<le> of_int n" "rat_of_int (n + 1) \<le> of_int (2 * (m + 1))"
      using m(2,3) by (simp_all only: of_int_le_iff)
    moreover have "int_log2 n = 1 + int_log2 m" using False by (simp add: int_log2.simps [of n] m_def)
    ultimately show ?thesis using IH by simp
  qed
qed

lemma exponent_bounds:
  assumes "0 < x"
  shows "pow2 (exponent x) \<le> x" "x < pow2 (exponent x + 1)"
proof -
  obtain n d where q: "quotient_of x = (n, d)" by (cases "quotient_of x")
  then have d: "0 < d" and x: "x = of_int n / of_int d"
    by (auto simp: quotient_of_denom_pos quotient_of_div)
  with assms have n: "0 < n" by (simp add: zero_less_divide_iff)
  define a b where "a = int_log2 n" and "b = int_log2 d"
  have na: "pow2 a \<le> rat_of_int n" "rat_of_int n < pow2 (a + 1)"
    and db: "pow2 b \<le> rat_of_int d" "rat_of_int d < pow2 (b + 1)"
    using int_log2_bounds [OF n] int_log2_bounds [OF d] by (auto simp: a_def b_def)
  define e where "e = a - b"
  have "x < pow2 (e + 1)"
  proof -
    have "x * pow2 b \<le> x * rat_of_int d" using db(1) assms by simp
    also have "\<dots> = rat_of_int n" using d by (simp add: x)
    also have "\<dots> < pow2 (a + 1)" by (rule na(2))
    also have "pow2 (a + 1) = pow2 (e + 1) * pow2 b" by (simp add: pow2_add [symmetric] e_def)
    finally show ?thesis by simp
  qed
  moreover have "pow2 (e - 1) \<le> x"
  proof -
    have "pow2 (e - 1) * pow2 (b + 1) = pow2 a" by (simp add: pow2_add [symmetric] e_def)
    with na(1) have "pow2 (e - 1) * pow2 (b + 1) \<le> rat_of_int n" by simp
    also have "\<dots> = x * rat_of_int d" using d by (simp add: x)
    also have "\<dots> \<le> x * pow2 (b + 1)" using db(2) assms by simp
    finally show ?thesis by simp
  qed
  moreover have "exponent x = (if pow2 e \<le> x then e else e - 1)"
    by (simp add: exponent_def q e_def a_def b_def Let_def)
  ultimately show "pow2 (exponent x) \<le> x" "x < pow2 (exponent x + 1)" by auto
qed

lemma exponent_mono:
  assumes "0 < x" and "x \<le> y" shows "exponent x \<le> exponent y"
proof -
  have "pow2 (exponent x) < pow2 (exponent y + 1)"
    using exponent_bounds(1) [of x] exponent_bounds(2) [of y] assms by auto
  then show ?thesis by (simp add: pow2_less_iff)
qed

lemma exponent_unique: "pow2 e \<le> x \<Longrightarrow> x < pow2 (e + 1) \<Longrightarrow> exponent x = e"
proof -
  assume a: "pow2 e \<le> x" "x < pow2 (e + 1)"
  then have "0 < x" using pow2_pos [of e] by linarith
  from exponent_bounds [OF this] a have "pow2 (exponent x) < pow2 (e + 1)" "pow2 e < pow2 (exponent x + 1)"
    by linarith+
  then show ?thesis by (simp add: pow2_less_iff)
qed

section \<open>Rounding to a double\<close>

definition fl_pos :: "rat \<Rightarrow> rat" where
  "fl_pos x = (let u = pow2 (exponent x - 52) in of_int (round_even (x / u)) * u)"

definition fl :: "rat \<Rightarrow> rat" where
  "fl x = (if x = 0 then 0 else if 0 < x then fl_pos x else - fl_pos (- x))"

definition is_double :: "rat \<Rightarrow> bool" where
  "is_double x = (fl x = x)"

text \<open>\<open>round(x, 1)\<close>: the nearest tenth of the exact value, ties to even, as a double.\<close>

definition py_round1 :: "rat \<Rightarrow> rat" where
  "py_round1 x = fl (of_int (round_even (10 * x)) / 10)"

definition py_round2 :: "rat \<Rightarrow> rat" where
  "py_round2 x = fl (of_int (round_even (100 * x)) / 100)"

lemma pow2_52: "pow2 52 = of_int (2 ^ 52)" "pow2 53 = of_int (2 ^ 53)"
  by (simp_all add: pow2_def)

lemma fl_pos_bounds:
  assumes "0 < x" shows "pow2 (exponent x) \<le> fl_pos x" "fl_pos x \<le> pow2 (exponent x + 1)"
proof -
  define u where "u = pow2 (exponent x - 52)"
  have u: "0 < u" by (simp add: u_def)
  have lo: "pow2 (exponent x) = pow2 52 * u" and hi: "pow2 (exponent x + 1) = pow2 53 * u"
    by (simp_all add: u_def pow2_add [symmetric] add.commute)
  have "of_int (2 ^ 52) \<le> x / u" "x / u \<le> of_int (2 ^ 53)"
    using exponent_bounds [OF assms] u unfolding lo hi pow2_52
    by (simp_all add: pos_le_divide_eq pos_divide_le_eq)
  from round_even_ge [OF this(1)] round_even_le [OF this(2)]
  have "rat_of_int (2 ^ 52) \<le> of_int (round_even (x / u))" "rat_of_int (round_even (x / u)) \<le> of_int (2 ^ 53)"
    by (simp_all only: of_int_le_iff)
  then show "pow2 (exponent x) \<le> fl_pos x" "fl_pos x \<le> pow2 (exponent x + 1)"
    using u unfolding lo hi pow2_52 fl_pos_def u_def [symmetric] Let_def
    by (simp_all add: mult_right_mono)
qed

lemma fl_pos_mono: assumes "0 < x" and "x \<le> y" shows "fl_pos x \<le> fl_pos y"
proof (cases "exponent x = exponent y")
  case True
  have "round_even (x / pow2 (exponent y - 52)) \<le> round_even (y / pow2 (exponent y - 52))"
    using assms(2) by (intro round_even_mono divide_right_mono) (simp_all add: less_imp_le)
  then show ?thesis by (simp add: fl_pos_def Let_def True)
next
  case False
  with exponent_mono [OF assms] have "exponent x + 1 \<le> exponent y" by simp
  then have "pow2 (exponent x + 1) \<le> pow2 (exponent y)" by (simp add: pow2_le_iff)
  with fl_pos_bounds(2) [of x] fl_pos_bounds(1) [of y] assms show ?thesis by linarith
qed

lemma fl_pos_pos: "0 < x \<Longrightarrow> 0 < fl_pos x"
  using fl_pos_bounds(1) [of x] pow2_pos [of "exponent x"] by linarith

lemma fl_0 [simp]: "fl 0 = 0"
  by (simp add: fl_def)

lemma fl_mono: "x \<le> y \<Longrightarrow> fl x \<le> fl y"
  using fl_pos_mono [of x y] fl_pos_mono [of "- y" "- x"] fl_pos_pos [of y] fl_pos_pos [of "- x"]
  by (cases x "0::rat" rule: linorder_cases; cases y "0::rat" rule: linorder_cases) (auto simp: fl_def)

lemma fl_nonneg: "0 \<le> x \<Longrightarrow> 0 \<le> fl x"
  using fl_mono [of 0 x] by simp

lemma fl_pos_iff [simp]: "0 < fl x \<longleftrightarrow> 0 < x"
  using fl_mono [of x 0] fl_pos_pos [of x] by (cases "0 < x") (auto simp: fl_def [of x] not_less)

lemma fl_le: "is_double y \<Longrightarrow> x \<le> y \<Longrightarrow> fl x \<le> y"
  using fl_mono [of x y] by (simp add: is_double_def)

lemma fl_ge: "is_double y \<Longrightarrow> y \<le> x \<Longrightarrow> y \<le> fl x"
  using fl_mono [of y x] by (simp add: is_double_def)

text \<open>A multiple of the unit in the last place is a double.\<close>

lemma fl_pos_exact:
  assumes "0 < x" and "x = of_int k * pow2 j" and "exponent x - 52 \<le> j"
  shows "fl_pos x = x"
proof -
  define u where "u = pow2 (exponent x - 52)"
  have u: "0 < u" by (simp add: u_def)
  have "pow2 j = pow2 (j - (exponent x - 52)) * u" by (simp add: u_def pow2_add [symmetric])
  moreover have "pow2 (j - (exponent x - 52)) = of_int (2 ^ nat (j - (exponent x - 52)))"
    using assms(3) by (simp add: pow2_def)
  ultimately have x: "x = of_int (k * 2 ^ nat (j - (exponent x - 52))) * u"
    using assms(2) by simp
  then have "x / u = of_int (k * 2 ^ nat (j - (exponent x - 52)))"
    using u by (metis less_numeral_extra(3) nonzero_mult_div_cancel_right)
  then have "fl_pos x = of_int (k * 2 ^ nat (j - (exponent x - 52))) * u"
    by (simp only: fl_pos_def Let_def u_def [symmetric] round_even_int)
  with x show ?thesis by simp
qed

lemma exponent_less: "0 < x \<Longrightarrow> x < pow2 (e + 1) \<Longrightarrow> exponent x \<le> e"
proof -
  assume x: "0 < x" "x < pow2 (e + 1)"
  have "pow2 (exponent x) < pow2 (e + 1)"
    using exponent_bounds(1) [OF x(1)] x(2) by (rule le_less_trans)
  then show ?thesis by (simp add: pow2_less_iff)
qed

lemma fl_int: "\<bar>n\<bar> < 2 ^ 53 \<Longrightarrow> fl (of_int n) = of_int n"
proof -
  assume n: "\<bar>n\<bar> < 2 ^ 53"
  have "fl_pos (of_int m) = of_int m" if m: "0 < m" "m < 2 ^ 53" for m
  proof (rule fl_pos_exact [where k = m and j = 0])
    have "rat_of_int m < pow2 53" using m(2) unfolding pow2_52 by (simp only: of_int_less_iff)
    then show "exponent (rat_of_int m) - 52 \<le> 0"
      using exponent_less [of "of_int m" 52] m(1) by simp
  qed (use m in \<open>simp_all add: pow2_def\<close>)
  from this [of n] this [of "- n"] n show ?thesis by (auto simp: fl_def)
qed

lemma is_double_int: "\<bar>n\<bar> < 2 ^ 53 \<Longrightarrow> is_double (of_int n)"
  by (simp add: is_double_def fl_int)

lemma is_double_0 [simp]: "is_double 0"
  by (simp add: is_double_def)

lemma is_double_fl [simp]: "is_double (fl x)"
proof -
  have pos: "fl_pos (fl_pos y) = fl_pos y" if y: "0 < y" for y
  proof (cases "fl_pos y = pow2 (exponent y + 1)")
    case True
    then have "exponent (fl_pos y) = exponent y + 1" by (intro exponent_unique) (simp_all add: pow2_less)
    then show ?thesis
      by (intro fl_pos_exact [OF fl_pos_pos [OF y], where k = 1 and j = "exponent y + 1"]) (simp_all add: True)
  next
    case False
    with fl_pos_bounds [OF y] have "exponent (fl_pos y) = exponent y" by (intro exponent_unique) simp_all
    then show ?thesis
      by (intro fl_pos_exact [OF fl_pos_pos [OF y], where j = "exponent y - 52"
          and k = "round_even (y / pow2 (exponent y - 52))"]) (simp_all add: fl_pos_def Let_def)
  qed
  then show ?thesis using fl_pos_pos [of x] fl_pos_pos [of "- x"]
    by (cases x "0::rat" rule: linorder_cases) (auto simp: is_double_def fl_def)
qed

lemma py_round1_mono: "x \<le> y \<Longrightarrow> py_round1 x \<le> py_round1 y"
  unfolding py_round1_def
  by (intro fl_mono divide_right_mono) (simp_all add: round_even_mono)

lemma py_round1_int: "\<bar>n\<bar> < 2 ^ 53 \<Longrightarrow> py_round1 (of_int n) = of_int n"
  using round_even_int [of "10 * n"] by (simp add: py_round1_def fl_int del: round_even_int)

section \<open>Rounding error\<close>

lemma round_even_error: "\<bar>of_int (round_even x) - x\<bar> \<le> 1/2"
proof -
  have "of_int \<lfloor>x\<rfloor> \<le> x" "x < of_int \<lfloor>x\<rfloor> + 1" by linarith+
  then show ?thesis unfolding round_even_def Let_def by (simp only: abs_le_iff) (simp split: if_splits; linarith)
qed

lemma fl_error:
  assumes "0 \<le> x" shows "x * (1 - 1 / 2 ^ 53) \<le> fl x"
proof (cases "x = 0")
  case False
  with assms have x: "0 < x" by simp
  define u where "u = pow2 (exponent x - 52)"
  have u: "0 < u" by (simp add: u_def)
  have "pow2 (exponent x) = pow2 52 * u" by (simp add: u_def pow2_add [symmetric] add.commute)
  then have "pow2 (exponent x) = 2 ^ 52 * u" by (simp add: pow2_def [of 52])
  with exponent_bounds(1) [OF x] have ux: "2 ^ 52 * u \<le> x" by simp
  have "x / u - 1/2 \<le> of_int (round_even (x / u))"
    using round_even_error [of "x / u"] by linarith
  then have "(x / u - 1/2) * u \<le> of_int (round_even (x / u)) * u" using u by (intro mult_right_mono) simp_all
  moreover have "(x / u - 1/2) * u = x - u / 2" using u by (simp add: field_simps)
  moreover have "fl x = of_int (round_even (x / u)) * u" using x by (simp add: fl_def fl_pos_def Let_def u_def)
  ultimately have "x - u / 2 \<le> fl x" by linarith
  moreover have "u / 2 \<le> x * (1 / 2 ^ 53)" using ux by simp
  ultimately show ?thesis by (simp add: algebra_simps)
qed simp

lemma fl_upper:
  assumes "0 \<le> x" shows "fl x \<le> x * (1 + 1 / 2 ^ 53)"
proof (cases "x = 0")
  case False
  with assms have x: "0 < x" by simp
  define u where "u = pow2 (exponent x - 52)"
  have u: "0 < u" by (simp add: u_def)
  have "pow2 (exponent x) = pow2 52 * u" by (simp add: u_def pow2_add [symmetric] add.commute)
  then have "pow2 (exponent x) = 2 ^ 52 * u" by (simp add: pow2_def [of 52])
  with exponent_bounds(1) [OF x] have ux: "2 ^ 52 * u \<le> x" by simp
  have "of_int (round_even (x / u)) \<le> x / u + 1/2"
    using round_even_error [of "x / u"] by linarith
  then have "of_int (round_even (x / u)) * u \<le> (x / u + 1/2) * u" using u by (intro mult_right_mono) simp_all
  moreover have "(x / u + 1/2) * u = x + u / 2" using u by (simp add: field_simps)
  moreover have "fl x = of_int (round_even (x / u)) * u" using x by (simp add: fl_def fl_pos_def Let_def u_def)
  ultimately have "fl x \<le> x + u / 2" by linarith
  moreover have "u / 2 \<le> x * (1 / 2 ^ 53)" using ux by simp
  ultimately show ?thesis by (simp add: algebra_simps)
qed simp

end
