(* ===== verification/Grading.thy ===== *)
theory Grading
  imports Prelude Float64
begin

text \<open>
  \<open>backend/app/core/grading.py\<close> and \<open>backend/app/core/risk_engine.py\<close>: the deterministic
  security score and letter grade of a scan, and the contextual risk and posture grade.  Every float
  operation is rounded by \<open>fl\<close>, in the order the source evaluates it.
\<close>

section \<open>Severities, findings and grades\<close>

datatype Severity = CRITICAL | HIGH | MEDIUM | LOW | INFO

datatype SecurityGrade = A_PLUS | GA | GB | GC | GD | GF

text \<open>Grades are ordered from the worst to the best.\<close>

fun grade_rank :: "SecurityGrade \<Rightarrow> nat" where
  "grade_rank GF = 0" | "grade_rank GD = 1" | "grade_rank GC = 2"
| "grade_rank GB = 3" | "grade_rank GA = 4" | "grade_rank A_PLUS = 5"

lemma grade_rank_inject: "grade_rank a = grade_rank b \<longleftrightarrow> a = b"
  by (cases a; cases b) simp_all

instantiation SecurityGrade :: linorder
begin

definition less_eq_SecurityGrade :: "SecurityGrade \<Rightarrow> SecurityGrade \<Rightarrow> bool" where
  "less_eq_SecurityGrade a b = (grade_rank a \<le> grade_rank b)"

definition less_SecurityGrade :: "SecurityGrade \<Rightarrow> SecurityGrade \<Rightarrow> bool" where
  "less_SecurityGrade a b = (grade_rank a < grade_rank b)"

instance
  by standard (auto simp: less_eq_SecurityGrade_def less_SecurityGrade_def grade_rank_inject)

end

text \<open>The fields of \<open>Finding\<close> that grading reads.\<close>

record finding =
  f_severity :: Severity
  f_engine :: string

record scan_job_summary =
  critical_count :: nat
  high_count :: nat
  medium_count :: nat
  low_count :: nat
  info_count :: nat
  total_findings :: nat
  passed_checks :: nat
  total_checks_evaluated :: nat
  weighted_score :: rat
  overall_security_grade :: SecurityGrade
  duration_seconds :: rat
  engine_breakdown :: "(string \<times> nat) list"

fun PENALTY_WEIGHTS :: "Severity \<Rightarrow> rat" where
  "PENALTY_WEIGHTS CRITICAL = 35"
| "PENALTY_WEIGHTS HIGH = 15"
| "PENALTY_WEIGHTS MEDIUM = 5"
| "PENALTY_WEIGHTS LOW = 1"
| "PENALTY_WEIGHTS INFO = 0"

section \<open>The scan grade\<close>

definition severity_count :: "Severity \<Rightarrow> finding list \<Rightarrow> nat" where
  "severity_count s fs = count_if (\<lambda>f. f_severity f = s) fs"

text \<open>\<open>d[k] = d.get(k, 0) + 1\<close>: an existing key keeps its place, a new one goes last.\<close>

fun count_key :: "string \<Rightarrow> (string \<times> nat) list \<Rightarrow> (string \<times> nat) list" where
  "count_key k [] = [(k, 1)]"
| "count_key k ((k', n) # d) = (if k' = k then (k', n + 1) # d else (k', n) # count_key k d)"

text \<open>An integer count times a float weight, and the chained float sum.\<close>

definition penalty :: "nat \<Rightarrow> rat \<Rightarrow> rat" where
  "penalty n w = fl (fl (of_nat n) * w)"

definition clamp :: "rat \<Rightarrow> rat \<Rightarrow> rat \<Rightarrow> rat" where
  "clamp lo hi x = max lo (min hi x)"

definition scan_score :: "nat \<Rightarrow> nat \<Rightarrow> nat \<Rightarrow> nat \<Rightarrow> rat" where
  "scan_score c h m l =
    (let deductions = fl (fl (fl (penalty c (PENALTY_WEIGHTS CRITICAL) + penalty h (PENALTY_WEIGHTS HIGH))
           + penalty m (PENALTY_WEIGHTS MEDIUM)) + penalty l (PENALTY_WEIGHTS LOW))
     in py_round1 (clamp 0 100 (fl (100 - deductions))))"

definition scan_letter :: "nat \<Rightarrow> nat \<Rightarrow> nat \<Rightarrow> nat \<Rightarrow> rat \<Rightarrow> SecurityGrade" where
  "scan_letter c h m l score =
    (if 0 < c then GF
     else if 1 \<le> h then (if score < 50 then GF else GD)
     else if 96 \<le> score \<and> c = 0 \<and> h = 0 \<and> m = 0 \<and> l = 0 then A_PLUS
     else if 90 \<le> score \<and> c = 0 \<and> h = 0 \<and> m = 0 \<and> l \<le> 2 then GA
     else if 80 \<le> score \<and> c = 0 \<and> h = 0 \<and> m \<le> 2 then GB
     else if 65 \<le> score \<and> c = 0 \<and> h = 0 then GC
     else if 50 \<le> score \<and> c = 0 then GD
     else GF)"

definition calculate_scan_grade :: "finding list \<Rightarrow> nat \<Rightarrow> nat \<Rightarrow> rat \<Rightarrow> scan_job_summary" where
  "calculate_scan_grade findings evaluated passed duration =
    (let c = severity_count CRITICAL findings; h = severity_count HIGH findings;
         m = severity_count MEDIUM findings; l = severity_count LOW findings;
         i = severity_count INFO findings; total = length findings;
         breakdown = foldl (\<lambda>d f. count_key (f_engine f) d) [] findings;
         score = scan_score c h m l
     in \<lparr> critical_count = c, high_count = h, medium_count = m, low_count = l, info_count = i,
          total_findings = total, passed_checks = passed,
          total_checks_evaluated = (if evaluated = 0 then max total (passed + total) else evaluated),
          weighted_score = score, overall_security_grade = scan_letter c h m l score,
          duration_seconds = py_round2 duration, engine_breakdown = breakdown \<rparr>)"

section \<open>The contextual risk engine\<close>

datatype AssetCriticality = CritCRITICAL | CritHIGH | CritMEDIUM | CritLOW

fun get_criticality_factor :: "AssetCriticality \<Rightarrow> rat" where
  "get_criticality_factor CritCRITICAL = 3/2"
| "get_criticality_factor CritHIGH = fl (12/10)"
| "get_criticality_factor CritMEDIUM = 1"
| "get_criticality_factor CritLOW = fl (7/10)"

definition exposure_factor :: "bool \<Rightarrow> rat" where
  "exposure_factor internet_exposed = (if internet_exposed then 1 else fl (7/10))"

definition calculate_finding_contextual_risk :: "rat \<Rightarrow> AssetCriticality \<Rightarrow> bool \<Rightarrow> rat \<Rightarrow> rat" where
  "calculate_finding_contextual_risk base_cvss criticality internet_exposed confidence =
    (let raw = fl (fl (fl (base_cvss * get_criticality_factor criticality)
                 * exposure_factor internet_exposed) * confidence)
     in py_round1 (min 10 (max 0 raw)))"

definition scope_multiplier :: "AssetCriticality \<Rightarrow> bool \<Rightarrow> rat" where
  "scope_multiplier criticality internet_exposed =
     fl (get_criticality_factor criticality * exposure_factor internet_exposed)"

definition posture_score :: "rat \<Rightarrow> nat \<Rightarrow> nat \<Rightarrow> nat \<Rightarrow> nat \<Rightarrow> rat" where
  "posture_score scope c h m l =
    (let deduction = fl (fl (fl (fl (penalty c 35 * scope) + fl (penalty h 15 * scope))
           + fl (penalty m 5 * scope)) + fl (penalty l 1 * scope))
     in py_round1 (clamp 0 100 (fl (100 - deduction))))"

definition posture_letter :: "nat \<Rightarrow> nat \<Rightarrow> nat \<Rightarrow> nat \<Rightarrow> rat \<Rightarrow> SecurityGrade" where
  "posture_letter c h m l score =
    (if 0 < c then GF
     else if 0 < h \<or> score < 65 then
       (if score < 50 then GF else if score < 65 \<or> 0 < h then GD else GC)
     else if 2 < m \<or> score < 80 then GC
     else if 0 < m \<or> score < 90 then GB
     else if 0 < l \<or> score < 96 then GA
     else A_PLUS)"

definition calculate_contextual_posture_grade ::
    "finding list \<Rightarrow> AssetCriticality \<Rightarrow> bool \<Rightarrow> rat \<times> SecurityGrade" where
  "calculate_contextual_posture_grade findings criticality internet_exposed =
    (let c = severity_count CRITICAL findings; h = severity_count HIGH findings;
         m = severity_count MEDIUM findings; l = severity_count LOW findings;
         score = posture_score (scope_multiplier criticality internet_exposed) c h m l
     in (score, posture_letter c h m l score))"

section \<open>Facts on counts and scores\<close>

lemma severity_count_append [simp]:
  "severity_count s (fs @ gs) = severity_count s fs + severity_count s gs"
  by (simp add: severity_count_def)

lemma severity_counts_total:
  "severity_count CRITICAL fs + severity_count HIGH fs + severity_count MEDIUM fs
     + severity_count LOW fs + severity_count INFO fs = length fs"
proof (induction fs)
  case (Cons f fs)
  then show ?case by (cases "f_severity f") (simp_all add: severity_count_def)
qed (simp add: severity_count_def)

lemma count_key_lookup:
  "map_of (count_key k d) e = (if e = k then Some (case map_of d k of None \<Rightarrow> 1 | Some n \<Rightarrow> n + 1) else map_of d e)"
  by (induction k d rule: count_key.induct) auto

lemma breakdown_lookup:
  "map_of (foldl (\<lambda>d f. count_key (f_engine f) d) [] fs) e =
    (let n = count_if (\<lambda>f. f_engine f = e) fs in if n = 0 then None else Some n)"
  by (induction fs rule: rev_induct) (auto simp: count_key_lookup Let_def)

lemma clamp_mono: "x \<le> y \<Longrightarrow> clamp lo hi x \<le> clamp lo hi y"
  by (auto simp: clamp_def)

lemma clamp_bounds: "lo \<le> hi \<Longrightarrow> lo \<le> clamp lo hi x \<and> clamp lo hi x \<le> hi"
  by (auto simp: clamp_def)

lemma py_round1_bounds:
  assumes "0 \<le> x" and "x \<le> of_int n" and "\<bar>n\<bar> < 2 ^ 53"
  shows "0 \<le> py_round1 x \<and> py_round1 x \<le> of_int n"
  using py_round1_mono [OF assms(1)] py_round1_mono [OF assms(2)] py_round1_int [of 0]
    py_round1_int [OF assms(3)] by simp

lemma round_clamp_bounds: "0 \<le> py_round1 (clamp 0 100 x) \<and> py_round1 (clamp 0 100 x) \<le> 100"
  using py_round1_bounds [of "clamp 0 100 x" 100] clamp_bounds [of 0 100 x] by simp

lemma penalty_mono: "n \<le> n' \<Longrightarrow> 0 \<le> w \<Longrightarrow> penalty n w \<le> penalty n' w"
  unfolding penalty_def by (intro fl_mono mult_right_mono) simp_all

lemma penalty_nonneg: "0 \<le> w \<Longrightarrow> 0 \<le> penalty n w"
  unfolding penalty_def by (intro fl_nonneg mult_nonneg_nonneg) simp_all

lemma scan_score_mono:
  assumes "c \<le> c'" "h \<le> h'" "m \<le> m'" "l \<le> l'"
  shows "scan_score c' h' m' l' \<le> scan_score c h m l"
  unfolding scan_score_def Let_def
  by (intro py_round1_mono clamp_mono fl_mono diff_mono add_mono penalty_mono order_refl assms) simp_all

lemma posture_score_mono:
  assumes "0 \<le> s" "s \<le> s'" "c \<le> c'" "h \<le> h'" "m \<le> m'" "l \<le> l'"
  shows "posture_score s' c' h' m' l' \<le> posture_score s c h m l"
proof -
  have "0 \<le> s'" using assms(1,2) by simp
  then show ?thesis
    unfolding posture_score_def Let_def
    by (intro py_round1_mono clamp_mono fl_mono diff_mono add_mono mult_mono penalty_mono
        penalty_nonneg order_refl assms) simp_all
qed

lemma scan_letter_mono:
  "c \<le> c' \<Longrightarrow> h \<le> h' \<Longrightarrow> m \<le> m' \<Longrightarrow> l \<le> l' \<Longrightarrow> score' \<le> score \<Longrightarrow>
    scan_letter c' h' m' l' score' \<le> scan_letter c h m l score"
  by (auto simp: scan_letter_def less_eq_SecurityGrade_def)

lemma posture_letter_mono:
  "c \<le> c' \<Longrightarrow> h \<le> h' \<Longrightarrow> m \<le> m' \<Longrightarrow> l \<le> l' \<Longrightarrow> score' \<le> score \<Longrightarrow>
    posture_letter c' h' m' l' score' \<le> posture_letter c h m l score"
  by (auto simp: posture_letter_def less_eq_SecurityGrade_def)

section \<open>Properties\<close>

lemma scan_score_zero: "scan_score 0 0 0 0 = 100"
proof -
  have "py_round1 100 = 100" "fl 100 = 100" using py_round1_int [of 100] fl_int [of 100] by simp_all
  then show ?thesis by (simp add: scan_score_def penalty_def clamp_def)
qed

lemma scan_score_bounds: "0 \<le> scan_score c h m l" "scan_score c h m l \<le> 100"
  using round_clamp_bounds by (simp_all add: scan_score_def Let_def)

definition sample_findings :: "finding list" where
  "sample_findings = [\<lparr>f_severity = MEDIUM, f_engine = ''network''\<rparr>,
     \<lparr>f_severity = LOW, f_engine = ''web_dast''\<rparr>, \<lparr>f_severity = LOW, f_engine = ''network''\<rparr>]"

text \<open>A scan's grade follows its counts: the five severity counts add up to the number of
  findings, the engine breakdown counts each engine's findings, the score lies between 0 and 100, a
  critical finding forces \<open>F\<close>, and \<open>A+\<close> is given exactly to a scan whose findings are all
  informational.\<close>

theorem scan_grade_correct:
  "let s = calculate_scan_grade fs evaluated passed dur in
     critical_count s + high_count s + medium_count s + low_count s + info_count s = total_findings s
     \<and> (e \<in> f_engine ` set fs \<longrightarrow> map_of (engine_breakdown s) e = Some (count_if (\<lambda>f. f_engine f = e) fs))
     \<and> 0 \<le> weighted_score s \<and> weighted_score s \<le> 100
     \<and> (0 < critical_count s \<longrightarrow> overall_security_grade s = GF)
     \<and> (overall_security_grade s = A_PLUS \<longleftrightarrow> info_count s = total_findings s)
     \<and> (evaluated = 0 \<longrightarrow> total_findings s \<le> total_checks_evaluated s)"
proof -
  have "count_if (\<lambda>f. f_engine f = e) fs \<noteq> 0" if "e \<in> f_engine ` set fs"
    using that by (auto simp: count_if_zero_iff)
  then have "e \<in> f_engine ` set fs \<Longrightarrow> map_of (foldl (\<lambda>d f. count_key (f_engine f) d) [] fs) e
      = Some (count_if (\<lambda>f. f_engine f = e) fs)" by (simp add: breakdown_lookup Let_def)
  then show ?thesis
    using severity_counts_total [of fs]
    by (auto simp: calculate_scan_grade_def Let_def scan_letter_def scan_score_zero scan_score_bounds
        Suc_le_eq)
qed

theorem scan_grade_correct_witness:
  "overall_security_grade (calculate_scan_grade sample_findings 0 7 0) \<noteq> A_PLUS
    \<and> map_of (engine_breakdown (calculate_scan_grade sample_findings 0 7 0)) ''network'' = Some 2"
  using scan_grade_correct [of sample_findings 0 7 0 "''network''"]
  by (simp add: calculate_scan_grade_def sample_findings_def severity_count_def Let_def)

text \<open>More findings never help: with the same asset context, adding findings to a scan never
  raises its score and never improves its letter, in the scan grade and in the contextual posture
  grade.\<close>

theorem grades_antitone:
  "weighted_score (calculate_scan_grade (fs @ gs) n p d) \<le> weighted_score (calculate_scan_grade fs n p d)
   \<and> overall_security_grade (calculate_scan_grade (fs @ gs) n p d)
       \<le> overall_security_grade (calculate_scan_grade fs n p d)
   \<and> fst (calculate_contextual_posture_grade (fs @ gs) crit exposed)
       \<le> fst (calculate_contextual_posture_grade fs crit exposed)
   \<and> snd (calculate_contextual_posture_grade (fs @ gs) crit exposed)
       \<le> snd (calculate_contextual_posture_grade fs crit exposed)"
proof -
  have "0 \<le> scope_multiplier crit exposed"
    by (cases crit) (auto simp: scope_multiplier_def exposure_factor_def intro!: fl_nonneg mult_nonneg_nonneg)
  then have "posture_score (scope_multiplier crit exposed) (c + c') (h + h') (m + m') (l + l')
      \<le> posture_score (scope_multiplier crit exposed) c h m l" for c c' h h' m m' l l'
    by (intro posture_score_mono) simp_all
  moreover have "scan_score (c + c') (h + h') (m + m') (l + l') \<le> scan_score c h m l" for c c' h h' m m' l l'
    by (intro scan_score_mono) simp_all
  ultimately show ?thesis
    by (simp add: calculate_scan_grade_def calculate_contextual_posture_grade_def Let_def
        scan_letter_mono posture_letter_mono)
qed

text \<open>The posture grade respects its hard constraints in every asset context: the score lies
  between 0 and 100, a critical finding forces \<open>F\<close>, a high one leaves at most \<open>D\<close>, more than two
  medium ones at most \<open>C\<close>, and \<open>A+\<close> needs a score of at least 96 and no finding above
  informational.\<close>

theorem posture_constraints:
  "let g = calculate_contextual_posture_grade fs crit exposed in
     0 \<le> fst g \<and> fst g \<le> 100
     \<and> (0 < severity_count CRITICAL fs \<longrightarrow> snd g = GF)
     \<and> (0 < severity_count HIGH fs \<longrightarrow> snd g \<le> GD)
     \<and> (2 < severity_count MEDIUM fs \<longrightarrow> snd g \<le> GC)
     \<and> (snd g = A_PLUS \<longleftrightarrow> 96 \<le> fst g \<and> severity_count INFO fs = length fs)"
  using round_clamp_bounds severity_counts_total [of fs]
  by (auto simp: calculate_contextual_posture_grade_def Let_def posture_letter_def posture_score_def
      less_eq_SecurityGrade_def)

theorem posture_constraints_witness:
  "snd (calculate_contextual_posture_grade (sample_findings @ sample_findings @ sample_findings)
     CritHIGH True) \<le> GC"
  using posture_constraints [of "sample_findings @ sample_findings @ sample_findings" CritHIGH True]
  by (simp add: sample_findings_def severity_count_def Let_def)

text \<open>In the default context (medium criticality, internet exposed) the two engines compute the
  same score for every list of findings.\<close>

theorem default_scores_agree:
  "fst (calculate_contextual_posture_grade fs CritMEDIUM True)
     = weighted_score (calculate_scan_grade fs n p d)"
proof -
  have "fl 1 = 1" using fl_int [of 1] by simp
  moreover have "fl (penalty k w) = penalty k w" for k w
    using is_double_fl [of "fl (of_nat k) * w"] by (simp add: penalty_def is_double_def)
  ultimately show ?thesis
    by (simp add: calculate_contextual_posture_grade_def calculate_scan_grade_def Let_def
        scope_multiplier_def exposure_factor_def posture_score_def scan_score_def)
qed

text \<open>The letters do not follow the published table: with the same score of 97 and three low
  findings the scan grade is \<open>B\<close> and the posture grade is \<open>A\<close>, and four medium findings (score 80)
  give \<open>C\<close>, where the README puts every score from 75 to below 90 at \<open>B\<close>.\<close>

theorem letters_differ:
  "overall_security_grade (calculate_scan_grade (replicate 3 \<lparr>f_severity = LOW, f_engine = e\<rparr>) 0 0 0) = GB
   \<and> snd (calculate_contextual_posture_grade (replicate 3 \<lparr>f_severity = LOW, f_engine = e\<rparr>) CritMEDIUM True) = GA
   \<and> overall_security_grade (calculate_scan_grade (replicate 4 \<lparr>f_severity = MEDIUM, f_engine = e\<rparr>) 0 0 0) = GC"
proof -
  have "scan_score 0 0 0 3 = 97" "scan_score 0 0 4 0 = 80" "posture_score (scope_multiplier CritMEDIUM True) 0 0 0 3 = 97"
    by code_simp+
  then show ?thesis
    by (simp add: calculate_scan_grade_def calculate_contextual_posture_grade_def Let_def severity_count_def
        scan_letter_def posture_letter_def numeral_3_eq_3 numeral_eq_Suc)
qed

text \<open>A finding's contextual risk is a score between 0 and 10 that never falls when its CVSS base
  score rises.\<close>

theorem contextual_risk_bounds:
  assumes "0 \<le> confidence" and "cvss \<le> cvss'"
  shows "0 \<le> calculate_finding_contextual_risk cvss crit exposed confidence
    \<and> calculate_finding_contextual_risk cvss crit exposed confidence
        \<le> calculate_finding_contextual_risk cvss' crit exposed confidence
    \<and> calculate_finding_contextual_risk cvss' crit exposed confidence \<le> 10"
proof -
  have "0 \<le> get_criticality_factor crit" "0 \<le> exposure_factor exposed"
    by (cases crit; auto simp: exposure_factor_def intro!: fl_nonneg)+
  then have "calculate_finding_contextual_risk cvss crit exposed confidence
        \<le> calculate_finding_contextual_risk cvss' crit exposed confidence"
    unfolding calculate_finding_contextual_risk_def Let_def
    by (intro py_round1_mono min.mono max.mono fl_mono mult_right_mono order_refl assms)
  moreover have "0 \<le> py_round1 (min 10 (max 0 x)) \<and> py_round1 (min 10 (max 0 x)) \<le> 10" for x
    using py_round1_bounds [of "min 10 (max 0 x)" 10] by simp
  ultimately show ?thesis by (simp add: calculate_finding_contextual_risk_def Let_def)
qed

theorem contextual_risk_bounds_witness:
  "calculate_finding_contextual_risk 5 CritHIGH False 1 \<le> calculate_finding_contextual_risk 9 CritHIGH False 1"
  using contextual_risk_bounds [of 1 5 9] by simp

end
