(* ===== verification/Json.thy ===== *)
theory Json
  imports Prelude
begin

text \<open>
  JSON values and \<open>json.dumps(value, sort_keys=True)\<close>, compact or with the default separators,
  the serialisations the code hashes and stores.  Integers, strings, booleans, \<open>null\<close>, lists and objects
  are covered; the serialised objects of the modelled code hold no floats.
\<close>

datatype json = JNull | JBool bool | JInt int | JStr string | JArr "json list"
  | JObj "(string \<times> json) list"

type_synonym jobj = "(string \<times> json) list"

section \<open>Numbers and strings\<close>

definition digit_of :: "nat \<Rightarrow> char" where
  "digit_of n = char_of (48 + n)"

fun str_nat :: "nat \<Rightarrow> string" where
  "str_nat n = (if n < 10 then [digit_of n] else str_nat (n div 10) @ [digit_of (n mod 10)])"

declare str_nat.simps [simp del]

definition str_int :: "int \<Rightarrow> string" where
  "str_int i = (if i < 0 then CHR ''-'' # str_nat (nat (- i)) else str_nat (nat i))"

definition hex_digit :: "nat \<Rightarrow> char" where
  "hex_digit n = (if n < 10 then char_of (48 + n) else char_of (87 + n))"

text \<open>The \<open>ensure_ascii\<close> escapes of one character (code point below 256).\<close>

definition json_escape :: "char \<Rightarrow> string" where
  "json_escape c = (let n = (of_char c :: nat) in
     if n = 34 then [CHR 0x5C, CHR 0x22]
     else if n = 92 then [CHR 0x5C, CHR 0x5C]
     else if n = 10 then [CHR 0x5C, CHR ''n'']
     else if n = 13 then [CHR 0x5C, CHR ''r'']
     else if n = 9 then [CHR 0x5C, CHR ''t'']
     else if n = 12 then [CHR 0x5C, CHR ''f'']
     else if n = 8 then [CHR 0x5C, CHR ''b'']
     else if 32 \<le> n \<and> n \<le> 126 then [c]
     else [CHR 0x5C, CHR ''u'', CHR ''0'', CHR ''0'', hex_digit (n div 16), hex_digit (n mod 16)])"

definition json_string :: "string \<Rightarrow> string" where
  "json_string s = CHR 0x22 # concat (map json_escape s) @ [CHR 0x22]"

section \<open>Sorted keys\<close>

fun string_le :: "string \<Rightarrow> string \<Rightarrow> bool" where
  "string_le [] t = True"
| "string_le (c # s) [] = False"
| "string_le (c # s) (d # t) =
     (if (of_char c :: nat) < of_char d then True
      else if c = d then string_le s t else False)"

fun insert_key :: "string \<times> 'a \<Rightarrow> (string \<times> 'a) list \<Rightarrow> (string \<times> 'a) list" where
  "insert_key kv [] = [kv]"
| "insert_key kv (x # xs) = (if string_le (fst kv) (fst x) then kv # x # xs else x # insert_key kv xs)"

definition sort_keys :: "(string \<times> 'a) list \<Rightarrow> (string \<times> 'a) list" where
  "sort_keys kvs = foldr insert_key kvs []"

lemma set_insert_key [simp]: "set (insert_key kv xs) = insert kv (set xs)"
  by (induction xs) auto

lemma set_sort_keys [simp]: "set (sort_keys kvs) = set kvs"
  by (induction kvs) (auto simp: sort_keys_def)

section \<open>dumps\<close>

fun join_with :: "string \<Rightarrow> string list \<Rightarrow> string" where
  "join_with sep [] = []"
| "join_with sep [s] = s"
| "join_with sep (s # ss) = s @ sep @ join_with sep ss"

text \<open>\<open>json.dumps(value, sort_keys=True, separators=(item, key))\<close>.\<close>

fun json_render :: "string \<Rightarrow> string \<Rightarrow> json \<Rightarrow> string" where
  "json_render item key JNull = ''null''"
| "json_render item key (JBool b) = (if b then ''true'' else ''false'')"
| "json_render item key (JInt i) = str_int i"
| "json_render item key (JStr s) = json_string s"
| "json_render item key (JArr xs) = ''['' @ join_with item (map (json_render item key) xs) @ '']''"
| "json_render item key (JObj kvs) =
     ''{'' @ join_with item
        (map (\<lambda>(k, v). json_string k @ key @ v)
          (sort_keys (map (\<lambda>kv. (fst kv, json_render item key (snd kv))) kvs))) @ ''}''"

definition json_dumps :: "json \<Rightarrow> string" where
  "json_dumps = json_render '','' '':''"

text \<open>With the default separators.\<close>

definition json_text :: "json \<Rightarrow> string" where
  "json_text = json_render '', '' '': ''"

section \<open>Encoding\<close>

text \<open>\<open>s.encode("utf-8")\<close> of code points below 256, as a list of bytes.\<close>

definition utf8_char :: "char \<Rightarrow> string" where
  "utf8_char c = (let n = (of_char c :: nat) in
     if n < 128 then [c] else [char_of (192 + n div 64), char_of (128 + n mod 64)])"

definition utf8 :: "string \<Rightarrow> string" where
  "utf8 s = concat (map utf8_char s)"

lemma str_nat_nonempty: "str_nat n \<noteq> []"
  by (subst str_nat.simps) simp

lemma str_int_nonempty: "str_int i \<noteq> []"
  by (simp add: str_int_def str_nat_nonempty)

end
