(* ===== verification/Timestamps.thy ===== *)
theory Timestamps
  imports Json
begin

text \<open>
  Instants and their text.  An instant is the number of microseconds since 1970-01-01T00:00:00 UTC;
  \<open>isoformat\<close> is \<open>datetime.isoformat()\<close> of the UTC-aware value, the form in which
  \<open>backend/app/core/db.py\<close> stores every timestamp column and hashes audit events.
\<close>

type_synonym time = int

text \<open>The proleptic Gregorian date of a day number: (year, month, day).\<close>

definition civil_date :: "int \<Rightarrow> int \<times> int \<times> int" where
  "civil_date days =
    (let z = days + 719468;
         era = z div 146097;
         doe = z mod 146097;
         yoe = (doe - doe div 1460 + doe div 36524 - doe div 146096) div 365;
         doy = doe - (365 * yoe + yoe div 4 - yoe div 100);
         mp = (5 * doy + 2) div 153;
         d = doy - (153 * mp + 2) div 5 + 1;
         m = (if mp < 10 then mp + 3 else mp - 9);
         y = yoe + era * 400 + (if m \<le> 2 then 1 else 0)
     in (y, m, d))"

definition zero_pad :: "nat \<Rightarrow> int \<Rightarrow> string" where
  "zero_pad width n = (let s = str_nat (nat n) in replicate (width - length s) (CHR ''0'') @ s)"

definition isoformat :: "time \<Rightarrow> string" where
  "isoformat t =
    (let us = t mod 1000000;
         sec = t div 1000000;
         sod = sec mod 86400;
         ymd = civil_date (sec div 86400);
         y = fst ymd; m = fst (snd ymd); d = snd (snd ymd)
     in zero_pad 4 y @ ''-'' @ zero_pad 2 m @ ''-'' @ zero_pad 2 d @ ''T'' @
        zero_pad 2 (sod div 3600) @ '':'' @ zero_pad 2 (sod div 60 mod 60) @ '':'' @
        zero_pad 2 (sod mod 60) @ (if us = 0 then '''' else ''.'' @ zero_pad 6 us) @ ''+00:00'')"

lemma isoformat_example:
  "isoformat 1767225599000001 = ''2025-12-31T23:59:59.000001+00:00''"
  "isoformat 951782400000000 = ''2000-02-29T00:00:00+00:00''"
  by code_simp+

end
