(* ===== verification/Correlator.thy ===== *)
theory Correlator
  imports Grading Timestamps
begin

text \<open>
  \<open>backend/app/core/correlator.py\<close>: remediation deadlines, and the consolidation of scanner findings
  into canonical findings with their occurrences. The clock is read while a cluster is built
  (\<open>c_now k\<close> for the \<open>k\<close>-th cluster); identifiers, SHA-256 and the iteration order of a two-element set
  are parameters. \<open>None\<close> is a score outside the range the result model accepts.
\<close>

section \<open>Findings\<close>

record evidence =
  e_location :: string
  e_observed_value :: string
  e_rest :: jobj

record tool_finding = finding +
  f_id :: string
  f_scan_id :: string
  f_source_tool :: string
  f_check_id :: string
  f_category :: string
  f_title :: string
  f_cvss_score :: rat
  f_cvss_vector :: "string option"
  f_cwe_id :: "string option"
  f_owasp_category :: "string option"
  f_nist_control :: "string option"
  f_description :: string
  f_impact :: string
  f_remediation :: string
  f_evidence :: evidence
  f_reproduction_curl :: "string option"
  f_taint_trace :: "string list option"
  f_organization_id :: string
  f_workspace_id :: "string option"
  f_is_fallback :: bool
  f_primary_tool_failed :: "string option"
  f_remediation_code_snippet :: "string option"
  f_references :: "string list"
  f_verified_secret :: "jobj option"
  f_created_at :: time
  f_fingerprint :: string

datatype correlation_type = SAST_DAST_VERIFIED | MULTI_TOOL_CONFIRMED

record sla_info =
  l_severity :: Severity
  l_days :: nat
  l_started_at :: time
  l_due_at :: time
  l_is_breached :: bool
  l_breached_at :: "time option"

record canonical_finding =
  n_id :: string
  n_organization_id :: string
  n_project_id :: "string option"
  n_asset_id :: "string option"
  n_correlation_type :: "correlation_type option"
  n_title :: string
  n_category :: string
  n_severity :: Severity
  n_cvss_score :: rat
  n_cvss_vector :: "string option"
  n_contextual_risk_score :: rat
  n_cwe_id :: "string option"
  n_owasp_category :: "string option"
  n_nist_control :: "string option"
  n_contributing_tools :: "string list"
  n_status :: string
  n_times_observed :: nat
  n_first_seen :: time
  n_last_seen :: time
  n_sla :: "sla_info option"
  n_description :: string
  n_impact :: string
  n_remediation :: string
  n_evidence_hash :: string

record finding_occurrence =
  oc_organization_id :: string
  oc_canonical_finding_id :: string
  oc_scan_id :: string
  oc_asset_id :: "string option"
  oc_source_tool :: string
  oc_check_id :: string
  oc_raw_evidence :: evidence
  oc_reproduction_curl :: "string option"
  oc_taint_trace :: "string list option"

record correlator_env =
  c_now :: "nat \<Rightarrow> time"
  c_uuid :: "nat \<Rightarrow> string"
  c_sha256 :: "string \<Rightarrow> string"
  c_first :: "string \<Rightarrow> string \<Rightarrow> bool"  \<comment> \<open>does a set of the two iterate the first one first\<close>

section \<open>Deadlines\<close>

fun sla_days :: "Severity \<Rightarrow> nat" where
  "sla_days CRITICAL = 7" | "sla_days HIGH = 14" | "sla_days MEDIUM = 30" | "sla_days LOW = 90" | "sla_days INFO = 180"

text \<open>\<open>start.timestamp()\<close>, and \<open>datetime.fromtimestamp\<close> of a double: the fraction is rounded to
  microseconds, half to even.\<close>

definition timestamp_of :: "time \<Rightarrow> rat" where
  "timestamp_of t = fl (of_int t / 1000000)"

definition time_of_timestamp :: "rat \<Rightarrow> time" where
  "time_of_timestamp d =
     (let whole = (if 0 \<le> d then \<lfloor>d\<rfloor> else \<lceil>d\<rceil>)
      in whole * 1000000 + round_even (fl ((d - of_int whole) * 1000000)))"

definition compute_sla_info :: "time \<Rightarrow> Severity \<Rightarrow> time option \<Rightarrow> sla_info" where
  "compute_sla_info now severity started_at =
    (let days = sla_days severity;
         start = (case started_at of None \<Rightarrow> now | Some t \<Rightarrow> t);
         due = time_of_timestamp (fl (timestamp_of start + of_nat (days * 86400)))
     in \<lparr> l_severity = severity, l_days = days, l_started_at = start, l_due_at = due,
          l_is_breached = (due < now), l_breached_at = (if due < now then Some due else None) \<rparr>)"

section \<open>Correlation\<close>

definition calculate_evidence_hash :: "(string \<Rightarrow> string) \<Rightarrow> evidence \<Rightarrow> string" where
  "calculate_evidence_hash sha e = sha (py_strip (e_location e) @ '':'' @ py_strip (e_observed_value e))"

definition is_sast :: "tool_finding \<Rightarrow> bool" where
  "is_sast f = (f_engine f = ''code_sast'' \<or> py_contains ''sast'' (py_lower (f_check_id f)))"

definition is_dast :: "tool_finding \<Rightarrow> bool" where
  "is_dast f = (f_engine f = ''web_dast'' \<or> py_contains ''dast'' (py_lower (f_check_id f))
     \<or> py_contains ''nuclei'' (f_source_tool f))"

definition same_weakness :: "tool_finding \<Rightarrow> tool_finding \<Rightarrow> bool" where
  "same_weakness sf df =
    ((truthy (f_cwe_id sf) \<and> truthy (f_cwe_id df) \<and> f_cwe_id sf = f_cwe_id df)
     \<or> (f_category sf \<noteq> [] \<and> f_category df \<noteq> [] \<and> py_lower (f_category sf) = py_lower (f_category df)))"

text \<open>The first loop: the pairs it forms, in order, and the identifiers it visits.\<close>

fun verified_pairs ::
    "tool_finding list \<Rightarrow> string list \<Rightarrow> tool_finding list \<Rightarrow> (tool_finding \<times> tool_finding) list \<times> string list" where
  "verified_pairs sast visited [] = ([], visited)"
| "verified_pairs sast visited (df # dfs) =
     (case List.find (\<lambda>sf. f_id sf \<notin> set visited \<and> same_weakness sf df) sast of
        None \<Rightarrow> verified_pairs sast visited dfs
      | Some sf \<Rightarrow> (case verified_pairs sast (f_id sf # f_id df # visited) dfs of
                     (ps, seen) \<Rightarrow> ((df, sf) # ps, seen)))"

definition group_key :: "tool_finding \<Rightarrow> string" where
  "group_key f = f_category f @ ''|'' @ or_else (f_cwe_id f) (f_check_id f) @ ''|''
     @ py_lower (py_strip (e_location (f_evidence f)))"

text \<open>\<open>grouped_by_key.setdefault(key, []).append(f)\<close> over the remaining findings.\<close>

fun add_to_group :: "string \<Rightarrow> 'a \<Rightarrow> (string \<times> 'a list) list \<Rightarrow> (string \<times> 'a list) list" where
  "add_to_group k f [] = [(k, [f])]"
| "add_to_group k f (g # gs) = (if fst g = k then (k, snd g @ [f]) # gs else g # add_to_group k f gs)"

definition grouped :: "tool_finding list \<Rightarrow> (string \<times> tool_finding list) list" where
  "grouped fs = foldl (\<lambda>gs f. add_to_group (group_key f) f gs) [] fs"

text \<open>A clock already running for the same evidence.\<close>

definition original_start :: "canonical_finding list \<Rightarrow> string \<Rightarrow> time \<Rightarrow> time" where
  "original_start existing h now =
    (case List.find (\<lambda>c. n_evidence_hash c = h \<and> n_evidence_hash c \<noteq> []) (rev existing) of
       None \<Rightarrow> now
     | Some c \<Rightarrow> (case n_sla c of None \<Rightarrow> now | Some l \<Rightarrow> l_started_at l))"

definition risk_of :: "rat \<Rightarrow> rat \<Rightarrow> rat \<Rightarrow> rat \<Rightarrow> rat" where
  "risk_of cvss criticality exposure confidence =
     py_round1 (min 10 (fl (fl (fl (cvss * criticality) * exposure) * confidence)))"

record scan_context =
  x_organization_id :: "string option"
  x_project_id :: "string option"
  x_asset_id :: "string option"
  x_exposure :: rat
  x_criticality :: rat
  x_existing :: "canonical_finding list"

definition org_of :: "scan_context \<Rightarrow> string" where
  "org_of x = or_else (x_organization_id x) ''org-default''"

definition occurrence_of ::
    "scan_context \<Rightarrow> string \<Rightarrow> tool_finding \<Rightarrow> string option \<Rightarrow> string list option \<Rightarrow> finding_occurrence" where
  "occurrence_of x cid f curl trace =
    \<lparr> oc_organization_id = org_of x, oc_canonical_finding_id = cid, oc_scan_id = f_scan_id f,
      oc_asset_id = x_asset_id x, oc_source_tool = f_source_tool f, oc_check_id = f_check_id f,
      oc_raw_evidence = f_evidence f, oc_reproduction_curl = curl, oc_taint_trace = trace \<rparr>"

definition option_or :: "string option \<Rightarrow> string option \<Rightarrow> string option" where
  "option_or a b = (if truthy a then a else b)"

definition pair_tools :: "correlator_env \<Rightarrow> string \<Rightarrow> string \<Rightarrow> string list" where
  "pair_tools c a b = (if a = b then [a] else if c_first c a b then [a, b] else [b, a])"

text \<open>The \<open>k\<close>-th cluster, from a verified pair.\<close>

definition pair_cluster ::
    "correlator_env \<Rightarrow> scan_context \<Rightarrow> nat \<Rightarrow> tool_finding \<times> tool_finding \<Rightarrow> canonical_finding \<times> finding_occurrence list" where
  "pair_cluster c x k pair =
    (case pair of (df, sf) \<Rightarrow>
     let now = c_now c k; cid = ''cfind-'' @ take 12 (c_uuid c k);
         base_cvss = max (f_cvss_score df) (f_cvss_score sf);
         h = calculate_evidence_hash (c_sha256 c) (f_evidence df);
         start = original_start (x_existing x) h now
     in (\<lparr> n_id = cid, n_organization_id = org_of x, n_project_id = x_project_id x, n_asset_id = x_asset_id x,
           n_correlation_type = Some SAST_DAST_VERIFIED, n_title = ''[DAST + SAST Verified] '' @ f_title df,
           n_category = f_category df, n_severity = f_severity df, n_cvss_score = base_cvss,
           n_cvss_vector = f_cvss_vector df,
           n_contextual_risk_score = risk_of base_cvss (x_criticality x) (x_exposure x) (fl (13 / 10)),
           n_cwe_id = option_or (f_cwe_id df) (f_cwe_id sf),
           n_owasp_category = option_or (f_owasp_category df) (f_owasp_category sf),
           n_nist_control = option_or (f_nist_control df) (f_nist_control sf),
           n_contributing_tools = pair_tools c (f_source_tool df) (f_source_tool sf),
           n_status = ''OPEN'', n_times_observed = 2, n_first_seen = start, n_last_seen = now,
           n_sla = Some (compute_sla_info now (f_severity df) (Some start)),
           n_description = ''DAST live probe and SAST static analysis both detected this vulnerability.'' @ [CHR 0x0A, CHR 0x0A]
             @ ''DAST: '' @ f_description df @ [CHR 0x0A] @ ''SAST: '' @ f_description sf,
           n_impact = (if f_impact df = [] then f_impact sf else f_impact df),
           n_remediation = ''Source flaw detected in code ('' @ f_check_id sf @ '') and live endpoint verified (''
             @ f_check_id df @ ''). '' @ f_remediation df,
           n_evidence_hash = h \<rparr>,
         [occurrence_of x cid df (f_reproduction_curl df) None, occurrence_of x cid sf None (f_taint_trace sf)]))"

text \<open>The \<open>k\<close>-th cluster, from a group of findings at the same place.\<close>

definition group_cluster ::
    "correlator_env \<Rightarrow> scan_context \<Rightarrow> nat \<Rightarrow> tool_finding list \<Rightarrow> canonical_finding \<times> finding_occurrence list" where
  "group_cluster c x k fs =
    (let now = c_now c k; cid = ''cfind-'' @ take 12 (c_uuid c k); p = hd fs;
         tools = dict_fromkeys (map f_source_tool fs);
         ctype = (if 1 < length tools then Some MULTI_TOOL_CONFIRMED else None);
         h = calculate_evidence_hash (c_sha256 c) (f_evidence p);
         start = original_start (x_existing x) h now
     in (\<lparr> n_id = cid, n_organization_id = org_of x, n_project_id = x_project_id x, n_asset_id = x_asset_id x,
           n_correlation_type = ctype,
           n_title = (if 1 < length tools then ''['' @ str_nat (length tools) @ '' Tools Confirmed] '' else []) @ f_title p,
           n_category = f_category p, n_severity = f_severity p, n_cvss_score = f_cvss_score p,
           n_cvss_vector = f_cvss_vector p,
           n_contextual_risk_score = risk_of (f_cvss_score p) (x_criticality x) (x_exposure x)
             (if ctype = None then 1 else fl (115 / 100)),
           n_cwe_id = f_cwe_id p, n_owasp_category = f_owasp_category p, n_nist_control = f_nist_control p,
           n_contributing_tools = tools, n_status = ''OPEN'', n_times_observed = length fs,
           n_first_seen = start, n_last_seen = now,
           n_sla = Some (compute_sla_info now (f_severity p) (Some start)),
           n_description = f_description p, n_impact = f_impact p, n_remediation = f_remediation p,
           n_evidence_hash = h \<rparr>,
         map (\<lambda>f. occurrence_of x cid f (f_reproduction_curl f) (f_taint_trace f)) fs))"

definition clusters :: "correlator_env \<Rightarrow> scan_context \<Rightarrow> tool_finding list \<Rightarrow> (canonical_finding \<times> finding_occurrence list) list" where
  "clusters c x fs =
    (case verified_pairs (filter is_sast fs) [] (filter is_dast fs) of (pairs, visited) \<Rightarrow>
     let groups = grouped (filter (\<lambda>f. f_id f \<notin> set visited) fs)
     in map2 (pair_cluster c x) [0..<length pairs] pairs
        @ map2 (group_cluster c x) [length pairs..<length pairs + length groups] (map snd groups))"

definition score_accepted :: "canonical_finding \<Rightarrow> bool" where
  "score_accepted n = (0 \<le> n_contextual_risk_score n)"

definition correlate_findings ::
    "correlator_env \<Rightarrow> scan_context \<Rightarrow> tool_finding list \<Rightarrow> (canonical_finding list \<times> finding_occurrence list) option" where
  "correlate_findings c x fs =
    (if fs = [] then Some ([], [])
     else let out = clusters c x fs
       in if list_all (\<lambda>n. score_accepted (fst n)) out then Some (map fst out, concat (map snd out)) else None)"

end
