(* ===== verification/Correlator_Properties.thy ===== *)
theory Correlator_Properties
  imports Correlator "HOL-Library.Multiset"
begin

text \<open>
  What correlation promises: no finding is lost, none is made up and none is counted twice (but for
  one that counts as static and as dynamic), a running remediation clock keeps
  running, deadlines are exact in spite of float timestamps; and that one finding can verify itself.
\<close>

section \<open>Pairs and groups\<close>

lemma find_Some_in: "List.find P xs = Some x \<Longrightarrow> x \<in> set xs \<and> P x"
  by (auto simp: find_Some_iff)

lemma verified_pairs_visited:
  assumes "verified_pairs sast visited dast = (ps, seen)"
  shows "set visited \<subseteq> set seen \<and> set seen \<subseteq> set visited \<union> f_id ` fst ` set ps \<union> f_id ` snd ` set ps
    \<and> fst ` set ps \<subseteq> set dast \<and> snd ` set ps \<subseteq> set sast"
  using assms
proof (induction sast visited dast arbitrary: ps seen rule: verified_pairs.induct)
  case (2 sast visited df dfs)
  show ?case
  proof (cases "List.find (\<lambda>sf. f_id sf \<notin> set visited \<and> same_weakness sf df) sast")
    case None
    with 2 show ?thesis by auto
  next
    case (Some sf)
    obtain qs seen' where r: "verified_pairs sast (f_id sf # f_id df # visited) dfs = (qs, seen')" by fastforce
    with 2(3) Some have "ps = (df, sf) # qs" "seen = seen'" by simp_all
    with 2(2) [OF Some r] find_Some_in [OF Some] show ?thesis by auto
  qed
qed simp

lemma add_to_group_members:
  "{(k, f). \<exists>fs. (k, fs) \<in> set (add_to_group k' f' gs) \<and> f \<in> set fs}
     = insert (k', f') {(k, f). \<exists>fs. (k, fs) \<in> set gs \<and> f \<in> set fs}"
  if "distinct (map fst gs)"
  using that
proof (induction gs)
  case (Cons g gs)
  obtain a b where g: "g = (a, b)" by fastforce
  show ?case
  proof (cases "a = k'")
    case True
    then show ?thesis by (auto simp: g)
  next
    case False
    let ?M = "\<lambda>gs. {(k, f). \<exists>fs. (k, fs) \<in> set gs \<and> f \<in> set fs}"
    have M: "?M ((a, b) # hs) = {a} \<times> set b \<union> ?M hs" for hs by auto
    from Cons have "?M (add_to_group k' f' gs) = insert (k', f') (?M gs)" by (simp del: split_paired_All)
    then show ?thesis using False unfolding g by (simp only: add_to_group.simps fst_conv if_False M) blast
  qed
qed auto

lemma add_to_group_keys: "fst ` set (add_to_group k f gs) = insert k (fst ` set gs)"
  by (induction gs) auto

lemma add_to_group_distinct: "distinct (map fst gs) \<Longrightarrow> distinct (map fst (add_to_group k f gs))"
  by (induction gs) (auto simp: add_to_group_keys simp flip: image_image)

lemma add_to_group_nonempty: "\<forall>g \<in> set gs. snd g \<noteq> [] \<Longrightarrow> \<forall>g \<in> set (add_to_group k f gs). snd g \<noteq> []"
  by (induction gs) auto

lemma grouped_facts:
  "distinct (map fst (grouped fs)) \<and> (\<forall>g \<in> set (grouped fs). snd g \<noteq> [])
   \<and> {(k, f). \<exists>gs. (k, gs) \<in> set (grouped fs) \<and> f \<in> set gs} = (\<lambda>f. (group_key f, f)) ` set fs"
proof (induction fs rule: rev_induct)
  case (snoc f fs)
  have "grouped (fs @ [f]) = add_to_group (group_key f) f (grouped fs)" by (simp add: grouped_def)
  with snoc add_to_group_nonempty [of "grouped fs"] show ?case
    by (simp add: add_to_group_distinct add_to_group_members del: split_paired_All)
qed (simp add: grouped_def)

lemma grouped_nonempty: "g \<in> set (map snd (grouped fs)) \<Longrightarrow> g \<noteq> []"
  using conjunct1 [OF conjunct2 [OF grouped_facts [of fs]]] by auto

lemma grouped_members: "(\<exists>g \<in> set (map snd (grouped fs)). f \<in> set g) \<longleftrightarrow> f \<in> set fs"
proof -
  have "(\<exists>g \<in> set (map snd (grouped fs)). f \<in> set g)
      \<longleftrightarrow> (\<exists>k. (k, f) \<in> {(k, f). \<exists>gs. (k, gs) \<in> set (grouped fs) \<and> f \<in> set gs})" by force
  also have "\<dots> \<longleftrightarrow> f \<in> set fs" using grouped_facts [of fs] by auto
  finally show ?thesis .
qed

section \<open>Clusters\<close>

text \<open>An occurrence that stands for a finding in a cluster.\<close>

definition stands_for :: "finding_occurrence \<Rightarrow> tool_finding \<Rightarrow> bool" where
  "stands_for oc f = (oc_scan_id oc = f_scan_id f \<and> oc_source_tool oc = f_source_tool f
     \<and> oc_check_id oc = f_check_id f \<and> oc_raw_evidence oc = f_evidence f)"

definition cluster_of :: "canonical_finding \<times> finding_occurrence list \<Rightarrow> tool_finding list \<Rightarrow> bool" where
  "cluster_of out fs = (list_all2 stands_for (snd out) fs \<and> fs \<noteq> []
     \<and> n_times_observed (fst out) = length fs
     \<and> (\<forall>oc \<in> set (snd out). oc_canonical_finding_id oc = n_id (fst out)
          \<and> oc_organization_id oc = n_organization_id (fst out)))"

lemma pair_cluster_of: "cluster_of (pair_cluster c x k p) [fst p, snd p]"
  by (cases p) (simp add: pair_cluster_def cluster_of_def stands_for_def occurrence_of_def Let_def)

lemma group_cluster_of: "fs \<noteq> [] \<Longrightarrow> cluster_of (group_cluster c x k fs) fs"
  by (auto simp: group_cluster_def cluster_of_def stands_for_def occurrence_of_def Let_def
      list_all2_conv_all_nth)

definition members :: "tool_finding list \<Rightarrow> tool_finding list list" where
  "members fs =
    (case verified_pairs (filter is_sast fs) [] (filter is_dast fs) of (pairs, visited) \<Rightarrow>
       map (\<lambda>p. [fst p, snd p]) pairs @ map snd (grouped (filter (\<lambda>f. f_id f \<notin> set visited) fs)))"

lemma list_all2_map2_upt:
  assumes "\<And>i x. x \<in> set xs \<Longrightarrow> R (f i x) (g x)"
  shows "list_all2 R (map2 f [m..<m + length xs] xs) (map g xs)"
  using assms by (auto simp: list_all2_conv_all_nth)

lemma clusters_of: "list_all2 cluster_of (clusters c x fs) (members fs)"
proof -
  obtain pairs visited where v: "verified_pairs (filter is_sast fs) [] (filter is_dast fs) = (pairs, visited)"
    by fastforce
  let ?gs = "map snd (grouped (filter (\<lambda>f. f_id f \<notin> set visited) fs))"
  have A: "list_all2 cluster_of (map2 (pair_cluster c x) [0..<0 + length pairs] pairs) (map (\<lambda>p. [fst p, snd p]) pairs)"
    by (rule list_all2_map2_upt) (rule pair_cluster_of)
  have B: "list_all2 cluster_of (map2 (group_cluster c x) [length pairs..<length pairs + length ?gs] ?gs)
      (map (\<lambda>g. g) ?gs)"
  proof (rule list_all2_map2_upt)
    fix i g
    assume "g \<in> set ?gs"
    then have "g \<noteq> []" by (rule grouped_nonempty)
    then show "cluster_of (group_cluster c x i g) g" by (rule group_cluster_of)
  qed
  show ?thesis
    unfolding clusters_def members_def v prod.case Let_def
    by (rule list_all2_appendI [OF A [unfolded add_0] B [unfolded list.map_ident length_map]])
qed

lemma members_facts:
  "set (concat (members fs)) \<subseteq> set fs"
  "distinct (map f_id fs) \<Longrightarrow> set fs \<subseteq> set (concat (members fs))"
proof -
  obtain pairs visited where v: "verified_pairs (filter is_sast fs) [] (filter is_dast fs) = (pairs, visited)"
    by fastforce
  note p = verified_pairs_visited [OF v]
  have m: "set (concat (members fs)) = fst ` set pairs \<union> snd ` set pairs
      \<union> {f \<in> set fs. f_id f \<notin> set visited}"
  proof (rule set_eqI)
    fix f
    have "f \<in> set (concat (members fs)) \<longleftrightarrow> (\<exists>p \<in> set pairs. f = fst p \<or> f = snd p)
        \<or> (\<exists>g \<in> set (map snd (grouped (filter (\<lambda>f. f_id f \<notin> set visited) fs))). f \<in> set g)"
      by (auto simp: members_def v simp del: split_paired_Ex split_paired_All)
    then show "f \<in> set (concat (members fs)) \<longleftrightarrow> f \<in> fst ` set pairs \<union> snd ` set pairs
        \<union> {f \<in> set fs. f_id f \<notin> set visited}"
      unfolding grouped_members by auto
  qed
  show "set (concat (members fs)) \<subseteq> set fs" unfolding m using p by auto
  show "set fs \<subseteq> set (concat (members fs))" if d: "distinct (map f_id fs)"
  proof
    fix f
    assume f: "f \<in> set fs"
    show "f \<in> set (concat (members fs))"
    proof (cases "f_id f \<in> set visited")
      case True
      with p have "f_id f \<in> f_id ` (fst ` set pairs \<union> snd ` set pairs)" by (auto simp: image_Un)
      then obtain g where "g \<in> fst ` set pairs \<union> snd ` set pairs" "f_id g = f_id f" by (metis imageE)
      moreover have "g \<in> set fs" using calculation(1) p by auto
      ultimately show ?thesis unfolding m using d f by (auto simp: distinct_map dest: inj_onD)
    next
      case False
      with f show ?thesis unfolding m by simp
    qed
  qed
qed

section \<open>How often a finding is counted\<close>

lemma verified_pairs_distinct:
  assumes "verified_pairs sast visited dast = (ps, seen)" and "distinct dast"
  shows "distinct (map fst ps) \<and> distinct (map snd ps)
    \<and> (\<forall>p \<in> set ps. f_id (snd p) \<notin> set visited \<and> f_id (fst p) \<in> set seen \<and> f_id (snd p) \<in> set seen)"
  using assms
proof (induction sast visited dast arbitrary: ps seen rule: verified_pairs.induct)
  case (2 sast visited df dfs)
  show ?case
  proof (cases "List.find (\<lambda>sf. f_id sf \<notin> set visited \<and> same_weakness sf df) sast")
    case None
    with 2 show ?thesis by auto
  next
    case (Some sf)
    obtain qs seen' where r: "verified_pairs sast (f_id sf # f_id df # visited) dfs = (qs, seen')" by fastforce
    with 2(3) Some have out: "ps = (df, sf) # qs" "seen = seen'" by simp_all
    note v = verified_pairs_visited [OF r]
    from 2(2) [OF Some r] 2(4) have ih: "distinct (map fst qs)" "distinct (map snd qs)"
      "\<forall>p \<in> set qs. f_id (snd p) \<notin> set (f_id sf # f_id df # visited) \<and> f_id (fst p) \<in> set seen' \<and> f_id (snd p) \<in> set seen'"
      by auto
    have "df \<notin> fst ` set qs" using v 2(4) by auto
    moreover have "sf \<notin> snd ` set qs" using ih(3) by auto
    ultimately show ?thesis using ih v find_Some_in [OF Some] by (auto simp: out)
  qed
qed simp

lemma add_to_group_mset: "mset (concat (map snd (add_to_group k f gs))) = mset (concat (map snd gs)) + {#f#}"
  by (induction gs) auto

lemma grouped_mset: "mset (concat (map snd (grouped fs))) = mset fs"
  by (induction fs rule: rev_induct) (simp_all add: grouped_def add_to_group_mset)

lemma count_distinct: "distinct xs \<Longrightarrow> count (mset xs) x = (if x \<in> set xs then 1 else 0)"
  using distinct_count_atmost_1 by metis

lemma members_count:
  assumes d: "distinct (map f_id fs)"
  shows "count (mset (concat (members fs))) f \<le> (if is_sast f \<and> is_dast f then 2 else 1)"
proof -
  obtain pairs visited where v: "verified_pairs (filter is_sast fs) [] (filter is_dast fs) = (pairs, visited)"
    by fastforce
  let ?rest = "filter (\<lambda>f. f_id f \<notin> set visited) fs"
  have dfs: "distinct fs" using d by (auto simp: distinct_map)
  note p = verified_pairs_visited [OF v] verified_pairs_distinct [OF v distinct_filter [OF dfs]]
  have pairs: "mset (concat (map (\<lambda>p. [fst p, snd p]) ps)) = mset (map fst ps) + mset (map snd ps)"
    for ps :: "(tool_finding \<times> tool_finding) list" by (induction ps) simp_all
  have "count (mset (concat (members fs))) f
      = count (mset (map fst pairs)) f + count (mset (map snd pairs)) f + count (mset ?rest) f"
    unfolding members_def v prod.case concat_append mset_append pairs grouped_mset count_union ..
  also have "\<dots> = (if f \<in> fst ` set pairs then 1 else 0) + (if f \<in> snd ` set pairs then 1 else 0)
      + (if f \<in> set ?rest then 1 else 0)"
    using count_distinct [of "map fst pairs" f] count_distinct [of "map snd pairs" f] count_distinct [of ?rest f] p dfs
    by (simp only: set_map distinct_filter simp_thms)
  finally have c: "count (mset (concat (members fs))) f = (if f \<in> fst ` set pairs then 1 else 0)
      + (if f \<in> snd ` set pairs then 1 else 0) + (if f \<in> set ?rest then 1 else 0)" .
  have "f \<in> fst ` set pairs \<Longrightarrow> is_dast f \<and> f \<notin> set ?rest" "f \<in> snd ` set pairs \<Longrightarrow> is_sast f \<and> f \<notin> set ?rest"
    using p by auto
  then show ?thesis unfolding c by auto
qed

section \<open>No finding is lost\<close>

lemma all2_left: "list_all2 R xs ys \<Longrightarrow> x \<in> set xs \<Longrightarrow> \<exists>y \<in> set ys. R x y"
  by (induction rule: list_all2_induct) auto

lemma all2_right: "list_all2 R xs ys \<Longrightarrow> y \<in> set ys \<Longrightarrow> \<exists>x \<in> set xs. R x y"
  by (induction rule: list_all2_induct) auto

lemma correlate_out:
  assumes "correlate_findings c x fs = Some (canon, occs)"
  shows "\<exists>out. list_all2 cluster_of out (members fs) \<and> canon = map fst out \<and> occs = concat (map snd out)
    \<and> (fs \<noteq> [] \<longrightarrow> out = clusters c x fs)"
proof (cases "fs = []")
  case True
  then have "members fs = []" by (simp add: members_def grouped_def)
  with assms True show ?thesis by (simp add: correlate_findings_def)
next
  case False
  with assms show ?thesis
    using clusters_of [of c x fs] by (auto simp: correlate_findings_def Let_def split: if_splits)
qed

lemma clusters_total:
  "list_all2 cluster_of out ms \<Longrightarrow> length (concat (map snd out)) = sum_list (map (\<lambda>o'. n_times_observed (fst o')) out)"
  by (induction rule: list_all2_induct) (auto simp: cluster_of_def dest: list_all2_lengthD)

text \<open>With scores and factors that are not negative there is a result.\<close>

lemma risk_nonneg: "0 \<le> cvss \<Longrightarrow> 0 \<le> crit \<Longrightarrow> 0 \<le> expo \<Longrightarrow> 0 \<le> conf \<Longrightarrow> 0 \<le> risk_of cvss crit expo conf"
  using py_round1_mono [of 0 "min 10 (fl (fl (fl (cvss * crit) * expo) * conf))"] py_round1_int [of 0]
  by (simp add: risk_of_def fl_nonneg)

lemma pair_score:
  assumes "0 \<le> x_criticality x" "0 \<le> x_exposure x" "0 \<le> f_cvss_score (fst p)" "0 \<le> f_cvss_score (snd p)"
  shows "score_accepted (fst (pair_cluster c x k p))"
proof -
  have "0 \<le> max (f_cvss_score (fst p)) (f_cvss_score (snd p))" using assms by simp
  with assms show ?thesis
    by (cases p) (simp add: score_accepted_def pair_cluster_def Let_def risk_nonneg fl_nonneg del: max_less_iff_conj)
qed

lemma group_score:
  assumes "0 \<le> x_criticality x" "0 \<le> x_exposure x" "0 \<le> f_cvss_score (hd fs)"
  shows "score_accepted (fst (group_cluster c x k fs))"
  using assms by (simp add: score_accepted_def group_cluster_def Let_def risk_nonneg fl_nonneg)

lemma correlation_defined:
  assumes "\<forall>f \<in> set fs. 0 \<le> f_cvss_score f" and "0 \<le> x_criticality x" and "0 \<le> x_exposure x"
  shows "\<exists>canon occs. correlate_findings c x fs = Some (canon, occs)"
proof -
  obtain pairs visited where v: "verified_pairs (filter is_sast fs) [] (filter is_dast fs) = (pairs, visited)"
    by fastforce
  let ?gs = "map snd (grouped (filter (\<lambda>f. f_id f \<notin> set visited) fs))"
  have p: "fst p \<in> set fs" "snd p \<in> set fs" if "p \<in> set pairs" for p
    using verified_pairs_visited [OF v] that by auto
  have g: "hd g \<in> set fs" if "g \<in> set ?gs" for g
  proof -
    have "hd g \<in> set g" using grouped_nonempty [OF that] by simp
    with that have "\<exists>h \<in> set ?gs. hd g \<in> set h" by blast
    then show ?thesis unfolding grouped_members by simp
  qed
  have "\<forall>o' \<in> set (clusters c x fs). score_accepted (fst o')"
    using p g assms by (auto simp: clusters_def v Let_def pair_score group_score dest!: set_zip_rightD)
  then show ?thesis by (simp add: correlate_findings_def Let_def list_all_iff)
qed

lemma all2_concat: "list_all2 (list_all2 R) xss yss \<Longrightarrow> list_all2 R (concat xss) (concat yss)"
  by (induction rule: list_all2_induct) (auto intro: list_all2_appendI)

text \<open>C39. Correlation keeps every finding, makes none up and counts none twice. For findings with distinct
  identifiers the occurrences stand, one by one, for the findings of a list (same scan, tool, check and
  evidence) that holds every given finding and nothing else, each once, except that a finding that
  counts both as static and as dynamic may be there twice.  The occurrences are the concatenation of
  one group per canonical finding, in order, each group as long as its finding says it was observed,
  linked to it and in its tenant.\<close>

theorem correlation_complete:
  assumes "correlate_findings c x fs = Some (canon, occs)" and "distinct (map f_id fs)"
  shows "\<exists>sources groups. list_all2 stands_for occs sources \<and> set sources = set fs
    \<and> (\<forall>f. count (mset sources) f \<le> (if is_sast f \<and> is_dast f then 2 else 1))
    \<and> occs = concat groups
    \<and> list_all2 (\<lambda>n group. n_times_observed n = length group
         \<and> (\<forall>oc \<in> set group. oc_canonical_finding_id oc = n_id n \<and> oc_organization_id oc = n_organization_id n)) canon groups"
proof -
  from correlate_out [OF assms(1)] obtain out where out: "list_all2 cluster_of out (members fs)"
    "canon = map fst out" "occs = concat (map snd out)" by blast
  have "list_all2 (list_all2 stands_for) (map snd out) (members fs)"
    unfolding list_all2_map1 by (rule list_all2_mono [OF out(1)]) (simp add: cluster_of_def)
  then have "list_all2 stands_for occs (concat (members fs))" unfolding out(3) by (rule all2_concat)
  moreover have "set (concat (members fs)) = set fs"
    using members_facts(1) [of fs] members_facts(2) [OF assms(2)] by blast
  moreover have "list_all2 (\<lambda>n group. n_times_observed n = length group
         \<and> (\<forall>oc \<in> set group. oc_canonical_finding_id oc = n_id n \<and> oc_organization_id oc = n_organization_id n))
      canon (map snd out)"
  proof -
    have "\<forall>k \<in> set out. n_times_observed (fst k) = length (snd k)
        \<and> (\<forall>oc \<in> set (snd k). oc_canonical_finding_id oc = n_id (fst k) \<and> oc_organization_id oc = n_organization_id (fst k))"
    proof
      fix k assume "k \<in> set out"
      from all2_left [OF out(1) this] show "n_times_observed (fst k) = length (snd k)
        \<and> (\<forall>oc \<in> set (snd k). oc_canonical_finding_id oc = n_id (fst k) \<and> oc_organization_id oc = n_organization_id (fst k))"
        by (auto simp: cluster_of_def dest: list_all2_lengthD)
    qed
    then show ?thesis unfolding out(2) list_all2_map1 list_all2_map2 list_all2_same by blast
  qed
  ultimately show ?thesis using members_count [OF assms(2)] out(3) by blast
qed

definition sample_finding :: tool_finding where
  "sample_finding = \<lparr> f_severity = HIGH, f_engine = ''web_dast'', f_id = ''f1'', f_scan_id = ''s'', f_source_tool = ''nuclei'',
     f_check_id = ''DAST-INJ-001'', f_category = ''Injection'', f_title = ''SQL injection'', f_cvss_score = 8,
     f_cvss_vector = None, f_cwe_id = Some ''CWE-89'', f_owasp_category = None, f_nist_control = None,
     f_description = ''d'', f_impact = ''i'', f_remediation = ''r'',
     f_evidence = \<lparr> e_location = ''/login'', e_observed_value = ''error'', e_rest = [] \<rparr>,
     f_reproduction_curl = None, f_taint_trace = None, f_organization_id = ''org'', f_workspace_id = None,
     f_is_fallback = False, f_primary_tool_failed = None, f_remediation_code_snippet = None, f_references = [],
     f_verified_secret = None, f_created_at = 0, f_fingerprint = ''p'' \<rparr>"

definition sample_findings3 :: "tool_finding list" where
  "sample_findings3 = [sample_finding,
     sample_finding\<lparr>f_id := ''f2'', f_engine := ''code_sast'', f_source_tool := ''semgrep'', f_check_id := ''SAST-1''\<rparr>,
     sample_finding\<lparr>f_id := ''f3'', f_engine := ''network'', f_source_tool := ''nmap'', f_check_id := ''NET-1'', f_cwe_id := None\<rparr>]"

definition sample_corr :: correlator_env where
  "sample_corr = \<lparr> c_now = (\<lambda>_. 1000000), c_uuid = (\<lambda>k. str_nat k), c_sha256 = (\<lambda>s. s), c_first = (\<lambda>a b. True) \<rparr>"

definition sample_context :: scan_context where
  "sample_context = \<lparr> x_organization_id = Some ''org'', x_project_id = None, x_asset_id = None, x_exposure = 1,
     x_criticality = 1, x_existing = [] \<rparr>"

lemma sample_correlated:
  assumes "set fs \<subseteq> {sample_finding, f2, f3}" and "f_cvss_score f2 = 8" "f_cvss_score f3 = 8"
  shows "\<exists>canon occs. correlate_findings sample_corr sample_context fs = Some (canon, occs)"
proof (rule correlation_defined)
  show "\<forall>f \<in> set fs. 0 \<le> f_cvss_score f" using assms by (auto simp: sample_finding_def)
qed (simp_all add: sample_context_def)

theorem correlation_complete_witness:
  "\<exists>canon occs sources. correlate_findings sample_corr sample_context sample_findings3 = Some (canon, occs)
     \<and> list_all2 stands_for occs sources \<and> set sources = set sample_findings3
     \<and> (\<forall>f. count (mset sources) f \<le> (if is_sast f \<and> is_dast f then 2 else 1))"
proof -
  have d: "distinct (map f_id sample_findings3)" by code_simp
  obtain canon occs where r: "correlate_findings sample_corr sample_context sample_findings3 = Some (canon, occs)"
    using sample_correlated [of sample_findings3 "sample_findings3 ! 1" "sample_findings3 ! 2"]
    by (auto simp: sample_findings3_def sample_finding_def)
  from correlation_complete [OF r d] r show ?thesis by blast
qed

section \<open>A finding that verifies itself\<close>

text \<open>One finding can verify itself: a single finding that counts as static and as dynamic (a nuclei
  finding of the static engine, say) is reported as confirmed by both kinds of analysis, as observed
  twice and with two occurrences of the same evidence.\<close>

theorem finding_verifies_itself:
  assumes "is_sast f" and "is_dast f" and "f_category f \<noteq> []"
    and "correlate_findings c x [f] = Some (canon, occs)"
  shows "\<exists>n o1 o2. canon = [n] \<and> occs = [o1, o2] \<and> n_correlation_type n = Some SAST_DAST_VERIFIED
    \<and> n_times_observed n = 2 \<and> stands_for o1 f \<and> stands_for o2 f"
proof -
  have "same_weakness f f" using assms(3) by (simp add: same_weakness_def)
  with assms(1,2) have "clusters c x [f] = [pair_cluster c x 0 (f, f)]"
    by (simp add: clusters_def grouped_def)
  with assms(4) have r: "canon = [fst (pair_cluster c x 0 (f, f))]" "occs = snd (pair_cluster c x 0 (f, f))"
    by (auto simp: correlate_findings_def Let_def split: if_splits)
  show ?thesis
    unfolding r by (simp add: pair_cluster_def Let_def stands_for_def occurrence_of_def)
qed

theorem finding_verifies_itself_witness:
  "\<exists>n occs. correlate_findings sample_corr sample_context [sample_finding\<lparr>f_engine := ''code_sast''\<rparr>] = Some ([n], occs)
     \<and> n_correlation_type n = Some SAST_DAST_VERIFIED"
proof -
  let ?f = "sample_finding\<lparr>f_engine := ''code_sast''\<rparr>"
  have f: "is_sast ?f" "is_dast ?f" "f_category ?f \<noteq> []" by code_simp+
  obtain canon occs where r: "correlate_findings sample_corr sample_context [?f] = Some (canon, occs)"
    using sample_correlated [of "[?f]" ?f ?f] by (auto simp: sample_finding_def)
  from finding_verifies_itself [OF f r] r show ?thesis by auto
qed

section \<open>Deadlines\<close>

lemma fl_near:
  assumes "0 \<le> x" and "x < pow2 (k + 1)"
  shows "\<bar>fl x - x\<bar> \<le> pow2 (k - 53)"
proof (cases "x = 0")
  case False
  with assms have x: "0 < x" by simp
  define u where "u = pow2 (exponent x - 52)"
  have "exponent x \<le> k" by (rule exponent_less [OF x assms(2)])
  then have u: "0 < u" "u \<le> pow2 (k - 52)" using pow2_le_iff by (simp_all add: u_def)
  have "fl x = of_int (round_even (x / u)) * u" using x by (simp add: fl_def fl_pos_def Let_def u_def)
  then have "fl x - x = (of_int (round_even (x / u)) - x / u) * u" using u by (simp add: field_simps)
  then have "\<bar>fl x - x\<bar> = \<bar>of_int (round_even (x / u)) - x / u\<bar> * u" using u by (simp add: abs_mult)
  also have "\<dots> \<le> 1/2 * u" using round_even_error [of "x / u"] u by (intro mult_right_mono) simp_all
  also have "\<dots> \<le> pow2 (k - 53)"
    using u(2) pow2_add [of "k - 53" 1] by (simp add: pow2_def [of 1])
  finally show ?thesis .
qed (simp add: less_imp_le)

lemma round_even_near:
  assumes "\<bar>w - of_int m\<bar> < 1/2"
  shows "round_even w = m"
proof -
  have "\<bar>of_int (round_even w) - (of_int m :: rat)\<bar> < 1" using round_even_error [of w] assms by linarith
  then show ?thesis by linarith
qed

text \<open>A deadline is exact although it is computed on float timestamps: up to the year 2106 it lies exactly
  the prescribed number of days after the start of the clock, to the microsecond.\<close>

theorem deadline_exact:
  assumes "0 \<le> start" and "start + int (sla_days severity) * 86400000000 < 4294967296000000"
  shows "l_due_at (compute_sla_info now severity (Some start)) = start + int (sla_days severity) * 86400000000"
proof -
  define d :: int where "d = int (sla_days severity) * 86400"
  define y where "y = of_int start / (1000000 :: rat)"
  define b where "b = fl (fl y + of_int d)"
  have p32: "pow2 (31 + 1) = 4294967296" and p22: "pow2 (31 - 53) = 1 / 4194304" and p20: "pow2 (19 + 1) = 1048576"
    and p34: "pow2 (19 - 53) = 1 / 17179869184" by (simp_all add: pow2_def)
  have d: "0 \<le> d" by (simp add: d_def)
  have y: "0 \<le> y" "y + of_int d < 4294967296 - 1 / 4194304"
  proof -
    have "start + d * 1000000 \<le> 4294967296000000 - 1" using assms(2) by (simp add: d_def)
    then have "(of_int (start + d * 1000000) :: rat) \<le> of_int (4294967296000000 - 1)" by (rule of_int_le_iff [THEN iffD2])
    then show "y + of_int d < 4294967296 - 1 / 4194304" by (simp add: y_def field_simps)
  qed (simp add: y_def assms(1))
  have a: "\<bar>fl y - y\<bar> \<le> 1 / 4194304"
    using fl_near [of y 31] y d unfolding p32 p22 by simp
  have s: "0 \<le> fl y + of_int d" "fl y + of_int d < 4294967296" using fl_nonneg [OF y(1)] d a y(2) by linarith+
  have b: "\<bar>b - (fl y + of_int d)\<bar> \<le> 1 / 4194304" "0 \<le> b"
    using fl_near [OF s(1), of 31] s fl_nonneg [OF s(1)] unfolding p32 p22 b_def by simp_all
  have by': "\<bar>b - (y + of_int d)\<bar> \<le> 1 / 2097152" using a b(1) by linarith
  define v where "v = (b - of_int \<lfloor>b\<rfloor>) * 1000000"
  have v: "0 \<le> v" "v < 1048576" by (simp add: v_def) (simp add: v_def; linarith)
  have w: "\<bar>fl v - v\<bar> \<le> 1 / 17179869184" using fl_near [of v 19] v unfolding p20 p34 by simp
  let ?m = "start + d * 1000000 - \<lfloor>b\<rfloor> * 1000000"
  have "\<bar>v - of_int ?m\<bar> = \<bar>b - (y + of_int d)\<bar> * 1000000" 
  proof -
    have e: "v - of_int ?m = (b - (y + of_int d)) * 1000000" by (simp add: v_def y_def field_simps)
    show ?thesis unfolding e by (simp only: abs_mult)
  qed
  also have "\<dots> \<le> 1 / 2097152 * 1000000" using by' by (intro mult_right_mono) simp_all
  finally have "\<bar>fl v - of_int ?m\<bar> < 1/2" using w by linarith
  then have "round_even (fl v) = ?m" by (rule round_even_near)
  moreover have "time_of_timestamp b = \<lfloor>b\<rfloor> * 1000000 + round_even (fl v)"
    using b(2) by (simp only: time_of_timestamp_def v_def Let_def if_True)
  moreover have "l_due_at (compute_sla_info now severity (Some start)) = time_of_timestamp b"
    by (simp add: compute_sla_info_def Let_def timestamp_of_def b_def y_def d_def)
  ultimately show ?thesis by (simp add: d_def)
qed

theorem deadline_exact_witness:
  "l_due_at (compute_sla_info 0 CRITICAL (Some 1767225600000001)) = 1767830400000001"
  using deadline_exact [of 1767225600000001 CRITICAL 0] by simp

section \<open>A running clock keeps running\<close>

definition clocked :: "correlator_env \<Rightarrow> scan_context \<Rightarrow> canonical_finding \<Rightarrow> bool" where
  "clocked c x n = (\<exists>k. n_first_seen n = original_start (x_existing x) (n_evidence_hash n) (c_now c k)
     \<and> n_sla n = Some (compute_sla_info (c_now c k) (n_severity n) (Some (n_first_seen n))))"

lemma cluster_clocked: "clocked c x (fst (pair_cluster c x k p))" "clocked c x (fst (group_cluster c x k fs))"
  by (cases p; simp add: clocked_def pair_cluster_def group_cluster_def Let_def; blast)+

lemma clusters_clocked: "k \<in> set (clusters c x fs) \<Longrightarrow> clocked c x (fst k)"
  by (auto simp: clusters_def Let_def cluster_clocked split: prod.splits)

text \<open>Scanning again never restarts a remediation clock: a finding whose evidence is already known keeps the
  start of its clock as its first sighting and, for the same severity, its deadline, whatever time
  it is and whichever cluster it falls into.\<close>

theorem clock_keeps_running:
  assumes "correlate_findings c x fs = Some (canon, occs)" and "n \<in> set canon"
    and "e \<in> set (x_existing x)" and "n_evidence_hash e = n_evidence_hash n" and "n_evidence_hash n \<noteq> []"
    and "distinct (map n_evidence_hash (x_existing x))" and "n_sla e = Some l"
    and "l = compute_sla_info t (n_severity e) (Some (l_started_at l))"
  shows "n_first_seen n = l_started_at l
    \<and> (\<exists>l'. n_sla n = Some l' \<and> l_started_at l' = l_started_at l
         \<and> (n_severity n = n_severity e \<longrightarrow> l_due_at l' = l_due_at l))"
proof -
  from correlate_out [OF assms(1)] assms(2) have "fs \<noteq> []" by (auto simp: members_def grouped_def)
  with correlate_out [OF assms(1)] assms(2) have "clocked c x n" by (auto dest!: clusters_clocked)
  then obtain k where k: "n_first_seen n = original_start (x_existing x) (n_evidence_hash n) (c_now c k)"
    "n_sla n = Some (compute_sla_info (c_now c k) (n_severity n) (Some (n_first_seen n)))"
    by (auto simp: clocked_def)
  let ?P = "\<lambda>c. n_evidence_hash c = n_evidence_hash n \<and> n_evidence_hash c \<noteq> []"
  have "List.find ?P (rev (x_existing x)) \<noteq> None" using assms(3-5) by (auto simp: find_None_iff)
  then obtain e' where e': "List.find ?P (rev (x_existing x)) = Some e'" by blast
  from find_Some_in [OF e'] assms(3,4,6) have "e' = e" by (auto simp: distinct_map inj_on_def)
  with e' assms(7) have "n_first_seen n = l_started_at l" by (simp add: k(1) original_start_def)
  moreover have "l_due_at (compute_sla_info (c_now c k) (n_severity e) (Some (l_started_at l))) = l_due_at l"
    by (subst (2) assms(8)) (simp add: compute_sla_info_def Let_def)
  moreover have "l_started_at (compute_sla_info (c_now c k) (n_severity n) (Some (l_started_at l))) = l_started_at l"
    by (simp add: compute_sla_info_def Let_def)
  ultimately show ?thesis by (simp add: k(2))
qed

lemma single_cluster: "\<not> is_sast f \<Longrightarrow> clusters c x [f] = [group_cluster c x 0 [f]]"
  by (cases "is_dast f") (simp_all add: clusters_def grouped_def)

lemma single_correlated:
  assumes "\<not> is_sast f" and "0 \<le> f_cvss_score f" and "0 \<le> x_criticality x" and "0 \<le> x_exposure x"
  shows "correlate_findings c x [f] = Some ([fst (group_cluster c x 0 [f])], snd (group_cluster c x 0 [f]))"
  using assms group_score [of x "[f]" c 0] by (simp add: correlate_findings_def single_cluster Let_def)

definition known_finding :: canonical_finding where
  "known_finding = fst (group_cluster sample_corr sample_context 0 [sample_finding])"

theorem clock_keeps_running_witness:
  "\<exists>n occs. correlate_findings (sample_corr\<lparr>c_now := (\<lambda>_. 9000000)\<rparr>) (sample_context\<lparr>x_existing := [known_finding]\<rparr>)
       [sample_finding] = Some ([n], occs) \<and> n_first_seen n = 1000000"
proof -
  let ?c = "sample_corr\<lparr>c_now := (\<lambda>_. 9000000)\<rparr>" and ?x = "sample_context\<lparr>x_existing := [known_finding]\<rparr>"
  let ?n = "fst (group_cluster ?c ?x 0 [sample_finding])"
  have "\<not> is_sast sample_finding" by code_simp
  then have r: "correlate_findings ?c ?x [sample_finding] = Some ([?n], snd (group_cluster ?c ?x 0 [sample_finding]))"
    by (rule single_correlated) (simp_all add: sample_finding_def sample_context_def)
  have h: "n_evidence_hash known_finding = n_evidence_hash ?n" "n_evidence_hash ?n \<noteq> []"
    by (simp_all add: known_finding_def group_cluster_def Let_def calculate_evidence_hash_def sample_corr_def)
  have l: "n_sla known_finding = Some (compute_sla_info 1000000 HIGH (Some 1000000))" "n_severity known_finding = HIGH"
    by (simp_all add: known_finding_def group_cluster_def Let_def sample_corr_def sample_context_def
        original_start_def sample_finding_def)
  have s: "l_started_at (compute_sla_info 1000000 HIGH (Some 1000000)) = 1000000"
    by (simp add: compute_sla_info_def Let_def)
  have "n_first_seen ?n = l_started_at (compute_sla_info 1000000 HIGH (Some 1000000))"
    using clock_keeps_running [OF r, of ?n known_finding _ 1000000] h l s by simp
  with r s show ?thesis by auto
qed

end
