(* ===== verification/Tables.thy ===== *)
theory Tables
  imports Prelude
begin

text \<open>
  Relational tables and the SQL statements of \<open>backend/app/core/db.py\<close>: a table is the list of
  its rows in insertion order, \<open>UPDATE ... WHERE\<close> maps over it, \<open>SELECT ... WHERE\<close> filters it,
  \<open>INSERT\<close> appends or fails on a taken unique key.  The locale \<open>row_evolution\<close> is the interface
  the lifecycle proofs use: how the rows of one table may change over a statement.
\<close>

section \<open>Statements\<close>

definition sql_update :: "('r \<Rightarrow> bool) \<Rightarrow> ('r \<Rightarrow> 'r) \<Rightarrow> 'r list \<Rightarrow> 'r list" where
  "sql_update P f t = map (\<lambda>r. if P r then f r else r) t"

text \<open>\<open>cursor.rowcount\<close> after an \<open>UPDATE\<close>: the number of rows the condition selected.\<close>

definition sql_rowcount :: "('r \<Rightarrow> bool) \<Rightarrow> 'r list \<Rightarrow> nat" where
  "sql_rowcount P t = count_if P t"

definition fetchone :: "'r list \<Rightarrow> 'r option" where
  "fetchone t = (case t of [] \<Rightarrow> None | r # _ \<Rightarrow> Some r)"

definition sql_find :: "('r \<Rightarrow> bool) \<Rightarrow> 'r list \<Rightarrow> 'r option" where
  "sql_find P t = fetchone (filter P t)"

definition sql_exists :: "('r \<Rightarrow> bool) \<Rightarrow> 'r list \<Rightarrow> bool" where
  "sql_exists P t = list_ex P t"

text \<open>\<open>a = ?\<close> in SQL: no row matches a \<open>NULL\<close> on either side.\<close>

definition sql_eq :: "'a option \<Rightarrow> 'a option \<Rightarrow> bool" where
  "sql_eq x y = (x \<noteq> None \<and> x = y)"

text \<open>\<open>a > ?\<close> on a nullable timestamp column.\<close>

definition after :: "int option \<Rightarrow> int \<Rightarrow> bool" where
  "after x t = (case x of None \<Rightarrow> False | Some y \<Rightarrow> t < y)"

definition not_after :: "int option \<Rightarrow> int \<Rightarrow> bool" where
  "not_after x t = (case x of None \<Rightarrow> False | Some y \<Rightarrow> y \<le> t)"

lemma sql_eq_simps [simp]:
  "sql_eq None y = False" "sql_eq x None = False" "sql_eq (Some a) (Some b) = (a = b)"
  "sql_eq x (Some b) = (x = Some b)"
  by (auto simp: sql_eq_def)

lemma after_simps [simp]: "after None t = False" "after (Some y) t = (t < y)"
  by (simp_all add: after_def)

lemma not_after_simps [simp]: "not_after None t = False" "not_after (Some y) t = (y \<le> t)"
  by (simp_all add: not_after_def)

lemma after_not_not_after: "after x t \<Longrightarrow> \<not> not_after x t"
  by (cases x) auto

lemma fetchone_simps [simp]: "fetchone [] = None" "fetchone (r # t) = Some r"
  by (simp_all add: fetchone_def)

lemma fetchone_Some_in: "fetchone t = Some r \<Longrightarrow> r \<in> set t"
  by (cases t) auto

lemma sql_find_Some: "sql_find P t = Some r \<Longrightarrow> r \<in> set t \<and> P r"
  by (auto simp: sql_find_def dest!: fetchone_Some_in)

lemma sql_find_None: "sql_find P t = None \<longleftrightarrow> (\<forall>r \<in> set t. \<not> P r)"
  by (auto simp: sql_find_def fetchone_def filter_empty_conv split: list.splits)
    (metis filter_empty_conv list.distinct(1))

lemma sql_exists_iff: "sql_exists P t \<longleftrightarrow> (\<exists>r \<in> set t. P r)"
  by (simp add: sql_exists_def list_ex_iff)

lemma length_sql_update [simp]: "length (sql_update P f t) = length t"
  by (simp add: sql_update_def)

lemma set_sql_update: "set (sql_update P f t) = (\<lambda>r. if P r then f r else r) ` set t"
  by (simp add: sql_update_def)

lemma in_sql_updateE:
  assumes "r \<in> set (sql_update P f t)"
  obtains "r \<in> set t" "\<not> P r" | s where "s \<in> set t" "P s" "r = f s"
  using assms by (auto simp: set_sql_update split: if_splits)

lemma sql_update_none: "sql_rowcount P t = 0 \<Longrightarrow> sql_update P f t = t"
  by (simp add: sql_rowcount_def sql_update_def count_if_zero_iff map_idI)

lemma map_sql_update: "(\<And>r. P r \<Longrightarrow> g (f r) = g r) \<Longrightarrow> map g (sql_update P f t) = map g t"
  by (simp add: sql_update_def)

lemma sql_rowcount_distinct:
  assumes "distinct (map key t)" and "\<And>r. P r \<Longrightarrow> key r = k"
  shows "sql_rowcount P t \<le> 1"
proof -
  have "distinct (map key (filter P t))"
    using assms(1) by (induction t) auto
  moreover have "set (map key (filter P t)) \<subseteq> {k}"
    using assms(2) by auto
  ultimately have "length (map key (filter P t)) \<le> card {k}"
    by (metis card_mono distinct_card finite.emptyI finite.insertI)
  then show ?thesis by (simp add: sql_rowcount_def count_if_def)
qed

lemma sql_find_unique:
  assumes "distinct (map key t)" and "r \<in> set t" and "P r" and "\<And>x. P x \<Longrightarrow> key x = key r"
  shows "sql_find P t = Some r"
proof (cases "sql_find P t")
  case None
  with assms(2,3) show ?thesis by (auto simp: sql_find_None)
next
  case (Some x)
  then have "x \<in> set t" "P x" by (auto dest: sql_find_Some)
  with assms have "x = r" by (metis distinct_map inj_onD)
  with Some show ?thesis by simp
qed

section \<open>How a table evolves\<close>

text \<open>
  \<open>rows_evolve key R N t t'\<close>: every row of \<open>t\<close> is still there, in its place, changed at most as
  \<open>R\<close> allows, and the rows added at the end satisfy \<open>N\<close> and carry new primary keys.
\<close>

definition rows_evolve ::
    "('r \<Rightarrow> 'k) \<Rightarrow> ('r \<Rightarrow> 'r \<Rightarrow> bool) \<Rightarrow> ('r \<Rightarrow> bool) \<Rightarrow> 'r list \<Rightarrow> 'r list \<Rightarrow> bool" where
  "rows_evolve key R N t t' \<longleftrightarrow>
     (\<exists>u v. t' = u @ v \<and> list_all2 R t u \<and> list_all N v \<and> distinct (map key v)
        \<and> key ` set t \<inter> key ` set v = {})"

lemma rows_evolveI:
  "list_all2 R t u \<Longrightarrow> list_all N v \<Longrightarrow> distinct (map key v) \<Longrightarrow> key ` set t \<inter> key ` set v = {} \<Longrightarrow>
     rows_evolve key R N t (u @ v)"
  by (auto simp: rows_evolve_def)

lemma rows_evolve_same_length: "list_all2 R t u \<Longrightarrow> rows_evolve key R N t u"
  using rows_evolveI [of R t u N "[]" key] by simp

lemma rows_evolveE:
  assumes "rows_evolve key R N t t'"
  obtains u v where "t' = u @ v" "list_all2 R t u" "list_all N v" "distinct (map key v)"
    "key ` set t \<inter> key ` set v = {}"
  using assms by (auto simp: rows_evolve_def)

lemma list_all2_left: "list_all2 R t u \<Longrightarrow> r \<in> set t \<Longrightarrow> \<exists>r' \<in> set u. R r r'"
  by (induction rule: list_all2_induct) auto

lemma list_all2_right: "list_all2 R t u \<Longrightarrow> r' \<in> set u \<Longrightarrow> \<exists>r \<in> set t. R r r'"
  by (induction rule: list_all2_induct) auto

lemma rows_evolve_old:
  assumes "rows_evolve key R N t t'" and "r \<in> set t"
  shows "\<exists>r' \<in> set t'. R r r'"
  using assms(1)
proof (rule rows_evolveE)
  fix u v assume "t' = u @ v" "list_all2 R t u"
  then show ?thesis using list_all2_left [OF _ assms(2)] by auto
qed

lemma rows_evolve_new:
  assumes "rows_evolve key R N t t'" and "r' \<in> set t'"
  shows "(\<exists>r \<in> set t. R r r') \<or> N r'"
  using assms(1)
proof (rule rows_evolveE)
  fix u v assume "t' = u @ v" "list_all2 R t u" "list_all N v"
  then show ?thesis using assms(2) list_all2_right [of R t u r'] by (auto simp: list_all_iff)
qed

lemma rows_evolve_mono:
  assumes "rows_evolve key R N t t'" and "\<And>r r'. R r r' \<Longrightarrow> R' r r'" and "\<And>r. N r \<Longrightarrow> N' r"
  shows "rows_evolve key R' N' t t'"
  using assms(1)
proof (rule rows_evolveE)
  fix u v
  assume *: "t' = u @ v" "list_all2 R t u" "list_all N v" "distinct (map key v)"
    "key ` set t \<inter> key ` set v = {}"
  have "list_all2 R' t u" using *(2) assms(2) by (rule list_all2_mono)
  moreover have "list_all N' v" using *(3) assms(3) by (auto simp: list_all_iff)
  ultimately show ?thesis unfolding *(1) using *(4,5) by (intro rows_evolveI)
qed

text \<open>
  One statement moves a table by a reflexive row relation \<open>R\<close> that keeps the primary key; over
  several statements the relation is also transitive, and what new rows satisfy is stable under it.
\<close>

locale row_steps =
  fixes key :: "'r \<Rightarrow> 'k" and R :: "'r \<Rightarrow> 'r \<Rightarrow> bool" and N :: "'r \<Rightarrow> bool"
  assumes R_refl: "R r r"
    and R_key: "R r s \<Longrightarrow> key s = key r"
begin

lemma evolve_refl: "rows_evolve key R N t t"
  by (rule rows_evolve_same_length) (simp add: list_all2_same R_refl)

lemma evolve_update:
  assumes "\<And>r. r \<in> set t \<Longrightarrow> P r \<Longrightarrow> R r (f r)"
  shows "rows_evolve key R N t (sql_update P f t)"
  using assms R_refl
  by (intro rows_evolve_same_length) (auto simp: sql_update_def list_all2_conv_all_nth)

lemma evolve_append:
  assumes "N r" and "\<And>s. s \<in> set t \<Longrightarrow> key s \<noteq> key r"
  shows "rows_evolve key R N t (t @ [r])"
proof (rule rows_evolveI)
  show "key ` set t \<inter> key ` set [r] = {}" using assms(2) by (auto dest: sym)
qed (simp_all add: list_all2_same R_refl assms(1))

lemmas evolve_intros = evolve_refl evolve_update evolve_append

lemma keys_same: "list_all2 R t u \<Longrightarrow> map key u = map key t"
  by (induction rule: list_all2_induct) (auto dest: R_key)

lemma evolve_distinct:
  assumes "rows_evolve key R N t t'" and "distinct (map key t)"
  shows "distinct (map key t')"
  using assms(1)
proof (rule rows_evolveE)
  fix u v
  assume *: "t' = u @ v" "list_all2 R t u" "distinct (map key v)" "key ` set t \<inter> key ` set v = {}"
  have "map key u = map key t" using *(2) by (rule keys_same)
  then have "distinct (map key u)" "key ` set u = key ` set t"
    using assms(2) by (simp_all flip: set_map)
  with * show ?thesis by (simp add: distinct_map)
qed

end

context row_steps
begin

text \<open>Two rows with one key, before and after: the later one comes from the earlier one.\<close>

lemma evolve_same_key:
  assumes "rows_evolve key R N t t'" and "distinct (map key t)"
    and "r \<in> set t" "r' \<in> set t'" "key r' = key r"
  shows "R r r'"
  using assms(1)
proof (rule rows_evolveE)
  fix u v
  assume *: "t' = u @ v" "list_all2 R t u" "key ` set t \<inter> key ` set v = {}"
  have "r' \<notin> set v"
    using *(3) assms(3,5) by (metis disjoint_iff image_eqI)
  then have "r' \<in> set u" using *(1) assms(4) by simp
  then obtain s where s: "s \<in> set t" "R s r'" using list_all2_right [OF *(2)] by blast
  then have "key s = key r" using R_key assms(5) by metis
  with assms(2,3) s(1) have "s = r" by (auto simp: distinct_map dest: inj_onD)
  with s(2) show ?thesis by simp
qed

end

locale row_evolution = row_steps +
  assumes R_trans: "R r s \<Longrightarrow> R s t \<Longrightarrow> R r t"
    and N_stable: "N r \<Longrightarrow> R r s \<Longrightarrow> N s"
begin

lemma evolve_trans:
  assumes "rows_evolve key R N t t'" and "rows_evolve key R N t' t''"
  shows "rows_evolve key R N t t''"
proof -
  from assms(1) obtain u v where 1: "t' = u @ v" "list_all2 R t u" "list_all N v"
      "distinct (map key v)" "key ` set t \<inter> key ` set v = {}" by (rule rows_evolveE)
  from assms(2) obtain w x where 2: "t'' = w @ x" "list_all2 R t' w" "list_all N x"
      "distinct (map key x)" "key ` set t' \<inter> key ` set x = {}" by (rule rows_evolveE)
  from 2(2) 1(1) obtain w1 w2 where w: "w = w1 @ w2" "list_all2 R u w1" "list_all2 R v w2"
    by (auto simp: list_all2_append1)
  have "list_all2 R t w1"
    using 1(2) w(2) by (rule list_all2_trans [rotated]) (blast intro: R_trans)
  moreover have "list_all N w2"
    using w(3) 1(3) N_stable by (auto simp: list_all_iff dest!: list_all2_right)
  moreover have k: "map key w2 = map key v" "map key u = map key t"
    using w(3) 1(2) by (simp_all add: keys_same)
  then have ks: "key ` set w2 = key ` set v" "key ` set u = key ` set t"
    by (simp_all flip: set_map)
  have "distinct (map key (w2 @ x))" "key ` set t \<inter> key ` set (w2 @ x) = {}"
    using 1 2 k ks by (auto simp: distinct_map image_Un)
  ultimately show ?thesis
    using 2(1,3) w(1) rows_evolveI [of R t w1 N "w2 @ x" key] by simp
qed

lemma evolve_rtranclp:
  assumes "rtranclp step d d'" and "\<And>x y. step x y \<Longrightarrow> rows_evolve key R N (table x) (table y)"
  shows "rows_evolve key R N (table d) (table d')"
  using assms(1)
  by (induction rule: rtranclp_induct) (auto intro: evolve_refl evolve_trans assms(2))

end

end
