(* ===== verification/Exec_Schema.thy ===== *)
theory Exec_Schema
  imports Tables Timestamps
begin

text \<open>
  The execution-governance part of the database of \<open>backend/app/core/db.py\<close>: its row types
  (\<open>execution_requests\<close>, \<open>execution_decisions\<close>, \<open>execution_runs\<close>,
  \<open>execution_dispatch_intents\<close>, \<open>execution_process_ownership\<close>, \<open>execution_recovery_state\<close>,
  \<open>revoked_tokens\<close>, and the audit events handed to \<open>_insert_audit_event_conn\<close>), the run state
  machine and reason-code registry of \<open>backend/app/core/models.py\<close>, and the reads several
  operations share.

  Timestamps are integers (microseconds of UTC time): every writer stores
  \<open>utc_now().isoformat()\<close>, whose texts SQL compares in the same order as the instants.  A
  \<open>_json\<close> column is the association list of the sorted-key serialisation.  A field of type
  \<open>option\<close> is a nullable column.
\<close>

section \<open>Run states and reason codes\<close>

datatype run_state = REQUESTED | STARTING | RUNNING | SUCCEEDED | PARTIAL_RESULTS_WITH_WARNING
  | FAILED | TIMED_OUT | CANCELLED | EXECUTION_BLOCKED

definition EXECUTION_RUN_TERMINAL_STATES :: "run_state list" where
  "EXECUTION_RUN_TERMINAL_STATES =
     [SUCCEEDED, PARTIAL_RESULTS_WITH_WARNING, FAILED, TIMED_OUT, CANCELLED, EXECUTION_BLOCKED]"

fun EXECUTION_RUN_TRANSITIONS :: "run_state \<Rightarrow> run_state list" where
  "EXECUTION_RUN_TRANSITIONS REQUESTED = [STARTING, CANCELLED, EXECUTION_BLOCKED]"
| "EXECUTION_RUN_TRANSITIONS STARTING = [RUNNING, FAILED, CANCELLED, EXECUTION_BLOCKED]"
| "EXECUTION_RUN_TRANSITIONS RUNNING =
     [SUCCEEDED, PARTIAL_RESULTS_WITH_WARNING, FAILED, TIMED_OUT, CANCELLED]"
| "EXECUTION_RUN_TRANSITIONS _ = []"

definition EXECUTION_REASON_CODES :: "string list" where
  "EXECUTION_REASON_CODES =
    [''EXECUTION_AUTHORITY_EXPIRED'', ''EXECUTION_AUTHORITY_RELEASED'',
     ''EXECUTION_AUTHORITY_REVOKED_OR_EXPIRED'', ''EXECUTION_CANCELLED_ACKNOWLEDGED'',
     ''EXECUTION_CANCELLED_BEFORE_DISPATCH'', ''EXECUTION_CANCELLED_BEFORE_PROCESS_CREATION'',
     ''EXECUTION_CANCELLED'', ''EXECUTION_DECISION_CLAIM_REJECTED'',
     ''EXECUTION_DISPATCH_FENCE_REQUIRED'', ''EXECUTION_DISPATCH_FAILED'',
     ''EXECUTION_DISPATCH_SETTLEMENT_REQUIRED'', ''EXECUTION_IDENTITY_MISMATCH'',
     ''EXECUTION_LEASE_RENEWAL_FAILED'', ''EXECUTION_TIMEOUT'', ''EXECUTABLE_NOT_FOUND'',
     ''EXECUTABLE_PERMISSION_DENIED'', ''LINKED_DISPATCH_INTENT_MISSING'',
     ''OUTPUT_LIMIT_EXCEEDED'', ''PROCESS_EXECUTION_EXCEPTION'', ''PROCESS_EXIT_NONZERO'',
     ''PROCESS_LAUNCH_REJECTED_SECURITY'', ''PROCESS_LAUNCH_UNCERTAIN'']"

text \<open>\<open>re.fullmatch(r"[A-Z][A-Z0-9_]{0,63}", value)\<close>.\<close>

definition upper_letter :: "char \<Rightarrow> bool" where
  "upper_letter c = (let n = (of_char c :: nat) in 65 \<le> n \<and> n \<le> 90)"

definition digit_char :: "char \<Rightarrow> bool" where
  "digit_char c = (let n = (of_char c :: nat) in 48 \<le> n \<and> n \<le> 57)"

definition reason_code_shape :: "string \<Rightarrow> bool" where
  "reason_code_shape s = (case s of [] \<Rightarrow> False
     | c # cs \<Rightarrow> upper_letter c \<and> length cs \<le> 63 \<and>
         list_all (\<lambda>x. upper_letter x \<or> digit_char x \<or> x = CHR ''_'') cs)"

definition is_canonical_execution_reason_code :: "string option \<Rightarrow> bool" where
  "is_canonical_execution_reason_code v = (case v of None \<Rightarrow> False
     | Some s \<Rightarrow> length s \<le> 64 \<and> reason_code_shape s \<and> s \<in> set EXECUTION_REASON_CODES)"

fun EXECUTION_TERMINAL_REASON_CODES :: "run_state \<Rightarrow> string list option" where
  "EXECUTION_TERMINAL_REASON_CODES SUCCEEDED = Some []"
| "EXECUTION_TERMINAL_REASON_CODES PARTIAL_RESULTS_WITH_WARNING = Some [''OUTPUT_LIMIT_EXCEEDED'']"
| "EXECUTION_TERMINAL_REASON_CODES FAILED = Some
    [''EXECUTION_AUTHORITY_EXPIRED'', ''EXECUTION_AUTHORITY_REVOKED_OR_EXPIRED'',
     ''EXECUTION_DISPATCH_FAILED'', ''EXECUTION_LEASE_RENEWAL_FAILED'',
     ''EXECUTABLE_NOT_FOUND'', ''EXECUTABLE_PERMISSION_DENIED'',
     ''LINKED_DISPATCH_INTENT_MISSING'', ''PROCESS_EXECUTION_EXCEPTION'',
     ''PROCESS_EXIT_NONZERO'', ''PROCESS_LAUNCH_UNCERTAIN'']"
| "EXECUTION_TERMINAL_REASON_CODES TIMED_OUT = Some
    [''EXECUTION_AUTHORITY_EXPIRED'', ''EXECUTION_TIMEOUT'']"
| "EXECUTION_TERMINAL_REASON_CODES CANCELLED = Some
    [''EXECUTION_CANCELLED'', ''EXECUTION_CANCELLED_ACKNOWLEDGED'',
     ''EXECUTION_CANCELLED_BEFORE_DISPATCH'', ''EXECUTION_CANCELLED_BEFORE_PROCESS_CREATION'']"
| "EXECUTION_TERMINAL_REASON_CODES EXECUTION_BLOCKED = Some
    [''EXECUTION_AUTHORITY_REVOKED_OR_EXPIRED'', ''EXECUTION_DECISION_CLAIM_REJECTED'',
     ''EXECUTION_DISPATCH_FENCE_REQUIRED'', ''EXECUTION_DISPATCH_SETTLEMENT_REQUIRED'',
     ''EXECUTION_IDENTITY_MISMATCH'', ''PROCESS_LAUNCH_REJECTED_SECURITY'']"
| "EXECUTION_TERMINAL_REASON_CODES _ = None"

definition is_valid_execution_terminal_outcome :: "run_state \<Rightarrow> string option \<Rightarrow> bool" where
  "is_valid_execution_terminal_outcome s reason =
     (case EXECUTION_TERMINAL_REASON_CODES s of None \<Rightarrow> False
      | Some codes \<Rightarrow>
          if s \<noteq> SUCCEEDED then (case reason of None \<Rightarrow> False | Some c \<Rightarrow> c \<in> set codes)
          else reason = None)"

abbreviation terminal :: "run_state \<Rightarrow> bool" where
  "terminal s \<equiv> s \<in> set EXECUTION_RUN_TERMINAL_STATES"

lemma terminal_simps [simp]:
  "\<not> terminal REQUESTED" "\<not> terminal STARTING" "\<not> terminal RUNNING"
  "terminal SUCCEEDED" "terminal PARTIAL_RESULTS_WITH_WARNING" "terminal FAILED"
  "terminal TIMED_OUT" "terminal CANCELLED" "terminal EXECUTION_BLOCKED"
  by (simp_all add: EXECUTION_RUN_TERMINAL_STATES_def)

lemma valid_outcome_terminal: "is_valid_execution_terminal_outcome s c \<Longrightarrow> terminal s"
  by (cases s) (simp_all add: is_valid_execution_terminal_outcome_def)

section \<open>Rows\<close>

text \<open>The twelve columns a request, its decision and its run must agree on.\<close>

record exec_binding =
  b_project_id :: "string option"
  b_asset_id :: string
  b_target_id :: string
  b_authorization_decision_id :: string
  b_target_policy_version :: string
  b_tool_id :: string
  b_operation_family :: string
  b_operation_options :: jobj
  b_operation_policy_revision :: string
  b_resource_budget :: jobj
  b_account_impact_budget :: jobj
  b_credential_scope :: jobj

record exec_request =
  q_id :: string
  q_idempotency_key :: string
  q_request_fingerprint :: string
  q_organization_id :: string
  q_binding :: exec_binding
  q_requested_by_user_id :: string
  q_state :: string
  q_created_at :: time
  q_expires_at :: time
  q_approved_decision_id :: "string option"
  q_approval_idempotency_key :: "string option"

record exec_decision =
  d_id :: string
  d_organization_id :: string
  d_binding :: exec_binding
  d_approval_state :: string
  d_approver_user_id :: string
  d_session_jti :: string
  d_worker_identity :: string
  d_created_at :: time
  d_expires_at :: time
  d_revoked_at :: "time option"
  d_consumed_at :: "time option"
  d_claim_owner :: "string option"
  d_claim_expires_at :: "time option"
  d_started_at :: "time option"
  d_claim_token :: "string option"

text \<open>The authority snapshot a run carries (\<open>target_policy_version\<close> ...
  \<open>snapshot_completeness\<close>).\<close>

record run_snapshot =
  s_target_policy_version :: "string option"
  s_operation_policy_revision :: "string option"
  s_request_fingerprint :: "string option"
  s_operation_options :: jobj
  s_resource_budget :: jobj
  s_account_impact_budget :: jobj
  s_credential_scope :: jobj
  s_snapshot_completeness :: string

record exec_run =
  r_execution_id :: string
  r_request_id :: string
  r_organization_id :: string
  r_approved_decision_id :: "string option"
  r_snapshot :: run_snapshot
  r_state :: run_state
  r_worker_identity :: "string option"
  r_worker_generation :: "string option"
  r_process_id :: "int option"
  r_process_group_id :: "string option"
  r_assurance_state :: string
  r_coverage_state :: string
  r_reason_code :: "string option"
  r_evidence_ref :: "string option"
  r_correlation_id :: "string option"
  r_created_at :: time
  r_started_at :: "time option"
  r_finished_at :: "time option"

datatype dispatch_state = PENDING | CLAIMED | COMPLETED | DFAILED | BLOCKED

record dispatch_intent =
  i_execution_id :: string
  i_organization_id :: string
  i_state :: dispatch_state
  i_attempt_count :: nat
  i_created_at :: time
  i_claimed_at :: "time option"
  i_completed_at :: "time option"
  i_last_error :: "string option"
  i_claimed_by :: "string option"
  i_claim_token :: "string option"
  i_lease_expires_at :: "time option"

end
