(* ===== verification/Operation_Policy.thy ===== *)
theory Operation_Policy
  imports Json
begin

text \<open>
  \<open>backend/app/core/tool_operation_policy.py\<close> and \<open>backend/app/core/tool_fleet.py\<close>: the
  immutable operation-policy artifact, one row per fleet tool and engine, and its canonical
  revision.  SHA-256 (the C library behind \<open>hashlib\<close>) is the parameter \<open>sha256\<close>, from
  the UTF-8 text to the hexadecimal digest.
\<close>

definition SUPPORTED_TOOL_IDS :: "string list" where
  "SUPPORTED_TOOL_IDS =
    [''amass'', ''bandit'', ''checkov'', ''dockle'', ''ffuf'', ''gitleaks'', ''grype'', ''gtfobins'',
     ''httpx'', ''hydra'', ''katana'', ''kube-bench'', ''metasploit'', ''nmap'', ''nuclei'',
     ''osv-scanner'', ''prowler'', ''retire'', ''schemathesis'', ''semgrep'', ''sqlmap'', ''sslyze'',
     ''subfinder'', ''syft'', ''trivy'', ''trufflehog'']"

definition ENGINE_TOOL_IDS :: "(string \<times> string list) list" where
  "ENGINE_TOOL_IDS =
    [(''network'', [''amass'', ''httpx'', ''metasploit'', ''nmap'', ''sslyze'', ''subfinder'']),
     (''web_dast'', [''ffuf'', ''katana'', ''nuclei'', ''schemathesis'', ''sqlmap'']),
     (''code_sast'', [''bandit'', ''gitleaks'', ''grype'', ''osv-scanner'', ''retire'', ''semgrep'',
        ''syft'', ''trivy'', ''trufflehog'']),
     (''infra_iac'', [''checkov'', ''dockle'', ''gtfobins'', ''kube-bench'', ''prowler'', ''trivy'']),
     (''manual'', [''hydra''])]"

record policy_row =
  p_tool_id :: string
  p_engine_id :: string
  p_operation_family :: string
  p_required_options :: jobj
  p_capability_state :: string
  p_credential_requirements :: string
  p_resource_budget :: jobj
  p_account_impact_budget :: jobj
  p_credential_scope :: jobj

definition make_policy_row :: "string \<Rightarrow> string \<Rightarrow> policy_row" where
  "make_policy_row tool_id engine_id =
    (let family = (if tool_id = ''prowler'' then ''cloud_audit''
                   else if tool_id = ''hydra'' then ''manual_authentication''
                   else engine_id @ ''_assessment'');
         options = (if tool_id = ''prowler''
           then [(''provider'', JStr ''aws''), (''output_format'', JStr ''json-asff''),
                 (''quiet'', JBool True)] else []);
         credentials = (if tool_id = ''prowler'' then [(''provider'', JStr ''aws'')] else []);
         capability = (if tool_id = ''gtfobins'' then ''NATIVE''
                       else if tool_id = ''hydra'' then ''DEFERRED'' else ''AVAILABLE'')
     in \<lparr> p_tool_id = tool_id, p_engine_id = engine_id, p_operation_family = family,
          p_required_options = options, p_capability_state = capability,
          p_credential_requirements =
            (if credentials \<noteq> [] then ''typed tenant-scoped credential envelope''
             else ''no credential material''),
          p_resource_budget = [(''timeout_seconds'', JInt 300), (''max_output_bytes'', JInt 10485760)],
          p_account_impact_budget = [(''max_operations'', JInt 1)],
          p_credential_scope = credentials \<rparr>)"

definition POLICY_RECORDS :: "policy_row list" where
  "POLICY_RECORDS = concat (map (\<lambda>(engine_id, tool_ids).
     map (\<lambda>tool_id. make_policy_row tool_id engine_id) tool_ids) ENGINE_TOOL_IDS)"

text \<open>The row as the document serialises it, constant columns included.\<close>

definition policy_row_json :: "policy_row \<Rightarrow> json" where
  "policy_row_json p = JObj
    [(''tool_id'', JStr (p_tool_id p)),
     (''engine_id'', JStr (p_engine_id p)),
     (''operation_family'', JStr (p_operation_family p)),
     (''option_or_module_class'', JStr ''canonical_tool_operation''),
     (''required_options'', JObj (p_required_options p)),
     (''capability_state'', JStr (p_capability_state p)),
     (''default_profile_behavior'', JStr ''EXPLICIT_ADMINISTRATOR_APPROVAL_REQUIRED''),
     (''approval_level'', JStr ''ADMINISTRATOR_APPROVAL_REQUIRED''),
     (''worker_class'', JStr ''isolated-tool-worker''),
     (''target_rules'', JStr ''gateway-issued target bound to tenant, project, and inventory asset''),
     (''credential_requirements'', JStr (p_credential_requirements p)),
     (''resource_budget'', JObj (p_resource_budget p)),
     (''account_impact_budget'', JObj (p_account_impact_budget p)),
     (''credential_scope'', JObj (p_credential_scope p)),
     (''stop_conditions'',
        JStr ''authorization revocation, expiry, cancellation, timeout, output limit''),
     (''evidence_requirements'', JStr ''bounded tool output and normalized findings''),
     (''audit_requirements'',
        JStr ''tenant, asset, authorization decision, request, policy revision, and worker identity'')]"

definition POLICY_DOCUMENT :: json where
  "POLICY_DOCUMENT = JObj [(''schema_version'', JInt 2),
     (''records'', JArr (map policy_row_json POLICY_RECORDS))]"

definition OPERATION_POLICY_REVISION :: "(string \<Rightarrow> string) \<Rightarrow> string" where
  "OPERATION_POLICY_REVISION sha256 = sha256 (json_dumps POLICY_DOCUMENT)"

definition is_canonical_operation_policy_revision :: "(string \<Rightarrow> string) \<Rightarrow> string \<Rightarrow> bool" where
  "is_canonical_operation_policy_revision sha256 v = (v = OPERATION_POLICY_REVISION sha256)"

definition get_operation_policy :: "string \<Rightarrow> string \<Rightarrow> policy_row option" where
  "get_operation_policy tool_id family =
     find (\<lambda>p. p_tool_id p = tool_id \<and> p_operation_family p = family) POLICY_RECORDS"

definition get_unresolved_tool_state :: "string \<Rightarrow> (string \<times> string) option" where
  "get_unresolved_tool_state tool_id =
     (if tool_id = ''hydra'' then Some (''DEFERRED'', ''full_capability_automation_deferred'')
      else None)"

section \<open>The artifact and the fleet agree\<close>

lemma make_policy_row_ids [simp]:
  "p_tool_id (make_policy_row t e) = t"
  "p_operation_family (make_policy_row t e) =
     (if t = ''prowler'' then ''cloud_audit'' else if t = ''hydra'' then ''manual_authentication''
      else e @ ''_assessment'')"
  by (simp_all add: make_policy_row_def Let_def)

lemma POLICY_RECORDS_ids:
  "map (\<lambda>p. (p_tool_id p, p_operation_family p)) POLICY_RECORDS =
    concat (map (\<lambda>(engine_id, tool_ids). map (\<lambda>t. (t,
      if t = ''prowler'' then ''cloud_audit'' else if t = ''hydra'' then ''manual_authentication''
      else engine_id @ ''_assessment'')) tool_ids) ENGINE_TOOL_IDS)"
  by (simp add: POLICY_RECORDS_def ENGINE_TOOL_IDS_def)

lemma POLICY_RECORDS_tools: "map p_tool_id POLICY_RECORDS = concat (map snd ENGINE_TOOL_IDS)"
  by (simp add: POLICY_RECORDS_def map_concat comp_def case_prod_beta)

lemma engine_tools_subset: "list_all (\<lambda>t. t \<in> set SUPPORTED_TOOL_IDS) (concat (map snd ENGINE_TOOL_IDS))"
  by code_simp

lemma supported_tools_subset: "list_all (\<lambda>t. t \<in> set (concat (map snd ENGINE_TOOL_IDS))) SUPPORTED_TOOL_IDS"
  by code_simp

lemma policy_rows_cover_fleet: "set (map p_tool_id POLICY_RECORDS) = set SUPPORTED_TOOL_IDS"
  using engine_tools_subset supported_tools_subset
  unfolding POLICY_RECORDS_tools list_all_iff by blast

lemma policy_rows_distinct:
  "distinct (map (\<lambda>p. (p_tool_id p, p_operation_family p)) POLICY_RECORDS)"
  unfolding POLICY_RECORDS_ids by code_simp

end
