(* ===== verification/Exec_Db.thy ===== *)
theory Exec_Db
  imports Exec_Schema Operation_Policy
begin

text \<open>
  The database state the execution operations share, the environment of one call (clock,
  \<open>uuid4\<close>, request correlation, SHA-256), the transaction outcome of
  \<open>_connection_scope\<close>, and the joins several operations of
  \<open>backend/app/core/db.py\<close> perform.
\<close>

section \<open>Process ownership and recovery rows\<close>

datatype ProcessOwnershipState = UNKNOWN | NO_EXTERNAL_PROCESS | EXTERNAL_PROCESS_GOVERNED
  | LAUNCH_UNCERTAIN | RECOVERY_BLOCKED | TERMINAL

datatype ProcessContainerType = CNONE | POSIX_SESSION | WINDOWS_JOB | PROCESS_SET

datatype LaunchCommitState = NOT_ATTEMPTED | COMMITTED | UNCERTAIN

fun PROCESS_OWNERSHIP_TRANSITIONS :: "ProcessOwnershipState \<Rightarrow> ProcessOwnershipState list" where
  "PROCESS_OWNERSHIP_TRANSITIONS UNKNOWN =
     [NO_EXTERNAL_PROCESS, EXTERNAL_PROCESS_GOVERNED, LAUNCH_UNCERTAIN, RECOVERY_BLOCKED]"
| "PROCESS_OWNERSHIP_TRANSITIONS NO_EXTERNAL_PROCESS = [TERMINAL]"
| "PROCESS_OWNERSHIP_TRANSITIONS EXTERNAL_PROCESS_GOVERNED = [RECOVERY_BLOCKED, TERMINAL]"
| "PROCESS_OWNERSHIP_TRANSITIONS LAUNCH_UNCERTAIN =
     [EXTERNAL_PROCESS_GOVERNED, NO_EXTERNAL_PROCESS, RECOVERY_BLOCKED]"
| "PROCESS_OWNERSHIP_TRANSITIONS RECOVERY_BLOCKED = [TERMINAL]"
| "PROCESS_OWNERSHIP_TRANSITIONS TERMINAL = []"

definition is_valid_process_ownership_transition ::
    "ProcessOwnershipState \<Rightarrow> ProcessOwnershipState \<Rightarrow> bool" where
  "is_valid_process_ownership_transition current requested =
     (requested = current \<or> requested \<in> set (PROCESS_OWNERSHIP_TRANSITIONS current))"

record process_ownership =
  o_execution_id :: string
  o_organization_id :: string
  o_ownership_state :: ProcessOwnershipState
  o_container_type :: ProcessContainerType
  o_container_identity :: "string option"
  o_root_process_id :: "int option"
  o_root_process_start_token :: "string option"
  o_process_group_id :: "string option"
  o_session_id :: "string option"
  o_worker_generation :: "string option"
  o_launch_commit_state :: LaunchCommitState
  o_no_process_proof :: "string option"
  o_identity_attestation :: "string option"
  o_correlation_id :: string
  o_created_at :: time
  o_launched_at :: "time option"
  o_last_verified_at :: "time option"
  o_terminalized_at :: "time option"
  o_updated_at :: time

datatype recovery_status = RV_REQUESTED | RV_IN_PROGRESS | RV_CONFIRMED_TERMINATED | RV_DEFERRED
  | RV_FAILED | RV_ESCALATED | RV_EXHAUSTED

record recovery_state =
  v_execution_id :: string
  v_organization_id :: string
  v_status :: recovery_status
  v_owner :: "string option"
  v_lease_token :: "string option"
  v_lease_expires_at :: "time option"
  v_worker_generation :: "string option"
  v_attempt_number :: nat
  v_last_outcome :: "string option"
  v_last_error :: "string option"
  v_next_retry_at :: "time option"
  v_escalation_level :: nat
  v_updated_at :: time

record recovery_attempt =
  t_attempt_id :: string
  t_execution_id :: string
  t_organization_id :: string
  t_worker_identity :: string
  t_worker_generation :: "string option"
  t_attempt_number :: nat
  t_status :: recovery_status
  t_cancellation_status :: "string option"
  t_reason_code :: string
  t_correlation_id :: "string option"
  t_requested_at :: time
  t_started_at :: "time option"
  t_completed_at :: "time option"
  t_next_retry_at :: "time option"
  t_error_code :: "string option"
  t_escalation_level :: nat
  t_health_reference :: "string option"

section \<open>Tenancy rows, audit events, the database\<close>

text \<open>The columns of \<open>organizations\<close>, \<open>users\<close> and \<open>assets\<close> the operations read.\<close>

record organization_row =
  g_id :: string
  g_is_active :: bool

record user_row =
  u_id :: string
  u_organization_id :: string
  u_role :: string
  u_is_active :: bool

record asset_row =
  a_id :: string
  a_organization_id :: string
  a_project_id :: "string option"
  a_active_probing_granted :: bool

record revoked_token =
  k_jti :: string
  k_token_hash :: "string option"
  k_revoked_at :: time
  k_expires_at :: "string option"

text \<open>
  The parent authorization of a whole scan (\<open>scan_authorization_requests\<close>) and its normalized
  operations (\<open>scan_authorization_operations\<close>), which name the child request, decision and run
  materialized for them: the columns the operations on the execution tables read or write, and the
  stored manifest text their revalidation starts from.
\<close>

datatype ScanAuthorizationState = SA_REQUESTED | SA_APPROVED | SA_DISPATCHABLE | SA_REVOKED
  | SA_EXPIRED | SA_CONSUMED

record scan_request =
  sa_scan_request_id :: string
  sa_scan_id :: string
  sa_organization_id :: string
  sa_requested_by_user_id :: string
  sa_project_id :: "string option"
  sa_asset_id :: string
  sa_correlation_id :: string
  sa_manifest_hash :: string
  sa_manifest_json :: string
  sa_target_policy_version :: string
  sa_state :: ScanAuthorizationState
  sa_approver_user_id :: "string option"
  sa_approval_session_jti :: "string option"
  sa_approval_idempotency_key :: "string option"
  sa_created_at :: time
  sa_expires_at :: time
  sa_revoked_at :: "time option"
  sa_consumed_at :: "time option"

record scan_operation =
  so_operation_id :: string
  so_scan_request_id :: string
  so_organization_id :: string
  so_tool_id :: string
  so_engine_id :: string
  so_operation_family :: string
  so_operation_options :: jobj
  so_operation_policy_revision :: string
  so_target_id :: string
  so_authorization_decision_id :: string
  so_resource_budget :: jobj
  so_account_impact_budget :: jobj
  so_credential_scope :: jobj
  so_selection_state :: string
  so_child_request_id :: "string option"
  so_child_decision_id :: "string option"
  so_child_execution_id :: "string option"

text \<open>\<open>AuditEvent\<close>, as handed to \<open>_insert_audit_event_conn\<close>.\<close>

record audit_event =
  ae_id :: string
  ae_timestamp :: time
  ae_actor :: string
  ae_organization_id :: string
  ae_action :: string
  ae_object_type :: string
  ae_object_id :: string
  ae_result :: string
  ae_source_ip :: "string option"
  ae_correlation_id :: "string option"
  ae_details :: jobj

record exec_db =
  organizations :: "organization_row list"
  users :: "user_row list"
  assets :: "asset_row list"
  scan_requests :: "scan_request list"
  scan_operations :: "scan_operation list"
  execution_requests :: "exec_request list"
  execution_decisions :: "exec_decision list"
  execution_runs :: "exec_run list"
  dispatch_intents :: "dispatch_intent list"
  process_ownerships :: "process_ownership list"
  recovery_states :: "recovery_state list"
  recovery_attempts :: "recovery_attempt list"
  revoked_tokens :: "revoked_token list"
  audit_events :: "audit_event list"

text \<open>
  What one call reads from outside the database: the successive \<open>utc_now()\<close> readings, the
  successive \<open>uuid4().hex\<close> values and audit-event timestamps, the request's correlation ID
  (\<open>get_correlation_id()\<close>), and the SHA-256 hex digest of the C library.
\<close>

record env =
  e_now :: "nat \<Rightarrow> time"
  e_uuid :: "nat \<Rightarrow> string"
  e_event_uuid :: "nat \<Rightarrow> string"
  e_event_time :: "nat \<Rightarrow> time"
  e_correlation :: "string option"
  e_sha256 :: "string \<Rightarrow> string"

section \<open>Transactions\<close>

text \<open>
  \<open>ValueError\<close> and \<open>RuntimeError\<close> are the raises of the modelled functions;
  \<open>IntegrityError\<close> is the database's refusal of a taken key.  An outcome pairs the returned
  value or error with the committed database: \<open>_connection_scope\<close> commits on a normal exit and rolls
  back on an exception (\<open>rollback\<close>).
\<close>

datatype db_error = ValueError | RuntimeError | IntegrityError

type_synonym 'a outcome = "(db_error + 'a) \<times> exec_db"

definition rollback :: "exec_db \<Rightarrow> db_error \<Rightarrow> 'a outcome" where
  "rollback db e = (Inl e, db)"

definition commit :: "exec_db \<Rightarrow> 'a \<Rightarrow> 'a outcome" where
  "commit db x = (Inr x, db)"

lemma outcome_simps [simp]:
  "snd (rollback db e) = db" "snd (commit db x) = db"
  "fst (rollback db e) = Inl e" "fst (commit db x) = Inr x"
  by (simp_all add: rollback_def commit_def)

lemma outcome_eq_simps [simp]:
  "rollback db e = (Inl e', db') \<longleftrightarrow> e = e' \<and> db = db'"
  "commit db x = (Inr x', db') \<longleftrightarrow> x = x' \<and> db = db'"
  "rollback db e \<noteq> (Inr x', db')" "commit db x \<noteq> (Inl e', db')"
  by (auto simp: rollback_def commit_def)

text \<open>Following the control flow of an operation branch by branch, for a property \<open>Q\<close> of outcomes.\<close>

lemma branch_flow:
  "(b \<Longrightarrow> Q x) \<Longrightarrow> (\<not> b \<Longrightarrow> Q y) \<Longrightarrow> Q (if b then x else y)"
  "Q (f a) \<Longrightarrow> Q (Let a f)"
  "(z = None \<Longrightarrow> Q n) \<Longrightarrow> (\<And>w. z = Some w \<Longrightarrow> Q (g w)) \<Longrightarrow>
     Q (case z of None \<Rightarrow> n | Some w \<Rightarrow> g w)"
  "(\<And>u v. p = (u, v) \<Longrightarrow> Q (h u v)) \<Longrightarrow> Q (case p of (u, v) \<Rightarrow> h u v)"
  by (auto split: option.splits prod.splits)

section \<open>Audit events\<close>

text \<open>The \<open>k\<close>-th audit event a call constructs; the correlation default is the one
  \<open>_insert_audit_event_conn\<close> fills in.\<close>

definition audit_event_of :: "env \<Rightarrow> nat \<Rightarrow> string \<Rightarrow> string \<Rightarrow> string \<Rightarrow> string \<Rightarrow> string \<Rightarrow> string \<Rightarrow>
    string option \<Rightarrow> jobj \<Rightarrow> audit_event" where
  "audit_event_of env k actor org action otype oid result corr details =
    \<lparr> ae_id = ''aud-'' @ take 12 (e_event_uuid env k), ae_timestamp = e_event_time env k,
      ae_actor = actor, ae_organization_id = org, ae_action = action, ae_object_type = otype,
      ae_object_id = oid, ae_result = result, ae_source_ip = None,
      ae_correlation_id =
        (case corr of Some c \<Rightarrow> Some c
         | None \<Rightarrow> Some (or_else (e_correlation env) (''corr-'' @ e_event_uuid env (1000 + k)))),
      ae_details = details \<rparr>"

definition add_audit :: "audit_event list \<Rightarrow> exec_db \<Rightarrow> exec_db" where
  "add_audit evs db = db\<lparr>audit_events := audit_events db @ evs\<rparr>"

lemma add_audit_frame [simp]:
  "organizations (add_audit evs db) = organizations db"
  "users (add_audit evs db) = users db"
  "assets (add_audit evs db) = assets db"
  "scan_requests (add_audit evs db) = scan_requests db"
  "scan_operations (add_audit evs db) = scan_operations db"
  "execution_requests (add_audit evs db) = execution_requests db"
  "execution_decisions (add_audit evs db) = execution_decisions db"
  "execution_runs (add_audit evs db) = execution_runs db"
  "dispatch_intents (add_audit evs db) = dispatch_intents db"
  "process_ownerships (add_audit evs db) = process_ownerships db"
  "recovery_states (add_audit evs db) = recovery_states db"
  "recovery_attempts (add_audit evs db) = recovery_attempts db"
  "revoked_tokens (add_audit evs db) = revoked_tokens db"
  "audit_events (add_audit evs db) = audit_events db @ evs"
  by (simp_all add: add_audit_def)

text \<open>\<open>_execution_correlation_id_conn\<close>: the run's correlation, else the request's, else a digest.\<close>

definition jopt :: "string option \<Rightarrow> json" where
  "jopt x = (case x of None \<Rightarrow> JNull | Some s \<Rightarrow> JStr s)"

definition created_before :: "exec_run \<Rightarrow> exec_run \<Rightarrow> bool" where
  "created_before r s = (r_created_at r < r_created_at s \<or>
     (r_created_at r = r_created_at s \<and> string_le (r_execution_id r) (r_execution_id s)))"

text \<open>\<open>ORDER BY created_at, execution_id LIMIT 1\<close>.\<close>

fun first_created :: "exec_run list \<Rightarrow> exec_run option" where
  "first_created [] = None"
| "first_created (r # rs) = (case first_created rs of None \<Rightarrow> Some r
     | Some s \<Rightarrow> Some (if created_before r s then r else s))"

definition execution_correlation_id :: "env \<Rightarrow> exec_db \<Rightarrow> string option \<Rightarrow> string \<Rightarrow> string option \<Rightarrow> string" where
  "execution_correlation_id env db eid org did =
    (let row = (if truthy did \<and> \<not> truthy eid
           then first_created (filter (\<lambda>r. sql_eq (r_approved_decision_id r) did
                  \<and> r_organization_id r = org) (execution_runs db))
           else sql_find (\<lambda>r. sql_eq (Some (r_execution_id r)) eid
                  \<and> r_organization_id r = org) (execution_runs db))
     in case row of
          Some r \<Rightarrow>
            (if truthy (r_correlation_id r) then the (r_correlation_id r)
             else if truthy (e_correlation env) then the (e_correlation env)
             else ''corr-execution-'' @ take 32 (e_sha256 env
                   (org @ '':'' @ or_else did (or_else eid ''unknown''))))
        | None \<Rightarrow>
            (if truthy (e_correlation env) then the (e_correlation env)
             else ''corr-execution-'' @ take 32 (e_sha256 env
                   (org @ '':'' @ or_else did (or_else eid ''unknown'')))))"

section \<open>Shared reads\<close>

definition is_token_revoked :: "exec_db \<Rightarrow> string \<Rightarrow> bool" where
  "is_token_revoked db jti = sql_exists (\<lambda>k. k_jti k = jti) (revoked_tokens db)"

definition get_execution_decision :: "exec_db \<Rightarrow> string \<Rightarrow> string option \<Rightarrow> exec_decision option" where
  "get_execution_decision db did org =
     sql_find (\<lambda>d. d_id d = did \<and> (case org of None \<Rightarrow> True | Some o' \<Rightarrow> d_organization_id d = o'))
       (execution_decisions db)"

definition get_execution_request :: "exec_db \<Rightarrow> string \<Rightarrow> string option \<Rightarrow> exec_request option" where
  "get_execution_request db qid org =
     sql_find (\<lambda>q. q_id q = qid \<and> (case org of None \<Rightarrow> True | Some o' \<Rightarrow> q_organization_id q = o'))
       (execution_requests db)"

definition get_execution_run_for_request :: "exec_db \<Rightarrow> string \<Rightarrow> string \<Rightarrow> exec_run option" where
  "get_execution_run_for_request db qid org =
     sql_find (\<lambda>r. r_request_id r = qid \<and> r_organization_id r = org) (execution_runs db)"

definition get_execution_run :: "exec_db \<Rightarrow> string \<Rightarrow> string \<Rightarrow> exec_run option" where
  "get_execution_run db eid org =
     (if py_strip eid = [] \<or> py_strip org = [] then None
      else sql_find (\<lambda>r. r_execution_id r = eid \<and> r_organization_id r = org) (execution_runs db))"

definition get_process_ownership :: "exec_db \<Rightarrow> string \<Rightarrow> string \<Rightarrow> process_ownership option" where
  "get_process_ownership db eid org =
     sql_find (\<lambda>p. o_execution_id p = eid \<and> o_organization_id p = org) (process_ownerships db)"

text \<open>\<open>r JOIN q JOIN d\<close>: the request and the decision of a run.\<close>

definition requests_of :: "exec_db \<Rightarrow> exec_run \<Rightarrow> exec_request list" where
  "requests_of db r =
     filter (\<lambda>q. q_id q = r_request_id r \<and> q_organization_id q = r_organization_id r)
       (execution_requests db)"

definition decisions_of :: "exec_db \<Rightarrow> exec_run \<Rightarrow> exec_decision list" where
  "decisions_of db r =
     filter (\<lambda>d. r_approved_decision_id r = Some (d_id d)
               \<and> d_organization_id d = r_organization_id r) (execution_decisions db)"

definition runs_of_intent :: "exec_db \<Rightarrow> dispatch_intent \<Rightarrow> exec_run list" where
  "runs_of_intent db i =
     filter (\<lambda>r. r_execution_id r = i_execution_id i \<and> r_organization_id r = i_organization_id i)
       (execution_runs db)"

text \<open>The join \<open>intents i JOIN runs r JOIN requests q JOIN decisions d\<close> of one execution.\<close>

definition authority_rows ::
    "exec_db \<Rightarrow> string \<Rightarrow> string \<Rightarrow> (dispatch_intent \<times> exec_run \<times> exec_request \<times> exec_decision) list" where
  "authority_rows db eid org =
     [(i, r, q, d). i \<leftarrow> dispatch_intents db, i_execution_id i = eid, i_organization_id i = org,
        r \<leftarrow> runs_of_intent db i, q \<leftarrow> requests_of db r, d \<leftarrow> decisions_of db r]"

lemma authority_rowsD:
  assumes "(i, r, q, d) \<in> set (authority_rows db eid org)"
  shows "i \<in> set (dispatch_intents db)" "r \<in> set (execution_runs db)"
    "q \<in> set (execution_requests db)" "d \<in> set (execution_decisions db)"
    "i_execution_id i = eid" "i_organization_id i = org"
    "r_execution_id r = eid" "r_organization_id r = org"
    "q_id q = r_request_id r" "q_organization_id q = org"
    "r_approved_decision_id r = Some (d_id d)" "d_organization_id d = org"
  using assms
  by (auto simp: authority_rows_def runs_of_intent_def requests_of_def decisions_of_def
      split: if_splits)

text \<open>
  The authority re-check the settling updates carry: a run with this identity whose request is
  \<open>AUTHORIZED\<close> and unexpired and whose decision is \<open>APPROVED\<close>, unrevoked and unexpired.
\<close>

definition authority_exists :: "exec_db \<Rightarrow> time \<Rightarrow> string \<Rightarrow> string \<Rightarrow> (exec_decision \<Rightarrow> bool) \<Rightarrow> bool" where
  "authority_exists db now eid org extra =
     sql_exists (\<lambda>r. r_execution_id r = eid \<and> r_organization_id r = org \<and>
        sql_exists (\<lambda>q. q_state q = ''AUTHORIZED'' \<and> now < q_expires_at q) (requests_of db r) \<and>
        sql_exists (\<lambda>d. d_approval_state d = ''APPROVED'' \<and> d_revoked_at d = None
                      \<and> now < d_expires_at d \<and> extra d) (decisions_of db r))
       (execution_runs db)"

end
