(* ===== verification/Exec_Requests.thy ===== *)
theory Exec_Requests
  imports Exec_Db
begin

text \<open>
  The authority half of the execution store in \<open>backend/app/core/db.py\<close>: recording an execution
  request, approving it (decision, run, dispatch intent, ownership and recovery rows in one
  transaction), recording a decision or a run directly, and revoking a decision, a request or the
  session token behind a decision.
\<close>

section \<open>Canonical policy checks\<close>

text \<open>Python's \<open>==\<close> on decoded JSON scalars: a boolean equals the integer it stands for.\<close>

fun py_norm :: "json \<Rightarrow> json" where
  "py_norm (JBool b) = JInt (if b then 1 else 0)"
| "py_norm (JArr xs) = JArr (map py_norm xs)"
| "py_norm v = v"

definition py_eq :: "json \<Rightarrow> json \<Rightarrow> bool" where
  "py_eq a b = (py_norm a = py_norm b)"

text \<open>\<open>d.get(k)\<close>, and \<open>isinstance(value, int)\<close> with its value (\<open>bool\<close> is a subclass).\<close>

definition jget :: "jobj \<Rightarrow> string \<Rightarrow> json" where
  "jget d k = (case map_of d k of None \<Rightarrow> JNull | Some v \<Rightarrow> v)"

fun as_int :: "json \<Rightarrow> int option" where
  "as_int (JInt i) = Some i"
| "as_int (JBool b) = Some (if b then 1 else 0)"
| "as_int _ = None"

definition budget_ok :: "int \<Rightarrow> jobj \<Rightarrow> bool" where
  "budget_ok low budget =
     list_all (\<lambda>kv. case as_int (snd kv) of None \<Rightarrow> False | Some i \<Rightarrow> low \<le> i) budget"

definition policy_conformant :: "env \<Rightarrow> exec_binding \<Rightarrow> bool" where
  "policy_conformant env b =
     (is_canonical_operation_policy_revision (e_sha256 env) (b_operation_policy_revision b) \<and>
      (case get_operation_policy (b_tool_id b) (b_operation_family b) of
         None \<Rightarrow> False
       | Some p \<Rightarrow> list_all (\<lambda>kv. py_eq (jget (b_operation_options b) (fst kv)) (snd kv))
                     (p_required_options p)) \<and>
      budget_ok 1 (b_resource_budget b) \<and>
      budget_ok 0 (b_account_impact_budget b) \<and>
      py_eq (jget (b_credential_scope b) ''provider'') (jget (b_operation_options b) ''provider''))"

definition organization_active :: "exec_db \<Rightarrow> string \<Rightarrow> bool" where
  "organization_active db org =
     sql_exists (\<lambda>g. g_id g = org \<and> g_is_active g) (organizations db)"

text \<open>\<open>project_id = ? OR (project_id IS NULL AND ? IS NULL)\<close> is equality of the nullable values.\<close>

definition asset_bound :: "exec_db \<Rightarrow> string \<Rightarrow> string \<Rightarrow> string option \<Rightarrow> bool" where
  "asset_bound db aid org project =
     sql_exists (\<lambda>a. a_id a = aid \<and> a_organization_id a = org \<and> a_project_id a = project)
       (assets db)"

definition probing_granted :: "exec_db \<Rightarrow> string \<Rightarrow> string \<Rightarrow> string option \<Rightarrow> bool" where
  "probing_granted db aid org project =
     sql_exists (\<lambda>a. a_id a = aid \<and> a_organization_id a = org \<and> a_project_id a = project
                   \<and> a_active_probing_granted a) (assets db)"

definition active_user :: "exec_db \<Rightarrow> string \<Rightarrow> string \<Rightarrow> bool" where
  "active_user db uid org =
     sql_exists (\<lambda>u. u_id u = uid \<and> u_organization_id u = org \<and> u_is_active u) (users db)"

definition active_admin :: "exec_db \<Rightarrow> string \<Rightarrow> string \<Rightarrow> bool" where
  "active_admin db uid org =
     sql_exists (\<lambda>u. u_id u = uid \<and> u_organization_id u = org \<and> u_role u = ''ADMIN''
                   \<and> u_is_active u) (users db)"

text \<open>Several audit events of one call, numbered in the order they are inserted.\<close>

definition audit_batch :: "nat \<Rightarrow> (nat \<Rightarrow> audit_event) list \<Rightarrow> audit_event list" where
  "audit_batch n fs = map (\<lambda>kf. snd kf (fst kf)) (enumerate n fs)"

section \<open>Recording requests and decisions\<close>

definition create_execution_request ::
    "env \<Rightarrow> exec_db \<Rightarrow> exec_request \<Rightarrow> exec_request outcome" where
  "create_execution_request env db req =
    (let org = q_organization_id req in
     case sql_find (\<lambda>q. q_organization_id q = org \<and> q_idempotency_key q = q_idempotency_key req)
            (execution_requests db) of
       Some existing \<Rightarrow>
         if q_request_fingerprint existing = q_request_fingerprint req then commit db existing
         else rollback db ValueError
     | None \<Rightarrow>
         if q_state req \<noteq> ''REQUESTED'' \<or> \<not> policy_conformant env (q_binding req)
         then rollback db ValueError
         else if \<not> organization_active db org then rollback db ValueError
         else if \<not> asset_bound db (b_asset_id (q_binding req)) org (b_project_id (q_binding req))
         then rollback db ValueError
         else if \<not> active_user db (q_requested_by_user_id req) org then rollback db ValueError
         else if sql_exists (\<lambda>q. q_id q = q_id req) (execution_requests db)
         then rollback db IntegrityError
         else
           let row = req\<lparr>q_approved_decision_id := None, q_approval_idempotency_key := None\<rparr> in
           commit (add_audit [audit_event_of env 0 (q_requested_by_user_id req) org
                 ''EXECUTION_REQUESTED'' ''execution_request'' (q_id req) ''SUCCESS'' None
                 [(''tool_id'', JStr (b_tool_id (q_binding req))),
                  (''operation_family'', JStr (b_operation_family (q_binding req))),
                  (''request_fingerprint'', JStr (q_request_fingerprint req))]]
               (db\<lparr>execution_requests := execution_requests db @ [row]\<rparr>)) req)"

definition create_execution_decision ::
    "env \<Rightarrow> exec_db \<Rightarrow> exec_decision \<Rightarrow> unit outcome" where
  "create_execution_decision env db dec =
    (let org = d_organization_id dec; b = d_binding dec in
     if d_approval_state dec \<noteq> ''APPROVED'' \<or> \<not> policy_conformant env b then rollback db ValueError
     else if \<not> organization_active db org then rollback db ValueError
     else if \<not> asset_bound db (b_asset_id b) org (b_project_id b) then rollback db ValueError
     else if \<not> active_admin db (d_approver_user_id dec) org then rollback db ValueError
     else if sql_exists (\<lambda>d. d_id d = d_id dec) (execution_decisions db)
     then rollback db IntegrityError
     else
       let row = dec\<lparr>d_consumed_at := None, d_claim_owner := None, d_claim_expires_at := None,
                     d_started_at := None, d_claim_token := None\<rparr> in
       commit (add_audit [audit_event_of env 0 (d_approver_user_id dec) org
             ''EXECUTION_DECISION_CREATED'' ''execution_decision'' (d_id dec) ''SUCCESS'' None
             [(''tool_id'', JStr (b_tool_id b)),
              (''operation_family'', JStr (b_operation_family b)),
              (''asset_id'', JStr (b_asset_id b)),
              (''approval_state'', JStr (d_approval_state dec))]]
           (db\<lparr>execution_decisions := execution_decisions db @ [row]\<rparr>)) ())"

section \<open>Approval\<close>

text \<open>The rows the approval transaction inserts for a request \<open>q\<close>.\<close>

definition approved_decision ::
    "exec_request \<Rightarrow> string \<Rightarrow> string \<Rightarrow> string \<Rightarrow> string \<Rightarrow> time \<Rightarrow> exec_decision" where
  "approved_decision q did approver jti worker now =
    \<lparr> d_id = did, d_organization_id = q_organization_id q, d_binding = q_binding q,
      d_approval_state = ''APPROVED'', d_approver_user_id = approver, d_session_jti = jti,
      d_worker_identity = worker, d_created_at = now, d_expires_at = q_expires_at q,
      d_revoked_at = None, d_consumed_at = None, d_claim_owner = None, d_claim_expires_at = None,
      d_started_at = None, d_claim_token = None \<rparr>"

definition snapshot_of :: "exec_binding \<Rightarrow> string \<Rightarrow> run_snapshot" where
  "snapshot_of b fingerprint =
    \<lparr> s_target_policy_version = Some (b_target_policy_version b),
      s_operation_policy_revision = Some (b_operation_policy_revision b),
      s_request_fingerprint = Some fingerprint,
      s_operation_options = b_operation_options b, s_resource_budget = b_resource_budget b,
      s_account_impact_budget = b_account_impact_budget b,
      s_credential_scope = b_credential_scope b, s_snapshot_completeness = ''COMPLETE'' \<rparr>"

definition approved_run ::
    "exec_request \<Rightarrow> string \<Rightarrow> string \<Rightarrow> string \<Rightarrow> string \<Rightarrow> string \<Rightarrow> time \<Rightarrow> exec_run" where
  "approved_run q eid did worker gen corr now =
    \<lparr> r_execution_id = eid, r_request_id = q_id q, r_organization_id = q_organization_id q,
      r_approved_decision_id = Some did,
      r_snapshot = snapshot_of (q_binding q) (q_request_fingerprint q), r_state = REQUESTED,
      r_worker_identity = Some worker, r_worker_generation = Some gen, r_process_id = None,
      r_process_group_id = None, r_assurance_state = ''UNVERIFIED'',
      r_coverage_state = ''UNAVAILABLE'', r_reason_code = None, r_evidence_ref = None,
      r_correlation_id = Some corr, r_created_at = now, r_started_at = None, r_finished_at = None \<rparr>"

definition pending_intent :: "string \<Rightarrow> string \<Rightarrow> time \<Rightarrow> dispatch_intent" where
  "pending_intent eid org now =
    \<lparr> i_execution_id = eid, i_organization_id = org, i_state = PENDING, i_attempt_count = 0,
      i_created_at = now, i_claimed_at = None, i_completed_at = None, i_last_error = None,
      i_claimed_by = None, i_claim_token = None, i_lease_expires_at = None \<rparr>"

definition fresh_ownership :: "string \<Rightarrow> string \<Rightarrow> string \<Rightarrow> time \<Rightarrow> process_ownership" where
  "fresh_ownership eid org corr now =
    \<lparr> o_execution_id = eid, o_organization_id = org, o_ownership_state = UNKNOWN,
      o_container_type = CNONE, o_container_identity = None, o_root_process_id = None,
      o_root_process_start_token = None, o_process_group_id = None, o_session_id = None,
      o_worker_generation = None, o_launch_commit_state = NOT_ATTEMPTED,
      o_no_process_proof = None, o_identity_attestation = None, o_correlation_id = corr,
      o_created_at = now, o_launched_at = None, o_last_verified_at = None,
      o_terminalized_at = None, o_updated_at = now \<rparr>"

definition fresh_recovery :: "string \<Rightarrow> string \<Rightarrow> time \<Rightarrow> recovery_state" where
  "fresh_recovery eid org now =
    \<lparr> v_execution_id = eid, v_organization_id = org, v_status = RV_REQUESTED, v_owner = None,
      v_lease_token = None, v_lease_expires_at = None, v_worker_generation = None,
      v_attempt_number = 0, v_last_outcome = None, v_last_error = None, v_next_retry_at = None,
      v_escalation_level = 0, v_updated_at = now \<rparr>"

text \<open>A new run's keys are free in the tables the approval and the run creation insert into.\<close>

definition run_keys_free :: "exec_db \<Rightarrow> string \<Rightarrow> string \<Rightarrow> string \<Rightarrow> bool" where
  "run_keys_free db eid rid org =
    (\<not> sql_exists (\<lambda>r. r_execution_id r = eid \<or> (r_request_id r = rid \<and> r_organization_id r = org))
        (execution_runs db) \<and>
     \<not> sql_exists (\<lambda>p. o_execution_id p = eid \<and> o_organization_id p = org) (process_ownerships db) \<and>
     \<not> sql_exists (\<lambda>v. v_execution_id v = eid \<and> v_organization_id v = org) (recovery_states db))"

type_synonym approval = "string \<times> string option \<times> string option"

definition approve_execution_request ::
    "env \<Rightarrow> exec_db \<Rightarrow> string \<Rightarrow> string \<Rightarrow> string \<Rightarrow> string \<Rightarrow> string \<Rightarrow> string \<Rightarrow> string \<Rightarrow> string \<Rightarrow>
     approval outcome" where
  "approve_execution_request env db rid org fp ikey approver jti worker gen =
    (let found = sql_find (\<lambda>q. q_id q = rid \<and> q_organization_id q = org) (execution_requests db) in
     if \<not> truthy (e_correlation env) then
       commit (if found = None then db
               else add_audit [audit_event_of env 0 ''system'' org
                   ''EXECUTION_AUTHORITY_INVARIANT_FAILED'' ''execution_request'' rid ''FAILURE''
                   (Some (''corr-'' @ e_uuid env 0))
                   [(''reason_code'', JStr ''CORRELATION_REQUIRED'')]] db)
         (''CORRELATION_REQUIRED'', None, None)
     else
     let corr = the (e_correlation env) in
     case found of
       None \<Rightarrow> commit db (''NOT_FOUND'', None, None)
     | Some q \<Rightarrow>
       if q_request_fingerprint q \<noteq> fp then commit db (''CONFLICT'', None, None)
       else if q_state q = ''AUTHORIZED'' then
         (if q_approval_idempotency_key q \<noteq> Some ikey then commit db (''CONFLICT'', None, None)
          else case get_execution_run_for_request db rid org of
                 None \<Rightarrow> rollback db ValueError
               | Some r \<Rightarrow> commit db (''REPLAY'', q_approved_decision_id q, Some (r_execution_id r)))
       else if q_state q \<noteq> ''REQUESTED'' then commit db (''CONFLICT'', None, None)
       else
       let now = e_now env 0 in
       if q_expires_at q \<le> now then commit db (''EXPIRED'', None, None)
       else if \<not> probing_granted db (b_asset_id (q_binding q)) org (b_project_id (q_binding q))
       then commit db (''DENIED'', None, None)
       else if \<not> active_admin db approver org \<or> jti = [] \<or> worker = [] \<or> gen = []
       then commit db (''DENIED'', None, None)
       else
       let did = ''dec-'' @ take 16 (e_uuid env 0);
           eid = ''run-'' @ take 16 (e_uuid env 1);
           hit = (\<lambda>x. q_id x = rid \<and> q_organization_id x = org \<and> q_state x = ''REQUESTED'');
           requests = sql_update hit
             (\<lambda>x. x\<lparr>q_state := ''AUTHORIZED'', q_approved_decision_id := Some did,
                     q_approval_idempotency_key := Some ikey\<rparr>) (execution_requests db)
       in
       if sql_rowcount hit (execution_requests db) \<noteq> 1
       then commit (db\<lparr>execution_requests := requests\<rparr>) (''CONFLICT'', None, None)
       else if sql_exists (\<lambda>d. d_id d = did) (execution_decisions db)
          \<or> \<not> run_keys_free db eid rid org
          \<or> sql_exists (\<lambda>i. i_execution_id i = eid) (dispatch_intents db)
       then rollback db IntegrityError
       else
         commit (add_audit
             [audit_event_of env 0 approver org ''EXECUTION_AUTHORIZED'' ''execution_request'' rid
                ''SUCCESS'' None
                [(''decision_id'', JStr did), (''request_fingerprint'', JStr fp)],
              audit_event_of env 1 approver org ''EXECUTION_RUN_CREATED'' ''execution_run'' eid
                ''SUCCESS'' (Some corr)
                [(''request_id'', JStr rid), (''state'', JStr ''REQUESTED'')]]
             (db\<lparr>execution_requests := requests,
                 execution_decisions := execution_decisions db
                   @ [approved_decision q did approver jti worker now],
                 execution_runs := execution_runs db
                   @ [approved_run q eid did worker gen corr now],
                 dispatch_intents := dispatch_intents db @ [pending_intent eid org now],
                 process_ownerships := process_ownerships db @ [fresh_ownership eid org corr now],
                 recovery_states := recovery_states db @ [fresh_recovery eid org now]\<rparr>))
           (''AUTHORIZED'', Some did, Some eid))"

section \<open>Recording a run\<close>

definition create_execution_run :: "env \<Rightarrow> exec_db \<Rightarrow> exec_run \<Rightarrow> exec_run outcome" where
  "create_execution_run env db run =
    (let org = r_organization_id run; eid = r_execution_id run in
     if r_request_id run = [] \<or> org = [] then rollback db ValueError
     else if r_state run \<noteq> REQUESTED then rollback db ValueError
     else case sql_find (\<lambda>q. q_id q = r_request_id run \<and> q_organization_id q = org)
                 (execution_requests db) of
       None \<Rightarrow> rollback db ValueError
     | Some q \<Rightarrow>
       if q_state q \<noteq> ''AUTHORIZED'' \<or> \<not> truthy (q_approved_decision_id q)
       then rollback db ValueError
       else case sql_find (\<lambda>d. Some (d_id d) = q_approved_decision_id q \<and> d_organization_id d = org
                     \<and> d_approval_state d = ''APPROVED'' \<and> d_revoked_at d = None)
                   (execution_decisions db) of
         None \<Rightarrow> rollback db ValueError
       | Some d \<Rightarrow>
         let now = e_now env 0 in
         if q_expires_at q \<le> now \<or> d_expires_at d \<le> now then rollback db ValueError
         else if q_binding q \<noteq> d_binding d then rollback db ValueError
         else if \<not> run_keys_free db eid (r_request_id run) org then rollback db IntegrityError
         else
           let row = run\<lparr>r_approved_decision_id := Some (d_id d),
                         r_snapshot := snapshot_of (d_binding d) (q_request_fingerprint q)\<rparr> in
           commit (add_audit [audit_event_of env 0 (or_else (r_worker_identity run) ''system'') org
                 ''EXECUTION_RUN_CREATED'' ''execution_run'' eid ''SUCCESS'' None
                 [(''request_id'', JStr (r_request_id run)), (''state'', JStr ''REQUESTED'')]]
               (db\<lparr>execution_runs := execution_runs db @ [row],
                   process_ownerships := process_ownerships db
                     @ [fresh_ownership eid org
                          (or_else (r_correlation_id run) (''corr-execution-'' @ eid))
                          (r_created_at run)],
                   recovery_states := recovery_states db
                     @ [fresh_recovery eid org (r_created_at run)]\<rparr>)) run)"

section \<open>Revocation\<close>

text \<open>\<open>execution_runs LEFT JOIN execution_dispatch_intents\<close> for one decision: each run with the
  state of its intent (\<open>execution_id\<close> is the intents' primary key).\<close>

definition linked_runs :: "exec_db \<Rightarrow> string \<Rightarrow> string \<Rightarrow> (exec_run \<times> dispatch_state option) list" where
  "linked_runs db did org =
     map (\<lambda>r. (r, map_option i_state (sql_find (\<lambda>i. i_execution_id i = r_execution_id r
                      \<and> i_organization_id i = r_organization_id r) (dispatch_intents db))))
       (filter (\<lambda>r. r_approved_decision_id r = Some did \<and> r_organization_id r = org)
          (execution_runs db))"

definition cancelled_before_dispatch :: "time \<Rightarrow> exec_run \<Rightarrow> exec_run" where
  "cancelled_before_dispatch now r =
     r\<lparr>r_state := CANCELLED, r_reason_code := Some ''EXECUTION_CANCELLED_BEFORE_DISPATCH'',
       r_finished_at := Some now\<rparr>"

definition blocked_before_dispatch :: "time \<Rightarrow> dispatch_intent \<Rightarrow> dispatch_intent" where
  "blocked_before_dispatch now i =
     i\<lparr>i_state := BLOCKED, i_completed_at := Some now,
       i_last_error := Some ''EXECUTION_CANCELLED_BEFORE_DISPATCH''\<rparr>"

definition cancelled_event :: "env \<Rightarrow> string \<Rightarrow> string \<Rightarrow> string \<Rightarrow> string option \<Rightarrow> nat \<Rightarrow> audit_event" where
  "cancelled_event env actor org eid corr k =
     audit_event_of env k actor org ''EXECUTION_RUN_TRANSITIONED'' ''execution_run'' eid ''SUCCESS''
       corr [(''from'', JStr ''REQUESTED''), (''to'', JStr ''CANCELLED''),
             (''reason_code'', JStr ''EXECUTION_CANCELLED_BEFORE_DISPATCH'')]"

definition revoke_execution_decision ::
    "env \<Rightarrow> exec_db \<Rightarrow> string \<Rightarrow> string \<Rightarrow> string \<Rightarrow> bool outcome" where
  "revoke_execution_decision env db did org actor =
    (if org = [] \<or> actor = [] then rollback db ValueError
     else
     let now = e_now env 0;
         hit = (\<lambda>d. d_id d = did \<and> d_organization_id d = org \<and> d_revoked_at d = None) in
     if sql_rowcount hit (execution_decisions db) = 0 then commit db False
     else
     let linked = linked_runs db did org;
         inconsistent = map (r_execution_id \<circ> fst) (filter (\<lambda>l. snd l = None) linked) in
     if inconsistent \<noteq> [] then
       rollback (add_audit [audit_event_of env 0 actor org ''EXECUTION_AUTHORITY_INVARIANT_FAILED''
           ''execution_decision'' did ''FAILURE'' (Some (''corr-decision-'' @ did))
           [(''reason_code'', JStr ''LINKED_DISPATCH_INTENT_MISSING''),
            (''execution_ids'', JArr (map JStr inconsistent))]] db) ValueError
     else
     let in_scope = (\<lambda>i. i_execution_id i \<in> set (map (r_execution_id \<circ> fst) linked)
                       \<and> i_organization_id i = org \<and> i_state i = PENDING);
         pending_run = (\<lambda>r. r_approved_decision_id r = Some did \<and> r_organization_id r = org
                       \<and> r_state r = REQUESTED);
         blocked = 0 < sql_rowcount in_scope (dispatch_intents db);
         runs = (if blocked
                 then sql_update pending_run (cancelled_before_dispatch now) (execution_runs db)
                 else execution_runs db);
         transitions = (if blocked
                 then filter (\<lambda>r. r_state r = REQUESTED) (map fst linked) else []);
         corr = (\<lambda>e d. execution_correlation_id env db e org d)
     in commit (add_audit (audit_batch 0
           (map (\<lambda>r. cancelled_event env actor org (r_execution_id r)
                       (Some (corr (Some (r_execution_id r)) None))) transitions
            @ [\<lambda>k. audit_event_of env k actor org ''EXECUTION_CANCEL_REQUESTED''
                 ''execution_decision'' did ''SUCCESS''
                 (Some (if linked = [] then ''corr-decision-'' @ did
                        else corr (Some (r_execution_id (fst (hd linked)))) None))
                 [(''propagated_execution_ids'',
                     JArr (map (JStr \<circ> r_execution_id \<circ> fst) linked))],
               \<lambda>k. audit_event_of env k actor org ''EXECUTION_DECISION_REVOKED''
                 ''execution_decision'' did ''SUCCESS'' (Some (corr None (Some did)))
                 [(''decision_id'', JStr did)]]))
         (db\<lparr>execution_decisions := sql_update hit (\<lambda>d. d\<lparr>d_revoked_at := Some now\<rparr>)
               (execution_decisions db),
             execution_requests := sql_update (\<lambda>q. q_approved_decision_id q = Some did
                 \<and> q_organization_id q = org \<and> q_state q = ''AUTHORIZED'')
               (\<lambda>q. q\<lparr>q_state := ''REVOKED''\<rparr>) (execution_requests db),
             dispatch_intents := sql_update in_scope (blocked_before_dispatch now)
               (dispatch_intents db),
             execution_runs := runs\<rparr>)) True)"

definition revoke_execution_request ::
    "env \<Rightarrow> exec_db \<Rightarrow> string \<Rightarrow> string \<Rightarrow> string \<Rightarrow> bool outcome" where
  "revoke_execution_request env db rid org actor =
    (if org = [] \<or> actor = [] then commit db False
     else case sql_find (\<lambda>q. q_id q = rid \<and> q_organization_id q = org) (execution_requests db) of
       None \<Rightarrow> commit db False
     | Some q \<Rightarrow>
       let did = q_approved_decision_id q in
       if truthy did \<and> \<not> sql_exists (\<lambda>d. Some (d_id d) = did \<and> d_organization_id d = org)
             (execution_decisions db)
       then rollback (add_audit [audit_event_of env 0 actor org
                ''EXECUTION_AUTHORITY_INVARIANT_FAILED'' ''execution_request'' rid ''FAILURE'' None
                [(''reason_code'', JStr ''APPROVED_DECISION_REFERENCE_MISSING'')]] db) ValueError
       else
       let now = e_now env 0;
           decisions = (if truthy did
             then sql_update (\<lambda>d. Some (d_id d) = did \<and> d_organization_id d = org
                                  \<and> d_revoked_at d = None)
                    (\<lambda>d. d\<lparr>d_revoked_at := Some now\<rparr>) (execution_decisions db)
             else execution_decisions db);
           hit = (\<lambda>x. q_id x = rid \<and> q_organization_id x = org \<and> q_state x \<noteq> ''REVOKED'');
           changed = 0 < sql_rowcount hit (execution_requests db);
           run = get_execution_run_for_request db rid org;
           block = (\<lambda>i. map_option r_execution_id run = Some (i_execution_id i)
                         \<and> i_organization_id i = org \<and> i_state i = PENDING);
           blocked = sql_rowcount block (dispatch_intents db) = 1;
           cancel = (\<lambda>x. map_option r_execution_id run = Some (r_execution_id x) \<and> blocked
                         \<and> r_organization_id x = org \<and> r_state x = REQUESTED);
           cancelled = sql_rowcount cancel (execution_runs db) = 1
       in commit (add_audit (audit_batch 0
             ([\<lambda>k. audit_event_of env k actor org ''EXECUTION_CANCEL_REQUESTED''
                  ''execution_request'' rid ''SUCCESS'' None [(''decision_id'', jopt did)]]
              @ (if cancelled then [cancelled_event env actor org (r_execution_id (the run)) None]
                 else [])
              @ [\<lambda>k. audit_event_of env k actor org ''EXECUTION_DECISION_REVOKED''
                  ''execution_request'' rid (if changed then ''SUCCESS'' else ''REPLAY'') None
                  [(''decision_id'', jopt did)]]))
           (db\<lparr>execution_decisions := decisions,
               execution_requests := sql_update hit (\<lambda>x. x\<lparr>q_state := ''REVOKED''\<rparr>)
                 (execution_requests db),
               dispatch_intents := sql_update block (blocked_before_dispatch now)
                 (dispatch_intents db),
               execution_runs := sql_update cancel (cancelled_before_dispatch now)
                 (execution_runs db)\<rparr>)) (changed \<or> q_state q = ''REVOKED''))"

text \<open>
  \<open>revoke_token\<close>: revoking a session revokes every live decision approved in it, and the pending
  requests behind those decisions; claimed work is left to the reaper.
\<close>

definition revoke_token ::
    "env \<Rightarrow> exec_db \<Rightarrow> string \<Rightarrow> string option \<Rightarrow> string option \<Rightarrow> unit outcome" where
  "revoke_token env db jti token_hash expires_at =
    (let now = e_now env 0;
         live = (\<lambda>d. d_session_jti d = jti \<and> d_revoked_at d = None);
         affected = concat (map (\<lambda>d.
            (case filter (\<lambda>r. r_approved_decision_id r = Some (d_id d)
                            \<and> r_organization_id r = d_organization_id d) (execution_runs db) of
               [] \<Rightarrow> [(d, None)] | rs \<Rightarrow> map (\<lambda>r. (d, Some r)) rs))
            (filter live (execution_decisions db)));
         token = \<lparr> k_jti = jti, k_token_hash = token_hash, k_revoked_at = now,
                   k_expires_at = expires_at \<rparr>;
         session_ids = map d_id (filter (\<lambda>d. d_session_jti d = jti) (execution_decisions db));
         corr = (\<lambda>d run. case run of
             Some r \<Rightarrow> (if r_execution_id r = [] then ''corr-decision-'' @ d_id d
                        else execution_correlation_id env db (Some (r_execution_id r))
                               (d_organization_id d) None)
           | None \<Rightarrow> ''corr-decision-'' @ d_id d);
         details = [(''reason_code'', JStr ''EXECUTION_CANCELLED''),
                    (''source'', JStr ''SESSION_REVOCATION'')];
         events = concat (map (\<lambda>(d, run).
            (\<lambda>k. audit_event_of env k ''system'' (d_organization_id d)
                ''EXECUTION_DECISION_REVOKED'' ''execution_decision'' (d_id d) ''SUCCESS''
                (Some (corr d run)) details)
            # (case run of
                 Some r \<Rightarrow> (if r_execution_id r \<noteq> [] \<and> r_state r \<in> {REQUESTED, STARTING, RUNNING}
                   then [\<lambda>k. audit_event_of env k ''system'' (d_organization_id d)
                     ''EXECUTION_CANCEL_REQUESTED'' ''execution_run'' (r_execution_id r)
                     ''SUCCESS'' (Some (corr d run)) details]
                   else [])
               | None \<Rightarrow> [])) affected)
     in commit (add_audit (audit_batch 0 events)
         (db\<lparr>revoked_tokens :=
               (if is_token_revoked db jti
                then sql_update (\<lambda>k. k_jti k = jti) (\<lambda>_. token) (revoked_tokens db)
                else revoked_tokens db @ [token]),
             execution_decisions := sql_update live
               (\<lambda>d. d\<lparr>d_revoked_at := Some now\<rparr>) (execution_decisions db),
             execution_requests := sql_update (\<lambda>q. q_state q = ''AUTHORIZED'' \<and>
                 (case q_approved_decision_id q of None \<Rightarrow> False | Some i \<Rightarrow> i \<in> set session_ids))
               (\<lambda>q. q\<lparr>q_state := ''REVOKED''\<rparr>) (execution_requests db)\<rparr>)) ())"

section \<open>Dispatch rejections\<close>

text \<open>\<open>_record_dispatch_rejection_conn\<close>; the correlation lookup raises without an organization.\<close>

definition record_dispatch_rejection ::
    "env \<Rightarrow> exec_db \<Rightarrow> string \<Rightarrow> string \<Rightarrow> string \<Rightarrow> string \<Rightarrow> string \<Rightarrow> jobj \<Rightarrow> 'a \<Rightarrow> 'a outcome" where
  "record_dispatch_rejection env db eid org actor action reason details result =
    (if org = [] then rollback db ValueError
     else commit (add_audit [audit_event_of env 0 (or_else (Some actor) ''system'') org action
            ''execution_dispatch_intent'' (or_else (Some eid) ''unknown'') ''REJECTED''
            (Some (execution_correlation_id env db (Some eid) org None))
            ((''reason_code'', JStr reason) # details)] db) result)"

end
