(* ===== verification/Exec_Dispatch.thy ===== *)
theory Exec_Dispatch
  imports Exec_Requests
begin

text \<open>
  The dispatch half of the execution store in \<open>backend/app/core/db.py\<close>: claiming, renewing and
  releasing the leases on a decision and on its dispatch intent, starting, aborting, finishing and
  settling a run, acknowledging a cancellation, and the reaper.  A timestamp is in microseconds.
\<close>

record decision_claim =
  lc_token :: string
  lc_owner :: string
  lc_expires_at :: time

record dispatch_lease =
  dl_execution_id :: string
  dl_organization_id :: string
  dl_owner :: string
  dl_token :: string
  dl_expires_at :: time
  dl_attempt_count :: nat

record authority_lease =
  al_decision :: decision_claim
  al_dispatch :: dispatch_lease
  al_execution_id :: string
  al_correlation_id :: string

definition seconds :: "int \<Rightarrow> time" where
  "seconds n = n * 1000000"

text \<open>\<open>now or utc_now()\<close>.\<close>

definition reading :: "env \<Rightarrow> time option \<Rightarrow> time" where
  "reading env now = (case now of None \<Rightarrow> e_now env 0 | Some t \<Rightarrow> t)"

definition intents_of :: "exec_db \<Rightarrow> exec_run \<Rightarrow> dispatch_intent list" where
  "intents_of db r =
     filter (\<lambda>i. i_execution_id i = r_execution_id r \<and> i_organization_id i = r_organization_id r)
       (dispatch_intents db)"

text \<open>\<open>decisions d JOIN runs r JOIN requests q JOIN intents i\<close> of one decision.\<close>

definition decision_tuples ::
    "exec_db \<Rightarrow> exec_decision \<Rightarrow> (exec_run \<times> exec_request \<times> dispatch_intent) list" where
  "decision_tuples db d =
     [(r, q, i). r \<leftarrow> execution_runs db, r_approved_decision_id r = Some (d_id d),
        r_organization_id r = d_organization_id d, q \<leftarrow> requests_of db r, i \<leftarrow> intents_of db r]"

definition terminal_dispatch_state :: "run_state \<Rightarrow> dispatch_state option" where
  "terminal_dispatch_state s = (case s of
      SUCCEEDED \<Rightarrow> Some COMPLETED | PARTIAL_RESULTS_WITH_WARNING \<Rightarrow> Some COMPLETED
    | FAILED \<Rightarrow> Some DFAILED | TIMED_OUT \<Rightarrow> Some DFAILED
    | CANCELLED \<Rightarrow> Some BLOCKED | EXECUTION_BLOCKED \<Rightarrow> Some BLOCKED
    | _ \<Rightarrow> None)"

fun state_name :: "run_state \<Rightarrow> string" where
  "state_name REQUESTED = ''REQUESTED''"
| "state_name STARTING = ''STARTING''"
| "state_name RUNNING = ''RUNNING''"
| "state_name SUCCEEDED = ''SUCCEEDED''"
| "state_name PARTIAL_RESULTS_WITH_WARNING = ''PARTIAL_RESULTS_WITH_WARNING''"
| "state_name FAILED = ''FAILED''"
| "state_name TIMED_OUT = ''TIMED_OUT''"
| "state_name CANCELLED = ''CANCELLED''"
| "state_name EXECUTION_BLOCKED = ''EXECUTION_BLOCKED''"

fun dispatch_state_name :: "dispatch_state \<Rightarrow> string" where
  "dispatch_state_name PENDING = ''PENDING''"
| "dispatch_state_name CLAIMED = ''CLAIMED''"
| "dispatch_state_name COMPLETED = ''COMPLETED''"
| "dispatch_state_name DFAILED = ''FAILED''"
| "dispatch_state_name BLOCKED = ''BLOCKED''"

text \<open>The row updates several operations share: an intent claimed, settled or released, a
  decision's claim cleared.\<close>

definition claim_intent :: "time \<Rightarrow> string \<Rightarrow> string \<Rightarrow> time \<Rightarrow> dispatch_intent \<Rightarrow> dispatch_intent" where
  "claim_intent now worker token expiry i =
     i\<lparr>i_state := CLAIMED, i_attempt_count := i_attempt_count i + 1, i_claimed_at := Some now,
       i_claimed_by := Some worker, i_claim_token := Some token, i_lease_expires_at := Some expiry\<rparr>"

definition settle_intent :: "dispatch_state \<Rightarrow> time \<Rightarrow> string option \<Rightarrow> dispatch_intent \<Rightarrow> dispatch_intent" where
  "settle_intent s now err i =
     i\<lparr>i_state := s, i_completed_at := Some now, i_last_error := err, i_claimed_by := None,
       i_claim_token := None, i_lease_expires_at := None\<rparr>"

definition release_intent :: "dispatch_intent \<Rightarrow> dispatch_intent" where
  "release_intent i =
     i\<lparr>i_state := PENDING, i_claimed_by := None, i_claim_token := None, i_lease_expires_at := None,
       i_claimed_at := None\<rparr>"

definition clear_claim :: "exec_decision \<Rightarrow> exec_decision" where
  "clear_claim d = d\<lparr>d_claim_owner := None, d_claim_expires_at := None, d_claim_token := None\<rparr>"

definition held_by :: "string \<Rightarrow> string \<Rightarrow> dispatch_intent \<Rightarrow> bool" where
  "held_by worker token i =
     (i_state i = CLAIMED \<and> i_claimed_by i = Some worker \<and> i_claim_token i = Some token)"

section \<open>The decision's own claim\<close>

text \<open>The decision a worker may claim: approved for this session, worker and policy revision,
  unrevoked, unconsumed, unexpired, not under a live claim, with one authorized run.\<close>

definition decision_claimable ::
    "exec_db \<Rightarrow> time \<Rightarrow> string \<Rightarrow> string \<Rightarrow> string \<Rightarrow> string \<Rightarrow> string \<Rightarrow> exec_decision \<Rightarrow> bool" where
  "decision_claimable db now did org jti worker revision d =
    (d_id d = did \<and> d_organization_id d = org \<and> d_session_jti d = jti
            \<and> d_worker_identity d = worker \<and> b_operation_policy_revision (d_binding d) = revision
            \<and> d_approval_state d = ''APPROVED'' \<and> d_revoked_at d = None \<and> d_consumed_at d = None
            \<and> (d_claim_expires_at d = None \<or> not_after (d_claim_expires_at d) now)
            \<and> now < d_expires_at d
            \<and> sql_exists (\<lambda>(r, q, i). q_state q = ''AUTHORIZED'' \<and> now < q_expires_at q
                 \<and> i_state i \<in> {PENDING, CLAIMED}
                 \<and> (i_state i = PENDING \<or> i_claimed_by i = Some worker)
                 \<and> length (decision_tuples db d) = 1) (decision_tuples db d))"

definition claim_execution_decision ::
    "env \<Rightarrow> exec_db \<Rightarrow> string \<Rightarrow> string \<Rightarrow> string \<Rightarrow> string \<Rightarrow> string \<Rightarrow> time option \<Rightarrow>
     decision_claim option outcome" where
  "claim_execution_decision env db did org jti worker revision now_arg =
    (let now = reading env now_arg;
         expiry = now + seconds 30;
         token = e_uuid env 0;
         hit = decision_claimable db now did org jti worker revision;
         claimed = db\<lparr>execution_decisions := sql_update hit
                    (\<lambda>d. d\<lparr>d_claim_owner := Some worker, d_claim_expires_at := Some expiry,
                            d_claim_token := Some token\<rparr>) (execution_decisions db)\<rparr>
     in if sql_rowcount hit (execution_decisions db) \<noteq> 1 then
          commit (add_audit [audit_event_of env 0 (or_else (Some worker) ''system'')
                (or_else (Some org) ''unknown'') ''EXECUTION_DECISION_CLAIM_REJECTED''
                ''execution_decision'' (or_else (Some did) ''unknown'') ''REJECTED'' None
                [(''reason_code'', JStr ''EXECUTION_DECISION_CLAIM_REJECTED'')]] claimed) None
        else
          commit (add_audit [audit_event_of env 0 worker org ''EXECUTION_DECISION_CLAIMED''
                ''execution_decision'' did ''SUCCESS'' None [(''worker_identity'', JStr worker)]]
              claimed)
            (Some \<lparr> lc_token = token, lc_owner = worker, lc_expires_at = expiry \<rparr>))"

definition release_execution_decision_claim ::
    "env \<Rightarrow> exec_db \<Rightarrow> string \<Rightarrow> string \<Rightarrow> string \<Rightarrow> string \<Rightarrow> bool outcome" where
  "release_execution_decision_claim env db did org worker token =
    (let hit = (\<lambda>d. d_id d = did \<and> d_organization_id d = org \<and> d_claim_owner d = Some worker
                  \<and> d_claim_token d = Some token \<and> d_consumed_at d = None);
         released = db\<lparr>execution_decisions := sql_update hit clear_claim (execution_decisions db)\<rparr>
     in if sql_rowcount hit (execution_decisions db) = 1 then
          commit (add_audit [audit_event_of env 0 worker org ''EXECUTION_DECISION_LEASE_RELEASED''
              ''execution_decision'' did ''SUCCESS'' None [(''claim_token'', JStr token)]] released) True
        else commit released False)"

text \<open>The decision a worker may start: its own live claim, live authority, the dispatch lease it holds,
  a run in \<open>STARTING\<close>, and one run only.\<close>

definition startable ::
    "exec_db \<Rightarrow> time \<Rightarrow> string \<Rightarrow> string \<Rightarrow> string \<Rightarrow> string \<Rightarrow> string option \<Rightarrow> exec_decision \<Rightarrow> bool" where
  "startable db now did org worker token dispatch_token d =
    (d_id d = did \<and> d_organization_id d = org \<and> d_claim_owner d = Some worker
            \<and> d_claim_token d = Some token \<and> d_consumed_at d = None \<and> d_revoked_at d = None
            \<and> now < d_expires_at d \<and> after (d_claim_expires_at d) now
            \<and> sql_exists (\<lambda>(r, q, i). q_state q = ''AUTHORIZED'' \<and> now < q_expires_at q
                 \<and> i_state i = CLAIMED \<and> i_claimed_by i = Some worker
                 \<and> sql_eq (i_claim_token i) dispatch_token \<and> after (i_lease_expires_at i) now
                 \<and> r_state r = STARTING \<and> \<not> is_token_revoked db (d_session_jti d)
                 \<and> length (decision_tuples db d) = 1) (decision_tuples db d))"

definition mark_execution_decision_started ::
    "env \<Rightarrow> exec_db \<Rightarrow> string \<Rightarrow> string \<Rightarrow> string \<Rightarrow> string \<Rightarrow> string option \<Rightarrow> int option \<Rightarrow>
     string option \<Rightarrow> time option \<Rightarrow> bool outcome" where
  "mark_execution_decision_started env db did org worker token dispatch_token pid pgid now_arg =
    (let now = reading env now_arg;
         hit = startable db now did org worker token dispatch_token;
         run_hit = (\<lambda>r. r_approved_decision_id r = Some did \<and> r_organization_id r = org
            \<and> r_state r = STARTING \<and> r_worker_identity r = Some worker);
         corr = execution_correlation_id env db None org (Some did)
     in if sql_rowcount hit (execution_decisions db) = 1 then
          (if sql_rowcount run_hit (execution_runs db) \<noteq> 1 then rollback db RuntimeError
           else commit (add_audit
              [audit_event_of env 0 worker org ''EXECUTION_DECISION_STARTED'' ''execution_decision''
                 did ''SUCCESS'' (Some corr) [(''claim_token'', JStr token)],
               audit_event_of env 1 worker org ''EXECUTION_DECISION_CONSUMED'' ''execution_decision''
                 did ''SUCCESS'' (Some corr) [(''claim_token'', JStr token)]]
              (db\<lparr>execution_decisions := sql_update hit
                    (\<lambda>d. d\<lparr>d_started_at := Some now, d_consumed_at := Some now,
                            d_claim_expires_at := None\<rparr>) (execution_decisions db),
                  execution_runs := sql_update run_hit
                    (\<lambda>r. r\<lparr>r_state := RUNNING, r_process_id := pid, r_process_group_id := pgid,
                            r_started_at := coalesce (r_started_at r) (Some now)\<rparr>)
                    (execution_runs db)\<rparr>)) True)
        else commit (db\<lparr>execution_decisions := sql_update hit
                    (\<lambda>d. d\<lparr>d_started_at := Some now, d_consumed_at := Some now,
                            d_claim_expires_at := None\<rparr>) (execution_decisions db)\<rparr>) False)"

section \<open>The shared launch fence\<close>

text \<open>The rows one launch may bind: the live decision with its run, request and intent, the intent free
  or already leased to this worker under the supplied token.\<close>

definition authority_candidates ::
    "exec_db \<Rightarrow> string \<Rightarrow> string \<Rightarrow> string \<Rightarrow> string \<Rightarrow> string \<Rightarrow> string option \<Rightarrow> time \<Rightarrow>
     (exec_decision \<times> exec_run \<times> exec_request \<times> dispatch_intent) list" where
  "authority_candidates db did org jti worker revision dispatch_token now =
    [(d, r, q, i). d \<leftarrow> execution_decisions db, d_id d = did, d_organization_id d = org,
       d_session_jti d = jti, d_worker_identity d = worker,
       b_operation_policy_revision (d_binding d) = revision,
       d_approval_state d = ''APPROVED'', d_revoked_at d = None, d_consumed_at d = None,
       \<not> is_token_revoked db (d_session_jti d), now < d_expires_at d,
       (r, q, i) \<leftarrow> decision_tuples db d,
       q_state q = ''AUTHORIZED'', now < q_expires_at q, r_state r \<in> {REQUESTED, STARTING},
       i_state i = PENDING \<or> (i_state i = CLAIMED \<and> i_claimed_by i = Some worker
         \<and> sql_eq (i_claim_token i) dispatch_token \<and> after (i_lease_expires_at i) now)]"

definition claim_execution_authority ::
    "env \<Rightarrow> exec_db \<Rightarrow> string \<Rightarrow> string \<Rightarrow> string \<Rightarrow> string \<Rightarrow> string \<Rightarrow> string option \<Rightarrow>
     time option \<Rightarrow> int \<Rightarrow> authority_lease option outcome" where
  "claim_execution_authority env db did org jti worker revision dispatch_token now_arg lease_seconds =
    (if did = [] \<or> org = [] \<or> jti = [] \<or> worker = [] \<or> lease_seconds \<le> 0 then commit db None
     else
     let now = reading env now_arg;
         decision_token = e_uuid env 0;
         new_token = or_else dispatch_token (e_uuid env 1);
         new_expiry = now + seconds lease_seconds;
         rows = authority_candidates db did org jti worker revision dispatch_token now
     in case rows of
       [(d, r, q, i)] \<Rightarrow>
         let eid = r_execution_id r;
             fresh = (i_state i = PENDING);
             intent_hit = (\<lambda>x. i_execution_id x = eid \<and> i_organization_id x = org
                            \<and> i_state x = PENDING);
             token = (if fresh then new_token else the (i_claim_token i));
             expiry = (if fresh then new_expiry else the (i_lease_expires_at i));
             run_hit = (\<lambda>x. r_execution_id x = eid \<and> r_organization_id x = org
                         \<and> r_state x = REQUESTED \<and> r_worker_identity x = Some worker);
             decision_hit = (\<lambda>x. d_id x = did \<and> d_organization_id x = org
                \<and> d_approval_state x = ''APPROVED'' \<and> d_revoked_at x = None \<and> d_consumed_at x = None
                \<and> now < d_expires_at x
                \<and> (d_claim_owner x = None \<or> not_after (d_claim_expires_at x) now));
             corr = or_else (r_correlation_id r) (''corr-execution-'' @ eid);
             attempts = i_attempt_count i + (if fresh then 1 else 0);
             dispatch_digest = JStr (e_sha256 env token)
         in
         if fresh \<and> sql_rowcount intent_hit (dispatch_intents db) \<noteq> 1 then rollback db RuntimeError
         else if sql_rowcount run_hit (execution_runs db) \<noteq> 1
            \<and> \<not> (r_state r = STARTING \<and> r_worker_identity r = Some worker)
         then rollback db RuntimeError
         else if sql_rowcount decision_hit (execution_decisions db) \<noteq> 1 then rollback db RuntimeError
         else
           commit (add_audit
             [audit_event_of env 0 worker org ''EXECUTION_DECISION_CLAIMED'' ''execution_decision''
                did ''SUCCESS'' (Some corr)
                [(''execution_id'', JStr eid),
                 (''claim_identity_digest'', JStr (e_sha256 env decision_token)),
                 (''dispatch_identity_digest'', dispatch_digest)],
              audit_event_of env 1 worker org ''EXECUTION_DISPATCH_CLAIMED''
                ''execution_dispatch_intent'' eid ''SUCCESS'' (Some corr)
                [(''attempt_count'', JInt (int attempts)),
                 (''dispatch_identity_digest'', dispatch_digest)],
              audit_event_of env 2 worker org ''EXECUTION_RUN_TRANSITIONED'' ''execution_run'' eid
                ''SUCCESS'' (Some corr)
                [(''from'', JStr ''REQUESTED''), (''to'', JStr ''STARTING''),
                 (''decision_id'', JStr did)]]
             (db\<lparr>dispatch_intents := (if fresh
                   then sql_update intent_hit (claim_intent now worker token expiry)
                          (dispatch_intents db)
                   else dispatch_intents db),
                 execution_runs := sql_update run_hit
                   (\<lambda>x. x\<lparr>r_state := STARTING, r_worker_identity := Some worker\<rparr>)
                   (execution_runs db),
                 execution_decisions := sql_update decision_hit
                   (\<lambda>x. x\<lparr>d_claim_owner := Some worker, d_claim_expires_at := Some expiry,
                           d_claim_token := Some decision_token\<rparr>) (execution_decisions db)\<rparr>))
             (Some \<lparr> al_decision = \<lparr> lc_token = decision_token, lc_owner = worker,
                                        lc_expires_at = expiry \<rparr>,
                      al_dispatch = \<lparr> dl_execution_id = eid, dl_organization_id = org,
                         dl_owner = worker, dl_token = token, dl_expires_at = expiry,
                         dl_attempt_count = attempts \<rparr>,
                      al_execution_id = eid, al_correlation_id = corr \<rparr>)
     | _ \<Rightarrow>
         commit (add_audit [audit_event_of env 0 worker org ''EXECUTION_DECISION_CLAIM_REJECTED''
             ''execution_decision'' did ''REJECTED'' (Some (''corr-decision-'' @ did))
             [(''reason_code'', JStr ''EXECUTION_AUTHORITY_TUPLE_NOT_EXACTLY_ONE''),
              (''candidate_count'', JInt (int (length rows)))]] db) None)"

definition release_execution_authority ::
    "env \<Rightarrow> exec_db \<Rightarrow> string \<Rightarrow> string \<Rightarrow> string \<Rightarrow> string \<Rightarrow> string \<Rightarrow> bool outcome" where
  "release_execution_authority env db did org worker decision_token dispatch_token =
    (if did = [] \<or> org = [] \<or> worker = [] \<or> decision_token = [] \<or> dispatch_token = []
     then commit db False
     else
     let decision_hit = (\<lambda>d. d_id d = did \<and> d_organization_id d = org
            \<and> d_claim_owner d = Some worker \<and> d_claim_token d = Some decision_token
            \<and> d_consumed_at d = None)
     in if \<not> sql_exists decision_hit (execution_decisions db) then commit db False
     else case fetchone [(i, r). i \<leftarrow> dispatch_intents db, i_organization_id i = org,
              held_by worker dispatch_token i, r \<leftarrow> runs_of_intent db i,
              r_approved_decision_id r = Some did, r_state r \<in> {REQUESTED, STARTING}] of
       None \<Rightarrow> commit db False
     | Some (i, r) \<Rightarrow>
         let eid = i_execution_id i;
             intent_hit = (\<lambda>x. i_execution_id x = eid \<and> i_organization_id x = org
                            \<and> held_by worker dispatch_token x);
             corr = or_else (r_correlation_id r) (''corr-execution-'' @ eid)
         in if sql_rowcount decision_hit (execution_decisions db) \<noteq> 1
              \<or> sql_rowcount intent_hit (dispatch_intents db) \<noteq> 1
            then rollback db RuntimeError
            else commit (add_audit
              [audit_event_of env 0 worker org ''EXECUTION_DECISION_LEASE_RELEASED''
                 ''execution_decision'' did ''SUCCESS'' (Some corr) [(''execution_id'', JStr eid)],
               audit_event_of env 1 worker org ''EXECUTION_AUTHORITY_RELEASED''
                 ''execution_dispatch_intent'' eid ''SUCCESS'' (Some corr)
                 [(''reason_code'', JStr ''EXECUTION_AUTHORITY_RELEASED'')]]
              (db\<lparr>execution_decisions := sql_update decision_hit clear_claim (execution_decisions db),
                  dispatch_intents := sql_update intent_hit release_intent (dispatch_intents db)\<rparr>))
              True)"

definition abort_execution_start ::
    "env \<Rightarrow> exec_db \<Rightarrow> string \<Rightarrow> string \<Rightarrow> string \<Rightarrow> string \<Rightarrow> string \<Rightarrow> run_state \<Rightarrow> string \<Rightarrow>
     int option \<Rightarrow> string option \<Rightarrow> bool outcome" where
  "abort_execution_start env db did org worker decision_token dispatch_token ts reason pid pgid =
    (if ts \<notin> {FAILED, CANCELLED, TIMED_OUT, EXECUTION_BLOCKED}
        \<or> \<not> is_valid_execution_terminal_outcome ts (Some reason)
     then rollback db ValueError
     else
     let now = e_now env 0 in
     case fetchone [(i, r). i \<leftarrow> dispatch_intents db, i_organization_id i = org,
              held_by worker dispatch_token i, r \<leftarrow> runs_of_intent db i,
              r_approved_decision_id r = Some did, r_state r = STARTING, d \<leftarrow> decisions_of db r,
              d_claim_owner d = Some worker, d_claim_token d = Some decision_token] of
       None \<Rightarrow> commit db False
     | Some (i, r) \<Rightarrow>
         let eid = i_execution_id i;
             ds = (if ts \<in> {CANCELLED, EXECUTION_BLOCKED} then BLOCKED else DFAILED);
             run_hit = (\<lambda>x. r_execution_id x = eid \<and> r_organization_id x = org \<and> r_state x = STARTING);
             intent_hit = (\<lambda>x. i_execution_id x = eid \<and> i_organization_id x = org
                            \<and> held_by worker dispatch_token x);
             decision_hit = (\<lambda>d. d_id d = did \<and> d_organization_id d = org
                \<and> d_claim_owner d = Some worker \<and> d_claim_token d = Some decision_token
                \<and> d_consumed_at d = None);
             corr = or_else (r_correlation_id r) (''corr-execution-'' @ eid)
         in if sql_rowcount run_hit (execution_runs db) \<noteq> 1
              \<or> sql_rowcount intent_hit (dispatch_intents db) \<noteq> 1
              \<or> sql_rowcount decision_hit (execution_decisions db) \<noteq> 1
            then rollback db RuntimeError
            else commit (add_audit
              [audit_event_of env 0 worker org ''EXECUTION_AUTHORITY_RELEASED'' ''execution_run'' eid
                 ''SUCCESS'' (Some corr)
                 [(''to'', JStr (state_name ts)), (''reason_code'', JStr reason),
                  (''dispatch_state'', JStr (dispatch_state_name ds))],
               audit_event_of env 1 worker org ''EXECUTION_RUN_TRANSITIONED'' ''execution_run'' eid
                 ''SUCCESS'' (Some corr)
                 [(''from'', JStr ''STARTING''), (''to'', JStr (state_name ts)),
                  (''reason_code'', JStr reason)]]
              (db\<lparr>execution_runs := sql_update run_hit
                    (\<lambda>x. x\<lparr>r_state := ts, r_reason_code := Some reason,
                            r_process_id := coalesce pid (r_process_id x),
                            r_process_group_id := coalesce pgid (r_process_group_id x),
                            r_finished_at := Some now\<rparr>) (execution_runs db),
                  dispatch_intents := sql_update intent_hit (settle_intent ds now (Some reason))
                    (dispatch_intents db),
                  execution_decisions := sql_update decision_hit clear_claim
                    (execution_decisions db)\<rparr>)) True)"

section \<open>Finishing a run\<close>

definition finish_execution ::
    "env \<Rightarrow> exec_db \<Rightarrow> string \<Rightarrow> string \<Rightarrow> string \<Rightarrow> string \<Rightarrow> run_state \<Rightarrow> string option \<Rightarrow>
     int option \<Rightarrow> string option \<Rightarrow> bool outcome" where
  "finish_execution env db eid org worker token ts reason pid pgid =
    (if ts \<notin> {SUCCEEDED, PARTIAL_RESULTS_WITH_WARNING, FAILED, TIMED_OUT, CANCELLED}
        \<or> eid = [] \<or> org = [] \<or> worker = [] \<or> token = [] then commit db False
     else if \<not> is_valid_execution_terminal_outcome ts reason then commit db False
     else
     let settled = (\<lambda>s. if s \<in> {SUCCEEDED, PARTIAL_RESULTS_WITH_WARNING} then COMPLETED
                       else if s = CANCELLED then BLOCKED else DFAILED);
         ds = settled ts
     in case fetchone (authority_rows db eid org) of
       None \<Rightarrow> commit db False
     | Some (i, r, q, d) \<Rightarrow>
       let now = e_now env 1 in
       if terminal (r_state r) then
         (if ts = r_state r \<and> i_state i = settled (r_state r) \<and> r_reason_code r = reason
             \<and> i_last_error i = reason \<and> r_worker_identity r = Some worker
             \<and> (pid = None \<or> r_process_id r = pid)
             \<and> (pgid = None \<or> r_process_group_id r = pgid)
          then commit db True
          else record_dispatch_rejection env db eid org worker ''EXECUTION_DISPATCH_FAILED''
                 ''EXECUTION_TERMINAL_OUTCOME_CONFLICT'' [] False)
       else if \<not> held_by worker token i then commit db False
       else if \<not> after (i_lease_expires_at i) (e_now env 2) then commit db False
       else if r_state r \<noteq> RUNNING \<or> r_worker_identity r \<noteq> Some worker then commit db False
       else if q_state q \<noteq> ''AUTHORIZED'' \<or> d_approval_state d \<noteq> ''APPROVED'' \<or> d_revoked_at d \<noteq> None
       then commit db False
       else if q_expires_at q \<le> e_now env 3 \<or> d_expires_at d \<le> e_now env 4 then commit db False
       else if is_token_revoked db (d_session_jti d) then commit db False
       else if pid \<noteq> None \<and> r_process_id r \<noteq> pid then commit db False
       else if pgid \<noteq> None \<and> r_process_group_id r \<noteq> pgid then commit db False
       else
       let live = authority_exists db now eid org (\<lambda>d. \<not> is_token_revoked db (d_session_jti d));
           run_hit = (\<lambda>x. r_execution_id x = eid \<and> r_organization_id x = org \<and> r_state x = RUNNING
              \<and> r_worker_identity x = Some worker \<and> r_process_id x = pid
              \<and> r_process_group_id x = pgid \<and> live);
           intent_hit = (\<lambda>x. i_execution_id x = eid \<and> i_organization_id x = org
              \<and> held_by worker token x \<and> live);
           corr = or_else (r_correlation_id r) (''corr-execution-'' @ eid)
       in if sql_rowcount run_hit (execution_runs db) \<noteq> 1
            \<or> sql_rowcount intent_hit (dispatch_intents db) \<noteq> 1
          then rollback db RuntimeError
          else commit (add_audit
            [audit_event_of env 0 worker org
               (if ds = COMPLETED then ''EXECUTION_DISPATCH_COMPLETED''
                else ''EXECUTION_DISPATCH_FAILED'')
               ''execution_dispatch_intent'' eid ''SUCCESS'' (Some corr)
               [(''terminal_state'', JStr (state_name ts)), (''reason_code'', jopt reason)],
             audit_event_of env 1 worker org ''EXECUTION_RUN_TRANSITIONED'' ''execution_run'' eid
               ''SUCCESS'' (Some corr)
               [(''from'', JStr ''RUNNING''), (''to'', JStr (state_name ts)),
                (''reason_code'', jopt reason)]]
            (db\<lparr>execution_runs := sql_update run_hit
                  (\<lambda>x. x\<lparr>r_state := ts, r_reason_code := reason,
                          r_process_id := coalesce pid (r_process_id x),
                          r_process_group_id := coalesce pgid (r_process_group_id x),
                          r_finished_at := Some now\<rparr>) (execution_runs db),
                dispatch_intents := sql_update intent_hit (settle_intent ds now reason)
                  (dispatch_intents db)\<rparr>)) True)"

section \<open>The dispatch lease\<close>

definition claim_execution_dispatch_intent ::
    "env \<Rightarrow> exec_db \<Rightarrow> string \<Rightarrow> string \<Rightarrow> string \<Rightarrow> int \<Rightarrow> time option \<Rightarrow>
     dispatch_lease option outcome" where
  "claim_execution_dispatch_intent env db eid org worker lease_seconds now_arg =
    (if eid = [] \<or> org = [] \<or> worker = [] \<or> lease_seconds \<le> 0 then rollback db ValueError
     else
     let now = reading env now_arg;
         expiry = now + seconds lease_seconds;
         token = e_uuid env 0;
         reject = (\<lambda>reason. record_dispatch_rejection env db eid org worker
                     ''EXECUTION_DISPATCH_CLAIMED'' reason [] None)
     in case fetchone [(i, q, fetchone (decisions_of db r)). i \<leftarrow> dispatch_intents db,
            i_execution_id i = eid, i_organization_id i = org,
            r \<leftarrow> runs_of_intent db i, q \<leftarrow> requests_of db r] of
       Some (i, q, Some d) \<Rightarrow>
         if q_state q \<noteq> ''AUTHORIZED'' \<or> d_approval_state d \<noteq> ''APPROVED''
            \<or> d_worker_identity d \<noteq> worker
         then reject ''DISPATCH_AUTHORITY_INVALID''
         else if d_revoked_at d \<noteq> None \<or> d_expires_at d \<le> now \<or> q_expires_at q \<le> now
         then reject ''DISPATCH_AUTHORITY_REVOKED_OR_EXPIRED''
         else
         let lease_expired = (i_lease_expires_at i = None \<or> not_after (i_lease_expires_at i) now);
             hit = (\<lambda>x. i_execution_id x = eid \<and> i_organization_id x = org
                \<and> (i_state x = PENDING \<or> (i_state x = CLAIMED \<and> not_after (i_lease_expires_at x) now)))
         in if i_state i = CLAIMED \<and> \<not> lease_expired then reject ''DISPATCH_LEASE_ALREADY_HELD''
         else if i_state i \<noteq> PENDING \<and> \<not> (i_state i = CLAIMED \<and> lease_expired)
         then reject ''DISPATCH_STATE_NOT_CLAIMABLE''
         else if sql_rowcount hit (dispatch_intents db) \<noteq> 1 then
           record_dispatch_rejection env
             (db\<lparr>dispatch_intents := sql_update hit (claim_intent now worker token expiry)
                   (dispatch_intents db)\<rparr>)
             eid org worker ''EXECUTION_DISPATCH_CLAIMED'' ''DISPATCH_CLAIM_RACE_LOST'' [] None
         else commit (add_audit [audit_event_of env 0 worker org ''EXECUTION_DISPATCH_CLAIMED''
                ''execution_dispatch_intent'' eid ''SUCCESS''
                (Some (execution_correlation_id env db (Some eid) org None))
                [(''attempt_count'', JInt (int (i_attempt_count i + 1)))]]
              (db\<lparr>dispatch_intents := sql_update hit (claim_intent now worker token expiry)
                    (dispatch_intents db)\<rparr>))
              (Some \<lparr> dl_execution_id = eid, dl_organization_id = org, dl_owner = worker,
                       dl_token = token, dl_expires_at = expiry,
                       dl_attempt_count = i_attempt_count i + 1 \<rparr>)
     | _ \<Rightarrow> reject ''DISPATCH_AUTHORITY_INVALID'')"

definition renew_execution_dispatch_lease ::
    "env \<Rightarrow> exec_db \<Rightarrow> string \<Rightarrow> string \<Rightarrow> string \<Rightarrow> string \<Rightarrow> int \<Rightarrow> time option \<Rightarrow>
     time option outcome" where
  "renew_execution_dispatch_lease env db eid org worker token lease_seconds now_arg =
    (if eid = [] \<or> org = [] \<or> worker = [] \<or> token = [] \<or> lease_seconds \<le> 0 then commit db None
     else
     let now = reading env now_arg;
         reject = (\<lambda>db' reason. record_dispatch_rejection env db' eid org worker
                     ''EXECUTION_DISPATCH_LEASE_RENEWED'' reason [] None)
     in case fetchone (filter (\<lambda>(i, r, q, d). held_by worker token i) (authority_rows db eid org)) of
       None \<Rightarrow> reject db ''DISPATCH_AUTHORITY_REVOKED''
     | Some (i, r, q, d) \<Rightarrow>
       if is_token_revoked db (d_session_jti d) then reject db ''DISPATCH_AUTHORITY_REVOKED''
       else
       let expiry = min (now + seconds lease_seconds) (min (q_expires_at q) (d_expires_at d));
           live = authority_exists db now eid org
             (\<lambda>d. d_worker_identity d = worker \<and> \<not> is_token_revoked db (d_session_jti d));
           hit = (\<lambda>x. i_execution_id x = eid \<and> i_organization_id x = org \<and> held_by worker token x
              \<and> after (i_lease_expires_at x) now \<and> live);
           renewed = db\<lparr>dispatch_intents := sql_update hit
             (\<lambda>x. x\<lparr>i_lease_expires_at := Some expiry\<rparr>) (dispatch_intents db)\<rparr>
       in if sql_rowcount hit (dispatch_intents db) \<noteq> 1
          then reject renewed ''DISPATCH_LEASE_RENEWAL_REJECTED''
          else commit (add_audit [audit_event_of env 0 worker org ''EXECUTION_DISPATCH_LEASE_RENEWED''
                 ''execution_dispatch_intent'' eid ''SUCCESS''
                 (Some (execution_correlation_id env db (Some eid) org None)) []] renewed)
               (Some expiry))"

definition acknowledge_execution_cancellation ::
    "env \<Rightarrow> exec_db \<Rightarrow> string \<Rightarrow> string \<Rightarrow> string \<Rightarrow> string \<Rightarrow> bool outcome" where
  "acknowledge_execution_cancellation env db eid org worker token =
    (if eid = [] \<or> org = [] \<or> worker = [] \<or> token = [] then commit db False
     else
     let now = e_now env 0;
         cancelled = sql_exists (\<lambda>r. r_execution_id r = eid \<and> r_organization_id r = org \<and>
            sql_exists (\<lambda>q. sql_exists (\<lambda>d. d_worker_identity d = worker
                  \<and> (q_state q = ''REVOKED'' \<or> d_revoked_at d \<noteq> None)) (decisions_of db r))
              (requests_of db r)) (execution_runs db);
         hit = (\<lambda>x. i_execution_id x = eid \<and> i_organization_id x = org \<and> held_by worker token x
            \<and> cancelled);
         run_hit = (\<lambda>r. r_execution_id r = eid \<and> r_organization_id r = org
            \<and> r_state r \<in> {REQUESTED, STARTING, RUNNING});
         settled = db\<lparr>dispatch_intents := sql_update hit
            (settle_intent BLOCKED now (Some ''EXECUTION_CANCELLED_ACKNOWLEDGED''))
            (dispatch_intents db)\<rparr>
     in if sql_rowcount hit (dispatch_intents db) \<noteq> 1 then
          record_dispatch_rejection env settled eid org worker
            ''EXECUTION_DISPATCH_CANCEL_ACKNOWLEDGED'' ''DISPATCH_CANCELLATION_ACK_REJECTED'' [] False
        else if sql_rowcount run_hit (execution_runs db) \<noteq> 1 then rollback db RuntimeError
        else commit (add_audit
          [audit_event_of env 0 worker org ''EXECUTION_DISPATCH_CANCEL_ACKNOWLEDGED''
             ''execution_dispatch_intent'' eid ''SUCCESS''
             (Some (execution_correlation_id env db (Some eid) org None)) [],
           audit_event_of env 1 worker org ''EXECUTION_RUN_TRANSITIONED'' ''execution_run'' eid
             ''SUCCESS'' None [(''from'', JStr ''ACTIVE''), (''to'', JStr ''CANCELLED''),
               (''reason_code'', JStr ''EXECUTION_CANCELLED_ACKNOWLEDGED'')]]
          (settled\<lparr>execution_runs := sql_update run_hit
              (\<lambda>r. r\<lparr>r_state := CANCELLED,
                      r_reason_code := Some ''EXECUTION_CANCELLED_ACKNOWLEDGED'',
                      r_finished_at := Some now\<rparr>) (execution_runs db)\<rparr>)) True)"

section \<open>The reaper and settlement\<close>

text \<open>\<open>expired_or_revoked\<close>: the run's authority or its lease is gone.\<close>

definition authority_lost ::
    "exec_db \<Rightarrow> time \<Rightarrow> dispatch_intent \<Rightarrow> exec_request \<Rightarrow> exec_decision \<Rightarrow> bool" where
  "authority_lost db now i q d =
     (q_state q = ''REVOKED'' \<or> d_approval_state d \<noteq> ''APPROVED'' \<or> d_revoked_at d \<noteq> None
      \<or> q_expires_at q \<le> now \<or> d_expires_at d \<le> now \<or> is_token_revoked db (d_session_jti d)
      \<or> (i_state i = CLAIMED
          \<and> (i_lease_expires_at i = None \<or> not_after (i_lease_expires_at i) now)))"

definition reap_execution_dispatch ::
    "env \<Rightarrow> exec_db \<Rightarrow> string \<Rightarrow> string \<Rightarrow> run_state \<Rightarrow> string \<Rightarrow> string \<Rightarrow> bool outcome" where
  "reap_execution_dispatch env db eid org ts reason actor =
    (if ts \<notin> {CANCELLED, TIMED_OUT, FAILED, EXECUTION_BLOCKED}
        \<or> \<not> is_valid_execution_terminal_outcome ts (Some reason)
     then rollback db ValueError
     else
     let now = e_now env 1;
         reject = record_dispatch_rejection env db eid org actor ''EXECUTION_DISPATCH_FAILED''
                    ''DISPATCH_REAPER_NOT_ELIGIBLE'' [] False
     in case fetchone (authority_rows db eid org) of
       None \<Rightarrow> reject
     | Some (i, r, q, d) \<Rightarrow>
       if \<not> authority_lost db now i q d \<or> terminal (r_state r) then reject
       else
       let ds = (if ts \<in> {CANCELLED, EXECUTION_BLOCKED} then BLOCKED else DFAILED);
           intent_hit = (\<lambda>x. i_execution_id x = eid \<and> i_organization_id x = org
                          \<and> i_state x \<in> {PENDING, CLAIMED});
           run_hit = (\<lambda>x. r_execution_id x = eid \<and> r_organization_id x = org
                       \<and> \<not> terminal (r_state x));
           corr = execution_correlation_id env db (Some eid) org None
       in if sql_rowcount intent_hit (dispatch_intents db) \<noteq> 1
            \<or> sql_rowcount run_hit (execution_runs db) \<noteq> 1
          then rollback db RuntimeError
          else commit (add_audit
            [audit_event_of env 0 actor org ''EXECUTION_DISPATCH_FAILED''
               ''execution_dispatch_intent'' eid ''SUCCESS'' (Some corr)
               [(''reason_code'', JStr reason), (''state'', JStr (dispatch_state_name ds))],
             audit_event_of env 1 actor org ''EXECUTION_RUN_TRANSITIONED'' ''execution_run'' eid
               ''SUCCESS'' (Some corr)
               [(''to'', JStr (state_name ts)), (''reason_code'', JStr reason)]]
            (db\<lparr>dispatch_intents := sql_update intent_hit (settle_intent ds now (Some reason))
                  (dispatch_intents db),
                execution_runs := sql_update run_hit
                  (\<lambda>x. x\<lparr>r_state := ts, r_reason_code := Some reason,
                          r_finished_at := Some now\<rparr>) (execution_runs db)\<rparr>)) True)"

text \<open>
  The authority re-check of the two run updates below selects the decision by its identifier alone
  (the decisions' primary key).
\<close>

definition run_authority_by_id :: "exec_db \<Rightarrow> time \<Rightarrow> exec_run \<Rightarrow> bool" where
  "run_authority_by_id db now r =
    (sql_exists (\<lambda>q. q_state q = ''AUTHORIZED'' \<and> now < q_expires_at q) (requests_of db r) \<and>
     sql_exists (\<lambda>d. r_approved_decision_id r = Some (d_id d) \<and> d_approval_state d = ''APPROVED''
       \<and> d_revoked_at d = None \<and> now < d_expires_at d) (execution_decisions db))"

definition settle_execution_dispatch_intent ::
    "env \<Rightarrow> exec_db \<Rightarrow> string \<Rightarrow> string \<Rightarrow> string \<Rightarrow> string \<Rightarrow> bool \<Rightarrow> string option \<Rightarrow> bool outcome" where
  "settle_execution_dispatch_intent env db eid org worker token success error_code =
    (if eid = [] \<or> org = [] \<or> worker = [] \<or> token = [] then commit db False
     else if success \<and> truthy error_code then rollback db ValueError
     else
     let new_state = (if success then COMPLETED else DFAILED);
         message = (if success then None
                    else Some (or_else error_code ''EXECUTION_DISPATCH_FAILED''));
         ts = (if success then SUCCEEDED else FAILED)
     in if \<not> is_valid_execution_terminal_outcome ts message then rollback db ValueError
     else
     let now = e_now env 1;
         reject = record_dispatch_rejection env db eid org worker
           (if success then ''EXECUTION_DISPATCH_COMPLETED'' else ''EXECUTION_DISPATCH_FAILED'')
           ''DISPATCH_SETTLEMENT_REJECTED'' [] False
     in case fetchone (authority_rows db eid org) of
       None \<Rightarrow> reject
     | Some (i, r, q, d) \<Rightarrow>
       if \<not> (held_by worker token i \<and> after (i_lease_expires_at i) (e_now env 2)
            \<and> r_state r \<in> {REQUESTED, STARTING, RUNNING} \<and> q_state q = ''AUTHORIZED''
            \<and> d_approval_state d = ''APPROVED'' \<and> d_revoked_at d = None
            \<and> \<not> is_token_revoked db (d_session_jti d) \<and> e_now env 3 < d_expires_at d
            \<and> e_now env 4 < q_expires_at q \<and> d_worker_identity d = worker)
       then reject
       else
       let unrevoked = (\<not> is_token_revoked db (d_session_jti d));
           live = authority_exists db now eid org (\<lambda>_. True);
           intent_hit = (\<lambda>x. i_execution_id x = eid \<and> i_organization_id x = org
              \<and> held_by worker token x \<and> after (i_lease_expires_at x) now \<and> unrevoked \<and> live);
           run_hit = (\<lambda>x. r_execution_id x = eid \<and> r_organization_id x = org
              \<and> r_state x \<in> {REQUESTED, STARTING, RUNNING} \<and> unrevoked
              \<and> run_authority_by_id db now x);
           corr = execution_correlation_id env db (Some eid) org None
       in if sql_rowcount intent_hit (dispatch_intents db) \<noteq> 1
            \<or> sql_rowcount run_hit (execution_runs db) \<noteq> 1
          then rollback db RuntimeError
          else commit (add_audit
            [audit_event_of env 0 worker org
               (if success then ''EXECUTION_DISPATCH_COMPLETED'' else ''EXECUTION_DISPATCH_FAILED'')
               ''execution_dispatch_intent'' eid ''SUCCESS'' (Some corr)
               (case message of Some m \<Rightarrow> [(''error_code'', JStr m)] | None \<Rightarrow> []),
             audit_event_of env 1 worker org ''EXECUTION_RUN_TRANSITIONED'' ''execution_run'' eid
               ''SUCCESS'' (Some corr)
               [(''to'', JStr (state_name ts)), (''reason_code'', jopt message)]]
            (db\<lparr>dispatch_intents := sql_update intent_hit (settle_intent new_state now message)
                  (dispatch_intents db),
                execution_runs := sql_update run_hit
                  (\<lambda>x. x\<lparr>r_state := ts, r_reason_code := coalesce message (r_reason_code x),
                          r_finished_at := Some now\<rparr>) (execution_runs db)\<rparr>)) True)"

section \<open>The guarded run transition\<close>

definition authority_current :: "exec_db \<Rightarrow> time \<Rightarrow> exec_request \<Rightarrow> exec_decision \<Rightarrow> bool" where
  "authority_current db now q d =
     (q_state q = ''AUTHORIZED'' \<and> d_approval_state d = ''APPROVED'' \<and> d_revoked_at d = None
      \<and> \<not> is_token_revoked db (d_session_jti d) \<and> now < d_expires_at d \<and> now < q_expires_at q)"

definition transition_execution_run ::
    "env \<Rightarrow> exec_db \<Rightarrow> string \<Rightarrow> string \<Rightarrow> run_state \<Rightarrow> run_state \<Rightarrow> string option \<Rightarrow> int option \<Rightarrow>
     string option \<Rightarrow> string option \<Rightarrow> bool outcome" where
  "transition_execution_run env db eid org expected new_state reason pid worker token =
    (if new_state \<notin> set (EXECUTION_RUN_TRANSITIONS expected) then commit db False
     else if terminal new_state \<and> \<not> is_valid_execution_terminal_outcome new_state reason
     then commit db False
     else
     let now = e_now env 1;
         rejection = (\<lambda>org' oid corr code. audit_event_of env 0 (or_else worker ''system'') org'
            ''EXECUTION_RUN_TRANSITIONED'' ''execution_run'' oid ''REJECTED'' (Some corr)
            [(''reason_code'', JStr code), (''from'', JStr (state_name expected)),
             (''to'', JStr (state_name new_state))])
     in case fetchone (authority_rows db eid org) of
       None \<Rightarrow>
         commit (add_audit [rejection (or_else (Some org) ''unknown'') (or_else (Some eid) ''unknown'')
             (or_else (e_correlation env) (''corr-execution-'' @ eid))
             ''EXECUTION_AUTHORITY_RECORD_MISSING''] db) False
     | Some (i, r, q, d) \<Rightarrow>
       if org = [] then rollback db ValueError
       else
       let current = authority_current db now q d;
           fence = (i_state i = CLAIMED \<and> i_claimed_by i = worker \<and> i_claim_token i = token
              \<and> after (i_lease_expires_at i) now \<and> Some (d_worker_identity d) = worker);
           safe_abort = (new_state \<in> {CANCELLED, TIMED_OUT, FAILED, EXECUTION_BLOCKED}
              \<and> (case reason of None \<Rightarrow> False | Some c \<Rightarrow> py_strip c \<noteq> []) \<and> \<not> current);
           corr = execution_correlation_id env db (Some eid) org None
       in if \<not> (fence \<and> (current \<or> safe_abort)) then
            commit (add_audit [rejection org eid corr
              (if new_state \<noteq> CANCELLED \<and> \<not> current
               then ''EXECUTION_AUTHORITY_REVOKED_OR_EXPIRED''
               else ''EXECUTION_DISPATCH_FENCE_REQUIRED'')] db) False
       else
       let unrevoked = (\<not> is_token_revoked db (d_session_jti d));
           live = authority_exists db now eid org (\<lambda>_. True);
           tds = terminal_dispatch_state new_state;
           intent_hit = (\<lambda>x. tds \<noteq> None \<and> i_execution_id x = eid \<and> i_organization_id x = org
              \<and> i_state x = CLAIMED \<and> sql_eq (i_claimed_by x) worker
              \<and> sql_eq (i_claim_token x) token
              \<and> after (i_lease_expires_at x) now \<and> unrevoked \<and> live);
           run_hit = (\<lambda>x. r_execution_id x = eid \<and> r_organization_id x = org \<and> r_state x = expected
              \<and> unrevoked \<and> run_authority_by_id db now x);
           settled = db\<lparr>dispatch_intents := sql_update intent_hit
             (\<lambda>x. settle_intent (the tds) now
                (if the tds \<in> {DFAILED, BLOCKED} then coalesce reason (i_last_error x)
                 else i_last_error x) x) (dispatch_intents db)\<rparr>;
           moved = settled\<lparr>execution_runs := sql_update run_hit
             (\<lambda>x. x\<lparr>r_state := new_state, r_reason_code := coalesce reason (r_reason_code x),
                     r_process_id := coalesce pid (r_process_id x),
                     r_worker_identity := coalesce worker (r_worker_identity x),
                     r_started_at := (if new_state = RUNNING
                       then coalesce (r_started_at x) (Some now) else r_started_at x),
                     r_finished_at := (if terminal new_state
                       then coalesce (r_finished_at x) (Some now) else r_finished_at x)\<rparr>)
             (execution_runs db)\<rparr>
       in if tds \<noteq> None \<and> sql_rowcount intent_hit (dispatch_intents db) \<noteq> 1 then
            commit (add_audit [rejection org eid corr ''EXECUTION_DISPATCH_SETTLEMENT_REQUIRED'']
              settled) False
          else if sql_rowcount run_hit (execution_runs db) = 1 then
            commit (add_audit [audit_event_of env 0 (or_else worker ''system'') org
                ''EXECUTION_RUN_TRANSITIONED'' ''execution_run'' eid ''SUCCESS'' (Some corr)
                [(''from'', JStr (state_name expected)), (''to'', JStr (state_name new_state)),
                 (''reason_code'', jopt reason)]] moved) True
          else if tds \<noteq> None then rollback db RuntimeError
          else commit moved False)"

lemmas exec_op_defs =
  create_execution_request_def create_execution_decision_def approve_execution_request_def
  create_execution_run_def revoke_execution_decision_def revoke_execution_request_def
  revoke_token_def record_dispatch_rejection_def claim_execution_decision_def
  release_execution_decision_claim_def mark_execution_decision_started_def
  claim_execution_authority_def release_execution_authority_def abort_execution_start_def
  finish_execution_def claim_execution_dispatch_intent_def renew_execution_dispatch_lease_def
  acknowledge_execution_cancellation_def reap_execution_dispatch_def
  settle_execution_dispatch_intent_def transition_execution_run_def

declare exec_op_defs [op_defs]

end
