(* ===== verification/Exec_Process.thy ===== *)
theory Exec_Process
  imports Exec_Dispatch
begin

text \<open>
  Process ownership and crash recovery in \<open>backend/app/core/db.py\<close>: the guarded transition of the
  ownership row of a run, and the recovery lease (claim, renew, complete, record an attempt).
\<close>

fun ownership_name :: "ProcessOwnershipState \<Rightarrow> string" where
  "ownership_name UNKNOWN = ''UNKNOWN''"
| "ownership_name NO_EXTERNAL_PROCESS = ''NO_EXTERNAL_PROCESS''"
| "ownership_name EXTERNAL_PROCESS_GOVERNED = ''EXTERNAL_PROCESS_GOVERNED''"
| "ownership_name LAUNCH_UNCERTAIN = ''LAUNCH_UNCERTAIN''"
| "ownership_name RECOVERY_BLOCKED = ''RECOVERY_BLOCKED''"
| "ownership_name TERMINAL = ''TERMINAL''"

fun recovery_name :: "recovery_status \<Rightarrow> string" where
  "recovery_name RV_REQUESTED = ''REQUESTED''"
| "recovery_name RV_IN_PROGRESS = ''IN_PROGRESS''"
| "recovery_name RV_CONFIRMED_TERMINATED = ''CONFIRMED_TERMINATED''"
| "recovery_name RV_DEFERRED = ''DEFERRED''"
| "recovery_name RV_FAILED = ''FAILED''"
| "recovery_name RV_ESCALATED = ''ESCALATED''"
| "recovery_name RV_EXHAUSTED = ''EXHAUSTED''"

text \<open>\<open>isinstance(x, str) and x.strip()\<close>, and \<open>str(x)\<close> of an optional string.\<close>

definition nonblank :: "string option \<Rightarrow> bool" where
  "nonblank x = (case x of None \<Rightarrow> False | Some s \<Rightarrow> py_strip s \<noteq> [])"

definition py_str :: "string option \<Rightarrow> string" where
  "py_str x = (case x of None \<Rightarrow> ''None'' | Some s \<Rightarrow> s)"

section \<open>Ownership\<close>

text \<open>\<open>immutable_mismatches\<close>: what a callback may not change about the persisted identity.\<close>

definition unknown_mismatches :: "process_ownership \<Rightarrow> string list" where
  "unknown_mismatches e =
    (if o_container_type e \<noteq> CNONE then [''container_type''] else []) @
    (if o_launch_commit_state e \<noteq> NOT_ATTEMPTED then [''launch_commit_state''] else []) @
    (if o_root_process_id e \<noteq> None then [''root_process_id''] else []) @
    (if o_root_process_start_token e \<noteq> None then [''root_process_start_token''] else []) @
    (if o_process_group_id e \<noteq> None then [''process_group_id''] else []) @
    (if o_session_id e \<noteq> None then [''session_id''] else []) @
    (if o_container_identity e \<noteq> None then [''container_identity''] else []) @
    (if o_worker_generation e \<noteq> None then [''worker_generation''] else []) @
    (if o_identity_attestation e \<noteq> None then [''identity_attestation''] else []) @
    (if o_no_process_proof e \<noteq> None then [''no_process_proof''] else [])"

definition changed_opt :: "'a option \<Rightarrow> 'a option \<Rightarrow> bool" where
  "changed_opt persisted supplied = (persisted \<noteq> None \<and> persisted \<noteq> supplied)"

definition changed_text :: "string option \<Rightarrow> string option \<Rightarrow> bool" where
  "changed_text persisted supplied = (persisted \<noteq> None \<and> py_str persisted \<noteq> py_str supplied)"

definition known_mismatches :: "process_ownership \<Rightarrow> process_ownership \<Rightarrow> string list" where
  "known_mismatches e rec =
    (if changed_opt (o_root_process_id e) (o_root_process_id rec) then [''root_process_id''] else []) @
    (if changed_opt (o_root_process_start_token e) (o_root_process_start_token rec)
     then [''root_process_start_token''] else []) @
    (if changed_text (o_process_group_id e) (o_process_group_id rec) then [''process_group_id''] else []) @
    (if changed_text (o_session_id e) (o_session_id rec) then [''session_id''] else []) @
    (if o_container_type e \<noteq> o_container_type rec then [''container_type''] else []) @
    (if changed_opt (o_container_identity e) (o_container_identity rec)
     then [''container_identity''] else []) @
    (if changed_opt (o_worker_generation e) (o_worker_generation rec)
     then [''worker_generation''] else []) @
    (if changed_opt (o_identity_attestation e) (o_identity_attestation rec)
     then [''identity_attestation''] else []) @
    (if o_launch_commit_state e = COMMITTED \<and> o_launch_commit_state rec \<noteq> COMMITTED
     then [''launch_commit_state''] else [])"

text \<open>The replay of a terminal record must repeat the persisted evidence.\<close>

definition terminal_replay :: "process_ownership \<Rightarrow> process_ownership \<Rightarrow> bool" where
  "terminal_replay e rec =
    (o_ownership_state rec = TERMINAL
     \<and> o_container_type e = o_container_type rec
     \<and> o_container_identity e = o_container_identity rec
     \<and> o_root_process_id e = o_root_process_id rec
     \<and> o_root_process_start_token e = o_root_process_start_token rec
     \<and> py_str (o_process_group_id e) = py_str (o_process_group_id rec)
     \<and> py_str (o_session_id e) = py_str (o_session_id rec)
     \<and> o_worker_generation e = o_worker_generation rec
     \<and> o_launch_commit_state e = o_launch_commit_state rec
     \<and> o_no_process_proof e = o_no_process_proof rec
     \<and> o_identity_attestation e = o_identity_attestation rec
     \<and> o_correlation_id e = o_correlation_id rec
     \<and> o_last_verified_at e = o_last_verified_at rec
     \<and> o_terminalized_at e = o_terminalized_at rec)"

definition advance_ownership :: "process_ownership \<Rightarrow> process_ownership \<Rightarrow> process_ownership" where
  "advance_ownership rec e =
    e\<lparr>o_ownership_state := o_ownership_state rec, o_container_type := o_container_type rec,
      o_container_identity := o_container_identity rec, o_root_process_id := o_root_process_id rec,
      o_root_process_start_token := o_root_process_start_token rec,
      o_process_group_id := o_process_group_id rec, o_session_id := o_session_id rec,
      o_worker_generation := o_worker_generation rec,
      o_launch_commit_state := o_launch_commit_state rec,
      o_no_process_proof := o_no_process_proof rec,
      o_identity_attestation := o_identity_attestation rec,
      o_last_verified_at := o_last_verified_at rec, o_terminalized_at := o_terminalized_at rec,
      o_updated_at := o_updated_at rec\<rparr>"

definition transition_process_ownership ::
    "env \<Rightarrow> exec_db \<Rightarrow> process_ownership \<Rightarrow> ProcessOwnershipState \<Rightarrow> string \<Rightarrow> string \<Rightarrow>
     string option \<Rightarrow> bool outcome" where
  "transition_process_ownership env db rec expected actor reason worker =
    (let eid = o_execution_id rec; org = o_organization_id rec; new = o_ownership_state rec in
     if new = UNKNOWN then rollback db ValueError
     else if \<not> is_valid_process_ownership_transition expected new then rollback db ValueError
     else if new = NO_EXTERNAL_PROCESS \<and> \<not> truthy (o_no_process_proof rec)
     then rollback db ValueError
     else if new = EXTERNAL_PROCESS_GOVERNED \<and> \<not> truthy (o_identity_attestation rec)
     then rollback db ValueError
     else if \<not> nonblank worker \<or> length (the worker) > 256 \<or> \<not> nonblank (o_worker_generation rec)
        \<or> length (the (o_worker_generation rec)) > 256 \<or> py_strip (o_correlation_id rec) = []
     then commit db False
     else case fetchone [(i, r, q, d). (i, r, q, d) \<leftarrow> authority_rows db eid org,
                sql_exists (\<lambda>v. v_execution_id v = eid \<and> v_organization_id v = org)
                  (recovery_states db)] of
       None \<Rightarrow> commit db False
     | Some (i, r, q, d) \<Rightarrow>
       if \<not> nonblank (r_worker_identity r) \<or> r_worker_identity r \<noteq> Some (d_worker_identity d)
          \<or> Some (py_strip (the worker)) \<noteq> r_worker_identity r
          \<or> \<not> nonblank (r_worker_generation r)
          \<or> o_worker_generation rec \<noteq> r_worker_generation r
       then commit db False
       else if expected \<noteq> UNKNOWN \<and>
         (q_state q \<noteq> ''AUTHORIZED'' \<or> d_approval_state d \<noteq> ''APPROVED'' \<or> d_revoked_at d \<noteq> None
          \<or> i_state i \<notin> (if expected = TERMINAL then {CLAIMED, COMPLETED, DFAILED, BLOCKED}
                          else {CLAIMED, COMPLETED}))
       then commit db False
       else case get_process_ownership db eid org of
         None \<Rightarrow> commit db False
       | Some e \<Rightarrow>
         let current = o_ownership_state e;
             mismatches = (if current = UNKNOWN then unknown_mismatches e
                           else known_mismatches e rec);
             hit = (\<lambda>x. o_execution_id x = eid \<and> o_organization_id x = org
                     \<and> o_ownership_state x = expected);
             moved = db\<lparr>process_ownerships := sql_update hit (advance_ownership rec)
                          (process_ownerships db)\<rparr>
         in if py_strip (o_correlation_id e) = [] then commit db False
         else if mismatches \<noteq> [] then
           (if current = TERMINAL then commit db False
            else record_dispatch_rejection env db eid org actor ''EXECUTION_DISPATCH_FAILED''
                   ''EXECUTION_IDENTITY_MISMATCH''
                   [(''mismatched_fields'',
                      JArr (map (JStr \<circ> fst) (sort_keys (map (\<lambda>n. (n, ())) mismatches))))] False)
         else if current = TERMINAL then commit db (terminal_replay e rec)
         else if current \<noteq> expected \<or> o_correlation_id e \<noteq> o_correlation_id rec
         then commit db False
         else if sql_rowcount hit (process_ownerships db) \<noteq> 1 then commit moved False
         else commit (add_audit [audit_event_of env 0 actor org
                ''EXECUTION_PROCESS_OWNERSHIP_TRANSITIONED'' ''execution_process_ownership'' eid
                ''SUCCESS'' (Some (o_correlation_id rec))
                [(''from'', JStr (ownership_name expected)), (''to'', JStr (ownership_name new)),
                 (''reason_code'', JStr reason)]] moved) True)"

section \<open>Recovery\<close>

definition attempt_taken :: "exec_db \<Rightarrow> string \<Rightarrow> bool" where
  "attempt_taken db aid = sql_exists (\<lambda>t. t_attempt_id t = aid) (recovery_attempts db)"

definition run_exists :: "exec_db \<Rightarrow> string \<Rightarrow> string \<Rightarrow> bool" where
  "run_exists db eid org =
     sql_exists (\<lambda>r. r_execution_id r = eid \<and> r_organization_id r = org) (execution_runs db)"

definition projection_of :: "time \<Rightarrow> recovery_attempt \<Rightarrow> recovery_state \<Rightarrow> recovery_state" where
  "projection_of now a v =
    v\<lparr>v_status := t_status a, v_worker_generation := t_worker_generation a,
      v_attempt_number := t_attempt_number a, v_last_outcome := t_cancellation_status a,
      v_last_error := t_error_code a, v_next_retry_at := t_next_retry_at a,
      v_escalation_level := t_escalation_level a, v_updated_at := now\<rparr>"

definition record_recovery_attempt ::
    "env \<Rightarrow> exec_db \<Rightarrow> recovery_attempt \<Rightarrow> string \<Rightarrow> unit outcome" where
  "record_recovery_attempt env db a actor =
    (let eid = t_execution_id a; org = t_organization_id a; now = e_now env 0;
         hit = (\<lambda>v. v_execution_id v = eid \<and> v_organization_id v = org)
     in if attempt_taken db (t_attempt_id a) \<or> \<not> run_exists db eid org
     then rollback db IntegrityError
     else commit (add_audit [audit_event_of env 0 actor org ''EXECUTION_RECOVERY_ATTEMPT_RECORDED''
             ''execution_recovery_attempt'' (t_attempt_id a) ''SUCCESS'' (t_correlation_id a)
             [(''execution_id'', JStr eid), (''attempt_number'', JInt (int (t_attempt_number a))),
              (''status'', JStr (recovery_name (t_status a)))]]
           (db\<lparr>recovery_attempts := recovery_attempts db @ [a],
               recovery_states := (if sql_exists hit (recovery_states db)
                 then sql_update hit (projection_of now a) (recovery_states db)
                 else recovery_states db @ [projection_of now a (fresh_recovery eid org now)])\<rparr>)) ())"

record recovery_lease =
  rl_execution_id :: string
  rl_organization_id :: string
  rl_owner :: string
  rl_worker_generation :: string
  rl_lease_token :: string
  rl_lease_expires_at :: time
  rl_attempt_number :: nat
  rl_correlation_id :: "string option"

text \<open>\<open>ownership p JOIN runs r JOIN decisions d JOIN intents i\<close> of one execution.\<close>

definition recovery_rows ::
    "exec_db \<Rightarrow> string \<Rightarrow> string \<Rightarrow> (process_ownership \<times> exec_run \<times> exec_decision \<times> dispatch_intent) list" where
  "recovery_rows db eid org =
    [(p, r, d, i). p \<leftarrow> process_ownerships db, o_execution_id p = eid, o_organization_id p = org,
       r \<leftarrow> execution_runs db, r_execution_id r = eid, r_organization_id r = org,
       d \<leftarrow> decisions_of db r, i \<leftarrow> intents_of db r]"

definition recovery_eligible ::
    "process_ownership \<Rightarrow> exec_run \<Rightarrow> exec_decision \<Rightarrow> dispatch_intent \<Rightarrow> bool" where
  "recovery_eligible p r d i =
    (o_ownership_state p \<in> {LAUNCH_UNCERTAIN, RECOVERY_BLOCKED}
     \<and> r_state r \<in> {REQUESTED, STARTING, RUNNING} \<and> i_state i = CLAIMED
     \<and> nonblank (r_worker_identity r) \<and> Some (d_worker_identity d) = r_worker_identity r
     \<and> nonblank (r_worker_generation r) \<and> o_worker_generation p = r_worker_generation r
     \<and> py_strip (o_correlation_id p) \<noteq> [] \<and> Some (o_correlation_id p) = r_correlation_id r
     \<and> nonblank (r_correlation_id r))"

definition claim_recovery ::
    "env \<Rightarrow> exec_db \<Rightarrow> string \<Rightarrow> string \<Rightarrow> string \<Rightarrow> string \<Rightarrow> int \<Rightarrow> recovery_lease option outcome" where
  "claim_recovery env db eid org owner gen lease_seconds =
    (if \<not> list_all (\<lambda>s. py_strip s \<noteq> [] \<and> length s \<le> 256) [eid, org, owner, gen] \<or> lease_seconds \<le> 0
     then commit db None
     else
     let now = e_now env 0; expiry = now + seconds lease_seconds;
         token = ''recovery-'' @ e_uuid env 0
     in case fetchone (recovery_rows db eid org) of
       None \<Rightarrow> commit db None
     | Some (p, r, d, i) \<Rightarrow>
       if \<not> recovery_eligible p r d i then commit db None
       else
       let state = sql_find (\<lambda>v. v_execution_id v = eid \<and> v_organization_id v = org)
                     (recovery_states db);
           leased = (case state of None \<Rightarrow> False | Some v \<Rightarrow> after (v_lease_expires_at v) now);
           waiting = (case state of None \<Rightarrow> False | Some v \<Rightarrow> after (v_next_retry_at v) now);
           closed = (case state of None \<Rightarrow> False
             | Some v \<Rightarrow> v_status v \<in> {RV_CONFIRMED_TERMINATED, RV_EXHAUSTED});
           number = (case state of None \<Rightarrow> 0 | Some v \<Rightarrow> v_attempt_number v) + 1;
           take = (\<lambda>v. v\<lparr>v_status := RV_IN_PROGRESS, v_owner := Some owner,
              v_lease_token := Some token, v_lease_expires_at := Some expiry,
              v_worker_generation := Some gen, v_attempt_number := number, v_updated_at := now\<rparr>);
           hit = (\<lambda>v. v_execution_id v = eid \<and> v_organization_id v = org
              \<and> (v_lease_expires_at v = None \<or> not_after (v_lease_expires_at v) now));
           evidence = json_dumps (JObj
             [(''attempt_number'', JInt (int number)), (''execution_id'', JStr eid),
              (''lease_expires_at'', JStr (isoformat expiry)), (''organization_id'', JStr org),
              (''owner'', JStr owner), (''worker_generation'', JStr gen)]);
           attempt = \<lparr> t_attempt_id = token, t_execution_id = eid, t_organization_id = org,
              t_worker_identity = owner, t_worker_generation = Some gen, t_attempt_number = number,
              t_status = RV_IN_PROGRESS, t_cancellation_status = None,
              t_reason_code = ''RECOVERY_CLAIMED'', t_correlation_id = r_correlation_id r,
              t_requested_at = now, t_started_at = Some now, t_completed_at = None,
              t_next_retry_at = None, t_error_code = None, t_escalation_level = 0,
              t_health_reference = Some (''recovery-claim:'' @ e_sha256 env evidence) \<rparr>;
           states = (if state = None then recovery_states db @ [take (fresh_recovery eid org now)]
                     else sql_update hit take (recovery_states db))
       in if leased \<or> waiting \<or> closed then commit db None
       else if state \<noteq> None \<and> sql_rowcount hit (recovery_states db) \<noteq> 1
       then commit (db\<lparr>recovery_states := states\<rparr>) None
       else if attempt_taken db token then rollback db IntegrityError
       else commit (add_audit [audit_event_of env 0 owner org ''EXECUTION_RECOVERY_ATTEMPT_RECORDED''
                ''execution_recovery_attempt'' token ''SUCCESS'' (r_correlation_id r)
                [(''attempt_number'', JInt (int number)), (''execution_id'', JStr eid),
                 (''status'', JStr ''IN_PROGRESS''), (''worker_generation'', JStr gen)]]
             (db\<lparr>recovery_states := states,
                 recovery_attempts := recovery_attempts db @ [attempt]\<rparr>))
             (Some \<lparr> rl_execution_id = eid, rl_organization_id = org, rl_owner = owner,
                      rl_worker_generation = gen, rl_lease_token = token,
                      rl_lease_expires_at = expiry, rl_attempt_number = number,
                      rl_correlation_id = r_correlation_id r \<rparr>))"

text \<open>The \<open>EXISTS\<close> of the two fenced recovery updates.\<close>

definition recovery_fence :: "exec_db \<Rightarrow> string \<Rightarrow> string \<Rightarrow> bool" where
  "recovery_fence db eid org =
    sql_exists (\<lambda>(p, r, d, i). o_ownership_state p \<in> {LAUNCH_UNCERTAIN, RECOVERY_BLOCKED}
      \<and> sql_eq (o_worker_generation p) (r_worker_generation r)
      \<and> Some (o_correlation_id p) = r_correlation_id r
      \<and> r_state r \<in> {REQUESTED, STARTING, RUNNING}
      \<and> r_worker_identity r = Some (d_worker_identity d) \<and> i_state i = CLAIMED)
      (recovery_rows db eid org)"

definition recovery_held ::
    "exec_db \<Rightarrow> time \<Rightarrow> string \<Rightarrow> string \<Rightarrow> string \<Rightarrow> string \<Rightarrow> string \<Rightarrow> recovery_state \<Rightarrow> bool" where
  "recovery_held db now eid org owner token gen v =
    (v_execution_id v = eid \<and> v_organization_id v = org \<and> v_owner v = Some owner
     \<and> v_lease_token v = Some token \<and> v_worker_generation v = Some gen
     \<and> v_status v = RV_IN_PROGRESS \<and> after (v_lease_expires_at v) now \<and> recovery_fence db eid org)"

definition renew_recovery ::
    "env \<Rightarrow> exec_db \<Rightarrow> string \<Rightarrow> string \<Rightarrow> string \<Rightarrow> string \<Rightarrow> string \<Rightarrow> int \<Rightarrow> bool outcome" where
  "renew_recovery env db eid org owner token gen lease_seconds =
    (if \<not> list_all (\<lambda>s. py_strip s \<noteq> [] \<and> length s \<le> 512) [eid, org, owner, token, gen]
        \<or> lease_seconds \<le> 0
     then commit db False
     else
     let now = e_now env 0; expiry = now + seconds lease_seconds;
         hit = recovery_held db now eid org owner token gen
     in commit (db\<lparr>recovery_states := sql_update hit
           (\<lambda>v. v\<lparr>v_lease_expires_at := Some expiry, v_updated_at := now\<rparr>) (recovery_states db)\<rparr>)
         (sql_rowcount hit (recovery_states db) = 1))"

definition complete_recovery ::
    "env \<Rightarrow> exec_db \<Rightarrow> string \<Rightarrow> string \<Rightarrow> string \<Rightarrow> string \<Rightarrow> string \<Rightarrow> recovery_status \<Rightarrow> string \<Rightarrow>
     string option \<Rightarrow> time option \<Rightarrow> bool outcome" where
  "complete_recovery env db eid org owner token gen status result err retry =
    (if status \<notin> {RV_DEFERRED, RV_FAILED, RV_ESCALATED, RV_EXHAUSTED}
        \<or> \<not> list_all (\<lambda>s. py_strip s \<noteq> [] \<and> length s \<le> 512) [eid, org, owner, token, gen, result]
        \<or> (case err of None \<Rightarrow> False | Some e \<Rightarrow> length e > 512)
     then commit db False
     else if status = RV_DEFERRED \<and> retry = None then rollback db ValueError
     else if status \<noteq> RV_DEFERRED \<and> retry \<noteq> None then rollback db ValueError
     else
     let now = e_now env 0;
         hit = recovery_held db now eid org owner token gen;
         states = sql_update hit
           (\<lambda>v. v\<lparr>v_status := status, v_last_outcome := Some result, v_last_error := err,
                   v_owner := None, v_lease_token := None, v_lease_expires_at := None,
                   v_next_retry_at := retry, v_updated_at := now\<rparr>) (recovery_states db)
     in if sql_rowcount hit (recovery_states db) \<noteq> 1
     then commit (db\<lparr>recovery_states := states\<rparr>) False
     else
     let owned = (\<lambda>p. o_execution_id p = eid \<and> o_organization_id p = org
              \<and> o_ownership_state p = LAUNCH_UNCERTAIN);
         blocks = (status \<in> {RV_DEFERRED, RV_ESCALATED, RV_EXHAUSTED});
         ownerships = (if blocks
           then sql_update owned (\<lambda>p. p\<lparr>o_ownership_state := RECOVERY_BLOCKED, o_updated_at := now\<rparr>)
                  (process_ownerships db)
           else process_ownerships db);
         lost = (blocks \<and> sql_rowcount owned (process_ownerships db) = 0 \<and>
           (case get_process_ownership db eid org of None \<Rightarrow> True
            | Some p \<Rightarrow> o_ownership_state p \<noteq> RECOVERY_BLOCKED));
         aid = token @ ''-completed''
     in if lost then rollback db RuntimeError
     else case fetchone [(v, r). v \<leftarrow> states, v_execution_id v = eid, v_organization_id v = org,
              r \<leftarrow> execution_runs db, r_execution_id r = eid, r_organization_id r = org] of
       None \<Rightarrow> rollback db RuntimeError
     | Some (v, r) \<Rightarrow>
       if attempt_taken db aid then rollback db IntegrityError
       else
       let evidence = json_dumps (JObj
             [(''attempt_number'', JInt (int (v_attempt_number v))), (''execution_id'', JStr eid),
              (''organization_id'', JStr org), (''outcome'', JStr result),
              (''status'', JStr (recovery_name status)), (''worker_generation'', JStr gen)]);
           attempt = \<lparr> t_attempt_id = aid, t_execution_id = eid, t_organization_id = org,
              t_worker_identity = owner, t_worker_generation = v_worker_generation v,
              t_attempt_number = v_attempt_number v, t_status = status,
              t_cancellation_status = Some result, t_reason_code = ''RECOVERY_COMPLETED'',
              t_correlation_id = r_correlation_id r, t_requested_at = now, t_started_at = None,
              t_completed_at = Some now, t_next_retry_at = None, t_error_code = err,
              t_escalation_level = v_escalation_level v,
              t_health_reference = Some (''recovery-completion:'' @ e_sha256 env evidence) \<rparr>
       in commit (add_audit [audit_event_of env 0 owner org ''EXECUTION_RECOVERY_ATTEMPT_RECORDED''
              ''execution_recovery_attempt'' aid ''SUCCESS'' (r_correlation_id r)
              [(''attempt_number'', JInt (int (v_attempt_number v))), (''execution_id'', JStr eid),
               (''status'', JStr (recovery_name status)), (''outcome'', JStr result)]]
            (db\<lparr>recovery_states := states, process_ownerships := ownerships,
                recovery_attempts := recovery_attempts db @ [attempt]\<rparr>)) True)"

end
