(* ===== verification/Exec_Scan.thy ===== *)
theory Exec_Scan
  imports Exec_Requests
begin

text \<open>
  The operations on the parent authorization of a whole scan that write the execution tables
  (\<open>backend/app/core/db.py\<close>): its lifecycle transition, which carries revocation, expiry and
  consumption over to the linked child rows, and its approval, which materializes one authorized
  request, decision, run, dispatch intent, ownership and recovery row for each selected operation.
  The recording of a parent (\<open>save_scan_authorization_request\<close>) writes no execution table.
\<close>

section \<open>Arguments and linked rows\<close>

fun scan_state_name :: "ScanAuthorizationState \<Rightarrow> string" where
  "scan_state_name SA_REQUESTED = ''REQUESTED''"
| "scan_state_name SA_APPROVED = ''APPROVED''"
| "scan_state_name SA_DISPATCHABLE = ''DISPATCHABLE''"
| "scan_state_name SA_REVOKED = ''REVOKED''"
| "scan_state_name SA_EXPIRED = ''EXPIRED''"
| "scan_state_name SA_CONSUMED = ''CONSUMED''"

text \<open>What a target state stands for: the state, the default reason code, the audit action, and the
  states it may be entered from.\<close>

definition scan_transition_target ::
    "string \<Rightarrow> (ScanAuthorizationState \<times> string \<times> string \<times> ScanAuthorizationState list) option" where
  "scan_transition_target target =
    (if target = ''REVOKED'' then Some (SA_REVOKED, ''EXECUTION_CANCELLED'',
       ''SCAN_AUTHORIZATION_REVOKED'', [SA_REQUESTED, SA_APPROVED, SA_DISPATCHABLE])
     else if target = ''EXPIRED'' then Some (SA_EXPIRED, ''EXECUTION_AUTHORITY_EXPIRED'',
       ''SCAN_AUTHORIZATION_EXPIRED'', [SA_REQUESTED, SA_APPROVED, SA_DISPATCHABLE])
     else if target = ''CONSUMED'' then Some (SA_CONSUMED, ''SCAN_AUTHORIZATION_CONSUMED'',
       ''SCAN_AUTHORIZATION_CONSUMED'', [SA_DISPATCHABLE])
     else None)"

text \<open>\<open>re.fullmatch(r"[A-Z][A-Z0-9_]{0,127}", reason_code)\<close> with the tests before it.\<close>

definition scan_reason_ok :: "string \<Rightarrow> bool" where
  "scan_reason_ok s = (case s of [] \<Rightarrow> False
     | c # cs \<Rightarrow> upper_letter c \<and> length cs \<le> 127 \<and>
         list_all (\<lambda>x. upper_letter x \<or> digit_char x \<or> x = CHR ''_'') cs)"

definition identity_argument :: "string \<Rightarrow> bool" where
  "identity_argument s = (py_strip s \<noteq> [] \<and> length s \<le> 256)"

text \<open>\<open>validate_idempotency_key\<close>: \<open>[A-Za-z0-9][A-Za-z0-9._:-]{0,127}\<close>.\<close>

definition ascii_alnum :: "char \<Rightarrow> bool" where
  "ascii_alnum c = (upper_letter c \<or> digit_char c \<or> (let n = (of_char c :: nat) in 97 \<le> n \<and> n \<le> 122))"

definition validate_idempotency_key :: "string \<Rightarrow> bool" where
  "validate_idempotency_key s = (case s of [] \<Rightarrow> False
     | c # cs \<Rightarrow> ascii_alnum c \<and> length cs \<le> 127 \<and>
         list_all (\<lambda>x. ascii_alnum x \<or> x \<in> set ''._:-'') cs)"

definition scan_parent :: "string \<Rightarrow> string \<Rightarrow> scan_request \<Rightarrow> bool" where
  "scan_parent sid org p = (sa_scan_request_id p = sid \<and> sa_organization_id p = org)"

text \<open>The subquery of the propagating updates: the decisions linked to the operations of a parent.\<close>

definition child_decisions :: "exec_db \<Rightarrow> string \<Rightarrow> string \<Rightarrow> string list" where
  "child_decisions db sid org =
     List.map_filter so_child_decision_id
       (filter (\<lambda>x. so_scan_request_id x = sid \<and> so_organization_id x = org) (scan_operations db))"

section \<open>The transition\<close>

definition revoke_children :: "string list \<Rightarrow> string \<Rightarrow> time \<Rightarrow> exec_db \<Rightarrow> exec_db" where
  "revoke_children children org now db = db\<lparr>
     execution_decisions := sql_update (\<lambda>d. d_organization_id d = org \<and> d_id d \<in> set children)
       (\<lambda>d. d\<lparr>d_revoked_at := coalesce (d_revoked_at d) (Some now)\<rparr>) (execution_decisions db),
     execution_requests := sql_update (\<lambda>q. q_organization_id q = org
         \<and> (case q_approved_decision_id q of None \<Rightarrow> False | Some i \<Rightarrow> i \<in> set children)
         \<and> q_state q = ''AUTHORIZED'')
       (\<lambda>q. q\<lparr>q_state := ''REVOKED''\<rparr>) (execution_requests db)\<rparr>"

definition expire_children :: "string list \<Rightarrow> string \<Rightarrow> time \<Rightarrow> exec_db \<Rightarrow> exec_db" where
  "expire_children children org now db = db\<lparr>
     execution_requests := sql_update (\<lambda>q. q_organization_id q = org
         \<and> (case q_approved_decision_id q of None \<Rightarrow> False | Some i \<Rightarrow> i \<in> set children))
       (\<lambda>q. q\<lparr>q_expires_at := now\<rparr>) (execution_requests db),
     execution_decisions := sql_update (\<lambda>d. d_organization_id d = org \<and> d_id d \<in> set children)
       (\<lambda>d. d\<lparr>d_expires_at := now\<rparr>) (execution_decisions db)\<rparr>"

definition consume_children :: "string list \<Rightarrow> string \<Rightarrow> time \<Rightarrow> exec_db \<Rightarrow> exec_db" where
  "consume_children children org now db = db\<lparr>
     execution_decisions := sql_update (\<lambda>d. d_organization_id d = org \<and> d_id d \<in> set children)
       (\<lambda>d. d\<lparr>d_consumed_at := coalesce (d_consumed_at d) (Some now),
               d_claim_owner := None, d_claim_expires_at := None, d_claim_token := None\<rparr>)
       (execution_decisions db)\<rparr>"

definition transition_scan_authorization_request ::
    "env \<Rightarrow> exec_db \<Rightarrow> string \<Rightarrow> string \<Rightarrow> string \<Rightarrow> string \<Rightarrow> string option \<Rightarrow> bool outcome" where
  "transition_scan_authorization_request env db sid org target actor reason =
    (if \<not> (identity_argument sid \<and> identity_argument org \<and> identity_argument actor)
     then commit db False
     else case scan_transition_target target of
       None \<Rightarrow> commit db False
     | Some (new, usual, action, sources) \<Rightarrow>
       let code = (case reason of None \<Rightarrow> usual | Some c \<Rightarrow> c) in
       if \<not> scan_reason_ok code then commit db False
       else
       let now = e_now env 0 in
       case sql_find (scan_parent sid org) (scan_requests db) of
         None \<Rightarrow> commit db False
       | Some p \<Rightarrow>
         if sa_state p = new then commit db True
         else if sa_state p \<notin> set sources then commit db False
         else
         let hit = (\<lambda>x. scan_parent sid org x \<and> sa_state x = sa_state p);
             entered = (\<lambda>x. if new = SA_REVOKED
                then x\<lparr>sa_state := SA_REVOKED, sa_revoked_at := coalesce (sa_revoked_at x) (Some now)\<rparr>
                else if new = SA_EXPIRED then x\<lparr>sa_state := SA_EXPIRED, sa_expires_at := now\<rparr>
                else x\<lparr>sa_state := SA_CONSUMED, sa_consumed_at := coalesce (sa_consumed_at x) (Some now)\<rparr>);
             children = child_decisions db sid org;
             propagated = (if new = SA_REVOKED then revoke_children children org now db
                else if new = SA_EXPIRED then expire_children children org now db
                else consume_children children org now db)
         in
         if sql_rowcount hit (scan_requests db) \<noteq> 1 then rollback db RuntimeError
         else commit (add_audit [audit_event_of env 0 (py_strip actor) org action
                ''scan_authorization_request'' sid ''SUCCESS'' (Some (sa_correlation_id p))
                [(''from'', JStr (scan_state_name (sa_state p))), (''to'', JStr target),
                 (''reason_code'', JStr code), (''scan_id'', JStr (sa_scan_id p))]]
              (propagated\<lparr>scan_requests := sql_update hit entered (scan_requests db)\<rparr>)) True)"

section \<open>The approval\<close>

definition child_request_fingerprint :: "env \<Rightarrow> string \<Rightarrow> string \<Rightarrow> string \<Rightarrow> scan_operation \<Rightarrow> string" where
  "child_request_fingerprint env sid manifest_hash org x = e_sha256 env (json_dumps (JObj
     [(''parent_scan_request_id'', JStr sid), (''manifest_hash'', JStr manifest_hash),
      (''operation_id'', JStr (so_operation_id x)), (''organization_id'', JStr org),
      (''target_id'', JStr (so_target_id x)), (''tool_id'', JStr (so_tool_id x)),
      (''engine_id'', JStr (so_engine_id x)), (''operation_family'', JStr (so_operation_family x)),
      (''operation_options'', JObj (so_operation_options x)),
      (''operation_policy_revision'', JStr (so_operation_policy_revision x)),
      (''resource_budget'', JObj (so_resource_budget x)),
      (''account_impact_budget'', JObj (so_account_impact_budget x)),
      (''credential_scope'', JObj (so_credential_scope x))]))"

record scan_link =
  sl_operation_id :: string
  sl_child_request_id :: string
  sl_child_decision_id :: string
  sl_child_execution_id :: string

text \<open>The approval call: its arguments after the parent's identity.\<close>

record scan_approval =
  ap_manifest_hash :: string
  ap_idempotency_key :: string
  ap_approver_user_id :: string
  ap_session_jti :: string
  ap_worker_identity :: string
  ap_worker_generation :: string

definition child_request :: "env \<Rightarrow> scan_request \<Rightarrow> scan_approval \<Rightarrow> string \<Rightarrow> string \<Rightarrow> time \<Rightarrow> scan_operation
    \<Rightarrow> exec_request" where
  "child_request env p a rid did now x =
    \<lparr> q_id = rid, q_idempotency_key = sa_scan_request_id p @ '':'' @ so_operation_id x,
      q_request_fingerprint = child_request_fingerprint env (sa_scan_request_id p) (ap_manifest_hash a)
        (sa_organization_id p) x,
      q_organization_id = sa_organization_id p,
      q_binding = \<lparr> b_project_id = sa_project_id p, b_asset_id = sa_asset_id p,
        b_target_id = so_target_id x, b_authorization_decision_id = so_authorization_decision_id x,
        b_target_policy_version = sa_target_policy_version p, b_tool_id = so_tool_id x,
        b_operation_family = so_operation_family x, b_operation_options = so_operation_options x,
        b_operation_policy_revision = so_operation_policy_revision x,
        b_resource_budget = so_resource_budget x, b_account_impact_budget = so_account_impact_budget x,
        b_credential_scope = so_credential_scope x \<rparr>,
      q_requested_by_user_id = sa_requested_by_user_id p, q_state = ''AUTHORIZED'',
      q_created_at = now, q_expires_at = sa_expires_at p, q_approved_decision_id = Some did,
      q_approval_idempotency_key = Some (ap_idempotency_key a) \<rparr>"

text \<open>The six inserts and the link update of one operation, the \<open>k\<close>-th of the loop; a taken key is the
  database's refusal, another row count than one the code's own.\<close>

definition materialize_child :: "env \<Rightarrow> scan_request \<Rightarrow> scan_approval \<Rightarrow> time \<Rightarrow> nat \<Rightarrow> scan_operation \<Rightarrow>
    exec_db \<Rightarrow> db_error + exec_db \<times> scan_link" where
  "materialize_child env p a now k x db =
    (let sid = sa_scan_request_id p; org = sa_organization_id p;
         rid = ''req-scan-'' @ take 16 (e_uuid env (3 * k));
         did = ''dec-scan-'' @ take 16 (e_uuid env (3 * k + 1));
         eid = ''run-scan-'' @ take 16 (e_uuid env (3 * k + 2));
         q = child_request env p a rid did now x;
         linked = (\<lambda>y. so_operation_id y = so_operation_id x \<and> so_organization_id y = org
                     \<and> so_scan_request_id y = sid)
     in if sql_rowcount (scan_parent sid org) (scan_requests db) \<noteq> 1 then Inl RuntimeError
        else if sql_exists (\<lambda>y. q_id y = rid \<or> (q_organization_id y = org
               \<and> q_idempotency_key y = q_idempotency_key q)) (execution_requests db)
           \<or> sql_exists (\<lambda>d. d_id d = did) (execution_decisions db)
           \<or> \<not> run_keys_free db eid rid org
           \<or> sql_exists (\<lambda>i. i_execution_id i = eid) (dispatch_intents db)
        then Inl IntegrityError
        else if sql_rowcount linked (scan_operations db) \<noteq> 1 then Inl RuntimeError
        else Inr (db\<lparr>
          execution_requests := execution_requests db @ [q],
          execution_decisions := execution_decisions db
            @ [approved_decision q did (ap_approver_user_id a) (ap_session_jti a) (ap_worker_identity a) now],
          execution_runs := execution_runs db
            @ [approved_run q eid did (ap_worker_identity a) (ap_worker_generation a)
                 (sa_correlation_id p) now],
          dispatch_intents := dispatch_intents db @ [pending_intent eid org now],
          process_ownerships := process_ownerships db @ [fresh_ownership eid org (sa_correlation_id p) now],
          recovery_states := recovery_states db
            @ [(fresh_recovery eid org now)\<lparr>v_worker_generation := Some (ap_worker_generation a)\<rparr>],
          scan_operations := sql_update linked
            (\<lambda>y. y\<lparr>so_child_request_id := Some rid, so_child_decision_id := Some did,
                    so_child_execution_id := Some eid\<rparr>) (scan_operations db)\<rparr>,
          \<lparr> sl_operation_id = so_operation_id x, sl_child_request_id = rid, sl_child_decision_id = did,
            sl_child_execution_id = eid \<rparr>))"

fun materialize_children :: "env \<Rightarrow> scan_request \<Rightarrow> scan_approval \<Rightarrow> time \<Rightarrow> nat \<Rightarrow> scan_operation list \<Rightarrow>
    exec_db \<Rightarrow> db_error + exec_db \<times> scan_link list" where
  "materialize_children env p a now k [] db = Inr (db, [])"
| "materialize_children env p a now k (x # xs) db =
    (case materialize_child env p a now k x db of
       Inl e \<Rightarrow> Inl e
     | Inr (db1, l) \<Rightarrow>
       (case materialize_children env p a now (Suc k) xs db1 of
          Inl e \<Rightarrow> Inl e
        | Inr (db2, ls) \<Rightarrow> Inr (db2, l # ls)))"

text \<open>\<open>ORDER BY operation_id\<close> of the operations of a parent.\<close>

definition parent_operations :: "exec_db \<Rightarrow> string \<Rightarrow> string \<Rightarrow> scan_operation list" where
  "parent_operations db sid org = map snd (sort_keys (map (\<lambda>x. (so_operation_id x, x))
     (filter (\<lambda>x. so_scan_request_id x = sid \<and> so_organization_id x = org) (scan_operations db))))"

text \<open>The links a replay returns: every selected operation must carry all three child identities,
  every other operation none.\<close>

fun replay_links :: "scan_operation list \<Rightarrow> scan_link list option" where
  "replay_links [] = Some []"
| "replay_links (x # xs) =
    (let ids = [so_child_request_id x, so_child_decision_id x, so_child_execution_id x] in
     if so_selection_state x \<noteq> ''SELECTED''
     then (if list_ex truthy ids then None else replay_links xs)
     else if \<not> list_all truthy ids then None
     else case replay_links xs of None \<Rightarrow> None
       | Some ls \<Rightarrow> Some (\<lparr> sl_operation_id = so_operation_id x,
           sl_child_request_id = the (so_child_request_id x),
           sl_child_decision_id = the (so_child_decision_id x),
           sl_child_execution_id = the (so_child_execution_id x) \<rparr> # ls))"

text \<open>
  Two read-only revalidations guard the approval and raise \<open>RuntimeError\<close> when they fail: that the
  stored manifest still matches its hash, its normalized rows, the operation policy and the current
  target, and, on a replay, that every child row still agrees with its operation.  Their verdicts on
  the store and the parent are arguments here, \<open>manifest_ok\<close> and \<open>children_ok\<close>: whatever is shown of the
  approval holds for every answer they can give.
\<close>

definition approve_scan_authorization_request ::
    "env \<Rightarrow> (exec_db \<Rightarrow> scan_request \<Rightarrow> bool) \<Rightarrow> (exec_db \<Rightarrow> scan_request \<Rightarrow> bool) \<Rightarrow>
     exec_db \<Rightarrow> string \<Rightarrow> string \<Rightarrow> scan_approval \<Rightarrow> (string \<times> scan_link list) outcome" where
  "approve_scan_authorization_request env manifest_ok children_ok db sid org a =
    (if list_ex (\<lambda>s. py_strip s = [])
          [sid, org, ap_manifest_hash a, ap_idempotency_key a, ap_approver_user_id a, ap_session_jti a,
           ap_worker_identity a, ap_worker_generation a]
        \<or> \<not> validate_idempotency_key (ap_idempotency_key a)
     then commit db (''DENIED'', [])
     else case sql_find (scan_parent sid org) (scan_requests db) of
       None \<Rightarrow> commit db (''NOT_FOUND'', [])
     | Some p \<Rightarrow>
       let now = e_now env 0;
           requested = (\<lambda>x. scan_parent sid org x \<and> sa_state x = SA_REQUESTED);
           expired = db\<lparr>scan_requests := sql_update requested (\<lambda>x. x\<lparr>sa_state := SA_EXPIRED\<rparr>)
                         (scan_requests db)\<rparr> in
       if sa_manifest_hash p \<noteq> ap_manifest_hash a then commit db (''CONFLICT'', [])
       else if sa_state p \<notin> {SA_REQUESTED, SA_DISPATCHABLE} then commit db (''CONFLICT'', [])
       else if sa_expires_at p \<le> now then commit expired (''EXPIRED'', [])
       else if \<not> active_admin db (ap_approver_user_id a) org then commit db (''DENIED'', [])
       else if is_token_revoked db (ap_session_jti a) then commit db (''DENIED'', [])
       else if \<not> manifest_ok db p then rollback db RuntimeError
       else if sa_expires_at p \<le> e_now env 1 then commit expired (''EXPIRED'', [])
       else if sa_state p = SA_DISPATCHABLE then
         (if sa_approval_idempotency_key p \<noteq> Some (ap_idempotency_key a)
             \<or> sa_approver_user_id p \<noteq> Some (ap_approver_user_id a)
             \<or> sa_approval_session_jti p \<noteq> Some (ap_session_jti a)
          then commit db (''CONFLICT'', [])
          else if \<not> children_ok db p then rollback db RuntimeError
          else case replay_links (parent_operations db sid org) of
            None \<Rightarrow> rollback db RuntimeError
          | Some links \<Rightarrow> commit db (''REPLAY'', links))
       else case materialize_children env p a now 0
           (filter (\<lambda>x. so_selection_state x = ''SELECTED'') (parent_operations db sid org)) db of
         Inl e \<Rightarrow> rollback db e
       | Inr (db1, links) \<Rightarrow>
         if sql_rowcount requested (scan_requests db1) \<noteq> 1 then rollback db RuntimeError
         else commit (add_audit [audit_event_of env 0 (ap_approver_user_id a) org
                ''INTERNAL_SCAN_AUTHORIZED'' ''scan_authorization_request'' sid ''SUCCESS''
                (Some (sa_correlation_id p))
                [(''manifest_hash'', JStr (ap_manifest_hash a)),
                 (''child_count'', JInt (int (length links))),
                 (''worker_generation'', JStr (ap_worker_generation a))]]
              (db1\<lparr>scan_requests := sql_update requested
                 (\<lambda>x. x\<lparr>sa_state := SA_DISPATCHABLE,
                         sa_approver_user_id := Some (ap_approver_user_id a),
                         sa_approval_session_jti := Some (ap_session_jti a),
                         sa_approval_idempotency_key := Some (ap_idempotency_key a)\<rparr>)
                 (scan_requests db1)\<rparr>)) (''AUTHORIZED'', links))"

end
