(* ===== verification/Exec_Lifecycle.thy ===== *)
theory Exec_Lifecycle
  imports Exec_Process Exec_Scan "HOL-Library.Sublist"
begin

text \<open>
  The life cycle of the execution store over all its operations: how one operation may change each
  row (\<open>run_step\<close>, \<open>decision_le\<close>, ...), that every operation obeys this (\<open>db_step\<close>), and what it
  means for any sequence of operations (\<open>exec_step\<close> and its reflexive transitive closure).
\<close>

section \<open>How rows change\<close>

definition run_key where
  "run_key r = (r_execution_id r, r_request_id r, r_organization_id r, r_approved_decision_id r,
     r_snapshot r, r_worker_generation r, r_correlation_id r, r_created_at r)"

text \<open>
  The state moves the operations perform: the table of \<open>models.py\<close>, and the ones settlement, the
  reaper and the abort add to it.
\<close>

definition extra_run_move :: "run_state \<Rightarrow> run_state \<Rightarrow> bool" where
  "extra_run_move s s' =
     ((s \<in> {REQUESTED, STARTING} \<and> s' \<in> {SUCCEEDED, FAILED, TIMED_OUT})
      \<or> (s = RUNNING \<and> s' = EXECUTION_BLOCKED))"

definition run_move :: "run_state \<Rightarrow> run_state \<Rightarrow> bool" where
  "run_move s s' = (s' \<in> set (EXECUTION_RUN_TRANSITIONS s) \<or> extra_run_move s s')"

text \<open>Primary keys.\<close>

definition ownership_pk where
  "ownership_pk p = (o_execution_id p, o_organization_id p)"

definition recovery_pk where
  "recovery_pk v = (v_execution_id v, v_organization_id v)"

definition run_step :: "exec_run \<Rightarrow> exec_run \<Rightarrow> bool" where
  "run_step r r' =
     (run_key r' = run_key r \<and>
      (r' = r \<or>
        (\<not> terminal (r_state r) \<and> (r_state r' = r_state r \<or> run_move (r_state r) (r_state r'))
         \<and> (terminal (r_state r') \<longrightarrow> r_finished_at r' \<noteq> None
             \<and> (r_reason_code r = None \<longrightarrow>
                  is_valid_execution_terminal_outcome (r_state r') (r_reason_code r'))))))"

fun phase :: "run_state \<Rightarrow> nat" where
  "phase REQUESTED = 0" | "phase STARTING = 1" | "phase RUNNING = 2" | "phase _ = 3"

definition run_le :: "exec_run \<Rightarrow> exec_run \<Rightarrow> bool" where
  "run_le r r' =
     (run_key r' = run_key r \<and> (terminal (r_state r) \<longrightarrow> r' = r)
      \<and> (r_state r' = r_state r \<or> phase (r_state r) < phase (r_state r')))"

definition run_complete :: "exec_run \<Rightarrow> bool" where
  "run_complete r =
     (r_approved_decision_id r \<noteq> None \<and> s_snapshot_completeness (r_snapshot r) = ''COMPLETE'')"

definition run_new :: "exec_run \<Rightarrow> bool" where
  "run_new r = (run_complete r \<and> r_state r = REQUESTED)"

definition decision_key where
  "decision_key d = (d_id d, d_organization_id d, d_binding d, d_approval_state d,
     d_approver_user_id d, d_session_jti d, d_worker_identity d, d_created_at d)"

text \<open>The expiry of a decision or a request is no part of what is kept: the expiry of a scan
  authorization sets it on the linked child rows, and its consumption marks every linked decision
  consumed, also a revoked one.\<close>

definition decision_le :: "exec_decision \<Rightarrow> exec_decision \<Rightarrow> bool" where
  "decision_le d d' =
     (decision_key d' = decision_key d
      \<and> (d_consumed_at d \<noteq> None \<longrightarrow> d_consumed_at d' = d_consumed_at d \<and> d_started_at d' = d_started_at d
           \<and> (d_claim_token d' = d_claim_token d \<or> d_claim_token d' = None))
      \<and> (d_revoked_at d \<noteq> None \<longrightarrow> d_revoked_at d' = d_revoked_at d \<and> d_started_at d' = d_started_at d
           \<and> (d_claim_token d' = d_claim_token d \<or> d_claim_token d' = None)))"

definition decision_new :: "exec_decision \<Rightarrow> bool" where
  "decision_new d = (d_approval_state d = ''APPROVED'')"

definition request_key where
  "request_key q = (q_id q, q_idempotency_key q, q_request_fingerprint q, q_organization_id q,
     q_binding q, q_requested_by_user_id q, q_created_at q)"

definition request_le :: "exec_request \<Rightarrow> exec_request \<Rightarrow> bool" where
  "request_le q q' =
     (request_key q' = request_key q
      \<and> (q_state q \<noteq> ''REQUESTED'' \<longrightarrow> q' = q\<lparr>q_expires_at := q_expires_at q'\<rparr>
           \<or> q' = q\<lparr>q_state := ''REVOKED'', q_expires_at := q_expires_at q'\<rparr>))"

definition intent_settled :: "dispatch_intent \<Rightarrow> bool" where
  "intent_settled i = (i_state i \<in> {COMPLETED, DFAILED, BLOCKED})"

definition intent_le :: "dispatch_intent \<Rightarrow> dispatch_intent \<Rightarrow> bool" where
  "intent_le i i' =
     (i_execution_id i' = i_execution_id i \<and> i_organization_id i' = i_organization_id i
      \<and> i_created_at i' = i_created_at i \<and> i_attempt_count i \<le> i_attempt_count i'
      \<and> (intent_settled i \<longrightarrow> i' = i))"

fun ownership_rank :: "ProcessOwnershipState \<Rightarrow> nat" where
  "ownership_rank UNKNOWN = 0" | "ownership_rank LAUNCH_UNCERTAIN = 1"
| "ownership_rank NO_EXTERNAL_PROCESS = 2" | "ownership_rank EXTERNAL_PROCESS_GOVERNED = 2"
| "ownership_rank RECOVERY_BLOCKED = 3" | "ownership_rank TERMINAL = 4"

definition write_once :: "'a option \<Rightarrow> 'a option \<Rightarrow> bool" where
  "write_once x y = (x \<noteq> None \<longrightarrow> y = x)"

text \<open>The group and session columns are compared as texts, so that a stored text \<open>None\<close> may become
  \<open>NULL\<close>.\<close>

definition text_once :: "string option \<Rightarrow> string option \<Rightarrow> bool" where
  "text_once x y = (x \<noteq> None \<and> x \<noteq> Some ''None'' \<longrightarrow> y = x)"

definition identity_le :: "process_ownership \<Rightarrow> process_ownership \<Rightarrow> bool" where
  "identity_le p p' =
     (write_once (o_root_process_id p) (o_root_process_id p')
      \<and> write_once (o_root_process_start_token p) (o_root_process_start_token p')
      \<and> text_once (o_process_group_id p) (o_process_group_id p')
      \<and> text_once (o_session_id p) (o_session_id p')
      \<and> (o_container_type p \<noteq> CNONE \<longrightarrow> o_container_type p' = o_container_type p)
      \<and> write_once (o_container_identity p) (o_container_identity p')
      \<and> write_once (o_worker_generation p) (o_worker_generation p')
      \<and> write_once (o_identity_attestation p) (o_identity_attestation p')
      \<and> (o_launch_commit_state p = COMMITTED \<longrightarrow> o_launch_commit_state p' = COMMITTED))"

definition ownership_key where
  "ownership_key p = (o_execution_id p, o_organization_id p, o_correlation_id p, o_created_at p)"

definition ownership_le :: "process_ownership \<Rightarrow> process_ownership \<Rightarrow> bool" where
  "ownership_le p p' =
     (ownership_key p' = ownership_key p \<and> identity_le p p'
      \<and> (o_ownership_state p = TERMINAL \<longrightarrow> p' = p)
      \<and> (o_ownership_state p' = o_ownership_state p
           \<or> ownership_rank (o_ownership_state p) < ownership_rank (o_ownership_state p'))
      \<and> (o_ownership_state p \<noteq> UNKNOWN \<longrightarrow> o_container_type p' = o_container_type p))"

definition recovery_le :: "recovery_state \<Rightarrow> recovery_state \<Rightarrow> bool" where
  "recovery_le v v' =
     (v_execution_id v' = v_execution_id v \<and> v_organization_id v' = v_organization_id v)"

definition token_le :: "revoked_token \<Rightarrow> revoked_token \<Rightarrow> bool" where
  "token_le k k' = (k_jti k' = k_jti k)"

lemma run_step_le: "run_step r r' \<Longrightarrow> run_le r r'"
  by (cases "r_state r"; cases "r_state r'")
    (auto simp: run_step_def run_le_def run_move_def extra_run_move_def)

interpretation run: row_steps r_execution_id run_step run_new
  by unfold_locales (auto simp: run_step_def run_key_def)

interpretation runs: row_evolution r_execution_id run_le run_complete
  by unfold_locales (auto simp: run_le_def run_complete_def run_key_def)

lemma decision_le_trans:
  assumes "decision_le d e" and "decision_le e f"
  shows "decision_le d f"
proof -
  have "decision_key f = decision_key d" using assms by (simp add: decision_le_def)
  moreover have "d_consumed_at f = d_consumed_at d \<and> d_started_at f = d_started_at d
      \<and> (d_claim_token f = d_claim_token d \<or> d_claim_token f = None)" if "d_consumed_at d \<noteq> None"
    using assms that unfolding decision_le_def by metis
  moreover have "d_revoked_at f = d_revoked_at d \<and> d_started_at f = d_started_at d
      \<and> (d_claim_token f = d_claim_token d \<or> d_claim_token f = None)" if "d_revoked_at d \<noteq> None"
    using assms that unfolding decision_le_def by metis
  ultimately show ?thesis by (simp only: decision_le_def) blast
qed

interpretation decision: row_evolution d_id decision_le decision_new
proof unfold_locales
  fix d e f
  show "decision_le d d" by (simp add: decision_le_def)
  show "decision_le d f" if "decision_le d e" "decision_le e f" using that by (rule decision_le_trans)
  show "d_id e = d_id d" if "decision_le d e" using that by (simp add: decision_le_def decision_key_def)
  show "decision_new e" if "decision_new d" "decision_le d e"
    using that by (simp add: decision_le_def decision_new_def decision_key_def)
qed

lemma request_le_trans:
  assumes "request_le q r" and "request_le r s"
  shows "request_le q s"
proof -
  have "s = q\<lparr>q_expires_at := q_expires_at s\<rparr> \<or> s = q\<lparr>q_state := ''REVOKED'', q_expires_at := q_expires_at s\<rparr>"
    if c: "q_state q \<noteq> ''REQUESTED''"
  proof -
    from assms(1) c obtain e where r: "r = q\<lparr>q_expires_at := e\<rparr> \<or> r = q\<lparr>q_state := ''REVOKED'', q_expires_at := e\<rparr>"
      by (auto simp only: request_le_def)
    with c have "q_state r \<noteq> ''REQUESTED''" by (elim disjE) simp_all
    with assms(2) obtain e' where "s = r\<lparr>q_expires_at := e'\<rparr> \<or> s = r\<lparr>q_state := ''REVOKED'', q_expires_at := e'\<rparr>"
      by (auto simp only: request_le_def)
    with r show ?thesis by (elim disjE) simp_all
  qed
  moreover have "request_key s = request_key q" using assms by (simp add: request_le_def)
  ultimately show ?thesis by (simp only: request_le_def) blast
qed

interpretation request: row_evolution q_id request_le "\<lambda>_. True"
proof unfold_locales
  fix q r s
  show "request_le q q" by (simp add: request_le_def)
  show "q_id r = q_id q" if "request_le q r" using that by (simp add: request_le_def request_key_def)
  show "request_le q s" if "request_le q r" "request_le r s" using that by (rule request_le_trans)
qed simp

interpretation intent: row_evolution i_execution_id intent_le "\<lambda>_. True"
  by unfold_locales (auto simp: intent_le_def)

lemma write_once_refl [simp]: "write_once x x"
  by (simp add: write_once_def)

lemma write_once_trans: "write_once x y \<Longrightarrow> write_once y z \<Longrightarrow> write_once x z"
  by (auto simp: write_once_def)

lemma text_once_refl [simp]: "text_once x x"
  by (simp add: text_once_def)

lemma text_once_trans: "text_once x y \<Longrightarrow> text_once y z \<Longrightarrow> text_once x z"
  by (auto simp: text_once_def)

lemma identity_le_refl [simp]: "identity_le p p"
  by (simp add: identity_le_def)

lemma identity_le_trans: "identity_le p q \<Longrightarrow> identity_le q r \<Longrightarrow> identity_le p r"
  by (simp add: identity_le_def) (blast intro: write_once_trans text_once_trans)

lemma ownership_le_trans:
  assumes "ownership_le p q" and "ownership_le q r"
  shows "ownership_le p r"
proof -
  note d = ownership_le_def
  have "ownership_key r = ownership_key p" "identity_le p r"
    using assms by (auto simp only: d intro: identity_le_trans)
  moreover have "o_ownership_state r = o_ownership_state p
      \<or> ownership_rank (o_ownership_state p) < ownership_rank (o_ownership_state r)"
    using assms by (auto simp only: d)
  moreover have "r = p" if "o_ownership_state p = TERMINAL"
    using assms that by (simp add: d)
  moreover have "o_container_type r = o_container_type p" if u: "o_ownership_state p \<noteq> UNKNOWN"
  proof -
    from assms(1) u have "o_ownership_state q \<noteq> UNKNOWN" "o_container_type q = o_container_type p"
      by (auto simp: d)
    with assms(2) show ?thesis by (simp add: d)
  qed
  ultimately show ?thesis by (simp only: d) blast
qed

interpretation ownership: row_evolution ownership_pk ownership_le "\<lambda>_. True"
proof unfold_locales
  fix p q r
  show "ownership_le p p" by (simp add: ownership_le_def)
  show "ownership_le p r" if "ownership_le p q" "ownership_le q r" using that by (rule ownership_le_trans)
  show "ownership_pk q = ownership_pk p" if "ownership_le p q"
    using that by (simp add: ownership_le_def ownership_key_def ownership_pk_def)
qed simp

interpretation recovery: row_evolution recovery_pk recovery_le "\<lambda>_. True"
  by unfold_locales (auto simp: recovery_le_def recovery_pk_def)

interpretation token: row_evolution k_jti token_le "\<lambda>_. True"
  by unfold_locales (auto simp: token_le_def)

interpretation attempt: row_evolution t_attempt_id "(=)" "\<lambda>_. True"
  by unfold_locales auto

section \<open>One operation\<close>

definition db_step :: "exec_db \<Rightarrow> exec_db \<Rightarrow> bool" where
  "db_step db db' =
     (rows_evolve q_id request_le (\<lambda>_. True) (execution_requests db) (execution_requests db')
      \<and> rows_evolve d_id decision_le decision_new (execution_decisions db) (execution_decisions db')
      \<and> rows_evolve r_execution_id run_step run_new (execution_runs db) (execution_runs db')
      \<and> rows_evolve i_execution_id intent_le (\<lambda>_. True) (dispatch_intents db) (dispatch_intents db')
      \<and> rows_evolve ownership_pk ownership_le (\<lambda>_. True) (process_ownerships db) (process_ownerships db')
      \<and> rows_evolve recovery_pk recovery_le (\<lambda>_. True) (recovery_states db) (recovery_states db')
      \<and> rows_evolve t_attempt_id (=) (\<lambda>_. True) (recovery_attempts db) (recovery_attempts db')
      \<and> rows_evolve k_jti token_le (\<lambda>_. True) (revoked_tokens db) (revoked_tokens db')
      \<and> prefix (audit_events db) (audit_events db'))"

lemmas table_evolves =
  run.evolve_intros decision.evolve_intros request.evolve_intros intent.evolve_intros
  ownership.evolve_intros recovery.evolve_intros token.evolve_intros attempt.evolve_intros

declare table_evolves [row_intros]

lemma evolve_all_new [simp]: "list_all (\<lambda>_. True) xs"
  by (simp add: list_all_iff)

lemma db_step_refl [simp]: "db_step db db"
  by (simp add: db_step_def row_intros)

lemma db_step_audit [simp]: "db_step db (add_audit evs db') = db_step db db'" if "audit_events db' = audit_events db"
  by (simp add: that db_step_def row_intros)

lemma record_dispatch_rejection_step:
  "audit_events db' = audit_events db \<Longrightarrow> db_step db db' \<Longrightarrow>
   db_step db (snd (record_dispatch_rejection env db' eid org actor act reason details x))"
  by (simp add: record_dispatch_rejection_def)

lemma db_stepI:
  assumes "rows_evolve q_id request_le (\<lambda>_. True) (execution_requests db) (execution_requests db')"
    and "rows_evolve d_id decision_le decision_new (execution_decisions db) (execution_decisions db')"
    and "rows_evolve r_execution_id run_step run_new (execution_runs db) (execution_runs db')"
    and "rows_evolve i_execution_id intent_le (\<lambda>_. True) (dispatch_intents db) (dispatch_intents db')"
    and "rows_evolve ownership_pk ownership_le (\<lambda>_. True) (process_ownerships db) (process_ownerships db')"
    and "rows_evolve recovery_pk recovery_le (\<lambda>_. True) (recovery_states db) (recovery_states db')"
    and "rows_evolve t_attempt_id (=) (\<lambda>_. True) (recovery_attempts db) (recovery_attempts db')"
    and "rows_evolve k_jti token_le (\<lambda>_. True) (revoked_tokens db) (revoked_tokens db')"
    and "prefix (audit_events db) (audit_events db')"
  shows "db_step db db'"
  using assms by (simp add: db_step_def)

subsection \<open>Row updates\<close>

text \<open>The row updates the operations perform respect the row relations.\<close>

lemma run_key_update [simp]:
  "run_key (r\<lparr>r_state := a\<rparr>) = run_key r" "run_key (r\<lparr>r_reason_code := b\<rparr>) = run_key r"
  "run_key (r\<lparr>r_finished_at := c\<rparr>) = run_key r" "run_key (r\<lparr>r_process_id := e\<rparr>) = run_key r"
  "run_key (r\<lparr>r_process_group_id := f\<rparr>) = run_key r" "run_key (r\<lparr>r_started_at := g\<rparr>) = run_key r"
  "run_key (r\<lparr>r_worker_identity := h\<rparr>) = run_key r"
  by (simp_all add: run_key_def)

lemma run_stepI:
  assumes "run_key r' = run_key r" and "\<not> terminal (r_state r)"
    and "run_move (r_state r) (r_state r')"
    and "terminal (r_state r') \<Longrightarrow> r_finished_at r' \<noteq> None"
    and "terminal (r_state r') \<Longrightarrow> r_reason_code r = None \<Longrightarrow>
           is_valid_execution_terminal_outcome (r_state r') (r_reason_code r')"
  shows "run_step r r'"
  using assms by (simp add: run_step_def)

lemma run_move_table:
  "run_move REQUESTED s' = (s' \<in> {STARTING, CANCELLED, EXECUTION_BLOCKED, SUCCEEDED, FAILED, TIMED_OUT})"
  "run_move STARTING s' =
     (s' \<in> {RUNNING, FAILED, CANCELLED, EXECUTION_BLOCKED, SUCCEEDED, TIMED_OUT})"
  "run_move RUNNING s' = (s' \<in> {SUCCEEDED, PARTIAL_RESULTS_WITH_WARNING, FAILED, TIMED_OUT,
     CANCELLED, EXECUTION_BLOCKED})"
  by (auto simp: run_move_def extra_run_move_def)

lemma run_move_to_terminal:
  "\<not> terminal s \<Longrightarrow> s' \<in> {CANCELLED, TIMED_OUT, FAILED, EXECUTION_BLOCKED} \<Longrightarrow> run_move s s'"
  by (cases s) (auto simp: run_move_table)

lemma cancelled_before_dispatch_step:
  "r_state r = REQUESTED \<Longrightarrow> run_step r (cancelled_before_dispatch now r)"
  by (rule run_stepI) (simp_all add: cancelled_before_dispatch_def run_move_table
      is_valid_execution_terminal_outcome_def)

lemma intent_le_rows:
  "i_state i = PENDING \<Longrightarrow> intent_le i (blocked_before_dispatch now i)"
  "\<not> intent_settled i \<Longrightarrow> intent_le i (claim_intent now worker token expiry i)"
  "\<not> intent_settled i \<Longrightarrow> intent_le i (settle_intent s now e i)"
  "\<not> intent_settled i \<Longrightarrow> intent_le i (release_intent i)"
  "\<not> intent_settled i \<Longrightarrow> intent_le i (i\<lparr>i_lease_expires_at := x\<rparr>)"
  by (simp_all add: intent_le_def intent_settled_def blocked_before_dispatch_def claim_intent_def
      settle_intent_def release_intent_def)

lemma held_not_settled: "held_by worker token i \<Longrightarrow> \<not> intent_settled i"
  by (simp add: held_by_def intent_settled_def)

lemma open_not_settled [simp]:
  "i_state i = PENDING \<Longrightarrow> \<not> intent_settled i" "i_state i = CLAIMED \<Longrightarrow> \<not> intent_settled i"
  by (simp_all add: intent_settled_def)

lemma decision_le_rows:
  "d_revoked_at d = None \<Longrightarrow> decision_le d (d\<lparr>d_revoked_at := Some now\<rparr>)"
  "decision_le d (clear_claim d)"
  "d_consumed_at d = None \<Longrightarrow> d_revoked_at d = None \<Longrightarrow>
     decision_le d (d\<lparr>d_claim_owner := a, d_claim_expires_at := b, d_claim_token := c\<rparr>)"
  "d_consumed_at d = None \<Longrightarrow> d_revoked_at d = None \<Longrightarrow>
     decision_le d (d\<lparr>d_started_at := x, d_consumed_at := y, d_claim_expires_at := z\<rparr>)"
  by (simp_all add: decision_le_def decision_key_def clear_claim_def)

lemma decision_le_children:
  "decision_le d (d\<lparr>d_revoked_at := coalesce (d_revoked_at d) (Some now)\<rparr>)"
  "decision_le d (d\<lparr>d_expires_at := now\<rparr>)"
  "decision_le d (d\<lparr>d_consumed_at := coalesce (d_consumed_at d) (Some now),
     d_claim_owner := None, d_claim_expires_at := None, d_claim_token := None\<rparr>)"
  by (auto simp: decision_le_def decision_key_def coalesce_def split: option.split)

lemma request_le_rows:
  "request_le q (q\<lparr>q_state := ''REVOKED''\<rparr>)"
  "request_le q (q\<lparr>q_expires_at := now\<rparr>)"
  "q_state q = ''REQUESTED'' \<Longrightarrow>
     request_le q (q\<lparr>q_state := a, q_approved_decision_id := b, q_approval_idempotency_key := c\<rparr>)"
  by (simp_all add: request_le_def request_key_def)

lemmas row_updates = run_stepI cancelled_before_dispatch_step intent_le_rows decision_le_rows
  request_le_rows

declare row_updates [row_intros]

lemmas row_facts = startable_def decision_claimable_def held_not_settled run_move_to_terminal run_move_table valid_outcome_terminal
  is_valid_execution_terminal_outcome_def record_dispatch_rejection_def token_le_def

lemma open_state_iff: "s = REQUESTED \<or> s = STARTING \<or> s = RUNNING \<longleftrightarrow> \<not> terminal s"
  by (cases s) simp_all

lemma run_move_final:
  "terminal ts \<Longrightarrow> run_move RUNNING ts" "\<not> terminal s \<Longrightarrow> run_move s SUCCEEDED"
  "\<not> terminal s \<Longrightarrow> run_move s FAILED"
  by (cases ts; simp add: run_move_table) (cases s; simp add: run_move_table)+

lemma transition_facts:
  "s' \<in> set (EXECUTION_RUN_TRANSITIONS s) \<Longrightarrow> run_move s s'"
  "s' \<in> set (EXECUTION_RUN_TRANSITIONS s) \<Longrightarrow> \<not> terminal s"
  by (simp add: run_move_def) (cases s; simp)

text \<open>The settling leaf the operations share: runs and intents updated, the rest untouched.\<close>

lemma db_step_settle:
  assumes "\<And>r. P r \<Longrightarrow> run_step r (f r)" and "\<And>i. Q i \<Longrightarrow> intent_le i (g i)"
  shows "db_step db (db\<lparr>execution_runs := sql_update P f (execution_runs db),
      dispatch_intents := sql_update Q g (dispatch_intents db)\<rparr>)"
    "db_step db (db\<lparr>dispatch_intents := sql_update Q g (dispatch_intents db),
      execution_runs := sql_update P f (execution_runs db)\<rparr>)"
  by (auto intro!: db_stepI row_intros assms)

lemma db_step_intents:
  "(\<And>i. Q i \<Longrightarrow> intent_le i (g i)) \<Longrightarrow>
     db_step db (db\<lparr>dispatch_intents := sql_update Q g (dispatch_intents db)\<rparr>)"
  by (auto intro!: db_stepI row_intros)

text \<open>Following the control flow of a large operation branch by branch.\<close>

lemma step_flow:
  "(b \<Longrightarrow> db_step db (snd x)) \<Longrightarrow> (\<not> b \<Longrightarrow> db_step db (snd y)) \<Longrightarrow>
     db_step db (snd (if b then x else y))"
  "db_step db (snd (f a)) \<Longrightarrow> db_step db (snd (Let a f))"
  "(z = None \<Longrightarrow> db_step db (snd n)) \<Longrightarrow> (\<And>w. z = Some w \<Longrightarrow> db_step db (snd (g w))) \<Longrightarrow>
     db_step db (snd (case z of None \<Rightarrow> n | Some w \<Rightarrow> g w))"
  "(\<And>u v. p = (u, v) \<Longrightarrow> db_step db (snd (h u v))) \<Longrightarrow>
     db_step db (snd (case p of (u, v) \<Rightarrow> h u v))"
  "db_step db (snd (rollback db e))"
  "db_step db db' \<Longrightarrow> audit_events db' = audit_events db \<Longrightarrow>
     db_step db (snd (commit (add_audit evs db') c))"
  "db_step db db' \<Longrightarrow> db_step db (snd (commit db' c))"
  "audit_events db' = audit_events db \<Longrightarrow> db_step db db' \<Longrightarrow>
     db_step db (snd (record_dispatch_rejection env db' eid org actor act reason details c))"
  by (auto simp: record_dispatch_rejection_def split: option.splits prod.splits)

subsection \<open>The operations\<close>

lemma fresh_simps:
  "\<not> sql_exists P t \<longleftrightarrow> (\<forall>r \<in> set t. \<not> P r)"
  by (simp add: sql_exists_iff)

lemmas insert_facts = fresh_simps run_keys_free_def ownership_pk_def recovery_pk_def
  fresh_ownership_def fresh_recovery_def approved_decision_def approved_run_def snapshot_of_def
  pending_intent_def decision_new_def run_new_def run_complete_def

lemma create_execution_request_step: "db_step db (snd (create_execution_request env db req))"
  unfolding create_execution_request_def
  by (intro step_flow db_stepI; auto simp: insert_facts intro!: row_intros)

lemma create_execution_decision_step: "db_step db (snd (create_execution_decision env db dec))"
  unfolding create_execution_decision_def
  by (intro step_flow db_stepI; auto simp: insert_facts intro!: row_intros)

lemma approve_execution_request_step:
  "db_step db (snd (approve_execution_request env db rid org fp ikey approver jti worker gen))"
  unfolding approve_execution_request_def
  by (intro step_flow db_stepI; auto simp: insert_facts intro!: row_intros)

text \<open>Rows appended one after another in a single call.\<close>

lemma append_new:
  assumes "rows_evolve key R N t t'" and "N r" and "\<And>s. s \<in> set t' \<Longrightarrow> key s \<noteq> key r"
    and "\<And>r s. R r s \<Longrightarrow> key s = key r"
  shows "rows_evolve key R N t (t' @ [r])"
  using assms(1)
proof (rule rows_evolveE)
  fix u v
  assume *: "t' = u @ v" "list_all2 R t u" "list_all N v" "distinct (map key v)" "key ` set t \<inter> key ` set v = {}"
  have "key ` set u = key ` set t"
    using *(2) by (induction rule: list_all2_induct) (auto dest: assms(4))
  moreover have "key r \<notin> key ` set u \<union> key ` set v" using assms(3) *(1) by (auto dest: sym)
  ultimately have "list_all N (v @ [r])" "distinct (map key (v @ [r]))"
    "key ` set t \<inter> key ` set (v @ [r]) = {}" using assms(2) * by auto
  with rows_evolveI [OF *(2) this] *(1) show ?thesis by simp
qed

lemma materialize_child_step:
  assumes "db_step db db1" and "materialize_child env p a now k x db1 = Inr (db2, l)"
  shows "db_step db db2"
proof -
  have keys: "\<And>r s. request_le r s \<Longrightarrow> q_id s = q_id r" "\<And>r s. decision_le r s \<Longrightarrow> d_id s = d_id r"
    "\<And>r s. run_step r s \<Longrightarrow> r_execution_id s = r_execution_id r"
    "\<And>r s. intent_le r s \<Longrightarrow> i_execution_id s = i_execution_id r"
    "\<And>r s. ownership_le r s \<Longrightarrow> ownership_pk s = ownership_pk r"
    "\<And>r s. recovery_le r s \<Longrightarrow> recovery_pk s = recovery_pk r"
    by (rule request.R_key decision.R_key run.R_key intent.R_key ownership.R_key recovery.R_key, assumption)+
  show ?thesis
    using assms unfolding materialize_child_def Let_def
    by (auto simp: db_step_def insert_facts child_request_def intro!: append_new keys split: if_splits)
qed

lemma materialize_children_step:
  "db_step db db1 \<Longrightarrow> materialize_children env p a now k xs db1 = Inr (db2, ls) \<Longrightarrow> db_step db db2"
proof (induction xs arbitrary: k db1 ls)
  case (Cons x xs)
  then obtain dbx l ls' where "materialize_child env p a now k x db1 = Inr (dbx, l)"
      "materialize_children env p a now (Suc k) xs dbx = Inr (db2, ls')"
    by (auto split: sum.splits)
  then show ?case using Cons.IH Cons.prems(1) materialize_child_step by blast
qed simp

lemma materialize_children_frame:
  "materialize_children env p a now k xs db1 = Inr (db2, ls) \<Longrightarrow>
     audit_events db2 = audit_events db1 \<and> revoked_tokens db2 = revoked_tokens db1
     \<and> scan_requests db2 = scan_requests db1 \<and> organizations db2 = organizations db1
     \<and> users db2 = users db1 \<and> assets db2 = assets db1 \<and> recovery_attempts db2 = recovery_attempts db1"
proof (induction xs arbitrary: k db1 ls)
  case (Cons x xs)
  then obtain dbx l ls' where "materialize_child env p a now k x db1 = Inr (dbx, l)"
      "materialize_children env p a now (Suc k) xs dbx = Inr (db2, ls')"
    by (auto split: sum.splits)
  with Cons.IH [OF this(2)] show ?case by (auto simp: materialize_child_def Let_def split: if_splits)
qed simp

text \<open>The tables of parents and operations are not part of the row relations.\<close>

lemma db_step_parents [simp]: "db_step db (db'\<lparr>scan_requests := ps\<rparr>) = db_step db db'"
  by (simp add: db_step_def)

lemma approve_scan_authorization_request_step:
  "db_step db (snd (approve_scan_authorization_request env ok ok' db sid org a))"
proof -
  have leaf: "db_step db (snd (case materialize_children env p a now 0 xs db of Inl e \<Rightarrow> rollback db e
      | Inr (db1, ls) \<Rightarrow> f db1 ls))"
    if "\<And>db1 ls. db_step db db1 \<Longrightarrow> audit_events db1 = audit_events db \<Longrightarrow> db_step db (snd (f db1 ls))"
    for p now xs and f :: "_ \<Rightarrow> _ \<Rightarrow> 'z outcome"
    using that materialize_children_step [OF db_step_refl] materialize_children_frame
    by (auto split: sum.splits)
  show ?thesis
    unfolding approve_scan_authorization_request_def
    by (intro step_flow leaf; simp)
qed

lemma children_step:
  "db_step db (revoke_children c org now db)" "db_step db (expire_children c org now db)"
  "db_step db (consume_children c org now db)"
  by (auto simp: revoke_children_def expire_children_def consume_children_def
      intro!: db_stepI row_intros decision_le_children)

lemma children_audit [simp]:
  "audit_events (revoke_children c org now db) = audit_events db"
  "audit_events (expire_children c org now db) = audit_events db"
  "audit_events (consume_children c org now db) = audit_events db"
  by (simp_all add: revoke_children_def expire_children_def consume_children_def)

lemma transition_scan_authorization_request_step:
  "db_step db (snd (transition_scan_authorization_request env db sid org target actor reason))"
  unfolding transition_scan_authorization_request_def
  by (intro step_flow; simp add: children_step)

lemma create_execution_run_step: "db_step db (snd (create_execution_run env db run))"
  unfolding create_execution_run_def
  by (intro step_flow db_stepI; auto simp: insert_facts intro!: row_intros)

lemma revoke_execution_decision_step:
  "db_step db (snd (revoke_execution_decision env db did org actor))"
  unfolding revoke_execution_decision_def Let_def
  by (simp split: option.split list.split prod.split)
    (auto simp: row_facts intro!: db_stepI row_intros)

lemma revoke_execution_request_step:
  "db_step db (snd (revoke_execution_request env db rid org actor))"
  unfolding revoke_execution_request_def Let_def
  by (simp split: option.split list.split prod.split)
    (auto simp: row_facts intro!: db_stepI row_intros)

lemma revoke_token_step: "db_step db (snd (revoke_token env db jti th ex))"
  unfolding revoke_token_def is_token_revoked_def
  by (intro step_flow db_stepI; auto simp: token_le_def fresh_simps intro!: row_intros)

lemma claim_execution_decision_step:
  "db_step db (snd (claim_execution_decision env db did org jti worker revision now))"
  unfolding claim_execution_decision_def Let_def
  by (simp split: option.split list.split prod.split)
    (auto simp: row_facts intro!: db_stepI row_intros)

lemma release_execution_decision_claim_step:
  "db_step db (snd (release_execution_decision_claim env db did org worker token))"
  unfolding release_execution_decision_claim_def Let_def
  by (simp split: option.split list.split prod.split)
    (auto simp: row_facts intro!: db_stepI row_intros)

lemma mark_execution_decision_started_step:
  "db_step db (snd (mark_execution_decision_started env db did org worker token dt pid pgid now))"
  unfolding mark_execution_decision_started_def Let_def
  by (simp split: option.split list.split prod.split)
    (auto simp: row_facts intro!: db_stepI row_intros)

lemma claim_execution_authority_step:
  "db_step db (snd (claim_execution_authority env db did org jti worker revision dt now ls))"
  unfolding claim_execution_authority_def Let_def
  by (simp split: option.split list.split prod.split)
    (auto simp: row_facts intro!: db_stepI row_intros)

lemma release_execution_authority_step:
  "db_step db (snd (release_execution_authority env db did org worker token dt))"
  unfolding release_execution_authority_def Let_def
  by (simp split: option.split list.split prod.split)
    (auto simp: row_facts intro!: db_stepI row_intros)

lemma abort_execution_start_step:
  "db_step db (snd (abort_execution_start env db did org worker token dt ts reason pid pgid))"
  unfolding abort_execution_start_def Let_def
  by (simp split: option.split list.split prod.split)
    (auto simp: row_facts intro!: db_stepI row_intros)

lemma finish_execution_step:
  "db_step db (snd (finish_execution env db eid org worker token ts reason pid pgid))"
proof (cases "is_valid_execution_terminal_outcome ts reason")
  case False
  then show ?thesis by (simp add: finish_execution_def Let_def)
next
  case True
  note final = run_move_final(1) [OF valid_outcome_terminal [OF True]]
  show ?thesis
    unfolding finish_execution_def
    by (intro step_flow db_step_settle run_stepI; (elim conjE)?;
        simp add: held_not_settled final True intent_le_rows)
qed

lemma claim_execution_dispatch_intent_step:
  "db_step db (snd (claim_execution_dispatch_intent env db eid org worker ls now))"
  unfolding claim_execution_dispatch_intent_def
  by (intro step_flow db_step_intents; (elim conjE)?; auto simp: held_not_settled intent_le_rows)

lemma renew_execution_dispatch_lease_step:
  "db_step db (snd (renew_execution_dispatch_lease env db eid org worker token ls now))"
  unfolding renew_execution_dispatch_lease_def
  by (intro step_flow db_step_intents; (elim conjE)?; auto simp: held_not_settled intent_le_rows)

lemma acknowledge_execution_cancellation_step:
  "db_step db (snd (acknowledge_execution_cancellation env db eid org worker token))"
  unfolding acknowledge_execution_cancellation_def
  by (intro step_flow db_step_settle db_step_intents run_stepI; (elim conjE)?;
      simp add: held_not_settled run_move_to_terminal open_state_iff intent_le_rows
        is_valid_execution_terminal_outcome_def)

lemma reap_execution_dispatch_step:
  "db_step db (snd (reap_execution_dispatch env db eid org ts reason actor))"
  unfolding reap_execution_dispatch_def
  by (intro step_flow db_step_settle run_stepI; (elim conjE)?;
      auto simp: run_move_to_terminal intent_le_rows)

lemma settle_execution_dispatch_intent_step:
  "db_step db (snd (settle_execution_dispatch_intent env db eid org worker token success code))"
  unfolding settle_execution_dispatch_intent_def
  by (intro step_flow db_step_settle run_stepI; (elim conjE)?;
      simp add: held_not_settled run_move_final open_state_iff intent_le_rows)

lemma transition_execution_run_step: "db_step db (snd (transition_execution_run env db eid org expected new reason pid worker token))"
proof (cases "new \<in> set (EXECUTION_RUN_TRANSITIONS expected)")
  case False
  then show ?thesis by (simp add: transition_execution_run_def)
next
  case True
  note move = transition_facts [OF True]
  show ?thesis
    unfolding transition_execution_run_def
    apply (intro step_flow db_step_settle db_step_intents run_stepI)
    by ((elim conjE)?; simp add: move intent_le_rows)+
qed

lemma record_recovery_attempt_step: "db_step db (snd (record_recovery_attempt env db a actor))"
  unfolding record_recovery_attempt_def attempt_taken_def
  by (intro step_flow db_stepI;
      auto simp: recovery_le_def projection_of_def insert_facts intro!: row_intros)

lemma claim_recovery_step: "db_step db (snd (claim_recovery env db eid org owner gen ls))"
  unfolding claim_recovery_def attempt_taken_def
  by (intro step_flow db_stepI;
      auto simp: recovery_le_def sql_find_None insert_facts intro!: row_intros)

lemma renew_recovery_step: "db_step db (snd (renew_recovery env db eid org owner token gen ls))"
  unfolding renew_recovery_def
  by (intro step_flow db_stepI; auto simp: recovery_le_def intro!: row_intros)

lemma ownership_blocked:
  "o_ownership_state p = LAUNCH_UNCERTAIN \<Longrightarrow>
     ownership_le p (p\<lparr>o_ownership_state := RECOVERY_BLOCKED, o_updated_at := now\<rparr>)"
  by (simp add: ownership_le_def ownership_key_def identity_le_def)

lemma recovery_le_row:
  "v_execution_id v' = v_execution_id v \<Longrightarrow> v_organization_id v' = v_organization_id v \<Longrightarrow>
     recovery_le v v'"
  by (simp add: recovery_le_def)

lemma db_step_recovery:
  assumes "\<And>v. P v \<Longrightarrow> recovery_le v (f v)"
    and "\<not> sql_exists (\<lambda>t. t_attempt_id t = t_attempt_id a) (recovery_attempts db)"
  shows "db_step db (db\<lparr>recovery_states := sql_update P f (recovery_states db),
      process_ownerships := (if b then sql_update (\<lambda>p. o_execution_id p = eid \<and> o_organization_id p = org
           \<and> o_ownership_state p = LAUNCH_UNCERTAIN)
           (\<lambda>p. p\<lparr>o_ownership_state := RECOVERY_BLOCKED, o_updated_at := now\<rparr>) (process_ownerships db)
         else process_ownerships db),
      recovery_attempts := recovery_attempts db @ [a]\<rparr>)"
  using assms by (auto simp: fresh_simps intro!: db_stepI row_intros ownership_blocked)

lemma db_step_recovery_states:
  "(\<And>v. P v \<Longrightarrow> recovery_le v (f v)) \<Longrightarrow>
     db_step db (db\<lparr>recovery_states := sql_update P f (recovery_states db)\<rparr>)"
  by (auto intro!: db_stepI row_intros)

lemma complete_recovery_step:
  "db_step db (snd (complete_recovery env db eid org owner token gen status res err retry))"
  unfolding complete_recovery_def attempt_taken_def
  by (intro step_flow db_step_recovery db_step_recovery_states recovery_le_row; simp)

subsection \<open>The ownership transition\<close>

lemma unknown_mismatches_Nil:
  "unknown_mismatches e = [] \<longleftrightarrow>
     (o_container_type e = CNONE \<and> o_launch_commit_state e = NOT_ATTEMPTED
      \<and> o_root_process_id e = None \<and> o_root_process_start_token e = None
      \<and> o_process_group_id e = None \<and> o_session_id e = None \<and> o_container_identity e = None
      \<and> o_worker_generation e = None \<and> o_identity_attestation e = None \<and> o_no_process_proof e = None)"
  by (simp add: unknown_mismatches_def)

lemma kept_columns:
  "\<not> changed_opt x y \<Longrightarrow> write_once x y" "\<not> changed_text u v \<Longrightarrow> text_once u v"
  by (cases v; auto simp: changed_opt_def changed_text_def write_once_def text_once_def py_str_def)+

lemma known_mismatches_Nil:
  assumes "known_mismatches e rec = []"
  shows "write_once (o_root_process_id e) (o_root_process_id rec)"
    "write_once (o_root_process_start_token e) (o_root_process_start_token rec)"
    "text_once (o_process_group_id e) (o_process_group_id rec)"
    "text_once (o_session_id e) (o_session_id rec)"
    "write_once (o_container_identity e) (o_container_identity rec)"
    "write_once (o_worker_generation e) (o_worker_generation rec)"
    "write_once (o_identity_attestation e) (o_identity_attestation rec)"
    "o_container_type rec = o_container_type e"
    "o_launch_commit_state e = COMMITTED \<Longrightarrow> o_launch_commit_state rec = COMMITTED"
  using assms
  by (auto simp: known_mismatches_def intro: kept_columns split: if_splits)

lemma ownership_rank_transition:
  "is_valid_process_ownership_transition s s' \<Longrightarrow> s' = s \<or> ownership_rank s < ownership_rank s'"
  by (cases s) (auto simp: is_valid_process_ownership_transition_def)

lemma advance_ownership_le:
  assumes "(if o_ownership_state e = UNKNOWN then unknown_mismatches e
            else known_mismatches e rec) = []"
    and "o_ownership_state e \<noteq> TERMINAL"
    and "is_valid_process_ownership_transition (o_ownership_state e) (o_ownership_state rec)"
  shows "ownership_le e (advance_ownership rec e)"
proof -
  have "identity_le e (advance_ownership rec e)"
  proof (cases "o_ownership_state e = UNKNOWN")
    case True
    with assms(1) show ?thesis
      by (simp add: unknown_mismatches_Nil identity_le_def write_once_def text_once_def)
  next
    case False
    with assms(1) have "known_mismatches e rec = []" by simp
    from known_mismatches_Nil [OF this] show ?thesis
      by (simp add: identity_le_def advance_ownership_def)
  qed
  moreover have "ownership_key (advance_ownership rec e) = ownership_key e"
    by (simp add: ownership_key_def advance_ownership_def)
  moreover have "o_container_type (advance_ownership rec e) = o_container_type e"
    if "o_ownership_state e \<noteq> UNKNOWN"
    using that assms(1) known_mismatches_Nil(8) by (simp add: advance_ownership_def)
  moreover have "o_ownership_state (advance_ownership rec e) = o_ownership_state e
      \<or> ownership_rank (o_ownership_state e) < ownership_rank (o_ownership_state (advance_ownership rec e))"
    using ownership_rank_transition [OF assms(3)] by (simp add: advance_ownership_def)
  ultimately show ?thesis
    unfolding ownership_le_def using assms(2) by blast
qed

lemma unique_ownership:
  assumes "distinct (map ownership_pk (process_ownerships db))"
    and "get_process_ownership db eid org = Some e"
    and "x \<in> set (process_ownerships db)" "o_execution_id x = eid" "o_organization_id x = org"
  shows "x = e"
proof -
  from assms(2) have "e \<in> set (process_ownerships db)" "o_execution_id e = eid" "o_organization_id e = org"
    by (auto simp: get_process_ownership_def dest: sql_find_Some)
  with assms(3-5) have "ownership_pk x = ownership_pk e" "e \<in> set (process_ownerships db)"
    by (simp_all add: ownership_pk_def)
  with assms(1,3) show ?thesis by (auto simp: distinct_map dest: inj_onD)
qed

lemma db_step_ownership:
  "(\<And>p. p \<in> set (process_ownerships db) \<Longrightarrow> P p \<Longrightarrow> ownership_le p (f p)) \<Longrightarrow>
     db_step db (db\<lparr>process_ownerships := sql_update P f (process_ownerships db)\<rparr>)"
  by (auto intro!: db_stepI row_intros)

lemma advance_found_row:
  assumes "distinct (map ownership_pk (process_ownerships db))"
    and "get_process_ownership db eid org = Some e"
    and "p \<in> set (process_ownerships db)" "o_execution_id p = eid" "o_organization_id p = org"
    and "(if o_ownership_state e = UNKNOWN then unknown_mismatches e else known_mismatches e rec) = []"
    and "o_ownership_state e \<noteq> TERMINAL"
    and "is_valid_process_ownership_transition (o_ownership_state e) (o_ownership_state rec)"
  shows "ownership_le p (advance_ownership rec p)"
  using unique_ownership [OF assms(1-5)] advance_ownership_le [OF assms(6-8)] by simp

lemma transition_process_ownership_step:
  assumes "distinct (map ownership_pk (process_ownerships db))"
  shows "db_step db (snd (transition_process_ownership env db rec expected actor reason worker))"
  unfolding transition_process_ownership_def
  by (intro step_flow db_step_ownership)
    (simp_all, (elim conjE, erule (1) advance_found_row [OF assms]; simp)+)

end
