(* ===== verification/Json_Canonical.thy ===== *)
theory Json_Canonical
  imports Json
begin

text \<open>
  The canonical JSON the code hashes determines the value: two values with the same
  \<open>json.dumps(\<dots>, sort_keys=True)\<close> are equal up to the order of the keys of their objects.  Every
  digest over such a text (policy revisions, gateway seals, decision fingerprints) therefore binds
  the value, as far as the hash does.
\<close>

section \<open>Canonical values\<close>

fun canon :: "json \<Rightarrow> json" where
  "canon (JArr xs) = JArr (map canon xs)"
| "canon (JObj kvs) = JObj (sort_keys (map (\<lambda>kv. (fst kv, canon (snd kv))) kvs))"
| "canon v = v"

text \<open>Rendering without sorting, with the compact separators.\<close>

fun plain :: "json \<Rightarrow> string" where
  "plain JNull = ''null''"
| "plain (JBool b) = (if b then ''true'' else ''false'')"
| "plain (JInt i) = str_int i"
| "plain (JStr s) = json_string s"
| "plain (JArr xs) = ''['' @ join_with '','' (map plain xs) @ '']''"
| "plain (JObj kvs) = ''{'' @ join_with '','' (map (\<lambda>kv. json_string (fst kv) @ '':'' @ plain (snd kv)) kvs) @ ''}''"

lemma insert_key_map:
  "insert_key (k, f v) (map (\<lambda>kv. (fst kv, f (snd kv))) xs) = map (\<lambda>kv. (fst kv, f (snd kv))) (insert_key (k, v) xs)"
  by (induction xs) auto

lemma sort_keys_map:
  "sort_keys (map (\<lambda>kv. (fst kv, f (snd kv))) kvs) = map (\<lambda>kv. (fst kv, f (snd kv))) (sort_keys kvs)"
  by (induction kvs) (auto simp: sort_keys_def insert_key_map)

lemma json_dumps_plain: "json_dumps v = plain (canon v)"
proof -
  have "json_render '','' '':'' v = plain (canon v)"
  proof (induction v rule: canon.induct)
    case (1 xs)
    then show ?case by (simp add: comp_def cong: map_cong)
  next
    case (2 kvs)
    have ih: "json_render '','' '':'' (snd kv) = plain (canon (snd kv))" if "kv \<in> set kvs" for kv
      using 2 that by (metis snds.intros surjective_pairing)
    have "map (\<lambda>kv. (fst kv, json_render '','' '':'' (snd kv))) kvs
        = map (\<lambda>kv. (fst kv, plain (canon (snd kv)))) kvs"
      using ih by simp
    then have "sort_keys (map (\<lambda>kv. (fst kv, json_render '','' '':'' (snd kv))) kvs)
        = map (\<lambda>kv. (fst kv, plain (canon (snd kv)))) (sort_keys kvs)"
      by (simp only: sort_keys_map [where f = "\<lambda>v. plain (canon v)"])
    moreover have "sort_keys (map (\<lambda>kv. (fst kv, canon (snd kv))) kvs)
        = map (\<lambda>kv. (fst kv, canon (snd kv))) (sort_keys kvs)"
      by (rule sort_keys_map)
    ultimately show ?case
      by (simp add: case_prod_beta comp_def)
  qed simp_all
  then show ?thesis by (simp add: json_dumps_def)
qed

section \<open>Reading back\<close>

text \<open>What may follow a value: nothing, or a closing bracket or comma.\<close>

definition stops :: "string \<Rightarrow> bool" where
  "stops s = (s = [] \<or> hd s \<in> {CHR '','', CHR '']'', CHR ''}''})"

lemma stops_simps [simp]:
  "stops []" "stops (CHR '','' # s)" "stops (CHR '']'' # s)" "stops (CHR ''}'' # s)"
  by (simp_all add: stops_def)

definition is_digit :: "char \<Rightarrow> bool" where
  "is_digit c = (48 \<le> (of_char c :: nat) \<and> (of_char c :: nat) \<le> 57)"

fun digits_value :: "nat \<Rightarrow> string \<Rightarrow> nat" where
  "digits_value n [] = n"
| "digits_value n (c # s) = digits_value (10 * n + (of_char c - 48)) s"

lemma digits_value_append: "digits_value n (s @ [c]) = 10 * digits_value n s + (of_char c - 48)"
  by (induction s arbitrary: n) auto

lemma digit_of_value: "n < 10 \<Longrightarrow> (of_char (digit_of n) :: nat) = 48 + n"
  by (simp add: digit_of_def)

lemma str_nat_digits: "list_all is_digit (str_nat n)"
  by (induction n rule: str_nat.induct)
    (subst str_nat.simps, auto simp: digit_of_value is_digit_def [of "digit_of _"])

lemma str_nat_value: "digits_value 0 (str_nat n) = n"
proof (induction n rule: str_nat.induct)
  case (1 n)
  show ?case
  proof (cases "n < 10")
    case True
    then show ?thesis by (subst str_nat.simps) (simp add: digit_of_value)
  next
    case False
    with 1 show ?thesis
      by (subst str_nat.simps) (simp add: digits_value_append digit_of_value)
  qed
qed

lemma str_nat_inj: "str_nat n = str_nat m \<longleftrightarrow> n = m"
  by (metis str_nat_value)

lemma is_digit_simps [simp]:
  "\<not> is_digit (CHR '','')" "\<not> is_digit (CHR '']'')" "\<not> is_digit (CHR ''}'')" "\<not> is_digit (CHR ''-'')"
  "\<not> is_digit (CHR 0x22)" "\<not> is_digit (CHR ''['')" "\<not> is_digit (CHR ''{'')" "\<not> is_digit (CHR ''n'')"
  "\<not> is_digit (CHR ''t'')" "\<not> is_digit (CHR ''f'')"
  by (simp_all add: is_digit_def)

lemma stops_no_digit: "stops s \<Longrightarrow> takeWhile is_digit s = [] \<and> dropWhile is_digit s = s"
  by (cases s) (auto simp: stops_def)

lemma str_nat_prefix:
  assumes "str_nat n @ s = str_nat m @ t" "stops s" "stops t"
  shows "n = m \<and> s = t"
proof -
  have split: "takeWhile is_digit (str_nat k @ r) = str_nat k" if "stops r" for k r
    using str_nat_digits [of k] stops_no_digit [OF that]
    by (subst takeWhile_append2) (auto simp: list_all_iff)
  from split [OF assms(2), of n] split [OF assms(3), of m] assms(1) have "str_nat n = str_nat m" by simp
  with assms(1) show ?thesis by (simp add: str_nat_inj)
qed

lemma str_nat_head: "\<exists>c r. str_nat n = c # r \<and> is_digit c"
  using str_nat_digits [of n] str_nat_nonempty [of n] by (cases "str_nat n") auto

lemma str_int_prefix:
  assumes "str_int i @ s = str_int j @ t" "stops s" "stops t"
  shows "i = j \<and> s = t"
proof -
  have head: "str_nat n @ r \<noteq> CHR ''-'' # q" "CHR ''-'' # q \<noteq> str_nat n @ r" for n r q
    using str_nat_head [of n] by auto
  show ?thesis
  proof (cases "i < 0")
    case True
    with assms(1) head have "j < 0" by (auto simp: str_int_def split: if_splits)
    with True assms str_nat_prefix [of "nat (- i)" s "nat (- j)" t] show ?thesis
      by (auto simp: str_int_def)
  next
    case False
    with assms(1) head have "\<not> j < 0" by (auto simp: str_int_def split: if_splits)
    with False assms str_nat_prefix [of "nat i" s "nat j" t] show ?thesis
      by (auto simp: str_int_def)
  qed
qed

lemma str_int_head: "\<exists>c r. str_int i = c # r \<and> (is_digit c \<or> c = CHR ''-'')"
  using str_nat_head [of "nat i"] by (auto simp: str_int_def)

section \<open>Strings\<close>

text \<open>The inverse of the escapes: what character a text starts with, and the rest.\<close>

definition hex_number :: "char \<Rightarrow> nat" where
  "hex_number c = (let n = (of_char c :: nat) in if n < 58 then n - 48 else n - 87)"

fun unescape :: "string \<Rightarrow> (char \<times> string) option" where
  "unescape [] = None"
| "unescape (c # s) =
     (if c = CHR 0x22 then None
      else if c \<noteq> CHR 0x5C then Some (c, s)
      else (case s of
          [] \<Rightarrow> None
        | d # s' \<Rightarrow>
            if d = CHR ''n'' then Some (CHR 0x0A, s')
            else if d = CHR ''r'' then Some (CHR 0x0D, s')
            else if d = CHR ''t'' then Some (CHR 0x09, s')
            else if d = CHR ''f'' then Some (CHR 0x0C, s')
            else if d = CHR ''b'' then Some (CHR 0x08, s')
            else if d = CHR ''u'' then Some (char_of (16 * hex_number (s' ! 2) + hex_number (s' ! 3)), drop 4 s')
            else Some (d, s')))"

lemma hex_number_digit: "n < 16 \<Longrightarrow> hex_number (hex_digit n) = n"
  by (simp add: hex_number_def hex_digit_def Let_def)

lemma code_eq: "(c = d) \<longleftrightarrow> ((of_char c :: nat) = of_char d)"
  by (metis char_of_char)

lemma unescape_escape: "unescape (json_escape c @ s) = Some (c, s)"
proof -
  have c: "c = char_of (of_char c :: nat)" by simp
  have lt: "(of_char c :: nat) < 256" using nat_of_char_less_256 by simp
  show ?thesis
    using lt
    by (auto simp: json_escape_def Let_def code_eq hex_number_digit less_mult_imp_div_less nth_Cons')
qed

lemma json_string_prefix:
  "concat (map json_escape a) @ CHR 0x22 # s = concat (map json_escape b) @ CHR 0x22 # t
     \<Longrightarrow> a = b \<and> s = t"
proof (induction a arbitrary: b)
  case Nil
  have "unescape (CHR 0x22 # s) = None" by simp
  with Nil show ?case
    using unescape_escape [of "hd b" "concat (map json_escape (tl b)) @ CHR 0x22 # t"]
    by (cases b) (auto simp del: unescape.simps)
next
  case (Cons c a)
  from Cons.prems have u: "unescape (concat (map json_escape b) @ CHR 0x22 # t)
      = Some (c, concat (map json_escape a) @ CHR 0x22 # s)"
    using unescape_escape [of c "concat (map json_escape a) @ CHR 0x22 # s"] by simp
  then obtain d b' where b: "b = d # b'" by (cases b) auto
  with u unescape_escape [of d "concat (map json_escape b') @ CHR 0x22 # t"]
  have "d = c" "concat (map json_escape b') @ CHR 0x22 # t = concat (map json_escape a) @ CHR 0x22 # s"
    by auto
  with Cons.IH [of b'] b show ?case by auto
qed

lemma json_string_inj: "json_string a @ s = json_string b @ t \<Longrightarrow> a = b \<and> s = t"
  using json_string_prefix [of a s b t] by (simp add: json_string_def)

section \<open>Injectivity\<close>

lemma json_string_head: "json_string s = CHR 0x22 # concat (map json_escape s) @ [CHR 0x22]"
  by (simp add: json_string_def)

text \<open>The first character of a rendered value tells its kind.\<close>

definition head_of :: "json \<Rightarrow> char \<Rightarrow> bool" where
  "head_of v c = (case v of
      JNull \<Rightarrow> c = CHR ''n''
    | JBool b \<Rightarrow> c = (if b then CHR ''t'' else CHR ''f'')
    | JInt i \<Rightarrow> is_digit c \<or> c = CHR ''-''
    | JStr x \<Rightarrow> c = CHR 0x22
    | JArr xs \<Rightarrow> c = CHR ''[''
    | JObj kvs \<Rightarrow> c = CHR ''{'')"

lemma plain_head: "\<exists>r. plain v = hd (plain v) # r \<and> head_of v (hd (plain v))"
proof (cases v)
  case (JInt i)
  with str_int_head [of i] show ?thesis by (auto simp: head_of_def)
qed (simp_all add: head_of_def json_string_head)

lemma plain_heads:
  assumes "plain v @ s = c # r"
  shows "head_of v c"
  using plain_head [of v] assms by (metis append_Cons list.inject)

lemma plain_kinds:
  "plain v @ s = CHR ''['' # r \<Longrightarrow> \<exists>xs. v = JArr xs"
  "plain v @ s = CHR ''{'' # r \<Longrightarrow> \<exists>kvs. v = JObj kvs"
  "plain v @ s = CHR 0x22 # r \<Longrightarrow> \<exists>x. v = JStr x"
  "plain v @ s = CHR ''n'' # r \<Longrightarrow> v = JNull"
  "plain v @ s = CHR ''t'' # r \<Longrightarrow> v = JBool True"
  "plain v @ s = CHR ''f'' # r \<Longrightarrow> v = JBool False"
  by (drule plain_heads, cases v; simp add: head_of_def split: if_splits)+

lemma plain_no_close: "plain v @ s \<noteq> CHR '']'' # r" "plain v @ s \<noteq> CHR ''}'' # r"
  by (rule notI, drule plain_heads, cases v; simp add: head_of_def split: if_splits)+

text \<open>A separated sequence of prefix-free items up to its closing bracket.\<close>

lemma join_prefix:
  assumes step: "\<And>x y s t. x \<in> set xs \<Longrightarrow> f x @ s = f y @ t \<Longrightarrow> stops s \<Longrightarrow> stops t \<Longrightarrow> x = y \<and> s = t"
    and close: "\<And>x r s. f x @ s \<noteq> c # r" and c: "c \<in> {CHR '']'', CHR ''}''}"
    and eq: "join_with '','' (map f xs) @ c # s = join_with '','' (map f ys) @ c # t"
  shows "xs = ys \<and> s = t"
  using step eq
proof (induction xs arbitrary: ys)
  case Nil
  show ?case
  proof (cases ys)
    case Nil
    with \<open>join_with '','' (map f []) @ c # s = join_with '','' (map f ys) @ c # t\<close> show ?thesis by simp
  next
    case (Cons y ys')
    then have "\<exists>r. join_with '','' (map f ys) @ c # t = f y @ r" by (cases ys') auto
    with Nil.prems(2) close [of y] show ?thesis by (metis append_Nil join_with.simps(1) list.map(1))
  qed
next
  case (Cons x xs)
  have unroll: "join_with '','' (map f (z # zs)) @ c # r
      = f z @ (if zs = [] then c # r else CHR '','' # join_with '','' (map f zs) @ c # r)" for z zs r
    by (cases zs) auto
  from Cons.prems(2) close [of x] obtain y ys' where ys: "ys = y # ys'"
    by (cases ys) (auto simp: unroll simp del: join_with.simps list.map(2) simp: join_with.simps(1))
  let ?rest = "\<lambda>zs r. if zs = [] then c # r else CHR '','' # join_with '','' (map f zs) @ c # r"
  have stops: "stops (?rest zs r)" for zs r using c by auto
  from Cons.prems(2) have eq: "f x @ ?rest xs s = f y @ ?rest ys' t"
    unfolding ys unroll .
  from Cons.prems(1) [OF _ eq stops stops] have xy: "x = y" and rest: "?rest xs s = ?rest ys' t" by auto
  have c_comma: "c \<noteq> CHR '',''" using c by auto
  show ?case
  proof (cases "xs = []")
    case True
    with rest c_comma xy ys show ?thesis by (auto split: if_splits)
  next
    case False
    with rest c_comma have "ys' \<noteq> []"
      and "join_with '','' (map f xs) @ c # s = join_with '','' (map f ys') @ c # t"
      by (auto split: if_splits)
    with Cons.IH [of ys'] Cons.prems(1) xy ys show ?thesis by auto
  qed
qed

lemma plain_prefix:
  "plain v @ s = plain w @ t \<Longrightarrow> stops s \<Longrightarrow> stops t \<Longrightarrow> v = w \<and> s = t"
proof (induction v arbitrary: w s t rule: plain.induct)
  case 1
  then have "plain w @ t = CHR ''n'' # (''ull'' @ s)" by simp
  from plain_kinds(4) [OF this] 1 show ?case by simp
next
  case (2 b)
  then have "plain w @ t = (if b then CHR ''t'' # ''rue'' else CHR ''f'' # ''alse'') @ s" by simp
  with plain_kinds(5,6) [of w t] have "w = JBool b" by (cases b) auto
  with 2 show ?case by auto
next
  case (3 i)
  obtain c r where head: "str_int i = c # r" "is_digit c \<or> c = CHR ''-''" using str_int_head by blast
  with 3 have w: "plain w @ t = c # (r @ s)" by simp
  obtain j where j: "w = JInt j"
    using plain_heads [OF w] head(2) by (cases w) (auto simp: head_of_def split: if_splits)
  with 3 str_int_prefix [of i s j t] show ?case by simp
next
  case (4 x)
  then have "plain w @ t = CHR 0x22 # (concat (map json_escape x) @ [CHR 0x22]) @ s"
    by (simp add: json_string_head)
  from plain_kinds(3) [OF this] obtain y where "w = JStr y" by blast
  with 4 json_string_inj [of x s y t] show ?case by simp
next
  case (5 xs)
  then have "plain w @ t = CHR ''['' # join_with '','' (map plain xs) @ CHR '']'' # s" by simp
  from plain_kinds(1) [OF this] obtain ys where w: "w = JArr ys" by blast
  have "xs = ys \<and> s = t"
    by (rule join_prefix [of xs plain "CHR '']''" s ys t]) (use 5 w plain_no_close in auto)
  with w show ?case by simp
next
  case (6 kvs)
  then have "plain w @ t = CHR ''{'' # join_with '','' (map (\<lambda>kv. json_string (fst kv) @ '':'' @ plain (snd kv)) kvs) @ CHR ''}'' # s"
    by simp
  from plain_kinds(2) [OF this] obtain ys where w: "w = JObj ys" by blast
  let ?f = "\<lambda>kv. json_string (fst kv) @ '':'' @ plain (snd kv)"
  have "kvs = ys \<and> s = t"
  proof (rule join_prefix [of kvs ?f "CHR ''}''" s ys t])
    fix x y s' t'
    assume x: "x \<in> set kvs" and eq: "?f x @ s' = ?f y @ t'" and st: "stops s'" "stops t'"
    from eq json_string_inj [of "fst x" "'':'' @ plain (snd x) @ s'" "fst y" "'':'' @ plain (snd y) @ t'"]
    have k: "fst x = fst y" and v: "plain (snd x) @ s' = plain (snd y) @ t'" by auto
    from 6(1) [OF x v st] k show "x = y \<and> s' = t'" by (simp add: prod_eq_iff)
  qed (use 6 w in \<open>auto simp: json_string_head\<close>)
  with w show ?case by simp
qed

lemma plain_inj: "plain v = plain w \<Longrightarrow> v = w"
  using plain_prefix [of v "[]" w "[]"] by simp

theorem json_dumps_binds: "json_dumps v = json_dumps w \<longleftrightarrow> canon v = canon w"
  using plain_inj by (auto simp: json_dumps_plain)

end
