(* ===== verification/Json_Parse.thy ===== *)
theory Json_Parse
  imports Json_Canonical "HOL-Library.Multiset"
begin

text \<open>
  \<open>json.loads\<close> with a hook that rejects duplicate keys, as the proof and attestation codecs of
  \<open>backend/app/core/execution_context.py\<close> use it, and its agreement with the canonical rendering.
  Values the model has no representation for (floats, characters above code point 255) are refused,
  as are integers of more than 4300 digits, which Python's \<open>int\<close> refuses.  The parser takes fuel;
  the length of the text is always enough.
\<close>

section \<open>Scanning\<close>

definition json_ws :: "char \<Rightarrow> bool" where
  "json_ws c = (c \<in> {CHR 0x20, CHR 0x09, CHR 0x0A, CHR 0x0D})"

definition skip_ws :: "string \<Rightarrow> string" where
  "skip_ws s = dropWhile json_ws s"

definition hex_value_of :: "char \<Rightarrow> nat option" where
  "hex_value_of c = (let n = (of_char c :: nat) in
     if 48 \<le> n \<and> n \<le> 57 then Some (n - 48)
     else if 97 \<le> n \<and> n \<le> 102 then Some (n - 87)
     else if 65 \<le> n \<and> n \<le> 70 then Some (n - 55) else None)"

text \<open>The character of a \<open>\\uXXXX\<close> escape, when it has one.\<close>

definition scan_unicode :: "string \<Rightarrow> char option" where
  "scan_unicode ds =
    (case map hex_value_of ds of
       [Some a, Some b, Some c, Some d] \<Rightarrow>
         (if a = 0 \<and> b = 0 then Some (char_of (16 * c + d)) else None)
     | _ \<Rightarrow> None)"

definition simple_escape :: "char \<Rightarrow> char option" where
  "simple_escape c =
    (if c = CHR 0x22 \<or> c = CHR 0x5C \<or> c = CHR ''/'' then Some c
     else if c = CHR ''n'' then Some (CHR 0x0A) else if c = CHR ''r'' then Some (CHR 0x0D)
     else if c = CHR ''t'' then Some (CHR 0x09) else if c = CHR ''f'' then Some (CHR 0x0C)
     else if c = CHR ''b'' then Some (CHR 0x08) else None)"

text \<open>The rest of a string literal after its opening quote.\<close>

function scan_string :: "string \<Rightarrow> (string \<times> string) option" where
  "scan_string [] = None"
| "scan_string (c # s) =
    (if c = CHR 0x22 then Some ([], s)
     else if c = CHR 0x5C then
       (if s = [] then None
        else if hd s = CHR ''u'' then
          (case scan_unicode (take 4 (tl s)) of None \<Rightarrow> None
           | Some d \<Rightarrow> map_option (\<lambda>(x, t). (d # x, t)) (scan_string (drop 5 s)))
        else (case simple_escape (hd s) of None \<Rightarrow> None
           | Some d \<Rightarrow> map_option (\<lambda>(x, t). (d # x, t)) (scan_string (tl s))))
     else if (of_char c :: nat) < 32 then None
     else map_option (\<lambda>(x, t). (c # x, t)) (scan_string s))"
  by pat_completeness auto
termination by (relation "measure length") auto

declare scan_string.simps [simp del]

definition head_is :: "char \<Rightarrow> string \<Rightarrow> bool" where
  "head_is c s = (s \<noteq> [] \<and> hd s = c)"

lemma head_is_simps [simp]: "\<not> head_is c []" "head_is c (d # s) \<longleftrightarrow> d = c"
  by (auto simp: head_is_def)

definition int_digits_of :: "string \<Rightarrow> string" where
  "int_digits_of body = (if head_is (CHR ''0'') body then ''0'' else takeWhile is_digit body)"

definition scan_int :: "string \<Rightarrow> (json \<times> string) option" where
  "scan_int s =
    (let negative = (s \<noteq> [] \<and> hd s = CHR ''-'');
         body = (if negative then tl s else s);
         digits = int_digits_of body;
         n = int (digits_value 0 digits)
     in if digits = [] \<or> 4300 < length digits then None
        else Some (JInt (if negative then - n else n), drop (length digits) body))"

section \<open>Values\<close>

fun parse_value :: "nat \<Rightarrow> string \<Rightarrow> (json \<times> string) option"
  and parse_elems :: "nat \<Rightarrow> string \<Rightarrow> (json list \<times> string) option"
  and parse_members :: "nat \<Rightarrow> string \<Rightarrow> (jobj \<times> string) option" where
  "parse_value 0 s = None"
| "parse_value (Suc n) s =
    (if head_is (CHR 0x22) s then map_option (\<lambda>(x, t). (JStr x, t)) (scan_string (tl s))
     else if head_is (CHR ''['') s then
       (let t = skip_ws (tl s)
        in if head_is (CHR '']'') t then Some (JArr [], tl t)
           else map_option (\<lambda>(xs, u). (JArr xs, u)) (parse_elems n t))
     else if head_is (CHR ''{'') s then
       (let t = skip_ws (tl s)
        in if head_is (CHR ''}'') t then Some (JObj [], tl t)
           else (case parse_members n t of None \<Rightarrow> None
             | Some (kvs, u) \<Rightarrow> if distinct (map fst kvs) then Some (JObj kvs, u) else None))
     else if startswith ''null'' s then Some (JNull, drop 4 s)
     else if startswith ''true'' s then Some (JBool True, drop 4 s)
     else if startswith ''false'' s then Some (JBool False, drop 5 s)
     else scan_int s)"
| "parse_elems 0 s = None"
| "parse_elems (Suc n) s =
    (case parse_value n s of None \<Rightarrow> None
     | Some (x, t) \<Rightarrow>
        (let u = skip_ws t
         in if head_is (CHR '','') u then map_option (\<lambda>(xs, w). (x # xs, w)) (parse_elems n (skip_ws (tl u)))
            else if head_is (CHR '']'') u then Some ([x], tl u)
            else None))"
| "parse_members 0 s = None"
| "parse_members (Suc n) s =
    (if \<not> head_is (CHR 0x22) s then None
     else case scan_string (tl s) of None \<Rightarrow> None
     | Some (k, t) \<Rightarrow>
        (let u = skip_ws t
         in if \<not> head_is (CHR '':'') u then None
            else case parse_value n (skip_ws (tl u)) of None \<Rightarrow> None
              | Some (x, w) \<Rightarrow>
                  (let r = skip_ws w
                   in if head_is (CHR '','') r
                      then map_option (\<lambda>(kvs, z). ((k, x) # kvs, z)) (parse_members n (skip_ws (tl r)))
                      else if head_is (CHR ''}'') r then Some ([(k, x)], tl r)
                      else None)))"

definition json_loads :: "string \<Rightarrow> json option" where
  "json_loads s =
    (case parse_value (Suc (length s)) (skip_ws s) of
       Some (v, t) \<Rightarrow> if skip_ws t = [] then Some v else None
     | None \<Rightarrow> None)"

section \<open>Reading what was rendered\<close>

text \<open>The values that can be read back: no duplicate keys, no overlong integers.\<close>

fun readable :: "json \<Rightarrow> bool" where
  "readable (JArr xs) = list_all readable xs"
| "readable (JObj kvs) = (distinct (map fst kvs) \<and> list_all (\<lambda>kv. readable (snd kv)) kvs)"
| "readable (JInt i) = (length (str_int (abs i)) \<le> 4300)"
| "readable v = True"

lemma scan_escape: "scan_string (json_escape c @ s) = map_option (\<lambda>(x, t). (c # x, t)) (scan_string s)"
proof -
  have lt: "(of_char c :: nat) < 256" using nat_of_char_less_256 by simp
  have hex: "hex_value_of (hex_digit n) = Some n" if "n < 16" for n
    using that by (auto simp: hex_value_of_def hex_digit_def Let_def)
  have d: "(of_char c :: nat) div 16 < 16" "(of_char c :: nat) mod 16 < 16" using lt by (simp_all add: less_mult_imp_div_less)
  have z: "hex_value_of (CHR ''0'') = Some 0" by (simp add: hex_value_of_def)
  have uni: "scan_unicode [CHR ''0'', CHR ''0'', hex_digit (of_char c div 16), hex_digit (of_char c mod 16)] = Some c"
    by (simp add: scan_unicode_def hex d z)
  have cs: "c = CHR 0x5C" if "of_char c = (92 :: nat)" using that by (simp add: code_eq)
  have cs': "of_char c = (34 :: nat) \<Longrightarrow> c = CHR 0x22" "of_char c = (8 :: nat) \<Longrightarrow> c = CHR 0x08"
    "of_char c = (12 :: nat) \<Longrightarrow> c = CHR 0x0C" "of_char c = (9 :: nat) \<Longrightarrow> c = CHR 0x09"
    "of_char c = (13 :: nat) \<Longrightarrow> c = CHR 0x0D" "of_char c = (10 :: nat) \<Longrightarrow> c = CHR 0x0A"
    by (simp_all add: code_eq)
  show ?thesis
    using lt uni
    by (auto simp: json_escape_def Let_def scan_string.simps simple_escape_def code_eq) (auto dest!: cs cs')
qed

lemma scan_json_string: "scan_string (concat (map json_escape x) @ CHR 0x22 # s) = Some (x, s)"
  by (induction x) (simp_all add: scan_escape scan_string.simps(2))

lemma skip_ws_stops [simp]:
  "skip_ws [] = []" "skip_ws (CHR '','' # s) = CHR '','' # s" "skip_ws (CHR '']'' # s) = CHR '']'' # s"
  "skip_ws (CHR ''}'' # s) = CHR ''}'' # s" "skip_ws (CHR '':'' # s) = CHR '':'' # s"
  "skip_ws (CHR 0x22 # s) = CHR 0x22 # s" "skip_ws (CHR ''['' # s) = CHR ''['' # s"
  "skip_ws (CHR ''{'' # s) = CHR ''{'' # s"
  by (simp_all add: skip_ws_def json_ws_def)

lemma skip_ws_plain [simp]: "skip_ws (plain v @ s) = plain v @ s"
proof -
  from plain_head [of v] obtain c r where "plain v = c # r" "head_of v c" by (metis list.sel(1))
  moreover from this(2) have "\<not> json_ws c"
    by (cases v) (auto simp: head_of_def json_ws_def is_digit_def split: if_splits)
  ultimately show ?thesis by (simp add: skip_ws_def)
qed

lemma scan_int_str: "length (str_int (abs i)) \<le> 4300 \<Longrightarrow> stops s \<Longrightarrow> scan_int (str_int i @ s) = Some (JInt i, s)"
proof -
  assume len: "length (str_int (abs i)) \<le> 4300" and stop: "stops s"
  define m where "m = nat (abs i)"
  have take: "takeWhile is_digit (str_nat m @ s) = str_nat m"
    using str_nat_digits [of m] stops_no_digit [OF stop]
    by (subst takeWhile_append2) (auto simp: list_all_iff)
  have zero: "str_nat m = ''0''" if "hd (str_nat m) = CHR ''0''"
  proof -
    have "hd (str_nat k) \<noteq> CHR ''0''" if "0 < k" for k
      using that
    proof (induction k rule: str_nat.induct)
      case (1 k)
      then show ?case
        by (subst str_nat.simps) (auto simp: str_nat_nonempty digit_of_def code_eq)
    qed
    with that have "m = 0" by (cases "m = 0") auto
    then show ?thesis by (subst str_nat.simps) (simp add: digit_of_def code_eq)
  qed
  have digits: "int_digits_of (str_nat m @ s) = str_nat m"
    using zero take by (simp add: int_digits_of_def head_is_def str_nat_nonempty)
  have no_minus: "hd (str_nat k) \<noteq> CHR ''-''" for k
    using str_nat_head [of k] by auto
  have abs: "str_int (abs i) = str_nat m" by (simp add: str_int_def m_def)
  show ?thesis
  proof (cases "i < 0")
    case True
    then have "str_int i = CHR ''-'' # str_nat m" by (simp add: str_int_def m_def)
    moreover have "- int m = i" using True by (simp add: m_def)
    moreover note len [unfolded abs] digits
    ultimately show ?thesis
      by (simp add: scan_int_def Let_def str_nat_value abs str_nat_nonempty)
  next
    case False
    then have "str_int i = str_nat m" by (simp add: str_int_def m_def)
    moreover have "int m = i" using False by (simp add: m_def)
    moreover note len [unfolded abs] digits no_minus [of m]
    ultimately show ?thesis
      by (simp add: scan_int_def Let_def str_nat_value abs str_nat_nonempty)
  qed
qed

lemma parse_elems_plain:
  assumes "\<And>x t n. x \<in> set xs \<Longrightarrow> stops t \<Longrightarrow> length (plain x) \<le> n \<Longrightarrow> parse_value n (plain x @ t) = Some (x, t)"
    and "xs \<noteq> []" and "length (join_with '','' (map plain xs)) < n"
  shows "parse_elems n (join_with '','' (map plain xs) @ CHR '']'' # s) = Some (xs, s)"
  using assms
proof (induction xs arbitrary: n)
  case (Cons x xs)
  from Cons.prems(3) obtain k where n: "n = Suc k" by (cases n) auto
  show ?case
  proof (cases "xs = []")
    case True
    with Cons.prems n show ?thesis by simp
  next
    case False
    then obtain y ys where xs: "xs = y # ys" by (cases xs) auto
    have "length (plain x) \<le> k" "length (join_with '','' (map plain xs)) < k"
      using Cons.prems(3) by (simp_all add: n xs)
    with Cons.IH [of k] Cons.prems(1) False have
      "parse_elems k (join_with '','' (map plain xs) @ CHR '']'' # s) = Some (xs, s)"
      and "\<And>t. stops t \<Longrightarrow> parse_value k (plain x @ t) = Some (x, t)" by auto
    moreover have "skip_ws (join_with '','' (map plain xs) @ t) = join_with '','' (map plain xs) @ t" for t
      by (cases ys) (simp_all add: xs)
    ultimately show ?thesis by (simp add: n xs)
  qed
qed simp

definition member_text :: "string \<times> json \<Rightarrow> string" where
  "member_text kv = json_string (fst kv) @ '':'' @ plain (snd kv)"

lemma parse_members_plain:
  assumes "\<And>kv t n. kv \<in> set kvs \<Longrightarrow> stops t \<Longrightarrow> length (plain (snd kv)) \<le> n \<Longrightarrow>
      parse_value n (plain (snd kv) @ t) = Some (snd kv, t)"
    and "kvs \<noteq> []" and "length (join_with '','' (map member_text kvs)) < n"
  shows "parse_members n (join_with '','' (map member_text kvs) @ CHR ''}'' # s) = Some (kvs, s)"
  using assms
proof (induction kvs arbitrary: n)
  case (Cons kv kvs)
  obtain key v where kv: "kv = (key, v)" by (cases kv)
  from Cons.prems(3) obtain k where n: "n = Suc k" by (cases n) auto
  show ?case
  proof (cases "kvs = []")
    case True
    with Cons.prems n show ?thesis by (simp add: kv member_text_def json_string_def scan_json_string)
  next
    case False
    then obtain y ys where xs: "kvs = y # ys" by (cases kvs) auto
    have "length (plain v) \<le> k" "length (join_with '','' (map member_text kvs)) < k"
      using Cons.prems(3) by (simp_all add: n xs kv member_text_def [of "(key, v)"])
    with Cons.IH [of k] Cons.prems(1) [of kv] Cons.prems(1) False have
      "parse_members k (join_with '','' (map member_text kvs) @ CHR ''}'' # s) = Some (kvs, s)"
      and "\<And>t. stops t \<Longrightarrow> parse_value k (plain v @ t) = Some (v, t)" by (auto simp: kv)
    moreover have "skip_ws (join_with '','' (map member_text kvs) @ t) = join_with '','' (map member_text kvs) @ t" for t
      by (cases ys) (simp_all add: xs member_text_def json_string_def)
    moreover have "join_with '','' (map member_text (kv # kvs)) @ CHR ''}'' # s
        = CHR 0x22 # concat (map json_escape key) @ CHR 0x22 # CHR '':'' # plain v @ CHR '','' #
            join_with '','' (map member_text kvs) @ CHR ''}'' # s"
      by (simp add: xs kv member_text_def [of "(key, v)"] json_string_def)
    ultimately show ?thesis
      using kv by (simp only:) (simp add: n scan_json_string)
  qed
qed simp

lemma plain_nonempty: "plain v \<noteq> []"
  using plain_head [of v] by auto

lemma join_nonempty: "xs \<noteq> [] \<Longrightarrow> (\<And>x. x \<in> set xs \<Longrightarrow> x \<noteq> []) \<Longrightarrow> join_with sep xs \<noteq> []"
  by (cases xs; cases "tl xs") auto

lemma parse_plain:
  "readable v \<Longrightarrow> stops s \<Longrightarrow> length (plain v) \<le> n \<Longrightarrow> parse_value n (plain v @ s) = Some (v, s)"
proof (induction v arbitrary: s n rule: plain.induct)
  case (2 b)
  then obtain k where n: "n = Suc k" by (cases n; cases b) auto
  show ?case by (cases b) (simp_all add: n startswith_def)
next
  case (3 i)
  obtain k where n: "n = Suc k" using 3(3) str_int_nonempty [of i] by (cases n) auto
  obtain c r where c: "str_int i = c # r" "is_digit c \<or> c = CHR ''-''" using str_int_head by blast
  have "\<not> head_is (CHR 0x22) (str_int i @ s)" "\<not> head_is (CHR ''['') (str_int i @ s)" "\<not> head_is (CHR ''{'') (str_int i @ s)"
    "\<not> startswith ''null'' (str_int i @ s)" "\<not> startswith ''true'' (str_int i @ s)" "\<not> startswith ''false'' (str_int i @ s)"
    using c by (auto simp: startswith_def)
  with 3 scan_int_str [of i s] show ?case by (simp add: n)
next
  case (4 x)
  then obtain k where n: "n = Suc k" by (cases n) (auto simp: json_string_def)
  show ?case by (simp add: n json_string_def scan_json_string)
next
  case (5 xs)
  then obtain k where n: "n = Suc k" by (cases n) auto
  show ?case
  proof (cases "xs = []")
    case False
    have r: "\<And>x. x \<in> set xs \<Longrightarrow> readable x" using 5(2) by (simp add: list_all_iff)
    have "parse_elems k (join_with '','' (map plain xs) @ CHR '']'' # s) = Some (xs, s)"
      by (rule parse_elems_plain) (use 5 r False n in auto)
    moreover have "skip_ws (join_with '','' (map plain xs) @ t) = join_with '','' (map plain xs) @ t"
      "\<not> head_is (CHR '']'') (join_with '','' (map plain xs) @ t)" for t
      using False plain_no_close [of "hd xs"]
      by (cases xs; cases "tl xs"; simp add: head_is_def; metis append_is_Nil_conv list.exhaust_sel plain_nonempty)+
    ultimately show ?thesis by (simp add: n Let_def)
  qed (simp add: n)
next
  case (6 kvs)
  then obtain k where n: "n = Suc k" by (cases n) auto
  show ?case
  proof (cases "kvs = []")
    case False
    have r: "\<And>kv. kv \<in> set kvs \<Longrightarrow> readable (snd kv)" and d: "distinct (map fst kvs)"
      using 6(2) by (simp_all add: list_all_iff)
    have "parse_members k (join_with '','' (map member_text kvs) @ CHR ''}'' # s) = Some (kvs, s)"
      by (rule parse_members_plain) (use 6 r False n in \<open>auto simp: member_text_def [abs_def]\<close>)
    moreover have "skip_ws (join_with '','' (map member_text kvs) @ t) = join_with '','' (map member_text kvs) @ t"
      "\<not> head_is (CHR ''}'') (join_with '','' (map member_text kvs) @ t)" for t
      using False by (cases kvs; cases "tl kvs"; simp add: member_text_def json_string_def)+
    ultimately show ?thesis using d by (simp add: n Let_def member_text_def [abs_def])
  qed (simp add: n)
qed (auto simp: startswith_def split: if_splits nat.splits; (case_tac n; simp add: startswith_def)+)

text \<open>Reading the canonical text of a value gives the value with its keys sorted.\<close>

lemma json_loads_plain: "readable v \<Longrightarrow> json_loads (plain v) = Some v"
  using parse_plain [of v "[]" "Suc (length (plain v))"] skip_ws_plain [of v "[]"]
  by (simp add: json_loads_def)

lemma mset_sort_keys: "mset (sort_keys kvs) = mset kvs"
proof -
  have "mset (insert_key kv xs) = add_mset kv (mset xs)" for kv and xs :: "(string \<times> 'a) list"
    by (induction xs) auto
  then show ?thesis by (induction kvs) (simp_all add: sort_keys_def)
qed

lemma readable_canon: "readable v \<Longrightarrow> readable (canon v)"
proof (induction v rule: canon.induct)
  case (2 kvs)
  let ?c = "map (\<lambda>kv. (fst kv, canon (snd kv))) kvs"
  have "mset (map fst (sort_keys ?c)) = mset (map fst kvs)" by (simp add: mset_sort_keys multiset.map_comp comp_def)
  with 2(2) have "distinct (map fst (sort_keys ?c))" by (metis mset_eq_imp_distinct_iff readable.simps(2))
  moreover have "\<forall>kv \<in> set (sort_keys ?c). readable (snd kv)"
    using 2 by (auto simp: list_all_iff)
  ultimately show ?case by (simp add: list_all_iff)
qed (auto simp: list_all_iff)

lemma json_loads_dumps: "readable v \<Longrightarrow> json_loads (json_dumps v) = Some (canon v)"
  by (simp add: json_dumps_plain json_loads_plain readable_canon)

section \<open>Canonical order of keys\<close>

lemma char_cases: "(of_char c :: nat) < of_char d \<or> c = d \<or> (of_char d :: nat) < of_char c"
  by (metis code_eq linorder_neqE_nat)

lemma string_le_total: "string_le a b \<or> string_le b a"
proof (induction a b rule: string_le.induct)
  case (3 c s d t)
  with char_cases [of c d] show ?case by auto
qed auto

lemma string_le_trans: "string_le a b \<Longrightarrow> string_le b c \<Longrightarrow> string_le a c"
proof (induction a b arbitrary: c rule: string_le.induct)
  case (3 x s y t)
  from 3(3) obtain z u where c: "c = z # u" by (cases c) auto
  from 3(2) consider "(of_char x :: nat) < of_char y" | "x = y" "string_le s t" by (auto split: if_splits)
  then show ?case
  proof cases
    case 1
    from 3(3) c have "(of_char y :: nat) < of_char z \<or> y = z" by (auto split: if_splits)
    with 1 c show ?thesis by auto
  next
    case 2
    from 3(3) c have "(of_char y :: nat) < of_char z \<or> y = z \<and> string_le t u" by (auto split: if_splits)
    with 2 3(1) c show ?thesis by auto
  qed
qed auto

definition keys_sorted :: "(string \<times> 'a) list \<Rightarrow> bool" where
  "keys_sorted kvs = sorted_wrt (\<lambda>a b. string_le (fst a) (fst b)) kvs"

lemma insert_key_sorted: "keys_sorted xs \<Longrightarrow> keys_sorted (insert_key kv xs)"
proof (induction xs)
  case (Cons x xs)
  then show ?case
    using string_le_total [of "fst kv" "fst x"] by (auto simp: keys_sorted_def dest: string_le_trans)
qed (simp add: keys_sorted_def)

lemma sort_keys_sorted: "keys_sorted (sort_keys kvs)"
  by (induction kvs) (simp_all add: sort_keys_def insert_key_sorted, simp add: keys_sorted_def)

lemma sort_sorted: "keys_sorted kvs \<Longrightarrow> sort_keys kvs = kvs"
proof (induction kvs)
  case (Cons kv kvs)
  then have "sort_keys kvs = kvs" by (simp add: keys_sorted_def)
  with Cons.prems show ?case
    by (cases kvs) (auto simp: sort_keys_def keys_sorted_def)
qed (simp add: sort_keys_def)

section \<open>Digest texts\<close>

definition hex64 :: "string \<Rightarrow> bool" where
  "hex64 s = (length s = 64 \<and> list_all (\<lambda>c. c \<in> set ''0123456789abcdef'') s)"

end
