(* ===== verification/Exec_Proof.thy ===== *)
theory Exec_Proof
  imports Json_Parse
begin

text \<open>
  The terminal execution proofs of \<open>backend/app/core/execution_context.py\<close>: canonical digests of
  bindings, claim digests, and the codec of the self-contained proof text
  \<open>type:v2:digest:payload\<close> that terminal process ownership stores.  Base64 and JSON are the
  standard library's; SHA-256 of a text (\<open>sha256(text.encode("utf-8")).hexdigest()\<close>) is the parameter \<open>sha\<close>.  \<open>None\<close> stands
  for a raised \<open>ExecutionContextMismatchError\<close>.
\<close>

section \<open>Base64\<close>

text \<open>\<open>base64.urlsafe_b64encode(s).rstrip("=")\<close> on bytes, and its strict inverse.\<close>

definition b64_char :: "nat \<Rightarrow> char" where
  "b64_char n = (if n < 26 then char_of (65 + n) else if n < 52 then char_of (71 + n)
     else if n < 62 then char_of (n - 4) else if n = 62 then CHR ''-'' else CHR ''_'')"

definition b64_value :: "char \<Rightarrow> nat option" where
  "b64_value c = (let n = (of_char c :: nat) in
     if 65 \<le> n \<and> n \<le> 90 then Some (n - 65) else if 97 \<le> n \<and> n \<le> 122 then Some (n - 71)
     else if 48 \<le> n \<and> n \<le> 57 then Some (n + 4) else if c = CHR ''-'' then Some 62
     else if c = CHR ''_'' then Some 63 else None)"

fun sextets :: "nat list \<Rightarrow> nat list" where
  "sextets [] = []"
| "sextets [a] = [a div 4, a mod 4 * 16]"
| "sextets [a, b] = [a div 4, a mod 4 * 16 + b div 16, b mod 16 * 4]"
| "sextets (a # b # c # s) =
     [a div 4, a mod 4 * 16 + b div 16, b mod 16 * 4 + c div 64, c mod 64] @ sextets s"

fun octets :: "nat list \<Rightarrow> nat list option" where
  "octets [] = Some []"
| "octets [p] = None"
| "octets [p, q] = Some [p * 4 + q div 16]"
| "octets [p, q, r] = Some [p * 4 + q div 16, q mod 16 * 16 + r div 4]"
| "octets (p # q # r # t # s) =
     map_option ((@) [p * 4 + q div 16, q mod 16 * 16 + r div 4, r mod 4 * 64 + t]) (octets s)"

definition b64_encode :: "string \<Rightarrow> string" where
  "b64_encode s = map b64_char (sextets (map of_char s))"

definition b64_decode :: "string \<Rightarrow> string option" where
  "b64_decode s =
    (if list_all (\<lambda>c. b64_value c \<noteq> None) s
     then map_option (map char_of) (octets (map (\<lambda>c. the (b64_value c)) s)) else None)"

lemma b64_value_char: "n < 64 \<Longrightarrow> b64_value (b64_char n) = Some n"
  by (auto simp: b64_value_def b64_char_def Let_def code_eq)

lemma sextets_bound: "list_all (\<lambda>n. n < 256) s \<Longrightarrow> list_all (\<lambda>n. n < 64) (sextets s)"
  by (induction s rule: sextets.induct) auto

lemma octets_sextets: "list_all (\<lambda>n. n < 256) s \<Longrightarrow> octets (sextets s) = Some s"
  by (induction s rule: sextets.induct) auto

lemma bytes_bound: "list_all (\<lambda>n. n < 256) (map of_char s :: nat list)"
  using nat_of_char_less_256 by (auto simp: list_all_iff)

lemma b64_decode_encode: "b64_decode (b64_encode s) = Some s"
proof -
  let ?x = "sextets (map of_char s)"
  have b: "\<forall>n \<in> set ?x. n < 64" using sextets_bound [OF bytes_bound [of s]] by (simp add: list_all_iff)
  then have v: "map (\<lambda>c. the (b64_value c)) (map b64_char ?x) = ?x"
    by (simp add: b64_value_char map_idI)
  have "list_all (\<lambda>c. b64_value c \<noteq> None) (map b64_char ?x)"
    using b by (auto simp: list_all_iff b64_value_char)
  with v octets_sextets [OF bytes_bound [of s]] show ?thesis
    unfolding b64_decode_def b64_encode_def by (simp add: comp_def)
qed

section \<open>Digests of bindings\<close>

text \<open>\<open>json.dumps(value, ensure_ascii=False, separators=(",", ":"))\<close> of a frozen value.\<close>

definition raw_escape :: "char \<Rightarrow> string" where
  "raw_escape c = (if 127 \<le> (of_char c :: nat) then [c] else json_escape c)"

definition raw_string :: "string \<Rightarrow> string" where
  "raw_string s = CHR 0x22 # concat (map raw_escape s) @ [CHR 0x22]"

fun raw_text :: "json \<Rightarrow> string" where
  "raw_text (JStr s) = raw_string s"
| "raw_text (JArr xs) = ''['' @ join_with '','' (map raw_text xs) @ '']''"
| "raw_text v = json_dumps v"

text \<open>\<open>_freeze_value\<close>: an object becomes the tuple of its sorted pairs; blank keys are refused.\<close>

fun freezable :: "json \<Rightarrow> bool" where
  "freezable (JObj kvs) = (list_all (\<lambda>kv. py_strip (fst kv) \<noteq> [] \<and> freezable (snd kv)) kvs)"
| "freezable (JArr xs) = list_all freezable xs"
| "freezable v = True"

fun freeze_value :: "json \<Rightarrow> json" where
  "freeze_value (JObj kvs) =
     JArr (map (\<lambda>kv. JArr [JStr (fst kv), snd kv])
       (sort_keys (map (\<lambda>kv. (fst kv, freeze_value (snd kv))) kvs)))"
| "freeze_value (JArr xs) = JArr (map freeze_value xs)"
| "freeze_value v = v"

definition canonical_binding_digest :: "(string \<Rightarrow> string) \<Rightarrow> json \<Rightarrow> string option" where
  "canonical_binding_digest sha v =
     (if freezable v then Some (sha (raw_text (freeze_value v))) else None)"

definition execution_claim_digest :: "(string \<Rightarrow> string) \<Rightarrow> string \<Rightarrow> string option" where
  "execution_claim_digest sha token =
     (if py_strip token = [] \<or> 512 < length token then None else Some (sha token))"

section \<open>The proof codec\<close>

definition EXECUTION_PROOF_TYPES :: "string list" where
  "EXECUTION_PROOF_TYPES = [''NO_EXTERNAL_PROCESS'', ''TERMINATION_CONFIRMED'']"

definition EXECUTION_PROOF_MAX_LENGTH :: nat where
  "EXECUTION_PROOF_MAX_LENGTH = 16384"

definition EXECUTION_PROOF_COMMON_KEYS :: "string list" where
  "EXECUTION_PROOF_COMMON_KEYS =
    [''schema_version'', ''proof_type'', ''execution_id'', ''organization_id'', ''request_id'',
     ''decision_id'', ''terminal_state'', ''dispatch_state'', ''ownership_state'', ''container_type'',
     ''launch_commit_state'', ''worker_identity'', ''worker_generation'', ''correlation_id'',
     ''claim_identity_digest'', ''dispatch_identity_digest'', ''reason_code'', ''observed_at'',
     ''recovery_status'', ''recovery_attempt_number'', ''recovery_attempt_id'']"

definition EXECUTION_PROOF_NO_PROCESS_KEYS :: "string list" where
  "EXECUTION_PROOF_NO_PROCESS_KEYS = EXECUTION_PROOF_COMMON_KEYS @ [''proof_code'']"

definition EXECUTION_PROOF_TERMINATION_KEYS :: "string list" where
  "EXECUTION_PROOF_TERMINATION_KEYS = EXECUTION_PROOF_COMMON_KEYS @
    [''termination_status'', ''process_id'', ''process_group_id'', ''process_start_token'',
     ''session_id'', ''identity_attestation'', ''identity_attestation_digest'']"

text \<open>A dictionary without integers Python refuses to print.\<close>

definition canonical_execution_proof :: "jobj \<Rightarrow> string option" where
  "canonical_execution_proof payload =
     (if readable (JObj payload) then Some (json_dumps (JObj payload)) else None)"

definition payload_tags :: "string \<Rightarrow> jobj \<Rightarrow> bool" where
  "payload_tags ty payload =
     (map_of payload ''schema_version'' = Some (JStr ''execution-proof-v2'')
      \<and> map_of payload ''proof_type'' = Some (JStr ty))"

definition encode_execution_proof :: "(string \<Rightarrow> string) \<Rightarrow> string \<Rightarrow> jobj \<Rightarrow> string option" where
  "encode_execution_proof sha ty payload =
    (if ty \<notin> set EXECUTION_PROOF_TYPES \<or> \<not> payload_tags ty payload then None
     else case canonical_execution_proof payload of
       None \<Rightarrow> None
     | Some canonical \<Rightarrow>
         (let text = ty @ '':v2:'' @ sha canonical @ '':'' @ b64_encode canonical
          in if EXECUTION_PROOF_MAX_LENGTH < length text then None else Some text))"

definition ascii_text :: "string \<Rightarrow> bool" where
  "ascii_text s = list_all (\<lambda>c. (of_char c :: nat) < 128) s"

text \<open>The expression \<open>_EXECUTION_PROOF_RE\<close>: four parts, none of which can contain a colon.\<close>

definition proof_parts :: "string \<Rightarrow> (string \<times> string \<times> string) option" where
  "proof_parts text =
    (case py_split (CHR '':'') text of
       [ty, version, digest, encoded] \<Rightarrow>
         (if ty \<in> set EXECUTION_PROOF_TYPES \<and> version = ''v2'' \<and> hex64 digest \<and> encoded \<noteq> []
             \<and> list_all (\<lambda>c. b64_value c \<noteq> None) encoded
          then Some (ty, digest, encoded) else None)
     | _ \<Rightarrow> None)"

definition decode_execution_proof :: "(string \<Rightarrow> string) \<Rightarrow> string option \<Rightarrow> string option \<Rightarrow> jobj option" where
  "decode_execution_proof sha proof_text expected =
    (case proof_text of None \<Rightarrow> None | Some text \<Rightarrow>
     if EXECUTION_PROOF_MAX_LENGTH < length text then None
     else case proof_parts text of None \<Rightarrow> None | Some (ty, digest, encoded) \<Rightarrow>
     if expected \<noteq> None \<and> expected \<noteq> Some ty then None
     else case b64_decode encoded of None \<Rightarrow> None | Some canonical \<Rightarrow>
     if b64_encode canonical \<noteq> encoded \<or> \<not> ascii_text canonical then None
     else case json_loads canonical of
       Some (JObj payload) \<Rightarrow>
         (if canonical_execution_proof payload \<noteq> Some canonical \<or> digest \<noteq> sha canonical
             \<or> \<not> payload_tags ty payload
          then None else Some payload)
     | _ \<Rightarrow> None)"

section \<open>Encoding and decoding agree\<close>

lemma py_split_plain: "c \<notin> set a \<Longrightarrow> py_split c a = [a]"
  by (induction a) auto

lemma py_split_Cons: "c \<notin> set a \<Longrightarrow> py_split c (a @ c # b) = a # py_split c b"
  by (induction a) (auto split: list.splits)

lemma py_split_nonempty: "py_split c s \<noteq> []"
  by (induction s) (auto split: list.splits)

lemma join_py_split: "join_with [c] (py_split c s) = s"
proof (induction s)
  case (Cons x xs)
  obtain p ps where p: "py_split c xs = p # ps" using py_split_nonempty [of c xs] by (cases "py_split c xs") auto
  with Cons.IH show ?case by (cases ps) (auto simp: p)
qed simp

lemma canon_idem: "canon (canon v) = canon v"
proof (induction v rule: canon.induct)
  case (1 xs)
  then show ?case by simp
next
  case (2 kvs)
  let ?c = "\<lambda>kvs. map (\<lambda>kv. (fst kv, canon (snd kv))) kvs"
  have "?c (sort_keys (?c kvs)) = sort_keys (?c (?c kvs))" by (rule sort_keys_map [symmetric])
  also have "?c (?c kvs) = ?c kvs" using 2 by (auto simp: prod_eq_iff)
  finally show ?case using sort_sorted [OF sort_keys_sorted [of "?c kvs"]] by simp
qed simp_all

lemma json_dumps_canon: "json_dumps (canon v) = json_dumps v"
  by (simp add: json_dumps_binds canon_idem)

lemma canon_object: "\<exists>p'. canon (JObj p) = JObj p'" by simp

lemma map_of_canon:
  assumes "distinct (map fst p)" and "canon (JObj p) = JObj p'"
  shows "map_of p' k = map_option canon (map_of p k)"
proof -
  let ?c = "map (\<lambda>kv. (fst kv, canon (snd kv))) p"
  have p': "p' = sort_keys ?c" using assms(2) by simp
  have m: "mset p' = mset ?c" by (simp add: p' mset_sort_keys)
  have "distinct (map fst ?c)" using assms(1) by (simp add: comp_def)
  moreover have "distinct (map fst p')"
  proof -
    have "mset (map fst p') = mset (map fst ?c)" using m by (metis mset_map)
    with \<open>distinct (map fst ?c)\<close> show ?thesis by (metis mset_eq_imp_distinct_iff)
  qed
  moreover from m have "set p' = set ?c" by (metis set_mset_mset)
  ultimately have "map_of p' k = Some y \<longleftrightarrow> map_of ?c k = Some y" for y
    using map_of_eq_Some_iff [of p' k y] map_of_eq_Some_iff [of ?c k y] by simp
  then have "map_of p' k = map_of ?c k" by (metis not_Some_eq)
  moreover have "map_of ?c k = map_option canon (map_of p k)" for k
    by (induction p) auto
  ultimately show ?thesis by simp
qed

text \<open>The canonical text is ASCII.\<close>

lemma ascii_text_simps [simp]:
  "ascii_text []" "ascii_text (c # s) \<longleftrightarrow> (of_char c :: nat) < 128 \<and> ascii_text s"
  "ascii_text (s @ t) \<longleftrightarrow> ascii_text s \<and> ascii_text t"
  by (simp_all add: ascii_text_def)

lemma ascii_digits: "list_all is_digit s \<Longrightarrow> ascii_text s"
  by (auto simp: ascii_text_def is_digit_def list_all_iff)

lemma hex_digit_ascii: "n < 16 \<Longrightarrow> (of_char (hex_digit n) :: nat) < 128"
  by (simp add: hex_digit_def)

lemma json_escape_ascii: "ascii_text (json_escape c)"
proof -
  have "(of_char c :: nat) div 16 < 16" using nat_of_char_less_256 [of c] by (simp add: less_mult_imp_div_less)
  then show ?thesis by (simp add: json_escape_def Let_def hex_digit_ascii)
qed

lemma json_string_ascii: "ascii_text (json_string s)"
  by (induction s) (simp_all add: json_string_def json_escape_ascii)

lemma join_ascii: "(\<And>x. x \<in> set xs \<Longrightarrow> ascii_text x) \<Longrightarrow> ascii_text sep \<Longrightarrow> ascii_text (join_with sep xs)"
  by (induction sep xs rule: join_with.induct) auto

lemma plain_ascii: "ascii_text (plain v)"
proof (induction v rule: plain.induct)
  case (3 i)
  then show ?case using ascii_digits [OF str_nat_digits] by (simp add: str_int_def)
qed (auto intro!: join_ascii simp: json_string_ascii)

lemma hex64_plain: "hex64 s \<Longrightarrow> CHR '':'' \<notin> set s"
proof -
  have "c \<noteq> CHR '':''" if "c \<in> set ''0123456789abcdef''" for c
    using that by (simp only: list.set insert_iff empty_iff, elim disjE) simp_all
  then show "hex64 s \<Longrightarrow> CHR '':'' \<notin> set s" unfolding hex64_def list_all_iff by blast
qed

lemma b64_encode_chars: "list_all (\<lambda>c. b64_value c \<noteq> None) (b64_encode s)"
  using sextets_bound [OF bytes_bound [of s]] by (auto simp: b64_encode_def list_all_iff b64_value_char)

lemma b64_no_colon: "list_all (\<lambda>c. b64_value c \<noteq> None) s \<Longrightarrow> CHR '':'' \<notin> set s"
  by (auto simp: list_all_iff b64_value_def)

lemma proof_types_plain: "ty \<in> set EXECUTION_PROOF_TYPES \<Longrightarrow> CHR '':'' \<notin> set ty"
  by (auto simp: EXECUTION_PROOF_TYPES_def)

lemma sextets_empty: "sextets s = [] \<longleftrightarrow> s = []"
  by (cases s rule: sextets.cases) auto

lemma encoded_decodes:
  assumes "encode_execution_proof sha ty payload = Some t" and "\<forall>s. hex64 (sha s)"
  shows "\<exists>p. decode_execution_proof sha (Some t) (Some ty) = Some p \<and> JObj p = canon (JObj payload)"
proof -
  from assms(1) have ty: "ty \<in> set EXECUTION_PROOF_TYPES" and tags: "payload_tags ty payload"
    and ok: "readable (JObj payload)"
    by (auto simp: encode_execution_proof_def canonical_execution_proof_def split: if_splits)
  let ?c = "json_dumps (JObj payload)"
  from assms(1) have t: "t = ty @ '':v2:'' @ sha ?c @ '':'' @ b64_encode ?c"
    and len: "\<not> EXECUTION_PROOF_MAX_LENGTH < length t"
    by (auto simp: encode_execution_proof_def canonical_execution_proof_def Let_def split: if_splits)
  obtain p where p: "canon (JObj payload) = JObj p" using canon_object by blast
  have "?c \<noteq> []" using plain_nonempty by (simp add: json_dumps_plain)
  then have "b64_encode ?c \<noteq> []" by (simp add: b64_encode_def sextets_empty)
  moreover have "py_split (CHR '':'') t = [ty, ''v2'', sha ?c, b64_encode ?c]"
  proof -
    have "t = ty @ CHR '':'' # ''v2'' @ CHR '':'' # sha ?c @ CHR '':'' # b64_encode ?c" by (simp add: t)
    then show ?thesis
      using proof_types_plain [OF ty] hex64_plain [of "sha ?c"] assms(2) b64_no_colon [OF b64_encode_chars, of ?c]
      by (simp only: py_split_Cons py_split_plain) (simp add: py_split_Cons py_split_plain)
  qed
  ultimately have parts: "proof_parts t = Some (ty, sha ?c, b64_encode ?c)"
    using ty assms(2) b64_encode_chars [of ?c] by (simp add: proof_parts_def)
  have loads: "json_loads ?c = Some (JObj p)" using json_loads_dumps [OF ok] p by simp
  have canonical: "canonical_execution_proof p = Some ?c"
    using readable_canon [OF ok] json_dumps_canon [of "JObj payload"] unfolding p
    by (simp add: canonical_execution_proof_def)
  have m: "map_of p k = map_option canon (map_of payload k)" for k
    using ok map_of_canon [OF _ p] by simp
  have "payload_tags ty p"
    using tags unfolding payload_tags_def m by (elim conjE) (simp only: option.map canon.simps simp_thms)
  then have "decode_execution_proof sha (Some t) (Some ty) = Some p"
    unfolding decode_execution_proof_def option.case if_not_P [OF len] parts prod.case b64_decode_encode
      loads json.case canonical
    using plain_ascii [of "canon (JObj payload)", folded json_dumps_plain] by simp
  with p show ?thesis by simp
qed

lemma encoded_payload:
  assumes "encode_execution_proof sha ty payload = Some t" and "\<forall>s. hex64 (sha s)"
  shows "\<exists>p. decode_execution_proof sha (Some t) (Some ty) = Some p
    \<and> (\<forall>k. map_of p k = map_option canon (map_of payload k)) \<and> set (map fst p) = set (map fst payload)"
proof -
  from encoded_decodes [OF assms] obtain p where
    p: "decode_execution_proof sha (Some t) (Some ty) = Some p" "canon (JObj payload) = JObj p" by metis
  from assms(1) have "distinct (map fst payload)"
    by (auto simp: encode_execution_proof_def canonical_execution_proof_def split: if_splits)
  from map_of_canon [OF this p(2)] have m: "\<forall>k. map_of p k = map_option canon (map_of payload k)" by blast
  have "k \<in> set (map fst p) \<longleftrightarrow> k \<in> set (map fst payload)" for k
    using m [rule_format, of k] map_of_eq_None_iff [of p k] map_of_eq_None_iff [of payload k]
    by (cases "map_of payload k") auto
  with m p(1) show ?thesis by blast
qed

text \<open>C36. A proof text decodes to exactly the payload it was made from (its keys in order), whatever
  the payload's strings contain.\<close>

theorem proof_roundtrip:
  assumes "encode_execution_proof sha ty payload = Some t" and "\<forall>s. hex64 (sha s)"
  shows "\<exists>p. decode_execution_proof sha (Some t) (Some ty) = Some p \<and> JObj p = canon (JObj payload)"
  by (rule encoded_decodes [OF assms])

lemma decode_any:
  assumes "decode_execution_proof sha (Some t) (Some ty) = Some p"
  shows "decode_execution_proof sha (Some t) None = Some p"
proof -
  have len: "\<not> EXECUTION_PROOF_MAX_LENGTH < length t"
    using assms by (rule_tac notI) (simp add: decode_execution_proof_def)
  obtain a b c where parts: "proof_parts t = Some (a, b, c)"
    using assms len by (cases "proof_parts t") (auto simp: decode_execution_proof_def)
  have "ty = a"
    using assms len parts by (rule_tac ccontr) (simp add: decode_execution_proof_def)
  with assms len parts show ?thesis by (simp add: decode_execution_proof_def)
qed

definition sample_payload :: jobj where
  "sample_payload = [(''schema_version'', JStr ''execution-proof-v2''), (''proof_type'', JStr ''NO_EXTERNAL_PROCESS''),
     (''execution_id'', JStr ''e:1''), (''recovery_attempt_number'', JInt 3)]"

definition sample_digest :: "string \<Rightarrow> string" where
  "sample_digest s = replicate 64 (CHR ''a'')"

lemma sample_digest_hex: "\<forall>s. hex64 (sample_digest s)"
  by (simp add: hex64_def sample_digest_def list_all_iff)

lemma length_sextets: "length (sextets s) \<le> 2 * length s"
  by (induction s rule: sextets.induct) auto

lemma short_payload_encodes:
  assumes "ty \<in> set EXECUTION_PROOF_TYPES" and "payload_tags ty payload" and "readable (JObj payload)"
    and "length (json_dumps (JObj payload)) \<le> 4000" and "length (sha (json_dumps (JObj payload))) = 64"
  shows "\<exists>t. encode_execution_proof sha ty payload = Some t"
proof -
  have "length (b64_encode (json_dumps (JObj payload))) \<le> 8000"
    using length_sextets [of "map of_char (json_dumps (JObj payload))"] assms(4) by (simp add: b64_encode_def)
  moreover have "length ty \<le> 21" using assms(1) by (auto simp: EXECUTION_PROOF_TYPES_def)
  ultimately show ?thesis
    using assms by (simp add: encode_execution_proof_def canonical_execution_proof_def Let_def EXECUTION_PROOF_MAX_LENGTH_def)
qed

lemma sample_encodes: "\<exists>t. encode_execution_proof sample_digest ''NO_EXTERNAL_PROCESS'' sample_payload = Some t"
proof -
  have three: "str_int 3 = ''3''" by code_simp
  have tags: "payload_tags ''NO_EXTERNAL_PROCESS'' sample_payload" by (simp add: payload_tags_def sample_payload_def)
  have ok: "readable (JObj sample_payload)" by (simp add: sample_payload_def three)
  have len: "length (json_dumps (JObj sample_payload)) \<le> 200"
    by (simp add: json_dumps_def sample_payload_def sort_keys_def json_string_def json_escape_def three)
  have "length (b64_encode (json_dumps (JObj sample_payload))) \<le> 400"
    using length_sextets [of "map of_char (json_dumps (JObj sample_payload))"] len by (simp add: b64_encode_def)
  then show ?thesis
    by (simp add: encode_execution_proof_def EXECUTION_PROOF_TYPES_def canonical_execution_proof_def tags ok [simplified]
      Let_def EXECUTION_PROOF_MAX_LENGTH_def sample_digest_def)
qed

theorem proof_roundtrip_witness:
  "\<exists>t p. encode_execution_proof sample_digest ''NO_EXTERNAL_PROCESS'' sample_payload = Some t
     \<and> decode_execution_proof sample_digest (Some t) (Some ''NO_EXTERNAL_PROCESS'') = Some p
     \<and> map_of p ''execution_id'' = Some (JStr ''e:1'')"
proof -
  obtain t where t: "encode_execution_proof sample_digest ''NO_EXTERNAL_PROCESS'' sample_payload = Some t"
    using sample_encodes by blast
  from proof_roundtrip [OF t sample_digest_hex] obtain p where
    d: "decode_execution_proof sample_digest (Some t) (Some ''NO_EXTERNAL_PROCESS'') = Some p"
    and p: "canon (JObj sample_payload) = JObj p" by metis
  have "map_of p ''execution_id'' = map_option canon (map_of sample_payload ''execution_id'')"
    by (rule map_of_canon [OF _ p]) (simp add: sample_payload_def)
  also have "\<dots> = Some (JStr ''e:1'')" by (simp add: sample_payload_def)
  finally show ?thesis using t d by blast
qed

text \<open>A proof text has no second form: a text that decodes is the encoding of the payload it decodes
  to, so altering the type, the digest, a byte of the payload or its encoding makes it undecodable.\<close>

theorem proof_canonical:
  assumes "decode_execution_proof sha (Some t) expected = Some payload"
  shows "\<exists>ty. (expected \<noteq> None \<longrightarrow> expected = Some ty) \<and> encode_execution_proof sha ty payload = Some t"
proof -
  from assms obtain ty digest encoded canonical where
    len: "\<not> EXECUTION_PROOF_MAX_LENGTH < length t"
    and parts: "proof_parts t = Some (ty, digest, encoded)"
    and exp: "\<not> (expected \<noteq> None \<and> expected \<noteq> Some ty)"
    and enc: "b64_encode canonical = encoded"
    and can: "canonical_execution_proof payload = Some canonical" "digest = sha canonical" "payload_tags ty payload"
    by (auto simp: decode_execution_proof_def split: option.splits if_splits json.splits prod.splits)
  from parts have split: "py_split (CHR '':'') t = [ty, ''v2'', digest, encoded]" and ty: "ty \<in> set EXECUTION_PROOF_TYPES"
    by (auto simp: proof_parts_def split: list.splits if_splits)
  from join_py_split [of "CHR '':''" t] have "t = ty @ '':v2:'' @ digest @ '':'' @ encoded"
    by (simp add: split)
  with len ty enc can have "encode_execution_proof sha ty payload = Some t"
    by (simp add: encode_execution_proof_def Let_def)
  with exp show ?thesis by blast
qed

theorem proof_canonical_witness:
  "\<exists>t p. decode_execution_proof sample_digest (Some t) None = Some p
     \<and> (\<exists>ty. encode_execution_proof sample_digest ty p = Some t)"
proof -
  obtain t where t: "encode_execution_proof sample_digest ''NO_EXTERNAL_PROCESS'' sample_payload = Some t"
    using sample_encodes by blast
  from encoded_decodes [OF t sample_digest_hex] obtain p where
    d: "decode_execution_proof sample_digest (Some t) None = Some p" using decode_any by blast
  from proof_canonical [OF d] d show ?thesis by blast
qed

end
