(* ===== verification/Attestation.thy ===== *)
theory Attestation
  imports Exec_Proof Timestamps
begin

text \<open>
  The process identity attestations of \<open>backend/app/core/execution_context.py\<close>: strict parsing and
  validation of the POSIX and the Windows proof, their canonical digests, and the binding of a
  Windows proof to an ownership row.  \<open>None\<close> stands for any raised error (the callers treat all of
  them alike).
\<close>

section \<open>Canonical timestamps\<close>

text \<open>\<open>normalized.isoformat().replace("+00:00", "Z")\<close>.\<close>

definition canonical_time_text :: "time \<Rightarrow> string" where
  "canonical_time_text t = take (length (isoformat t) - 6) (isoformat t) @ ''Z''"

definition days_of_date :: "int \<Rightarrow> int \<Rightarrow> int \<Rightarrow> int" where
  "days_of_date y m d =
    (let y' = (if m \<le> 2 then y - 1 else y); era = y' div 400; yoe = y' mod 400;
         mp = (if 2 < m then m - 3 else m + 9);
         doy = (153 * mp + 2) div 5 + d - 1;
         doe = yoe * 365 + yoe div 4 - yoe div 100 + doy
     in era * 146097 + doe - 719468)"

definition number_at :: "nat \<Rightarrow> nat \<Rightarrow> string \<Rightarrow> int" where
  "number_at pos width s = int (digits_value 0 (take width (drop pos s)))"

text \<open>A string is accepted only when it is the canonical text of the instant it names.\<close>

definition canonical_attestation_timestamp :: "json \<Rightarrow> time option" where
  "canonical_attestation_timestamp v =
    (case v of
       JStr s \<Rightarrow>
         (let days = days_of_date (number_at 0 4 s) (number_at 5 2 s) (number_at 8 2 s);
              secs = number_at 11 2 s * 3600 + number_at 14 2 s * 60 + number_at 17 2 s;
              us = (if length s = 27 then number_at 20 6 s else 0);
              t = (days * 86400 + secs) * 1000000 + us
          in if list_all (\<lambda>c. is_digit c \<or> c \<in> set ''-T:.Z'') s \<and> 1 \<le> number_at 0 4 s \<and> canonical_time_text t = s
             then Some t else None)
     | _ \<Rightarrow> None)"

section \<open>Strict fields\<close>

definition strict_str :: "json option \<Rightarrow> string option" where
  "strict_str v = (case v of Some (JStr s) \<Rightarrow> Some s | _ \<Rightarrow> None)"

definition strict_int :: "json option \<Rightarrow> int option" where
  "strict_int v = (case v of Some (JInt i) \<Rightarrow> Some i | _ \<Rightarrow> None)"

definition strict_bool :: "json option \<Rightarrow> bool option" where
  "strict_bool v = (case v of Some (JBool b) \<Rightarrow> Some b | _ \<Rightarrow> None)"

definition guard :: "bool \<Rightarrow> unit option" where
  "guard b = (if b then Some () else None)"

definition strict_time :: "json option \<Rightarrow> time option" where
  "strict_time v = Option.bind v canonical_attestation_timestamp"

definition load_strict_attestation :: "string \<Rightarrow> jobj option" where
  "load_strict_attestation text = (case json_loads text of Some (JObj kvs) \<Rightarrow> Some kvs | _ \<Rightarrow> None)"

fun all_some :: "('a \<Rightarrow> 'b option) \<Rightarrow> 'a list \<Rightarrow> 'b list option" where
  "all_some f [] = Some []"
| "all_some f (x # xs) = (case f x of None \<Rightarrow> None | Some y \<Rightarrow> map_option ((#) y) (all_some f xs))"

definition within :: "nat \<Rightarrow> nat \<Rightarrow> string \<Rightarrow> bool" where
  "within lo hi s = (lo \<le> length s \<and> length s \<le> hi)"

section \<open>POSIX\<close>

record posix_member =
  pm_pid :: int
  pm_process_group_id :: int
  pm_session_id :: int
  pm_start_token :: string

record posix_attestation =
  pa_boot_id :: string
  pa_root_start_ticks :: int
  pa_session_id :: int
  pa_process_group_id :: int
  pa_pidfd_supported :: bool
  pa_pidfd_verified :: bool
  pa_worker_generation :: string
  pa_captured_at :: time
  pa_expires_at :: time
  pa_verification_result :: string
  pa_member_snapshot :: "posix_member list option"
  pa_digest :: string

definition posix_member_fields :: "string list" where
  "posix_member_fields = [''pid'', ''process_group_id'', ''session_id'', ''start_token'']"

definition posix_fields :: "string list" where
  "posix_fields = [''schema_version'', ''proof_type'', ''boot_id'', ''root_start_ticks'', ''session_id'',
     ''process_group_id'', ''pidfd_supported'', ''pidfd_verified'', ''worker_generation'', ''captured_at'',
     ''expires_at'', ''verification_result'', ''member_snapshot'', ''digest'']"

definition parse_posix_member :: "json \<Rightarrow> posix_member option" where
  "parse_posix_member v =
    (case v of
       JObj kvs \<Rightarrow>
         Option.bind (guard (set (map fst kvs) = set posix_member_fields)) (\<lambda>_.
         Option.bind (strict_int (map_of kvs ''pid'')) (\<lambda>pid.
         Option.bind (strict_int (map_of kvs ''process_group_id'')) (\<lambda>group.
         Option.bind (strict_int (map_of kvs ''session_id'')) (\<lambda>session.
         Option.bind (strict_str (map_of kvs ''start_token'')) (\<lambda>token.
           if 2 \<le> pid \<and> 2 \<le> group \<and> 0 \<le> session \<and> within 10 256 token
           then Some \<lparr> pm_pid = pid, pm_process_group_id = group, pm_session_id = session, pm_start_token = token \<rparr>
           else None)))))
     | _ \<Rightarrow> None)"

definition parse_snapshot :: "json option \<Rightarrow> posix_member list option option" where
  "parse_snapshot v =
    (case v of None \<Rightarrow> Some None | Some JNull \<Rightarrow> Some None
     | Some (JArr xs) \<Rightarrow> map_option Some (all_some parse_posix_member xs)
     | _ \<Rightarrow> None)"

definition posix_member_dump :: "posix_member \<Rightarrow> json" where
  "posix_member_dump m = JObj [(''pid'', JInt (pm_pid m)), (''process_group_id'', JInt (pm_process_group_id m)),
     (''session_id'', JInt (pm_session_id m)), (''start_token'', JStr (pm_start_token m))]"

text \<open>\<open>model_dump(exclude={"digest"}, exclude_none=True)\<close>; instants are frozen to their ISO text.\<close>

definition posix_dump :: "posix_attestation \<Rightarrow> json" where
  "posix_dump a = JObj
    ([(''schema_version'', JStr ''posix-process-attestation-v1''),
      (''proof_type'', JStr ''PROC_START_TICKS_SESSION_GROUP''), (''boot_id'', JStr (pa_boot_id a)),
      (''root_start_ticks'', JInt (pa_root_start_ticks a)), (''session_id'', JInt (pa_session_id a)),
      (''process_group_id'', JInt (pa_process_group_id a)),
      (''pidfd_supported'', JBool (pa_pidfd_supported a)), (''pidfd_verified'', JBool (pa_pidfd_verified a)),
      (''worker_generation'', JStr (pa_worker_generation a)),
      (''captured_at'', JStr (isoformat (pa_captured_at a))), (''expires_at'', JStr (isoformat (pa_expires_at a))),
      (''verification_result'', JStr (pa_verification_result a))]
     @ (case pa_member_snapshot a of None \<Rightarrow> []
        | Some ms \<Rightarrow> [(''member_snapshot'', JArr (map posix_member_dump ms))]))"

definition posix_valid_window :: "(string \<Rightarrow> string) \<Rightarrow> posix_attestation \<Rightarrow> bool" where
  "posix_valid_window sha a =
    (pa_captured_at a < pa_expires_at a
     \<and> (pa_pidfd_verified a \<longrightarrow> pa_pidfd_supported a)
     \<and> pa_member_snapshot a \<noteq> Some []
     \<and> canonical_binding_digest sha (posix_dump a) = Some (pa_digest a))"

definition parse_posix_attestation :: "(string \<Rightarrow> string) \<Rightarrow> string \<Rightarrow> posix_attestation option" where
  "parse_posix_attestation sha text =
    Option.bind (load_strict_attestation text) (\<lambda>kvs.
    let get = map_of kvs
    in Option.bind (guard (set (map fst kvs) \<subseteq> set posix_fields
         \<and> get ''schema_version'' = Some (JStr ''posix-process-attestation-v1'')
         \<and> get ''proof_type'' = Some (JStr ''PROC_START_TICKS_SESSION_GROUP''))) (\<lambda>_.
       Option.bind (strict_str (get ''boot_id'')) (\<lambda>boot.
       Option.bind (strict_int (get ''root_start_ticks'')) (\<lambda>ticks.
       Option.bind (strict_int (get ''session_id'')) (\<lambda>session.
       Option.bind (strict_int (get ''process_group_id'')) (\<lambda>group.
       Option.bind (strict_bool (get ''pidfd_supported'')) (\<lambda>supported.
       Option.bind (strict_bool (get ''pidfd_verified'')) (\<lambda>verified.
       Option.bind (strict_str (get ''worker_generation'')) (\<lambda>generation.
       Option.bind (strict_time (get ''captured_at'')) (\<lambda>captured.
       Option.bind (strict_time (get ''expires_at'')) (\<lambda>expires.
       Option.bind (strict_str (get ''verification_result'')) (\<lambda>verdict.
       Option.bind (parse_snapshot (get ''member_snapshot'')) (\<lambda>snapshot.
       Option.bind (strict_str (get ''digest'')) (\<lambda>digest.
       let a = \<lparr> pa_boot_id = boot, pa_root_start_ticks = ticks, pa_session_id = session,
              pa_process_group_id = group, pa_pidfd_supported = supported, pa_pidfd_verified = verified,
              pa_worker_generation = generation, pa_captured_at = captured, pa_expires_at = expires,
              pa_verification_result = verdict, pa_member_snapshot = snapshot, pa_digest = digest \<rparr>
       in if 0 \<le> ticks \<and> 0 \<le> session \<and> 0 \<le> group \<and> hex64 digest
             \<and> verdict \<in> {''VERIFIED'', ''UNVERIFIED'', ''FAILED''} \<and> posix_valid_window sha a
          then Some a else None))))))))))))))"

section \<open>Windows\<close>

record windows_attestation =
  wa_job_identity :: string
  wa_job_nonce :: string
  wa_execution_id :: string
  wa_organization_id :: string
  wa_worker_identity :: string
  wa_root_process_id :: int
  wa_root_process_start_token :: string
  wa_worker_generation :: string
  wa_initial_members :: "int list"
  wa_captured_at :: time
  wa_expires_at :: time
  wa_verification_result :: string
  wa_digest :: string

definition windows_job_name :: "(string \<Rightarrow> string) \<Rightarrow> string \<Rightarrow> string \<Rightarrow> string \<Rightarrow> string \<Rightarrow> string \<Rightarrow> string option" where
  "windows_job_name sha eid org worker generation nonce =
    map_option (\<lambda>d. ''Local'' @ [CHR 0x5C] @ ''CyberAssess-'' @ d)
      (canonical_binding_digest sha (JObj
        [(''execution_id'', JStr eid), (''organization_id'', JStr org), (''worker_identity'', JStr worker),
         (''worker_generation'', JStr generation), (''nonce'', JStr nonce)]))"

definition windows_payload :: "windows_attestation \<Rightarrow> json" where
  "windows_payload a = JObj
    [(''schema_version'', JStr ''windows-job-attestation-v1''), (''proof_type'', JStr ''JOB_OBJECT''),
     (''job_identity'', JStr (wa_job_identity a)), (''job_nonce'', JStr (wa_job_nonce a)),
     (''execution_id'', JStr (wa_execution_id a)), (''organization_id'', JStr (wa_organization_id a)),
     (''worker_identity'', JStr (wa_worker_identity a)), (''root_process_id'', JInt (wa_root_process_id a)),
     (''root_process_start_token'', JStr (wa_root_process_start_token a)),
     (''worker_generation'', JStr (wa_worker_generation a)),
     (''initial_members'', JArr (map JInt (wa_initial_members a))),
     (''captured_at'', JStr (canonical_time_text (wa_captured_at a))),
     (''expires_at'', JStr (canonical_time_text (wa_expires_at a))),
     (''verification_result'', JStr (wa_verification_result a))]"

definition canonical_windows_job_attestation_digest :: "(string \<Rightarrow> string) \<Rightarrow> windows_attestation \<Rightarrow> string option" where
  "canonical_windows_job_attestation_digest sha a =
    (if wa_initial_members a = [] \<or> 512 < length (wa_initial_members a)
        \<or> list_ex (\<lambda>m. m < 2) (wa_initial_members a) \<or> wa_root_process_id a < 2
     then None else Some (sha (json_dumps (windows_payload a))))"

definition hex_of_length :: "nat \<Rightarrow> string \<Rightarrow> bool" where
  "hex_of_length n s = (length s = n \<and> list_all (\<lambda>c. c \<in> set ''0123456789abcdef'') s)"

definition windows_job_prefix :: string where
  "windows_job_prefix = ''Local'' @ [CHR 0x5C] @ ''CyberAssess-''"

text \<open>\<open>^windows:[1-9][0-9]*$\<close>.\<close>

definition windows_token :: "string \<Rightarrow> bool" where
  "windows_token s =
    (startswith ''windows:'' s \<and> (let ds = drop 8 s in ds \<noteq> [] \<and> list_all is_digit ds \<and> hd ds \<noteq> CHR ''0''))"

definition windows_valid_window :: "(string \<Rightarrow> string) \<Rightarrow> windows_attestation \<Rightarrow> bool" where
  "windows_valid_window sha a =
    (wa_captured_at a < wa_expires_at a
     \<and> wa_initial_members a = [wa_root_process_id a]
     \<and> windows_job_name sha (wa_execution_id a) (wa_organization_id a) (wa_worker_identity a)
         (wa_worker_generation a) (wa_job_nonce a) = Some (wa_job_identity a)
     \<and> canonical_windows_job_attestation_digest sha a = Some (wa_digest a))"

definition windows_fields :: "string list" where
  "windows_fields = [''schema_version'', ''proof_type'', ''job_identity'', ''job_nonce'', ''execution_id'',
     ''organization_id'', ''worker_identity'', ''root_process_id'', ''root_process_start_token'',
     ''worker_generation'', ''initial_members'', ''captured_at'', ''expires_at'', ''verification_result'', ''digest'']"

definition parse_members_array :: "json option \<Rightarrow> int list option" where
  "parse_members_array v = (case v of Some (JArr xs) \<Rightarrow> all_some (\<lambda>x. strict_int (Some x)) xs | _ \<Rightarrow> None)"

definition parse_windows_attestation :: "(string \<Rightarrow> string) \<Rightarrow> string \<Rightarrow> windows_attestation option" where
  "parse_windows_attestation sha text =
    Option.bind (load_strict_attestation text) (\<lambda>kvs.
    let get = map_of kvs
    in Option.bind (guard (set (map fst kvs) = set windows_fields
         \<and> get ''schema_version'' = Some (JStr ''windows-job-attestation-v1'')
         \<and> get ''proof_type'' = Some (JStr ''JOB_OBJECT''))) (\<lambda>_.
       Option.bind (strict_str (get ''job_identity'')) (\<lambda>job.
       Option.bind (strict_str (get ''job_nonce'')) (\<lambda>nonce.
       Option.bind (strict_str (get ''execution_id'')) (\<lambda>eid.
       Option.bind (strict_str (get ''organization_id'')) (\<lambda>org.
       Option.bind (strict_str (get ''worker_identity'')) (\<lambda>worker.
       Option.bind (strict_int (get ''root_process_id'')) (\<lambda>pid.
       Option.bind (strict_str (get ''root_process_start_token'')) (\<lambda>token.
       Option.bind (strict_str (get ''worker_generation'')) (\<lambda>generation.
       Option.bind (parse_members_array (get ''initial_members'')) (\<lambda>members.
       Option.bind (strict_time (get ''captured_at'')) (\<lambda>captured.
       Option.bind (strict_time (get ''expires_at'')) (\<lambda>expires.
       Option.bind (strict_str (get ''verification_result'')) (\<lambda>verdict.
       Option.bind (strict_str (get ''digest'')) (\<lambda>digest.
       let a = \<lparr> wa_job_identity = job, wa_job_nonce = nonce, wa_execution_id = eid, wa_organization_id = org,
              wa_worker_identity = worker, wa_root_process_id = pid, wa_root_process_start_token = token,
              wa_worker_generation = generation, wa_initial_members = members, wa_captured_at = captured,
              wa_expires_at = expires, wa_verification_result = verdict, wa_digest = digest \<rparr>
       in if startswith windows_job_prefix job \<and> hex64 (drop (length windows_job_prefix) job)
             \<and> hex_of_length 32 nonce \<and> list_all (within 1 256) [eid, org, worker, generation] \<and> 2 \<le> pid
             \<and> windows_token token \<and> hex64 digest
             \<and> verdict \<in> {''VERIFIED'', ''UNVERIFIED'', ''FAILED''} \<and> windows_valid_window sha a
          then Some a else None)))))))))))))))"

end
