(* ===== verification/Py_Text.thy ===== *)
theory Py_Text
  imports Json_Parse
begin

text \<open>
  Reading integers from text the way Python does (\<open>str.isdigit\<close>, \<open>int\<close>), splitting at most twice,
  and \<open>or\<close>-chains whose terms may raise \<open>ValueError\<close>.
\<close>

section \<open>Integers\<close>

text \<open>\<open>str.isdigit\<close> also accepts the superscript digits, which \<open>int\<close> refuses.\<close>

definition py_isdigit :: "string \<Rightarrow> bool" where
  "py_isdigit s = (s \<noteq> [] \<and> list_all (\<lambda>c. is_digit c \<or> (of_char c :: nat) \<in> {178, 179, 185}) s)"

text \<open>The white space \<open>int\<close> skips around a number.\<close>

definition int_space :: "char \<Rightarrow> bool" where
  "int_space c = (let n = (of_char c :: nat) in (9 \<le> n \<and> n \<le> 13) \<or> n = 32 \<or> n = 133 \<or> n = 160)"

text \<open>Digits with single underscores between them.\<close>

fun plain_digits :: "string \<Rightarrow> string option" where
  "plain_digits [] = None"
| "plain_digits [c] = (if is_digit c then Some [c] else None)"
| "plain_digits (c # d # s) =
     (if \<not> is_digit c then None
      else map_option ((#) c) (plain_digits (if d = CHR ''_'' then s else d # s)))"

definition py_int :: "string \<Rightarrow> int option" where
  "py_int text =
    (let s = rev (dropWhile int_space (rev (dropWhile int_space text)));
         signed = (s \<noteq> [] \<and> hd s \<in> {CHR ''+'', CHR ''-''});
         negative = (s \<noteq> [] \<and> hd s = CHR ''-'')
     in case plain_digits (if signed then tl s else s) of
          None \<Rightarrow> None
        | Some ds \<Rightarrow> (if 4300 < length ds then None
                      else Some (if negative then - int (digits_value 0 ds) else int (digits_value 0 ds))))"

lemma py_int_samples:
  "py_int ''17'' = Some 17" "py_int '' -1_0 '' = Some (-10)" "py_int ''None'' = None"
  "py_int ''_1'' = None" "py_int ''1_'' = None" "py_int [] = None" "py_int [char_of (178 :: nat)] = None"
  by code_simp+

section \<open>Splitting\<close>

text \<open>The three parts of \<open>s.split(c, 2)\<close>, when there are three.\<close>

definition split3 :: "char \<Rightarrow> string \<Rightarrow> (string \<times> string \<times> string) option" where
  "split3 c s =
    (case py_partition c s of (a, found, rest) \<Rightarrow>
       (if \<not> found then None
        else case py_partition c rest of (b, found', z) \<Rightarrow> (if found' then Some (a, b, z) else None)))"

text \<open>A start token \<open>posix:boot:ticks\<close>: the boot and the ticks text.\<close>

definition posix_parts :: "string \<Rightarrow> (string \<times> string) option" where
  "posix_parts token =
    (case split3 (CHR '':'') token of Some (a, b, z) \<Rightarrow> (if a = ''posix'' then Some (b, z) else None)
     | None \<Rightarrow> None)"

text \<open>\<open>[0-9a-fA-F-]{8,128}\<close>.\<close>

definition boot_shape :: "string \<Rightarrow> bool" where
  "boot_shape s = (8 \<le> length s \<and> length s \<le> 128
     \<and> list_all (\<lambda>c. c \<in> set ''0123456789abcdefABCDEF-'') s)"

section \<open>Conditions that may raise\<close>

text \<open>\<open>t1 or t2 or ...\<close>: \<open>None\<close> is a term that raises; terms after the first true one are not reached.\<close>

fun or_chain :: "bool option list \<Rightarrow> bool option" where
  "or_chain [] = Some False"
| "or_chain (None # ts) = None"
| "or_chain (Some b # ts) = (if b then Some True else or_chain ts)"

text \<open>A comparison with \<open>int(s)\<close>.\<close>

definition int_test :: "string \<Rightarrow> (int \<Rightarrow> bool) \<Rightarrow> bool option" where
  "int_test s P = map_option P (py_int s)"

lemma or_chain_False: "or_chain ts = Some False \<longleftrightarrow> set ts \<subseteq> {Some False}"
  by (induction ts rule: or_chain.induct) auto

lemma or_chain_append: "or_chain (xs @ ys) =
    (case or_chain xs of Some False \<Rightarrow> or_chain ys | r \<Rightarrow> r)"
  by (induction xs rule: or_chain.induct) auto

lemma int_test_False: "int_test s P = Some False \<longleftrightarrow> (\<exists>n. py_int s = Some n \<and> \<not> P n)"
  by (auto simp: int_test_def)

end
