(* ===== verification/Windows_Jobs.thy ===== *)
theory Windows_Jobs
  imports Attestation Exec_Db Py_Text
begin

text \<open>
  The registry of attested Windows jobs of \<open>backend/app/core/windows_job.py\<close> and the binding of an
  attestation to an ownership row (\<open>validate_windows_ownership\<close> of
  \<open>backend/app/core/execution_context.py\<close>).  A job object is described by its name, whether this
  worker created it, and what the kernel answers about it during the call: whether its limits are
  unchanged, its members, the start tokens of the members, and whether a process is its live root.
  \<open>None\<close> stands for a raised \<open>JobError\<close> or validation error.
\<close>

section \<open>The registry\<close>

record windows_job =
  jb_name :: string
  jb_created_here :: bool
  jb_limits_ok :: bool
  jb_members :: "int list option"
  jb_member_identities :: "(int \<times> string) list option"
  jb_verify_root :: "int \<Rightarrow> string \<Rightarrow> bool option"

text \<open>\<open>_jobs\<close>: attestation digests to jobs, in the order of registration.\<close>

type_synonym job_registry = "(string \<times> windows_job) list"

definition MAX_ATTESTED_JOBS :: nat where
  "MAX_ATTESTED_JOBS = 4096"

definition register_attestation ::
    "time \<Rightarrow> job_registry \<Rightarrow> windows_attestation \<Rightarrow> windows_job \<Rightarrow> job_registry option" where
  "register_attestation now jobs att job =
    (if \<not> jb_created_here job \<or> jb_name job \<noteq> wa_job_identity att
        \<or> wa_verification_result att \<noteq> ''VERIFIED'' \<or> wa_expires_at att \<le> now
     then None
     else if jb_verify_root job (wa_root_process_id att) (wa_root_process_start_token att) \<noteq> Some True
     then None
     else if map_of jobs (wa_digest att) \<noteq> None \<or> MAX_ATTESTED_JOBS \<le> length jobs then None
     else Some (jobs @ [(wa_digest att, job)]))"

text \<open>
  \<open>verify_attachment\<close>, called on the registered job itself; \<open>allow_empty\<close> is true at its only call.
\<close>

definition verify_attachment :: "time \<Rightarrow> windows_attestation \<Rightarrow> windows_job \<Rightarrow> int list option" where
  "verify_attachment now att job =
    (if wa_verification_result att \<noteq> ''VERIFIED'' \<or> wa_expires_at att \<le> now then None
     else if wa_job_identity att \<noteq> jb_name job then None
     else if \<not> jb_limits_ok job then None
     else case jb_members job of
       None \<Rightarrow> None
     | Some members \<Rightarrow>
       (case (if members = [] then Some [] else jb_member_identities job) of
          None \<Rightarrow> None
        | Some identities \<Rightarrow>
          (if wa_root_process_id att \<in> set members
              \<and> (map_of identities (wa_root_process_id att) \<noteq> Some (wa_root_process_start_token att)
                 \<or> jb_verify_root job (wa_root_process_id att) (wa_root_process_start_token att) \<noteq> Some True)
           then None else Some members)))"

definition attested_job :: "time \<Rightarrow> job_registry \<Rightarrow> windows_attestation \<Rightarrow> bool \<Rightarrow> windows_job option" where
  "attested_job now jobs att for_recovery =
    (if wa_verification_result att \<noteq> ''VERIFIED'' \<or> wa_expires_at att \<le> now then None
     else case map_of jobs (wa_digest att) of
       None \<Rightarrow> None
     | Some job \<Rightarrow>
         (if \<not> jb_created_here job \<or> jb_name job \<noteq> wa_job_identity att then None
          else if (if for_recovery then verify_attachment now att job = None else \<not> jb_limits_ok job)
          then None else Some job))"

definition release_attestation :: "job_registry \<Rightarrow> string \<Rightarrow> job_registry option" where
  "release_attestation jobs digest =
    (if \<not> hex64 digest then None else Some (filter (\<lambda>e. fst e \<noteq> digest) jobs))"

section \<open>Binding to an ownership row\<close>

definition validate_windows_ownership ::
    "(string \<Rightarrow> string) \<Rightarrow> time \<Rightarrow> process_ownership \<Rightarrow> string option \<Rightarrow> bool \<Rightarrow> windows_attestation option" where
  "validate_windows_ownership sha now row worker historical =
    (case o_identity_attestation row of
       None \<Rightarrow> None
     | Some text \<Rightarrow>
       (case parse_windows_attestation sha text of
          None \<Rightarrow> None
        | Some att \<Rightarrow>
          (if o_container_type row \<noteq> WINDOWS_JOB
              \<or> o_process_group_id row \<noteq> None
              \<or> o_session_id row \<noteq> None
              \<or> wa_verification_result att \<noteq> ''VERIFIED''
              \<or> Some (wa_job_identity att) \<noteq> o_container_identity row
              \<or> wa_execution_id att \<noteq> o_execution_id row
              \<or> wa_organization_id att \<noteq> o_organization_id row
              \<or> Some (wa_root_process_id att) \<noteq> o_root_process_id row
              \<or> Some (wa_root_process_start_token att) \<noteq> o_root_process_start_token row
              \<or> Some (wa_worker_generation att) \<noteq> o_worker_generation row
              \<or> (worker \<noteq> None \<and> Some (wa_worker_identity att) \<noteq> worker)
           then None
           else if now < wa_captured_at att \<or> (\<not> historical \<and> wa_expires_at att \<le> now) then None
           else Some att)))"

definition require_empty_job ::
    "(string \<Rightarrow> string) \<Rightarrow> time \<Rightarrow> job_registry \<Rightarrow> process_ownership \<Rightarrow> string option \<Rightarrow> windows_attestation option" where
  "require_empty_job sha now jobs row worker =
    (case validate_windows_ownership sha now row worker False of
       None \<Rightarrow> None
     | Some att \<Rightarrow>
       (case attested_job now jobs att False of
          None \<Rightarrow> None
        | Some job \<Rightarrow> (if jb_members job = Some [] then Some att else None)))"

section \<open>The registry invariant\<close>

text \<open>No digest twice, never above capacity, only jobs this worker created.\<close>

definition registry_ok :: "job_registry \<Rightarrow> bool" where
  "registry_ok jobs = (distinct (map fst jobs) \<and> length jobs \<le> MAX_ATTESTED_JOBS
     \<and> list_all (\<lambda>e. jb_created_here (snd e)) jobs)"

lemma registry_ok_empty: "registry_ok []"
  by (simp add: registry_ok_def)

lemma register_ok: "registry_ok jobs \<Longrightarrow> register_attestation now jobs att job = Some jobs' \<Longrightarrow> registry_ok jobs'"
  by (auto simp: registry_ok_def register_attestation_def map_of_eq_None_iff split: if_splits)

lemma release_ok: "registry_ok jobs \<Longrightarrow> release_attestation jobs digest = Some jobs' \<Longrightarrow> registry_ok jobs'"
  by (auto simp: registry_ok_def release_attestation_def distinct_map_filter list_all_iff
      split: if_splits intro: order_trans [OF length_filter_le])

lemma registered_found:
  "register_attestation now jobs att job = Some jobs' \<Longrightarrow> map_of jobs' (wa_digest att) = Some job"
  by (auto simp: register_attestation_def map_add_def split: if_splits)

lemma map_of_filter_key: "map_of (filter (\<lambda>e. fst e \<noteq> k) xs) k = None"
  by (induction xs) auto

text \<open>A released attestation is never found again until it is registered anew.\<close>

lemma released_gone:
  "release_attestation jobs (wa_digest att) = Some jobs' \<Longrightarrow> attested_job now jobs' att recovery = None"
  by (auto simp: release_attestation_def attested_job_def map_of_filter_key split: if_splits)

end
