(* ===== verification/Regex.thy ===== *)
theory Regex
  imports Prelude
begin

text \<open>
  The part of Python's \<open>re\<close> the modelled code uses: a backtracking matcher that returns the end
  states of all matches in the engine's order of preference, \<open>re.search\<close>, \<open>re.fullmatch\<close> and
  \<open>re.sub\<close>.  Repetition is over single-character classes, as in every pattern of the code.
  A state is the text read so far (reversed), the text ahead and the captured groups.
\<close>

section \<open>Characters\<close>

type_synonym char_class = "char \<Rightarrow> bool"

definition code_of :: "char \<Rightarrow> nat" where
  "code_of c = of_char c"

definition in_range :: "char \<Rightarrow> char \<Rightarrow> char_class" where
  "in_range a b c = (code_of a \<le> code_of c \<and> code_of c \<le> code_of b)"

definition ascii_upper :: char_class where
  "ascii_upper c = in_range (CHR ''A'') (CHR ''Z'') c"

definition ascii_lower :: char_class where
  "ascii_lower c = in_range (CHR ''a'') (CHR ''z'') c"

definition ascii_digit :: char_class where
  "ascii_digit c = in_range (CHR ''0'') (CHR ''9'') c"

definition ascii_alnum :: char_class where
  "ascii_alnum c = (ascii_upper c \<or> ascii_lower c \<or> ascii_digit c)"

text \<open>\<open>\w\<close> on code points below 256: \<open>str.isalnum\<close> or the underscore.\<close>

definition word_char :: char_class where
  "word_char c = (ascii_alnum c \<or> c = CHR ''_'' \<or> code_of c \<in> {170, 178, 179, 181, 185, 186, 188, 189, 190}
     \<or> (192 \<le> code_of c \<and> code_of c \<notin> {215, 247}))"

definition one_of :: "string \<Rightarrow> char_class" where
  "one_of cs c = (c \<in> set cs)"

definition none_of :: "string \<Rightarrow> char_class" where
  "none_of cs c = (c \<notin> set cs)"

section \<open>Patterns\<close>

datatype regex =
    RClass char_class
  | RRep bool nat "nat option" char_class  \<comment> \<open>greedy?, at least, at most\<close>
  | RSeq regex regex
  | RAlt regex regex
  | RGroup nat regex
  | RRef nat
  | RBound
  | RStart
  | REnd
  | REmpty

definition RMany :: "char_class \<Rightarrow> regex" where "RMany p = RRep True 0 None p"
definition RSome :: "char_class \<Rightarrow> regex" where "RSome p = RRep True 1 None p"
definition ROpt :: "char_class \<Rightarrow> regex" where "ROpt p = RRep True 0 (Some 1) p"

fun RCat :: "regex list \<Rightarrow> regex" where
  "RCat [] = REmpty"
| "RCat [r] = r"
| "RCat (r # rs) = RSeq r (RCat rs)"

fun RAny :: "regex list \<Rightarrow> regex" where
  "RAny [] = RClass (\<lambda>_. False)"
| "RAny [r] = r"
| "RAny (r # rs) = RAlt r (RAny rs)"

text \<open>A literal, and a literal under \<open>re.IGNORECASE\<close>.\<close>

definition RLit :: "string \<Rightarrow> regex" where
  "RLit s = RCat (map (\<lambda>x. RClass (\<lambda>c. c = x)) s)"

definition RLitI :: "string \<Rightarrow> regex" where
  "RLitI s = RCat (map (\<lambda>x. RClass (\<lambda>c. py_lower_char c = py_lower_char x)) s)"

section \<open>Matching\<close>

type_synonym groups = "(nat \<times> string) list"
type_synonym match_state = "string \<times> string \<times> groups"

fun take_run :: "char_class \<Rightarrow> nat option \<Rightarrow> string \<Rightarrow> nat" where
  "take_run p (Some 0) s = 0"
| "take_run p lim [] = 0"
| "take_run p lim (c # s) = (if p c then Suc (take_run p (map_option (\<lambda>n. n - 1) lim) s) else 0)"

definition group_text :: "groups \<Rightarrow> nat \<Rightarrow> string" where
  "group_text gs n = (case map_of gs n of None \<Rightarrow> [] | Some s \<Rightarrow> s)"

definition advance :: "nat \<Rightarrow> match_state \<Rightarrow> match_state" where
  "advance n st = (case st of (seen, ahead, gs) \<Rightarrow>
     (rev (take n ahead) @ seen, drop n ahead, gs))"

definition word_at :: "string \<Rightarrow> bool" where
  "word_at s = (case s of [] \<Rightarrow> False | c # _ \<Rightarrow> word_char c)"

fun re_match :: "regex \<Rightarrow> match_state \<Rightarrow> match_state list" where
  "re_match (RClass p) (seen, ahead, gs) =
     (case ahead of c # _ \<Rightarrow> (if p c then [advance 1 (seen, ahead, gs)] else []) | [] \<Rightarrow> [])"
| "re_match (RRep greedy lo hi p) (seen, ahead, gs) =
     (let n = take_run p hi ahead;
          ends = map (\<lambda>k. advance k (seen, ahead, gs)) [lo..<Suc n]
      in if greedy then rev ends else ends)"
| "re_match (RSeq a b) st = concat (map (re_match b) (re_match a st))"
| "re_match (RAlt a b) st = re_match a st @ re_match b st"
| "re_match (RGroup n r) (seen, ahead, gs) =
     map (\<lambda>(seen', ahead', gs').
        (seen', ahead', (n, take (length ahead - length ahead') ahead) # gs'))
       (re_match r (seen, ahead, gs))"
| "re_match (RRef n) (seen, ahead, gs) =
     (if startswith (group_text gs n) ahead
      then [advance (length (group_text gs n)) (seen, ahead, gs)] else [])"
| "re_match RBound (seen, ahead, gs) =
     (if word_at seen \<noteq> word_at ahead then [(seen, ahead, gs)] else [])"
| "re_match RStart (seen, ahead, gs) = (if seen = [] then [(seen, ahead, gs)] else [])"
| "re_match REnd (seen, ahead, gs) =
     (if ahead = [] \<or> ahead = [CHR 0x0A] then [(seen, ahead, gs)] else [])"
| "re_match REmpty st = [st]"

text \<open>The text ahead only shrinks.\<close>

lemma re_match_ahead: "st' \<in> set (re_match r st) \<Longrightarrow> length (fst (snd st')) \<le> length (fst (snd st))"
proof (induction r st arbitrary: st' rule: re_match.induct)
  case (3 a b st)
  then obtain st1 where "st1 \<in> set (re_match a st)" "st' \<in> set (re_match b st1)" by auto
  with 3 show ?case by (meson order_trans)
qed (fastforce simp: advance_def Let_def split: if_splits list.splits)+

definition re_fullmatch :: "regex \<Rightarrow> string \<Rightarrow> bool" where
  "re_fullmatch r s = list_ex (\<lambda>st. fst (snd st) = []) (re_match r ([], s, []))"

fun re_search_from :: "regex \<Rightarrow> string \<Rightarrow> string \<Rightarrow> bool" where
  "re_search_from r seen [] = (re_match r (seen, [], []) \<noteq> [])"
| "re_search_from r seen (c # cs) =
     (re_match r (seen, c # cs, []) \<noteq> [] \<or> re_search_from r (c # seen) cs)"

definition re_search :: "regex \<Rightarrow> string \<Rightarrow> bool" where
  "re_search r s = re_search_from r [] s"

section \<open>Substitution\<close>

datatype piece = Text string | Ref nat

definition expand :: "piece list \<Rightarrow> groups \<Rightarrow> string" where
  "expand t gs = concat (map (\<lambda>p. case p of Text s \<Rightarrow> s | Ref n \<Rightarrow> group_text gs n) t)"

text \<open>
  \<open>re.sub\<close>: at each position the preferred match, then on from its end; after an empty match the
  next one at the same position must not be empty.
\<close>

function re_sub_from :: "regex \<Rightarrow> piece list \<Rightarrow> bool \<Rightarrow> string \<Rightarrow> string \<Rightarrow> string" where
  "re_sub_from r t must seen ahead =
     (case filter (\<lambda>st. must \<longrightarrow> length (fst (snd st)) < length ahead) (re_match r (seen, ahead, [])) of
        [] \<Rightarrow> (case ahead of [] \<Rightarrow> [] | c # cs \<Rightarrow> c # re_sub_from r t False (c # seen) cs)
      | st # _ \<Rightarrow> expand t (snd (snd st)) @
          (if length (fst (snd st)) < length ahead
           then re_sub_from r t False (fst st) (fst (snd st))
           else if must then [] else re_sub_from r t True seen ahead))"
  by pat_completeness auto
termination
  by (relation "measure (\<lambda>(r, t, must, seen, ahead). 2 * length ahead + (if must then 0 else 1))") auto

declare re_sub_from.simps [simp del]

definition re_sub :: "regex \<Rightarrow> piece list \<Rightarrow> string \<Rightarrow> string" where
  "re_sub r t s = re_sub_from r t False [] s"

end
