(* ===== verification/Sanitize.thy ===== *)
theory Sanitize
  imports Regex Json
begin

text \<open>
  Redaction before storage, \<open>sanitize_sensitive_text\<close> and \<open>sanitize_sensitive_data\<close> of
  \<open>backend/app/core/models.py\<close>: the eight substitutions in their order, and the walk that replaces
  every value filed under a sensitive key.
\<close>

section \<open>Text\<close>

definition dquote :: string where "dquote = [CHR 0x22]"
definition quotes :: string where "quotes = [CHR 0x22, CHR 0x27]"

definition opt_dash :: regex where "opt_dash = ROpt (one_of ''_-'')"

definition value_chars :: regex where
  "value_chars = RSome (\<lambda>c. \<not> py_space c \<and> none_of ('',;}'' @ quotes) c)"

definition aws_key_pattern :: regex where
  "aws_key_pattern = RCat [RBound, RLit ''AKIA'',
     RRep True 16 (Some 16) (\<lambda>c. ascii_digit c \<or> ascii_upper c), RBound]"

definition github_token_pattern :: regex where
  "github_token_pattern = RCat [RBound, RAny [RLit ''ghp'', RLit ''github_pat''], RLit ''_'',
     RSome (\<lambda>c. ascii_alnum c \<or> c = CHR ''_''), RBound]"

definition stripe_key_pattern :: regex where
  "stripe_key_pattern = RCat [RBound, RAny [RLit ''sk'', RLit ''pk''], RLit ''_'',
     RAny [RLit ''test'', RLit ''live''], RLit ''_'', RSome ascii_alnum, RBound]"

definition api_key_word :: regex where
  "api_key_word = RCat [RLitI ''api'', opt_dash, RLitI ''key'']"

definition assignment_pattern :: regex where
  "assignment_pattern = RCat [
     RGroup 1 (RAny [RStart, RClass (\<lambda>c. py_space c \<or> one_of '',;{'' c)]),
     RGroup 2 (RAny [RLitI ''password'', RLitI ''passwd'', RLitI ''pwd'', RLitI ''secret'', api_key_word,
        RCat [RLitI ''access'', opt_dash, RLitI ''token''],
        RCat [RLitI ''bearer'', opt_dash, RLitI ''token''], RLitI ''authorization'',
        RLitI ''credential'', RCat [RLitI ''session'', opt_dash, RLitI ''jti'']]),
     RMany py_space, RClass (one_of '':=''), RMany py_space, RGroup 3 value_chars]"

definition quoted_assignment_pattern :: regex where
  "quoted_assignment_pattern = RCat [
     RGroup 1 (RCat [ROpt (one_of quotes), RBound,
        RGroup 2 (RAny [RLitI ''password'', RLitI ''passwd'', RLitI ''pwd'', RLitI ''secret'',
           api_key_word, RLitI ''token'', RCat [RLitI ''auth'', opt_dash, RLitI ''token'']]),
        RBound, ROpt (one_of quotes), RMany py_space, RClass (one_of '':=''), RMany py_space]),
     RGroup 3 (ROpt (one_of quotes)), RGroup 4 value_chars, RRef 3]"

definition bearer_pattern :: regex where
  "bearer_pattern = RCat [RGroup 1 (RCat [RLitI ''Bearer'', RSome py_space]),
     RSome (\<lambda>c. ascii_alnum c \<or> one_of ''._~+/=-'' c)]"

definition url_password_pattern :: regex where
  "url_password_pattern = RCat [
     RGroup 1 (RCat [RLitI ''http'', ROpt (one_of ''sS''), RLit ''://'',
        RSome (\<lambda>c. \<not> py_space c \<and> none_of ''/:'' c)]),
     RLit '':'', RSome (\<lambda>c. c \<noteq> CHR ''@'' \<and> \<not> py_space c), RLit ''@'']"

definition private_key_pattern :: regex where
  "private_key_pattern = RCat [RLit ''-----BEGIN '', RMany (none_of ''-''), RLit ''PRIVATE KEY-----'',
     RRep False 0 None (\<lambda>_. True), RLit ''-----END '', RMany (none_of ''-''), RLit ''PRIVATE KEY-----'']"

definition sanitize_patterns :: "(regex \<times> piece list) list" where
  "sanitize_patterns =
    [(aws_key_pattern, [Text ''[REDACTED_AWS_KEY]'']),
     (github_token_pattern, [Text ''[REDACTED_GITHUB_TOKEN]'']),
     (stripe_key_pattern, [Text ''[REDACTED_STRIPE_KEY]'']),
     (assignment_pattern, [Ref 1, Ref 2, Text ''=[REDACTED]'']),
     (quoted_assignment_pattern, [Ref 1, Ref 3, Text ''[REDACTED]'', Ref 3]),
     (bearer_pattern, [Ref 1, Text ''[REDACTED]'']),
     (url_password_pattern, [Ref 1, Text '':[REDACTED]@'']),
     (private_key_pattern, [Text ''[REDACTED_PRIVATE_KEY]''])]"

definition sanitize_sensitive_text :: "string \<Rightarrow> nat \<Rightarrow> string" where
  "sanitize_sensitive_text value max_length =
     foldl (\<lambda>text p. re_sub (fst p) (snd p) text) (take max_length value) sanitize_patterns"

section \<open>Structured data\<close>

definition SENSITIVE_DATA_KEY :: regex where
  "SENSITIVE_DATA_KEY = RCat [
     RAny [RStart, RClass (one_of ''_-'')],
     RGroup 1 (RAny [RLitI ''authorization'', RLitI ''proxy-authorization'', RLitI ''cookie'',
        RLitI ''set-cookie'', RLitI ''password'', RLitI ''passwd'', RLitI ''pwd'', RLitI ''token'',
        RCat [RLitI ''session'', opt_dash, RLitI ''jti''], api_key_word,
        RCat [RLitI ''access'', opt_dash, RLitI ''token''],
        RCat [RLitI ''client'', opt_dash, RLitI ''secret''],
        RCat [RLitI ''private'', opt_dash, RLitI ''key''],
        RCat [RLitI ''raw'', opt_dash, RLitI ''secret''],
        RCat [RLitI ''secret'', opt_dash, RAny [RLitI ''value'', RLitI ''data'']],
        RLitI ''credential'']),
     RAny [REnd, RClass (one_of ''_-'')]]"

definition sensitive_key :: "string \<Rightarrow> bool" where
  "sensitive_key k = (k \<noteq> [] \<and> re_search SENSITIVE_DATA_KEY k)"

fun sanitize_sensitive_data :: "json \<Rightarrow> json" where
  "sanitize_sensitive_data (JObj kvs) =
     JObj (map (\<lambda>kv. (fst kv, if sensitive_key (fst kv) then JStr ''[REDACTED]''
                             else sanitize_sensitive_data (snd kv))) kvs)"
| "sanitize_sensitive_data (JArr xs) = JArr (map sanitize_sensitive_data xs)"
| "sanitize_sensitive_data (JStr s) = JStr (sanitize_sensitive_text s 4096)"
| "sanitize_sensitive_data v = v"

text \<open>A details object.\<close>

definition sanitize_details :: "jobj \<Rightarrow> jobj" where
  "sanitize_details kvs = map (\<lambda>kv. (fst kv, if sensitive_key (fst kv) then JStr ''[REDACTED]''
                             else sanitize_sensitive_data (snd kv))) kvs"

lemma sanitize_details_object: "sanitize_sensitive_data (JObj kvs) = JObj (sanitize_details kvs)"
  by (simp add: sanitize_details_def)

text \<open>Every field of a value, at every depth.\<close>

fun all_fields :: "json \<Rightarrow> (string \<times> json) list" where
  "all_fields (JObj kvs) = kvs @ concat (map (\<lambda>kv. all_fields (snd kv)) kvs)"
| "all_fields (JArr xs) = concat (map all_fields xs)"
| "all_fields _ = []"

text \<open>No value under a sensitive key survives sanitizing: in the sanitized data, at every depth of
  objects and lists, a field whose key names a credential holds the redaction mark.\<close>

theorem sensitive_values_redacted:
  assumes "(k, v) \<in> set (all_fields (sanitize_sensitive_data j))" and "sensitive_key k"
  shows "v = JStr ''[REDACTED]''"
  using assms
proof (induction j arbitrary: k v rule: sanitize_sensitive_data.induct)
  case (1 kvs)
  then show ?case by (fastforce split: if_splits)
next
  case (2 xs)
  then show ?case by fastforce
qed simp_all

theorem sensitive_values_redacted_witness:
  "\<exists>v. sanitize_sensitive_data (JArr [JObj [(''X-Api_Key'', JInt 7)]]) = JArr [JObj [(''X-Api_Key'', v)]]
     \<and> v = JStr ''[REDACTED]'' \<and> \<not> sensitive_key ''monkey''"
proof -
  have key: "sensitive_key ''X-Api_Key''" and no: "\<not> sensitive_key ''monkey''" by code_simp+
  obtain v where v: "sanitize_sensitive_data (JArr [JObj [(''X-Api_Key'', JInt 7)]]) = JArr [JObj [(''X-Api_Key'', v)]]"
    by simp
  then have "(''X-Api_Key'', v) \<in> set (all_fields (sanitize_sensitive_data (JArr [JObj [(''X-Api_Key'', JInt 7)]])))"
    by simp
  from sensitive_values_redacted [OF this key] v no show ?thesis by blast
qed

end
