(* ===== verification/Exec_Recovery.thy ===== *)
theory Exec_Recovery
  imports Exec_Process Windows_Jobs Sanitize
begin

text \<open>
  Recovery of governed processes in \<open>backend/app/core/db.py\<close>: recording that a termination could not
  be confirmed or the identity could not be reloaded, fencing a committed process, and the checks of
  the persisted process identity they share.  Timestamps are aware instants; the jobs of the Windows
  registry are an argument where the code asks the kernel.
\<close>

fun container_name :: "ProcessContainerType \<Rightarrow> string" where
  "container_name CNONE = ''NONE''"
| "container_name POSIX_SESSION = ''POSIX_SESSION''"
| "container_name WINDOWS_JOB = ''WINDOWS_JOB''"
| "container_name PROCESS_SET = ''PROCESS_SET''"

fun commit_name :: "LaunchCommitState \<Rightarrow> string" where
  "commit_name NOT_ATTEMPTED = ''NOT_ATTEMPTED''"
| "commit_name COMMITTED = ''COMMITTED''"
| "commit_name UNCERTAIN = ''UNCERTAIN''"

text \<open>\<open>str(x)\<close> of an optional integer, and the JSON of an optional instant.\<close>

definition py_str_int :: "int option \<Rightarrow> string" where
  "py_str_int x = (case x of None \<Rightarrow> ''None'' | Some i \<Rightarrow> str_int i)"

definition jtime :: "time option \<Rightarrow> json" where
  "jtime x = (case x of None \<Rightarrow> JNull | Some t \<Rightarrow> JStr (isoformat t))"

text \<open>\<open>f"posix-session:{session}:group:{group}"\<close>.\<close>

definition posix_container :: "string \<Rightarrow> string \<Rightarrow> string" where
  "posix_container session pgid = ''posix-session:'' @ session @ '':group:'' @ pgid"

definition bounded_text :: "nat \<Rightarrow> string \<Rightarrow> bool" where
  "bounded_text n s = (py_strip s \<noteq> [] \<and> length s \<le> n)"

section \<open>Recording an unconfirmed outcome\<close>

text \<open>\<open>ownership p JOIN runs r JOIN decisions d JOIN recovery_state s\<close> of one execution.\<close>

definition governed_rows ::
    "exec_db \<Rightarrow> string \<Rightarrow> string \<Rightarrow> (process_ownership \<times> exec_run \<times> exec_decision \<times> recovery_state) list" where
  "governed_rows db eid org =
    [(p, r, d, v). p \<leftarrow> process_ownerships db, o_execution_id p = eid, o_organization_id p = org,
       r \<leftarrow> execution_runs db, r_execution_id r = eid, r_organization_id r = org,
       d \<leftarrow> decisions_of db r,
       v \<leftarrow> recovery_states db, v_execution_id v = eid, v_organization_id v = org]"

text \<open>The caller's copy of the process identity.\<close>

definition unconfirmed_input ::
    "int \<Rightarrow> string option \<Rightarrow> string \<Rightarrow> int option \<Rightarrow> bool option" where
  "unconfirmed_input pid pgid token session =
    (if windows_token token then Some (\<not> (pid \<le> 1 \<or> pgid \<noteq> None \<or> session \<noteq> None))
     else map_option Not (or_chain
       [Some (pid \<le> 1), Some (session = None), Some (the session < 0), Some (pgid = None),
        Some (\<not> py_isdigit (the pgid)), int_test (the pgid) (\<lambda>n. n \<le> 1),
        Some (posix_parts token = None), Some (\<not> boot_shape (fst (the (posix_parts token)))),
        Some (\<not> py_isdigit (snd (the (posix_parts token)))),
        int_test (snd (the (posix_parts token))) (\<lambda>n. n \<le> 0)]))"

text \<open>A run that still awaits recovery, held by nobody, under one worker and generation.\<close>

definition awaiting_recovery :: "exec_run \<Rightarrow> exec_decision \<Rightarrow> recovery_state \<Rightarrow> bool" where
  "awaiting_recovery r d v =
    (r_state r \<in> {REQUESTED, STARTING, RUNNING}
     \<and> v_status v \<noteq> RV_IN_PROGRESS \<and> v_status v \<notin> {RV_CONFIRMED_TERMINATED, RV_EXHAUSTED}
     \<and> v_owner v = None \<and> v_lease_token v = None
     \<and> nonblank (r_worker_identity r) \<and> r_worker_identity r = Some (d_worker_identity d)
     \<and> nonblank (r_worker_generation r))"

definition unconfirmed_binding ::
    "process_ownership \<Rightarrow> exec_run \<Rightarrow> exec_decision \<Rightarrow> recovery_state \<Rightarrow>
     int \<Rightarrow> string option \<Rightarrow> string \<Rightarrow> int option \<Rightarrow> bool" where
  "unconfirmed_binding p r d v pid pgid token session =
    (o_ownership_state p = EXTERNAL_PROCESS_GOVERNED \<and> o_launch_commit_state p = COMMITTED
     \<and> awaiting_recovery r d v
     \<and> o_worker_generation p = r_worker_generation r
     \<and> Some (o_correlation_id p) = r_correlation_id r \<and> py_strip (o_correlation_id p) \<noteq> []
     \<and> o_container_type p \<in> {POSIX_SESSION, WINDOWS_JOB}
     \<and> o_root_process_id p = Some pid \<and> o_process_group_id p = pgid
     \<and> o_root_process_start_token p = Some token
     \<and> py_str (o_session_id p) = py_str_int session
     \<and> nonblank (o_identity_attestation p))"

text \<open>The retry projection and attempt both recorders publish.\<close>

definition failed_attempt_state ::
    "time \<Rightarrow> recovery_status \<Rightarrow> string \<Rightarrow> nat \<Rightarrow> string \<Rightarrow> string \<Rightarrow> time option \<Rightarrow> recovery_state \<Rightarrow> recovery_state" where
  "failed_attempt_state now status gen number result err retry v =
    v\<lparr>v_status := status, v_worker_generation := Some gen, v_attempt_number := number,
      v_last_outcome := Some (take 512 result), v_last_error := Some (take 512 err),
      v_next_retry_at := retry, v_owner := None, v_lease_token := None, v_lease_expires_at := None,
      v_updated_at := now\<rparr>"

definition publish_failed_attempt ::
    "env \<Rightarrow> exec_db \<Rightarrow> string \<Rightarrow> string \<Rightarrow> exec_run \<Rightarrow> recovery_state \<Rightarrow> recovery_status \<Rightarrow> string \<Rightarrow> string \<Rightarrow>
     string \<Rightarrow> string \<Rightarrow> time option \<Rightarrow> string \<Rightarrow> string \<Rightarrow> string \<Rightarrow> string \<Rightarrow> (nat \<Rightarrow> jobj) \<Rightarrow> (nat \<Rightarrow> jobj) \<Rightarrow> bool outcome" where
  "publish_failed_attempt env db eid org r v status worker gen result err retry
     id_prefix cancellation reason health evidence details =
    (let now = e_now env 0 in
     if v_status v = status \<and> v_last_outcome v = Some result \<and> v_last_error v = Some err
        \<and> v_next_retry_at v = retry
     then commit db True
     else
     let number = v_attempt_number v + 1; aid = id_prefix @ eid @ ''-'' @ str_nat number
     in case sql_find (\<lambda>t. t_attempt_id t = aid) (recovery_attempts db) of
       Some t \<Rightarrow> commit db (t_status t = status \<and> t_error_code t = Some err \<and> t_next_retry_at t = retry)
     | None \<Rightarrow>
       let hit = (\<lambda>v. v_execution_id v = eid \<and> v_organization_id v = org
              \<and> v_status v \<in> {RV_REQUESTED, RV_DEFERRED, RV_FAILED, RV_ESCALATED}
              \<and> v_owner v = None \<and> v_lease_token v = None);
           states = sql_update hit (failed_attempt_state now status gen number result err retry)
              (recovery_states db);
           attempt = \<lparr> t_attempt_id = aid, t_execution_id = eid, t_organization_id = org,
              t_worker_identity = worker, t_worker_generation = Some gen, t_attempt_number = number,
              t_status = status, t_cancellation_status = Some cancellation, t_reason_code = reason,
              t_correlation_id = r_correlation_id r, t_requested_at = now, t_started_at = Some now,
              t_completed_at = Some now, t_next_retry_at = retry, t_error_code = Some (take 512 err),
              t_escalation_level = 0,
              t_health_reference = Some (health @ '':'' @ e_sha256 env (json_dumps (JObj (evidence number)))) \<rparr>
       in if sql_rowcount hit (recovery_states db) \<noteq> 1
       then commit (db\<lparr>recovery_states := states\<rparr>) False
       else commit (add_audit [audit_event_of env 0 worker org ''EXECUTION_RECOVERY_ATTEMPT_RECORDED''
                ''execution_recovery_attempt'' aid ''SUCCESS'' (r_correlation_id r) (details number)]
              (db\<lparr>recovery_states := states,
                  recovery_attempts := recovery_attempts db @ [attempt]\<rparr>)) True)"

definition record_unconfirmed_governed_recovery ::
    "env \<Rightarrow> exec_db \<Rightarrow> string \<Rightarrow> string \<Rightarrow> int \<Rightarrow> string option \<Rightarrow> string \<Rightarrow> int option \<Rightarrow> string \<Rightarrow> string \<Rightarrow>
     string \<Rightarrow> string \<Rightarrow> string \<Rightarrow> time option \<Rightarrow> bool \<Rightarrow> string \<Rightarrow> bool outcome" where
  "record_unconfirmed_governed_recovery env db eid org pid pgid token session worker gen
     termination result err retry exhausted actor =
    (if \<not> list_all (bounded_text 512) [eid, org, token, worker, gen, termination, result, err, actor]
     then commit db False
     else case unconfirmed_input pid pgid token session of
       None \<Rightarrow> rollback db ValueError
     | Some False \<Rightarrow> commit db False
     | Some True \<Rightarrow>
       if exhausted \<noteq> (retry = None) then rollback db ValueError
       else
       let status = (if exhausted then RV_EXHAUSTED else RV_DEFERRED)
       in case fetchone (governed_rows db eid org) of
         None \<Rightarrow> commit db False
       | Some (p, r, d, v) \<Rightarrow>
         if \<not> unconfirmed_binding p r d v pid pgid token session then commit db False
         else if o_container_type p = WINDOWS_JOB
            \<and> validate_windows_ownership (e_sha256 env) (e_now env 1) p (r_worker_identity r) True = None
         then commit db False
         else publish_failed_attempt env db eid org r v status worker gen result err retry
           ''recovery-observation-'' termination ''EXECUTION_RECOVERY_UNCONFIRMED'' ''recovery-observation''
           (\<lambda>n. [(''execution_id'', JStr eid), (''organization_id'', JStr org), (''attempt_number'', JInt (int n)),
                 (''termination_status'', JStr termination), (''outcome'', JStr result),
                 (''next_retry_at'', jtime retry)])
           (\<lambda>n. [(''execution_id'', JStr eid), (''attempt_number'', JInt (int n)),
                 (''status'', JStr (recovery_name status)), (''termination_status'', JStr termination),
                 (''recovery_worker_identity'', JStr worker)]))"

text \<open>An ownership row of a launch that recorded nothing about its process.\<close>

definition unbound_ownership :: "process_ownership \<Rightarrow> bool" where
  "unbound_ownership p =
    (o_ownership_state p = UNKNOWN \<and> o_launch_commit_state p \<in> {NOT_ATTEMPTED, UNCERTAIN}
     \<and> o_container_type p = CNONE \<and> o_worker_generation p = None \<and> o_container_identity p = None
     \<and> o_root_process_id p = None \<and> o_root_process_start_token p = None \<and> o_process_group_id p = None
     \<and> o_session_id p = None \<and> o_identity_attestation p = None \<and> o_no_process_proof p = None)"

definition unavailable_binding ::
    "process_ownership \<Rightarrow> exec_run \<Rightarrow> exec_decision \<Rightarrow> recovery_state \<Rightarrow> string option \<Rightarrow> string option \<Rightarrow> bool" where
  "unavailable_binding p r d v worker gen =
    ((if o_ownership_state p = EXTERNAL_PROCESS_GOVERNED then o_launch_commit_state p = COMMITTED
      else o_ownership_state p = UNKNOWN \<and> o_launch_commit_state p \<in> {NOT_ATTEMPTED, UNCERTAIN})
     \<and> awaiting_recovery r d v
     \<and> (o_worker_generation p = r_worker_generation r \<or> unbound_ownership p)
     \<and> (worker \<noteq> None \<longrightarrow> r_worker_identity r = worker)
     \<and> (gen \<noteq> None \<longrightarrow> r_worker_generation r = gen)
     \<and> py_strip (o_correlation_id p) \<noteq> [] \<and> Some (o_correlation_id p) = r_correlation_id r)"

definition record_unavailable_governed_recovery ::
    "env \<Rightarrow> exec_db \<Rightarrow> string \<Rightarrow> string \<Rightarrow> string option \<Rightarrow> string option \<Rightarrow> string \<Rightarrow> string \<Rightarrow>
     string \<Rightarrow> string \<Rightarrow> time option \<Rightarrow> bool \<Rightarrow> string \<Rightarrow> bool outcome" where
  "record_unavailable_governed_recovery env db eid org worker gen rworker rgen result err retry exhausted actor =
    (if \<not> list_all (bounded_text 512) [eid, org, rworker, rgen, result, err, actor]
        \<or> (case worker of None \<Rightarrow> False | Some w \<Rightarrow> \<not> bounded_text 512 w)
        \<or> (case gen of None \<Rightarrow> False | Some g \<Rightarrow> \<not> bounded_text 512 g)
     then commit db False
     else if exhausted \<noteq> (retry = None) then rollback db ValueError
     else
     let status = (if exhausted then RV_EXHAUSTED else RV_DEFERRED)
     in case fetchone (governed_rows db eid org) of
       None \<Rightarrow> commit db False
     | Some (p, r, d, v) \<Rightarrow>
       if \<not> unavailable_binding p r d v worker gen then commit db False
       else publish_failed_attempt env db eid org r v status rworker rgen result err retry
         ''recovery-identity-unavailable-'' ''IDENTITY_UNAVAILABLE''
         ''EXECUTION_RECOVERY_IDENTITY_UNAVAILABLE'' ''recovery-identity-unavailable''
         (\<lambda>n. [(''execution_id'', JStr eid), (''organization_id'', JStr org), (''attempt_number'', JInt (int n)),
               (''ownership_state'', JStr (ownership_name (o_ownership_state p))),
               (''launch_commit_state'', JStr (commit_name (o_launch_commit_state p))),
               (''outcome'', JStr result), (''next_retry_at'', jtime retry), (''identity_present'', JBool False)])
         (\<lambda>n. [(''execution_id'', JStr eid), (''attempt_number'', JInt (int n)),
               (''status'', JStr (recovery_name status)), (''outcome'', JStr result),
               (''ownership_state'', JStr (ownership_name (o_ownership_state p))),
               (''launch_commit_state'', JStr (commit_name (o_launch_commit_state p))),
               (''identity_present'', JBool False)]))"

end
