(* ===== verification/Exec_Settlement.thy ===== *)
theory Exec_Settlement
  imports Exec_Recovery
begin

text \<open>
  Closing an execution whose process is gone, in \<open>backend/app/core/db.py\<close>: fencing a committed
  process (\<open>transition_committed_process_to_recovery_blocked\<close>), the settlement of a recovery lease
  (\<open>settle_recovery_execution\<close>) and the post-revocation settlement with its idempotent replay
  (\<open>settle_execution_after_confirmed_termination\<close>).  Each writes ownership, dispatch, run, decision,
  recovery projection, recovery attempt and audit events in one transaction, with a self-contained
  proof text.
\<close>

section \<open>Persisted POSIX identities\<close>

text \<open>
  The member snapshot of an attestation: no process twice, one session, one boot, and the root among
  them.  \<open>Some False\<close> rejects, \<open>None\<close> is a raised \<open>ValueError\<close>.
\<close>

fun snapshot_binds_root ::
    "bool \<Rightarrow> string \<Rightarrow> int \<Rightarrow> int \<Rightarrow> int \<Rightarrow> string option \<Rightarrow> int list \<Rightarrow> bool \<Rightarrow> posix_member list \<Rightarrow> bool option" where
  "snapshot_binds_root strict boot session pgid root token seen bound [] = Some bound"
| "snapshot_binds_root strict boot session pgid root token seen bound (m # ms) =
    (let parts = posix_parts (pm_start_token m) in
     case or_chain
       [Some (pm_pid m \<in> set seen), Some (pm_pid m \<le> 1), Some (strict \<and> pm_process_group_id m \<le> 1),
        Some (pm_session_id m \<noteq> session), Some (parts = None), Some (fst (the parts) \<noteq> boot),
        Some (\<not> py_isdigit (snd (the parts))), int_test (snd (the parts)) (\<lambda>n. n \<le> 0)] of
       None \<Rightarrow> None
     | Some True \<Rightarrow> Some False
     | Some False \<Rightarrow> snapshot_binds_root strict boot session pgid root token (pm_pid m # seen)
         (bound \<or> (pm_pid m = root \<and> pm_process_group_id m = pgid \<and> Some (pm_start_token m) = token)) ms)"

text \<open>\<open>not snapshot or len(snapshot) > 512\<close>, else the loop.\<close>

definition snapshot_check ::
    "bool \<Rightarrow> string \<Rightarrow> int \<Rightarrow> int \<Rightarrow> int \<Rightarrow> string option \<Rightarrow> posix_attestation \<Rightarrow> bool option" where
  "snapshot_check strict boot session pgid root token att =
    (case pa_member_snapshot att of
       None \<Rightarrow> Some False
     | Some ms \<Rightarrow> (if ms = [] \<or> 512 < length ms then Some False
                  else snapshot_binds_root strict boot session pgid root token [] False ms))"

text \<open>\<open>t1 or t2 or ...\<close> leads to a refusal, otherwise to the next check.\<close>

definition unless :: "bool option list \<Rightarrow> bool option \<Rightarrow> bool option" where
  "unless ts next = (case or_chain ts of None \<Rightarrow> None | Some True \<Rightarrow> Some False | Some False \<Rightarrow> next)"

text \<open>The identity of a committed POSIX process, as the fence checks it.\<close>

definition committed_posix_identity :: "(string \<Rightarrow> string) \<Rightarrow> process_ownership \<Rightarrow> string \<Rightarrow> bool option" where
  "committed_posix_identity sha p gen =
    (let session = py_str (o_session_id p); pgid = py_str (o_process_group_id p);
         token = o_root_process_start_token p
     in unless
       [Some (o_container_type p \<noteq> POSIX_SESSION),
        Some (o_container_identity p \<noteq> Some (posix_container session pgid)),
        Some (o_root_process_id p = None), Some (the (o_root_process_id p) \<le> 1),
        Some (o_process_group_id p = None), Some (\<not> py_isdigit pgid), int_test pgid (\<lambda>n. n \<le> 1),
        Some (o_session_id p = None), Some (\<not> py_isdigit session), int_test session (\<lambda>n. n < 0),
        Some (\<not> nonblank token), Some (\<not> nonblank (o_identity_attestation p))]
     (case parse_posix_attestation sha (the (o_identity_attestation p)) of
        None \<Rightarrow> Some False
      | Some att \<Rightarrow>
        (let parts = posix_parts (the token); boot = fst (the parts); ticks = snd (the parts)
         in unless
           [Some (parts = None), Some (boot = []), Some (\<not> py_isdigit ticks), int_test ticks (\<lambda>n. n \<le> 0),
            Some (pa_verification_result att \<noteq> ''VERIFIED''), Some (pa_worker_generation att \<noteq> gen),
            Some (pa_boot_id att \<noteq> boot), int_test ticks (\<lambda>n. pa_root_start_ticks att \<noteq> n),
            int_test session (\<lambda>n. pa_session_id att \<noteq> n), int_test pgid (\<lambda>n. pa_process_group_id att \<noteq> n)]
           (snapshot_check False boot (the (py_int session)) (the (py_int pgid))
              (the (o_root_process_id p)) token att))))"

section \<open>Fencing a committed process\<close>

text \<open>\<open>ownership p JOIN runs r JOIN requests q JOIN decisions d JOIN recovery_state s\<close>.\<close>

definition fence_rows ::
    "exec_db \<Rightarrow> string \<Rightarrow> string \<Rightarrow>
     (process_ownership \<times> exec_run \<times> exec_request \<times> exec_decision \<times> recovery_state) list" where
  "fence_rows db eid org =
    [(p, r, q, d, v). p \<leftarrow> process_ownerships db, o_execution_id p = eid, o_organization_id p = org,
       r \<leftarrow> execution_runs db, r_execution_id r = eid, r_organization_id r = org,
       q \<leftarrow> requests_of db r, d \<leftarrow> decisions_of db r,
       v \<leftarrow> recovery_states db, v_execution_id v = eid, v_organization_id v = org]"

definition fence_binding ::
    "process_ownership \<Rightarrow> exec_run \<Rightarrow> exec_request \<Rightarrow> exec_decision \<Rightarrow> recovery_state \<Rightarrow> string \<Rightarrow> string \<Rightarrow> bool" where
  "fence_binding p r q d v worker gen =
    (o_ownership_state p = EXTERNAL_PROCESS_GOVERNED \<and> o_launch_commit_state p = COMMITTED
     \<and> r_state r \<in> {REQUESTED, STARTING, RUNNING} \<and> q_state q \<in> {''AUTHORIZED'', ''REVOKED''}
     \<and> d_approval_state d = ''APPROVED'' \<and> v_status v \<noteq> RV_CONFIRMED_TERMINATED
     \<and> r_worker_identity r = Some worker \<and> d_worker_identity d = worker
     \<and> r_worker_generation r = Some gen \<and> o_worker_generation p = Some gen
     \<and> Some (o_correlation_id p) = r_correlation_id r \<and> py_strip (o_correlation_id p) \<noteq> [])"

definition committed_identity :: "env \<Rightarrow> process_ownership \<Rightarrow> string \<Rightarrow> string \<Rightarrow> bool option" where
  "committed_identity env p worker gen =
    (if o_container_type p = WINDOWS_JOB
     then Some (validate_windows_ownership (e_sha256 env) (e_now env 1) p (Some worker) True \<noteq> None)
     else committed_posix_identity (e_sha256 env) p gen)"

definition transition_committed_process_to_recovery_blocked ::
    "env \<Rightarrow> exec_db \<Rightarrow> string \<Rightarrow> string \<Rightarrow> string \<Rightarrow> string \<Rightarrow> string \<Rightarrow> string \<Rightarrow> bool outcome" where
  "transition_committed_process_to_recovery_blocked env db eid org worker gen reason actor =
    (if \<not> list_all (bounded_text 256) [eid, org, worker, gen, reason, actor] then commit db False
     else case fetchone (fence_rows db eid org) of
       None \<Rightarrow> commit db False
     | Some (p, r, q, d, v) \<Rightarrow>
       if \<not> fence_binding p r q d v worker gen then commit db False
       else case committed_identity env p worker gen of
         None \<Rightarrow> rollback db ValueError
       | Some False \<Rightarrow> commit db False
       | Some True \<Rightarrow>
         let now = e_now env 0;
             hit = (\<lambda>x. o_execution_id x = eid \<and> o_organization_id x = org
                \<and> o_ownership_state x = EXTERNAL_PROCESS_GOVERNED \<and> o_launch_commit_state x = COMMITTED
                \<and> o_worker_generation x = Some gen);
             moved = db\<lparr>process_ownerships := sql_update hit
                (\<lambda>x. x\<lparr>o_ownership_state := RECOVERY_BLOCKED, o_updated_at := now\<rparr>) (process_ownerships db)\<rparr>
         in if sql_rowcount hit (process_ownerships db) \<noteq> 1 then commit moved False
         else commit (add_audit [audit_event_of env 0 actor org ''EXECUTION_PROCESS_OWNERSHIP_TRANSITIONED''
                ''execution_process_ownership'' eid ''SUCCESS'' (Some (o_correlation_id p))
                [(''from'', JStr ''EXTERNAL_PROCESS_GOVERNED''), (''to'', JStr ''RECOVERY_BLOCKED''),
                 (''reason_code'', JStr reason)]] moved) True)"

section \<open>Claim digests\<close>

text \<open>What one stored claim event says; the details are stored sanitized.\<close>

definition claim_candidate :: "(string \<Rightarrow> string) \<Rightarrow> bool \<Rightarrow> string \<Rightarrow> jobj \<Rightarrow> string option" where
  "claim_candidate sha fallback key details =
    (let named = (case map_of details key of Some JNull \<Rightarrow> None | x \<Rightarrow> x);
         found = (if named = None \<and> fallback
                  then (case map_of details ''claim_token'' of Some (JStr t) \<Rightarrow> Some (JStr (sha t)) | _ \<Rightarrow> None)
                  else named)
     in case found of Some (JStr s) \<Rightarrow> (if hex64 s then Some s else None) | _ \<Rightarrow> None)"

fun first_some :: "'a option list \<Rightarrow> 'a option" where
  "first_some [] = None"
| "first_some (Some x # xs) = Some x"
| "first_some (None # xs) = first_some xs"

text \<open>The newest event of an action on an object whose details carry a digest.\<close>

definition claim_digest :: "env \<Rightarrow> exec_db \<Rightarrow> bool \<Rightarrow> string \<Rightarrow> string \<Rightarrow> string \<Rightarrow> string \<Rightarrow> string option" where
  "claim_digest env db fallback org action oid key =
    first_some (map (\<lambda>e. claim_candidate (e_sha256 env) fallback key (sanitize_details (ae_details e)))
      (rev (filter (\<lambda>e. ae_organization_id e = org \<and> ae_action e = action \<and> ae_object_id e = oid)
        (audit_events db))))"

definition decision_claim_digest :: "env \<Rightarrow> exec_db \<Rightarrow> bool \<Rightarrow> string \<Rightarrow> string \<Rightarrow> string option" where
  "decision_claim_digest env db fallback org did =
    claim_digest env db fallback org ''EXECUTION_DECISION_CLAIMED'' did ''claim_identity_digest''"

definition dispatch_claim_digest :: "env \<Rightarrow> exec_db \<Rightarrow> bool \<Rightarrow> string \<Rightarrow> string \<Rightarrow> string option" where
  "dispatch_claim_digest env db fallback org eid =
    claim_digest env db fallback org ''EXECUTION_DISPATCH_CLAIMED'' eid ''dispatch_identity_digest''"


section \<open>Proof payloads\<close>

definition common_proof ::
    "string \<Rightarrow> string \<Rightarrow> string \<Rightarrow> exec_run \<Rightarrow> run_state \<Rightarrow> string \<Rightarrow> ProcessContainerType \<Rightarrow> LaunchCommitState \<Rightarrow>
     string \<Rightarrow> string option \<Rightarrow> string option \<Rightarrow> string \<Rightarrow> time \<Rightarrow> nat \<Rightarrow> string \<Rightarrow> jobj" where
  "common_proof ty eid org r ts dispatch container committed gen dd sd reason now number aid =
    [(''schema_version'', JStr ''execution-proof-v2''), (''proof_type'', JStr ty),
     (''execution_id'', JStr eid), (''organization_id'', JStr org), (''request_id'', JStr (r_request_id r)),
     (''decision_id'', jopt (r_approved_decision_id r)), (''terminal_state'', JStr (state_name ts)),
     (''dispatch_state'', JStr dispatch), (''ownership_state'', JStr ''TERMINAL''),
     (''container_type'', JStr (container_name container)),
     (''launch_commit_state'', JStr (commit_name committed)),
     (''worker_identity'', jopt (r_worker_identity r)), (''worker_generation'', JStr gen),
     (''correlation_id'', jopt (r_correlation_id r)), (''claim_identity_digest'', jopt dd),
     (''dispatch_identity_digest'', jopt sd), (''reason_code'', JStr reason),
     (''observed_at'', JStr (isoformat now)), (''recovery_status'', JStr ''CONFIRMED_TERMINATED''),
     (''recovery_attempt_number'', JInt (int number)), (''recovery_attempt_id'', JStr aid)]"

text \<open>\<open>int(row["session_id"]) if row["session_id"] is not None else None\<close>, after it was checked.\<close>

definition session_number :: "process_ownership \<Rightarrow> json" where
  "session_number p = (case o_session_id p of None \<Rightarrow> JNull | Some s \<Rightarrow> JInt (the (py_int s)))"

definition termination_fields :: "(string \<Rightarrow> string) \<Rightarrow> process_ownership \<Rightarrow> string \<Rightarrow> jobj" where
  "termination_fields sha p termination =
    [(''termination_status'', JStr termination), (''process_id'', JInt (the (o_root_process_id p))),
     (''process_group_id'', jopt (o_process_group_id p)),
     (''process_start_token'', jopt (o_root_process_start_token p)), (''session_id'', session_number p),
     (''identity_attestation'', jopt (o_identity_attestation p)),
     (''identity_attestation_digest'', jopt (canonical_binding_digest sha (jopt (o_identity_attestation p))))]"

section \<open>Settling a recovery lease\<close>

text \<open>The join under the caller's live recovery lease.\<close>

definition leased_rows ::
    "exec_db \<Rightarrow> time \<Rightarrow> string \<Rightarrow> string \<Rightarrow> string \<Rightarrow> string \<Rightarrow> string \<Rightarrow>
     (process_ownership \<times> recovery_state \<times> exec_run \<times> exec_decision \<times> dispatch_intent) list" where
  "leased_rows db now eid org owner token gen =
    [(p, v, r, d, i). p \<leftarrow> process_ownerships db, o_execution_id p = eid, o_organization_id p = org,
       v \<leftarrow> recovery_states db, v_execution_id v = eid, v_organization_id v = org,
       v_owner v = Some owner, v_lease_token v = Some token, v_worker_generation v = Some gen,
       v_status v = RV_IN_PROGRESS, after (v_lease_expires_at v) now,
       r \<leftarrow> execution_runs db, r_execution_id r = eid, r_organization_id r = org,
       d \<leftarrow> decisions_of db r,
       i \<leftarrow> dispatch_intents db, i_execution_id i = eid, i_organization_id i = org]"

definition recovered_posix_identity :: "(string \<Rightarrow> string) \<Rightarrow> process_ownership \<Rightarrow> exec_run \<Rightarrow> bool option" where
  "recovered_posix_identity sha p r =
    (if o_container_type p \<noteq> POSIX_SESSION \<or> \<not> truthy (o_identity_attestation p)
        \<or> o_root_process_id p \<in> {None, Some 0} \<or> \<not> truthy (o_root_process_start_token p)
        \<or> \<not> truthy (o_process_group_id p) \<or> \<not> truthy (o_session_id p)
        \<or> o_worker_generation p \<noteq> r_worker_generation r
     then Some False
     else case parse_posix_attestation sha (the (o_identity_attestation p)) of
       None \<Rightarrow> Some False
     | Some att \<Rightarrow>
       let parts = posix_parts (the (o_root_process_start_token p)); boot = fst (the parts); ticks = snd (the parts);
           session = the (o_session_id p); pgid = the (o_process_group_id p)
       in unless [Some (parts = None), Some (boot = []), Some (\<not> py_isdigit ticks),
            Some (pa_verification_result att \<noteq> ''VERIFIED''),
            Some (Some (pa_worker_generation att) \<noteq> r_worker_generation r),
            Some (pa_boot_id att \<noteq> boot), int_test ticks (\<lambda>n. pa_root_start_ticks att \<noteq> n),
            int_test session (\<lambda>n. pa_session_id att \<noteq> n), int_test pgid (\<lambda>n. pa_process_group_id att \<noteq> n),
            Some (o_container_identity p \<noteq> Some (posix_container session pgid))]
          (Some True))"

definition recovered_identity :: "env \<Rightarrow> job_registry \<Rightarrow> process_ownership \<Rightarrow> exec_run \<Rightarrow> bool option" where
  "recovered_identity env jobs p r =
    (if o_launch_commit_state p \<notin> (if o_ownership_state p = LAUNCH_UNCERTAIN then {UNCERTAIN} else {UNCERTAIN, COMMITTED})
     then Some False
     else if o_container_type p = WINDOWS_JOB
     then Some (require_empty_job (e_sha256 env) (e_now env 1) jobs p (r_worker_identity r) \<noteq> None
            \<and> o_worker_generation p = r_worker_generation r)
     else recovered_posix_identity (e_sha256 env) p r)"

definition settle_recovery_execution ::
    "env \<Rightarrow> job_registry \<Rightarrow> exec_db \<Rightarrow> string \<Rightarrow> string \<Rightarrow> string \<Rightarrow> string \<Rightarrow> string \<Rightarrow> string \<Rightarrow> run_state \<Rightarrow> string \<Rightarrow>
     bool outcome" where
  "settle_recovery_execution env jobs db eid org owner token gen termination ts reason =
    (if ts \<noteq> FAILED \<or> \<not> is_valid_execution_terminal_outcome ts (Some reason) then rollback db ValueError
     else if termination \<notin> {''KILLED'', ''ALREADY_EXITED''} then rollback db ValueError
     else
     let now = e_now env 0
     in case fetchone (leased_rows db now eid org owner token gen) of
       None \<Rightarrow> commit db False
     | Some (p, v, r, d, i) \<Rightarrow>
       if o_ownership_state p \<notin> {LAUNCH_UNCERTAIN, RECOVERY_BLOCKED}
          \<or> \<not> nonblank (r_worker_identity r) \<or> Some (d_worker_identity d) \<noteq> r_worker_identity r
          \<or> py_strip (o_correlation_id p) = [] \<or> \<not> nonblank (r_correlation_id r)
          \<or> Some (o_correlation_id p) \<noteq> r_correlation_id r
       then commit db False
       else case recovered_identity env jobs p r of
         None \<Rightarrow> rollback db ValueError
       | Some False \<Rightarrow> commit db False
       | Some True \<Rightarrow>
       let did = the (r_approved_decision_id r);
           dd = decision_claim_digest env db False org did; sd = dispatch_claim_digest env db False org eid;
           number = v_attempt_number v; aid = token @ ''-settled'';
           payload = common_proof ''TERMINATION_CONFIRMED'' eid org r ts ''FAILED'' (o_container_type p)
               (o_launch_commit_state p) (the (r_worker_generation r)) dd sd reason now number aid
             @ termination_fields (e_sha256 env) p termination
       in if dd = None \<or> sd = None \<or> number < 1 then commit db False
       else case encode_execution_proof (e_sha256 env) ''TERMINATION_CONFIRMED'' payload of
         None \<Rightarrow> rollback db ValueError
       | Some proof \<Rightarrow>
       let owned = (\<lambda>x. o_execution_id x = eid \<and> o_organization_id x = org
              \<and> o_ownership_state x \<in> {LAUNCH_UNCERTAIN, RECOVERY_BLOCKED});
           queued = (\<lambda>x. i_execution_id x = eid \<and> i_organization_id x = org \<and> i_state x \<in> {PENDING, CLAIMED});
           active = (\<lambda>x. r_execution_id x = eid \<and> r_organization_id x = org
              \<and> r_state x \<in> {REQUESTED, STARTING, RUNNING});
           decided = (\<lambda>x. d_id x = did \<and> d_organization_id x = org);
           held = (\<lambda>x. v_execution_id x = eid \<and> v_organization_id x = org \<and> v_owner x = Some owner
              \<and> v_lease_token x = Some token \<and> v_worker_generation x = Some gen \<and> v_status x = RV_IN_PROGRESS);
           attempt = \<lparr> t_attempt_id = aid, t_execution_id = eid, t_organization_id = org,
              t_worker_identity = owner, t_worker_generation = Some gen, t_attempt_number = number,
              t_status = RV_CONFIRMED_TERMINATED, t_cancellation_status = Some termination,
              t_reason_code = reason, t_correlation_id = r_correlation_id r, t_requested_at = now,
              t_started_at = Some now, t_completed_at = Some now, t_next_retry_at = None,
              t_error_code = None, t_escalation_level = 0,
              t_health_reference = Some (''recovery-proof:'' @ e_sha256 env proof) \<rparr>
       in if sql_rowcount owned (process_ownerships db) \<noteq> 1 \<or> sql_rowcount queued (dispatch_intents db) \<noteq> 1
             \<or> sql_rowcount active (execution_runs db) \<noteq> 1 \<or> sql_rowcount decided (execution_decisions db) \<noteq> 1
             \<or> sql_rowcount held (recovery_states db) \<noteq> 1
       then rollback db RuntimeError
       else if attempt_taken db aid then rollback db IntegrityError
       else commit (add_audit
             [audit_event_of env 0 owner org ''EXECUTION_RECOVERY_ATTEMPT_RECORDED''
                ''execution_recovery_attempt'' aid ''SUCCESS'' (r_correlation_id r)
                [(''attempt_number'', JInt (int number)), (''execution_id'', JStr eid),
                 (''status'', JStr ''CONFIRMED_TERMINATED''), (''termination_status'', JStr termination)],
              audit_event_of env 1 owner org ''EXECUTION_RUN_TRANSITIONED'' ''execution_run'' eid
                ''SUCCESS'' (r_correlation_id r)
                [(''to'', JStr (state_name ts)), (''reason_code'', JStr reason), (''termination_proof'', JStr proof)]]
             (db\<lparr>process_ownerships := sql_update owned
                  (\<lambda>x. x\<lparr>o_ownership_state := TERMINAL, o_no_process_proof := Some proof,
                     o_terminalized_at := Some now, o_updated_at := now\<rparr>) (process_ownerships db),
                dispatch_intents := sql_update queued (settle_intent DFAILED now (Some reason)) (dispatch_intents db),
                execution_runs := sql_update active
                  (\<lambda>x. x\<lparr>r_state := ts, r_reason_code := Some reason, r_finished_at := Some now\<rparr>) (execution_runs db),
                execution_decisions := sql_update decided clear_claim (execution_decisions db),
                recovery_states := sql_update held
                  (\<lambda>x. x\<lparr>v_status := RV_CONFIRMED_TERMINATED, v_last_outcome := Some proof, v_last_error := None,
                     v_owner := None, v_lease_token := None, v_lease_expires_at := None, v_next_retry_at := None,
                     v_updated_at := now\<rparr>) (recovery_states db),
                recovery_attempts := recovery_attempts db @ [attempt]\<rparr>)) True)"

end
