(* ===== verification/Exec_Termination.thy ===== *)
theory Exec_Termination
  imports Exec_Settlement
begin

text \<open>
  \<open>settle_execution_after_confirmed_termination\<close> of \<open>backend/app/core/db.py\<close>: the settlement of an
  execution whose authority is gone after its process was confirmed dead (or never existed), and the
  replay of such a settlement against the stored proof.
\<close>

section \<open>Inputs\<close>

definition process_statuses :: "string list" where
  "process_statuses = [''KILLED'', ''ALREADY_EXITED'']"

definition no_process_statuses :: "string list" where
  "no_process_statuses = [''PRE_DISPATCH'', ''NO_EXTERNAL_PROCESS'']"

text \<open>What a process outcome must carry: \<open>Some True\<close> when complete, \<open>None\<close> for a raised \<open>ValueError\<close>.\<close>

definition termination_input ::
    "string \<Rightarrow> int option \<Rightarrow> string option \<Rightarrow> string option \<Rightarrow> int option \<Rightarrow> string option \<Rightarrow> bool option" where
  "termination_input termination pid pgid token session attestation =
    (if termination \<in> set process_statuses then
       (if token \<noteq> None \<and> windows_token (the token)
        then Some (pid \<noteq> None \<and> 1 < the pid \<and> pgid = None \<and> session = None)
        else map_option Not (or_chain
          [Some (pid = None), Some (the pid \<le> 1), Some (pgid = None), Some (\<not> py_isdigit (the pgid)),
           int_test (the pgid) (\<lambda>n. n \<le> 1), Some (token = None), Some (posix_parts (the token) = None),
           Some (\<not> boot_shape (fst (the (posix_parts (the token))))),
           Some (\<not> py_isdigit (snd (the (posix_parts (the token))))),
           int_test (snd (the (posix_parts (the token)))) (\<lambda>n. n \<le> 0),
           Some (session = None), Some (the session < 0)]))
     else Some (pid = None \<and> pgid = None \<and> token = None \<and> session = None \<and> attestation = None))"

section \<open>The locked row\<close>

text \<open>ownership, run, request, decision, dispatch intent and recovery state of one execution.\<close>

type_synonym settlement_row =
  "process_ownership \<times> exec_run \<times> exec_request \<times> exec_decision \<times> dispatch_intent \<times> recovery_state"

definition settlement_rows :: "exec_db \<Rightarrow> string \<Rightarrow> string \<Rightarrow> settlement_row list" where
  "settlement_rows db eid org =
    [(p, r, q, d, i, v). p \<leftarrow> process_ownerships db, o_execution_id p = eid, o_organization_id p = org,
       r \<leftarrow> execution_runs db, r_execution_id r = eid, r_organization_id r = org,
       q \<leftarrow> requests_of db r, d \<leftarrow> decisions_of db r, i \<leftarrow> intents_of db r,
       v \<leftarrow> recovery_states db, v_execution_id v = eid, v_organization_id v = org]"

definition settlement_binding :: "process_ownership \<Rightarrow> exec_run \<Rightarrow> exec_decision \<Rightarrow> string \<Rightarrow> string \<Rightarrow> bool" where
  "settlement_binding p r d worker gen =
    (py_strip (o_correlation_id p) \<noteq> [] \<and> nonblank (r_correlation_id r)
     \<and> Some (o_correlation_id p) = r_correlation_id r
     \<and> r_worker_identity r = Some (d_worker_identity d) \<and> r_worker_identity r = Some worker
     \<and> nonblank (r_worker_generation r) \<and> r_worker_generation r = Some gen
     \<and> (o_worker_generation p = None \<or> o_worker_generation p = r_worker_generation r))"

text \<open>The persisted identity of a terminated process.\<close>

definition terminated_posix_identity :: "(string \<Rightarrow> string) \<Rightarrow> process_ownership \<Rightarrow> bool option" where
  "terminated_posix_identity sha p =
    (if o_container_type p \<noteq> POSIX_SESSION then Some False
     else case (parse_posix_attestation sha (the (o_identity_attestation p)),
                py_int (py_str (o_process_group_id p)), py_int (py_str (o_session_id p))) of
       (Some att, Some pgid, Some session) \<Rightarrow>
         (let parts = posix_parts (or_else (o_root_process_start_token p) []); boot = fst (the parts);
              ticks = snd (the parts)
          in unless
            [Some (parts = None), Some (\<not> boot_shape boot), Some (\<not> py_isdigit ticks), Some (pgid \<le> 1),
             Some (session < 0), Some (pa_verification_result att \<noteq> ''VERIFIED''),
             Some (pa_worker_generation att \<noteq> or_else (o_worker_generation p) []),
             Some (pa_boot_id att \<noteq> boot), int_test ticks (\<lambda>n. pa_root_start_ticks att \<noteq> n),
             Some (pa_session_id att \<noteq> session), Some (pa_process_group_id att \<noteq> pgid),
             Some (o_container_identity p \<noteq> Some (posix_container (str_int session) (str_int pgid)))]
            (snapshot_check True boot session pgid
               (case o_root_process_id p of None \<Rightarrow> 0 | Some n \<Rightarrow> n) (o_root_process_start_token p) att))
     | _ \<Rightarrow> Some False)"

definition terminated_identity ::
    "env \<Rightarrow> job_registry \<Rightarrow> process_ownership \<Rightarrow> string \<Rightarrow> string \<Rightarrow> string option \<Rightarrow> bool option" where
  "terminated_identity env jobs p termination worker attestation =
    (if termination \<notin> set process_statuses then Some True
     else if o_identity_attestation p = None \<or> (attestation \<noteq> None \<and> attestation \<noteq> o_identity_attestation p)
     then Some False
     else if o_container_type p = WINDOWS_JOB then
       (if validate_windows_ownership (e_sha256 env) (e_now env 1) p (Some worker)
             (o_ownership_state p = TERMINAL) = None
        then Some False
        else Some (o_ownership_state p = TERMINAL
               \<or> require_empty_job (e_sha256 env) (e_now env 2) jobs p (Some worker) \<noteq> None))
     else terminated_posix_identity (e_sha256 env) p)"

section \<open>Replaying a settlement\<close>

text \<open>\<open>payload.get(k)\<close>, with Python's equality of integers and booleans.\<close>

definition jget :: "jobj \<Rightarrow> string \<Rightarrow> json" where
  "jget payload k = (case map_of payload k of None \<Rightarrow> JNull | Some v \<Rightarrow> v)"

definition jnumber :: "json \<Rightarrow> int \<Rightarrow> bool" where
  "jnumber v n = (v = JInt n \<or> (v = JBool True \<and> n = 1) \<or> (v = JBool False \<and> n = 0))"

text \<open>\<open>ORDER BY completed_at DESC, attempt_id DESC\<close>: \<open>a\<close> comes before \<open>b\<close> (no completion time is smallest).\<close>

definition completed_later :: "recovery_attempt \<Rightarrow> recovery_attempt \<Rightarrow> bool" where
  "completed_later a b =
    (if t_completed_at a = t_completed_at b then string_le (t_attempt_id b) (t_attempt_id a)
     else case (t_completed_at a, t_completed_at b) of
       (_, None) \<Rightarrow> True | (None, _) \<Rightarrow> False | (Some x, Some y) \<Rightarrow> y < x)"

fun latest_completed :: "recovery_attempt list \<Rightarrow> recovery_attempt option" where
  "latest_completed [] = None"
| "latest_completed (a # as) = (case latest_completed as of None \<Rightarrow> Some a
     | Some b \<Rightarrow> Some (if completed_later a b then a else b))"

definition latest_confirmed :: "exec_db \<Rightarrow> string \<Rightarrow> string \<Rightarrow> recovery_attempt option" where
  "latest_confirmed db eid org =
    latest_completed (filter (\<lambda>t. t_execution_id t = eid \<and> t_organization_id t = org
      \<and> t_status t = RV_CONFIRMED_TERMINATED) (recovery_attempts db))"

definition closing_dispatch :: "run_state \<Rightarrow> dispatch_state" where
  "closing_dispatch ts = (if ts \<in> {CANCELLED, EXECUTION_BLOCKED} then BLOCKED else DFAILED)"

text \<open>The rows of a finished settlement and the head of its payload.\<close>

definition settled_rows ::
    "process_ownership \<Rightarrow> exec_run \<Rightarrow> dispatch_intent \<Rightarrow> recovery_state \<Rightarrow> jobj \<Rightarrow> string \<Rightarrow> string \<Rightarrow> run_state \<Rightarrow>
     string \<Rightarrow> bool" where
  "settled_rows p r i v payload eid org ts reason =
    (r_state r = ts \<and> r_reason_code r = Some reason \<and> i_state i = closing_dispatch ts
     \<and> v_status v = RV_CONFIRMED_TERMINATED
     \<and> jget payload ''execution_id'' = JStr eid \<and> jget payload ''organization_id'' = JStr org
     \<and> jget payload ''terminal_state'' = JStr (state_name ts)
     \<and> jget payload ''dispatch_state'' = JStr (dispatch_state_name (closing_dispatch ts))
     \<and> jget payload ''reason_code'' = JStr reason \<and> jget payload ''ownership_state'' = JStr ''TERMINAL''
     \<and> v_last_error v = None \<and> v_owner v = None \<and> v_lease_token v = None \<and> v_lease_expires_at v = None
     \<and> v_next_retry_at v = None \<and> v_last_outcome v = o_no_process_proof p \<and> 1 \<le> v_attempt_number v)"

text \<open>The attempt that recorded the settlement.\<close>

definition settled_attempt ::
    "recovery_attempt \<Rightarrow> exec_run \<Rightarrow> recovery_state \<Rightarrow> jobj \<Rightarrow> string \<Rightarrow> string \<Rightarrow> bool" where
  "settled_attempt t r v payload termination reason =
    (list_all (\<lambda>s. py_strip s \<noteq> []) [t_attempt_id t, t_worker_identity t, t_reason_code t]
     \<and> nonblank (t_correlation_id t) \<and> nonblank (t_health_reference t)
     \<and> t_started_at t \<noteq> None \<and> t_completed_at t \<noteq> None
     \<and> t_requested_at t \<le> the (t_started_at t) \<and> the (t_started_at t) \<le> the (t_completed_at t)
     \<and> Some (t_worker_identity t) = r_worker_identity r
     \<and> t_worker_generation t = v_worker_generation v \<and> nonblank (v_worker_generation v)
     \<and> v_worker_generation v = r_worker_generation r \<and> t_attempt_number t = v_attempt_number v
     \<and> t_cancellation_status t = Some termination \<and> t_reason_code t = reason
     \<and> t_correlation_id t = r_correlation_id r \<and> t_error_code t = None \<and> t_next_retry_at t = None
     \<and> v_escalation_level v = t_escalation_level t
     \<and> jget payload ''recovery_attempt_id'' = JStr (t_attempt_id t))"


text \<open>The remaining fields of the payload against the rows.\<close>

definition replayed_common ::
    "process_ownership \<Rightarrow> exec_run \<Rightarrow> recovery_state \<Rightarrow> recovery_attempt \<Rightarrow> jobj \<Rightarrow> string option \<Rightarrow> string option \<Rightarrow> bool" where
  "replayed_common p r v t payload dd sd =
    (jget payload ''request_id'' = JStr (r_request_id r)
     \<and> jget payload ''decision_id'' = jopt (r_approved_decision_id r)
     \<and> jget payload ''worker_identity'' = jopt (r_worker_identity r)
     \<and> jget payload ''worker_generation'' = jopt (r_worker_generation r)
     \<and> jget payload ''correlation_id'' = jopt (r_correlation_id r)
     \<and> jget payload ''claim_identity_digest'' = jopt dd \<and> jget payload ''dispatch_identity_digest'' = jopt sd
     \<and> jget payload ''recovery_status'' = JStr ''CONFIRMED_TERMINATED''
     \<and> jnumber (jget payload ''recovery_attempt_number'') (int (v_attempt_number v))
     \<and> jget payload ''recovery_attempt_id'' = JStr (t_attempt_id t)
     \<and> o_terminalized_at p \<noteq> None \<and> jget payload ''observed_at'' = jtime (o_terminalized_at p))"

definition replayed_termination :: "(string \<Rightarrow> string) \<Rightarrow> process_ownership \<Rightarrow> jobj \<Rightarrow> string \<Rightarrow> bool" where
  "replayed_termination sha p payload termination =
    (o_root_process_id p \<noteq> None \<and> (o_session_id p = None \<or> py_int (the (o_session_id p)) \<noteq> None)
     \<and> o_container_type p \<in> {POSIX_SESSION, WINDOWS_JOB} \<and> o_launch_commit_state p = COMMITTED
     \<and> jget payload ''termination_status'' = JStr termination
     \<and> jnumber (jget payload ''process_id'') (the (o_root_process_id p))
     \<and> jget payload ''process_group_id'' = jopt (o_process_group_id p)
     \<and> jget payload ''process_start_token'' = jopt (o_root_process_start_token p)
     \<and> (case o_session_id p of None \<Rightarrow> jget payload ''session_id'' = JNull
        | Some s \<Rightarrow> jnumber (jget payload ''session_id'') (the (py_int s)))
     \<and> jget payload ''identity_attestation'' = jopt (o_identity_attestation p)
     \<and> jget payload ''identity_attestation_digest''
         = jopt (canonical_binding_digest sha (jopt (o_identity_attestation p))))"

text \<open>No process was ever recorded.\<close>

definition no_process_recorded :: "process_ownership \<Rightarrow> bool" where
  "no_process_recorded p =
    (o_container_identity p = None \<and> o_root_process_id p = None \<and> o_root_process_start_token p = None
     \<and> o_process_group_id p = None \<and> o_session_id p = None \<and> o_identity_attestation p = None)"

definition replayed_no_process :: "process_ownership \<Rightarrow> jobj \<Rightarrow> string \<Rightarrow> bool" where
  "replayed_no_process p payload reason =
    (o_container_type p = CNONE \<and> o_launch_commit_state p = NOT_ATTEMPTED
     \<and> jget payload ''proof_code'' = JStr reason \<and> no_process_recorded p
     \<and> list_all (\<lambda>k. jget payload k = JNull)
         [''process_id'', ''process_group_id'', ''process_start_token'', ''session_id'', ''identity_attestation''])"

definition settlement_replayed ::
    "env \<Rightarrow> exec_db \<Rightarrow> settlement_row \<Rightarrow> string \<Rightarrow> string \<Rightarrow> run_state \<Rightarrow> string \<Rightarrow> string \<Rightarrow> bool" where
  "settlement_replayed env db row eid org ts reason termination =
    (case row of (p, r, q, d, i, v) \<Rightarrow>
     let killed = (termination \<in> set process_statuses);
         ty = (if killed then ''TERMINATION_CONFIRMED'' else ''NO_EXTERNAL_PROCESS'');
         keys = (if killed then EXECUTION_PROOF_TERMINATION_KEYS else EXECUTION_PROOF_NO_PROCESS_KEYS);
         dd = decision_claim_digest env db True org (the (r_approved_decision_id r));
         sd = dispatch_claim_digest env db True org eid
     in case decode_execution_proof (e_sha256 env) (o_no_process_proof p) (Some ty) of
          None \<Rightarrow> False
        | Some payload \<Rightarrow>
          (case latest_confirmed db eid org of
             None \<Rightarrow> False
           | Some t \<Rightarrow>
             set (map fst payload) = set keys
             \<and> settled_rows p r i v payload eid org ts reason
             \<and> settled_attempt t r v payload termination reason
             \<and> (if killed then dd \<noteq> None \<and> sd \<noteq> None else (dd = None) = (sd = None))
             \<and> replayed_common p r v t payload dd sd
             \<and> (if killed then replayed_termination (e_sha256 env) p payload termination
                else replayed_no_process p payload reason)))"

section \<open>A new settlement\<close>

text \<open>What the rows must say for each kind of outcome.\<close>

definition process_outcome ::
    "process_ownership \<Rightarrow> exec_run \<Rightarrow> dispatch_intent \<Rightarrow> int option \<Rightarrow> string option \<Rightarrow> string option \<Rightarrow> int option \<Rightarrow> bool" where
  "process_outcome p r i pid pgid token session =
    (o_ownership_state p \<in> {EXTERNAL_PROCESS_GOVERNED, LAUNCH_UNCERTAIN, RECOVERY_BLOCKED}
     \<and> Some (case o_root_process_id p of None \<Rightarrow> 0 | Some n \<Rightarrow> n) = pid
     \<and> o_process_group_id p = pgid \<and> Some (or_else (o_root_process_start_token p) []) = token
     \<and> o_session_id p = map_option str_int session
     \<and> (r_process_id r = None \<or> r_process_id r = pid)
     \<and> (r_process_group_id r = None \<or> r_process_group_id r = pgid)
     \<and> i_state i \<in> {CLAIMED, BLOCKED})"

definition pre_dispatch_outcome :: "process_ownership \<Rightarrow> exec_run \<Rightarrow> dispatch_intent \<Rightarrow> run_state \<Rightarrow> string \<Rightarrow> bool" where
  "pre_dispatch_outcome p r i ts reason =
    (o_ownership_state p \<in> {UNKNOWN, NO_EXTERNAL_PROCESS}
     \<and> ((r_state r = REQUESTED \<and> i_state i = PENDING
           \<and> ((ts = CANCELLED \<and> reason = ''EXECUTION_CANCELLED_BEFORE_DISPATCH'')
              \<or> (ts = EXECUTION_BLOCKED \<and> reason = ''EXECUTION_AUTHORITY_REVOKED_OR_EXPIRED'')))
        \<or> (r_state r = CANCELLED \<and> r_reason_code r = Some ''EXECUTION_CANCELLED_BEFORE_DISPATCH''
           \<and> i_state i = BLOCKED \<and> reason = ''EXECUTION_CANCELLED_BEFORE_DISPATCH'')))"

definition no_process_outcome ::
    "process_ownership \<Rightarrow> exec_run \<Rightarrow> dispatch_intent \<Rightarrow> run_state \<Rightarrow> string \<Rightarrow> string \<Rightarrow> bool" where
  "no_process_outcome p r i ts reason actor =
    (o_ownership_state p \<in> {UNKNOWN, NO_EXTERNAL_PROCESS}
     \<and> r_state r = STARTING \<and> i_state i \<in> {CLAIMED, BLOCKED}
     \<and> (ts, reason) \<in> {(CANCELLED, ''EXECUTION_CANCELLED_BEFORE_PROCESS_CREATION''),
          (EXECUTION_BLOCKED, ''EXECUTION_AUTHORITY_REVOKED_OR_EXPIRED''),
          (TIMED_OUT, ''EXECUTION_AUTHORITY_EXPIRED'')}
     \<and> (o_ownership_state p = UNKNOWN \<longrightarrow> actor = ''process-supervisor'' \<and> i_state i = CLAIMED
          \<and> ts = CANCELLED \<and> reason = ''EXECUTION_CANCELLED_BEFORE_PROCESS_CREATION''))"

definition authority_invalid :: "exec_db \<Rightarrow> time \<Rightarrow> exec_request \<Rightarrow> exec_decision \<Rightarrow> bool" where
  "authority_invalid db now q d =
    (q_state q \<noteq> ''AUTHORIZED'' \<or> d_approval_state d \<noteq> ''APPROVED'' \<or> d_revoked_at d \<noteq> None
     \<or> q_expires_at q \<le> now \<or> d_expires_at d \<le> now \<or> d_session_jti d = [] \<or> is_token_revoked db (d_session_jti d))"

text \<open>Everything a new settlement requires before it reads the claim events.\<close>

definition settlement_allowed ::
    "exec_db \<Rightarrow> time \<Rightarrow> settlement_row \<Rightarrow> string \<Rightarrow> int option \<Rightarrow> string option \<Rightarrow> string option \<Rightarrow> int option \<Rightarrow>
     run_state \<Rightarrow> string \<Rightarrow> string \<Rightarrow> bool" where
  "settlement_allowed db now row termination pid pgid token session ts reason actor =
    (case row of (p, r, q, d, i, v) \<Rightarrow>
       (if termination \<in> set process_statuses then process_outcome p r i pid pgid token session
        else if termination = ''PRE_DISPATCH'' then pre_dispatch_outcome p r i ts reason
        else no_process_outcome p r i ts reason actor)
       \<and> (r_state r \<in> {REQUESTED, STARTING, RUNNING}
          \<or> (termination = ''PRE_DISPATCH'' \<and> r_state r = ts \<and> r_reason_code r = Some reason))
       \<and> v_status v \<in> {RV_REQUESTED, RV_DEFERRED}
       \<and> authority_invalid db now q d
       \<and> (i_state i \<in> {PENDING, CLAIMED} \<or> (i_state i = BLOCKED \<and> closing_dispatch ts = BLOCKED))
       \<and> (if termination \<in> set process_statuses then o_ownership_state p = EXTERNAL_PROCESS_GOVERNED
          else no_process_recorded p))"


text \<open>The digests of the claims, which a killed process must have and an undispatched one must not.\<close>

definition claims_consistent :: "string \<Rightarrow> string option \<Rightarrow> string option \<Rightarrow> bool" where
  "claims_consistent termination dd sd =
    (if termination \<in> set process_statuses then dd \<noteq> None \<and> sd \<noteq> None
     else if termination = ''NO_EXTERNAL_PROCESS'' then (dd = None) = (sd = None)
     else dd = None \<and> sd = None)"

definition settlement_payload ::
    "env \<Rightarrow> settlement_row \<Rightarrow> string \<Rightarrow> string \<Rightarrow> run_state \<Rightarrow> string \<Rightarrow> string \<Rightarrow> string option \<Rightarrow> string option \<Rightarrow>
     nat \<Rightarrow> string \<Rightarrow> jobj" where
  "settlement_payload env row eid org ts reason termination dd sd number aid =
    (case row of (p, r, q, d, i, v) \<Rightarrow>
     let now = e_now env 0; dispatch = dispatch_state_name (closing_dispatch ts);
         gen = or_else (r_worker_generation r) (or_else (v_worker_generation v) [])
     in if termination \<in> set process_statuses
        then common_proof ''TERMINATION_CONFIRMED'' eid org r ts dispatch (o_container_type p)
               (o_launch_commit_state p) gen dd sd reason now number aid
             @ termination_fields (e_sha256 env) p termination
        else common_proof ''NO_EXTERNAL_PROCESS'' eid org r ts dispatch CNONE NOT_ATTEMPTED
               gen dd sd reason now number aid
             @ [(''proof_code'', JStr reason)])"

text \<open>The closing statements: the rows they select and the database they leave.\<close>

definition close_execution ::
    "exec_db \<Rightarrow> time \<Rightarrow> settlement_row \<Rightarrow> string \<Rightarrow> string \<Rightarrow> run_state \<Rightarrow> string \<Rightarrow> string \<Rightarrow> string \<Rightarrow> nat \<Rightarrow> exec_db" where
  "close_execution db now row eid org ts reason termination proof number =
    (case row of (p, r, q, d, i, v) \<Rightarrow>
     let gen = or_else (r_worker_generation r) (or_else (v_worker_generation v) []) in
     db\<lparr>process_ownerships := sql_update
          (\<lambda>x. o_execution_id x = eid \<and> o_organization_id x = org \<and> o_ownership_state x = o_ownership_state p)
          (\<lambda>x. x\<lparr>o_ownership_state := TERMINAL, o_no_process_proof := Some proof,
              o_last_verified_at := (if termination \<in> set process_statuses then o_last_verified_at x else Some now),
              o_terminalized_at := Some now, o_updated_at := now\<rparr>) (process_ownerships db),
        dispatch_intents := (if i_state i \<in> {PENDING, CLAIMED}
          then sql_update (\<lambda>x. i_execution_id x = eid \<and> i_organization_id x = org \<and> i_state x \<in> {PENDING, CLAIMED})
                 (settle_intent (closing_dispatch ts) now (Some reason)) (dispatch_intents db)
          else dispatch_intents db),
        execution_runs := (if r_state r \<in> {REQUESTED, STARTING, RUNNING}
          then sql_update (\<lambda>x. r_execution_id x = eid \<and> r_organization_id x = org
                   \<and> r_state x \<in> {REQUESTED, STARTING, RUNNING})
                 (\<lambda>x. x\<lparr>r_state := ts, r_reason_code := Some reason, r_finished_at := Some now\<rparr>) (execution_runs db)
          else execution_runs db),
        execution_decisions := (if truthy (r_approved_decision_id r)
          then sql_update (\<lambda>x. r_approved_decision_id r = Some (d_id x) \<and> d_organization_id x = org)
                 clear_claim (execution_decisions db)
          else execution_decisions db),
        recovery_states := sql_update
          (\<lambda>x. v_execution_id x = eid \<and> v_organization_id x = org \<and> v_status x \<in> {RV_REQUESTED, RV_DEFERRED})
          (\<lambda>x. x\<lparr>v_status := RV_CONFIRMED_TERMINATED, v_worker_generation := Some gen, v_attempt_number := number,
              v_last_outcome := Some proof, v_last_error := None, v_owner := None, v_lease_token := None,
              v_lease_expires_at := None, v_next_retry_at := None, v_updated_at := now\<rparr>) (recovery_states db)\<rparr>)"

definition closing_fences :: "exec_db \<Rightarrow> settlement_row \<Rightarrow> string \<Rightarrow> string \<Rightarrow> bool" where
  "closing_fences db row eid org =
    (case row of (p, r, q, d, i, v) \<Rightarrow>
     (i_state i \<in> {PENDING, CLAIMED} \<longrightarrow> sql_rowcount (\<lambda>x. i_execution_id x = eid \<and> i_organization_id x = org
          \<and> i_state x \<in> {PENDING, CLAIMED}) (dispatch_intents db) = 1)
     \<and> (r_state r \<in> {REQUESTED, STARTING, RUNNING} \<longrightarrow> sql_rowcount (\<lambda>x. r_execution_id x = eid
          \<and> r_organization_id x = org \<and> r_state x \<in> {REQUESTED, STARTING, RUNNING}) (execution_runs db) = 1)
     \<and> sql_rowcount (\<lambda>x. v_execution_id x = eid \<and> v_organization_id x = org
          \<and> v_status x \<in> {RV_REQUESTED, RV_DEFERRED}) (recovery_states db) = 1)"

definition settle_execution_after_confirmed_termination ::
    "env \<Rightarrow> job_registry \<Rightarrow> exec_db \<Rightarrow> string \<Rightarrow> string \<Rightarrow> run_state \<Rightarrow> string \<Rightarrow> string \<Rightarrow> int option \<Rightarrow>
     string option \<Rightarrow> string option \<Rightarrow> int option \<Rightarrow> string option \<Rightarrow> string option \<Rightarrow> string option \<Rightarrow> string \<Rightarrow>
     bool outcome" where
  "settle_execution_after_confirmed_termination env jobs db eid org ts reason termination pid pgid token session
     generation worker_id attestation actor =
    (let gen = or_else generation []; worker = or_else worker_id []; now = e_now env 0 in
     if \<not> list_all (\<lambda>s. py_strip s \<noteq> []) [eid, org, reason, termination, gen, worker, actor] then commit db False
     else if ts \<notin> {CANCELLED, TIMED_OUT, FAILED, EXECUTION_BLOCKED}
        \<or> \<not> is_valid_execution_terminal_outcome ts (Some reason) then rollback db ValueError
     else if termination \<notin> set (process_statuses @ no_process_statuses) then rollback db ValueError
     else case termination_input termination pid pgid token session attestation of
       None \<Rightarrow> rollback db ValueError
     | Some False \<Rightarrow> commit db False
     | Some True \<Rightarrow>
       case fetchone (settlement_rows db eid org) of
         None \<Rightarrow> commit db False
       | Some row \<Rightarrow>
         let (p, r, q, d, i, v) = row in
         if \<not> settlement_binding p r d worker gen then commit db False
         else case terminated_identity env jobs p termination worker attestation of
           None \<Rightarrow> rollback db ValueError
         | Some False \<Rightarrow> commit db False
         | Some True \<Rightarrow>
           if o_ownership_state p = TERMINAL
           then commit db (settlement_replayed env db row eid org ts reason termination)
           else if \<not> settlement_allowed db now row termination pid pgid token session ts reason actor
           then commit db False
           else
           let dd = decision_claim_digest env db True org (the (r_approved_decision_id r));
               sd = dispatch_claim_digest env db True org eid;
               number = v_attempt_number v + 1; aid = ''termination-'' @ e_uuid env 0;
               killed = (termination \<in> set process_statuses);
               ty = (if killed then ''TERMINATION_CONFIRMED'' else ''NO_EXTERNAL_PROCESS'');
               keys = (if killed then EXECUTION_PROOF_TERMINATION_KEYS else EXECUTION_PROOF_NO_PROCESS_KEYS);
               payload = settlement_payload env row eid org ts reason termination dd sd number aid
           in if \<not> claims_consistent termination dd sd \<or> set (map fst payload) \<noteq> set keys then commit db False
           else case encode_execution_proof (e_sha256 env) ty payload of
             None \<Rightarrow> rollback db ValueError
           | Some proof \<Rightarrow>
             let closed = close_execution db now row eid org ts reason termination proof number;
                 attempt = \<lparr> t_attempt_id = aid, t_execution_id = eid, t_organization_id = org,
                    t_worker_identity = worker,
                    t_worker_generation = Some (or_else (r_worker_generation r) (or_else (v_worker_generation v) [])),
                    t_attempt_number = number, t_status = RV_CONFIRMED_TERMINATED,
                    t_cancellation_status = Some termination, t_reason_code = reason,
                    t_correlation_id = r_correlation_id r, t_requested_at = now, t_started_at = Some now,
                    t_completed_at = Some now, t_next_retry_at = None, t_error_code = None,
                    t_escalation_level = 0,
                    t_health_reference = Some (''termination-proof:'' @ e_sha256 env proof) \<rparr>
             in if sql_rowcount (\<lambda>x. o_execution_id x = eid \<and> o_organization_id x = org
                     \<and> o_ownership_state x = o_ownership_state p) (process_ownerships db) \<noteq> 1
             then commit db False
             else if \<not> closing_fences db row eid org then rollback db RuntimeError
             else if attempt_taken db aid then rollback db IntegrityError
             else commit (add_audit
                   [audit_event_of env 0 actor org ''EXECUTION_PROCESS_OWNERSHIP_TRANSITIONED''
                      ''execution_process_ownership'' eid ''SUCCESS'' (r_correlation_id r)
                      [(''from'', JStr (ownership_name (o_ownership_state p))), (''to'', JStr ''TERMINAL''),
                       (''termination_status'', JStr termination), (''termination_proof'', JStr proof),
                       (''reason_code'', JStr reason)],
                    audit_event_of env 1 actor org ''EXECUTION_RUN_TRANSITIONED'' ''execution_run'' eid
                      ''SUCCESS'' (r_correlation_id r)
                      [(''to'', JStr (state_name ts)), (''reason_code'', JStr reason)]]
                   (closed\<lparr>recovery_attempts := recovery_attempts db @ [attempt]\<rparr>)) True)"

end
