(* ===== verification/Exec_Recovery_Steps.thy ===== *)
theory Exec_Recovery_Steps
  imports Exec_Lifecycle Exec_Termination
begin

text \<open>
  The recovery and settlement operations respect the row relations of the lifecycle, so that the
  invariants over any sequence of operations cover them.
\<close>

lemma ownership_fenced:
  "o_ownership_state p = EXTERNAL_PROCESS_GOVERNED \<Longrightarrow>
     ownership_le p (p\<lparr>o_ownership_state := RECOVERY_BLOCKED, o_updated_at := now\<rparr>)"
  by (simp add: ownership_le_def ownership_key_def identity_le_def)

lemma rank_open: "s \<noteq> TERMINAL \<Longrightarrow> ownership_rank s < ownership_rank TERMINAL"
  by (cases s) simp_all

lemma ownership_closed:
  "o_ownership_state p \<noteq> TERMINAL \<Longrightarrow>
     ownership_le p (p\<lparr>o_ownership_state := TERMINAL, o_no_process_proof := a, o_terminalized_at := b,
       o_updated_at := c\<rparr>)"
  "o_ownership_state p \<noteq> TERMINAL \<Longrightarrow>
     ownership_le p (p\<lparr>o_ownership_state := TERMINAL, o_no_process_proof := a, o_last_verified_at := z,
       o_terminalized_at := b, o_updated_at := c\<rparr>)"
  by (simp_all add: ownership_le_def ownership_key_def identity_le_def rank_open del: ownership_rank.simps)

lemma run_closed:
  assumes "r_state r \<in> {REQUESTED, STARTING, RUNNING}"
    and "ts \<in> {CANCELLED, TIMED_OUT, FAILED, EXECUTION_BLOCKED}"
    and "is_valid_execution_terminal_outcome ts (Some reason)"
  shows "run_step r (r\<lparr>r_state := ts, r_reason_code := Some reason, r_finished_at := Some now\<rparr>)"
  using assms by (intro run_stepI) (auto simp: run_move_to_terminal)

lemma attempt_free: "\<not> attempt_taken db aid \<Longrightarrow> t \<in> set (recovery_attempts db) \<Longrightarrow> t_attempt_id t \<noteq> aid"
  by (auto simp: attempt_taken_def fresh_simps)

section \<open>Recording and fencing\<close>

lemma step_flow_bool:
  "(b \<Longrightarrow> db_step db (snd x)) \<Longrightarrow> (\<not> b \<Longrightarrow> db_step db (snd y)) \<Longrightarrow>
     db_step db (snd (case b of True \<Rightarrow> x | False \<Rightarrow> y))"
  by (cases b) simp_all

lemma publish_failed_attempt_step:
  "db_step db (snd (publish_failed_attempt env db eid org r v status worker gen result err retry
     pre cancellation reason health evidence details))"
proof -
  have leaf: "db_step db (db\<lparr>recovery_states := sql_update P (failed_attempt_state now status gen n result err retry)
        (recovery_states db), recovery_attempts := recovery_attempts db @ [a]\<rparr>)"
    if "\<forall>t \<in> set (recovery_attempts db). t_attempt_id t \<noteq> t_attempt_id a" for P now n a
    using that by (auto intro!: db_stepI table_evolves simp: recovery_le_def failed_attempt_state_def)
  show ?thesis
    unfolding publish_failed_attempt_def
    by (intro step_flow leaf db_step_recovery_states; simp add: sql_find_None recovery_le_def failed_attempt_state_def)
qed

lemma record_unconfirmed_governed_recovery_step:
  "db_step db (snd (record_unconfirmed_governed_recovery env db eid org pid pgid token session worker gen
     termination result err retry exhausted actor))"
  unfolding record_unconfirmed_governed_recovery_def
  by (intro step_flow step_flow_bool publish_failed_attempt_step; simp)

lemma record_unavailable_governed_recovery_step:
  "db_step db (snd (record_unavailable_governed_recovery env db eid org worker gen rworker rgen result err
     retry exhausted actor))"
  unfolding record_unavailable_governed_recovery_def
  by (intro step_flow publish_failed_attempt_step; simp)

lemma transition_committed_process_to_recovery_blocked_step:
  "db_step db (snd (transition_committed_process_to_recovery_blocked env db eid org worker gen reason actor))"
  unfolding transition_committed_process_to_recovery_blocked_def
  by (intro step_flow step_flow_bool db_step_ownership ownership_fenced; simp)

section \<open>Settling\<close>

lemma db_step_close:
  assumes "\<And>p. P p \<Longrightarrow> ownership_le p (f p)" and "\<And>i. i \<in> set (dispatch_intents db) \<Longrightarrow> Q i \<Longrightarrow> intent_le i (g i)"
    and "\<And>r. R r \<Longrightarrow> run_step r (h r)" and "\<And>v. V v \<Longrightarrow> recovery_le v (k v)"
    and "\<not> attempt_taken db (t_attempt_id a)"
  shows "db_step db (db\<lparr>process_ownerships := sql_update P f (process_ownerships db),
      dispatch_intents := sql_update Q g (dispatch_intents db),
      execution_runs := sql_update R h (execution_runs db),
      execution_decisions := sql_update D clear_claim (execution_decisions db),
      recovery_states := sql_update V k (recovery_states db),
      recovery_attempts := recovery_attempts db @ [a]\<rparr>)"
  using assms by (auto intro!: db_stepI table_evolves decision_le_rows(2) simp: attempt_free)

text \<open>The statements of a settled recovery lease.\<close>

lemma db_step_settled_lease:
  assumes "ts \<in> {CANCELLED, TIMED_OUT, FAILED, EXECUTION_BLOCKED}"
    and "is_valid_execution_terminal_outcome ts (Some reason)" and "\<not> attempt_taken db (t_attempt_id a)"
  shows "db_step db (db\<lparr>process_ownerships := sql_update
        (\<lambda>x. o_execution_id x = eid \<and> o_organization_id x = org \<and> o_ownership_state x \<in> {LAUNCH_UNCERTAIN, RECOVERY_BLOCKED})
        (\<lambda>x. x\<lparr>o_ownership_state := TERMINAL, o_no_process_proof := Some proof_text,
           o_terminalized_at := Some now, o_updated_at := now\<rparr>) (process_ownerships db),
      dispatch_intents := sql_update
        (\<lambda>x. i_execution_id x = eid \<and> i_organization_id x = org \<and> i_state x \<in> {PENDING, CLAIMED})
        (settle_intent DFAILED now (Some reason)) (dispatch_intents db),
      execution_runs := sql_update
        (\<lambda>x. r_execution_id x = eid \<and> r_organization_id x = org \<and> r_state x \<in> {REQUESTED, STARTING, RUNNING})
        (\<lambda>x. x\<lparr>r_state := ts, r_reason_code := Some reason, r_finished_at := Some now\<rparr>) (execution_runs db),
      execution_decisions := sql_update D clear_claim (execution_decisions db),
      recovery_states := sql_update V
        (\<lambda>x. x\<lparr>v_status := RV_CONFIRMED_TERMINATED, v_last_outcome := Some proof_text, v_last_error := None,
           v_owner := None, v_lease_token := None, v_lease_expires_at := None, v_next_retry_at := None,
           v_updated_at := now\<rparr>) (recovery_states db),
      recovery_attempts := recovery_attempts db @ [a]\<rparr>)"
  using assms(3) by (intro db_step_close run_closed [OF _ assms(1,2)] ownership_closed(1))
    (auto simp: intent_le_rows recovery_le_def)

lemma settle_recovery_execution_step:
  "db_step db (snd (settle_recovery_execution env jobs db eid org owner token gen termination ts reason))"
  unfolding settle_recovery_execution_def
  by (intro step_flow step_flow_bool db_step_settled_lease; simp)

lemma sql_update_if: "(if c then sql_update P f t else t) = sql_update (\<lambda>x. c \<and> P x) f t"
  by (simp add: sql_update_def)

lemma close_execution_step:
  assumes "ts \<in> {CANCELLED, TIMED_OUT, FAILED, EXECUTION_BLOCKED}"
    and "is_valid_execution_terminal_outcome ts (Some reason)"
    and "o_ownership_state (fst row) \<noteq> TERMINAL" and "\<not> attempt_taken db (t_attempt_id a)"
  shows "db_step db (close_execution db now row eid org ts reason termination proof_text number
     \<lparr>recovery_attempts := recovery_attempts db @ [a]\<rparr>)"
proof -
  obtain p r q d i v where row: "row = (p, r, q, d, i, v)" by (cases row)
  have o: "ownership_le x (x\<lparr>o_ownership_state := TERMINAL, o_no_process_proof := Some proof_text,
        o_last_verified_at := w x, o_terminalized_at := Some now, o_updated_at := now\<rparr>)"
    if "o_ownership_state x = o_ownership_state p" for x w
    using that assms(3) by (intro ownership_closed(2)) (simp add: row)
  show ?thesis
    using assms(4) unfolding row close_execution_def prod.case Let_def sql_update_if
    by (intro db_step_close run_closed [OF _ assms(1,2)] o) (auto simp: intent_le_rows recovery_le_def)
qed

lemma close_execution_audit: "audit_events (close_execution db now row eid org ts reason termination pt n) = audit_events db"
  by (simp add: close_execution_def Let_def split: prod.split)

lemma settle_execution_after_confirmed_termination_step:
  "db_step db (snd (settle_execution_after_confirmed_termination env jobs db eid org ts reason termination
     pid pgid token session generation worker_id attestation actor))"
  unfolding settle_execution_after_confirmed_termination_def
  by (intro step_flow step_flow_bool close_execution_step; simp add: close_execution_audit)

end
