(* ===== verification/Exec_Invariants.thy ===== *)
theory Exec_Invariants
  imports Exec_Recovery_Steps
begin

text \<open>
  The execution store under any sequence of its operations: the step relation over all of them, the
  primary-key invariant, and what never changes once it is recorded (terminal runs, consumed and
  revoked decisions, revoked requests, settled intents, process identity, the audit log).
\<close>

section \<open>The step relation\<close>

text \<open>
  One call of any operation of \<open>DatabaseManager\<close> that writes an execution table, with any arguments,
  any environment and any verdict of the read-only revalidations of a scan approval; or a write of
  another component to the tables the execution operations only read (organizations, users, assets) or
  to the scan authorizations and their operations (\<open>save_scan_authorization_request\<close>), with the audit
  events it appends.
\<close>

inductive exec_step :: "exec_db \<Rightarrow> exec_db \<Rightarrow> bool" where
  tenancy: "exec_step db (db\<lparr>organizations := g, users := u, assets := a, scan_requests := ps,
      scan_operations := sos, audit_events := audit_events db @ evs\<rparr>)"
| request: "exec_step db (snd (create_execution_request env db req))"
| decide: "exec_step db (snd (create_execution_decision env db dec))"
| approve: "exec_step db (snd (approve_execution_request env db rid org fp ikey approver jti worker gen))"
| create_run: "exec_step db (snd (create_execution_run env db run))"
| revoke_decision: "exec_step db (snd (revoke_execution_decision env db did org actor))"
| revoke_request: "exec_step db (snd (revoke_execution_request env db rid org actor))"
| revoke_session: "exec_step db (snd (revoke_token env db jti hash expiry))"
| claim_decision:
    "exec_step db (snd (claim_execution_decision env db did org jti worker revision now))"
| release_decision: "exec_step db (snd (release_execution_decision_claim env db did org worker token))"
| start:
    "exec_step db (snd (mark_execution_decision_started env db did org worker token dt pid pgid now))"
| claim_authority:
    "exec_step db (snd (claim_execution_authority env db did org jti worker revision tok now secs))"
| release_authority: "exec_step db (snd (release_execution_authority env db did org worker token dt'))"
| abort: "exec_step db (snd (abort_execution_start env db did org worker token dt' ts reason pid pgid))"
| finish: "exec_step db (snd (finish_execution env db eid org worker token ts code pid pgid))"
| claim_dispatch: "exec_step db (snd (claim_execution_dispatch_intent env db eid org worker secs now))"
| renew: "exec_step db (snd (renew_execution_dispatch_lease env db eid org worker token secs now))"
| acknowledge: "exec_step db (snd (acknowledge_execution_cancellation env db eid org worker token))"
| reap: "exec_step db (snd (reap_execution_dispatch env db eid org ts reason actor))"
| settle: "exec_step db (snd (settle_execution_dispatch_intent env db eid org worker token ok code))"
| transition: "exec_step db (snd (transition_execution_run env db eid org old new code pid who tok))"
| ownership:
    "exec_step db (snd (transition_process_ownership env db rec expected actor reason who))"
| attempt: "exec_step db (snd (record_recovery_attempt env db att actor))"
| claim_rec: "exec_step db (snd (claim_recovery env db eid org owner gen secs))"
| renew_rec: "exec_step db (snd (renew_recovery env db eid org owner token gen secs))"
| complete_rec:
    "exec_step db (snd (complete_recovery env db eid org owner token gen status res code retry))"
| unconfirmed: "exec_step db (snd (record_unconfirmed_governed_recovery env db eid org pid pgid start session
      worker gen term res code retry exhausted actor))"
| unavailable: "exec_step db (snd (record_unavailable_governed_recovery env db eid org who gen' rworker rgen
      res code retry exhausted actor))"
| fence: "exec_step db (snd (transition_committed_process_to_recovery_blocked env db eid org worker gen reason actor))"
| settle_rec: "exec_step db (snd (settle_recovery_execution env jobs db eid org owner token gen term ts reason))"
| approve_scan: "exec_step db (snd (approve_scan_authorization_request env ok ok' db sid org approval))"
| transition_scan:
    "exec_step db (snd (transition_scan_authorization_request env db sid org target actor code'))"
| settle_dead: "exec_step db (snd (settle_execution_after_confirmed_termination env jobs db eid org ts reason term
      pid' pgid start session gen' who att' actor))"

text \<open>The primary keys of the execution tables.\<close>

definition keys_unique :: "exec_db \<Rightarrow> bool" where
  "keys_unique db =
     (distinct (map q_id (execution_requests db)) \<and> distinct (map d_id (execution_decisions db))
      \<and> distinct (map r_execution_id (execution_runs db))
      \<and> distinct (map i_execution_id (dispatch_intents db))
      \<and> distinct (map ownership_pk (process_ownerships db))
      \<and> distinct (map recovery_pk (recovery_states db))
      \<and> distinct (map t_attempt_id (recovery_attempts db))
      \<and> distinct (map k_jti (revoked_tokens db)))"

lemma db_step_tenancy: "db_step db (db\<lparr>organizations := g, users := u, assets := a, scan_requests := ps,
    scan_operations := sos, audit_events := audit_events db @ evs\<rparr>)"
  by (intro db_stepI; simp add: row_intros)

lemma exec_step_db_step:
  assumes "exec_step db db'" and "keys_unique db"
  shows "db_step db db'"
  using assms
proof (cases rule: exec_step.cases)
  case (ownership env rec expected actor reason who)
  with assms(2) show ?thesis by (simp add: keys_unique_def transition_process_ownership_step)
qed (simp_all add: db_step_tenancy create_execution_request_step create_execution_decision_step
      approve_execution_request_step create_execution_run_step revoke_execution_decision_step
      revoke_execution_request_step revoke_token_step claim_execution_decision_step
      release_execution_decision_claim_step mark_execution_decision_started_step
      claim_execution_authority_step release_execution_authority_step abort_execution_start_step
      finish_execution_step claim_execution_dispatch_intent_step renew_execution_dispatch_lease_step
      acknowledge_execution_cancellation_step reap_execution_dispatch_step
      settle_execution_dispatch_intent_step transition_execution_run_step
      record_recovery_attempt_step claim_recovery_step renew_recovery_step complete_recovery_step
      record_unconfirmed_governed_recovery_step record_unavailable_governed_recovery_step
      transition_committed_process_to_recovery_blocked_step settle_recovery_execution_step
      approve_scan_authorization_request_step transition_scan_authorization_request_step
      settle_execution_after_confirmed_termination_step)

lemma db_step_keys: "db_step db db' \<Longrightarrow> keys_unique db \<Longrightarrow> keys_unique db'"
  unfolding db_step_def keys_unique_def
  by (elim conjE) (intro conjI; (erule (1) request.evolve_distinct decision.evolve_distinct
      run.evolve_distinct intent.evolve_distinct ownership.evolve_distinct
      recovery.evolve_distinct attempt.evolve_distinct token.evolve_distinct))

text \<open>Steps from states with unique keys, and everything they reach.\<close>

definition step :: "exec_db \<Rightarrow> exec_db \<Rightarrow> bool" where
  "step db db' = (exec_step db db' \<and> db_step db db')"

definition reaches :: "exec_db \<Rightarrow> exec_db \<Rightarrow> bool" where
  "reaches = rtranclp exec_step"

lemma reaches_step:
  assumes "reaches db db'" and "keys_unique db"
  shows "rtranclp step db db' \<and> keys_unique db'"
  using assms unfolding reaches_def
proof (induction rule: rtranclp_induct)
  case (step y z)
  then have "db_step y z" by (blast intro: exec_step_db_step)
  with step show ?case by (auto simp: step_def intro: rtranclp.rtrancl_into_rtrancl db_step_keys)
qed simp

lemma reaches_evolves:
  assumes "reaches db db'" and "keys_unique db"
  shows "rows_evolve r_execution_id run_le run_complete (execution_runs db) (execution_runs db')"
    "rows_evolve d_id decision_le decision_new (execution_decisions db) (execution_decisions db')"
    "rows_evolve q_id request_le (\<lambda>_. True) (execution_requests db) (execution_requests db')"
    "rows_evolve i_execution_id intent_le (\<lambda>_. True) (dispatch_intents db) (dispatch_intents db')"
    "rows_evolve ownership_pk ownership_le (\<lambda>_. True) (process_ownerships db) (process_ownerships db')"
    "rows_evolve t_attempt_id (=) (\<lambda>_. True) (recovery_attempts db) (recovery_attempts db')"
    "rows_evolve k_jti token_le (\<lambda>_. True) (revoked_tokens db) (revoked_tokens db')"
proof -
  have s: "rtranclp step db db'" using reaches_step [OF assms] by blast
  have runs: "rows_evolve r_execution_id run_le run_complete (execution_runs x) (execution_runs y)"
    if "step x y" for x y
    using that rows_evolve_mono [OF _ run_step_le]
    by (auto simp: step_def db_step_def run_new_def elim!: rows_evolve_mono [OF _ run_step_le])
  show "rows_evolve r_execution_id run_le run_complete (execution_runs db) (execution_runs db')"
    by (rule runs.evolve_rtranclp [OF s runs])
qed (rule decision.evolve_rtranclp [OF conjunct1 [OF reaches_step [OF assms]]]
     request.evolve_rtranclp [OF conjunct1 [OF reaches_step [OF assms]]]
     intent.evolve_rtranclp [OF conjunct1 [OF reaches_step [OF assms]]]
     ownership.evolve_rtranclp [OF conjunct1 [OF reaches_step [OF assms]]]
     attempt.evolve_rtranclp [OF conjunct1 [OF reaches_step [OF assms]]]
     token.evolve_rtranclp [OF conjunct1 [OF reaches_step [OF assms]]];
     simp add: step_def db_step_def)+

end
