(* ===== verification/Exec_Samples.thy ===== *)
theory Exec_Samples
  imports Exec_Invariants
begin

text \<open>
  A small concrete store for the witnesses: one tenant with an administrator, an asset and an
  approved nmap request, in the states its life cycle goes through.  The times are small numbers of
  microseconds, the digest is constant.
\<close>

definition env_at :: "time \<Rightarrow> env" where
  "env_at t = \<lparr> e_now = (\<lambda>_. t), e_uuid = (\<lambda>n. if n = 0 then ''u0'' else ''u1''),
     e_event_uuid = (\<lambda>_. ''e''), e_event_time = (\<lambda>_. t), e_correlation = Some ''corr'',
     e_sha256 = (\<lambda>_. ''rev'') \<rparr>"

definition sample_binding :: exec_binding where
  "sample_binding = \<lparr> b_project_id = None, b_asset_id = ''asset'', b_target_id = ''target'',
     b_authorization_decision_id = ''auth'', b_target_policy_version = ''1'', b_tool_id = ''nmap'',
     b_operation_family = ''network_assessment'', b_operation_options = [],
     b_operation_policy_revision = ''rev'', b_resource_budget = [(''timeout_seconds'', JInt 300)],
     b_account_impact_budget = [(''max_operations'', JInt 1)], b_credential_scope = [] \<rparr>"

definition sample_request :: exec_request where
  "sample_request = \<lparr> q_id = ''req'', q_idempotency_key = ''ikey'', q_request_fingerprint = ''fp'',
     q_organization_id = ''org'', q_binding = sample_binding, q_requested_by_user_id = ''admin'',
     q_state = ''REQUESTED'', q_created_at = 0, q_expires_at = 900000000,
     q_approved_decision_id = None, q_approval_idempotency_key = None \<rparr>"

definition empty_db :: exec_db where
  "empty_db = \<lparr> organizations = [\<lparr> g_id = ''org'', g_is_active = True \<rparr>],
     users = [\<lparr> u_id = ''admin'', u_organization_id = ''org'', u_role = ''ADMIN'', u_is_active = True \<rparr>],
     assets = [\<lparr> a_id = ''asset'', a_organization_id = ''org'', a_project_id = None,
                 a_active_probing_granted = True \<rparr>],
     scan_requests = [], scan_operations = [],
     execution_requests = [], execution_decisions = [], execution_runs = [], dispatch_intents = [],
     process_ownerships = [], recovery_states = [], recovery_attempts = [], revoked_tokens = [],
     audit_events = [] \<rparr>"

text \<open>The store after the request, its approval, the worker's claim, the start and the finish.\<close>

definition requested_db :: exec_db where
  "requested_db = snd (create_execution_request (env_at 1) empty_db sample_request)"

definition approved_db :: exec_db where
  "approved_db = snd (approve_execution_request (env_at 2) requested_db ''req'' ''org'' ''fp''
     ''approve'' ''admin'' ''jti'' ''worker'' ''gen'')"

definition claimed_db :: exec_db where
  "claimed_db = snd (claim_execution_authority (env_at 3) approved_db ''dec-u0'' ''org'' ''jti''
     ''worker'' ''rev'' None None 30)"

definition running_db :: exec_db where
  "running_db = snd (mark_execution_decision_started (env_at 4) claimed_db ''dec-u0'' ''org''
     ''worker'' ''u0'' (Some ''u1'') (Some 42) (Some ''42'') None)"

definition finished_db :: exec_db where
  "finished_db = snd (finish_execution (env_at 5) running_db ''run-u1'' ''org'' ''worker'' ''u1''
     SUCCEEDED None (Some 42) (Some ''42''))"

definition revoked_db :: exec_db where
  "revoked_db = snd (revoke_execution_request (env_at 5) running_db ''req'' ''org'' ''admin'')"

lemma sample_requested:
  "fst (create_execution_request (env_at 1) empty_db sample_request) = Inr sample_request"
  by code_simp

lemma sample_approved:
  "fst (approve_execution_request (env_at 2) requested_db ''req'' ''org'' ''fp''
     ''approve'' ''admin'' ''jti'' ''worker'' ''gen'') = Inr (''AUTHORIZED'', Some ''dec-u0'', Some ''run-u1'')"
  by code_simp

lemma sample_claimed: "map r_state (execution_runs claimed_db) = [STARTING]"
  "map i_state (dispatch_intents claimed_db) = [CLAIMED]"
  by code_simp+

lemma sample_running: "map r_state (execution_runs running_db) = [RUNNING]"
  by code_simp

lemma sample_finished: "map r_state (execution_runs finished_db) = [SUCCEEDED]"
  by code_simp

lemma sample_keys: "keys_unique empty_db" "keys_unique requested_db" "keys_unique approved_db"
  "keys_unique running_db" "keys_unique finished_db" "keys_unique revoked_db"
  by code_simp+

end
