(* ===== verification/Exec_Properties.thy ===== *)
theory Exec_Properties
  imports Exec_Samples
begin

text \<open>
  What is final stays final: invariants of the execution store over any sequence of operations,
  from the row evolution every operation respects.
\<close>

section \<open>What is final stays final\<close>

lemma reaches1: "exec_step db db' \<Longrightarrow> reaches db db'"
  by (simp add: reaches_def)

lemma filter_key: "distinct (map key t) \<Longrightarrow> r \<in> set t \<Longrightarrow> filter (\<lambda>x. key x = key r) t = [r]"
  by (induction t) (auto simp: filter_empty_conv, metis image_eqI)

text \<open>C1. A terminal run is immutable: whatever sequence of store operations follows, by whichever
  callers and in whatever order, its row stays in the runs table exactly as it was, and it is the only
  row with its execution identity.\<close>

theorem terminal_run_immutable:
  assumes "keys_unique db" and "reaches db db'"
    and "r \<in> set (execution_runs db)" and "terminal (r_state r)"
  shows "filter (\<lambda>x. r_execution_id x = r_execution_id r) (execution_runs db') = [r]"
proof (rule filter_key)
  show "distinct (map r_execution_id (execution_runs db'))"
    using reaches_step [OF assms(2,1)] by (simp add: keys_unique_def)
  show "r \<in> set (execution_runs db')"
    using rows_evolve_old [OF reaches_evolves(1) [OF assms(2,1)] assms(3)] assms(4)
    by (auto simp: run_le_def)
qed

theorem terminal_run_immutable_witness:
  "filter (\<lambda>x. r_execution_id x = ''run-u1'') (execution_runs (snd (reap_execution_dispatch (env_at 9)
     finished_db ''run-u1'' ''org'' FAILED ''EXECUTION_DISPATCH_FAILED'' ''reaper'')))
   = [hd (execution_runs finished_db)]"
proof -
  have "hd (execution_runs finished_db) \<in> set (execution_runs finished_db)"
    "terminal (r_state (hd (execution_runs finished_db)))"
    "r_execution_id (hd (execution_runs finished_db)) = ''run-u1''" by code_simp+
  with terminal_run_immutable [OF sample_keys(5) reaches1 [OF exec_step.reap] this(1,2)] show ?thesis by simp
qed

text \<open>A run never goes back: over any sequence of operations its row keeps its identity, decision
  and authority snapshot, and its state either stays or moves to a later phase
  (requested, starting, running, terminal).\<close>

theorem run_never_goes_back:
  assumes "keys_unique db" and "reaches db db'" and "r \<in> set (execution_runs db)"
  shows "\<exists>r' \<in> set (execution_runs db'). run_key r' = run_key r \<and>
    (r_state r' = r_state r \<or> phase (r_state r) < phase (r_state r'))"
  using rows_evolve_old [OF reaches_evolves(1) [OF assms(2,1)] assms(3)]
  by (auto simp: run_le_def)

theorem run_never_goes_back_witness:
  "\<exists>r' \<in> set (execution_runs revoked_db). run_key r' = run_key (hd (execution_runs running_db)) \<and>
    (r_state r' = r_state (hd (execution_runs running_db))
     \<or> phase (r_state (hd (execution_runs running_db))) < phase (r_state r'))"
proof -
  have "hd (execution_runs running_db) \<in> set (execution_runs running_db)" by code_simp
  from run_never_goes_back [OF sample_keys(4) reaches1 [OF exec_step.revoke_request] this]
  show ?thesis unfolding revoked_db_def .
qed

text \<open>C7. Every single operation moves a run only along the transition table of the data model,
  or along the additional moves of settlement, abort and the reaper; a run it makes terminal has a
  finish time and, unless it carried an earlier reason code, a reason code valid for that outcome.\<close>

theorem run_transitions_legal:
  assumes "keys_unique db" and "exec_step db db'"
    and "r \<in> set (execution_runs db)" and "r' \<in> set (execution_runs db')"
    and "r_execution_id r' = r_execution_id r"
  shows "r' = r \<or> (\<not> terminal (r_state r) \<and>
    (r_state r' = r_state r \<or> r_state r' \<in> set (EXECUTION_RUN_TRANSITIONS (r_state r))
      \<or> extra_run_move (r_state r) (r_state r')) \<and>
    (terminal (r_state r') \<longrightarrow> r_finished_at r' \<noteq> None \<and>
      (r_reason_code r = None \<longrightarrow>
        is_valid_execution_terminal_outcome (r_state r') (r_reason_code r'))))"
proof -
  have "rows_evolve r_execution_id run_step run_new (execution_runs db) (execution_runs db')"
    using exec_step_db_step [OF assms(2,1)] by (simp add: db_step_def)
  then have "run_step r r'"
    using assms(1) by (intro run.evolve_same_key [OF _ _ assms(3-5)]) (simp_all add: keys_unique_def)
  then show ?thesis by (auto simp: run_step_def run_move_def)
qed

theorem run_transitions_legal_witness:
  "let r = hd (execution_runs running_db); r' = hd (execution_runs finished_db) in
   r' = r \<or> (\<not> terminal (r_state r) \<and>
    (r_state r' = r_state r \<or> r_state r' \<in> set (EXECUTION_RUN_TRANSITIONS (r_state r))
      \<or> extra_run_move (r_state r) (r_state r')) \<and>
    (terminal (r_state r') \<longrightarrow> r_finished_at r' \<noteq> None \<and>
      (r_reason_code r = None \<longrightarrow>
        is_valid_execution_terminal_outcome (r_state r') (r_reason_code r'))))"
proof -
  have "exec_step running_db finished_db" unfolding finished_db_def by (rule exec_step.finish)
  moreover have "hd (execution_runs running_db) \<in> set (execution_runs running_db)"
    "hd (execution_runs finished_db) \<in> set (execution_runs finished_db)"
    "r_execution_id (hd (execution_runs finished_db)) = r_execution_id (hd (execution_runs running_db))"
    by code_simp+
  ultimately show ?thesis
    unfolding Let_def by (rule run_transitions_legal [OF sample_keys(4)])
qed

section \<open>Decisions are used once\<close>

lemma reaches_keys: "reaches db db' \<Longrightarrow> keys_unique db \<Longrightarrow> keys_unique db'"
  using reaches_step by blast

lemma decision_later:
  assumes "keys_unique db" and "reaches db db'"
    and "d \<in> set (execution_decisions db)" and "d' \<in> set (execution_decisions db')" "d_id d' = d_id d"
  shows "decision_le d d'"
  using assms(1,3-5)
  by (intro decision.evolve_same_key [OF reaches_evolves(2) [OF assms(2,1)]])
    (simp_all add: keys_unique_def)

lemma updated_row: "sql_rowcount P t = 1 \<Longrightarrow> \<exists>r \<in> set t. P r \<and> f r \<in> set (sql_update P f t)"
  using count_if_pos_iff [of P t] by (auto simp: sql_rowcount_def set_sql_update)

lemma started_decision:
  assumes "fst (mark_execution_decision_started env db did org worker token dt pid pgid now) = Inr True"
  shows "\<exists>d \<in> set (execution_decisions db). startable db (reading env now) did org worker token dt d
    \<and> (\<exists>d' \<in> set (execution_decisions (snd (mark_execution_decision_started env db did org worker
        token dt pid pgid now))). d_id d' = did \<and> d_consumed_at d' \<noteq> None)"
proof -
  let ?op = "mark_execution_decision_started env db did org worker token dt pid pgid now"
  let ?hit = "startable db (reading env now) did org worker token dt"
  let ?f = "\<lambda>d. d\<lparr>d_started_at := Some (reading env now), d_consumed_at := Some (reading env now),
                   d_claim_expires_at := None\<rparr>"
  have one: "sql_rowcount ?hit (execution_decisions db) = 1"
    and post: "execution_decisions (snd ?op) = sql_update ?hit ?f (execution_decisions db)"
    using assms by (auto simp: mark_execution_decision_started_def Let_def split: if_splits)
  from updated_row [OF one, of ?f] obtain d where "d \<in> set (execution_decisions db)" "?hit d"
      "?f d \<in> set (execution_decisions (snd ?op))" unfolding post by blast
  moreover from this(2) have "d_id (?f d) = did" by (simp add: startable_def)
  ultimately show ?thesis by (intro bexI [of _ d] conjI bexI [of _ "?f d"]) simp_all
qed

text \<open>C2. Single use: after one successful start, no later start of the same decision succeeds, by any
  worker, with any claim token, at any time, whatever happens in between.\<close>

theorem decision_starts_once:
  assumes "keys_unique db"
    and "fst (mark_execution_decision_started env db did org worker token dt pid pgid now) = Inr True"
    and "reaches (snd (mark_execution_decision_started env db did org worker token dt pid pgid now)) db'"
  shows "fst (mark_execution_decision_started env' db' did org' worker' token' dt' pid' pgid' now')
           \<noteq> Inr True"
proof
  let ?db1 = "snd (mark_execution_decision_started env db did org worker token dt pid pgid now)"
  assume again: "fst (mark_execution_decision_started env' db' did org' worker' token' dt' pid' pgid' now')
    = Inr True"
  from started_decision [OF assms(2)] obtain d1 where
    d1: "d1 \<in> set (execution_decisions ?db1)" "d_id d1 = did" "d_consumed_at d1 \<noteq> None" by blast
  from started_decision [OF again] obtain d2 where
    d2: "d2 \<in> set (execution_decisions db')" "d_id d2 = did" "d_consumed_at d2 = None"
    by (auto simp: startable_def)
  have "keys_unique ?db1"
    using assms(1) by (rule reaches_keys [OF reaches1 [OF exec_step.start]])
  then have "decision_le d1 d2"
    using assms(3) d1 d2 by (intro decision_later) simp_all
  then have "d_consumed_at d2 = d_consumed_at d1"
    using d1(3) by (simp add: decision_le_def)
  with d1(3) d2(3) show False by simp
qed

theorem decision_starts_once_witness:
  "fst (mark_execution_decision_started (env_at 6) finished_db ''dec-u0'' ''org'' ''worker'' ''u0''
     (Some ''u1'') (Some 43) (Some ''43'') None) \<noteq> Inr True"
proof -
  have once: "fst (mark_execution_decision_started (env_at 4) claimed_db ''dec-u0'' ''org''
     ''worker'' ''u0'' (Some ''u1'') (Some 42) (Some ''42'') None) = Inr True" by code_simp
  have "keys_unique claimed_db" by code_simp
  from decision_starts_once [OF this once reaches1 [OF exec_step.finish]] show ?thesis
    unfolding finished_db_def running_db_def .
qed

lemma candidates_decision:
  "(d, r, q, i) \<in> set (authority_candidates db did org jti worker revision tok now) \<Longrightarrow>
     d \<in> set (execution_decisions db) \<and> d_id d = did \<and> d_revoked_at d = None"
  by (auto simp: authority_candidates_def split: if_splits)

text \<open>C8. Revocation stops execution: once a decision carries a revocation time, no later claim of it,
  by itself or together with its dispatch intent, and no start succeeds.\<close>

theorem revoked_decision_is_dead:
  assumes "keys_unique db" and "reaches db db'"
    and "d \<in> set (execution_decisions db)" and "d_revoked_at d \<noteq> None"
  shows "fst (mark_execution_decision_started env db' (d_id d) org worker token dt pid pgid now) \<noteq> Inr True
    \<and> fst (claim_execution_authority env db' (d_id d) org jti worker revision tok now secs) \<noteq> Inr (Some lease)
    \<and> fst (claim_execution_decision env db' (d_id d) org jti worker revision now) \<noteq> Inr (Some claim)"
proof -
  have dead: "d_revoked_at d' \<noteq> None" if "d' \<in> set (execution_decisions db')" "d_id d' = d_id d" for d'
    using decision_later [OF assms(1-3) that] assms(4) by (auto simp: decision_le_def)
  have "fst (mark_execution_decision_started env db' (d_id d) org worker token dt pid pgid now) \<noteq> Inr True"
  proof
    assume "fst (mark_execution_decision_started env db' (d_id d) org worker token dt pid pgid now) = Inr True"
    from started_decision [OF this] obtain d' where "d' \<in> set (execution_decisions db')"
        "startable db' (reading env now) (d_id d) org worker token dt d'" by blast
    with dead [of d'] show False by (simp add: startable_def)
  qed
  moreover have "fst (claim_execution_authority env db' (d_id d) org jti worker revision tok now secs)
      \<noteq> Inr (Some lease)"
  proof -
    have "authority_candidates db' (d_id d) org jti worker revision tok (reading env now) = []"
    proof (rule ccontr)
      assume "authority_candidates db' (d_id d) org jti worker revision tok (reading env now) \<noteq> []"
      then obtain d' r q i where "(d', r, q, i) \<in> set (authority_candidates db' (d_id d) org jti
          worker revision tok (reading env now))" by (metis list.set_sel(1) prod_cases4)
      with candidates_decision dead show False by blast
    qed
    then show ?thesis by (simp add: claim_execution_authority_def Let_def)
  qed
  moreover have "fst (claim_execution_decision env db' (d_id d) org jti worker revision now)
      \<noteq> Inr (Some claim)"
  proof -
    have "sql_rowcount (decision_claimable db' (reading env now) (d_id d) org jti worker revision)
        (execution_decisions db') = 0"
      using dead by (auto simp: sql_rowcount_def count_if_zero_iff decision_claimable_def)
    then show ?thesis by (simp add: claim_execution_decision_def Let_def)
  qed
  ultimately show ?thesis by blast
qed

theorem revoked_decision_is_dead_witness:
  "fst (mark_execution_decision_started (env_at 7) (snd (release_execution_decision_claim (env_at 6)
      (snd (revoke_execution_decision (env_at 5) approved_db ''dec-u0'' ''org'' ''admin''))
      ''dec-u0'' ''org'' ''worker'' ''u0'')) ''dec-u0'' ''org'' ''worker'' ''u0'' None None None None) \<noteq> Inr True"
proof -
  let ?db = "snd (revoke_execution_decision (env_at 5) approved_db ''dec-u0'' ''org'' ''admin'')"
  have "keys_unique ?db" "hd (execution_decisions ?db) \<in> set (execution_decisions ?db)"
    "d_revoked_at (hd (execution_decisions ?db)) \<noteq> None" by code_simp+
  note dead = revoked_decision_is_dead [OF this(1) reaches1 [OF exec_step.release_decision] this(2,3)]
  have "d_id (hd (execution_decisions ?db)) = ''dec-u0''" by code_simp
  from dead [THEN conjunct1, unfolded this] show ?thesis .
qed

section \<open>Requests, intents, ownership, audit log\<close>

lemma request_revoked_same: "q_state q = s \<Longrightarrow> q\<lparr>q_state := s, q_expires_at := e\<rparr> = q\<lparr>q_expires_at := e\<rparr>"
  by (cases q) simp

text \<open>Revocation of a request is final and approval binds once: over any sequence of operations a
  revoked request's row is unchanged except for its expiry, and an authorized one keeps its decision,
  its approval key and everything else, except that it may become revoked and that the expiry of a scan
  authorization sets the expiry of its child requests.\<close>

theorem request_authority_is_final:
  assumes "keys_unique db" and "reaches db db'" and "q \<in> set (execution_requests db)"
  shows "\<exists>e. (q_state q = ''REVOKED'' \<longrightarrow> q\<lparr>q_expires_at := e\<rparr> \<in> set (execution_requests db')) \<and>
    (q_state q = ''AUTHORIZED'' \<longrightarrow> q\<lparr>q_expires_at := e\<rparr> \<in> set (execution_requests db')
       \<or> q\<lparr>q_state := ''REVOKED'', q_expires_at := e\<rparr> \<in> set (execution_requests db'))"
proof -
  from rows_evolve_old [OF reaches_evolves(3) [OF assms(2,1)] assms(3)] obtain q'
    where "q' \<in> set (execution_requests db')" "request_le q q'" by blast
  then show ?thesis
    by (intro exI [of _ "q_expires_at q'"]) (auto simp: request_le_def request_revoked_same)
qed

theorem request_authority_is_final_witness:
  "let q = hd (execution_requests approved_db); db' = snd (revoke_execution_request (env_at 5)
      approved_db ''req'' ''org'' ''admin'') in
   \<exists>e. (q_state q = ''REVOKED'' \<longrightarrow> q\<lparr>q_expires_at := e\<rparr> \<in> set (execution_requests db')) \<and>
    (q_state q = ''AUTHORIZED'' \<longrightarrow> q\<lparr>q_expires_at := e\<rparr> \<in> set (execution_requests db')
       \<or> q\<lparr>q_state := ''REVOKED'', q_expires_at := e\<rparr> \<in> set (execution_requests db'))"
proof -
  have "hd (execution_requests approved_db) \<in> set (execution_requests approved_db)" by code_simp
  then show ?thesis
    unfolding Let_def
    by (rule request_authority_is_final [OF sample_keys(3) reaches1 [OF exec_step.revoke_request]])
qed

text \<open>A settled dispatch intent (completed, failed or blocked) is immutable, and the attempt count of
  any intent never decreases.\<close>

theorem settled_intent_immutable:
  assumes "keys_unique db" and "reaches db db'" and "i \<in> set (dispatch_intents db)"
  shows "(intent_settled i \<longrightarrow> i \<in> set (dispatch_intents db')) \<and>
    (\<exists>i' \<in> set (dispatch_intents db'). i_execution_id i' = i_execution_id i
        \<and> i_attempt_count i \<le> i_attempt_count i')"
  using rows_evolve_old [OF reaches_evolves(4) [OF assms(2,1)] assms(3)]
  by (auto simp: intent_le_def)

theorem settled_intent_immutable_witness:
  "hd (dispatch_intents finished_db) \<in> set (dispatch_intents (snd (acknowledge_execution_cancellation
     (env_at 9) finished_db ''run-u1'' ''org'' ''worker'' ''u1'')))"
proof -
  have "hd (dispatch_intents finished_db) \<in> set (dispatch_intents finished_db)"
    "intent_settled (hd (dispatch_intents finished_db))" by code_simp+
  with settled_intent_immutable [OF sample_keys(5) reaches1 [OF exec_step.acknowledge]] show ?thesis
    by blast
qed

text \<open>C10. Process identity is written once: over any sequence of operations an ownership row keeps every
  identity field it has recorded (root process, start token, process group, session, container and its
  type, worker generation, attestation, a committed launch), its state only advances, and a terminal
  row never changes. The group and session are compared as texts, so a recorded \<open>None\<close> text is not
  protected; the no-process proof is evidence of the end, which a settlement replaces, and is kept only
  once the row is terminal.\<close>

theorem process_identity_write_once:
  assumes "keys_unique db" and "reaches db db'" and "p \<in> set (process_ownerships db)"
  shows "\<exists>p' \<in> set (process_ownerships db'). ownership_key p' = ownership_key p \<and> identity_le p p' \<and>
    (o_ownership_state p' = o_ownership_state p
      \<or> ownership_rank (o_ownership_state p) < ownership_rank (o_ownership_state p')) \<and>
    (o_ownership_state p \<noteq> UNKNOWN \<longrightarrow> o_container_type p' = o_container_type p) \<and>
    (o_ownership_state p = TERMINAL \<longrightarrow> p' = p)"
  using rows_evolve_old [OF reaches_evolves(5) [OF assms(2,1)] assms(3)]
  by (simp only: ownership_le_def) blast

definition sample_ownership :: process_ownership where
  "sample_ownership = (hd (process_ownerships running_db))\<lparr>
     o_ownership_state := EXTERNAL_PROCESS_GOVERNED, o_container_type := POSIX_SESSION,
     o_root_process_id := Some 42, o_worker_generation := Some ''gen'',
     o_launch_commit_state := COMMITTED, o_identity_attestation := Some ''proof''\<rparr>"

theorem process_identity_write_once_witness:
  "\<exists>p' \<in> set (process_ownerships (snd (transition_process_ownership (env_at 5) running_db
      sample_ownership UNKNOWN ''worker'' ''started'' (Some ''worker'')))).
    ownership_key p' = ownership_key (hd (process_ownerships running_db)) \<and>
    identity_le (hd (process_ownerships running_db)) p' \<and>
    (o_ownership_state p' = o_ownership_state (hd (process_ownerships running_db))
      \<or> ownership_rank (o_ownership_state (hd (process_ownerships running_db)))
           < ownership_rank (o_ownership_state p')) \<and>
    (o_ownership_state (hd (process_ownerships running_db)) \<noteq> UNKNOWN
      \<longrightarrow> o_container_type p' = o_container_type (hd (process_ownerships running_db))) \<and>
    (o_ownership_state (hd (process_ownerships running_db)) = TERMINAL
      \<longrightarrow> p' = hd (process_ownerships running_db))"
proof -
  have "hd (process_ownerships running_db) \<in> set (process_ownerships running_db)" by code_simp
  then show ?thesis
    by (rule process_identity_write_once [OF sample_keys(4) reaches1 [OF exec_step.ownership]])
qed

text \<open>The audit log and the recovery evidence are append-only: every store operation leaves the
  recorded audit events, in order, as a prefix, and every recovery attempt where it was.\<close>

theorem audit_append_only:
  assumes "keys_unique db" and "reaches db db'"
  shows "prefix (audit_events db) (audit_events db') \<and>
    set (recovery_attempts db) \<subseteq> set (recovery_attempts db')"
proof -
  from reaches_step [OF assms(2,1)] have "rtranclp step db db'" ..
  then have "prefix (audit_events db) (audit_events db')"
    by (induction rule: rtranclp_induct) (auto simp: step_def db_step_def elim: prefix_order.order_trans)
  moreover have "set (recovery_attempts db) \<subseteq> set (recovery_attempts db')"
    using rows_evolve_old [OF reaches_evolves(6) [OF assms(2,1)]] by blast
  ultimately show ?thesis ..
qed

theorem audit_append_only_witness:
  "prefix (audit_events approved_db) (audit_events (snd (revoke_token (env_at 5) approved_db ''jti'' None None)))"
  using audit_append_only [OF sample_keys(3) reaches1 [OF exec_step.revoke_session]] by blast

end
