(* ===== verification/Settlement_Properties.thy ===== *)
theory Settlement_Properties
  imports Exec_Properties
begin

text \<open>
  What the settlement operations promise: an execution is closed after revocation only when its
  authority is gone and its process accounted for, all its rows are closed together, and the stored
  proof decodes to those rows.
\<close>

section \<open>A new settlement\<close>

definition settlement_type :: "string \<Rightarrow> string" where
  "settlement_type termination =
     (if termination \<in> set process_statuses then ''TERMINATION_CONFIRMED'' else ''NO_EXTERNAL_PROCESS'')"

text \<open>The payload a settlement of \<open>row\<close> encodes.\<close>

definition settled_payload :: "env \<Rightarrow> exec_db \<Rightarrow> settlement_row \<Rightarrow> string \<Rightarrow> string \<Rightarrow> run_state \<Rightarrow> string \<Rightarrow> string \<Rightarrow> jobj" where
  "settled_payload env db row eid org ts reason termination =
    settlement_payload env row eid org ts reason termination
      (decision_claim_digest env db True org (the (r_approved_decision_id (fst (snd row)))))
      (dispatch_claim_digest env db True org eid)
      (v_attempt_number (snd (snd (snd (snd (snd row))))) + 1) (''termination-'' @ e_uuid env 0)"

definition settlement_attempt :: "env \<Rightarrow> settlement_row \<Rightarrow> string \<Rightarrow> string \<Rightarrow> string \<Rightarrow> string \<Rightarrow> string \<Rightarrow> string \<Rightarrow> recovery_attempt" where
  "settlement_attempt env row eid org reason termination worker proof_text =
    (case row of (p, r, q, d, i, v) \<Rightarrow>
     \<lparr> t_attempt_id = ''termination-'' @ e_uuid env 0, t_execution_id = eid, t_organization_id = org,
       t_worker_identity = worker,
       t_worker_generation = Some (or_else (r_worker_generation r) (or_else (v_worker_generation v) [])),
       t_attempt_number = v_attempt_number v + 1, t_status = RV_CONFIRMED_TERMINATED,
       t_cancellation_status = Some termination, t_reason_code = reason,
       t_correlation_id = r_correlation_id r, t_requested_at = e_now env 0,
       t_started_at = Some (e_now env 0), t_completed_at = Some (e_now env 0), t_next_retry_at = None,
       t_error_code = None, t_escalation_level = 0,
       t_health_reference = Some (''termination-proof:'' @ e_sha256 env proof_text) \<rparr>)"

definition settlement_events :: "env \<Rightarrow> settlement_row \<Rightarrow> string \<Rightarrow> string \<Rightarrow> run_state \<Rightarrow> string \<Rightarrow> string \<Rightarrow> string \<Rightarrow> string \<Rightarrow> audit_event list" where
  "settlement_events env row eid org ts reason termination actor proof_text =
    (case row of (p, r, q, d, i, v) \<Rightarrow>
     [audit_event_of env 0 actor org ''EXECUTION_PROCESS_OWNERSHIP_TRANSITIONED''
        ''execution_process_ownership'' eid ''SUCCESS'' (r_correlation_id r)
        [(''from'', JStr (ownership_name (o_ownership_state p))), (''to'', JStr ''TERMINAL''),
         (''termination_status'', JStr termination), (''termination_proof'', JStr proof_text),
         (''reason_code'', JStr reason)],
      audit_event_of env 1 actor org ''EXECUTION_RUN_TRANSITIONED'' ''execution_run'' eid
        ''SUCCESS'' (r_correlation_id r)
        [(''to'', JStr (state_name ts)), (''reason_code'', JStr reason)]])"

text \<open>How a new settlement of \<open>row\<close> came about and what it left.\<close>

definition settles ::
    "env \<Rightarrow> job_registry \<Rightarrow> exec_db \<Rightarrow> string \<Rightarrow> string \<Rightarrow> run_state \<Rightarrow> string \<Rightarrow> string \<Rightarrow> int option \<Rightarrow> string option \<Rightarrow>
     string option \<Rightarrow> int option \<Rightarrow> string \<Rightarrow> string \<Rightarrow> string option \<Rightarrow> string \<Rightarrow> exec_db \<Rightarrow> settlement_row \<Rightarrow> string \<Rightarrow> bool" where
  "settles env jobs db eid org ts reason termination pid pgid token session gen worker attestation actor db' row proof_text =
    (fetchone (settlement_rows db eid org) = Some row
     \<and> list_all (\<lambda>s. py_strip s \<noteq> []) [eid, org, reason, termination, gen, worker, actor]
     \<and> termination \<in> set (process_statuses @ no_process_statuses)
     \<and> termination_input termination pid pgid token session attestation = Some True
     \<and> o_ownership_state (fst row) \<noteq> TERMINAL
     \<and> settlement_binding (fst row) (fst (snd row)) (fst (snd (snd (snd row)))) worker gen
     \<and> terminated_identity env jobs (fst row) termination worker attestation = Some True
     \<and> settlement_allowed db (e_now env 0) row termination pid pgid token session ts reason actor
     \<and> claims_consistent termination (decision_claim_digest env db True org (the (r_approved_decision_id (fst (snd row)))))
         (dispatch_claim_digest env db True org eid)
     \<and> encode_execution_proof (e_sha256 env) (settlement_type termination)
         (settled_payload env db row eid org ts reason termination) = Some proof_text
     \<and> closing_fences db row eid org
     \<and> sql_rowcount (\<lambda>x. o_execution_id x = eid \<and> o_organization_id x = org
          \<and> o_ownership_state x = o_ownership_state (fst row)) (process_ownerships db) = 1
     \<and> ts \<in> {CANCELLED, TIMED_OUT, FAILED, EXECUTION_BLOCKED}
     \<and> is_valid_execution_terminal_outcome ts (Some reason)
     \<and> db' = add_audit (settlement_events env row eid org ts reason termination actor proof_text)
          (close_execution db (e_now env 0) row eid org ts reason termination
              proof_text (v_attempt_number (snd (snd (snd (snd (snd row))))) + 1)
           \<lparr>recovery_attempts := recovery_attempts db
              @ [settlement_attempt env row eid org reason termination worker proof_text]\<rparr>))"

lemma branch_bool: "(b \<Longrightarrow> Q x) \<Longrightarrow> (\<not> b \<Longrightarrow> Q y) \<Longrightarrow> Q (case b of True \<Rightarrow> x | False \<Rightarrow> y)"
  by (cases b) simp_all

text \<open>A settlement that answers yes is a replay of the stored one, or new.\<close>

lemma settled_or_replayed:
  assumes "settle_execution_after_confirmed_termination env jobs db eid org ts reason termination
      pid pgid token session generation worker_id attestation actor = (Inr True, db')"
  shows "(\<exists>row. fetchone (settlement_rows db eid org) = Some row
       \<and> settlement_replayed env db row eid org ts reason termination \<and> db' = db)
    \<or> (\<exists>row proof_text. settles env jobs db eid org ts reason termination pid pgid token session
         (or_else generation []) (or_else worker_id []) attestation actor db' row proof_text)"
proof -
  let ?Q = "\<lambda>x. fst x = Inr True \<longrightarrow> (\<exists>row. fetchone (settlement_rows db eid org) = Some row
       \<and> settlement_replayed env db row eid org ts reason termination \<and> snd x = db)
    \<or> (\<exists>row proof_text. settles env jobs db eid org ts reason
     termination pid pgid token session (or_else generation []) (or_else worker_id []) attestation actor (snd x) row proof_text)"
  have "?Q (settle_execution_after_confirmed_termination env jobs db eid org ts reason termination
      pid pgid token session generation worker_id attestation actor)"
    unfolding settle_execution_after_confirmed_termination_def
    apply (intro branch_flow [where Q = ?Q] branch_bool [where Q = ?Q])
    apply (simp_all only: outcome_simps simp_thms sum.inject sum.distinct HOL.not_True_eq_False)
    apply (rule impI, rule disjI1, rule exI, rule conjI, rule refl, assumption)
    apply (rule disjI2, rule exI, rule exI)
    apply (unfold settles_def settled_payload_def settlement_type_def settlement_attempt_def settlement_events_def)
    apply (intro conjI)
    apply assumption
    apply (simp_all only: fst_conv snd_conv prod.case de_Morgan_disj not_not simp_thms)
    done
  with assms show ?thesis by simp
qed

lemma settled_parts:
  assumes "settle_execution_after_confirmed_termination env jobs db eid org ts reason termination
      pid pgid token session generation worker_id attestation actor = (Inr True, db')"
    and "db' \<noteq> db"
  shows "\<exists>row proof_text. settles env jobs db eid org ts reason termination pid pgid token session
     (or_else generation []) (or_else worker_id []) attestation actor db' row proof_text"
  using settled_or_replayed [OF assms(1)] assms(2) by blast

lemma settlement_rowsD:
  assumes "(p, r, q, d, i, v) \<in> set (settlement_rows db eid org)"
  shows "p \<in> set (process_ownerships db)" "o_execution_id p = eid" "o_organization_id p = org"
    "r \<in> set (execution_runs db)" "r_execution_id r = eid" "r_organization_id r = org"
    "q \<in> set (execution_requests db)" "q_id q = r_request_id r" "q_organization_id q = org"
    "d \<in> set (execution_decisions db)" "r_approved_decision_id r = Some (d_id d)" "d_organization_id d = org"
    "i \<in> set (dispatch_intents db)" "i_execution_id i = eid" "i_organization_id i = org"
    "v \<in> set (recovery_states db)" "v_execution_id v = eid" "v_organization_id v = org"
  using assms by (auto simp: settlement_rows_def requests_of_def decisions_of_def intents_of_def)

lemma sql_update_hit: "x \<in> set t \<Longrightarrow> P x \<Longrightarrow> f x \<in> set (sql_update P f t)"
  and sql_update_miss: "x \<in> set t \<Longrightarrow> \<not> P x \<Longrightarrow> x \<in> set (sql_update P f t)"
  by (force simp: set_sql_update)+

lemma termination_input_pid:
  "termination_input termination pid pgid token session attestation = Some True \<Longrightarrow>
     termination \<in> set process_statuses \<Longrightarrow> \<exists>n. pid = Some n \<and> 1 < n"
  by (cases pid) (auto simp: termination_input_def or_chain_False split: if_splits)

section \<open>When a settlement happens\<close>

text \<open>C13. Only an execution that nobody may run any more is closed this way: a settlement that changes the
  store finds the request, the decision or the session of the execution revoked or expired, and holds
  no lease over a recovery in progress; for a dead process the ownership row is governed and carries
  exactly the process, group, start token and session the caller names.\<close>

theorem settlement_needs_lost_authority:
  assumes "settle_execution_after_confirmed_termination env jobs db eid org ts reason termination
      pid pgid token session generation worker_id attestation actor = (Inr True, db')"
    and "db' \<noteq> db"
  shows "\<exists>p r q d i v. (p, r, q, d, i, v) \<in> set (settlement_rows db eid org)
    \<and> authority_invalid db (e_now env 0) q d \<and> v_status v \<in> {RV_REQUESTED, RV_DEFERRED}
    \<and> (termination \<in> set process_statuses \<longrightarrow> o_ownership_state p = EXTERNAL_PROCESS_GOVERNED
         \<and> o_process_group_id p = pgid \<and> Some (or_else (o_root_process_start_token p) []) = token
         \<and> o_session_id p = map_option str_int session \<and> o_root_process_id p = pid)
    \<and> (termination \<notin> set process_statuses \<longrightarrow> no_process_recorded p)"
proof -
  from settled_parts [OF assms] obtain row proof_text where
    s: "settles env jobs db eid org ts reason termination pid pgid token session (or_else generation [])
      (or_else worker_id []) attestation actor db' row proof_text" by blast
  obtain p r q d i v where row: "row = (p, r, q, d, i, v)" by (cases row)
  from s have mem: "(p, r, q, d, i, v) \<in> set (settlement_rows db eid org)"
    unfolding settles_def row by (blast dest: fetchone_Some_in)
  from s have allowed: "settlement_allowed db (e_now env 0) (p, r, q, d, i, v) termination pid pgid token session ts reason actor"
    unfolding settles_def row by blast
  from s have input: "termination_input termination pid pgid token session attestation = Some True"
    unfolding settles_def by blast
  show ?thesis
  proof (intro exI conjI)
    show "(p, r, q, d, i, v) \<in> set (settlement_rows db eid org)" by (rule mem)
    show "authority_invalid db (e_now env 0) q d" "v_status v \<in> {RV_REQUESTED, RV_DEFERRED}"
      "termination \<notin> set process_statuses \<longrightarrow> no_process_recorded p"
      using allowed by (simp_all add: settlement_allowed_def)
    show "termination \<in> set process_statuses \<longrightarrow> o_ownership_state p = EXTERNAL_PROCESS_GOVERNED
         \<and> o_process_group_id p = pgid \<and> Some (or_else (o_root_process_start_token p) []) = token
         \<and> o_session_id p = map_option str_int session \<and> o_root_process_id p = pid"
      using allowed input by (auto simp: settlement_allowed_def process_outcome_def split: option.splits
          dest!: termination_input_pid)
  qed
qed

section \<open>What a settlement leaves\<close>

lemma settlement_payload_fields:
  "map_of (settlement_payload env row eid org ts reason termination dd sd number aid) ''execution_id'' = Some (JStr eid)"
  "map_of (settlement_payload env row eid org ts reason termination dd sd number aid) ''organization_id'' = Some (JStr org)"
  "map_of (settlement_payload env row eid org ts reason termination dd sd number aid) ''terminal_state'' = Some (JStr (state_name ts))"
  "map_of (settlement_payload env row eid org ts reason termination dd sd number aid) ''reason_code'' = Some (JStr reason)"
  "map_of (settlement_payload env row eid org ts reason termination dd sd number aid) ''recovery_attempt_id'' = Some (JStr aid)"
  "map_of (settlement_payload env row eid org ts reason termination dd sd number aid) ''observed_at'' = Some (JStr (isoformat (e_now env 0)))"
  "termination \<in> set process_statuses \<Longrightarrow>
   map_of (settlement_payload env row eid org ts reason termination dd sd number aid) ''process_id''
     = Some (JInt (the (o_root_process_id (fst row))))"
  "termination \<in> set process_statuses \<Longrightarrow>
   map_of (settlement_payload env row eid org ts reason termination dd sd number aid) ''process_start_token''
     = Some (jopt (o_root_process_start_token (fst row)))"
  by (cases row; simp add: settlement_payload_def common_proof_def termination_fields_def Let_def)+

lemma settlement_payload_keys:
  "set (map fst (settlement_payload env row eid org ts reason termination dd sd number aid)) =
     set (if termination \<in> set process_statuses then EXECUTION_PROOF_TERMINATION_KEYS
          else EXECUTION_PROOF_NO_PROCESS_KEYS)"
  by (cases row) (simp add: settlement_payload_def common_proof_def termination_fields_def Let_def
      EXECUTION_PROOF_TERMINATION_KEYS_def EXECUTION_PROOF_NO_PROCESS_KEYS_def EXECUTION_PROOF_COMMON_KEYS_def)

text \<open>The conditions of a settlement suffice.\<close>

lemma settlement_succeeds:
  assumes "settles env jobs db eid org ts reason termination pid pgid token session (or_else generation [])
      (or_else worker_id []) attestation actor db' row t"
    and "\<not> attempt_taken db (''termination-'' @ e_uuid env 0)"
  shows "settle_execution_after_confirmed_termination env jobs db eid org ts reason termination
      pid pgid token session generation worker_id attestation actor = (Inr True, db')"
proof -
  obtain p r q d i v where row: "row = (p, r, q, d, i, v)" by (cases row)
  note s = assms(1) [unfolded row settles_def fst_conv snd_conv settled_payload_def settlement_type_def]
  show ?thesis
    unfolding settle_execution_after_confirmed_termination_def Let_def
    using s assms(2) settlement_payload_keys
    by (simp only: if_not_P if_P option.case bool.case prod.case not_not de_Morgan_disj simp_thms
        settlement_events_def settlement_attempt_def) (simp add: commit_def)
qed

text \<open>C14. A settlement closes every row of the execution together: its ownership is terminal, its run carries
  the terminal state and reason, its dispatch intent is settled accordingly, its recovery is confirmed,
  and the stored proof decodes to a payload that names this execution, organization, outcome, time of
  closing and, for a dead process, the process of the ownership row.\<close>

theorem settlement_closes_execution:
  assumes "settle_execution_after_confirmed_termination env jobs db eid org ts reason termination
      pid pgid token session generation worker_id attestation actor = (Inr True, db')"
    and "db' \<noteq> db" and "\<forall>s. hex64 (e_sha256 env s)"
  shows "\<exists>p r i v payload. p \<in> set (process_ownerships db') \<and> r \<in> set (execution_runs db')
    \<and> i \<in> set (dispatch_intents db') \<and> v \<in> set (recovery_states db')
    \<and> o_execution_id p = eid \<and> o_organization_id p = org \<and> o_ownership_state p = TERMINAL
    \<and> r_execution_id r = eid \<and> r_organization_id r = org \<and> r_state r = ts \<and> r_reason_code r = Some reason
    \<and> i_execution_id i = eid \<and> i_organization_id i = org \<and> i_state i = closing_dispatch ts
    \<and> v_execution_id v = eid \<and> v_organization_id v = org \<and> v_status v = RV_CONFIRMED_TERMINATED
    \<and> v_last_outcome v = o_no_process_proof p
    \<and> decode_execution_proof (e_sha256 env) (o_no_process_proof p) (Some (settlement_type termination)) = Some payload
    \<and> map_of payload ''execution_id'' = Some (JStr eid) \<and> map_of payload ''organization_id'' = Some (JStr org)
    \<and> map_of payload ''terminal_state'' = Some (JStr (state_name ts))
    \<and> map_of payload ''reason_code'' = Some (JStr reason)
    \<and> map_of payload ''observed_at'' = Some (jtime (o_terminalized_at p))
    \<and> (termination \<in> set process_statuses \<longrightarrow>
         map_of payload ''process_id'' = Some (JInt (the (o_root_process_id p)))
         \<and> map_of payload ''process_start_token'' = Some (jopt (o_root_process_start_token p)))"
proof -
  from settled_parts [OF assms(1,2)] obtain row t where
    s: "settles env jobs db eid org ts reason termination pid pgid token session (or_else generation [])
      (or_else worker_id []) attestation actor db' row t" by blast
  obtain p r q d i v where row: "row = (p, r, q, d, i, v)" by (cases row)
  from s have mem: "(p, r, q, d, i, v) \<in> set (settlement_rows db eid org)"
    unfolding settles_def row by (blast dest: fetchone_Some_in)
  note rows = settlement_rowsD [OF mem]
  from s have allowed: "settlement_allowed db (e_now env 0) (p, r, q, d, i, v) termination pid pgid token session ts reason actor"
    and enc: "encode_execution_proof (e_sha256 env) (settlement_type termination)
         (settled_payload env db row eid org ts reason termination) = Some t"
    and db': "db' = add_audit (settlement_events env row eid org ts reason termination actor t)
          (close_execution db (e_now env 0) row eid org ts reason termination t (v_attempt_number v + 1)
           \<lparr>recovery_attempts := recovery_attempts db
              @ [settlement_attempt env row eid org reason termination (or_else worker_id []) t]\<rparr>)"
    unfolding settles_def row by simp_all
  from encoded_payload [OF enc assms(3)] obtain payload where
    dec: "decode_execution_proof (e_sha256 env) (Some t) (Some (settlement_type termination)) = Some payload"
    and pay: "\<And>k. map_of payload k = map_option canon (map_of (settled_payload env db row eid org ts reason termination) k)"
    by blast
  let ?now = "e_now env 0"
  let ?p = "p\<lparr>o_ownership_state := TERMINAL, o_no_process_proof := Some t,
     o_last_verified_at := (if termination \<in> set process_statuses then o_last_verified_at p else Some ?now),
     o_terminalized_at := Some ?now, o_updated_at := ?now\<rparr>"
  let ?r = "if r_state r \<in> {REQUESTED, STARTING, RUNNING}
     then r\<lparr>r_state := ts, r_reason_code := Some reason, r_finished_at := Some ?now\<rparr> else r"
  let ?i = "if i_state i \<in> {PENDING, CLAIMED} then settle_intent (closing_dispatch ts) ?now (Some reason) i else i"
  let ?v = "v\<lparr>v_status := RV_CONFIRMED_TERMINATED,
     v_worker_generation := Some (or_else (r_worker_generation r) (or_else (v_worker_generation v) [])),
     v_attempt_number := v_attempt_number v + 1, v_last_outcome := Some t, v_last_error := None, v_owner := None,
     v_lease_token := None, v_lease_expires_at := None, v_next_retry_at := None, v_updated_at := ?now\<rparr>"
  have "?p \<in> set (process_ownerships db')"
    unfolding db' row close_execution_def prod.case Let_def
    using rows(1-3) by (auto simp: set_sql_update image_iff intro!: bexI [of _ p])
  moreover have "?r \<in> set (execution_runs db')"
    unfolding db' row close_execution_def prod.case Let_def
    using rows(4-6) by (auto simp: set_sql_update image_iff intro!: bexI [of _ r])
  moreover have "?i \<in> set (dispatch_intents db')"
    unfolding db' row close_execution_def prod.case Let_def
    using rows(13-15) by (auto simp: set_sql_update image_iff intro!: bexI [of _ i])
  moreover have "?v \<in> set (recovery_states db')"
    unfolding db' row close_execution_def prod.case Let_def
    using rows(16-18) allowed by (auto simp: set_sql_update image_iff settlement_allowed_def intro!: bexI [of _ v])
  moreover have "r_state ?r = ts" "r_reason_code ?r = Some reason" "i_state ?i = closing_dispatch ts"
    using allowed by (auto simp: settlement_allowed_def settle_intent_def split: if_splits)
  moreover have "r_execution_id ?r = eid" "r_organization_id ?r = org" "i_execution_id ?i = eid"
    "i_organization_id ?i = org"
    using rows by (simp_all add: settle_intent_def)
  moreover have "map_of payload ''process_id'' = Some (JInt (the (o_root_process_id ?p)))"
    "map_of payload ''process_start_token'' = Some (jopt (o_root_process_start_token ?p))"
    if "termination \<in> set process_statuses"
    using that unfolding pay settled_payload_def
    by (simp_all add: settlement_payload_fields row jopt_def split: option.split)
  moreover have "map_of payload ''execution_id'' = Some (JStr eid)" "map_of payload ''organization_id'' = Some (JStr org)"
    "map_of payload ''terminal_state'' = Some (JStr (state_name ts))"
    "map_of payload ''reason_code'' = Some (JStr reason)"
    "map_of payload ''observed_at'' = Some (jtime (o_terminalized_at ?p))"
    unfolding pay settled_payload_def by (simp_all add: settlement_payload_fields jtime_def)
  ultimately show ?thesis
    using rows dec
    by (intro exI [of _ ?p] exI [of _ ?r] exI [of _ ?i] exI [of _ ?v] exI [of _ payload]) simp
qed

section \<open>A settlement before dispatch\<close>

text \<open>The sample run was approved but never dispatched; its request has expired long since.\<close>

definition hex_env :: "time \<Rightarrow> env" where
  "hex_env t = (env_at t)\<lparr>e_sha256 := sample_digest\<rparr>"

definition late :: time where "late = 1000000000"

definition late_row :: settlement_row where
  "late_row = hd (settlement_rows approved_db ''run-u1'' ''org'')"

definition late_payload :: jobj where
  "late_payload = settled_payload (hex_env late) approved_db late_row ''run-u1'' ''org'' CANCELLED
     ''EXECUTION_CANCELLED_BEFORE_DISPATCH'' ''PRE_DISPATCH''"

lemma late_row_found: "fetchone (settlement_rows approved_db ''run-u1'' ''org'') = Some late_row"
  by code_simp

lemma late_row_allowed:
  "settlement_allowed approved_db (e_now (hex_env late) 0) late_row ''PRE_DISPATCH'' None None None None
     CANCELLED ''EXECUTION_CANCELLED_BEFORE_DISPATCH'' ''coordinator''"
  by code_simp

lemma late_row_unclaimed:
  "decision_claim_digest (hex_env late) approved_db True ''org'' ''dec-u0'' = None"
  "dispatch_claim_digest (hex_env late) approved_db True ''org'' ''run-u1'' = None"
  by code_simp+

lemma late_payload_short: "readable (JObj late_payload)" "length (json_dumps (JObj late_payload)) \<le> 4000"
  "payload_tags ''NO_EXTERNAL_PROCESS'' late_payload"
  by code_simp+

lemma late_row_facts:
  "termination_input ''PRE_DISPATCH'' None None None None None = Some True"
  "o_ownership_state (fst late_row) \<noteq> TERMINAL"
  "r_approved_decision_id (fst (snd late_row)) = Some ''dec-u0''"
  "settlement_binding (fst late_row) (fst (snd late_row)) (fst (snd (snd (snd late_row)))) ''worker'' ''gen''"
  "terminated_identity (hex_env late) [] (fst late_row) ''PRE_DISPATCH'' ''worker'' None = Some True"
  "claims_consistent ''PRE_DISPATCH'' None None"
  "closing_fences approved_db late_row ''run-u1'' ''org''"
  "sql_rowcount (\<lambda>x. o_execution_id x = ''run-u1'' \<and> o_organization_id x = ''org''
          \<and> o_ownership_state x = o_ownership_state (fst late_row)) (process_ownerships approved_db) = 1"
  "is_valid_execution_terminal_outcome CANCELLED (Some ''EXECUTION_CANCELLED_BEFORE_DISPATCH'')"
  "\<not> attempt_taken approved_db (''termination-'' @ e_uuid (hex_env late) 0)"
  "''PRE_DISPATCH'' \<in> set (process_statuses @ no_process_statuses)" "''PRE_DISPATCH'' \<notin> set process_statuses"
  by code_simp+

lemma late_settled:
  obtains db' where
    "settle_execution_after_confirmed_termination (hex_env late) [] approved_db ''run-u1'' ''org'' CANCELLED
       ''EXECUTION_CANCELLED_BEFORE_DISPATCH'' ''PRE_DISPATCH'' None None None None (Some ''gen'')
       (Some ''worker'') None ''coordinator'' = (Inr True, db')" "db' \<noteq> approved_db"
proof -
  have sha: "e_sha256 (hex_env late) = sample_digest" by (simp add: hex_env_def)
  have "settlement_type ''PRE_DISPATCH'' = ''NO_EXTERNAL_PROCESS''"
    using late_row_facts(12) by (simp add: settlement_type_def)
  moreover from short_payload_encodes [of "''NO_EXTERNAL_PROCESS''" late_payload sample_digest]
  obtain t where "encode_execution_proof sample_digest ''NO_EXTERNAL_PROCESS'' late_payload = Some t"
    using late_payload_short by (auto simp: EXECUTION_PROOF_TYPES_def sample_digest_def)
  ultimately have enc: "encode_execution_proof (e_sha256 (hex_env late)) (settlement_type ''PRE_DISPATCH'')
      (settled_payload (hex_env late) approved_db late_row ''run-u1'' ''org'' CANCELLED
        ''EXECUTION_CANCELLED_BEFORE_DISPATCH'' ''PRE_DISPATCH'') = Some t"
    by (simp add: sha late_payload_def)
  let ?attempts = "recovery_attempts approved_db @ [settlement_attempt (hex_env late) late_row ''run-u1'' ''org''
      ''EXECUTION_CANCELLED_BEFORE_DISPATCH'' ''PRE_DISPATCH'' ''worker'' t]"
  let ?db = "add_audit (settlement_events (hex_env late) late_row ''run-u1'' ''org'' CANCELLED
        ''EXECUTION_CANCELLED_BEFORE_DISPATCH'' ''PRE_DISPATCH'' ''coordinator'' t)
      (close_execution approved_db (e_now (hex_env late) 0) late_row ''run-u1'' ''org'' CANCELLED
        ''EXECUTION_CANCELLED_BEFORE_DISPATCH'' ''PRE_DISPATCH'' t
        (v_attempt_number (snd (snd (snd (snd (snd late_row))))) + 1) \<lparr>recovery_attempts := ?attempts\<rparr>)"
  have "settles (hex_env late) [] approved_db ''run-u1'' ''org'' CANCELLED
      ''EXECUTION_CANCELLED_BEFORE_DISPATCH'' ''PRE_DISPATCH'' None None None None (or_else (Some ''gen'') [])
      (or_else (Some ''worker'') []) None ''coordinator'' ?db late_row t"
    unfolding settles_def
    using late_row_found late_row_facts late_row_allowed late_row_unclaimed enc
    by (simp add: or_else_def py_strip_def py_lstrip_def py_space_def)
  from settlement_succeeds [OF this late_row_facts(10)]
  have "settle_execution_after_confirmed_termination (hex_env late) [] approved_db ''run-u1'' ''org'' CANCELLED
       ''EXECUTION_CANCELLED_BEFORE_DISPATCH'' ''PRE_DISPATCH'' None None None None (Some ''gen'')
       (Some ''worker'') None ''coordinator'' = (Inr True, ?db)" .
  moreover have "recovery_attempts ?db = ?attempts" by (simp add: add_audit_def)
  then have "?db \<noteq> approved_db" by (metis append_self_conv not_Cons_self2)
  ultimately show thesis by (rule that)
qed

lemma settlement_needs_lost_authority_witness:
  "\<exists>p r q d i v. (p, r, q, d, i, v) \<in> set (settlement_rows approved_db ''run-u1'' ''org'')
     \<and> authority_invalid approved_db (e_now (hex_env late) 0) q d \<and> no_process_recorded p"
proof -
  obtain db' where "settle_execution_after_confirmed_termination (hex_env late) [] approved_db ''run-u1'' ''org'' CANCELLED
       ''EXECUTION_CANCELLED_BEFORE_DISPATCH'' ''PRE_DISPATCH'' None None None None (Some ''gen'')
       (Some ''worker'') None ''coordinator'' = (Inr True, db')" "db' \<noteq> approved_db" by (rule late_settled)
  from settlement_needs_lost_authority [OF this] late_row_facts(12) show ?thesis by blast
qed

lemma settlement_closes_execution_witness:
  "\<exists>db' p r. settle_execution_after_confirmed_termination (hex_env late) [] approved_db ''run-u1'' ''org'' CANCELLED
       ''EXECUTION_CANCELLED_BEFORE_DISPATCH'' ''PRE_DISPATCH'' None None None None (Some ''gen'')
       (Some ''worker'') None ''coordinator'' = (Inr True, db')
     \<and> p \<in> set (process_ownerships db') \<and> o_execution_id p = ''run-u1'' \<and> o_ownership_state p = TERMINAL
     \<and> r \<in> set (execution_runs db') \<and> r_execution_id r = ''run-u1'' \<and> r_state r = CANCELLED"
proof -
  obtain db' where s: "settle_execution_after_confirmed_termination (hex_env late) [] approved_db ''run-u1'' ''org'' CANCELLED
       ''EXECUTION_CANCELLED_BEFORE_DISPATCH'' ''PRE_DISPATCH'' None None None None (Some ''gen'')
       (Some ''worker'') None ''coordinator'' = (Inr True, db')" "db' \<noteq> approved_db" by (rule late_settled)
  have "\<forall>s. hex64 (e_sha256 (hex_env late) s)" using sample_digest_hex by (simp add: hex_env_def)
  from settlement_closes_execution [OF s this] s(1) show ?thesis by blast
qed

end
