(* ===== verification/Exec_Cancellation.thy ===== *)
theory Exec_Cancellation
  imports Exec_Termination
begin

text \<open>
  \<open>load_durable_process_identity\<close> and \<open>ExecutionCancellationCoordinator\<close> of
  \<open>backend/app/core/execution_service.py\<close>: an execution is cancelled by revoking its request, signalling
  exactly the persisted process, and settling its rows.

  The calls on the store are separate transactions: \<open>others n\<close> is what other clients do to the store before
  the \<open>n\<close>-th of them. The process supervisor and the owning asyncio task are parameters. Only the store
  errors of the modelled operations are raised; a read of the store does not fail.
\<close>

section \<open>Persisted process identities\<close>

record process_identity =
  pi_pid :: int
  pi_process_group_id :: "int option"
  pi_start_token :: string
  pi_session_id :: "int option"
  pi_member_snapshot :: "posix_member list"
  pi_windows_attestation :: "windows_attestation option"

definition process_bearing :: "ProcessOwnershipState list" where
  "process_bearing = [EXTERNAL_PROCESS_GOVERNED, LAUNCH_UNCERTAIN, RECOVERY_BLOCKED]"

definition load_windows_identity ::
    "env \<Rightarrow> job_registry \<Rightarrow> exec_run \<Rightarrow> process_ownership \<Rightarrow> process_identity option" where
  "load_windows_identity env jobs r p =
    (case validate_windows_ownership (e_sha256 env) (e_now env 0) p (r_worker_identity r) False of
       None \<Rightarrow> None
     | Some att \<Rightarrow>
        if o_launch_commit_state p \<in> {COMMITTED, UNCERTAIN} \<and> o_ownership_state p \<in> set process_bearing
           \<and> Some (o_correlation_id p) = r_correlation_id r
           \<and> r_worker_generation r = Some (wa_worker_generation att) \<and> r_process_group_id r = None
           \<and> r_process_id r \<in> {None, Some (wa_root_process_id att)}
           \<and> attested_job (e_now env 1) jobs att True \<noteq> None
        then Some \<lparr> pi_pid = wa_root_process_id att, pi_process_group_id = None,
               pi_start_token = wa_root_process_start_token att, pi_session_id = None, pi_member_snapshot = [],
               pi_windows_attestation = Some att \<rparr>
        else None)"

text \<open>The checks of a POSIX identity: \<open>None\<close> when a conversion of the token's ticks raises.\<close>

definition posix_identity_valid ::
    "(string \<Rightarrow> string) \<Rightarrow> exec_run \<Rightarrow> process_ownership \<Rightarrow> int \<Rightarrow> int \<Rightarrow> int \<Rightarrow> bool option" where
  "posix_identity_valid sha r p pid pgid session =
    (let parts = posix_parts (or_else (o_root_process_start_token p) []); boot = fst (the parts);
         ticks = snd (the parts)
     in unless
       [Some (pid \<le> 1), Some (pgid \<le> 1), Some (session < 0),
        Some (o_container_identity p \<noteq> Some (posix_container (str_int session) (str_int pgid))),
        Some (r_process_id r \<notin> {None, Some pid}), Some (r_process_group_id r \<notin> {None, Some (str_int pgid)}),
        Some (parts = None), Some (\<not> boot_shape boot), Some (\<not> py_isdigit ticks),
        Some (\<not> truthy (o_worker_generation p)), Some (o_worker_generation p \<noteq> r_worker_generation r),
        Some (o_ownership_state p \<notin> set process_bearing), Some (\<not> nonblank (o_identity_attestation p))]
       (case parse_posix_attestation sha (the (o_identity_attestation p)) of
          None \<Rightarrow> Some False
        | Some att \<Rightarrow> unless
            [Some (pa_verification_result att \<noteq> ''VERIFIED''),
             Some (Some (pa_worker_generation att) \<noteq> o_worker_generation p), Some (pa_boot_id att \<noteq> boot),
             int_test ticks (\<lambda>n. pa_root_start_ticks att \<noteq> n), Some (pa_session_id att \<noteq> session),
             Some (pa_process_group_id att \<noteq> pgid)]
            (snapshot_check False boot session pgid pid (o_root_process_start_token p) att)))"

definition load_posix_identity ::
    "env \<Rightarrow> exec_run \<Rightarrow> process_ownership \<Rightarrow> process_identity option option" where
  "load_posix_identity env r p =
    (if o_container_type p \<noteq> POSIX_SESSION \<or> o_launch_commit_state p \<notin> {COMMITTED, UNCERTAIN} then Some None
     else case (o_root_process_id p, py_int (py_str (o_process_group_id p)), py_int (py_str (o_session_id p))) of
       (Some pid, Some pgid, Some session) \<Rightarrow>
         map_option (\<lambda>ok. if \<not> ok then None else
           Some \<lparr> pi_pid = pid, pi_process_group_id = Some pgid, pi_start_token = the (o_root_process_start_token p),
             pi_session_id = Some session,
             pi_member_snapshot = the (pa_member_snapshot (the (parse_posix_attestation (e_sha256 env)
               (the (o_identity_attestation p))))),
             pi_windows_attestation = None \<rparr>) (posix_identity_valid (e_sha256 env) r p pid pgid session)
     | _ \<Rightarrow> Some None)"

text \<open>\<open>load_durable_process_identity\<close> on the stores its two reads see; the outer \<open>None\<close> is a \<open>ValueError\<close>.\<close>

definition load_durable_process_identity ::
    "env \<Rightarrow> job_registry \<Rightarrow> exec_db \<Rightarrow> exec_db \<Rightarrow> string \<Rightarrow> string \<Rightarrow> process_identity option option" where
  "load_durable_process_identity env jobs db_run db_ownership eid org =
    (if py_strip eid = [] \<or> py_strip org = [] then Some None
     else case (get_execution_run db_run eid org, get_process_ownership db_ownership eid org) of
       (Some r, Some p) \<Rightarrow>
         if r_state r \<notin> {REQUESTED, STARTING, RUNNING}
            \<or> o_ownership_state p \<in> {TERMINAL, UNKNOWN, NO_EXTERNAL_PROCESS}
         then Some None
         else if o_container_type p = WINDOWS_JOB then Some (load_windows_identity env jobs r p)
         else load_posix_identity env r p
     | _ \<Rightarrow> Some None)"

section \<open>Outcomes\<close>

record cancellation =
  c_execution_id :: "string option"
  c_request_id :: string
  c_authority_revoked :: bool
  c_process_status :: string
  c_process_confirmed :: bool
  c_durable_terminal :: bool
  c_task_stopped :: bool
  c_recovery_required :: bool
  c_reason_code :: "string option"
  c_error_code :: "string option"

definition no_process_reason :: "string option \<Rightarrow> bool" where
  "no_process_reason reason = (reason \<in> {Some ''EXECUTION_CANCELLED_BEFORE_DISPATCH'',
     Some ''EXECUTION_CANCELLED_BEFORE_PROCESS_CREATION''})"

text \<open>The property \<open>confirmed\<close> of an outcome.\<close>

definition cancellation_confirmed :: "cancellation \<Rightarrow> bool" where
  "cancellation_confirmed c = (c_task_stopped c \<and> c_durable_terminal c
     \<and> (c_process_confirmed c \<or> no_process_reason (c_reason_code c) \<or> c_execution_id c = None))"

definition cancellation_outcome ::
    "string option \<Rightarrow> string \<Rightarrow> bool \<Rightarrow> string \<Rightarrow> bool \<Rightarrow> bool \<Rightarrow> bool \<Rightarrow> string option \<Rightarrow> string option \<Rightarrow> cancellation" where
  "cancellation_outcome eid rid revoked status confirmed terminal_run stopped reason error =
    \<lparr> c_execution_id = eid, c_request_id = rid, c_authority_revoked = revoked, c_process_status = status,
      c_process_confirmed = confirmed, c_durable_terminal = terminal_run, c_task_stopped = stopped,
      c_recovery_required = (\<not> (stopped \<and> terminal_run \<and> (confirmed \<or> no_process_reason reason \<or> eid = None))),
      c_reason_code = reason, c_error_code = error \<rparr>"

definition error_name :: "db_error \<Rightarrow> string" where
  "error_name e = (case e of ValueError \<Rightarrow> ''ValueError'' | RuntimeError \<Rightarrow> ''RuntimeError''
     | IntegrityError \<Rightarrow> ''IntegrityError'')"

section \<open>The coordinator\<close>

text \<open>The surroundings of a cancellation: \<open>x_env n\<close> serves the \<open>n\<close>-th call; the supervisor answers with the name
  of an exception, or a status and whether it is a confirmation; \<open>x_stopped\<close> is what \<open>stop_task\<close> returns.\<close>

record surroundings =
  x_env :: "nat \<Rightarrow> env"
  x_others :: "nat \<Rightarrow> exec_db \<Rightarrow> exec_db"
  x_jobs :: job_registry
  x_supervisor :: "string \<Rightarrow> process_identity option \<Rightarrow> string + string \<times> bool"
  x_stopped :: bool

text \<open>The outcome, the store and the identity the supervisor was given, if it was called.\<close>

type_synonym cancel_run = "(db_error + cancellation) \<times> exec_db \<times> process_identity option option"

definition coordinator :: string where "coordinator = ''execution-cancellation-coordinator''"

text \<open>A settlement of an execution that never had a process.\<close>

definition settle_no_process ::
    "surroundings \<Rightarrow> nat \<Rightarrow> exec_db \<Rightarrow> string \<Rightarrow> string \<Rightarrow> string \<Rightarrow> string \<Rightarrow> string option \<Rightarrow> bool outcome" where
  "settle_no_process x n db eid org reason termination generation =
    settle_execution_after_confirmed_termination (x_env x n) (x_jobs x) (x_others x n db) eid org CANCELLED reason
      termination None None None None generation None None coordinator"

definition settle_process ::
    "surroundings \<Rightarrow> nat \<Rightarrow> exec_db \<Rightarrow> string \<Rightarrow> string \<Rightarrow> string \<Rightarrow> process_identity \<Rightarrow> string option \<Rightarrow> string option \<Rightarrow>
     bool outcome" where
  "settle_process x n db eid org status ident generation worker =
    settle_execution_after_confirmed_termination (x_env x n) (x_jobs x) (x_others x n db) eid org CANCELLED
      ''EXECUTION_CANCELLED'' status (Some (pi_pid ident)) (map_option str_int (pi_process_group_id ident))
      (Some (pi_start_token ident)) (pi_session_id ident) generation worker None coordinator"

text \<open>After the revocation, with the run then read and the ownership row: the process is signalled.\<close>

definition cancel_process ::
    "surroundings \<Rightarrow> exec_db \<Rightarrow> string \<Rightarrow> string \<Rightarrow> string \<Rightarrow> exec_run option \<Rightarrow> process_ownership option \<Rightarrow>
     process_identity option \<Rightarrow> cancel_run" where
  "cancel_process x db rid org eid current p ident =
    (let (status, confirmed, error) = (case x_supervisor x eid ident of
           Inl e \<Rightarrow> (''FAILED'', False, Some e) | Inr (s, c) \<Rightarrow> (s, c, None));
         (settled, db', error') = (if \<not> confirmed then (Inr False, db, error)
           else case ident of
             None \<Rightarrow> (Inr False, db, Some (or_else error ''DURABLE_PROCESS_IDENTITY_REQUIRED_FOR_SETTLEMENT''))
           | Some i \<Rightarrow>
              (case settle_process x 6 db eid org status i (Option.bind p o_worker_generation)
                      (Option.bind current r_worker_identity) of
                 (Inl e, db') \<Rightarrow> (Inl e, db', error)
               | (Inr ok, db') \<Rightarrow>
                   (Inr ok, db', if ok then error else Some (or_else error ''CONFIRMED_TERMINATION_SETTLEMENT_FAILED''))))
     in case settled of
          Inl e \<Rightarrow> (Inl e, db', Some ident)
        | Inr ok \<Rightarrow>
           let final = x_others x 7 db'; r = get_execution_run final eid org;
               reason = (if r \<noteq> None \<and> truthy (r_reason_code (the r)) then r_reason_code (the r)
                         else if ok then Some ''EXECUTION_CANCELLED'' else None)
           in (Inr (cancellation_outcome (Some eid) rid True status confirmed ok (x_stopped x) reason error'),
               final, Some ident))"

definition cancel_revoked ::
    "surroundings \<Rightarrow> exec_db \<Rightarrow> string \<Rightarrow> string \<Rightarrow> string \<Rightarrow> cancel_run" where
  "cancel_revoked x db rid org eid =
    (let db2 = x_others x 2 db; current = get_execution_run db2 eid org
     in if current \<noteq> None \<and> r_state (the current) = CANCELLED
           \<and> r_reason_code (the current) = Some ''EXECUTION_CANCELLED_BEFORE_DISPATCH''
        then (case settle_no_process x 3 db2 eid org ''EXECUTION_CANCELLED_BEFORE_DISPATCH'' ''PRE_DISPATCH''
                     (r_worker_generation (the current)) of
                (Inl e, db') \<Rightarrow> (Inl e, db', None)
              | (Inr ok, db') \<Rightarrow> (Inr (cancellation_outcome (Some eid) rid True ''NOT_FOUND'' False ok (x_stopped x)
                  (Some ''EXECUTION_CANCELLED_BEFORE_DISPATCH'') None), db', None))
        else
        let db3 = x_others x 3 db2; p = get_process_ownership db3 eid org;
            db4 = x_others x 4 db3; db5 = x_others x 5 db4
        in case (if p = None then Some None
                 else load_durable_process_identity (x_env x 4) (x_jobs x) db4 db5 eid org) of
             None \<Rightarrow> (Inl ValueError, db5, None)
           | Some ident \<Rightarrow>
             if p \<noteq> None \<and> o_ownership_state (the p) = NO_EXTERNAL_PROCESS \<and> current \<noteq> None
                \<and> r_state (the current) = STARTING
             then (case settle_no_process x 6 db5 eid org ''EXECUTION_CANCELLED_BEFORE_PROCESS_CREATION''
                          ''NO_EXTERNAL_PROCESS'' (o_worker_generation (the p)) of
                     (Inl e, db') \<Rightarrow> (Inl e, db', None)
                   | (Inr ok, db') \<Rightarrow> (Inr (cancellation_outcome (Some eid) rid True
                        (if ok then ''NO_EXTERNAL_PROCESS'' else ''FAILED'') False ok (x_stopped x)
                        (if ok then Some ''EXECUTION_CANCELLED_BEFORE_PROCESS_CREATION'' else None)
                        (if ok then None else Some ''EXECUTION_NO_PROCESS_SETTLEMENT_FAILED'')), db', None))
             else if (current \<noteq> None \<and> r_state (the current) \<in> {STARTING, RUNNING}
                      \<or> p \<noteq> None \<and> o_ownership_state (the p) \<in> set process_bearing) \<and> ident = None
             then (Inr (cancellation_outcome (Some eid) rid True ''IDENTITY_UNAVAILABLE'' False False (x_stopped x)
                     None (Some ''DURABLE_PROCESS_IDENTITY_UNAVAILABLE'')), db5, None)
             else cancel_process x db5 rid org eid current p ident)"

definition cancel_request :: "surroundings \<Rightarrow> exec_db \<Rightarrow> string \<Rightarrow> string \<Rightarrow> string \<Rightarrow> cancel_run" where
  "cancel_request x db rid org actor =
    (if py_strip rid = [] \<or> py_strip org = [] \<or> py_strip actor = []
     then (Inr (cancellation_outcome None rid False ''INVALID_REQUEST'' False False False None
             (Some ''INVALID_CANCELLATION_REQUEST'')), db, None)
     else
     let db0 = x_others x 0 db; run = get_execution_run_for_request db0 rid org;
         (revoked, db1) = revoke_execution_request (x_env x 1) (x_others x 1 db0) rid org actor
     in case run of
          None \<Rightarrow>
           (case revoked of
              Inl e \<Rightarrow> (Inr (cancellation_outcome None rid False ''FAILED'' False False False None
                 (Some (error_name e))), db1, None)
            | Inr ok \<Rightarrow> (Inr (cancellation_outcome None rid ok (if ok then ''NOT_FOUND'' else ''FAILED'') False ok
                 (x_stopped x) (if ok then Some ''EXECUTION_CANCELLED_BEFORE_DISPATCH'' else None)
                 (if ok then None else Some ''EXECUTION_REQUEST_NOT_FOUND'')), db1, None))
        | Some r \<Rightarrow>
          let eid = r_execution_id r in
          if eid = []
          then (Inr (cancellation_outcome None rid False ''FAILED'' False False False None
                  (Some ''EXECUTION_IDENTITY_MISSING'')), db0, None)
          else if terminal (r_state r)
          then (case revoked of
              Inl e \<Rightarrow> (Inr (cancellation_outcome (Some eid) rid False ''FAILED'' False True False (r_reason_code r)
                 (Some (error_name e))), db1, None)
            | Inr ok \<Rightarrow> (Inr (cancellation_outcome (Some eid) rid ok (if ok then ''ALREADY_EXITED'' else ''FAILED'') ok
                 True (x_stopped x) (r_reason_code r)
                 (if ok then None else Some ''EXECUTION_AUTHORITY_NOT_REVOKED'')), db1, None))
          else (case revoked of
              Inl e \<Rightarrow> (Inr (cancellation_outcome (Some eid) rid False ''FAILED'' False False False None
                 (Some (error_name e))), db1, None)
            | Inr False \<Rightarrow> (Inr (cancellation_outcome (Some eid) rid False ''FAILED'' False False False None
                 (Some ''EXECUTION_AUTHORITY_NOT_REVOKED'')), db1, None)
            | Inr True \<Rightarrow> cancel_revoked x db1 rid org eid))"

end
