(* ===== verification/Cancellation_Lemmas.thy ===== *)
theory Cancellation_Lemmas
  imports Settlement_Properties Exec_Cancellation
begin

text \<open>
  The cancellation coordinator over the store: what an identity read back says about the rows, and what
  every stage of a cancellation leaves, whatever other clients do between its transactions.
\<close>

section \<open>Persisted identities\<close>

text \<open>What an identity read back from the store says about the rows it was read from.\<close>

definition identity_of_rows :: "(string \<Rightarrow> string) \<Rightarrow> exec_run \<Rightarrow> process_ownership \<Rightarrow> process_identity \<Rightarrow> bool" where
  "identity_of_rows sha r p i =
    (o_ownership_state p \<in> set process_bearing \<and> o_launch_commit_state p \<in> {COMMITTED, UNCERTAIN}
     \<and> o_root_process_start_token p = Some (pi_start_token i) \<and> o_root_process_id p = Some (pi_pid i)
     \<and> r_process_id r \<in> {None, Some (pi_pid i)}
     \<and> (o_container_type p = POSIX_SESSION \<and> o_worker_generation p = r_worker_generation r
          \<and> py_int (py_str (o_process_group_id p)) = pi_process_group_id i
          \<and> py_int (py_str (o_session_id p)) = pi_session_id i
          \<and> (\<exists>att. parse_posix_attestation sha (the (o_identity_attestation p)) = Some att
               \<and> pa_member_snapshot att = Some (pi_member_snapshot i)
               \<and> pa_verification_result att = ''VERIFIED'')
          \<and> (\<exists>m \<in> set (pi_member_snapshot i). pm_pid m = pi_pid i \<and> Some (pm_process_group_id m) = pi_process_group_id i
               \<and> pm_start_token m = pi_start_token i)
        \<or> o_container_type p = WINDOWS_JOB \<and> pi_process_group_id i = None \<and> pi_session_id i = None
          \<and> pi_windows_attestation i \<noteq> None))"

lemma snapshot_binds_member:
  assumes "snapshot_binds_root strict boot session pgid root (Some token) seen bound ms = Some True" and "\<not> bound"
  shows "\<exists>m \<in> set ms. pm_pid m = root \<and> pm_process_group_id m = pgid \<and> pm_start_token m = token"
  using assms
proof (induction ms arbitrary: seen bound)
  case (Cons m ms)
  show ?case
  proof (cases "pm_pid m = root \<and> pm_process_group_id m = pgid \<and> pm_start_token m = token")
    case False
    with Cons.prems have "snapshot_binds_root strict boot session pgid root (Some token) (pm_pid m # seen) False ms = Some True"
      by (auto simp: Let_def simp del: or_chain.simps split: option.splits bool.splits)
    with Cons.IH show ?thesis by auto
  qed auto
qed simp

lemma unless_True [simp]: "unless ts next = Some True \<longleftrightarrow> or_chain ts = Some False \<and> next = Some True"
  by (auto simp: unless_def split: option.splits bool.splits)

lemma or_chain_sound: "or_chain ts = Some False \<Longrightarrow> Some b \<in> set ts \<Longrightarrow> \<not> b"
  by (auto simp: or_chain_False)

lemma posix_parts_none: "posix_parts [] = None"
  by code_simp

lemma posix_valid_facts:
  assumes "posix_identity_valid sha r p pid pgid session = Some True"
  obtains t att boot where "o_root_process_start_token p = Some t" "r_process_id r \<in> {None, Some pid}"
    "o_worker_generation p = r_worker_generation r" "o_ownership_state p \<in> set process_bearing"
    "parse_posix_attestation sha (the (o_identity_attestation p)) = Some att"
    "pa_verification_result att = ''VERIFIED''"
    "snapshot_check False boot session pgid pid (Some t) att = Some True"
proof -
  let ?parts = "posix_parts (or_else (o_root_process_start_token p) [])"
  let ?ts = "[Some (pid \<le> 1), Some (pgid \<le> 1), Some (session < 0),
        Some (o_container_identity p \<noteq> Some (posix_container (str_int session) (str_int pgid))),
        Some (r_process_id r \<notin> {None, Some pid}), Some (r_process_group_id r \<notin> {None, Some (str_int pgid)}),
        Some (?parts = None), Some (\<not> boot_shape (fst (the ?parts))), Some (\<not> py_isdigit (snd (the ?parts))),
        Some (\<not> truthy (o_worker_generation p)), Some (o_worker_generation p \<noteq> r_worker_generation r),
        Some (o_ownership_state p \<notin> set process_bearing), Some (\<not> nonblank (o_identity_attestation p))]"
  from assms have chain: "or_chain ?ts = Some False"
    and rest: "(case parse_posix_attestation sha (the (o_identity_attestation p)) of
          None \<Rightarrow> Some False
        | Some att \<Rightarrow> unless
            [Some (pa_verification_result att \<noteq> ''VERIFIED''),
             Some (Some (pa_worker_generation att) \<noteq> o_worker_generation p), Some (pa_boot_id att \<noteq> fst (the ?parts)),
             int_test (snd (the ?parts)) (\<lambda>n. pa_root_start_ticks att \<noteq> n), Some (pa_session_id att \<noteq> session),
             Some (pa_process_group_id att \<noteq> pgid)]
            (snapshot_check False (fst (the ?parts)) session pgid pid (o_root_process_start_token p) att)) = Some True"
    unfolding posix_identity_valid_def Let_def unless_True by blast+
  from rest obtain att where att: "parse_posix_attestation sha (the (o_identity_attestation p)) = Some att"
      "or_chain [Some (pa_verification_result att \<noteq> ''VERIFIED''),
             Some (Some (pa_worker_generation att) \<noteq> o_worker_generation p), Some (pa_boot_id att \<noteq> fst (the ?parts)),
             int_test (snd (the ?parts)) (\<lambda>n. pa_root_start_ticks att \<noteq> n), Some (pa_session_id att \<noteq> session),
             Some (pa_process_group_id att \<noteq> pgid)] = Some False"
      "snapshot_check False (fst (the ?parts)) session pgid pid (o_root_process_start_token p) att = Some True"
    by (cases "parse_posix_attestation sha (the (o_identity_attestation p))")
       (simp_all only: option.case unless_True option.inject simp_thms)
  have "?parts \<noteq> None" by (rule or_chain_sound [OF chain]) simp
  then obtain t where t: "o_root_process_start_token p = Some t"
    by (cases "o_root_process_start_token p") (simp_all add: or_else_def posix_parts_none)
  have "r_process_id r \<in> {None, Some pid}"
    using or_chain_sound [OF chain, of "r_process_id r \<notin> {None, Some pid}"] by simp
  moreover have "o_worker_generation p = r_worker_generation r"
    using or_chain_sound [OF chain, of "o_worker_generation p \<noteq> r_worker_generation r"] by simp
  moreover have "o_ownership_state p \<in> set process_bearing"
    using or_chain_sound [OF chain, of "o_ownership_state p \<notin> set process_bearing"] by simp
  moreover have "pa_verification_result att = ''VERIFIED''"
    using or_chain_sound [OF att(2), of "pa_verification_result att \<noteq> ''VERIFIED''"] by simp
  ultimately show ?thesis using that t att(1,3) by simp
qed

lemma posix_identity_rows:
  assumes "load_posix_identity env r p = Some (Some i)"
  shows "identity_of_rows (e_sha256 env) r p i"
proof -
  from assms obtain pid pgid session where
    ids: "o_root_process_id p = Some pid" "py_int (py_str (o_process_group_id p)) = Some pgid"
      "py_int (py_str (o_session_id p)) = Some session"
    and kind: "o_container_type p = POSIX_SESSION" "o_launch_commit_state p \<in> {COMMITTED, UNCERTAIN}"
    and valid: "posix_identity_valid (e_sha256 env) r p pid pgid session = Some True"
    and i: "i = \<lparr> pi_pid = pid, pi_process_group_id = Some pgid, pi_start_token = the (o_root_process_start_token p),
             pi_session_id = Some session,
             pi_member_snapshot = the (pa_member_snapshot (the (parse_posix_attestation (e_sha256 env)
               (the (o_identity_attestation p))))),
             pi_windows_attestation = None \<rparr>"
    by (auto simp: load_posix_identity_def split: if_splits option.splits)
  from posix_valid_facts [OF valid] obtain t att boot where
    facts: "o_root_process_start_token p = Some t" "r_process_id r \<in> {None, Some pid}"
    "o_worker_generation p = r_worker_generation r" "o_ownership_state p \<in> set process_bearing"
    "parse_posix_attestation (e_sha256 env) (the (o_identity_attestation p)) = Some att"
    "pa_verification_result att = ''VERIFIED''"
    and snap: "snapshot_check False boot session pgid pid (Some t) att = Some True" by blast
  from snap obtain ms where ms: "pa_member_snapshot att = Some ms"
      "snapshot_binds_root False boot session pgid pid (Some t) [] False ms = Some True"
    by (auto simp: snapshot_check_def split: option.splits if_splits)
  from snapshot_binds_member [OF ms(2)] obtain m where "m \<in> set ms" "pm_pid m = pid" "pm_process_group_id m = pgid"
      "pm_start_token m = t" by blast
  with kind ids facts ms(1) show ?thesis
    by (auto simp: identity_of_rows_def i intro!: bexI [of _ m])
qed

lemma windows_identity_rows:
  assumes "load_windows_identity env jobs r p = Some i"
  shows "identity_of_rows (e_sha256 env) r p i"
  using assms
  by (auto simp: load_windows_identity_def identity_of_rows_def validate_windows_ownership_def
      split: option.splits if_splits)

lemma durable_identity_rows:
  assumes "load_durable_process_identity env jobs db db' eid org = Some (Some i)"
  shows "\<exists>r p. get_execution_run db eid org = Some r \<and> get_process_ownership db' eid org = Some p
    \<and> r_state r \<in> {REQUESTED, STARTING, RUNNING} \<and> identity_of_rows (e_sha256 env) r p i"
  using assms posix_identity_rows windows_identity_rows
  by (auto simp: load_durable_process_identity_def split: if_splits option.splits)

section \<open>Signals\<close>

lemma cancel_process_signal: "snd (snd (cancel_process x db rid org eid current p ident)) = Some ident"
  by (simp add: cancel_process_def Let_def split: prod.splits sum.splits)

lemma cancel_revoked_signal:
  assumes "snd (snd (cancel_revoked x db rid org eid)) = Some (Some i)"
  shows "\<exists>d d'. load_durable_process_identity (x_env x 4) (x_jobs x) d d' eid org = Some (Some i)
    \<and> d = x_others x 4 (x_others x 3 (x_others x 2 db)) \<and> d' = x_others x 5 d"
  using assms
  by (auto simp: cancel_revoked_def Let_def cancel_process_signal split: if_splits option.splits prod.splits sum.splits)

lemma cancel_request_signal:
  assumes "snd (snd (cancel_request x db rid org actor)) = Some (Some i)"
  obtains db1 eid where
    "revoke_execution_request (x_env x 1) (x_others x 1 (x_others x 0 db)) rid org actor = (Inr True, db1)"
    "snd (snd (cancel_revoked x db1 rid org eid)) = Some (Some i)"
  using assms
  by (auto simp: cancel_request_def Let_def split: if_splits option.splits prod.splits sum.splits bool.splits)

section \<open>What a step of the coordinator leaves\<close>

definition request_revoked :: "exec_db \<Rightarrow> string \<Rightarrow> string \<Rightarrow> bool" where
  "request_revoked db rid org = (\<exists>q \<in> set (execution_requests db). q_id q = rid \<and> q_organization_id q = org
     \<and> q_state q = ''REVOKED'')"

definition run_is_closed :: "exec_db \<Rightarrow> string \<Rightarrow> string \<Rightarrow> bool" where
  "run_is_closed db eid org = (\<exists>r \<in> set (execution_runs db). r_execution_id r = eid \<and> r_organization_id r = org
     \<and> terminal (r_state r))"

definition good_others :: "surroundings \<Rightarrow> bool" where
  "good_others x = (\<forall>n d. reaches d (x_others x n d))"

lemma request_le_revoked:
  assumes "request_le q q'" and "q_state q = ''REVOKED''"
  shows "q_id q' = q_id q" "q_organization_id q' = q_organization_id q" "q_state q' = ''REVOKED''"
proof -
  show "q_id q' = q_id q" "q_organization_id q' = q_organization_id q"
    using assms(1) by (simp_all add: request_le_def request_key_def)
  from assms obtain e where "q' = q\<lparr>q_expires_at := e\<rparr> \<or> q' = q\<lparr>q_state := ''REVOKED'', q_expires_at := e\<rparr>"
    by (auto simp only: request_le_def)
  then show "q_state q' = ''REVOKED''" using assms(2) by auto
qed

lemma request_revoked_reaches:
  assumes "reaches db db'" "keys_unique db" "request_revoked db rid org"
  shows "request_revoked db' rid org"
proof -
  from assms(3) obtain q where q: "q \<in> set (execution_requests db)" "q_id q = rid" "q_organization_id q = org"
    "q_state q = ''REVOKED''" by (auto simp: request_revoked_def)
  from rows_evolve_old [OF reaches_evolves(3) [OF assms(1,2)] q(1)] obtain q' where
    "q' \<in> set (execution_requests db')" "request_le q q'" by blast
  moreover from this(2) q have "q_id q' = rid" "q_organization_id q' = org" "q_state q' = ''REVOKED''"
    by (simp_all add: request_le_revoked)
  ultimately show ?thesis by (auto simp: request_revoked_def)
qed

lemma run_closed_reaches:
  assumes "reaches db db'" "keys_unique db" "run_is_closed db eid org"
  shows "run_is_closed db' eid org"
proof -
  from assms(3) obtain r where r: "r \<in> set (execution_runs db)" "r_execution_id r = eid" "r_organization_id r = org"
    "terminal (r_state r)" by (auto simp: run_is_closed_def)
  from rows_evolve_old [OF reaches_evolves(1) [OF assms(1,2)] r(1)] obtain r' where
    "r' \<in> set (execution_runs db')" "run_le r r'" by blast
  with r show ?thesis by (auto simp: run_is_closed_def run_le_def)
qed

lemma reaches_trans: "reaches a b \<Longrightarrow> reaches b c \<Longrightarrow> reaches a c"
  by (simp add: reaches_def)

lemma reaches_refl: "reaches a a"
  by (simp add: reaches_def)

lemma revoked_true:
  assumes "revoke_execution_request env db rid org actor = (Inr True, db')"
  shows "request_revoked db' rid org"
proof -
  let ?hit = "\<lambda>q. q_id q = rid \<and> q_organization_id q = org \<and> q_state q \<noteq> ''REVOKED''"
  from assms obtain q where "sql_find (\<lambda>q. q_id q = rid \<and> q_organization_id q = org) (execution_requests db) = Some q"
    and new: "execution_requests db' = sql_update ?hit (\<lambda>q. q\<lparr>q_state := ''REVOKED''\<rparr>) (execution_requests db)"
    by (auto simp: revoke_execution_request_def Let_def commit_def rollback_def add_audit_def
        split: if_splits option.splits)
  then have q: "q \<in> set (execution_requests db)" "q_id q = rid" "q_organization_id q = org"
    by (auto dest: sql_find_Some)
  show ?thesis
  proof (cases "?hit q")
    case True
    from sql_update_hit [OF q(1), of ?hit, OF True, of "\<lambda>q. q\<lparr>q_state := ''REVOKED''\<rparr>"] q show ?thesis
      unfolding request_revoked_def new by (intro bexI [of _ "q\<lparr>q_state := ''REVOKED''\<rparr>"]) simp_all
  next
    case False
    from sql_update_miss [OF q(1), of ?hit, OF False, of "\<lambda>q. q\<lparr>q_state := ''REVOKED''\<rparr>"] False q show ?thesis
      unfolding request_revoked_def new by (intro bexI [of _ q]) auto
  qed
qed

lemma revoke_reaches: "revoke_execution_request env db rid org actor = (a, db') \<Longrightarrow> reaches db db'"
  using reaches1 [OF exec_step.revoke_request, of db env rid org actor] by simp

lemma settles_run:
  assumes "settles env jobs db eid org ts reason termination pid pgid token session gen worker attestation actor db' row t"
  shows "\<exists>r \<in> set (execution_runs db'). r_execution_id r = eid \<and> r_organization_id r = org \<and> r_state r = ts"
proof -
  obtain p r q d i v where row: "row = (p, r, q, d, i, v)" by (cases row)
  from assms have mem: "(p, r, q, d, i, v) \<in> set (settlement_rows db eid org)"
    unfolding settles_def row by (blast dest: fetchone_Some_in)
  note rows = settlement_rowsD [OF mem]
  from assms have allowed: "settlement_allowed db (e_now env 0) (p, r, q, d, i, v) termination pid pgid token session ts reason actor"
    unfolding settles_def row by blast
  from assms have runs: "execution_runs db' = execution_runs (close_execution db (e_now env 0) row eid org ts reason termination
      t (v_attempt_number v + 1))"
    unfolding settles_def row by (simp add: add_audit_def)
  let ?r = "if r_state r \<in> {REQUESTED, STARTING, RUNNING}
     then r\<lparr>r_state := ts, r_reason_code := Some reason, r_finished_at := Some (e_now env 0)\<rparr> else r"
  have "?r \<in> set (execution_runs db')"
    unfolding runs row close_execution_def prod.case Let_def
    using rows(4-6) by (auto simp: set_sql_update image_iff intro!: bexI [of _ r])
  moreover have "r_state ?r = ts"
    using allowed by (auto simp: settlement_allowed_def split: if_splits)
  ultimately show ?thesis using rows(5,6) by (intro bexI [of _ ?r]) simp_all
qed

lemma settled_run_closed:
  assumes "settle_execution_after_confirmed_termination env jobs db eid org CANCELLED reason termination
      pid pgid token session generation worker_id attestation actor = (Inr True, db')"
  shows "run_is_closed db' eid org"
  using settled_or_replayed [OF assms]
proof
  assume "\<exists>row. fetchone (settlement_rows db eid org) = Some row
       \<and> settlement_replayed env db row eid org CANCELLED reason termination \<and> db' = db"
  then obtain row where "row \<in> set (settlement_rows db eid org)"
    "settlement_replayed env db row eid org CANCELLED reason termination" "db' = db"
    by (blast dest: fetchone_Some_in)
  moreover obtain p r q d i v where "row = (p, r, q, d, i, v)" by (cases row)
  ultimately show ?thesis
    by (auto simp: settlement_replayed_def settled_rows_def run_is_closed_def Let_def
        dest: settlement_rowsD(4-6) split: option.splits)
next
  assume "\<exists>row proof_text. settles env jobs db eid org CANCELLED reason termination pid pgid token session
     (or_else generation []) (or_else worker_id []) attestation actor db' row proof_text"
  then obtain row t where "settles env jobs db eid org CANCELLED reason termination pid pgid token session
     (or_else generation []) (or_else worker_id []) attestation actor db' row t" by blast
  from settles_run [OF this] show ?thesis by (auto simp: run_is_closed_def)
qed

lemma settle_process_reaches: "settle_process x n db eid org status i g w = (a, db') \<Longrightarrow> good_others x \<Longrightarrow> reaches db db'"
  unfolding settle_process_def good_others_def
  by (rule reaches_trans [of db "x_others x n db"], blast, drule arg_cong [where f = snd], simp only: snd_conv,
      erule subst, rule reaches1, rule exec_step.settle_dead)

text \<open>Without a worker identity nothing is settled.\<close>

lemma settle_no_process_value: "settle_no_process x n db eid org reason termination g = commit (x_others x n db) False"
  by (simp add: settle_no_process_def settle_execution_after_confirmed_termination_def or_else_def
      py_strip_def py_lstrip_def)

lemma settle_no_process_fails:
  "settle_no_process x n db eid org reason termination g = (Inr b, db') \<Longrightarrow> \<not> b \<and> db' = x_others x n db"
  by (simp add: settle_no_process_value commit_def)

lemma good_othersD: "good_others x \<Longrightarrow> reaches d (x_others x n d)"
  by (simp add: good_others_def)

lemma later_closed:
  assumes "reaches db d" "keys_unique db" "good_others x" "run_is_closed d eid org"
  shows "run_is_closed (x_others x n d) eid org"
  using run_closed_reaches [OF good_othersD [OF assms(3)] _ assms(4)] reaches_keys [OF assms(1,2)] by blast

lemma cancel_process_leaves:
  assumes "cancel_process x db rid org eid current p ident = (Inr c, db', s)" and others: "good_others x"
    and keys: "keys_unique db"
  shows "c_execution_id c = Some eid \<and> reaches db db' \<and> (c_durable_terminal c \<longrightarrow> run_is_closed db' eid org)"
proof -
  have step: "reaches db (x_others x 7 db)" by (rule good_othersD [OF others])
  have settled: "reaches db d \<and> (ok \<longrightarrow> run_is_closed d eid org)"
    if "settle_process x 6 db eid org status i g w = (Inr ok, d)" for status i g w ok d
    using settle_process_reaches [OF that others] that settled_run_closed unfolding settle_process_def by (cases ok) auto
  show ?thesis
    using assms(1) step
    by (auto simp: cancel_process_def Let_def cancellation_outcome_def
        intro: reaches_trans [OF _ good_othersD [OF others]] later_closed [OF _ keys others]
        dest!: settled split: sum.splits prod.splits if_splits option.splits)
qed

lemma cancel_revoked_leaves:
  assumes run: "cancel_revoked x db rid org eid = (Inr c, db', s)" and others: "good_others x"
    and keys: "keys_unique db"
  shows "c_execution_id c = Some eid \<and> reaches db db' \<and> (c_durable_terminal c \<longrightarrow> run_is_closed db' eid org)
    \<and> (s = None \<longrightarrow> \<not> c_durable_terminal c)"
proof -
  let ?d2 = "x_others x 2 db" let ?d5 = "x_others x 5 (x_others x 4 (x_others x 3 ?d2))"
  note to = good_othersD [OF others]
  have d3: "reaches db (x_others x 3 ?d2)" by (rule reaches_trans [OF to to])
  have d5: "reaches db ?d5" by (rule reaches_trans [OF reaches_trans [OF d3 to] to])
  have d6: "reaches db (x_others x 6 ?d5)" by (rule reaches_trans [OF d5 to])
  have k5: "keys_unique ?d5" by (rule reaches_keys [OF d5 keys])
  have proc: "c_execution_id c = Some eid \<and> reaches db db' \<and> (c_durable_terminal c \<longrightarrow> run_is_closed db' eid org)
     \<and> s = Some ident" if "cancel_process x ?d5 rid org eid current p ident = (Inr c, db', s)" for current p ident
    using cancel_process_leaves [OF that others k5] reaches_trans [OF d5] cancel_process_signal [of x ?d5 rid org eid current p ident]
    unfolding that by simp
  show ?thesis
    using run d3 d5 d6
    by (auto simp: cancel_revoked_def Let_def cancellation_outcome_def dest!: settle_no_process_fails proc
        split: if_splits option.splits prod.splits sum.splits)
qed

lemma cancel_request_leaves:
  assumes run: "cancel_request x db rid org actor = (Inr c, db', s)" and others: "good_others x"
    and keys: "keys_unique db"
  shows "(c_authority_revoked c \<longrightarrow> request_revoked db' rid org)
    \<and> (c_durable_terminal c \<longrightarrow> (\<forall>eid. c_execution_id c = Some eid \<longrightarrow> run_is_closed db' eid org))
    \<and> (c_durable_terminal c \<and> c_execution_id c = None \<longrightarrow> c_authority_revoked c)"
proof -
  let ?d0 = "x_others x 0 db"
  note to = good_othersD [OF others]
  obtain a d1 where rev: "revoke_execution_request (x_env x 1) (x_others x 1 ?d0) rid org actor = (a, d1)" by fastforce
  have d1: "reaches ?d0 d1" by (rule reaches_trans [OF to revoke_reaches [OF rev]])
  have k0: "keys_unique ?d0" by (rule reaches_keys [OF to keys])
  have k1: "keys_unique d1" by (rule reaches_keys [OF d1 k0])
  have found: "run_is_closed d1 (r_execution_id r) org"
    if "get_execution_run_for_request ?d0 rid org = Some r" "terminal (r_state r)" for r
    using run_closed_reaches [OF d1 k0, of "r_execution_id r" org] that
    by (auto simp: get_execution_run_for_request_def run_is_closed_def dest!: sql_find_Some)
  have revoked: "request_revoked d1 rid org" if "a = Inr True"
    using revoked_true rev that by simp
  have rest: "request_revoked db' rid org \<and> c_execution_id c = Some eid
      \<and> (c_durable_terminal c \<longrightarrow> run_is_closed db' eid org)"
    if "a = Inr True" "cancel_revoked x d1 rid org eid = (Inr c, db', s)" for eid
    using cancel_revoked_leaves [OF that(2) others k1] request_revoked_reaches [OF _ k1 revoked [OF that(1)]] by blast
  show ?thesis
    using run found revoked rest rev
    by (auto simp: cancel_request_def Let_def cancellation_outcome_def split: if_splits option.splits sum.splits bool.splits)
qed

text \<open>Without a signal to a process, the only executions a cancellation finds closed were closed before it.\<close>

lemma unsignalled_unsettled:
  assumes "cancel_revoked x db rid org eid = (Inr c, db', None)"
  shows "\<not> c_durable_terminal c \<and> c_recovery_required c"
  using assms
  by (auto simp: cancel_revoked_def Let_def cancellation_outcome_def dest!: settle_no_process_fails
      dest: arg_cong [where f = "\<lambda>r. snd (snd r)"] simp: cancel_process_signal
      split: if_splits option.splits prod.splits sum.splits)

end
