(* ===== verification/Cancellation_Samples.thy ===== *)
theory Cancellation_Samples
  imports Cancellation_Lemmas
begin

text \<open>
  The running sample with a governed, attested POSIX process, and its cancellation.
\<close>

section \<open>Cancellations of the sample run\<close>

text \<open>The running sample, its ownership row governed with an attested POSIX process.\<close>

definition sample_member :: posix_member where
  "sample_member = \<lparr> pm_pid = 42, pm_process_group_id = 42, pm_session_id = 42, pm_start_token = ''posix:ab12cd34:7'' \<rparr>"

definition sample_attestation :: posix_attestation where
  "sample_attestation = \<lparr> pa_boot_id = ''ab12cd34'', pa_root_start_ticks = 7, pa_session_id = 42,
     pa_process_group_id = 42, pa_pidfd_supported = False, pa_pidfd_verified = False, pa_worker_generation = ''gen'',
     pa_captured_at = 0, pa_expires_at = 900000000, pa_verification_result = ''VERIFIED'',
     pa_member_snapshot = Some [sample_member], pa_digest = sample_digest [] \<rparr>"

definition sample_members :: json where
  "sample_members = JArr [posix_member_dump sample_member]"

definition sample_fields :: jobj where
  "sample_fields = [(''boot_id'', JStr ''ab12cd34''), (''captured_at'', JStr ''1970-01-01T00:00:00Z''),
     (''digest'', JStr (sample_digest [])), (''expires_at'', JStr ''1970-01-01T00:15:00Z''),
     (''member_snapshot'', sample_members), (''pidfd_supported'', JBool False), (''pidfd_verified'', JBool False),
     (''process_group_id'', JInt 42), (''proof_type'', JStr ''PROC_START_TICKS_SESSION_GROUP''),
     (''root_start_ticks'', JInt 7), (''schema_version'', JStr ''posix-process-attestation-v1''),
     (''session_id'', JInt 42), (''verification_result'', JStr ''VERIFIED''), (''worker_generation'', JStr ''gen'')]"

definition sample_attested :: json where
  "sample_attested = JObj sample_fields"

lemma sample_attested_canonical: "readable sample_attested" "canon sample_attested = sample_attested"
  by code_simp+

lemma sample_members_parse: "parse_snapshot (Some sample_members) = Some (Some [sample_member])"
  by code_simp

lemma sample_instants:
  "canonical_attestation_timestamp (JStr ''1970-01-01T00:00:00Z'') = Some 0"
  "canonical_attestation_timestamp (JStr ''1970-01-01T00:15:00Z'') = Some 900000000"
  by code_simp+

lemma sample_window: "posix_valid_window sample_digest sample_attestation"
  by code_simp

lemma sample_attestation_parses:
  "parse_posix_attestation sample_digest (json_dumps sample_attested) = Some sample_attestation"
proof -
  have "load_strict_attestation (json_dumps sample_attested) = Some sample_fields"
    using json_loads_dumps [OF sample_attested_canonical(1)] sample_attested_canonical(2)
    by (simp add: load_strict_attestation_def sample_attested_def)
  then show ?thesis
    using sample_window sample_digest_hex
    by (simp add: parse_posix_attestation_def sample_fields_def posix_fields_def guard_def strict_str_def strict_int_def
        strict_bool_def strict_time_def sample_instants sample_members_parse sample_attestation_def Let_def)
qed

definition attested_ownership :: process_ownership where
  "attested_ownership = (hd (process_ownerships running_db))\<lparr>
     o_ownership_state := EXTERNAL_PROCESS_GOVERNED, o_container_type := POSIX_SESSION,
     o_container_identity := Some (posix_container ''42'' ''42''), o_root_process_start_token := Some ''posix:ab12cd34:7'',
     o_process_group_id := Some ''42'', o_session_id := Some ''42'',
     o_root_process_id := Some 42, o_worker_generation := Some ''gen'',
     o_launch_commit_state := COMMITTED, o_identity_attestation := Some (json_dumps sample_attested)\<rparr>"

definition attested_db :: exec_db where
  "attested_db = running_db\<lparr>process_ownerships := [attested_ownership]\<rparr>"

definition quiet :: "(string \<Rightarrow> process_identity option \<Rightarrow> string + string \<times> bool) \<Rightarrow> surroundings" where
  "quiet supervisor = \<lparr> x_env = (\<lambda>n. env_at (5 + int n)\<lparr>e_sha256 := sample_digest\<rparr>), x_others = (\<lambda>_ db. db), x_jobs = [],
     x_supervisor = supervisor, x_stopped = True \<rparr>"

definition sample_identity :: process_identity where
  "sample_identity = \<lparr> pi_pid = 42, pi_process_group_id = Some 42, pi_start_token = ''posix:ab12cd34:7'',
     pi_session_id = Some 42, pi_member_snapshot = [sample_member], pi_windows_attestation = None \<rparr>"


lemma quiet_simps [simp]: "x_others (quiet f) n d = d" "x_jobs (quiet f) = []" "x_stopped (quiet f) = True"
  "x_supervisor (quiet f) = f"
  by (simp_all add: quiet_def)

lemma revoke_ownerships:
  "revoke_execution_request env (db\<lparr>process_ownerships := ps\<rparr>) rid org actor
    = (fst (revoke_execution_request env db rid org actor),
       (snd (revoke_execution_request env db rid org actor))\<lparr>process_ownerships := ps\<rparr>)"
  by (simp add: revoke_execution_request_def Let_def commit_def rollback_def add_audit_def
      get_execution_run_for_request_def split: option.split)

lemma attested_ownership_facts:
  "o_execution_id attested_ownership = ''run-u1''" "o_organization_id attested_ownership = ''org''"
proof -
  have "o_execution_id (hd (process_ownerships running_db)) = ''run-u1''"
    "o_organization_id (hd (process_ownerships running_db)) = ''org''" by code_simp+
  then show "o_execution_id attested_ownership = ''run-u1''" "o_organization_id attested_ownership = ''org''"
    by (simp_all add: attested_ownership_def)
qed

lemma attested_ownership_simps:
  "o_ownership_state attested_ownership = EXTERNAL_PROCESS_GOVERNED" "o_container_type attested_ownership = POSIX_SESSION"
  "o_container_identity attested_ownership = Some (posix_container ''42'' ''42'')"
  "o_root_process_start_token attested_ownership = Some ''posix:ab12cd34:7''"
  "o_process_group_id attested_ownership = Some ''42''" "o_session_id attested_ownership = Some ''42''"
  "o_root_process_id attested_ownership = Some 42" "o_worker_generation attested_ownership = Some ''gen''"
  "o_launch_commit_state attested_ownership = COMMITTED"
  "o_identity_attestation attested_ownership = Some (json_dumps sample_attested)"
  by (simp_all add: attested_ownership_def)

lemma sample_running_row:
  "r_process_id (hd (execution_runs running_db)) = Some 42"
  "r_process_group_id (hd (execution_runs running_db)) = Some ''42''"
  "r_worker_generation (hd (execution_runs running_db)) = Some ''gen''"
  by code_simp+

lemma sample_texts:
  "py_int (py_str (Some ''42'')) = Some 42" "str_int 42 = ''42''"
  "posix_parts (or_else (Some ''posix:ab12cd34:7'') []) = Some (''ab12cd34'', ''7'')"
  "boot_shape ''ab12cd34''" "py_isdigit ''7''" "truthy (Some ''gen'')"
  "int_test ''7'' (\<lambda>n. pa_root_start_ticks sample_attestation \<noteq> n) = Some False"
  "snapshot_check False ''ab12cd34'' 42 42 42 (Some ''posix:ab12cd34:7'') sample_attestation = Some True"
  "nonblank (Some (json_dumps sample_attested))"
  by code_simp+

lemma sample_attestation_simps:
  "pa_verification_result sample_attestation = ''VERIFIED''" "pa_worker_generation sample_attestation = ''gen''"
  "pa_boot_id sample_attestation = ''ab12cd34''" "pa_session_id sample_attestation = 42"
  "pa_process_group_id sample_attestation = 42" "pa_member_snapshot sample_attestation = Some [sample_member]"
  by (simp_all add: sample_attestation_def)

lemma sample_identity_loads:
  "load_posix_identity ((env_at 9)\<lparr>e_sha256 := sample_digest\<rparr>) (hd (execution_runs running_db)) attested_ownership
    = Some (Some sample_identity)"
proof -
  have "posix_identity_valid sample_digest (hd (execution_runs running_db)) attested_ownership 42 42 42 = Some True"
    unfolding posix_identity_valid_def Let_def attested_ownership_simps sample_texts option.sel sample_attestation_parses
      sample_running_row unless_True
    by (simp add: or_chain_False sample_texts process_bearing_def sample_attestation_simps)
  then show ?thesis
    by (simp add: load_posix_identity_def attested_ownership_simps sample_texts sample_attestation_parses
        sample_identity_def sample_attestation_simps)
qed

lemma sample_revocation:
  "fst (revoke_execution_request ((env_at 6)\<lparr>e_sha256 := sample_digest\<rparr>) running_db ''req'' ''org'' ''admin'') = Inr True"
  "get_execution_run (snd (revoke_execution_request ((env_at 6)\<lparr>e_sha256 := sample_digest\<rparr>) running_db ''req'' ''org'' ''admin''))
     ''run-u1'' ''org'' = Some (hd (execution_runs running_db))"
  "get_execution_run_for_request running_db ''req'' ''org'' = Some (hd (execution_runs running_db))"
  "r_execution_id (hd (execution_runs running_db)) = ''run-u1''" "r_state (hd (execution_runs running_db)) = RUNNING"
  by code_simp+

lemma run_reads_ownerships:
  "get_execution_run (db\<lparr>process_ownerships := ps\<rparr>) eid org = get_execution_run db eid org"
  "get_execution_run_for_request (db\<lparr>process_ownerships := ps\<rparr>) rid org = get_execution_run_for_request db rid org"
  by (simp_all add: get_execution_run_def get_execution_run_for_request_def)

lemma quiet_env:
  "x_env (quiet f) (Suc 0) = (env_at 6)\<lparr>e_sha256 := sample_digest\<rparr>"
  "x_env (quiet f) 4 = (env_at 9)\<lparr>e_sha256 := sample_digest\<rparr>"
  by (simp_all add: quiet_def)

lemma sample_strip: "py_strip ''req'' \<noteq> []" "py_strip ''org'' \<noteq> []" "py_strip ''admin'' \<noteq> []" "py_strip ''run-u1'' \<noteq> []"
  by code_simp+

lemma sample_signalled:
  "snd (snd (cancel_request (quiet f) attested_db ''req'' ''org'' ''admin'')) = Some (Some sample_identity)"
proof -
  have owner: "get_process_ownership (db\<lparr>process_ownerships := [attested_ownership]\<rparr>) ''run-u1'' ''org'' = Some attested_ownership" for db
    by (simp add: get_process_ownership_def sql_find_def fetchone_def attested_ownership_facts)
  note rev = revoke_ownerships [of "(env_at 6)\<lparr>e_sha256 := sample_digest\<rparr>" "[attested_ownership]" running_db "''req''" "''org''" "''admin''"]
  have load: "load_durable_process_identity ((env_at 9)\<lparr>e_sha256 := sample_digest\<rparr>) [] d d ''run-u1'' ''org'' = Some (Some sample_identity)"
    if "get_execution_run d ''run-u1'' ''org'' = Some (hd (execution_runs running_db))"
      "get_process_ownership d ''run-u1'' ''org'' = Some attested_ownership" for d
    using that by (simp add: load_durable_process_identity_def sample_strip sample_identity_loads attested_ownership_simps sample_revocation)
  show ?thesis
    unfolding cancel_request_def attested_db_def
    by (simp add: sample_strip quiet_env rev sample_revocation run_reads_ownerships split_beta cancel_revoked_def Let_def owner load
        attested_ownership_simps cancel_process_signal)
qed

text \<open>The same cancellation of a finished run, and of one not yet dispatched.\<close>

lemma finished_facts:
  "get_execution_run_for_request finished_db ''req'' ''org'' = Some (hd (execution_runs finished_db))"
  "r_execution_id (hd (execution_runs finished_db)) = ''run-u1''" "r_state (hd (execution_runs finished_db)) = SUCCEEDED"
  "fst (revoke_execution_request ((env_at 6)\<lparr>e_sha256 := sample_digest\<rparr>) finished_db ''req'' ''org'' ''admin'') = Inr True"
  by code_simp+

lemma finished_cancelled:
  obtains c db' where "cancel_request (quiet f) finished_db ''req'' ''org'' ''admin'' = (Inr c, db', None)"
    "cancellation_confirmed c" "c_execution_id c = Some ''run-u1''"
proof -
  have "\<exists>c db'. cancel_request (quiet f) finished_db ''req'' ''org'' ''admin'' = (Inr c, db', None)
    \<and> cancellation_confirmed c \<and> c_execution_id c = Some ''run-u1''"
    by (simp add: cancel_request_def sample_strip quiet_env finished_facts split_beta Let_def cancellation_outcome_def
        cancellation_confirmed_def)
  then show thesis by (blast intro: that)
qed

lemma approved_facts:
  "get_execution_run_for_request approved_db ''req'' ''org'' = Some (hd (execution_runs approved_db))"
  "r_execution_id (hd (execution_runs approved_db)) = ''run-u1''" "r_state (hd (execution_runs approved_db)) = REQUESTED"
  "fst (revoke_execution_request ((env_at 6)\<lparr>e_sha256 := sample_digest\<rparr>) approved_db ''req'' ''org'' ''admin'') = Inr True"
  by code_simp+

definition undispatched_db :: exec_db where
  "undispatched_db = snd (revoke_execution_request ((env_at 6)\<lparr>e_sha256 := sample_digest\<rparr>) approved_db ''req'' ''org'' ''admin'')"

lemma undispatched_facts:
  "get_execution_run undispatched_db ''run-u1'' ''org'' = Some (hd (execution_runs undispatched_db))"
  "map r_state (execution_runs undispatched_db) = [CANCELLED]" "r_state (hd (execution_runs undispatched_db)) = CANCELLED"
  "r_reason_code (hd (execution_runs undispatched_db)) = Some ''EXECUTION_CANCELLED_BEFORE_DISPATCH''"
  by code_simp+

lemma undispatched_cancelled:
  obtains c where "cancel_request (quiet f) approved_db ''req'' ''org'' ''admin'' = (Inr c, undispatched_db, None)"
  by (rule that)
     (simp add: cancel_request_def sample_strip quiet_env approved_facts split_beta Let_def cancel_revoked_def
        undispatched_facts undispatched_db_def [symmetric] settle_no_process_value commit_def)

end
