(* ===== verification/Cancellation_Properties.thy ===== *)
theory Cancellation_Properties
  imports Cancellation_Samples
begin

text \<open>
  The cancellation coordinator over the store: what is signalled is what is recorded, a confirmed
  cancellation leaves a final run and a revoked request, the cancellations that never reach a
  process, and the approval that escapes one.
\<close>

section \<open>What a cancellation promises\<close>

text \<open>C19. A confirmed cancellation is final. Whatever other clients do between its transactions: when the
  outcome of a cancellation is confirmed, the run it names is in a terminal state in the store, the request
  is revoked if the outcome says so, and an outcome that names no run says so.\<close>

theorem confirmed_cancellation_is_final:
  assumes "cancel_request x db rid org actor = (Inr c, db', s)" and "cancellation_confirmed c"
    and "\<forall>n d. reaches d (x_others x n d)" and "keys_unique db"
  shows "(\<forall>eid. c_execution_id c = Some eid \<longrightarrow> (\<exists>r \<in> set (execution_runs db').
      r_execution_id r = eid \<and> r_organization_id r = org \<and> terminal (r_state r)))
    \<and> (c_authority_revoked c \<longrightarrow> (\<exists>q \<in> set (execution_requests db').
      q_id q = rid \<and> q_organization_id q = org \<and> q_state q = ''REVOKED''))
    \<and> (c_execution_id c = None \<longrightarrow> c_authority_revoked c)"
  using cancel_request_leaves [OF assms(1) _ assms(4)] assms(2,3)
  by (simp add: good_others_def cancellation_confirmed_def run_is_closed_def request_revoked_def)

theorem confirmed_cancellation_is_final_witness:
  "\<exists>c db'. cancel_request (quiet (\<lambda>_ _. Inl ''Timeout'')) finished_db ''req'' ''org'' ''admin'' = (Inr c, db', None)
     \<and> c_execution_id c = Some ''run-u1'' \<and> (\<exists>r \<in> set (execution_runs db'). r_execution_id r = ''run-u1''
       \<and> r_organization_id r = ''org'' \<and> terminal (r_state r))"
proof -
  obtain c db' where run: "cancel_request (quiet (\<lambda>_ _. Inl ''Timeout'')) finished_db ''req'' ''org'' ''admin'' = (Inr c, db', None)"
      "cancellation_confirmed c" "c_execution_id c = Some ''run-u1''"
    by (rule finished_cancelled)
  have "\<forall>n d. reaches d (x_others (quiet (\<lambda>_ _. Inl ''Timeout'')) n d)" by (simp add: reaches_refl)
  from confirmed_cancellation_is_final [OF run(1,2) this sample_keys(5)] run show ?thesis by blast
qed

text \<open>C20. Only a recorded process is signalled: the supervisor gets an identity only after the request was
  revoked, and then the pid, start token, process group, session and members it gets are those of the
  governed ownership row of a run not yet terminal, the root among the attested members (a Windows process
  is identified by its attestation).\<close>

theorem signalled_process_is_recorded:
  assumes "cancel_request x db rid org actor = (res, db', Some (Some i))"
  shows "\<exists>db1 d d' eid r p. revoke_execution_request (x_env x 1) (x_others x 1 (x_others x 0 db)) rid org actor = (Inr True, db1)
    \<and> d = x_others x 4 (x_others x 3 (x_others x 2 db1)) \<and> d' = x_others x 5 d
    \<and> get_execution_run d eid org = Some r \<and> r_state r \<in> {REQUESTED, STARTING, RUNNING}
    \<and> get_process_ownership d' eid org = Some p \<and> identity_of_rows (e_sha256 (x_env x 4)) r p i"
proof -
  have "snd (snd (cancel_request x db rid org actor)) = Some (Some i)" using assms by simp
  then obtain db1 eid where rev: "revoke_execution_request (x_env x 1) (x_others x 1 (x_others x 0 db)) rid org actor = (Inr True, db1)"
    and sig: "snd (snd (cancel_revoked x db1 rid org eid)) = Some (Some i)" by (rule cancel_request_signal)
  from cancel_revoked_signal [OF sig] obtain d d' where
    d: "d = x_others x 4 (x_others x 3 (x_others x 2 db1))" "d' = x_others x 5 d"
    and load: "load_durable_process_identity (x_env x 4) (x_jobs x) d d' eid org = Some (Some i)" by blast
  from durable_identity_rows [OF load] rev d show ?thesis by blast
qed

theorem signalled_process_is_recorded_witness:
  "\<exists>eid d r p. get_execution_run d eid ''org'' = Some r \<and> get_process_ownership d eid ''org'' = Some p
     \<and> identity_of_rows sample_digest r p sample_identity"
proof -
  let ?x = "quiet (\<lambda>_ _. Inl ''Timeout'')"
  obtain res db' where "cancel_request ?x attested_db ''req'' ''org'' ''admin'' = (res, db', Some (Some sample_identity))"
    using sample_signalled by (metis prod.collapse)
  from signalled_process_is_recorded [OF this] show ?thesis by (auto simp: quiet_def)
qed

text \<open>C21. A cancellation that signals no process never settles: the coordinator settles an execution that
  has no process without a worker identity, which the store refuses, so such a cancellation of a run that
  was still open is never recorded as durable and always asks for recovery.\<close>

theorem processless_cancellation_unsettled:
  assumes "cancel_request x db rid org actor = (Inr c, db', None)"
    and "get_execution_run_for_request (x_others x 0 db) rid org = Some r" and "\<not> terminal (r_state r)"
  shows "\<not> c_durable_terminal c \<and> c_recovery_required c"
  using assms
  by (auto simp: cancel_request_def Let_def cancellation_outcome_def dest: unsignalled_unsettled
      split: if_splits option.splits prod.splits sum.splits bool.splits)


theorem processless_cancellation_unsettled_witness:
  "\<exists>c db'. cancel_request (quiet (\<lambda>_ _. Inl ''Timeout'')) approved_db ''req'' ''org'' ''admin'' = (Inr c, db', None)
     \<and> map r_state (execution_runs db') = [CANCELLED] \<and> \<not> c_durable_terminal c \<and> c_recovery_required c"
proof -
  obtain c where run: "cancel_request (quiet (\<lambda>_ _. Inl ''Timeout'')) approved_db ''req'' ''org'' ''admin'' = (Inr c, undispatched_db, None)"
    by (rule undispatched_cancelled)
  show ?thesis
    using processless_cancellation_unsettled [OF run] approved_facts undispatched_facts(2) run by simp
qed

section \<open>A cancellation that races the approval\<close>

text \<open>Between the read of the run and the revocation, another client approves the request and starts its run.\<close>

definition approve_and_start :: "exec_db \<Rightarrow> exec_db" where
  "approve_and_start db =
    (let db1 = snd (approve_execution_request (env_at 2) db ''req'' ''org'' ''fp'' ''approve'' ''admin'' ''jti'' ''worker'' ''gen'');
         db2 = snd (claim_execution_authority (env_at 3) db1 ''dec-u0'' ''org'' ''jti'' ''worker'' ''rev'' None None 30)
     in snd (mark_execution_decision_started (env_at 4) db2 ''dec-u0'' ''org'' ''worker'' ''u0'' (Some ''u1'') (Some 42) (Some ''42'') None))"

definition racing :: surroundings where
  "racing = (quiet (\<lambda>_ _. Inr (''NOT_FOUND'', False)))\<lparr>x_others := \<lambda>n db. if n = 1 then approve_and_start db else db\<rparr>"

lemma requested_facts:
  "get_execution_run_for_request requested_db ''req'' ''org'' = None"
  "map r_state (execution_runs (snd (revoke_execution_request ((env_at 6)\<lparr>e_sha256 := sample_digest\<rparr>) running_db
     ''req'' ''org'' ''admin''))) = [RUNNING]"
  by code_simp+

text \<open>C22. The confirmation is not reliable when the approval races it: other clients doing nothing but
  approving the request and starting its run, a cancellation is confirmed while the run is running.\<close>

theorem confirmation_races_approval:
  "(\<forall>n d. reaches d (x_others racing n d))
   \<and> (\<exists>c db'. cancel_request racing requested_db ''req'' ''org'' ''admin'' = (Inr c, db', None) \<and> cancellation_confirmed c
       \<and> map r_state (execution_runs db') = [RUNNING])"
proof
  have "reaches d (approve_and_start d)" for d
    unfolding approve_and_start_def Let_def
    by (rule reaches_trans [OF reaches_trans [OF reaches1 [OF exec_step.approve] reaches1 [OF exec_step.claim_authority]]
          reaches1 [OF exec_step.start]])
  then show "\<forall>n d. reaches d (x_others racing n d)" by (simp add: racing_def reaches_refl)
  have run: "approve_and_start requested_db = running_db"
    by (simp only: approve_and_start_def running_db_def claimed_db_def approved_db_def Let_def)
  have others: "x_others racing 0 db = db" "x_others racing 1 db = approve_and_start db" "x_stopped racing"
    "x_env racing 1 = (env_at 6)\<lparr>e_sha256 := sample_digest\<rparr>" for db
    by (simp_all add: racing_def quiet_env)
  have "cancel_request racing requested_db ''req'' ''org'' ''admin''
      = (Inr (cancellation_outcome None ''req'' True ''NOT_FOUND'' False True True (Some ''EXECUTION_CANCELLED_BEFORE_DISPATCH'') None),
         snd (revoke_execution_request ((env_at 6)\<lparr>e_sha256 := sample_digest\<rparr>) running_db ''req'' ''org'' ''admin''), None)"
    unfolding cancel_request_def Let_def others run requested_facts
    using sample_strip sample_revocation(1) others(3) by (simp add: split_beta)
  moreover have "cancellation_confirmed (cancellation_outcome None ''req'' True ''NOT_FOUND'' False True True
      (Some ''EXECUTION_CANCELLED_BEFORE_DISPATCH'') None)"
    by (simp add: cancellation_confirmed_def cancellation_outcome_def)
  ultimately show "\<exists>c db'. cancel_request racing requested_db ''req'' ''org'' ''admin'' = (Inr c, db', None) \<and> cancellation_confirmed c
       \<and> map r_state (execution_runs db') = [RUNNING]"
    using requested_facts(2) by (intro exI conjI)
qed

end
