(* ===== verification/Exec_Refinement.thy ===== *)
theory Exec_Refinement
  imports Exec_Properties
begin

text \<open>
  The abstract specification of the execution store: a table that gives each execution its tenant and
  its state, which only submits new executions and moves existing ones along the life cycle. The whole
  store, with its seven tables, leases and audit log, implements it.
\<close>

section \<open>The specification\<close>

type_synonym run_table = "string \<rightharpoonup> string \<times> run_state"

inductive lifecycle :: "run_table \<Rightarrow> run_table \<Rightarrow> bool" where
  submit: "m eid = None \<Longrightarrow> lifecycle m (m(eid \<mapsto> (org, REQUESTED)))"
| advance: "m eid = Some (org, s) \<Longrightarrow> run_move s s' \<Longrightarrow> lifecycle m (m(eid \<mapsto> (org, s')))"

definition run_entry :: "exec_run \<Rightarrow> string \<times> string \<times> run_state" where
  "run_entry r = (r_execution_id r, r_organization_id r, r_state r)"

definition run_table_of :: "exec_db \<Rightarrow> run_table" where
  "run_table_of db = map_of (map run_entry (execution_runs db))"

section \<open>Rows and table entries\<close>

lemma map_of_replace:
  "k \<notin> fst ` set xs \<Longrightarrow> map_of (xs @ (k, v') # ys) = (map_of (xs @ (k, v) # ys))(k \<mapsto> v')"
  by (induction xs) (auto simp: fun_upd_twist)

lemma map_of_snoc: "k \<notin> fst ` set xs \<Longrightarrow> map_of (xs @ [(k, v)]) = (map_of xs)(k \<mapsto> v)"
  by (induction xs) (auto simp: fun_upd_twist)

lemma map_of_middle: "k \<notin> fst ` set xs \<Longrightarrow> map_of (xs @ (k, v) # ys) k = Some v"
  by (induction xs) auto

lemma run_entry_keys: "fst ` set (map run_entry rs) = r_execution_id ` set rs"
  by (force simp: run_entry_def)

lemma run_step_entry:
  assumes "run_step r r'"
  shows "r_execution_id r' = r_execution_id r" "r_organization_id r' = r_organization_id r"
    "r_state r' = r_state r \<or> run_move (r_state r) (r_state r')"
  using assms by (auto simp: run_step_def run_key_def)

lemma lifecycle_stays_or_advances:
  assumes "m eid = Some (org, s)" and "s' = s \<or> run_move s s'"
  shows "rtranclp lifecycle m (m(eid \<mapsto> (org, s')))"
  using assms(2)
proof
  assume "s' = s"
  with assms(1) show ?thesis by (simp add: fun_upd_idem)
next
  assume "run_move s s'"
  with lifecycle.advance [where m = m and eid = eid, OF assms(1)] show ?thesis by blast
qed

lemma rows_advance:
  assumes "list_all2 run_step t u" and "distinct (map r_execution_id (pre @ t))"
  shows "rtranclp lifecycle (map_of (map run_entry (pre @ t))) (map_of (map run_entry (pre @ u)))"
  using assms
proof (induction arbitrary: pre rule: list_all2_induct)
  case (Cons x xs y ys)
  note e = run_step_entry [OF Cons(1)]
  have k: "r_execution_id x \<notin> fst ` set (map run_entry pre)"
    using Cons.prems unfolding run_entry_keys by auto
  let ?m = "map_of (map run_entry (pre @ x # xs))"
  have x: "?m (r_execution_id x) = Some (r_organization_id x, r_state x)"
    using map_of_middle [OF k] by (simp add: run_entry_def)
  have y: "map_of (map run_entry (pre @ y # xs)) = ?m(r_execution_id x \<mapsto> (r_organization_id x, r_state y))"
    using map_of_replace [OF k, of "(r_organization_id x, r_state y)" "map run_entry xs" "(r_organization_id x, r_state x)"]
    by (simp add: run_entry_def e)
  have head: "rtranclp lifecycle ?m (map_of (map run_entry (pre @ y # xs)))"
    unfolding y using x e(3) by (rule lifecycle_stays_or_advances)
  have "rtranclp lifecycle (map_of (map run_entry ((pre @ [y]) @ xs))) (map_of (map run_entry ((pre @ [y]) @ ys)))"
    using Cons.prems e(1) by (intro Cons.IH) simp
  with head show ?case by simp
qed simp

lemma rows_submit:
  assumes "list_all run_new v" and "distinct (map r_execution_id (u @ v))"
  shows "rtranclp lifecycle (map_of (map run_entry u)) (map_of (map run_entry (u @ v)))"
  using assms
proof (induction v arbitrary: u)
  case (Cons r v)
  have k: "r_execution_id r \<notin> fst ` set (map run_entry u)"
    using Cons.prems(2) unfolding run_entry_keys by auto
  then have "lifecycle (map_of (map run_entry u)) (map_of (map run_entry (u @ [r])))"
    using Cons.prems(1) map_of_snoc [OF k, of "(r_organization_id r, REQUESTED)"]
      lifecycle.submit [of "map_of (map run_entry u)" "r_execution_id r" "r_organization_id r"]
    by (simp add: run_entry_def run_new_def map_of_eq_None_iff)
  moreover have "rtranclp lifecycle (map_of (map run_entry (u @ [r]))) (map_of (map run_entry ((u @ [r]) @ v)))"
    using Cons.prems by (intro Cons.IH) simp_all
  ultimately show ?case by (simp add: converse_rtranclp_into_rtranclp)
qed simp

lemma step_refines:
  assumes "rows_evolve r_execution_id run_step run_new (execution_runs db) (execution_runs db')"
    and "distinct (map r_execution_id (execution_runs db))"
  shows "rtranclp lifecycle (run_table_of db) (run_table_of db')"
  using assms(1)
proof (rule rows_evolveE)
  fix u v
  assume uv: "execution_runs db' = u @ v" "list_all2 run_step (execution_runs db) u" "list_all run_new v"
  have "distinct (map r_execution_id (u @ v))"
    using run.evolve_distinct [OF assms] uv(1) by simp
  from rows_submit [OF uv(3) this] rows_advance [OF uv(2), of "[]"] assms(2)
  show ?thesis by (auto simp: run_table_of_def uv(1) intro: rtranclp_trans)
qed

section \<open>The refinement\<close>

text \<open>C3. Every sequence of store operations implements a run of the life cycle: on the table of tenants
  and states it submits new executions and advances existing ones, one legal move at a time, and does
  nothing else. No execution disappears, changes tenant, starts anywhere but in \<open>REQUESTED\<close> or skips
  the transition table, whatever the calls, their arguments, their order and their failures.\<close>

theorem store_refines_lifecycle:
  assumes "keys_unique db" and "reaches db db'"
  shows "rtranclp lifecycle (run_table_of db) (run_table_of db')"
proof -
  have "rtranclp step db db'" using reaches_step [OF assms(2,1)] by blast
  then show ?thesis using assms(1)
  proof (induction rule: converse_rtranclp_induct)
    case (step x y)
    then have "rtranclp lifecycle (run_table_of x) (run_table_of y)"
      by (intro step_refines) (simp_all add: step_def db_step_def keys_unique_def)
    moreover have "keys_unique y" using step(1,4) by (auto simp: step_def intro: db_step_keys)
    ultimately show ?case using step.IH by (meson rtranclp_trans)
  qed simp
qed

theorem store_refines_lifecycle_witness:
  "run_table_of running_db ''run-u1'' = Some (''org'', RUNNING) \<and>
   rtranclp lifecycle (run_table_of running_db) (run_table_of finished_db)"
proof
  show "run_table_of running_db ''run-u1'' = Some (''org'', RUNNING)" by code_simp
  have "exec_step running_db finished_db" unfolding finished_db_def by (rule exec_step.finish)
  then show "rtranclp lifecycle (run_table_of running_db) (run_table_of finished_db)"
    by (intro store_refines_lifecycle [OF sample_keys(4)] reaches1)
qed

end
