(* ===== verification/Auth_Password.thy ===== *)
theory Auth_Password
  imports Exec_Proof Py_Text
begin

text \<open>
  Password storage of \<open>backend/app/core/auth.py\<close>: the strength policy, and the
  \<open>pbkdf2_sha256$iterations$salt$hash\<close> records. PBKDF2-HMAC-SHA256 is a parameter from password,
  salt and iteration count to the derived bytes, \<open>None\<close> where \<open>hashlib\<close> raises; byte strings are
  \<open>string\<close>s. Reason texts are not modelled.
\<close>

section \<open>Base64 of the standard library\<close>

definition std_char :: "nat \<Rightarrow> char" where
  "std_char n = (if n = 62 then CHR ''+'' else if n = 63 then CHR 0x2F else b64_char n)"

definition std_value :: "char \<Rightarrow> nat option" where
  "std_value c = (if c = CHR ''+'' then Some 62 else if c = CHR 0x2F then Some 63
     else if c = CHR ''-'' \<or> c = CHR ''_'' then None else b64_value c)"

definition b64_pad :: "nat \<Rightarrow> string" where
  "b64_pad n = replicate ((3 - n mod 3) mod 3) (CHR ''='')"

definition b64encode :: "string \<Rightarrow> string" where
  "b64encode s = map std_char (sextets (map of_char s)) @ b64_pad (length s)"

text \<open>
  \<open>base64.b64decode\<close> without \<open>validate\<close>: characters outside the alphabet are skipped, and a padding
  sequence that completes a group ends the input.
\<close>

fun std_scan :: "nat \<Rightarrow> nat \<Rightarrow> string \<Rightarrow> nat list option" where
  "std_scan q pads [] = (if q = 0 then Some [] else None)"
| "std_scan q pads (c # s) =
     (if c = CHR ''='' then
        (if 2 \<le> q then (if 4 \<le> q + pads + 1 then Some [] else std_scan q (pads + 1) s) else std_scan q pads s)
      else case std_value c of None \<Rightarrow> std_scan q pads s
      | Some v \<Rightarrow> map_option ((#) v) (std_scan ((q + 1) mod 4) 0 s))"

definition b64decode :: "string \<Rightarrow> string option" where
  "b64decode s =
     (if \<not> ascii_text s then None
      else case std_scan 0 0 s of None \<Rightarrow> None | Some vs \<Rightarrow> map_option (map char_of) (octets vs))"

lemma b64decode_samples:
  "b64decode ''TWFu'' = Some ''Man''" "b64decode ''TWE='' = Some ''Ma''" "b64decode ''TQ==TWE='' = Some ''M''"
  "b64decode ''T W!E='' = Some ''Ma''" "b64decode ''TQ'' = None" "b64encode ''Ma'' = ''TWE=''"
  by code_simp+

section \<open>Passwords\<close>

definition COMMON_PASSWORDS :: "string list" where
  "COMMON_PASSWORDS = [''password'', ''admin123'', ''administrator'', ''cyberassess'', ''12345678'']"

definition validate_password_strength :: "string \<Rightarrow> bool" where
  "validate_password_strength password =
     (if length password < 8 then False
      else if 128 < length password then False
      else if py_lower password \<in> set COMMON_PASSWORDS then False
      else True)"

type_synonym pbkdf2 = "string \<Rightarrow> string \<Rightarrow> int \<Rightarrow> string option"

text \<open>\<open>salt\<close> stands for the 16 bytes of \<open>secrets.token_bytes\<close>; \<open>None\<close> is a \<open>ValueError\<close>.\<close>

definition hash_password :: "pbkdf2 \<Rightarrow> string \<Rightarrow> string \<Rightarrow> int \<Rightarrow> string option" where
  "hash_password kdf salt password iterations =
     (case kdf (utf8 password) salt iterations of None \<Rightarrow> None
      | Some dk \<Rightarrow> Some (''pbkdf2_sha256$'' @ str_int iterations @ ''$'' @ b64encode salt @ ''$'' @ b64encode dk))"

definition verify_password :: "pbkdf2 \<Rightarrow> string \<Rightarrow> string \<Rightarrow> bool" where
  "verify_password kdf password hashed =
     (case py_split (CHR ''$'') hashed of
        [scheme, rounds, salt_b64, hash_b64] \<Rightarrow>
          (if scheme \<noteq> ''pbkdf2_sha256'' then False
           else case py_int rounds of None \<Rightarrow> False | Some iterations \<Rightarrow>
             if iterations < 100000 then False
             else case b64decode salt_b64 of None \<Rightarrow> False | Some salt \<Rightarrow>
               case b64decode hash_b64 of None \<Rightarrow> False | Some expected \<Rightarrow>
               case kdf (utf8 password) salt iterations of None \<Rightarrow> False | Some actual \<Rightarrow> actual = expected)
      | _ \<Rightarrow> False)"

section \<open>Decoding what was encoded\<close>

lemma b64_char_not: "n < 64 \<Longrightarrow> n \<noteq> 62 \<Longrightarrow> n \<noteq> 63 \<Longrightarrow> b64_char n \<notin> set ''+/-_=$''"
  by (auto simp: b64_char_def Let_def code_eq)

lemma std_value_char: "n < 64 \<Longrightarrow> std_value (std_char n) = Some n"
  using b64_char_not [of n] by (auto simp: std_value_def std_char_def b64_value_char)

lemma std_char_facts:
  assumes "n < 64"
  shows "std_char n \<noteq> CHR ''=''" "std_char n \<noteq> CHR ''$''" "(of_char (std_char n) :: nat) < 128"
  using assms b64_char_not [of n] by (auto simp: std_char_def b64_char_def Let_def)

lemma std_scan_encoded:
  "list_all (\<lambda>n. n < 256) s \<Longrightarrow>
     std_scan 0 0 (map std_char (sextets s) @ b64_pad (length s)) = Some (sextets s)"
proof (induction s rule: sextets.induct)
  case (4 a b c s)
  have "b64_pad (length (a # b # c # s)) = b64_pad (length s)"
    by (simp add: b64_pad_def mod_Suc)
  moreover have "a div 4 < 64" "a mod 4 * 16 + b div 16 < 64" "b mod 16 * 4 + c div 64 < 64" "c mod 64 < 64"
    using 4(2) by auto
  ultimately show ?case using 4 by (simp add: std_value_char std_char_facts)
qed (auto simp: b64_pad_def std_value_char std_char_facts numeral_2_eq_2)

lemma b64_ascii: "ascii_text (b64encode s)"
  using sextets_bound [OF bytes_bound [of s]] std_char_facts(3)
  by (auto simp: b64encode_def b64_pad_def ascii_text_def list_all_iff)

lemma b64decode_encode: "b64decode (b64encode s) = Some s"
  using std_scan_encoded [OF bytes_bound [of s]] octets_sextets [OF bytes_bound [of s]]
  by (simp add: b64decode_def b64_ascii) (simp add: b64encode_def comp_def)

lemma b64encode_plain: "CHR ''$'' \<notin> set (b64encode s)"
  using sextets_bound [OF bytes_bound [of s]] std_char_facts(2)
  by (force simp: b64encode_def b64_pad_def list_all_iff)

lemma plain_digits_all: "s \<noteq> [] \<Longrightarrow> list_all is_digit s \<Longrightarrow> plain_digits s = Some s"
  by (induction s rule: plain_digits.induct) (auto simp: is_digit_def)

lemma digit_not_space: "is_digit c \<Longrightarrow> \<not> int_space c \<and> c \<noteq> CHR ''+'' \<and> c \<noteq> CHR ''-'' \<and> c \<noteq> CHR ''$''"
  by (auto simp: is_digit_def int_space_def Let_def)

lemma dropWhile_none: "list_all (\<lambda>c. \<not> P c) s \<Longrightarrow> dropWhile P s = s"
  by (cases s) auto

lemma py_int_nat:
  assumes "length (str_nat n) \<le> 4300"
  shows "py_int (str_nat n) = Some (int n)"
proof -
  note d = str_nat_digits [of n]
  have "list_all (\<lambda>c. \<not> int_space c) (str_nat n)" using d digit_not_space by (auto simp: list_all_iff)
  then have s: "rev (dropWhile int_space (rev (dropWhile int_space (str_nat n)))) = str_nat n"
    by (simp add: dropWhile_none list_all_iff)
  from str_nat_head [of n] obtain c r where "str_nat n = c # r" "is_digit c" by blast
  with s plain_digits_all [OF str_nat_nonempty d] assms digit_not_space [of c] str_nat_value [of n]
  show ?thesis by (simp add: py_int_def)
qed

lemma str_nat_short: "n < 10 ^ k \<Longrightarrow> 0 < k \<Longrightarrow> length (str_nat n) \<le> k"
proof (induction k arbitrary: n)
  case (Suc k)
  show ?case
  proof (cases "n < 10")
    case False
    then have "length (str_nat (n div 10)) \<le> k" using Suc by (cases k) (auto simp: less_mult_imp_div_less)
    with False show ?thesis by (subst str_nat.simps) simp
  qed (subst str_nat.simps, simp)
qed simp

section \<open>What a record accepts\<close>

text \<open>\<open>hashlib.pbkdf2_hmac\<close> raises for an iteration count below one or beyond a C int.\<close>

definition bounded_rounds :: "pbkdf2 \<Rightarrow> bool" where
  "bounded_rounds kdf = (\<forall>password salt n. kdf password salt n \<noteq> None \<longrightarrow> 1 \<le> n \<and> n < 2147483648)"

lemma record_parts:
  assumes "1 \<le> n" and "n < 2147483648"
  shows "py_split (CHR ''$'') (''pbkdf2_sha256$'' @ str_int n @ ''$'' @ b64encode salt @ ''$'' @ b64encode dk)
     = [''pbkdf2_sha256'', str_int n, b64encode salt, b64encode dk]"
    "py_int (str_int n) = Some n"
proof -
  have n: "str_int n = str_nat (nat n)" using assms by (simp add: str_int_def)
  have "CHR ''$'' \<notin> set (str_int n)"
    using str_nat_digits [of "nat n"] digit_not_space by (auto simp: n list_all_iff)
  then show "py_split (CHR ''$'') (''pbkdf2_sha256$'' @ str_int n @ ''$'' @ b64encode salt @ ''$'' @ b64encode dk)
     = [''pbkdf2_sha256'', str_int n, b64encode salt, b64encode dk]"
    using py_split_Cons [of "CHR ''$''" "''pbkdf2_sha256''"] by (simp add: py_split_Cons py_split_plain b64encode_plain)
  have "nat n < 10 ^ 10" using assms by simp
  then have "length (str_nat (nat n)) \<le> 10" by (rule str_nat_short) simp
  then show "py_int (str_int n) = Some n" using py_int_nat [of "nat n"] assms by (simp add: n)
qed

text \<open>C33. A stored password record accepts exactly the passwords whose derived key under the stored salt
  and iteration count equals that of the original password, and only if it was made with at least
  100000 iterations: every such password is accepted whatever the salt and key bytes are, and a
  record made with fewer iterations accepts no password at all, not even its own.\<close>

theorem password_record_accepts:
  assumes "bounded_rounds kdf" and "hash_password kdf salt password iterations = Some hashed"
  shows "verify_password kdf attempt hashed \<longleftrightarrow>
    100000 \<le> iterations \<and> kdf (utf8 attempt) salt iterations = kdf (utf8 password) salt iterations"
proof -
  from assms(2) obtain dk where dk: "kdf (utf8 password) salt iterations = Some dk"
    and h: "hashed = ''pbkdf2_sha256$'' @ str_int iterations @ ''$'' @ b64encode salt @ ''$'' @ b64encode dk"
    by (auto simp: hash_password_def split: option.splits)
  from assms(1) dk have "1 \<le> iterations" "iterations < 2147483648" by (auto simp: bounded_rounds_def)
  note parts = record_parts [OF this]
  show ?thesis
    unfolding verify_password_def h parts(1) list.case parts(2) option.case b64decode_encode
    by (auto simp: dk split: option.split)
qed

definition sample_kdf :: pbkdf2 where
  "sample_kdf password salt n = (if 1 \<le> n \<and> n < 2147483648 then Some (salt @ password) else None)"

theorem password_record_accepts_witness:
  "\<exists>hashed. hash_password sample_kdf ''0123456789abcdef'' ''correct horse'' 100000 = Some hashed
     \<and> verify_password sample_kdf ''correct horse'' hashed \<and> \<not> verify_password sample_kdf ''Correct horse'' hashed"
proof -
  have k: "bounded_rounds sample_kdf" by (simp add: bounded_rounds_def sample_kdf_def)
  obtain hashed where h: "hash_password sample_kdf ''0123456789abcdef'' ''correct horse'' 100000 = Some hashed"
    by (simp add: hash_password_def sample_kdf_def)
  have "utf8 ''correct horse'' \<noteq> utf8 ''Correct horse''" by code_simp
  with password_record_accepts [OF k h] h show ?thesis by (auto simp: sample_kdf_def)
qed

end
