(* ===== verification/Auth.thy ===== *)
theory Auth
  imports Exec_Requests
begin

text \<open>
  \<open>backend/app/core/auth.py\<close> apart from passwords: the signing key ring, the scope resolver, access
  tokens, revocation, the resource guards, \<open>get_current_user\<close> and the permission guard, with the
  identity reads of \<open>backend/app/core/db.py\<close> they use.

  PyJWT, SHA-256 and the clock are parameters of the record \<open>auth_env\<close>: \<open>z_jwt_decode token key now\<close>
  is \<open>jwt.decode\<close> with the fixed algorithm, audience, issuer and required claims of the code. The
  details of an \<open>HTTPException\<close> are its text, without the interpolated library message; any other
  exception that leaves a function is \<open>PyError\<close>.
\<close>

section \<open>Identities\<close>

datatype OperatingMode = PRODUCTION | DEVELOPMENT | TEST
datatype PrincipalType = SYSTEM_PRINCIPAL | TENANT_PRINCIPAL
datatype UserRole = ADMIN | SECURITY_ANALYST | DEVELOPER | VIEWER

fun role_name :: "UserRole \<Rightarrow> string" where
  "role_name ADMIN = ''ADMIN''" | "role_name SECURITY_ANALYST = ''SECURITY_ANALYST''"
| "role_name DEVELOPER = ''DEVELOPER''" | "role_name VIEWER = ''VIEWER''"

fun principal_name :: "PrincipalType \<Rightarrow> string" where
  "principal_name SYSTEM_PRINCIPAL = ''SYSTEM_PRINCIPAL''"
| "principal_name TENANT_PRINCIPAL = ''TENANT_PRINCIPAL''"

text \<open>\<open>UserRole(text)\<close> and \<open>PrincipalType(text)\<close>; \<open>None\<close> is the \<open>ValueError\<close>.\<close>

definition role_of :: "string \<Rightarrow> UserRole option" where
  "role_of s = List.find (\<lambda>r. role_name r = s) [ADMIN, SECURITY_ANALYST, DEVELOPER, VIEWER]"

definition principal_of :: "string \<Rightarrow> PrincipalType option" where
  "principal_of s = List.find (\<lambda>p. principal_name p = s) [SYSTEM_PRINCIPAL, TENANT_PRINCIPAL]"

record UserProfile =
  up_id :: string
  up_username :: string
  up_email :: string
  up_role :: UserRole
  up_principal_type :: PrincipalType
  up_organization_id :: string
  up_scopes :: "string list"
  up_is_active :: bool
  up_created_at :: time

text \<open>\<open>if self.principal_type == SYSTEM_PRINCIPAL and self.role == ADMIN\<close>.\<close>

definition system_admin :: "UserProfile \<Rightarrow> bool" where
  "system_admin u = (up_principal_type u = SYSTEM_PRINCIPAL \<and> up_role u = ADMIN)"

text \<open>The validation of a constructed profile.\<close>

definition valid_profile :: "UserProfile \<Rightarrow> bool" where
  "valid_profile u = (3 \<le> length (up_username u) \<and> length (up_username u) \<le> 50
     \<and> (''*'' \<in> set (up_scopes u) \<longrightarrow> system_admin u))"

text \<open>Rows of the \<open>users\<close> table, with the columns the execution tables do not read, and of \<open>api_keys\<close>.\<close>

record identity_row = user_row +
  u_username :: string
  u_email :: string
  u_principal_type :: "string option"
  u_created_at :: time

record api_key_row =
  y_key_id :: string
  y_key_hash :: string
  y_organization_id :: string
  y_user_id :: "string option"
  y_name :: string
  y_scopes :: "string list"
  y_status :: string
  y_created_at :: time
  y_expires_at :: "time option"
  y_revoked_at :: "time option"
  y_last_used_at :: "time option"

record auth_db =
  store :: exec_db
  identities :: "identity_row list"
  api_keys :: "api_key_row list"

section \<open>Process state and parameters\<close>

datatype auth_error = HTTPException nat string | PyError

datatype jwt_error = ExpiredSignatureError | ImmatureSignatureError | InvalidIssuerError
  | InvalidAudienceError | InvalidAlgorithmError | MissingRequiredClaimError | OtherPyJWTError
  | OtherException

record auth_env =
  z_now :: time                       \<comment> \<open>the clock, in microseconds\<close>
  z_env :: env                        \<comment> \<open>what the store operations read\<close>
  z_jti :: string                     \<comment> \<open>\<open>secrets.token_hex(16)\<close>\<close>
  z_jwt_header :: "string \<Rightarrow> jobj option"
  z_jwt_decode :: "string \<Rightarrow> string \<Rightarrow> time \<Rightarrow> jwt_error + jobj"
  z_jwt_peek :: "string \<Rightarrow> jobj option" \<comment> \<open>\<open>jwt.decode\<close> without verification\<close>
  z_jwt_encode :: "jobj \<Rightarrow> string \<Rightarrow> jobj \<Rightarrow> string" \<comment> \<open>payload, key, header\<close>
  z_repr :: "json \<Rightarrow> string"          \<comment> \<open>\<open>str\<close> of a list or a dictionary\<close>

text \<open>The module state: the key ring in insertion order, and the tokens revoked in this process.\<close>

record auth_state =
  operating_mode :: OperatingMode
  jwt_secret :: string
  active_key_id :: string
  key_store :: "(string \<times> string) list"
  revoked_registry :: "string list"

subsection \<open>Configuration\<close>

definition INVALID_SECRET_VALUES :: "string list" where
  "INVALID_SECRET_VALUES = ['''', ''cyberassess-enterprise-secret-key-32b-min'', ''secret'', ''changeme'', ''default'']"

definition upper_ascii :: "char \<Rightarrow> char" where
  "upper_ascii c = (let n = (of_char c :: nat) in if 97 \<le> n \<and> n \<le> 122 then char_of (n - 32) else c)"

text \<open>\<open>os.getenv("OPERATING_MODE", "PRODUCTION").upper()\<close> against the two names.\<close>

definition operating_mode_of :: "string option \<Rightarrow> OperatingMode" where
  "operating_mode_of v =
     (let s = map upper_ascii (case v of None \<Rightarrow> ''PRODUCTION'' | Some s \<Rightarrow> s)
      in if s = ''PRODUCTION'' then PRODUCTION else if s = ''DEVELOPMENT'' then DEVELOPMENT else TEST)"

text \<open>Module start: \<open>None\<close> is the \<open>RuntimeError\<close>; \<open>fresh\<close> is \<open>secrets.token_hex(32)\<close>.\<close>

definition configured_secret :: "OperatingMode \<Rightarrow> string option \<Rightarrow> string \<Rightarrow> string option" where
  "configured_secret mode raw fresh =
     (let s = (case raw of None \<Rightarrow> [] | Some s \<Rightarrow> s)
      in if s = [] \<or> py_lower (py_strip s) \<in> set INVALID_SECRET_VALUES \<or> length (py_strip s) < 32
         then (if mode = PRODUCTION then None else Some fresh)
         else Some (py_strip s))"

definition auth_start :: "string option \<Rightarrow> string option \<Rightarrow> string option \<Rightarrow> string \<Rightarrow> auth_state option" where
  "auth_start mode_text raw kid fresh =
     (let mode = operating_mode_of mode_text; key = (case kid of None \<Rightarrow> ''k-primary'' | Some k \<Rightarrow> k)
      in case configured_secret mode raw fresh of None \<Rightarrow> None
         | Some secret \<Rightarrow> Some \<lparr> operating_mode = mode, jwt_secret = secret, active_key_id = key,
               key_store = [(key, secret)], revoked_registry = [] \<rparr>)"

section \<open>Key ring\<close>

text \<open>\<open>d[k] = v\<close> on a dictionary.\<close>

fun dict_set :: "'k \<Rightarrow> 'v \<Rightarrow> ('k \<times> 'v) list \<Rightarrow> ('k \<times> 'v) list" where
  "dict_set k v [] = [(k, v)]"
| "dict_set k v (e # es) = (if fst e = k then (k, v) # es else e # dict_set k v es)"

definition rotate_signing_key :: "auth_state \<Rightarrow> string \<Rightarrow> string \<Rightarrow> auth_state option" where
  "rotate_signing_key st new_kid new_secret =
     (if py_strip new_kid = [] \<or> 128 < length new_kid then None
      else let secret = py_strip new_secret
        in if length secret < 32 \<or> py_lower secret \<in> set INVALID_SECRET_VALUES then None
           else Some (st\<lparr>key_store := dict_set new_kid secret (key_store st), active_key_id := py_strip new_kid\<rparr>))"

definition retire_signing_key :: "auth_state \<Rightarrow> string \<Rightarrow> auth_state" where
  "retire_signing_key st old_kid =
     (if map_of (key_store st) old_kid \<noteq> None \<and> 1 < length (key_store st)
      then st\<lparr>key_store := filter (\<lambda>e. fst e \<noteq> old_kid) (key_store st)\<rparr> else st)"

section \<open>Scopes\<close>

definition ALL_VALID_SCOPES :: "string list" where
  "ALL_VALID_SCOPES =
    [''scan:create'', ''scan:read'', ''scan:cancel'', ''scan:delete'', ''scan:repeater'', ''scan:internal'',
     ''asset:read'', ''asset:write'', ''asset:delete'',
     ''finding:read'', ''finding:write'', ''finding:triage'', ''finding:risk_accept'',
     ''report:read'', ''tool:read'', ''tool:install'', ''execution:request'', ''execution:approve'',
     ''execution:read'', ''execution:revoke'', ''execution:recovery'']"

fun ROLE_BASE_SCOPES :: "UserRole \<Rightarrow> string list" where
  "ROLE_BASE_SCOPES VIEWER = [''scan:read'', ''asset:read'', ''finding:read'', ''report:read'', ''tool:read'']"
| "ROLE_BASE_SCOPES DEVELOPER =
    [''scan:read'', ''scan:create'', ''scan:cancel'', ''asset:read'', ''asset:write'', ''finding:read'',
     ''finding:write'', ''finding:triage'', ''finding:risk_accept'', ''report:read'', ''tool:read'']"
| "ROLE_BASE_SCOPES SECURITY_ANALYST =
    [''scan:read'', ''scan:create'', ''scan:cancel'', ''scan:repeater'', ''asset:read'', ''asset:write'',
     ''finding:read'', ''finding:write'', ''finding:triage'', ''finding:risk_accept'', ''report:read'', ''tool:read'']"
| "ROLE_BASE_SCOPES ADMIN =
    [''scan:create'', ''scan:read'', ''scan:cancel'', ''scan:delete'', ''scan:repeater'', ''asset:read'',
     ''asset:write'', ''asset:delete'', ''finding:read'', ''finding:write'', ''finding:triage'',
     ''finding:risk_accept'', ''report:read'', ''tool:read'', ''tool:install'', ''execution:request'',
     ''execution:approve'', ''execution:read'', ''execution:revoke'', ''execution:recovery'']"

text \<open>A list or a dictionary cannot be looked up in a set.\<close>

definition hashable :: "json \<Rightarrow> bool" where
  "hashable v = (case v of JArr xs \<Rightarrow> False | JObj kvs \<Rightarrow> False | _ \<Rightarrow> True)"

definition scope_texts :: "json list \<Rightarrow> string list" where
  "scope_texts vs = concat (map (\<lambda>v. case v of JStr s \<Rightarrow> [s] | _ \<Rightarrow> []) vs)"

text \<open>The extras of the profile that count: valid scopes beyond the base, once each.\<close>

fun extra_scopes :: "string list \<Rightarrow> string list \<Rightarrow> string list \<Rightarrow> string list" where
  "extra_scopes base found [] = found"
| "extra_scopes base found (s # ss) =
     (if s = ''*'' then extra_scopes base found ss
      else if s \<in> set ALL_VALID_SCOPES \<and> s \<notin> set base \<and> s \<notin> set found
      then extra_scopes base (found @ [s]) ss else extra_scopes base found ss)"

definition allowed_scopes :: "UserProfile \<Rightarrow> string list" where
  "allowed_scopes u = ROLE_BASE_SCOPES (up_role u)
     @ filter (\<lambda>s. s \<in> set ALL_VALID_SCOPES \<and> s \<noteq> ''*'') (up_scopes u)"

text \<open>\<open>resolve_effective_scopes\<close>; \<open>None\<close> is the \<open>TypeError\<close> of an element that cannot be hashed.\<close>

definition resolve_effective_scopes :: "UserProfile \<Rightarrow> json list option \<Rightarrow> string list option" where
  "resolve_effective_scopes u explicit =
     (if system_admin u \<and> explicit = None then Some [''*'']
      else if system_admin u \<and> JStr ''*'' \<in> set (the explicit) then Some [''*'']
      else case explicit of
        Some vs \<Rightarrow>
          (if \<not> list_all hashable vs then None
           else Some (dict_fromkeys (filter (\<lambda>s. s \<in> set (allowed_scopes u) \<and> s \<noteq> ''*'') (scope_texts vs))))
      | None \<Rightarrow> Some (ROLE_BASE_SCOPES (up_role u)
           @ extra_scopes (ROLE_BASE_SCOPES (up_role u)) [] (up_scopes u)))"

section \<open>Access tokens\<close>

definition JWT_ISSUER :: string where "JWT_ISSUER = ''CyberAssess-Control-Plane''"
definition JWT_AUDIENCE :: string where "JWT_AUDIENCE = ''CyberAssess-Platform''"

definition ALLOWED_JWT_ALGORITHMS :: "string list" where
  "ALLOWED_JWT_ALGORITHMS = [''HS256'']"

definition now_seconds :: "auth_env \<Rightarrow> int" where
  "now_seconds z = z_now z div 1000000"

definition token_scopes :: "UserProfile \<Rightarrow> string list option \<Rightarrow> string list" where
  "token_scopes u scopes =
     (case scopes of
        Some ss \<Rightarrow>
          (if system_admin u
           then (if ''*'' \<in> set ss then [''*''] else filter (\<lambda>s. s \<in> set ALL_VALID_SCOPES) ss)
           else (let allowed = the (resolve_effective_scopes u None)
                 in filter (\<lambda>s. s \<in> set allowed \<and> s \<noteq> ''*'') ss))
      | None \<Rightarrow> the (resolve_effective_scopes u None))"

definition token_payload :: "auth_state \<Rightarrow> auth_env \<Rightarrow> UserProfile \<Rightarrow> int \<Rightarrow> string list \<Rightarrow> jobj" where
  "token_payload st z u expires_in scopes =
    [(''iss'', JStr JWT_ISSUER), (''aud'', JStr JWT_AUDIENCE), (''sub'', JStr (up_id u)),
     (''username'', JStr (up_username u)), (''email'', JStr (up_email u)), (''role'', JStr (role_name (up_role u))),
     (''principal_type'', JStr (principal_name (up_principal_type u))), (''org_id'', JStr (up_organization_id u)),
     (''scopes'', JArr (map JStr scopes)), (''iat'', JInt (now_seconds z)), (''nbf'', JInt (now_seconds z)),
     (''exp'', JInt (now_seconds z + expires_in)), (''jti'', JStr (z_jti z))]
    @ (if operating_mode st \<noteq> PRODUCTION then [(''synthetic_fixture'', JBool True)] else [])"

definition signing_key :: "auth_state \<Rightarrow> string" where
  "signing_key st = (case map_of (key_store st) (active_key_id st) of Some k \<Rightarrow> k | None \<Rightarrow> jwt_secret st)"

text \<open>\<open>create_access_token\<close>: the token, and the profile whose scopes it overwrites.\<close>

definition create_access_token ::
    "auth_state \<Rightarrow> auth_env \<Rightarrow> UserProfile \<Rightarrow> int \<Rightarrow> string list option \<Rightarrow> string \<times> UserProfile" where
  "create_access_token st z u expires_in scopes =
    (let granted = token_scopes u scopes; u' = u\<lparr>up_scopes := granted\<rparr>
     in (z_jwt_encode z (token_payload st z u' expires_in granted) (signing_key st)
           [(''typ'', JStr ''JWT''), (''kid'', JStr (active_key_id st))], u'))"

abbreviation unauthorized :: "string \<Rightarrow> auth_error + 'a" where
  "unauthorized detail \<equiv> Inl (HTTPException 401 detail)"

fun jwt_detail :: "jwt_error \<Rightarrow> string" where
  "jwt_detail ExpiredSignatureError = ''Token has expired.''"
| "jwt_detail ImmatureSignatureError = ''Token is not yet valid.''"
| "jwt_detail InvalidIssuerError = ''Invalid token issuer.''"
| "jwt_detail InvalidAudienceError = ''Invalid token audience.''"
| "jwt_detail InvalidAlgorithmError = ''Unsupported or forbidden token algorithm: ''"
| "jwt_detail MissingRequiredClaimError = ''Mandatory claim missing: ''"
| "jwt_detail OtherPyJWTError = ''Token signature verification failed: ''"
| "jwt_detail OtherException = ''Token validation failed: ''"

text \<open>\<open>payload.get(key)\<close>: a missing key reads as \<open>None\<close>.\<close>

definition claim :: "jobj \<Rightarrow> string \<Rightarrow> json" where
  "claim payload k = (case map_of payload k of None \<Rightarrow> JNull | Some v \<Rightarrow> v)"

text \<open>\<open>bool(v)\<close> of a JSON value, and a value as an SQL text parameter (\<open>None\<close> cannot be bound).\<close>

definition json_truth :: "json \<Rightarrow> bool" where
  "json_truth v = (v \<notin> {JNull, JBool False, JInt 0, JStr [], JArr [], JObj []})"

definition sql_text :: "json \<Rightarrow> string option" where
  "sql_text v = (case v of JStr s \<Rightarrow> Some s | JInt n \<Rightarrow> Some (str_int n)
     | JBool b \<Rightarrow> Some (if b then ''1'' else ''0'') | _ \<Rightarrow> None)"

definition decode_access_token :: "auth_state \<Rightarrow> auth_env \<Rightarrow> auth_db \<Rightarrow> string \<Rightarrow> auth_error + jobj" where
  "decode_access_token st z db token =
    (if token = [] then unauthorized ''Invalid token format.''
     else if token \<in> set (revoked_registry st) then unauthorized ''Token has been revoked.''
     else case z_jwt_header z token of None \<Rightarrow> unauthorized ''Invalid token format.'' | Some header \<Rightarrow>
     if \<not> json_truth (claim header ''alg'') \<or> claim header ''alg'' \<notin> JStr ` set ALLOWED_JWT_ALGORITHMS
     then unauthorized ''Unsupported or forbidden token algorithm ''
     else case claim header ''kid'' of
       JStr kid \<Rightarrow>
         (case (if py_strip kid = [] then None else map_of (key_store st) kid) of
            None \<Rightarrow> unauthorized ''Unknown or missing token key identifier.''
          | Some verification_key \<Rightarrow>
            (case z_jwt_decode z token verification_key (z_now z) of
               Inl e \<Rightarrow> unauthorized (jwt_detail e)
             | Inr payload \<Rightarrow>
                 (if json_truth (claim payload ''jti'')
                  then (case sql_text (claim payload ''jti'') of None \<Rightarrow> Inl PyError
                        | Some jti \<Rightarrow> (if is_token_revoked (store db) jti
                                       then unauthorized ''Token has been revoked.'' else Inr payload))
                  else Inr payload)))
     | _ \<Rightarrow> unauthorized ''Unknown or missing token key identifier.'')"

text \<open>\<open>datetime.fromtimestamp(v, tz=utc)\<close> of a JSON value: \<open>None\<close> where it raises.\<close>

definition from_timestamp :: "json \<Rightarrow> time option" where
  "from_timestamp v = (case v of
     JInt n \<Rightarrow> (if -62135596800 \<le> n \<and> n < 253402300800 then Some (n * 1000000) else None)
   | JBool b \<Rightarrow> Some (if b then 1000000 else 0) | _ \<Rightarrow> None)"

section \<open>Revocation\<close>

text \<open>\<open>revoke_token\<close>: durably by token identifier, then in the registry of this process.\<close>

definition revoke_access_token ::
    "auth_state \<Rightarrow> auth_env \<Rightarrow> auth_db \<Rightarrow> string \<Rightarrow> (auth_error + bool) \<times> auth_state \<times> auth_db" where
  "revoke_access_token st z db token =
    (case z_jwt_peek z token of None \<Rightarrow> (Inr False, st, db) | Some payload \<Rightarrow>
     if \<not> json_truth (claim payload ''jti'') then (Inr False, st, db)
     else case (if json_truth (claim payload ''exp'') then map_option Some (from_timestamp (claim payload ''exp''))
                else Some None) of
       None \<Rightarrow> (Inl PyError, st, db)
     | Some expiry \<Rightarrow>
         (case sql_text (claim payload ''jti'') of None \<Rightarrow> (Inl PyError, st, db)
          | Some jti \<Rightarrow>
            (Inr True, st\<lparr>revoked_registry := token # revoked_registry st\<rparr>,
             db\<lparr>store := snd (revoke_token (z_env z) (store db) jti
                   (Some (e_sha256 (z_env z) token)) (map_option isoformat expiry))\<rparr>)))"

section \<open>Resource guards\<close>

definition writer_role :: "UserRole \<Rightarrow> bool" where
  "writer_role r = (r \<in> {ADMIN, SECURITY_ANALYST, DEVELOPER})"

text \<open>The resource is given by its \<open>organization_id\<close>.\<close>

definition authorize_asset_access :: "UserProfile \<Rightarrow> string option \<Rightarrow> string \<Rightarrow> bool" where
  "authorize_asset_access u org action =
    (if system_admin u then True
     else if \<not> truthy org \<or> org \<noteq> Some (up_organization_id u) then False
     else if action = ''write'' \<and> \<not> writer_role (up_role u) then False
     else if action = ''delete'' \<and> up_role u \<noteq> ADMIN then False
     else True)"

definition authorize_scan_access :: "UserProfile \<Rightarrow> string option \<Rightarrow> string \<Rightarrow> bool" where
  "authorize_scan_access u org action =
    (if system_admin u then True
     else if \<not> truthy org \<or> org \<noteq> Some (up_organization_id u) then False
     else if action \<in> {''control'', ''cancel'', ''delete''} \<and> \<not> writer_role (up_role u) then False
     else True)"

definition authorize_finding_access :: "UserProfile \<Rightarrow> string option \<Rightarrow> string \<Rightarrow> bool" where
  "authorize_finding_access u org action =
    (if system_admin u then True
     else if \<not> truthy org \<or> org \<noteq> Some (up_organization_id u) then False
     else if action = ''triage'' \<and> \<not> writer_role (up_role u) then False
     else True)"

definition authorize_internal_target :: "UserProfile \<Rightarrow> bool" where
  "authorize_internal_target u =
    (if ''scan:internal'' \<in> set (up_scopes u) then True
     else if ''*'' \<in> set (up_scopes u) \<and> system_admin u then True
     else False)"

section \<open>Identities in the database\<close>

text \<open>A profile from a \<open>users\<close> row; \<open>None\<close> where an enumeration or the profile's validation raises.\<close>

definition row_profile :: "identity_row \<Rightarrow> PrincipalType \<Rightarrow> bool \<Rightarrow> UserProfile option" where
  "row_profile row ptype active =
    (case role_of (u_role row) of None \<Rightarrow> None
     | Some r \<Rightarrow>
        (let u = \<lparr> up_id = u_id row, up_username = u_username row, up_email = u_email row, up_role = r,
               up_principal_type = ptype, up_organization_id = u_organization_id row, up_scopes = [],
               up_is_active = active, up_created_at = u_created_at row \<rparr>
         in if valid_profile u then Some u else None))"

definition get_user_by_id :: "auth_db \<Rightarrow> string \<Rightarrow> auth_error + UserProfile option" where
  "get_user_by_id db uid =
    (case sql_find (\<lambda>u. u_id u = uid) (identities db) of None \<Rightarrow> Inr None
     | Some row \<Rightarrow>
        (case (if truthy (u_principal_type row) then principal_of (the (u_principal_type row))
               else Some TENANT_PRINCIPAL) of
           None \<Rightarrow> Inl PyError
         | Some ptype \<Rightarrow>
            (case row_profile row ptype (u_is_active row) of None \<Rightarrow> Inl PyError | Some u \<Rightarrow> Inr (Some u))))"

text \<open>The profile an API key without a user stands for.\<close>

definition key_profile :: "auth_env \<Rightarrow> api_key_row \<Rightarrow> UserProfile" where
  "key_profile z k =
    \<lparr> up_id = ''usr-key-'' @ y_key_id k, up_username = ''apikey-'' @ y_name k,
      up_email = ''apikey-'' @ y_name k @ ''@cyberassess.local'', up_role = SECURITY_ANALYST,
      up_principal_type = TENANT_PRINCIPAL, up_organization_id = y_organization_id k, up_scopes = [],
      up_is_active = True, up_created_at = z_now z \<rparr>"

text \<open>\<open>verify_api_key_hash\<close>: the key and its profile; a raised error rolls the use time back.\<close>

definition verify_api_key_hash ::
    "auth_env \<Rightarrow> auth_db \<Rightarrow> string \<Rightarrow> (auth_error + (api_key_row \<times> UserProfile) option) \<times> auth_db" where
  "verify_api_key_hash z db hash =
    (case sql_find (\<lambda>k. y_key_hash k = hash \<and> y_revoked_at k = None \<and> y_status k = ''ACTIVE'') (api_keys db) of
       None \<Rightarrow> (Inr None, db)
     | Some k \<Rightarrow>
       if (case y_expires_at k of None \<Rightarrow> False | Some t \<Rightarrow> t \<le> z_now z) then (Inr None, db)
       else let used = db\<lparr>api_keys := sql_update (\<lambda>x. y_key_id x = y_key_id k)
                   (\<lambda>x. x\<lparr>y_last_used_at := Some (z_now z)\<rparr>) (api_keys db)\<rparr>
         in if truthy (y_user_id k)
            then (case sql_find (\<lambda>u. Some (u_id u) = y_user_id k) (identities db) of
                    None \<Rightarrow> (Inr None, used)
                  | Some row \<Rightarrow>
                    if \<not> u_is_active row \<or> u_organization_id row \<noteq> y_organization_id k then (Inr None, used)
                    else case (case u_principal_type row of None \<Rightarrow> None | Some t \<Rightarrow> principal_of t) of
                      None \<Rightarrow> (Inr None, used)
                    | Some ptype \<Rightarrow>
                        (case row_profile row ptype True of None \<Rightarrow> (Inl PyError, db)
                         | Some u \<Rightarrow> (Inr (Some (k, u)), used)))
            else (if valid_profile (key_profile z k) then (Inr (Some (k, key_profile z k)), used)
                  else (Inl PyError, db)))"

definition revoke_api_key :: "auth_env \<Rightarrow> auth_db \<Rightarrow> string \<Rightarrow> string option \<Rightarrow> bool \<times> auth_db" where
  "revoke_api_key z db key_id org =
    (let hit = (\<lambda>k. y_key_id k = key_id \<and> (truthy org \<longrightarrow> Some (y_organization_id k) = org))
     in (0 < sql_rowcount hit (api_keys db),
         db\<lparr>api_keys := sql_update hit (\<lambda>k. k\<lparr>y_revoked_at := Some (z_now z), y_status := ''REVOKED''\<rparr>) (api_keys db)\<rparr>))"

section \<open>Who is calling\<close>

text \<open>A text header that is present and not blank.\<close>

definition credential :: "string option \<Rightarrow> bool" where
  "credential h = (case h of None \<Rightarrow> False | Some s \<Rightarrow> py_strip s \<noteq> [])"

definition bearer_token :: "string option \<Rightarrow> string option" where
  "bearer_token h =
    (if \<not> credential h then None
     else case py_split (CHR '' '') (py_strip (the h)) of
       [scheme, token] \<Rightarrow> (if py_lower scheme = ''bearer'' then Some token else None)
     | _ \<Rightarrow> None)"

text \<open>\<open>str(v)\<close> of a claim.\<close>

definition text_of :: "auth_env \<Rightarrow> json \<Rightarrow> string" where
  "text_of z v = (case v of JStr s \<Rightarrow> s | JNull \<Rightarrow> ''None'' | JBool b \<Rightarrow> (if b then ''True'' else ''False'')
     | JInt n \<Rightarrow> str_int n | _ \<Rightarrow> z_repr z v)"

text \<open>\<open>payload.get(key, default)\<close> in a text field of a profile built without validation: a claim that is no
  text stays the value it is. Such a value is represented by a null character and its JSON text, and so
  differs from every text an identifier, a name or an organization of the store can be.\<close>

definition raw_claim :: "json \<Rightarrow> string" where
  "raw_claim v = (case v of JStr s \<Rightarrow> s | _ \<Rightarrow> CHR 0x00 # json_dumps v)"

definition claim_or :: "jobj \<Rightarrow> string \<Rightarrow> string \<Rightarrow> string" where
  "claim_or payload k d = (case map_of payload k of None \<Rightarrow> d | Some v \<Rightarrow> raw_claim v)"

definition ANONYMOUS_DEV_USER :: "time \<Rightarrow> UserProfile" where
  "ANONYMOUS_DEV_USER t = \<lparr> up_id = ''usr-dev-anon'', up_username = ''dev-viewer'',
     up_email = ''dev@cyberassess.local'', up_role = VIEWER, up_principal_type = TENANT_PRINCIPAL,
     up_organization_id = ''org-default'',
     up_scopes = [''scan:read'', ''asset:read'', ''finding:read'', ''report:read''],
     up_is_active = True, up_created_at = t \<rparr>"

definition with_scopes :: "UserProfile \<Rightarrow> json list option \<Rightarrow> auth_error + UserProfile" where
  "with_scopes u explicit = (case resolve_effective_scopes u explicit of None \<Rightarrow> Inl PyError
     | Some ss \<Rightarrow> Inr (u\<lparr>up_scopes := ss\<rparr>))"

text \<open>The identity a token describes by itself, outside production.\<close>

definition synthetic_user :: "auth_env \<Rightarrow> jobj \<Rightarrow> auth_error + UserProfile" where
  "synthetic_user z payload =
    (let ptype = (case map_of payload ''principal_type'' of None \<Rightarrow> TENANT_PRINCIPAL
           | Some (JStr s) \<Rightarrow> (case principal_of s of None \<Rightarrow> TENANT_PRINCIPAL | Some t \<Rightarrow> t)
           | Some _ \<Rightarrow> TENANT_PRINCIPAL);
         raw = claim payload ''scopes'';
         synthetic_fixture = (map_of payload ''synthetic_fixture'' = Some (JBool True));
         role = (case map_of payload ''role'' of None \<Rightarrow> Some VIEWER | Some (JStr s) \<Rightarrow> role_of s | Some _ \<Rightarrow> None);
         created = (case map_of payload ''iat'' of None \<Rightarrow> Some (z_now z) | Some v \<Rightarrow> from_timestamp v)
     in if (case raw of JNull \<Rightarrow> False | JArr xs \<Rightarrow> False | _ \<Rightarrow> True) then unauthorized ''Malformed token scopes claim.''
        else case role of None \<Rightarrow> Inl PyError | Some r \<Rightarrow>
          (case created of None \<Rightarrow> Inl PyError | Some t \<Rightarrow>
             with_scopes
               \<lparr> up_id = claim_or payload ''sub'' ''anon'', up_username = claim_or payload ''username'' ''user'',
                 up_email = claim_or payload ''email'' ''user@local'', up_role = r, up_principal_type = ptype,
                 up_organization_id = claim_or payload ''org_id'' ''org-default'',
                 up_scopes = (case raw of JArr xs \<Rightarrow> (if synthetic_fixture then scope_texts xs else []) | _ \<Rightarrow> []),
                 up_is_active = True, up_created_at = t \<rparr>
               (case raw of JArr xs \<Rightarrow> Some xs | _ \<Rightarrow> None)))"

definition authenticate_key :: "auth_env \<Rightarrow> auth_db \<Rightarrow> string \<Rightarrow> (auth_error + UserProfile) \<times> auth_db" where
  "authenticate_key z db key =
    (case verify_api_key_hash z db (e_sha256 (z_env z) (py_strip key)) of
       (Inl e, db') \<Rightarrow> (Inl e, db')
     | (Inr None, db') \<Rightarrow> (unauthorized ''Invalid, expired, or revoked API key.'', db')
     | (Inr (Some (k, u)), db') \<Rightarrow>
         (if \<not> up_is_active u \<or> y_status k \<noteq> ''ACTIVE'' \<or> y_revoked_at k \<noteq> None
          then (unauthorized ''Invalid, expired, or revoked API key.'', db')
          else (Inr (u\<lparr>up_scopes := y_scopes k\<rparr>), db')))"

definition authenticate_token :: "auth_state \<Rightarrow> auth_env \<Rightarrow> auth_db \<Rightarrow> string \<Rightarrow> auth_error + UserProfile" where
  "authenticate_token st z db token =
    (case decode_access_token st z db token of Inl e \<Rightarrow> Inl e | Inr payload \<Rightarrow>
     let subject = py_strip (case map_of payload ''sub'' of None \<Rightarrow> [] | Some v \<Rightarrow> text_of z v)
     in case (if subject = [] then Inr None else get_user_by_id db subject) of
       Inl e \<Rightarrow> Inl e
     | Inr (Some u) \<Rightarrow>
         (if \<not> up_is_active u then unauthorized ''User account has been deactivated.''
          else case claim payload ''scopes'' of
            JNull \<Rightarrow> with_scopes u None
          | JArr xs \<Rightarrow> with_scopes u (Some xs)
          | _ \<Rightarrow> unauthorized ''Malformed token scopes claim.'')
     | Inr None \<Rightarrow>
         (if operating_mode st = PRODUCTION
          then unauthorized ''Authenticated user identity is not present in the authoritative database.''
          else synthetic_user z payload))"

definition get_current_user ::
    "auth_state \<Rightarrow> auth_env \<Rightarrow> auth_db \<Rightarrow> string option \<Rightarrow> string option \<Rightarrow> (auth_error + UserProfile) \<times> auth_db" where
  "get_current_user st z db authorization x_api_key =
    (if credential authorization \<and> credential x_api_key
     then (Inl (HTTPException 400 ''Conflicting authentication credentials are not permitted.''), db)
     else if credential x_api_key then authenticate_key z db (the x_api_key)
     else case bearer_token authorization of
       Some token \<Rightarrow>
         (if token \<noteq> [] then (authenticate_token st z db token, db)
          else if operating_mode st = DEVELOPMENT then (Inr (ANONYMOUS_DEV_USER (z_now z)), db)
          else (unauthorized ''Authentication required. Please provide a valid Bearer token or X-API-Key.'', db))
     | None \<Rightarrow>
         (if operating_mode st = DEVELOPMENT then (Inr (ANONYMOUS_DEV_USER (z_now z)), db)
          else (unauthorized ''Authentication required. Please provide a valid Bearer token or X-API-Key.'', db)))"

section \<open>What the caller may do\<close>

text \<open>The guard \<open>require_permission(required_scope, allowed_roles)\<close> on the resolved identity.\<close>

definition require_permission :: "string option \<Rightarrow> UserRole list \<Rightarrow> UserProfile \<Rightarrow> auth_error + UserProfile" where
  "require_permission required_scope allowed_roles u =
    (if \<not> up_is_active u then Inl (HTTPException 403 ''User account is deactivated.'')
     else if allowed_roles \<noteq> [] \<and> up_role u \<noteq> ADMIN \<and> up_role u \<notin> set allowed_roles
     then Inl (HTTPException 403 ''Access forbidden: User role'')
     else if truthy required_scope \<and> \<not> (system_admin u \<and> ''*'' \<in> set (up_scopes u))
             \<and> the required_scope \<notin> set (up_scopes u)
     then Inl (HTTPException 403 ''Access forbidden: Credentials lack required scope'')
     else Inr u)"

text \<open>A guarded route: identify the caller, then check the permission.\<close>

definition guarded ::
    "string option \<Rightarrow> UserRole list \<Rightarrow> auth_state \<Rightarrow> auth_env \<Rightarrow> auth_db \<Rightarrow> string option \<Rightarrow> string option \<Rightarrow>
     (auth_error + UserProfile) \<times> auth_db" where
  "guarded required_scope allowed_roles st z db authorization x_api_key =
    (case get_current_user st z db authorization x_api_key of
       (Inl e, db') \<Rightarrow> (Inl e, db')
     | (Inr u, db') \<Rightarrow> (require_permission required_scope allowed_roles u, db'))"

end
