(* ===== verification/Auth_Properties.thy ===== *)
theory Auth_Properties
  imports Auth Exec_Samples Exec_Proof
begin

text \<open>
  What authentication promises: strong signing keys, sessions that survive a key rotation and end with
  a logout, database-authoritative identities in production, and scopes that never exceed the role.
\<close>

section \<open>Results\<close>

lemma unauthorized_Inr [simp]: "Inl e = Inr x \<longleftrightarrow> False" "Inr x = Inl e \<longleftrightarrow> False"
  by simp_all

section \<open>Key ring\<close>

lemma map_of_dict_set: "map_of (dict_set k v xs) = (map_of xs)(k \<mapsto> v)"
  by (induction xs) (auto simp: fun_upd_twist)

lemma dict_set_keys: "fst ` set (dict_set k v xs) = insert k (fst ` set xs)"
  by (induction xs) auto

lemma dict_set_distinct: "distinct (map fst xs) \<Longrightarrow> distinct (map fst (dict_set k v xs))"
  by (induction xs) (auto simp: dict_set_keys simp flip: image_image)

lemma dict_set_in: "(a, b) \<in> set (dict_set k v xs) \<Longrightarrow> (a, b) = (k, v) \<or> (a, b) \<in> set xs"
  by (induction xs) (auto split: if_splits)

definition strong_secret :: "string \<Rightarrow> bool" where
  "strong_secret s = (32 \<le> length s \<and> py_lower s \<notin> set INVALID_SECRET_VALUES)"

definition key_ring_ok :: "auth_state \<Rightarrow> bool" where
  "key_ring_ok st = (key_store st \<noteq> [] \<and> distinct (map fst (key_store st)) \<and> strong_secret (jwt_secret st)
     \<and> (\<forall>k \<in> set (key_store st). strong_secret (snd k)))"

text \<open>One change of the module state.\<close>

inductive auth_step :: "auth_state \<Rightarrow> auth_state \<Rightarrow> bool" where
  rotate: "rotate_signing_key st kid secret = Some st' \<Longrightarrow> auth_step st st'"
| retire: "auth_step st (retire_signing_key st kid)"
| revoke: "auth_step st (fst (snd (revoke_access_token st z db token)))"

lemma revoke_state:
  "\<exists>r. fst (snd (revoke_access_token st z db token)) = st\<lparr>revoked_registry := r\<rparr>"
  by (auto simp: revoke_access_token_def split: option.splits intro: exI [of _ "revoked_registry st"])

lemma filter_nonempty:
  assumes "distinct (map fst xs)" and "1 < length xs"
  shows "filter (\<lambda>e. fst e \<noteq> k) xs \<noteq> []"
proof
  assume f: "filter (\<lambda>e. fst e \<noteq> k) xs = []"
  then have "fst ` set xs \<subseteq> {k}" by (auto simp: filter_empty_conv)
  then have "card (fst ` set xs) \<le> 1" using card_mono [of "{k}"] by simp
  with assms show False by (metis distinct_card length_map list.set_map not_le)
qed

lemma key_ring_step:
  assumes "auth_step st st'" and "key_ring_ok st"
  shows "key_ring_ok st'"
  using assms
proof (cases rule: auth_step.cases)
  case (rotate kid secret)
  then have st': "st' = st\<lparr>key_store := dict_set kid (py_strip secret) (key_store st), active_key_id := py_strip kid\<rparr>"
    and s: "strong_secret (py_strip secret)"
    by (auto simp: rotate_signing_key_def strong_secret_def Let_def split: if_splits)
  have "key_store st' \<noteq> []" by (cases "key_store st") (simp_all add: st')
  moreover have "\<forall>k \<in> set (key_store st'). strong_secret (snd k)"
    using assms(2) s by (auto simp: st' key_ring_ok_def dest!: dict_set_in)
  ultimately show ?thesis
    using assms(2) dict_set_distinct [of "key_store st" kid] by (simp add: st' key_ring_ok_def)
next
  case (retire kid)
  with assms(2) filter_nonempty [of "key_store st" kid] show ?thesis
    by (auto simp: retire_signing_key_def key_ring_ok_def distinct_map_filter)
next
  case (revoke z db token)
  with revoke_state [of st z db token] assms(2) show ?thesis by (auto simp: key_ring_ok_def)
qed

lemma auth_start_ok:
  assumes "auth_start mode raw kid fresh = Some st" and "operating_mode st \<noteq> PRODUCTION \<longrightarrow> strong_secret fresh"
  shows "key_ring_ok st"
  using assms by (auto simp: auth_start_def configured_secret_def key_ring_ok_def strong_secret_def Let_def
      split: option.splits if_splits)

text \<open>A service that starts signs and verifies with strong keys for ever: after any sequence of
  rotations, retirements and revocations the key ring is not empty, has one secret per key identifier,
  and the signing key and every verification key have at least 32 characters and are no well-known
  default.\<close>

theorem signing_keys_strong:
  assumes "auth_start mode raw kid fresh = Some st"
    and "operating_mode st \<noteq> PRODUCTION \<longrightarrow> strong_secret fresh" and "rtranclp auth_step st st'"
  shows "key_store st' \<noteq> [] \<and> distinct (map fst (key_store st')) \<and> strong_secret (signing_key st')
    \<and> (\<forall>kid key. map_of (key_store st') kid = Some key \<longrightarrow> strong_secret key)"
proof -
  from assms(3) have "key_ring_ok st'"
    by (induction rule: rtranclp_induct) (auto intro: auth_start_ok [OF assms(1,2)] key_ring_step)
  then show ?thesis
    by (auto simp: key_ring_ok_def signing_key_def dest!: map_of_SomeD split: option.split)
qed

definition sample_state :: auth_state where
  "sample_state = \<lparr> operating_mode = PRODUCTION, jwt_secret = ''0123456789abcdef0123456789ABCDEF'',
     active_key_id = ''k-primary'', key_store = [(''k-primary'', ''0123456789abcdef0123456789ABCDEF'')],
     revoked_registry = [] \<rparr>"

definition rotated_state :: auth_state where
  "rotated_state = the (rotate_signing_key sample_state ''k-2'' ''ffffffffffffffffffffffffffffffff'')"

lemma sample_start: "auth_start None (Some '' 0123456789abcdef0123456789ABCDEF'') None [] = Some sample_state"
  by code_simp

lemma sample_rotation:
  "rotate_signing_key sample_state ''k-2'' ''ffffffffffffffffffffffffffffffff'' = Some rotated_state"
  by code_simp

theorem signing_keys_strong_witness:
  "strong_secret (signing_key rotated_state) \<and> signing_key rotated_state \<noteq> signing_key sample_state"
proof
  have "operating_mode sample_state \<noteq> PRODUCTION \<longrightarrow> strong_secret []" by (simp add: sample_state_def)
  moreover have "rtranclp auth_step sample_state rotated_state" by (blast intro: auth_step.rotate sample_rotation)
  ultimately have "key_store rotated_state \<noteq> [] \<and> distinct (map fst (key_store rotated_state))
      \<and> strong_secret (signing_key rotated_state)
      \<and> (\<forall>kid key. map_of (key_store rotated_state) kid = Some key \<longrightarrow> strong_secret key)"
    by (rule signing_keys_strong [OF sample_start])
  then   show "strong_secret (signing_key rotated_state)" by blast
qed code_simp

section \<open>Sessions\<close>

text \<open>What the code relies on PyJWT for: the header of a token can be read back, and a token verifies
  under the key that signed it while its times, issuer and audience fit, giving the claims back as
  JSON does.\<close>

definition verifiable :: "time \<Rightarrow> jobj \<Rightarrow> bool" where
  "verifiable now payload =
    (claim payload ''iss'' = JStr JWT_ISSUER \<and> claim payload ''aud'' = JStr JWT_AUDIENCE
     \<and> (case claim payload ''sub'' of JStr s \<Rightarrow> True | _ \<Rightarrow> False)
     \<and> (case claim payload ''iat'' of JInt i \<Rightarrow> i * 1000000 \<le> now | _ \<Rightarrow> False)
     \<and> (case claim payload ''nbf'' of JInt n \<Rightarrow> n * 1000000 \<le> now | _ \<Rightarrow> False)
     \<and> (case claim payload ''exp'' of JInt e \<Rightarrow> now < e * 1000000 | _ \<Rightarrow> False))"

definition token_shape :: "string \<Rightarrow> bool" where
  "token_shape token = (token \<noteq> [] \<and> list_all (\<lambda>c. \<not> py_space c) token)"

text \<open>What is relied on of PyJWT is stated for one token only: the one encoded from this payload under this
  key and key identifier, read back at this time.\<close>

definition jwt_reads_header :: "auth_env \<Rightarrow> jobj \<Rightarrow> string \<Rightarrow> string \<Rightarrow> bool" where
  "jwt_reads_header z payload key kid =
     (let token = z_jwt_encode z payload key [(''typ'', JStr ''JWT''), (''kid'', JStr kid)]
     in token_shape token
       \<and> (\<exists>h. z_jwt_header z token = Some h \<and> claim h ''kid'' = JStr kid \<and> claim h ''alg'' = JStr ''HS256''))"

definition jwt_verifies :: "auth_env \<Rightarrow> jobj \<Rightarrow> string \<Rightarrow> string \<Rightarrow> time \<Rightarrow> bool" where
  "jwt_verifies z payload key kid now = (readable (JObj payload) \<longrightarrow> verifiable now payload \<longrightarrow>
     (\<exists>p. z_jwt_decode z (z_jwt_encode z payload key [(''typ'', JStr ''JWT''), (''kid'', JStr kid)]) key now = Inr p
       \<and> (\<forall>k. map_of p k = map_option canon (map_of payload k))))"

text \<open>The payload of an issued token.\<close>

definition issued_claims :: "auth_state \<Rightarrow> auth_env \<Rightarrow> UserProfile \<Rightarrow> int \<Rightarrow> string list option \<Rightarrow> jobj" where
  "issued_claims st z u expires_in scopes = token_payload st z u expires_in (token_scopes u scopes)"

lemma issued_token:
  "fst (create_access_token st z u e scopes) =
     z_jwt_encode z (issued_claims st z u e scopes) (signing_key st) [(''typ'', JStr ''JWT''), (''kid'', JStr (active_key_id st))]"
  by (simp add: create_access_token_def issued_claims_def Let_def token_payload_def)

text \<open>Both environments use the same library.\<close>

definition same_jwt :: "auth_env \<Rightarrow> auth_env \<Rightarrow> bool" where
  "same_jwt z z' = (z_jwt_header z' = z_jwt_header z \<and> z_jwt_decode z' = z_jwt_decode z
     \<and> z_jwt_encode z' = z_jwt_encode z)"

text \<open>Without a key under the active identifier, no token issued is accepted.\<close>

lemma claim_Some: "map_of p k = Some v \<Longrightarrow> claim p k = v"
  by (simp add: claim_def)

lemma issued_header:
  assumes "jwt_reads_header z (issued_claims st z u e scopes) (signing_key st) (active_key_id st)" and "same_jwt z z'"
  shows "\<exists>h. z_jwt_header z' (fst (create_access_token st z u e scopes)) = Some h
    \<and> claim h ''kid'' = JStr (active_key_id st) \<and> claim h ''alg'' = JStr ''HS256''"
    and "token_shape (fst (create_access_token st z u e scopes))"
  using assms unfolding jwt_reads_header_def same_jwt_def issued_token Let_def by metis+

lemma unknown_key_refused:
  assumes "jwt_reads_header z (issued_claims st z u expires_in scopes) (signing_key st) (active_key_id st)" and "same_jwt z z'"
    and "map_of (key_store st') (active_key_id st) = None"
  shows "\<exists>detail. decode_access_token st' z' db (fst (create_access_token st z u expires_in scopes))
    = Inl (HTTPException 401 detail)"
  using issued_header(1) [OF assms(1,2)] assms(3)
  by (auto simp: decode_access_token_def)

lemma map_of_removed: "map_of (filter (\<lambda>e. fst e \<noteq> k) xs) k = None"
  by (auto simp: map_of_eq_None_iff)

text \<open>Two calls of the key administration lock every user out: rotating to a key identifier with
  surrounding blanks, and retiring the active key. Either leaves no key under the active
  identifier, and every token issued from then on is refused as signed by an unknown key.\<close>

theorem key_administration_locks_out:
  assumes "(rotate_signing_key st kid secret = Some st' \<and> py_strip kid \<noteq> kid
        \<and> map_of (key_store st) (py_strip kid) = None)
      \<or> (st' = retire_signing_key st (active_key_id st) \<and> 1 < length (key_store st)
        \<and> map_of (key_store st) (active_key_id st) \<noteq> None)"
    and "jwt_reads_header z (issued_claims st' z u expires_in scopes) (signing_key st') (active_key_id st')"
    and "same_jwt z z'"
  shows "\<exists>detail. decode_access_token st' z' db (fst (create_access_token st' z u expires_in scopes))
    = Inl (HTTPException 401 detail)"
proof (rule unknown_key_refused [OF assms(2,3)])
  show "map_of (key_store st') (active_key_id st') = None"
    using assms(1)
    by (auto simp: rotate_signing_key_def retire_signing_key_def Let_def map_of_dict_set map_of_removed
        split: if_splits)
qed

subsection \<open>A sample library\<close>

text \<open>Tokens that carry their header, key and payload in clear.\<close>

definition toy_encode :: "jobj \<Rightarrow> string \<Rightarrow> jobj \<Rightarrow> string" where
  "toy_encode payload key header = b64_encode (json_dumps (JArr (JObj ((''alg'', JStr ''HS256'') # header)
     # (if readable (JObj payload) then [JStr key, JObj payload] else []))))"

definition toy_parts :: "string \<Rightarrow> json list" where
  "toy_parts token = (case b64_decode token of None \<Rightarrow> []
     | Some t \<Rightarrow> (case json_loads t of Some (JArr vs) \<Rightarrow> vs | _ \<Rightarrow> []))"

definition toy_header :: "string \<Rightarrow> jobj option" where
  "toy_header token = (case toy_parts token of JObj h # _ \<Rightarrow> Some h | _ \<Rightarrow> None)"

definition toy_payload :: "string \<Rightarrow> (string \<times> jobj) option" where
  "toy_payload token = (case toy_parts token of [_, JStr k, JObj p] \<Rightarrow> Some (k, p) | _ \<Rightarrow> None)"

definition toy_decode :: "string \<Rightarrow> string \<Rightarrow> time \<Rightarrow> jwt_error + jobj" where
  "toy_decode token key now = (case toy_payload token of None \<Rightarrow> Inl OtherPyJWTError
     | Some (k, p) \<Rightarrow> (if k = key \<and> verifiable now p then Inr p else Inl ExpiredSignatureError))"

definition toy_env :: "time \<Rightarrow> auth_env" where
  "toy_env t = \<lparr> z_now = t, z_env = env_at t, z_jti = ''jti'', z_jwt_header = toy_header, z_jwt_decode = toy_decode,
     z_jwt_peek = (\<lambda>token. map_option snd (toy_payload token)), z_jwt_encode = toy_encode, z_repr = (\<lambda>_. ''[]'') \<rparr>"

lemma toy_parts_encode:
  assumes "distinct (map fst header)" and "list_all (\<lambda>kv. readable (snd kv)) header" and "''alg'' \<notin> fst ` set header"
  shows "toy_parts (toy_encode payload key header) =
    (canon (JObj ((''alg'', JStr ''HS256'') # header))
      # (if readable (JObj payload) then [JStr key, canon (JObj payload)] else []))"
proof -
  let ?v = "JArr (JObj ((''alg'', JStr ''HS256'') # header)
     # (if readable (JObj payload) then [JStr key, JObj payload] else []))"
  have "readable ?v" using assms by (cases "readable (JObj payload)") (auto simp del: canon.simps)
  then have "json_loads (json_dumps ?v) = Some (canon ?v)" by (rule json_loads_dumps)
  then show ?thesis by (simp add: toy_parts_def toy_encode_def b64_decode_encode)
qed

lemma b64_no_space:
  assumes "b64_value c \<noteq> None"
  shows "\<not> py_space c"
  using assms by (auto simp: b64_value_def py_space_def Let_def split: if_splits)

lemma toy_encode_shape: "token_shape (toy_encode payload key header)"
proof -
  have n: "b64_encode s \<noteq> []" if "s \<noteq> []" for s using that by (simp add: b64_encode_def sextets_empty)
  have "json_dumps (JArr vs) \<noteq> []" for vs by (simp add: json_dumps_def)
  then show ?thesis
    using n b64_encode_chars b64_no_space unfolding token_shape_def toy_encode_def list_all_iff by blast
qed

lemma claim_canon:
  assumes "\<forall>k. map_of p k = map_option canon (map_of payload k)"
  shows "claim p k = canon (claim payload k)"
  using assms by (simp add: claim_def split: option.split)

lemma canon_scalar:
  "canon v = JStr s \<longleftrightarrow> v = JStr s" "canon v = JInt n \<longleftrightarrow> v = JInt n"
  by (cases v; simp)+

lemma verifiable_canon:
  assumes "\<forall>k. map_of p k = map_option canon (map_of payload k)" and "verifiable now payload"
  shows "verifiable now p"
  using assms(2) unfolding verifiable_def claim_canon [OF assms(1)]
  by (auto simp: canon_scalar split: json.splits)

lemma toy_laws: "jwt_reads_header (toy_env t) payload key kid" "jwt_verifies (toy_env t) payload key kid now"
proof -
  let ?h = "\<lambda>kid. [(''typ'', JStr ''JWT''), (''kid'', JStr kid)]"
  note parts = toy_parts_encode [where header = "?h kid" for kid, simplified]
  show "jwt_reads_header (toy_env t) payload key kid"
    unfolding jwt_reads_header_def Let_def
  proof (intro conjI)
    have "claim (sort_keys [(''alg'', JStr ''HS256''), (''typ'', JStr ''JWT''), (''kid'', JStr kid)]) ''kid'' = JStr kid"
      "claim (sort_keys [(''alg'', JStr ''HS256''), (''typ'', JStr ''JWT''), (''kid'', JStr kid)]) ''alg'' = JStr ''HS256''"
      by (simp_all add: sort_keys_def claim_def)
    with parts [of payload key kid]
    show "\<exists>h. z_jwt_header (toy_env t) (z_jwt_encode (toy_env t) payload key (?h kid)) = Some h
        \<and> claim h ''kid'' = JStr kid \<and> claim h ''alg'' = JStr ''HS256''"
      by (simp add: toy_env_def toy_header_def)
  qed (simp add: toy_env_def toy_encode_shape)
  show "jwt_verifies (toy_env t) payload key kid now"
    unfolding jwt_verifies_def
  proof (intro impI)
    assume r: "readable (JObj payload)" and v: "verifiable now payload"
    obtain p where p: "canon (JObj payload) = JObj p" by simp
    from r have "distinct (map fst payload)" by simp
    from map_of_canon [OF this p] have m: "\<forall>k. map_of p k = map_option canon (map_of payload k)" by blast
    have "toy_payload (toy_encode payload key (?h kid)) = Some (key, p)"
      using parts [of payload key kid] r p by (simp add: toy_payload_def del: canon.simps)
    with m verifiable_canon [OF m v]
    show "\<exists>p. z_jwt_decode (toy_env t) (z_jwt_encode (toy_env t) payload key (?h kid)) key now = Inr p
       \<and> (\<forall>k. map_of p k = map_option canon (map_of payload k))"
      by (simp add: toy_env_def toy_decode_def)
  qed
qed

lemma toy_same: "same_jwt (toy_env t) (toy_env t')"
  by (simp add: same_jwt_def toy_env_def)

subsection \<open>A session survives key rotation\<close>

lemma bearer_of_token:
  assumes "token_shape token"
  shows "credential (Some (''Bearer '' @ token))" "bearer_token (Some (''Bearer '' @ token)) = Some token"
proof -
  from assms have t: "token \<noteq> []" "\<forall>c \<in> set token. \<not> py_space c" by (auto simp: token_shape_def list_all_iff)
  then obtain c r where r: "rev token = c # r" "\<not> py_space c"
    by (metis list.set_intros(1) neq_Nil_conv rev_is_Nil_conv set_rev)
  have B: "\<not> py_space (CHR ''B'')" by (simp add: py_space_def)
  have strip: "py_strip (''Bearer '' @ token) = ''Bearer '' @ token"
    using r B by (simp add: py_strip_def py_lstrip_def)
  then show c: "credential (Some (''Bearer '' @ token))" by (simp add: credential_def)
  have "CHR '' '' \<notin> set token" using t(2) by (auto simp: py_space_def)
  then have "py_split (CHR '' '') (''Bearer '' @ token) = [''Bearer'', token]"
    using py_split_Cons [of "CHR '' ''" "''Bearer''" token] by (simp add: py_split_plain)
  moreover have "py_lower ''Bearer'' = ''bearer''" by code_simp
  ultimately show "bearer_token (Some (''Bearer '' @ token)) = Some token"
    using c strip by (simp add: bearer_token_def)
qed

text \<open>Rotations to other keys.\<close>

inductive rotated :: "string \<Rightarrow> auth_state \<Rightarrow> auth_state \<Rightarrow> bool" for kid where
  same: "rotated kid st st"
| rotate: "rotated kid st st' \<Longrightarrow> rotate_signing_key st' kid' secret = Some st'' \<Longrightarrow> kid' \<noteq> kid \<Longrightarrow> rotated kid st st''"

lemma rotated_keeps:
  assumes "rotated kid st st'"
  shows "map_of (key_store st') kid = map_of (key_store st) kid \<and> operating_mode st' = operating_mode st
    \<and> revoked_registry st' = revoked_registry st"
  using assms by (induction) (auto simp: rotate_signing_key_def Let_def map_of_dict_set split: if_splits)

lemma payload_claims:
  "claim (token_payload st z u e scopes) ''sub'' = JStr (up_id u)"
  "claim (token_payload st z u e scopes) ''jti'' = JStr (z_jti z)"
  "claim (token_payload st z u e scopes) ''scopes'' = JArr (map JStr scopes)"
  "verifiable now (token_payload st z u e scopes) \<longleftrightarrow>
     now_seconds z * 1000000 \<le> now \<and> now < (now_seconds z + e) * 1000000"
  by (auto simp: token_payload_def claim_def verifiable_def)

lemma scope_texts_strings: "scope_texts (map JStr ss) = ss"
  by (induction ss) (simp_all add: scope_texts_def)

lemma base_scopes_valid:
  "set (ROLE_BASE_SCOPES r) \<subseteq> set ALL_VALID_SCOPES" "''*'' \<notin> set ALL_VALID_SCOPES" "distinct (ROLE_BASE_SCOPES r)"
  by (cases r; simp add: ALL_VALID_SCOPES_def)+

text \<open>The scopes of a session: what the resolution makes of the granted scopes. A system administrator can be
  granted any known scope, and loses those beyond the role's at the resolution; for everyone else the
  granted scopes are resolved to themselves.\<close>

definition session_scopes :: "UserProfile \<Rightarrow> string list option \<Rightarrow> string list" where
  "session_scopes u scopes =
    (let granted = token_scopes u scopes
     in if system_admin u \<and> ''*'' \<in> set granted then [''*'']
        else dict_fromkeys (filter (\<lambda>s. s \<in> set (ROLE_BASE_SCOPES (up_role u))) granted))"

lemma granted_scopes_resolve:
  assumes "up_scopes u = []"
  shows "resolve_effective_scopes u (Some (map JStr (token_scopes u scopes))) = Some (session_scopes u scopes)"
proof -
  have "''*'' \<notin> set (ROLE_BASE_SCOPES (up_role u))" using base_scopes_valid(1) [of "up_role u"] base_scopes_valid(2) by blast
  then have "(\<lambda>s. s \<in> set (allowed_scopes u) \<and> s \<noteq> ''*'') = (\<lambda>s. s \<in> set (ROLE_BASE_SCOPES (up_role u)))"
    using assms by (auto simp: allowed_scopes_def)
  moreover have "JStr ''*'' \<in> set (map JStr xs) \<longleftrightarrow> ''*'' \<in> set xs" for xs by auto
  moreover have "list_all hashable (map JStr xs)" for xs by (induction xs) (simp_all add: hashable_def)
  ultimately show ?thesis
    by (simp add: resolve_effective_scopes_def session_scopes_def Let_def scope_texts_strings del: set_map)
qed


text \<open>The names and the principal type a row of the users table stands for.\<close>

definition row_names :: "identity_row \<Rightarrow> UserProfile \<Rightarrow> bool" where
  "row_names row u = (up_username u = u_username row \<and> up_email u = u_email row)"

definition row_principal :: "identity_row \<Rightarrow> PrincipalType option" where
  "row_principal row = (if truthy (u_principal_type row) then principal_of (the (u_principal_type row))
     else Some TENANT_PRINCIPAL)"

lemma get_user_by_id_row:
  assumes "get_user_by_id db uid = Inr (Some u)"
  shows "\<exists>row \<in> set (identities db). u_id row = uid \<and> up_id u = uid \<and> u_is_active row = up_is_active u
    \<and> u_organization_id row = up_organization_id u \<and> role_of (u_role row) = Some (up_role u)"
    and "up_scopes u = []"
  using assms
  by (auto simp: get_user_by_id_def row_profile_def Let_def split: option.splits if_splits dest!: sql_find_Some)

lemma get_user_by_id_names:
  assumes "get_user_by_id db uid = Inr (Some u)"
  shows "\<exists>row \<in> set (identities db). u_id row = uid \<and> row_names row u \<and> up_id u = u_id row
      \<and> u_is_active row = up_is_active u \<and> u_organization_id row = up_organization_id u
      \<and> role_of (u_role row) = Some (up_role u) \<and> row_principal row = Some (up_principal_type u)"
proof -
  from assms obtain row ptype where row: "sql_find (\<lambda>u. u_id u = uid) (identities db) = Some row"
      "row_principal row = Some ptype" "row_profile row ptype (u_is_active row) = Some u"
    unfolding get_user_by_id_def row_principal_def by (simp split: option.splits)
  then have "row_names row u \<and> up_id u = u_id row \<and> u_is_active row = up_is_active u
      \<and> u_organization_id row = up_organization_id u \<and> role_of (u_role row) = Some (up_role u)
      \<and> up_principal_type u = ptype"
    by (auto simp: row_profile_def row_names_def Let_def split: option.splits if_splits)
  with sql_find_Some [OF row(1)] row(2) show ?thesis by blast
qed

lemma token_authenticates:
  assumes "jwt_reads_header z (issued_claims st z u expires_in scopes) (signing_key st) (active_key_id st)"
    and "jwt_verifies z (issued_claims st z u expires_in scopes) (signing_key st) (active_key_id st) (z_now z')"
    and "same_jwt z z'"
    and "map_of (key_store st) (active_key_id st) \<noteq> None" and "py_strip (active_key_id st) \<noteq> []"
    and "rotated (active_key_id st) st st'"
    and "get_user_by_id db (up_id u) = Inr (Some u)" and "up_is_active u"
    and "up_id u \<noteq> []" and "py_strip (up_id u) = up_id u"
    and "now_seconds z * 1000000 \<le> z_now z'" and "z_now z' < (now_seconds z + expires_in) * 1000000"
    and "readable (JObj (issued_claims st z u expires_in scopes))"
    and "fst (create_access_token st z u expires_in scopes) \<notin> set (revoked_registry st)"
    and "z_jti z = [] \<or> \<not> is_token_revoked (store db) (z_jti z)"
  shows "get_current_user st' z' db (Some (''Bearer '' @ fst (create_access_token st z u expires_in scopes))) None
    = (Inr (u\<lparr>up_scopes := session_scopes u scopes\<rparr>), db)"
proof -
  let ?token = "fst (create_access_token st z u expires_in scopes)"
  let ?payload = "issued_claims st z u expires_in scopes"
  note kept = rotated_keeps [OF assms(6)]
  obtain key where key: "map_of (key_store st) (active_key_id st) = Some key" using assms(4) by blast
  have signed: "signing_key st = key" by (simp add: signing_key_def key)
  have decode_same: "z_jwt_decode z' = z_jwt_decode z" using assms(3) by (simp add: same_jwt_def)
  have "verifiable (z_now z') ?payload" using assms(11,12) by (simp add: issued_claims_def payload_claims)
  then obtain p where p: "z_jwt_decode z' ?token key (z_now z') = Inr p"
    and m: "\<forall>k. map_of p k = map_option canon (map_of ?payload k)"
    using assms(2,13) unfolding jwt_verifies_def decode_same issued_token signed by blast
  have claims: "claim p ''sub'' = JStr (up_id u)" "claim p ''jti'' = JStr (z_jti z)"
    "claim p ''scopes'' = JArr (map JStr (token_scopes u scopes))"
    unfolding claim_canon [OF m] by (simp_all add: issued_claims_def payload_claims comp_def)
  have sub: "map_of p ''sub'' = Some (JStr (up_id u))"
    using claims(1) by (auto simp: claim_def split: option.splits)
  from issued_header [OF assms(1,3)] obtain h where
    h: "z_jwt_header z' ?token = Some h" "claim h ''kid'' = JStr (active_key_id st)" "claim h ''alg'' = JStr ''HS256''"
    and shape: "token_shape ?token" by blast
  have dec: "decode_access_token st' z' db ?token = Inr p"
    using shape kept key assms(5,14,15) h p claims(2)
    by (auto simp: decode_access_token_def token_shape_def json_truth_def sql_text_def ALLOWED_JWT_ALGORITHMS_def)
  have user: "with_scopes u (Some (map JStr (token_scopes u scopes))) = Inr (u\<lparr>up_scopes := session_scopes u scopes\<rparr>)"
    using granted_scopes_resolve [OF get_user_by_id_row(2) [OF assms(7)]] by (simp add: with_scopes_def)
  have "authenticate_token st' z' db ?token = Inr (u\<lparr>up_scopes := session_scopes u scopes\<rparr>)"
    using assms(7-10) sub claims(3) user
    by (simp add: authenticate_token_def dec text_of_def Let_def)
  moreover have "?token \<noteq> []" using shape by (simp add: token_shape_def)
  ultimately show ?thesis
    using bearer_of_token [OF shape] by (simp add: get_current_user_def credential_def [of None])
qed


definition analyst :: UserProfile where
  "analyst = \<lparr> up_id = ''usr-1'', up_username = ''analyst'', up_email = ''a@x'', up_role = SECURITY_ANALYST,
     up_principal_type = TENANT_PRINCIPAL, up_organization_id = ''org'', up_scopes = [], up_is_active = True,
     up_created_at = 0 \<rparr>"

definition sample_auth :: auth_db where
  "sample_auth = \<lparr> store = empty_db,
     identities = [\<lparr> u_id = ''usr-1'', u_organization_id = ''org'', u_role = ''SECURITY_ANALYST'', u_is_active = True,
       u_username = ''analyst'', u_email = ''a@x'', u_principal_type = Some ''TENANT_PRINCIPAL'', u_created_at = 0 \<rparr>],
     api_keys = [\<lparr> y_key_id = ''ca_key_1'', y_key_hash = ''rev'', y_organization_id = ''org'', y_user_id = Some ''usr-1'',
       y_name = ''ci'', y_scopes = [''scan:read''], y_status = ''ACTIVE'', y_created_at = 0, y_expires_at = None,
       y_revoked_at = None, y_last_used_at = None \<rparr>] \<rparr>"

abbreviation sample_token :: string where
  "sample_token \<equiv> fst (create_access_token sample_state (toy_env 1000000) analyst 3600 None)"

lemma sample_user: "get_user_by_id sample_auth (up_id analyst) = Inr (Some analyst)"
  by code_simp

lemma sample_rotated: "rotated (active_key_id sample_state) sample_state rotated_state"
  by (rule rotated.rotate [OF rotated.same sample_rotation]) (simp add: sample_state_def)

lemma sample_token_facts:
  "map_of (key_store sample_state) (active_key_id sample_state) \<noteq> None" "py_strip (active_key_id sample_state) \<noteq> []"
  "up_is_active analyst" "up_id analyst \<noteq> []" "py_strip (up_id analyst) = up_id analyst"
  "now_seconds (toy_env 1000000) * 1000000 \<le> z_now (toy_env 2000000)"
  "z_now (toy_env 2000000) < (now_seconds (toy_env 1000000) + 3600) * 1000000"
  "readable (JObj (issued_claims sample_state (toy_env 1000000) analyst 3600 None))"
  "z_jti (toy_env 1000000) = [] \<or> \<not> is_token_revoked (store sample_auth) (z_jti (toy_env 1000000))"
  by code_simp+

lemma sample_analyst: "\<not> system_admin analyst" "session_scopes analyst None = dict_fromkeys (token_scopes analyst None)"
  by code_simp+

lemma sample_session:
  "get_current_user rotated_state (toy_env 2000000) sample_auth (Some (''Bearer '' @ sample_token)) None
     = (Inr (analyst\<lparr>up_scopes := dict_fromkeys (token_scopes analyst None)\<rparr>), sample_auth)"
  unfolding sample_analyst(2) [symmetric]
proof (rule token_authenticates [OF toy_laws toy_same sample_token_facts(1,2) sample_rotated sample_user
      sample_token_facts(3-8) _ sample_token_facts(9)])
  show "sample_token \<notin> set (revoked_registry sample_state)" by (simp add: sample_state_def)
qed


theorem key_administration_locks_out_witness:
  "\<exists>st' detail. rotate_signing_key sample_state '' k-3 '' ''ffffffffffffffffffffffffffffffff'' = Some st'
     \<and> decode_access_token st' (toy_env 2000000) sample_auth
         (fst (create_access_token st' (toy_env 1000000) analyst 3600 None)) = Inl (HTTPException 401 detail)"
proof -
  have r: "rotate_signing_key sample_state '' k-3 '' ''ffffffffffffffffffffffffffffffff''
      = Some (the (rotate_signing_key sample_state '' k-3 '' ''ffffffffffffffffffffffffffffffff''))"
    and n: "py_strip '' k-3 '' \<noteq> '' k-3 ''" "map_of (key_store sample_state) (py_strip '' k-3 '') = None"
    by code_simp+
  from r n key_administration_locks_out [OF disjI1 [OF conjI [OF r conjI [OF n]]] toy_laws(1) toy_same]
  show ?thesis by blast
qed

section \<open>Logout\<close>

lemma revoked_stays:
  assumes "keys_unique db" and "reaches db db'" and "is_token_revoked db jti"
  shows "is_token_revoked db' jti"
proof -
  from assms(3) obtain k where "k \<in> set (revoked_tokens db)" "k_jti k = jti"
    by (auto simp: is_token_revoked_def sql_exists_def list_ex_iff)
  with rows_evolve_old [OF reaches_evolves(7) [OF assms(2,1)]] show ?thesis
    by (force simp: is_token_revoked_def sql_exists_def list_ex_iff token_le_def)
qed

lemma revoke_token_revokes: "is_token_revoked (snd (revoke_token env db jti h e)) jti"
proof -
  have "revoked_tokens (snd (revoke_token env db jti h e)) =
      (if is_token_revoked db jti
       then sql_update (\<lambda>k. k_jti k = jti) (\<lambda>_. \<lparr>k_jti = jti, k_token_hash = h, k_revoked_at = e_now env 0, k_expires_at = e\<rparr>)
         (revoked_tokens db)
       else revoked_tokens db @ [\<lparr>k_jti = jti, k_token_hash = h, k_revoked_at = e_now env 0, k_expires_at = e\<rparr>])"
    by (simp add: revoke_token_def Let_def commit_def)
  then show ?thesis
    by (auto simp: is_token_revoked_def sql_exists_def list_ex_iff set_sql_update bex_Un split: if_splits)
qed

lemma revoke_token_decisions:
  "execution_decisions (snd (revoke_token env db jti h e)) =
     sql_update (\<lambda>d. d_session_jti d = jti \<and> d_revoked_at d = None) (\<lambda>d. d\<lparr>d_revoked_at := Some (e_now env 0)\<rparr>)
       (execution_decisions db)"
  by (simp add: revoke_token_def Let_def commit_def)

lemma revoke_token_ends_session:
  assumes "d \<in> set (execution_decisions (snd (revoke_token env db jti h e)))" and "d_session_jti d = jti"
  shows "d_revoked_at d \<noteq> None"
proof -
  from assms(1) obtain r where "d = (if d_session_jti r = jti \<and> d_revoked_at r = None
      then r\<lparr>d_revoked_at := Some (e_now env 0)\<rparr> else r)"
    unfolding revoke_token_decisions set_sql_update by blast
  with assms(2) show ?thesis by (simp split: if_splits)
qed

lemma refused_token:
  assumes "bearer_token authorization = Some token" and "token \<noteq> []"
    and "\<And>p. decode_access_token st z db token \<noteq> Inr p"
  shows "fst (get_current_user st z db authorization None) \<noteq> Inr u"
proof -
  obtain e where "decode_access_token st z db token = Inl e"
    using assms(3) by (cases "decode_access_token st z db token") blast+
  then have "authenticate_token st z db token \<noteq> Inr u" by (simp add: authenticate_token_def)
  with assms(1,2) show ?thesis by (simp add: get_current_user_def credential_def [of None])
qed

lemma decoded_not_revoked:
  assumes "decode_access_token st z db token = Inr payload"
  shows "\<exists>kid key. claim (the (z_jwt_header z token)) ''kid'' = JStr kid \<and> map_of (key_store st) kid = Some key
      \<and> z_jwt_decode z token key (z_now z) = Inr payload"
    and "token \<noteq> []" "token \<notin> set (revoked_registry st)"
    and "claim payload ''jti'' = JStr jti \<Longrightarrow> jti \<noteq> [] \<Longrightarrow> \<not> is_token_revoked (store db) jti"
  using assms
  by (auto simp: decode_access_token_def sql_text_def json_truth_def split: if_splits option.splits json.splits sum.splits)

text \<open>C31. A logout is final: once a token is revoked, no token with its identifier authenticates anyone,
  in this or any other process, under any keys, at any time and after any further operations of the
  execution store; the decisions approved in that session are revoked with it.\<close>

theorem logout_is_final:
  assumes "revoke_access_token st z db token = (Inr True, st', db1)"
    and "\<forall>p. z_jwt_peek z token = Some p \<longrightarrow> claim p ''jti'' = JStr jti" and "keys_unique (store db)"
    and "reaches (store db1) (store db2)"
    and "bearer_token authorization = Some token2" and "token2 \<noteq> []"
    and "\<forall>key now p. z_jwt_decode z2 token2 key now = Inr p \<longrightarrow> claim p ''jti'' = JStr jti"
  shows "fst (get_current_user st2 z2 db2 authorization None) \<noteq> Inr u
    \<and> (\<forall>d \<in> set (execution_decisions (store db1)). d_session_jti d = jti \<longrightarrow> d_revoked_at d \<noteq> None)"
proof -
  from assms(1,2) obtain h e where db1: "store db1 = snd (revoke_token (z_env z) (store db) jti h e)" and j: "jti \<noteq> []"
    by (auto simp: revoke_access_token_def sql_text_def json_truth_def split: option.splits if_splits)
  have "exec_step (store db) (store db1)" unfolding db1 by (rule exec_step.revoke_session)
  then have "keys_unique (store db1)" using assms(3) exec_step_db_step db_step_keys by blast
  then have "is_token_revoked (store db2) jti"
    using assms(4) revoke_token_revokes revoked_stays unfolding db1 by blast
  then have no: "decode_access_token st2 z2 db2 token2 \<noteq> Inr p" for p
    using decoded_not_revoked [of st2 z2 db2 token2 p] assms(7) j by blast
  have "fst (get_current_user st2 z2 db2 authorization None) \<noteq> Inr u"
    using assms(5,6) no by (rule refused_token)
  moreover have "d_revoked_at d \<noteq> None" if "d \<in> set (execution_decisions (store db1))" "d_session_jti d = jti" for d
    using revoke_token_ends_session [OF that(1) [unfolded db1] that(2)] .
  ultimately show ?thesis by blast
qed

lemma sample_token_payload:
  "\<exists>p. toy_payload sample_token = Some (jwt_secret sample_state, p) \<and> claim p ''jti'' = JStr ''jti''
     \<and> claim p ''exp'' = JInt 3601"
proof -
  let ?payload = "token_payload sample_state (toy_env 1000000) analyst 3600 (token_scopes analyst None)"
  obtain p where p: "canon (JObj ?payload) = JObj p" by simp
  have r: "readable (JObj ?payload)" by (rule sample_token_facts(8) [unfolded issued_claims_def])
  then have "distinct (map fst ?payload)" by simp
  from map_of_canon [OF this p] have m: "\<forall>k. map_of p k = map_option canon (map_of ?payload k)" by blast
  have c: "claim p ''jti'' = JStr ''jti''" "claim p ''exp'' = JInt 3601"
    unfolding claim_canon [OF m] by (simp_all add: token_payload_def claim_def toy_env_def now_seconds_def)
  have token: "sample_token = toy_encode ?payload (jwt_secret sample_state)
      [(''typ'', JStr ''JWT''), (''kid'', JStr ''k-primary'')]"
    by (simp add: create_access_token_def Let_def toy_env_def token_payload_def signing_key_def sample_state_def)
  have "toy_payload sample_token = Some (jwt_secret sample_state, p)"
    unfolding token toy_payload_def using toy_parts_encode [of "[(''typ'', JStr ''JWT''), (''kid'', JStr ''k-primary'')]"] r p
    by (simp del: canon.simps)
  with c show ?thesis by blast
qed

theorem logout_is_final_witness:
  "\<exists>st' db1. revoke_access_token sample_state (toy_env 1500000) sample_auth sample_token = (Inr True, st', db1)
     \<and> fst (get_current_user sample_state (toy_env 2000000) db1 (Some (''Bearer '' @ sample_token)) None) \<noteq> Inr analyst"
proof -
  obtain p where p: "toy_payload sample_token = Some (jwt_secret sample_state, p)" "claim p ''jti'' = JStr ''jti''"
    "claim p ''exp'' = JInt 3601" using sample_token_payload by blast
  obtain st' db1 where r: "revoke_access_token sample_state (toy_env 1500000) sample_auth sample_token = (Inr True, st', db1)"
    using p by (simp add: revoke_access_token_def toy_env_def json_truth_def from_timestamp_def sql_text_def)
  have peek: "\<forall>q. z_jwt_peek (toy_env 1500000) sample_token = Some q \<longrightarrow> claim q ''jti'' = JStr ''jti''"
    using p by (simp add: toy_env_def)
  have dec: "\<forall>key now q. z_jwt_decode (toy_env 2000000) sample_token key now = Inr q \<longrightarrow> claim q ''jti'' = JStr ''jti''"
    using p by (auto simp: toy_env_def toy_decode_def split: if_splits)
  have shape: "token_shape sample_token" using issued_header(2) [OF toy_laws(1) toy_same] .
  have keys: "keys_unique (store sample_auth)" by code_simp
  from logout_is_final [OF r peek keys _ bearer_of_token(2) [OF shape] _ dec] r shape
  show ?thesis by (auto simp: reaches_def token_shape_def)
qed

section \<open>Identities in production\<close>

lemma with_scopes_Inr:
  assumes "with_scopes u explicit = Inr v"
  shows "\<exists>ss. resolve_effective_scopes u explicit = Some ss \<and> v = u\<lparr>up_scopes := ss\<rparr>"
  using assms by (auto simp: with_scopes_def split: option.splits)

lemma extra_scopes_facts:
  "set (extra_scopes base found ss) \<subseteq> set found \<union> (set ss \<inter> set ALL_VALID_SCOPES)"
  "distinct found \<Longrightarrow> set found \<inter> set base = {} \<Longrightarrow>
     distinct (extra_scopes base found ss) \<and> set (extra_scopes base found ss) \<inter> set base = {}"
  by (induction base found ss rule: extra_scopes.induct) auto

text \<open>What a resolved scope list may hold.\<close>

lemma resolved_scopes:
  assumes "resolve_effective_scopes u explicit = Some ss"
  shows "(ss = [''*''] \<and> system_admin u) \<or>
    (distinct ss \<and> ''*'' \<notin> set ss \<and> set ss \<subseteq> set ALL_VALID_SCOPES
     \<and> set ss \<subseteq> set (ROLE_BASE_SCOPES (up_role u)) \<union> set (up_scopes u))"
proof (cases "ss = [''*''] \<and> system_admin u")
  case False
  note base = base_scopes_valid(1,3) [of "up_role u"] base_scopes_valid(2)
  show ?thesis
  proof (cases explicit)
    case None
    with assms False have "ss = ROLE_BASE_SCOPES (up_role u) @ extra_scopes (ROLE_BASE_SCOPES (up_role u)) [] (up_scopes u)"
      by (auto simp: resolve_effective_scopes_def split: if_splits)
    with base extra_scopes_facts [where base = "ROLE_BASE_SCOPES (up_role u)" and found = "[]" and ss = "up_scopes u"]
    show ?thesis by auto
  next
    case (Some vs)
    with assms False have "ss = dict_fromkeys (filter (\<lambda>s. s \<in> set (allowed_scopes u) \<and> s \<noteq> ''*'') (scope_texts vs))"
      by (auto simp: resolve_effective_scopes_def split: if_splits)
    with base show ?thesis by (auto simp: allowed_scopes_def)
  qed
qed simp

lemma token_identity:
  assumes "fst (get_current_user st z db authorization None) = Inr u" and "operating_mode st \<noteq> DEVELOPMENT"
  shows "\<exists>token. bearer_token authorization = Some token \<and> token \<noteq> [] \<and> authenticate_token st z db token = Inr u"
  using assms by (auto simp: get_current_user_def credential_def [of None] split: option.splits if_splits)

lemma production_token:
  assumes "authenticate_token st z db token = Inr u" and "operating_mode st = PRODUCTION"
  shows "\<exists>payload v explicit. decode_access_token st z db token = Inr payload
    \<and> get_user_by_id db (py_strip (text_of z (claim payload ''sub''))) = Inr (Some v) \<and> up_is_active v
    \<and> with_scopes v explicit = Inr u"
proof (cases "decode_access_token st z db token")
  case (Inr payload)
  let ?subject = "py_strip (case map_of payload ''sub'' of None \<Rightarrow> [] | Some v \<Rightarrow> text_of z v)"
  from assms Inr obtain v where v: "?subject \<noteq> []" "get_user_by_id db ?subject = Inr (Some v)" "up_is_active v"
    and u: "(case claim payload ''scopes'' of JNull \<Rightarrow> with_scopes v None | JArr xs \<Rightarrow> with_scopes v (Some xs)
          | _ \<Rightarrow> unauthorized ''Malformed token scopes claim.'') = Inr u"
    by (simp add: authenticate_token_def Let_def split: sum.splits option.splits if_splits)
  from u obtain explicit where "with_scopes v explicit = Inr u" by (cases "claim payload ''scopes''") auto
  moreover from v(1) have "?subject = py_strip (text_of z (claim payload ''sub''))"
    by (auto simp: claim_def py_strip_def py_lstrip_def split: option.splits)
  ultimately show ?thesis using v Inr by metis
next
  case (Inl e)
  with assms(1) show ?thesis by (simp add: authenticate_token_def)
qed

text \<open>C29. In production only the database decides who a bearer is. A route that accepts a token does so
  for an active row of the users table: the token verified under a key of the ring and is not
  revoked, the identity, names, tenant, role and principal type are those of the row and not the token's,
  and the required scope is one the row's role has, unless the row is a system administrator's (a system
  principal with the administrator role), whose wildcard grants every scope.\<close>

theorem production_identity:
  assumes "fst (guarded required roles st z db authorization None) = Inr u" and "operating_mode st = PRODUCTION"
  shows "\<exists>token kid key payload. \<exists>row \<in> set (identities db).
    bearer_token authorization = Some token \<and> token \<notin> set (revoked_registry st)
    \<and> map_of (key_store st) kid = Some key \<and> z_jwt_decode z token key (z_now z) = Inr payload
    \<and> (\<forall>jti. claim payload ''jti'' = JStr jti \<and> jti \<noteq> [] \<longrightarrow> \<not> is_token_revoked (store db) jti)
    \<and> u_id row = py_strip (text_of z (claim payload ''sub'')) \<and> u_is_active row
    \<and> up_id u = u_id row \<and> row_names row u \<and> up_organization_id u = u_organization_id row
    \<and> role_of (u_role row) = Some (up_role u) \<and> row_principal row = Some (up_principal_type u)
    \<and> (\<forall>s. required = Some s \<and> s \<noteq> [] \<longrightarrow> s \<in> set (ROLE_BASE_SCOPES (up_role u)) \<or> system_admin u)
    \<and> (roles \<noteq> [] \<longrightarrow> up_role u \<in> set roles \<or> up_role u = ADMIN)"
proof -
  from assms(1) have g: "fst (get_current_user st z db authorization None) = Inr u"
    and perm: "require_permission required roles u = Inr u"
    by (auto simp: guarded_def require_permission_def split: sum.splits prod.splits if_splits)
  from token_identity [OF g] assms(2) obtain token where
    t: "bearer_token authorization = Some token" "authenticate_token st z db token = Inr u" by auto
  from production_token [OF t(2) assms(2)] obtain payload v explicit where
    d: "decode_access_token st z db token = Inr payload"
    and v: "get_user_by_id db (py_strip (text_of z (claim payload ''sub''))) = Inr (Some v)" "up_is_active v"
    and w: "with_scopes v explicit = Inr u" by blast
  from with_scopes_Inr [OF w] obtain ss where ss: "resolve_effective_scopes v explicit = Some ss" "u = v\<lparr>up_scopes := ss\<rparr>"
    by blast
  note scopes = resolved_scopes [OF ss(1)] get_user_by_id_row(2) [OF v(1)]
  have "s \<in> set (ROLE_BASE_SCOPES (up_role u)) \<or> system_admin u" if "required = Some s" "s \<noteq> []" for s
    using perm that scopes by (auto simp: require_permission_def ss(2) system_admin_def split: if_splits)
  moreover have "roles \<noteq> [] \<longrightarrow> up_role u \<in> set roles \<or> up_role u = ADMIN"
    using perm by (auto simp: require_permission_def split: if_splits)
  moreover obtain row where "row \<in> set (identities db)" "u_id row = py_strip (text_of z (claim payload ''sub''))"
    "u_is_active row" "up_id u = u_id row" "up_organization_id u = u_organization_id row"
    "role_of (u_role row) = Some (up_role u)" "row_names row u" "row_principal row = Some (up_principal_type u)"
    using get_user_by_id_names [OF v(1)] v(2) by (auto simp: ss(2) row_names_def)
  moreover note decoded_not_revoked [OF d]
  ultimately show ?thesis using t(1) by blast
qed

theorem production_identity_witness:
  "\<exists>row \<in> set (identities sample_auth). u_id row = ''usr-1'' \<and> u_is_active row
     \<and> fst (guarded (Some ''scan:create'') [] rotated_state (toy_env 2000000) sample_auth
         (Some (''Bearer '' @ sample_token)) None)
       = Inr (analyst\<lparr>up_scopes := dict_fromkeys (token_scopes analyst None)\<rparr>)"
proof -
  have u: "get_current_user rotated_state (toy_env 2000000) sample_auth (Some (''Bearer '' @ sample_token)) None
     = (Inr (analyst\<lparr>up_scopes := dict_fromkeys (token_scopes analyst None)\<rparr>), sample_auth)"
    using sample_session .
  have "require_permission (Some ''scan:create'') [] (analyst\<lparr>up_scopes := dict_fromkeys (token_scopes analyst None)\<rparr>)
      = Inr (analyst\<lparr>up_scopes := dict_fromkeys (token_scopes analyst None)\<rparr>)"
    by code_simp
  with u have g: "fst (guarded (Some ''scan:create'') [] rotated_state (toy_env 2000000) sample_auth
      (Some (''Bearer '' @ sample_token)) None) = Inr (analyst\<lparr>up_scopes := dict_fromkeys (token_scopes analyst None)\<rparr>)"
    by (simp add: guarded_def)
  have "operating_mode rotated_state = PRODUCTION" by code_simp
  from production_identity [OF g this] g show ?thesis
    by (auto simp: sample_auth_def)
qed

section \<open>Well-formed profiles\<close>

lemma synthetic_scopes:
  assumes "synthetic_user z payload = Inr u"
  shows "\<exists>v explicit. with_scopes v explicit = Inr u"
  using assms unfolding synthetic_user_def Let_def by (auto split: if_splits option.splits)

lemma sum_option_cases: "(\<exists>e. x = Inl e) \<or> x = Inr None \<or> (\<exists>v. x = Inr (Some v))"
proof (cases x)
  case (Inr y)
  then show ?thesis by (cases y) simp_all
qed simp

lemma token_scopes_resolved:
  assumes "authenticate_token st z db token = Inr u"
  shows "\<exists>v explicit. with_scopes v explicit = Inr u"
proof (cases "operating_mode st = PRODUCTION")
  case True
  with production_token [OF assms] show ?thesis by blast
next
  case False
  from assms obtain payload where p: "decode_access_token st z db token = Inr payload"
    by (cases "decode_access_token st z db token") (simp_all add: authenticate_token_def)
  let ?subject = "py_strip (case map_of payload ''sub'' of None \<Rightarrow> [] | Some v \<Rightarrow> text_of z v)"
  let ?found = "if ?subject = [] then Inr None else get_user_by_id db ?subject"
  consider e where "?found = Inl e" | "?found = Inr None" | v where "?found = Inr (Some v)"
    using sum_option_cases [of ?found] by blast
  then show ?thesis
  proof cases
    case 2
    with assms p False show ?thesis by (intro synthetic_scopes) (simp add: authenticate_token_def Let_def)
  next
    case (3 v)
    with assms p have "(case claim payload ''scopes'' of JNull \<Rightarrow> with_scopes v None | JArr xs \<Rightarrow> with_scopes v (Some xs)
          | _ \<Rightarrow> unauthorized ''Malformed token scopes claim.'') = Inr u"
      by (simp add: authenticate_token_def Let_def split: if_splits)
    then show ?thesis by (cases "claim payload ''scopes''") auto
  qed (use assms p in \<open>simp add: authenticate_token_def Let_def\<close>)
qed

text \<open>C32. The profile of a caller without an API key keeps the type it was declared with although its scopes
  are assigned after validation: in every operating mode the scopes are distinct known scopes, and
  the wildcard occurs only alone and only for the system administrator.\<close>

theorem caller_profile_typed:
  assumes "fst (get_current_user st z db authorization None) = Inr u"
  shows "distinct (up_scopes u) \<and>
    (if ''*'' \<in> set (up_scopes u) then up_scopes u = [''*''] \<and> system_admin u
     else set (up_scopes u) \<subseteq> set ALL_VALID_SCOPES)"
proof -
  from assms have "(\<exists>token. authenticate_token st z db token = Inr u) \<or> u = ANONYMOUS_DEV_USER (z_now z)"
    by (auto simp: get_current_user_def credential_def [of None] split: option.splits if_splits)
  then show ?thesis
  proof
    assume "\<exists>token. authenticate_token st z db token = Inr u"
    then obtain v explicit where "with_scopes v explicit = Inr u" using token_scopes_resolved by blast
    from with_scopes_Inr [OF this] obtain ss where "resolve_effective_scopes v explicit = Some ss" "u = v\<lparr>up_scopes := ss\<rparr>"
      by blast
    with resolved_scopes [of v explicit ss] show ?thesis by (auto simp: system_admin_def)
  qed (simp add: ANONYMOUS_DEV_USER_def ALL_VALID_SCOPES_def)
qed

theorem caller_profile_typed_witness:
  "distinct (token_scopes analyst None) \<and> ''*'' \<notin> set (token_scopes analyst None)"
proof -
  have "fst (get_current_user rotated_state (toy_env 2000000) sample_auth (Some (''Bearer '' @ sample_token)) None)
     = Inr (analyst\<lparr>up_scopes := dict_fromkeys (token_scopes analyst None)\<rparr>)"
    by (simp only: sample_session fst_conv)
  from caller_profile_typed [OF this] sample_analyst(1) have
    "distinct (dict_fromkeys (token_scopes analyst None))" "''*'' \<notin> set (dict_fromkeys (token_scopes analyst None))"
    by (auto simp: system_admin_def split: if_splits)
  moreover have "dict_fromkeys (token_scopes analyst None) = token_scopes analyst None" by code_simp
  ultimately show ?thesis by simp
qed

section \<open>API keys\<close>

lemma row_profile_fields:
  assumes "row_profile row ptype active = Some u"
  shows "up_id u = u_id row" "up_organization_id u = u_organization_id row" "role_of (u_role row) = Some (up_role u)"
    "up_is_active u = active"
  using assms by (auto simp: row_profile_def Let_def split: option.splits if_splits)

text \<open>An API key authenticates only while it is active, unrevoked and unexpired, as exactly its own
  scopes and tenant; a key bound to a user only while that user is active in the key's tenant, with
  the user's current role, and a key without a user only as a security analyst.\<close>

theorem api_key_identity:
  assumes "fst (get_current_user st z db authorization (Some key)) = Inr u" and "py_strip key \<noteq> []"
  shows "\<exists>k \<in> set (api_keys db). y_key_hash k = e_sha256 (z_env z) (py_strip key) \<and> y_revoked_at k = None
    \<and> y_status k = ''ACTIVE'' \<and> (\<forall>t. y_expires_at k = Some t \<longrightarrow> z_now z < t)
    \<and> up_scopes u = y_scopes k \<and> up_organization_id u = y_organization_id k \<and> up_is_active u
    \<and> (if truthy (y_user_id k)
       then \<exists>row \<in> set (identities db). Some (u_id row) = y_user_id k \<and> up_id u = u_id row \<and> u_is_active row
              \<and> u_organization_id row = y_organization_id k \<and> role_of (u_role row) = Some (up_role u)
       else up_role u = SECURITY_ANALYST \<and> up_principal_type u = TENANT_PRINCIPAL)"
proof -
  let ?hash = "e_sha256 (z_env z) (py_strip key)"
  from assms have "fst (authenticate_key z db key) = Inr u"
    by (auto simp: get_current_user_def credential_def split: if_splits)
  then obtain k v where kv: "fst (verify_api_key_hash z db ?hash) = Inr (Some (k, v))"
    and u: "u = v\<lparr>up_scopes := y_scopes k\<rparr>" "up_is_active v"
    by (auto simp: authenticate_key_def split: prod.splits sum.splits option.splits if_splits)
  from kv have found: "sql_find (\<lambda>k. y_key_hash k = ?hash \<and> y_revoked_at k = None \<and> y_status k = ''ACTIVE'') (api_keys db) = Some k"
    and fresh: "\<forall>t. y_expires_at k = Some t \<longrightarrow> z_now z < t"
    and bound: "if truthy (y_user_id k)
       then \<exists>row ptype. sql_find (\<lambda>u. Some (u_id u) = y_user_id k) (identities db) = Some row \<and> u_is_active row
              \<and> u_organization_id row = y_organization_id k \<and> row_profile row ptype True = Some v
       else v = key_profile z k"
    by (auto simp: verify_api_key_hash_def Let_def split: option.splits if_splits)
  have "if truthy (y_user_id k)
       then \<exists>row \<in> set (identities db). Some (u_id row) = y_user_id k \<and> up_id u = u_id row \<and> u_is_active row
              \<and> u_organization_id row = y_organization_id k \<and> role_of (u_role row) = Some (up_role u)
              \<and> up_organization_id u = y_organization_id k
       else up_role u = SECURITY_ANALYST \<and> up_principal_type u = TENANT_PRINCIPAL
              \<and> up_organization_id u = y_organization_id k"
    using bound by (auto simp: u(1) key_profile_def row_profile_fields dest!: sql_find_Some split: if_splits)
  with sql_find_Some [OF found] fresh u show ?thesis by (intro bexI [of _ k]) (auto split: if_splits)
qed

theorem api_key_identity_witness:
  "\<exists>k \<in> set (api_keys sample_auth). up_organization_id analyst = y_organization_id k \<and> y_scopes k = [''scan:read'']"
proof -
  have "fst (get_current_user sample_state (toy_env 2000000) sample_auth None (Some ''secret-key''))
      = Inr (analyst\<lparr>up_scopes := [''scan:read'']\<rparr>)" "py_strip ''secret-key'' \<noteq> []"
    by code_simp+
  from api_key_identity [OF this] show ?thesis by auto
qed

end
