(* ===== verification/Queue_Binding.thy ===== *)
theory Queue_Binding
  imports Json_Parse
begin

text \<open>
  \<open>backend/app/core/queue.py\<close>: the typed binding of a queued execution intent
  (\<open>QueueDispatchBinding\<close>), its canonical digest and its wire form. The characters of a text are code
  points below 256.
\<close>

definition opt_all :: "('a \<Rightarrow> bool) \<Rightarrow> 'a option \<Rightarrow> bool" where
  "opt_all P x = (case x of None \<Rightarrow> True | Some y \<Rightarrow> P y)"

lemma opt_all_simps [simp]: "opt_all P None" "opt_all P (Some y) = P y"
  by (simp_all add: opt_all_def)

definition printable :: "char \<Rightarrow> bool" where
  "printable c = (let n = (of_char c :: nat) in 33 \<le> n \<and> n \<le> 126)"

text \<open>\<open>_safe_queue_text\<close>.\<close>

definition safe_queue_text :: "string \<Rightarrow> bool" where
  "safe_queue_text s = (1 \<le> length s \<and> length s \<le> 256 \<and> list_all printable s)"

definition SCHEMA_VERSION :: string where
  "SCHEMA_VERSION = ''queue-dispatch-binding-v1''"

definition id_list :: "string list \<Rightarrow> json" where
  "id_list ids = JArr (map JStr ids)"

text \<open>\<open>_queue_binding_digest\<close>: what is hashed, and its digest.\<close>

definition binding_object :: "string \<Rightarrow> string \<Rightarrow> string \<Rightarrow> string \<Rightarrow> string list \<Rightarrow> string list \<Rightarrow> json" where
  "binding_object scan org request manifest executions operations = JObj
     [(''schema_version'', JStr SCHEMA_VERSION), (''scan_id'', JStr scan), (''organization_id'', JStr org),
      (''authorization_request_id'', JStr request), (''manifest_hash'', JStr manifest),
      (''execution_ids'', id_list executions), (''operation_ids'', id_list operations)]"

definition queue_binding_digest ::
    "(string \<Rightarrow> string) \<Rightarrow> string \<Rightarrow> string \<Rightarrow> string \<Rightarrow> string \<Rightarrow> string list \<Rightarrow> string list \<Rightarrow> string" where
  "queue_binding_digest sha scan org request manifest executions operations =
     sha (json_dumps (binding_object scan org request manifest executions operations))"

section \<open>Bindings\<close>

record queue_binding =
  qb_scan_id :: string
  qb_organization_id :: string
  qb_request_id :: string
  qb_manifest_hash :: string
  qb_execution_ids :: "string list"
  qb_operation_ids :: "string list"
  qb_digest :: string
  qb_schema_version :: string

definition queue_text :: "string \<Rightarrow> bool" where
  "queue_text s = (py_strip s \<noteq> [] \<and> length s \<le> 256)"

text \<open>\<open>__post_init__\<close>, the check of every constructed binding.\<close>

definition binding_valid :: "(string \<Rightarrow> string) \<Rightarrow> queue_binding \<Rightarrow> bool" where
  "binding_valid sha b =
    (list_all queue_text [qb_scan_id b, qb_organization_id b, qb_request_id b, qb_manifest_hash b, qb_digest b]
     \<and> qb_schema_version b = SCHEMA_VERSION
     \<and> hex64 (qb_manifest_hash b) \<and> hex64 (qb_digest b)
     \<and> qb_execution_ids b \<noteq> [] \<and> length (qb_execution_ids b) = length (qb_operation_ids b)
     \<and> list_all queue_text (qb_execution_ids b) \<and> distinct (qb_execution_ids b)
     \<and> list_all queue_text (qb_operation_ids b) \<and> distinct (qb_operation_ids b)
     \<and> qb_digest b = queue_binding_digest sha (qb_scan_id b) (qb_organization_id b) (qb_request_id b)
         (qb_manifest_hash b) (qb_execution_ids b) (qb_operation_ids b))"

definition construct_binding :: "(string \<Rightarrow> string) \<Rightarrow> queue_binding \<Rightarrow> queue_binding option" where
  "construct_binding sha b = (if binding_valid sha b then Some b else None)"

text \<open>\<open>create\<close>: the pairs are sorted by operation, then the digest is taken.\<close>

definition create_binding ::
    "(string \<Rightarrow> string) \<Rightarrow> string \<Rightarrow> string \<Rightarrow> string \<Rightarrow> string \<Rightarrow> string list \<Rightarrow> string list \<Rightarrow> queue_binding option" where
  "create_binding sha scan org request manifest executions operations =
    (if length operations \<noteq> length executions then None
     else let pairs = sort_keys (zip operations executions); ops = map fst pairs; exs = map snd pairs
       in construct_binding sha
         \<lparr> qb_scan_id = scan, qb_organization_id = org, qb_request_id = request, qb_manifest_hash = manifest,
           qb_execution_ids = exs, qb_operation_ids = ops,
           qb_digest = queue_binding_digest sha scan org request manifest exs ops,
           qb_schema_version = SCHEMA_VERSION \<rparr>)"

text \<open>\<open>execution_ids_json\<close> and \<open>operation_ids_json\<close>, and reading such a text back.\<close>

definition ids_json :: "string list \<Rightarrow> string" where
  "ids_json ids = json_dumps (id_list ids)"

definition str_of :: "json \<Rightarrow> string option" where
  "str_of v = (case v of JStr s \<Rightarrow> Some s | _ \<Rightarrow> None)"

definition ids_of_json :: "string \<Rightarrow> string list option" where
  "ids_of_json s = (case json_loads s of Some (JArr vs) \<Rightarrow> those (map str_of vs) | _ \<Rightarrow> None)"

text \<open>A message of the stream: its fields, all texts.\<close>

type_synonym wire = "string \<rightharpoonup> string"

definition binding_fields :: "string list" where
  "binding_fields = [''queue_binding_digest'', ''manifest_hash'', ''execution_ids_json'',
     ''operation_ids_json'', ''queue_binding_schema_version'']"

definition wire_of_binding :: "queue_binding \<Rightarrow> wire" where
  "wire_of_binding b = [''scan_id'' \<mapsto> qb_scan_id b, ''organization_id'' \<mapsto> qb_organization_id b,
     ''authorization_request_id'' \<mapsto> qb_request_id b, ''manifest_hash'' \<mapsto> qb_manifest_hash b,
     ''execution_ids_json'' \<mapsto> ids_json (qb_execution_ids b), ''operation_ids_json'' \<mapsto> ids_json (qb_operation_ids b),
     ''queue_binding_digest'' \<mapsto> qb_digest b, ''queue_binding_schema_version'' \<mapsto> qb_schema_version b]"

text \<open>\<open>from_payload\<close>: a digest-valid payload whose identities are not in canonical order is refused too.\<close>

definition binding_from_payload :: "(string \<Rightarrow> string) \<Rightarrow> wire \<Rightarrow> queue_binding option" where
  "binding_from_payload sha w =
    Option.bind (w ''scan_id'') (\<lambda>scan.
    Option.bind (w ''organization_id'') (\<lambda>org.
    Option.bind (w ''authorization_request_id'') (\<lambda>request.
    Option.bind (w ''manifest_hash'') (\<lambda>manifest.
    Option.bind (w ''execution_ids_json'') (\<lambda>executions.
    Option.bind (w ''operation_ids_json'') (\<lambda>operations.
    Option.bind (w ''queue_binding_digest'') (\<lambda>digest.
    Option.bind (w ''queue_binding_schema_version'') (\<lambda>version.
    Option.bind (ids_of_json executions) (\<lambda>exs.
    Option.bind (ids_of_json operations) (\<lambda>ops.
    Option.bind (construct_binding sha
      \<lparr> qb_scan_id = scan, qb_organization_id = org, qb_request_id = request, qb_manifest_hash = manifest,
        qb_execution_ids = exs, qb_operation_ids = ops, qb_digest = digest, qb_schema_version = version \<rparr>) (\<lambda>b.
    if create_binding sha scan org request manifest exs ops = Some b then Some b else None)))))))))))"

section \<open>Canonical order\<close>

lemma sort_keys_again [simp]: "sort_keys (sort_keys xs) = sort_keys xs"
  by (intro sort_sorted sort_keys_sorted)

lemma length_sort_keys [simp]: "length (sort_keys xs) = length xs"
  by (metis mset_sort_keys size_mset)

section \<open>Identity lists\<close>

lemma those_strs [simp]: "those (map (str_of \<circ> JStr) ids) = Some ids"
  by (induction ids) (simp_all add: str_of_def)

lemma readable_ids: "readable (id_list ids)"
  by (simp add: id_list_def list_all_iff)

lemma canon_ids [simp]: "canon (id_list ids) = id_list ids"
  by (simp add: id_list_def)

lemma ids_of_ids_json [simp]: "ids_of_json (ids_json ids) = Some ids"
  using json_loads_dumps [OF readable_ids]
  by (simp add: ids_of_json_def ids_json_def) (simp add: id_list_def)

lemma id_list_inj [simp]: "id_list a = id_list b \<longleftrightarrow> a = b"
  by (simp add: id_list_def inj_map_eq_map inj_def)

section \<open>Created bindings\<close>

lemma zip_fst_snd [simp]: "zip (map fst ps) (map snd ps) = ps"
  by (induction ps) auto

lemma construct_binding_Some [simp]: "construct_binding sha b = Some c \<longleftrightarrow> binding_valid sha b \<and> c = b"
  by (auto simp: construct_binding_def)

lemma create_binding_shape:
  assumes "create_binding sha scan org request manifest exs ops = Some b"
  shows "binding_valid sha b \<and> keys_sorted (zip (qb_operation_ids b) (qb_execution_ids b))
    \<and> qb_scan_id b = scan \<and> qb_organization_id b = org \<and> qb_request_id b = request \<and> qb_manifest_hash b = manifest
    \<and> mset (zip (qb_operation_ids b) (qb_execution_ids b)) = mset (zip ops exs)"
  using assms by (auto simp: create_binding_def Let_def mset_sort_keys intro: sort_keys_sorted split: if_splits)

text \<open>A binding in canonical order is its own canonical form.\<close>

lemma create_canonical:
  assumes "binding_valid sha b" and "keys_sorted (zip (qb_operation_ids b) (qb_execution_ids b))"
  shows "create_binding sha (qb_scan_id b) (qb_organization_id b) (qb_request_id b) (qb_manifest_hash b)
    (qb_execution_ids b) (qb_operation_ids b) = Some b"
proof -
  let ?r = "\<lparr> qb_scan_id = qb_scan_id b, qb_organization_id = qb_organization_id b, qb_request_id = qb_request_id b,
    qb_manifest_hash = qb_manifest_hash b, qb_execution_ids = qb_execution_ids b,
    qb_operation_ids = qb_operation_ids b, qb_digest = queue_binding_digest sha (qb_scan_id b)
      (qb_organization_id b) (qb_request_id b) (qb_manifest_hash b) (qb_execution_ids b) (qb_operation_ids b),
    qb_schema_version = SCHEMA_VERSION \<rparr>"
  have len: "length (qb_operation_ids b) = length (qb_execution_ids b)"
    using assms(1) by (simp add: binding_valid_def)
  have "?r = b"
    using assms(1) by (intro queue_binding.equality) (simp_all add: binding_valid_def)
  moreover have "create_binding sha (qb_scan_id b) (qb_organization_id b) (qb_request_id b) (qb_manifest_hash b)
      (qb_execution_ids b) (qb_operation_ids b) = construct_binding sha ?r"
    using len assms(2) by (simp add: create_binding_def Let_def sort_sorted del: construct_binding_Some)
  ultimately show ?thesis using assms(1) by simp
qed

lemma rebuild_binding [simp]:
  "\<lparr> qb_scan_id = qb_scan_id b, qb_organization_id = qb_organization_id b, qb_request_id = qb_request_id b,
     qb_manifest_hash = qb_manifest_hash b, qb_execution_ids = qb_execution_ids b,
     qb_operation_ids = qb_operation_ids b, qb_digest = qb_digest b, qb_schema_version = qb_schema_version b \<rparr> = b"
  by (rule queue_binding.equality) simp_all

lemma payload_of_binding:
  assumes "binding_valid sha b" and "keys_sorted (zip (qb_operation_ids b) (qb_execution_ids b))"
    and "\<And>k. k \<in> dom (wire_of_binding b) \<Longrightarrow> w k = wire_of_binding b k"
  shows "binding_from_payload sha w = Some b"
proof -
  have w: "w ''scan_id'' = Some (qb_scan_id b)" "w ''organization_id'' = Some (qb_organization_id b)"
    "w ''authorization_request_id'' = Some (qb_request_id b)" "w ''manifest_hash'' = Some (qb_manifest_hash b)"
    "w ''execution_ids_json'' = Some (ids_json (qb_execution_ids b))"
    "w ''operation_ids_json'' = Some (ids_json (qb_operation_ids b))"
    "w ''queue_binding_digest'' = Some (qb_digest b)"
    "w ''queue_binding_schema_version'' = Some (qb_schema_version b)"
    using assms(3) by (simp_all add: wire_of_binding_def)
  show ?thesis
    using assms(1) create_canonical [OF assms(1,2)]
    by (simp add: binding_from_payload_def w construct_binding_def)
qed

lemma payload_shape:
  assumes "binding_from_payload sha w = Some b"
  shows "binding_valid sha b \<and> keys_sorted (zip (qb_operation_ids b) (qb_execution_ids b))
    \<and> w ''scan_id'' = Some (qb_scan_id b) \<and> w ''organization_id'' = Some (qb_organization_id b)
    \<and> w ''authorization_request_id'' = Some (qb_request_id b)
    \<and> w ''queue_binding_digest'' = Some (qb_digest b)"
  using assms
  by (auto simp: binding_from_payload_def bind_eq_Some_conv dest!: create_binding_shape split: if_splits)

text \<open>Two valid bindings with one digest are the same binding, unless SHA-256 collides.\<close>

lemma binding_object_canon_inj:
  "canon (binding_object s o' r m e p) = canon (binding_object s' o'' r' m' e' p')
     \<Longrightarrow> s = s' \<and> o' = o'' \<and> r = r' \<and> m = m' \<and> e = e' \<and> p = p'"
  by (simp add: binding_object_def sort_keys_def)

end
