(* ===== verification/Queue_Failure.thy ===== *)
theory Queue_Failure
  imports Queue_Binding
begin

text \<open>
  \<open>backend/app/core/queue.py\<close>: failure evidence, the authoritative quarantine state and \<open>fail\<close>.

  Redis is a service outside the repository. An operation is a function of the replies it got and gives,
  beside its result, the trace of the commands it sent; what a reply depends on is not modelled. A
  connection that breaks is modelled for the one transaction whose failure the code handles.
\<close>

section \<open>Commands\<close>

type_synonym queue_fields = "(string \<times> string) list"

datatype queue_error = QueueValueError | QueueRuntimeError | IdentityConflict | HandlerRaised string

text \<open>The commands of a run. \<open>Handle\<close> is the call of the worker's handler. A stream is named by its
  suffix: empty for the intents, \<open>:failures\<close> for the failures. \<open>Transaction\<close> is an atomic pipeline.\<close>

datatype redis_command =
    SetKey string string "nat option"
  | Xadd string queue_fields
  | Xack string
  | DelKeys "string list"
  | Transaction "redis_command list"
  | Handle string "string option" "string option" "string option" "queue_binding option"

type_synonym 'a queue_run = "(queue_error + 'a) \<times> redis_command list"

definition run_bind :: "'a queue_run \<Rightarrow> ('a \<Rightarrow> 'b queue_run) \<Rightarrow> 'b queue_run" where
  "run_bind m f = (case m of (Inl e, cs) \<Rightarrow> (Inl e, cs)
     | (Inr x, cs) \<Rightarrow> (case f x of (r, cs') \<Rightarrow> (r, cs @ cs')))"

definition run_require :: "bool \<Rightarrow> unit queue_run" where
  "run_require b = (if b then Inr () else Inl QueueValueError, [])"

definition emit :: "redis_command \<Rightarrow> unit queue_run" where
  "emit c = (Inr (), [c])"

text \<open>The replies and the clock: \<open>q_now\<close> is the current time in ISO format, \<open>q_get\<close> a \<open>GET\<close>, \<open>q_entry\<close>
  the entry \<open>XRANGE\<close> finds, \<open>q_attempts\<close> the delivery counter, \<open>None\<close> when it cannot be read.\<close>

record queue_env =
  q_sha :: "string \<Rightarrow> string"
  q_now :: string
  q_get :: "string \<Rightarrow> string option"
  q_entry :: "string \<Rightarrow> wire option"
  q_new_id :: string
  q_attempts :: "string \<Rightarrow> int option"
  q_commits :: bool
  q_acked :: bool

definition stream_name :: string where "stream_name = ''cyberassess:scan-execution''"

definition quarantine_key :: "(string \<Rightarrow> string) \<Rightarrow> string \<Rightarrow> string" where
  "quarantine_key sha m = stream_name @ '':quarantine:'' @ sha (utf8 m)"

definition quarantine_state_key :: "(string \<Rightarrow> string) \<Rightarrow> string \<Rightarrow> string" where
  "quarantine_state_key sha m = stream_name @ '':quarantine-state:'' @ sha (utf8 m)"

text \<open>The bounds read from the environment, at their defaults.\<close>

definition MAX_DELIVERY_ATTEMPTS :: int where "MAX_DELIVERY_ATTEMPTS = 5"
definition DEDUPE_TTL_SECONDS :: nat where "DEDUPE_TTL_SECONDS = 86400"
definition QUARANTINE_TTL_SECONDS :: nat where "QUARANTINE_TTL_SECONDS = 86400"

definition AUTHORITATIVE :: string where "AUTHORITATIVE = ''AUTHORITATIVE_EXECUTION''"
definition LEGACY :: string where "LEGACY = ''LEGACY_DIAGNOSTIC''"
definition AMBIGUOUS :: string where "AMBIGUOUS = ''AMBIGUOUS_UNCLASSIFIED''"

section \<open>Failure evidence\<close>

definition FAILURE_EVIDENCE_FIELDS :: "string list" where
  "FAILURE_EVIDENCE_FIELDS = [''message_id'', ''dispatch_message_id'', ''error_code'', ''failure_category'',
     ''failure_observed_at'', ''requeue_required'', ''escalated'', ''quarantined'', ''scan_id'', ''organization_id'',
     ''authorization_request_id'', ''queue_binding_digest'', ''manifest_hash'', ''execution_ids_json'',
     ''operation_ids_json'', ''queue_binding_schema_version'', ''attempt_count'', ''max_attempts'', ''message_kind'']"

definition REQUIRED_EVIDENCE_FIELDS :: "string list" where
  "REQUIRED_EVIDENCE_FIELDS = [''message_id'', ''dispatch_message_id'', ''error_code'', ''failure_category'',
     ''failure_observed_at'', ''requeue_required'', ''escalated'', ''quarantined'', ''message_kind'']"

definition evidence_length :: "string \<Rightarrow> nat" where
  "evidence_length k = (if k \<in> {''execution_ids_json'', ''operation_ids_json''} then 131072 else 256)"

definition evidence_text :: "string \<times> string \<Rightarrow> bool" where
  "evidence_text kv = (1 \<le> length (snd kv) \<and> length (snd kv) \<le> evidence_length (fst kv)
     \<and> list_all printable (snd kv))"

text \<open>\<open>_validate_identity_json_fields\<close>: no field of the binding, or all of them, forming one.\<close>

definition identity_fields_valid :: "(string \<Rightarrow> string) \<Rightarrow> wire \<Rightarrow> bool" where
  "identity_fields_valid sha w =
    (list_all (\<lambda>k. w k = None) binding_fields
     \<or> list_all (\<lambda>k. w k \<noteq> None) binding_fields \<and> binding_from_payload sha w \<noteq> None)"

text \<open>A count is decimal digits, at least 1; the texts are ASCII here.\<close>

definition count_of :: "string option \<Rightarrow> int option" where
  "count_of s = (case s of None \<Rightarrow> None
     | Some t \<Rightarrow> if t \<noteq> [] \<and> list_all is_digit t then Some (int (digits_value 0 t)) else None)"

definition count_valid :: "string option \<Rightarrow> bool" where
  "count_valid s = (s = None \<or> (case count_of s of None \<Rightarrow> False | Some n \<Rightarrow> 1 \<le> n))"

definition counts_ordered :: "string option \<Rightarrow> string option \<Rightarrow> bool" where
  "counts_ordered a m = (case (count_of a, count_of m) of (Some i, Some j) \<Rightarrow> i \<le> j | _ \<Rightarrow> True)"

definition evidence_valid :: "(string \<Rightarrow> string) \<Rightarrow> string \<Rightarrow> queue_fields \<Rightarrow> bool \<Rightarrow> bool" where
  "evidence_valid sha m ev require_quarantined =
    (let w = map_of ev
     in set (map fst ev) \<subseteq> set FAILURE_EVIDENCE_FIELDS \<and> list_all evidence_text ev
        \<and> list_all (\<lambda>k. w k \<noteq> None) REQUIRED_EVIDENCE_FIELDS
        \<and> w ''message_id'' = Some m \<and> w ''dispatch_message_id'' = Some m
        \<and> w ''quarantined'' \<in> {Some ''0'', Some ''1''}
        \<and> (require_quarantined \<longrightarrow> w ''quarantined'' = Some ''1'')
        \<and> w ''message_kind'' \<in> {Some AUTHORITATIVE, Some LEGACY, Some AMBIGUOUS}
        \<and> (require_quarantined \<longrightarrow> w ''message_kind'' \<noteq> Some LEGACY)
        \<and> (w ''authorization_request_id'' \<noteq> None \<longrightarrow> w ''organization_id'' \<noteq> None)
        \<and> identity_fields_valid sha w
        \<and> count_valid (w ''attempt_count'') \<and> count_valid (w ''max_attempts'')
        \<and> counts_ordered (w ''attempt_count'') (w ''max_attempts''))"

definition canonical_failure_evidence ::
    "(string \<Rightarrow> string) \<Rightarrow> string \<Rightarrow> queue_fields \<Rightarrow> bool \<Rightarrow> queue_fields option" where
  "canonical_failure_evidence sha m ev require_quarantined =
    (if evidence_valid sha m ev require_quarantined then Some (sort_keys ev) else None)"

definition text_object :: "queue_fields \<Rightarrow> json" where
  "text_object ev = JObj (map (\<lambda>kv. (fst kv, JStr (snd kv))) ev)"

definition failure_evidence_digest :: "(string \<Rightarrow> string) \<Rightarrow> queue_fields \<Rightarrow> string" where
  "failure_evidence_digest sha ev = sha (json_dumps (text_object ev))"

definition quarantine_state_digest :: "(string \<Rightarrow> string) \<Rightarrow> jobj \<Rightarrow> string" where
  "quarantine_state_digest sha state =
     sha (json_dumps (JObj (filter (\<lambda>kv. fst kv \<noteq> ''quarantine_state_digest'') state)))"

section \<open>Quarantine\<close>

text \<open>The arguments of \<open>fail\<close> beside the message, the code and the acknowledgement.\<close>

record failure =
  f_scan_id :: "string option"
  f_organization_id :: "string option"
  f_request_id :: "string option"
  f_digest :: "string option"
  f_manifest_hash :: "string option"
  f_execution_ids :: "string list option"
  f_operation_ids :: "string list option"
  f_message_kind :: "string option"
  f_attempt_count :: "int option"
  f_max_attempts :: "int option"
  f_escalated :: bool
  f_quarantined :: bool

definition no_failure :: failure where
  "no_failure = \<lparr> f_scan_id = None, f_organization_id = None, f_request_id = None, f_digest = None,
     f_manifest_hash = None, f_execution_ids = None, f_operation_ids = None, f_message_kind = None,
     f_attempt_count = None, f_max_attempts = None, f_escalated = False, f_quarantined = False \<rparr>"

definition text_entry :: "string \<Rightarrow> string option \<Rightarrow> jobj" where
  "text_entry k v = (case v of None \<Rightarrow> [] | Some s \<Rightarrow> [(k, JStr s)])"

definition list_entry :: "string \<Rightarrow> string list option \<Rightarrow> jobj" where
  "list_entry k v = (case v of None \<Rightarrow> [] | Some ids \<Rightarrow> [(k, id_list ids)])"

definition count_entry :: "string \<Rightarrow> int option \<Rightarrow> jobj" where
  "count_entry k v = (case v of None \<Rightarrow> [] | Some n \<Rightarrow> if 1 \<le> n then [(k, JInt n)] else [])"

definition quarantine_body :: "queue_env \<Rightarrow> string \<Rightarrow> string \<Rightarrow> failure \<Rightarrow> queue_fields \<Rightarrow> jobj" where
  "quarantine_body env m reason f ev =
    [(''schema_version'', JStr ''queue-quarantine-v3''), (''status'', JStr ''QUARANTINED''), (''message_id'', JStr m),
     (''reason'', JStr (take 128 (if safe_queue_text (take 256 reason) then reason else ''QUEUE_FAILURE''))),
     (''quarantined_at'', JStr (q_now env)), (''failure_evidence'', text_object ev),
     (''failure_evidence_digest'', JStr (failure_evidence_digest (q_sha env) ev)),
     (''message_kind'', JStr (the (map_of ev ''message_kind'')))]
    @ text_entry ''scan_id'' (f_scan_id f) @ text_entry ''organization_id'' (f_organization_id f)
    @ text_entry ''authorization_request_id'' (f_request_id f)
    @ text_entry ''queue_binding_digest'' (f_digest f) @ text_entry ''manifest_hash'' (f_manifest_hash f)
    @ list_entry ''execution_ids'' (f_execution_ids f) @ list_entry ''operation_ids'' (f_operation_ids f)
    @ count_entry ''attempt_count'' (f_attempt_count f) @ count_entry ''max_attempts'' (f_max_attempts f)"

text \<open>The checks of \<open>_quarantine\<close>: what it stores beside the evidence agrees with the evidence.\<close>

definition agrees :: "string option \<Rightarrow> string option \<Rightarrow> bool" where
  "agrees v stored = (v = None \<or> stored = v)"

definition count_text :: "int option \<Rightarrow> string option" where
  "count_text v = (case v of Some n \<Rightarrow> if 1 \<le> n then Some (str_int n) else None | None \<Rightarrow> None)"

definition quarantine_agrees :: "failure \<Rightarrow> queue_fields \<Rightarrow> bool" where
  "quarantine_agrees f ev =
    (agrees (f_scan_id f) (map_of ev ''scan_id'') \<and> agrees (f_organization_id f) (map_of ev ''organization_id'')
     \<and> agrees (f_request_id f) (map_of ev ''authorization_request_id'')
     \<and> agrees (f_digest f) (map_of ev ''queue_binding_digest'')
     \<and> agrees (f_manifest_hash f) (map_of ev ''manifest_hash'')
     \<and> agrees (map_option ids_json (f_execution_ids f)) (map_of ev ''execution_ids_json'')
     \<and> agrees (map_option ids_json (f_operation_ids f)) (map_of ev ''operation_ids_json'')
     \<and> agrees (count_text (f_attempt_count f)) (map_of ev ''attempt_count'')
     \<and> agrees (count_text (f_max_attempts f)) (map_of ev ''max_attempts''))"

definition quarantine_state :: "queue_env \<Rightarrow> string \<Rightarrow> string \<Rightarrow> failure \<Rightarrow> queue_fields \<Rightarrow> jobj" where
  "quarantine_state env m reason f ev =
    (let body = quarantine_body env m reason f ev
     in body @ [(''quarantine_state_digest'', JStr (quarantine_state_digest (q_sha env) body))])"

definition quarantine ::
    "queue_env \<Rightarrow> string \<Rightarrow> string \<Rightarrow> failure \<Rightarrow> queue_fields \<Rightarrow> bool \<Rightarrow> unit queue_run" where
  "quarantine env m reason f failure_fields acknowledge =
    (case canonical_failure_evidence (q_sha env) m failure_fields True of
       None \<Rightarrow> (Inl QueueValueError, [])
     | Some ev \<Rightarrow>
        if \<not> quarantine_agrees f ev then (Inl QueueValueError, [])
        else if \<not> q_commits env then (Inl QueueRuntimeError, [])
        else let serialized = json_dumps (JObj (quarantine_state env m reason f ev))
          in emit (Transaction
               ([SetKey (quarantine_state_key (q_sha env) m) serialized None,
                 SetKey (quarantine_key (q_sha env) m) serialized (Some QUARANTINE_TTL_SECONDS),
                 Xadd '':failures'' ev] @ (if acknowledge then [Xack m] else []))))"

section \<open>Failing a message\<close>

definition error_code_char :: "char \<Rightarrow> bool" where
  "error_code_char c = (let n = (of_char c :: nat) in
     (48 \<le> n \<and> n \<le> 57) \<or> (65 \<le> n \<and> n \<le> 90) \<or> (97 \<le> n \<and> n \<le> 122) \<or> c \<in> set ''_.-'')"

definition error_code_valid :: "string \<Rightarrow> bool" where
  "error_code_valid s = (1 \<le> length s \<and> length s \<le> 128 \<and> list_all error_code_char s)"

definition failure_identity_present :: "failure \<Rightarrow> bool" where
  "failure_identity_present f = (f_request_id f \<noteq> None \<or> f_digest f \<noteq> None \<or> f_manifest_hash f \<noteq> None
     \<or> f_execution_ids f \<noteq> None \<or> f_operation_ids f \<noteq> None)"

definition failure_wire :: "failure \<Rightarrow> wire" where
  "failure_wire f = [''scan_id'' \<mapsto> the (f_scan_id f), ''organization_id'' \<mapsto> the (f_organization_id f),
     ''authorization_request_id'' \<mapsto> the (f_request_id f), ''manifest_hash'' \<mapsto> the (f_manifest_hash f),
     ''execution_ids_json'' \<mapsto> ids_json (the (f_execution_ids f)),
     ''operation_ids_json'' \<mapsto> ids_json (the (f_operation_ids f)),
     ''queue_binding_digest'' \<mapsto> the (f_digest f), ''queue_binding_schema_version'' \<mapsto> SCHEMA_VERSION]"

definition kind_admits :: "(string \<Rightarrow> string) \<Rightarrow> failure \<Rightarrow> bool \<Rightarrow> bool" where
  "kind_admits sha f acknowledge =
    (if f_message_kind f = Some AUTHORITATIVE
     then \<not> acknowledge \<and> f_scan_id f \<noteq> None \<and> f_organization_id f \<noteq> None \<and> f_request_id f \<noteq> None
       \<and> f_digest f \<noteq> None \<and> f_manifest_hash f \<noteq> None \<and> f_execution_ids f \<noteq> None \<and> f_operation_ids f \<noteq> None
       \<and> binding_from_payload sha (failure_wire f) \<noteq> None
     else if f_message_kind f = Some LEGACY then \<not> failure_identity_present f
     else if f_message_kind f = Some AMBIGUOUS then f_quarantined f \<and> \<not> acknowledge
     else False)"

definition flag :: "bool \<Rightarrow> string" where
  "flag b = (if b then ''1'' else ''0'')"

definition evidence_entry :: "string \<Rightarrow> string option \<Rightarrow> queue_fields" where
  "evidence_entry k v = (if truthy v then [(k, the v)] else [])"

definition category_of :: "string \<Rightarrow> string" where
  "category_of kind = (if kind = AUTHORITATIVE then ''AUTHORITATIVE_DISPATCH''
     else if kind = AMBIGUOUS then ''AMBIGUOUS_QUEUE_MESSAGE'' else ''LEGACY_QUEUE'')"

definition identity_entries :: "failure \<Rightarrow> queue_fields" where
  "identity_entries f =
    (let es = evidence_entry ''queue_binding_digest'' (f_digest f) @ evidence_entry ''manifest_hash'' (f_manifest_hash f)
       @ evidence_entry ''execution_ids_json'' (map_option ids_json (f_execution_ids f))
       @ evidence_entry ''operation_ids_json'' (map_option ids_json (f_operation_ids f))
     in es @ (if es \<noteq> [] then [(''queue_binding_schema_version'', SCHEMA_VERSION)] else []))"

definition failure_fields :: "queue_env \<Rightarrow> string \<Rightarrow> string \<Rightarrow> bool \<Rightarrow> failure \<Rightarrow> queue_fields" where
  "failure_fields env m code acknowledge f =
    [(''message_id'', m), (''dispatch_message_id'', m), (''error_code'', code),
     (''failure_category'', category_of (the (f_message_kind f))), (''failure_observed_at'', q_now env),
     (''requeue_required'', flag (\<not> acknowledge)), (''escalated'', flag (f_escalated f)),
     (''quarantined'', flag (f_quarantined f)), (''message_kind'', the (f_message_kind f))]
    @ evidence_entry ''scan_id'' (f_scan_id f) @ evidence_entry ''organization_id'' (f_organization_id f)
    @ evidence_entry ''authorization_request_id'' (f_request_id f) @ identity_entries f
    @ evidence_entry ''attempt_count'' (map_option str_int (f_attempt_count f))
    @ evidence_entry ''max_attempts'' (map_option str_int (f_max_attempts f))"

definition fail_admits :: "(string \<Rightarrow> string) \<Rightarrow> string \<Rightarrow> string \<Rightarrow> bool \<Rightarrow> failure \<Rightarrow> bool" where
  "fail_admits sha m code acknowledge f =
    (queue_text m \<and> opt_all queue_text (f_scan_id f) \<and> error_code_valid (py_strip code)
     \<and> opt_all (\<lambda>n. 1 \<le> n) (f_attempt_count f) \<and> opt_all (\<lambda>n. 1 \<le> n) (f_max_attempts f)
     \<and> kind_admits sha f acknowledge)"

definition fail :: "queue_env \<Rightarrow> string \<Rightarrow> string \<Rightarrow> bool \<Rightarrow> failure \<Rightarrow> unit queue_run" where
  "fail env m code acknowledge f =
    (if \<not> fail_admits (q_sha env) m code acknowledge f then (Inl QueueValueError, [])
     else let collected = failure_fields env m (py_strip code) acknowledge f
       in if f_message_kind f \<noteq> Some LEGACY \<and> f_quarantined f
          then quarantine env m (py_strip code) f collected acknowledge
          else (case canonical_failure_evidence (q_sha env) m collected False of
                  None \<Rightarrow> (Inl QueueValueError, [])
                | Some ev \<Rightarrow> run_bind (emit (Xadd '':failures'' ev))
                    (\<lambda>_. if acknowledge then emit (Xack m) else (Inr (), []))))"

end
