(* ===== verification/Queue_Consumer.thy ===== *)
theory Queue_Consumer
  imports Queue_Failure
begin

text \<open>
  \<open>backend/app/core/queue.py\<close>: publishing an execution intent (\<open>enqueue\<close> with its Lua script), consuming
  one (\<open>consume_once\<close>), acknowledging a quarantined one, and the bounded local execution of
  \<open>ScanQueueManager\<close>. The cipher of the credential envelope is a parameter.
\<close>

section \<open>Publishing\<close>

text \<open>The intent, with the encrypted envelope when there are credentials.\<close>

record intent =
  i_scan_id :: string
  i_organization_id :: "string option"
  i_envelope :: "string option"
  i_request_id :: "string option"
  i_binding :: "queue_binding option"

definition intent_valid :: "(string \<Rightarrow> string) \<Rightarrow> intent \<Rightarrow> bool" where
  "intent_valid sha i =
    (py_strip (i_scan_id i) \<noteq> [] \<and> opt_all queue_text (i_request_id i)
     \<and> (case i_request_id i of
          None \<Rightarrow> i_binding i = None \<and> i_envelope i = None
        | Some request \<Rightarrow> truthy (i_organization_id i)
            \<and> (case i_binding i of None \<Rightarrow> False | Some b \<Rightarrow>
                 create_binding sha (i_scan_id i) (or_else (i_organization_id i) []) (py_strip request)
                   (qb_manifest_hash b) (qb_execution_ids b) (qb_operation_ids b) = Some b)))"

definition dedupe_key :: "(string \<Rightarrow> string) \<Rightarrow> string \<Rightarrow> string \<Rightarrow> string" where
  "dedupe_key sha org request = stream_name @ '':dedupe:'' @ sha (utf8 (org @ [CHR 0x00] @ request))"

text \<open>The entry the script adds; the envelope is empty without credentials.\<close>

definition intent_fields :: "queue_env \<Rightarrow> intent \<Rightarrow> string \<Rightarrow> queue_binding \<Rightarrow> queue_fields" where
  "intent_fields env i request b =
    [(''scan_id'', i_scan_id i), (''organization_id'', or_else (i_organization_id i) []),
     (''enqueued_at'', q_now env), (''authorization_request_id'', request),
     (''credential_envelope'', or_else (i_envelope i) []), (''queue_binding_digest'', qb_digest b),
     (''manifest_hash'', qb_manifest_hash b), (''execution_ids_json'', ids_json (qb_execution_ids b)),
     (''operation_ids_json'', ids_json (qb_operation_ids b)),
     (''queue_binding_schema_version'', qb_schema_version b), (''message_kind'', AUTHORITATIVE)]"

definition compared_fields :: "string list" where
  "compared_fields = [''scan_id'', ''organization_id'', ''authorization_request_id'', ''queue_binding_digest'',
     ''manifest_hash'', ''execution_ids_json'', ''operation_ids_json'', ''queue_binding_schema_version'',
     ''message_kind'']"

text \<open>\<open>_IDEMPOTENT_ENQUEUE_SCRIPT\<close>, run atomically.\<close>

definition enqueue_script :: "queue_env \<Rightarrow> string \<Rightarrow> queue_fields \<Rightarrow> string queue_run" where
  "enqueue_script env key entry =
    (case q_get env key of
       Some existing \<Rightarrow>
         (case q_entry env existing of
            None \<Rightarrow> (Inl IdentityConflict, [])
          | Some queued \<Rightarrow>
              if list_all (\<lambda>k. queued k = map_of entry k) compared_fields then (Inr existing, [])
              else (Inl IdentityConflict, []))
     | None \<Rightarrow> (Inr (q_new_id env),
         [Transaction [Xadd [] entry, SetKey key (q_new_id env) (Some DEDUPE_TTL_SECONDS)]]))"

definition enqueue :: "queue_env \<Rightarrow> intent \<Rightarrow> string queue_run" where
  "enqueue env i =
    (if \<not> intent_valid (q_sha env) i then (Inl QueueValueError, [])
     else case (i_request_id i, i_binding i) of
       (Some request, Some b) \<Rightarrow>
         enqueue_script env (dedupe_key (q_sha env) (or_else (i_organization_id i) []) (py_strip request))
           (intent_fields env i (py_strip request) b)
     | _ \<Rightarrow> (Inr (q_new_id env),
         [Xadd [] [(''message_kind'', LEGACY), (''scan_id'', i_scan_id i),
                   (''organization_id'', or_else (i_organization_id i) []), (''enqueued_at'', q_now env)]]))"

section \<open>Consuming\<close>

definition WIRE_FIELDS :: "string set" where
  "WIRE_FIELDS = set ([''message_kind'', ''scan_id'', ''organization_id'', ''enqueued_at'',
     ''authorization_request_id'', ''credential_envelope''] @ binding_fields)"

text \<open>\<open>_validate_wire_message\<close>: the kind, the scan, the tenant and the request.\<close>

definition validate_wire :: "(string \<Rightarrow> string) \<Rightarrow> queue_fields \<Rightarrow> (string \<times> string \<times> string option \<times> string option) option" where
  "validate_wire sha message =
    (let w = map_of message; scan = the (w ''scan_id''); org = the (w ''organization_id'');
         request = w ''authorization_request_id''; kind = w ''message_kind'';
         present = filter (\<lambda>k. w k \<noteq> None) binding_fields
     in if \<not> set (map fst message) \<subseteq> WIRE_FIELDS
         \<or> \<not> list_all (\<lambda>k. w k \<noteq> None) [''message_kind'', ''scan_id'', ''organization_id'', ''enqueued_at'']
         \<or> kind \<notin> {Some AUTHORITATIVE, Some LEGACY}
         \<or> \<not> safe_queue_text scan \<or> (org \<noteq> [] \<and> \<not> safe_queue_text org)
         \<or> \<not> safe_queue_text (the (w ''enqueued_at''))
     then None
     else if kind = Some AUTHORITATIVE
     then (if safe_queue_text org \<and> opt_all safe_queue_text request \<and> request \<noteq> None
              \<and> present = binding_fields \<and> binding_from_payload sha w \<noteq> None
           then Some (AUTHORITATIVE, scan, Some org, request) else None)
     else if truthy request \<or> present \<noteq> [] \<or> w ''credential_envelope'' \<noteq> None then None
     else Some (LEGACY, scan, if org = [] then None else Some org, request))"

text \<open>\<open>_is_quarantined\<close>: a stored state of any content, or a non-empty marker.\<close>

definition is_quarantined :: "queue_env \<Rightarrow> string \<Rightarrow> bool" where
  "is_quarantined env m = (q_get env (quarantine_state_key (q_sha env) m) \<noteq> None
     \<or> truthy (q_get env (quarantine_key (q_sha env) m)))"

text \<open>\<open>_quarantine_invalid_wire_message\<close>; \<open>None\<close> stands for fields that are no object.\<close>

definition safe_value :: "queue_fields option \<Rightarrow> string \<Rightarrow> string option" where
  "safe_value message k = (case message of None \<Rightarrow> None | Some kvs \<Rightarrow>
     (case map_of kvs k of None \<Rightarrow> None | Some v \<Rightarrow> if safe_queue_text v then Some v else None))"

definition invalid_failure :: "queue_env \<Rightarrow> string \<Rightarrow> queue_fields option \<Rightarrow> failure" where
  "invalid_failure env m message =
    (let request = safe_value message ''authorization_request_id''
     in no_failure\<lparr> f_scan_id := safe_value message ''scan_id'',
          f_organization_id := (if request = None then None else safe_value message ''organization_id''),
          f_request_id := request, f_attempt_count := q_attempts env m,
          f_max_attempts := Some MAX_DELIVERY_ATTEMPTS, f_message_kind := Some AMBIGUOUS,
          f_escalated := True, f_quarantined := True \<rparr>)"

definition quarantine_invalid :: "queue_env \<Rightarrow> string \<Rightarrow> queue_fields option \<Rightarrow> string \<Rightarrow> unit queue_run" where
  "quarantine_invalid env m message code = fail env m code False (invalid_failure env m message)"

definition bound_failure :: "queue_binding \<Rightarrow> int \<Rightarrow> bool \<Rightarrow> failure" where
  "bound_failure b attempts quarantined =
    no_failure\<lparr> f_scan_id := Some (qb_scan_id b), f_organization_id := Some (qb_organization_id b),
      f_request_id := Some (qb_request_id b), f_message_kind := Some AUTHORITATIVE, f_digest := Some (qb_digest b),
      f_manifest_hash := Some (qb_manifest_hash b), f_execution_ids := Some (qb_execution_ids b),
      f_operation_ids := Some (qb_operation_ids b), f_attempt_count := Some attempts,
      f_max_attempts := Some MAX_DELIVERY_ATTEMPTS, f_escalated := quarantined, f_quarantined := quarantined \<rparr>"

definition counter_failure :: "queue_binding \<Rightarrow> failure" where
  "counter_failure b =
    no_failure\<lparr> f_scan_id := Some (qb_scan_id b), f_organization_id := Some (qb_organization_id b),
      f_request_id := Some (qb_request_id b), f_message_kind := Some AMBIGUOUS,
      f_max_attempts := Some MAX_DELIVERY_ATTEMPTS, f_escalated := True, f_quarantined := True \<rparr>"

text \<open>A handler: how many parameters it takes, whether it takes any number, and the name of the exception
  a call ends with, if it ends with one. \<open>h_decrypt\<close> opens an envelope or gives the exception's name.\<close>

record handler =
  h_parameters :: nat
  h_variadic :: bool
  h_outcome :: "string \<Rightarrow> string option \<Rightarrow> string option \<Rightarrow> string option \<Rightarrow> queue_binding option \<Rightarrow> string option"
  h_decrypt :: "string \<Rightarrow> string \<Rightarrow> string \<Rightarrow> string + string"

definition accepts :: "handler \<Rightarrow> nat \<Rightarrow> bool" where
  "accepts h n = (h_variadic h \<or> n \<le> h_parameters h)"

definition call_handler ::
    "handler \<Rightarrow> string \<Rightarrow> string option \<Rightarrow> string option \<Rightarrow> string option \<Rightarrow> queue_binding option \<Rightarrow> unit queue_run" where
  "call_handler h scan org request envelope b =
    (case h_outcome h scan org request envelope b of
       None \<Rightarrow> (Inr (), [Handle scan org request envelope b])
     | Some e \<Rightarrow> (Inl (HandlerRaised e), [Handle scan org request envelope b]))"

text \<open>The guarded part of \<open>consume_once\<close>: open the envelope and call the handler. A call with fewer
  arguments leaves the missing ones \<open>None\<close> here.\<close>

definition open_envelope :: "handler \<Rightarrow> string \<Rightarrow> string \<Rightarrow> string \<Rightarrow> string option queue_run" where
  "open_envelope h encrypted scan org =
    (if encrypted = [] then (Inr None, [])
     else case h_decrypt h encrypted scan org of Inl e \<Rightarrow> (Inl (HandlerRaised e), [])
          | Inr envelope \<Rightarrow> (Inr (Some envelope), []))"

definition handle_bound :: "handler \<Rightarrow> queue_fields \<Rightarrow> queue_binding \<Rightarrow> unit queue_run" where
  "handle_bound h message b =
    run_bind (open_envelope h (or_else (map_of message ''credential_envelope'') [])
                (qb_scan_id b) (qb_organization_id b))
      (\<lambda>envelope. if \<not> accepts h 5 then (Inl (HandlerRaised ''ValueError''), [])
         else call_handler h (qb_scan_id b) (Some (qb_organization_id b)) (Some (qb_request_id b)) envelope (Some b))"

text \<open>A diagnostic message carries no envelope.\<close>

definition handle_legacy :: "handler \<Rightarrow> string \<Rightarrow> string option \<Rightarrow> string option \<Rightarrow> unit queue_run" where
  "handle_legacy h scan org request =
    (if accepts h 4 then call_handler h scan org request None None else call_handler h scan org None None None)"

text \<open>What is consumed with the outcome of the handler: \<open>settle\<close> when it raised, else an acknowledgement.\<close>

definition after_handler :: "unit queue_run \<Rightarrow> (string \<Rightarrow> unit queue_run) \<Rightarrow> string \<Rightarrow> bool queue_run" where
  "after_handler run settle m =
    (case run of
       (Inr _, cs) \<Rightarrow> (Inr True, cs @ [Xack m])
     | (Inl (HandlerRaised e), cs) \<Rightarrow>
         (case settle e of (Inl e', cs') \<Rightarrow> (Inl e', cs @ cs') | (Inr _, cs') \<Rightarrow> (Inr True, cs @ cs'))
     | (Inl e, cs) \<Rightarrow> (Inl e, cs))"

definition consumed :: "unit queue_run \<Rightarrow> bool queue_run" where
  "consumed run = run_bind run (\<lambda>_. (Inr True, []))"

text \<open>\<open>consume_once\<close> on the messages \<open>XAUTOCLAIM\<close> and \<open>XREADGROUP\<close> deliver.\<close>

definition consume_bound :: "queue_env \<Rightarrow> handler \<Rightarrow> string \<Rightarrow> queue_fields \<Rightarrow> queue_binding \<Rightarrow> bool queue_run" where
  "consume_bound env h m message b =
    (case q_attempts env m of
       None \<Rightarrow> consumed (fail env m ''QUEUE_DELIVERY_COUNTER_UNAVAILABLE'' False (counter_failure b))
     | Some attempts \<Rightarrow>
        if MAX_DELIVERY_ATTEMPTS < attempts
        then consumed (fail env m ''QUEUE_DELIVERY_ATTEMPTS_EXCEEDED'' False (bound_failure b attempts True))
        else after_handler (handle_bound h message b)
               (\<lambda>e. fail env m e False (bound_failure b attempts (MAX_DELIVERY_ATTEMPTS \<le> attempts))) m)"

definition consume_message :: "queue_env \<Rightarrow> handler \<Rightarrow> string \<Rightarrow> queue_fields option \<Rightarrow> bool queue_run" where
  "consume_message env h m fields_read =
    (if is_quarantined env m then (Inr True, [])
     else case fields_read of
       None \<Rightarrow> consumed (quarantine_invalid env m None ''QUEUE_MESSAGE_CLASSIFICATION_REJECTED'')
     | Some message \<Rightarrow>
        (case validate_wire (q_sha env) message of
           None \<Rightarrow> consumed (quarantine_invalid env m (Some message) ''QUEUE_MESSAGE_CLASSIFICATION_REJECTED'')
         | Some (kind, scan, org, request) \<Rightarrow>
            if truthy request
            then (case binding_from_payload (q_sha env) (map_of message) of
                    Some b \<Rightarrow>
                      if qb_scan_id b = scan \<and> Some (qb_organization_id b) = org \<and> Some (qb_request_id b) = request
                      then consume_bound env h m message b
                      else consumed (quarantine_invalid env m (Some message) ''QUEUE_BINDING_REJECTED'')
                  | None \<Rightarrow> consumed (quarantine_invalid env m (Some message) ''QUEUE_BINDING_REJECTED''))
            else after_handler (handle_legacy h scan org request)
                   (\<lambda>e. fail env m e True (no_failure\<lparr> f_message_kind := Some kind \<rparr>)) m))"

definition consume_once ::
    "queue_env \<Rightarrow> handler \<Rightarrow> (string \<times> queue_fields option) list \<Rightarrow> (string \<times> queue_fields option) list \<Rightarrow> bool queue_run" where
  "consume_once env h claimed fresh =
    (case (if claimed = [] then fresh else claimed) of
       [] \<Rightarrow> (Inr False, []) | (m, message) # _ \<Rightarrow> consume_message env h m message)"

section \<open>Recovery of a quarantined message\<close>

definition jtext :: "json option \<Rightarrow> string option" where
  "jtext v = (case v of Some (JStr s) \<Rightarrow> Some s | _ \<Rightarrow> None)"

definition QUARANTINE_STATE_FIELDS :: "string list" where
  "QUARANTINE_STATE_FIELDS = [''schema_version'', ''status'', ''message_id'', ''reason'', ''quarantined_at'',
     ''failure_evidence'', ''failure_evidence_digest'', ''quarantine_state_digest'', ''message_kind'', ''scan_id'',
     ''organization_id'', ''authorization_request_id'', ''queue_binding_digest'', ''manifest_hash'',
     ''execution_ids'', ''operation_ids'', ''attempt_count'', ''max_attempts'']"

definition evidence_of :: "json option \<Rightarrow> queue_fields option" where
  "evidence_of v = (case v of
     Some (JObj kvs) \<Rightarrow> those (map (\<lambda>kv. map_option (Pair (fst kv)) (str_of (snd kv))) kvs) | _ \<Rightarrow> None)"

definition count_json :: "string option \<Rightarrow> json option" where
  "count_json s = map_option JInt (count_of s)"

definition ids_json_value :: "string option \<Rightarrow> json option" where
  "ids_json_value s = Option.bind s json_loads"

text \<open>\<open>_get_quarantine_state\<close>: the stored state, checked against its evidence and its digests; an optional
  field is there exactly when the evidence has it. A text with a repeated key, which \<open>_quarantine\<close> never
  stores, counts as unreadable here.\<close>

definition state_valid :: "queue_env \<Rightarrow> string \<Rightarrow> jobj \<Rightarrow> queue_fields \<Rightarrow> bool" where
  "state_valid env m state ev =
    (let get = map_of state; e = map_of ev
     in set (map fst state) \<subseteq> set QUARANTINE_STATE_FIELDS
        \<and> get ''schema_version'' = Some (JStr ''queue-quarantine-v3'') \<and> get ''status'' = Some (JStr ''QUARANTINED'')
        \<and> get ''message_id'' = Some (JStr m)
        \<and> get ''failure_evidence_digest'' = Some (JStr (failure_evidence_digest (q_sha env) ev))
        \<and> get ''message_kind'' = map_option JStr (e ''message_kind'')
        \<and> list_all (\<lambda>k. get k = map_option JStr (e k))
            [''scan_id'', ''organization_id'', ''authorization_request_id'', ''queue_binding_digest'', ''manifest_hash'']
        \<and> get ''execution_ids'' = ids_json_value (e ''execution_ids_json'')
        \<and> get ''operation_ids'' = ids_json_value (e ''operation_ids_json'')
        \<and> get ''attempt_count'' = count_json (e ''attempt_count'')
        \<and> get ''max_attempts'' = count_json (e ''max_attempts'')
        \<and> get ''quarantine_state_digest'' = Some (JStr (quarantine_state_digest (q_sha env) state)))"

definition stored_quarantine :: "queue_env \<Rightarrow> string \<Rightarrow> string option" where
  "stored_quarantine env m = coalesce (q_get env (quarantine_state_key (q_sha env) m))
     (q_get env (quarantine_key (q_sha env) m))"

definition get_quarantine_state :: "queue_env \<Rightarrow> string \<Rightarrow> jobj option" where
  "get_quarantine_state env m =
    (case Option.bind (stored_quarantine env m) json_loads of
       Some (JObj state) \<Rightarrow>
         (case Option.bind (evidence_of (map_of state ''failure_evidence''))
                 (\<lambda>ev. canonical_failure_evidence (q_sha env) m ev True) of
            None \<Rightarrow> None | Some ev \<Rightarrow> if state_valid env m state ev then Some state else None)
     | _ \<Rightarrow> None)"

text \<open>What \<open>_issue_authenticated_quarantine_authorization\<close> gives an authenticated operator.\<close>

record operator =
  op_actor_id :: string
  op_organization_id :: string
  op_session_binding :: string
  op_permission :: string

definition issue_operator :: "operator \<Rightarrow> operator option" where
  "issue_operator a =
    (if safe_queue_text (op_actor_id a) \<and> safe_queue_text (op_organization_id a)
        \<and> safe_queue_text (op_session_binding a) \<and> op_permission a = ''execution:recovery''
     then Some a else None)"

definition RECOVERY_REASONS :: "string list" where
  "RECOVERY_REASONS = [''QUEUE_MESSAGE_CLASSIFICATION_REJECTED'', ''QUEUE_BINDING_REJECTED'']"

definition acknowledgeable :: "jobj \<Rightarrow> bool" where
  "acknowledgeable state =
    (let get = map_of state
     in get ''message_kind'' = Some (JStr AUTHORITATIVE)
        \<or> get ''message_kind'' = Some (JStr AMBIGUOUS)
          \<and> get ''reason'' \<in> set (map (\<lambda>r. Some (JStr r)) RECOVERY_REASONS)
          \<and> list_all (\<lambda>k. get k = None) [''queue_binding_digest'', ''manifest_hash'', ''execution_ids'', ''operation_ids''])"

definition recovery_fields :: "queue_env \<Rightarrow> string \<Rightarrow> operator \<Rightarrow> string \<Rightarrow> jobj \<Rightarrow> queue_fields" where
  "recovery_fields env m a request state =
    (let get = (\<lambda>k d. case jtext (map_of state k) of None \<Rightarrow> d | Some s \<Rightarrow> s)
     in [(''message_id'', m), (''dispatch_message_id'', m), (''failure_category'', ''AUTHORITATIVE_DISPATCH_RECOVERY''),
         (''recovery_action'', ''ACKNOWLEDGED_AFTER_QUARANTINE''), (''recovery_actor'', op_actor_id a),
         (''recovery_observed_at'', q_now env), (''quarantine_reason'', take 128 (get ''reason'' ''QUEUE_FAILURE'')),
         (''scan_id'', get ''scan_id'' []), (''queue_binding_digest'', get ''queue_binding_digest'' []),
         (''manifest_hash'', get ''manifest_hash'' []),
         (''original_failure_evidence_digest'', get ''failure_evidence_digest'' []),
         (''organization_id'', op_organization_id a), (''authorization_request_id'', py_strip request)]
        @ concat (map (\<lambda>k. case map_of state k of Some (JArr vs) \<Rightarrow> [(k @ ''_json'', json_dumps (JArr vs))] | _ \<Rightarrow> [])
            [''execution_ids'', ''operation_ids''])
        @ concat (map (\<lambda>k. case map_of state k of Some (JInt n) \<Rightarrow> [(k, str_int n)] | _ \<Rightarrow> [])
            [''attempt_count'', ''max_attempts'']))"

text \<open>\<open>_ACK_QUARANTINE_SCRIPT\<close>: \<open>now\<close> are the replies when the script runs; a message that is no longer pending
  leaves the quarantine as it is.\<close>

definition ack_script :: "queue_env \<Rightarrow> string \<Rightarrow> string \<Rightarrow> queue_fields \<Rightarrow> bool \<times> redis_command list" where
  "ack_script now m raw event =
    (if q_get now (quarantine_state_key (q_sha now) m) \<noteq> Some raw then (False, [])
     else if \<not> q_acked now then (False, [Xack m])
     else (True, [Xack m, Xadd '':failures'' event,
       DelKeys [quarantine_state_key (q_sha now) m, quarantine_key (q_sha now) m]]))"

text \<open>The stored state is read twice, once for its text (\<open>first\<close>) and once more when it is parsed and checked
  (\<open>env\<close>); the script compares the text of the first read when it runs (\<open>now\<close>).\<close>

definition acknowledge_quarantined ::
    "queue_env \<Rightarrow> queue_env \<Rightarrow> queue_env \<Rightarrow> string \<Rightarrow> operator \<Rightarrow> string option \<Rightarrow> bool queue_run" where
  "acknowledge_quarantined first env now m a request =
    (if \<not> queue_text m \<or> issue_operator a = None then (Inl QueueValueError, [])
     else case request of None \<Rightarrow> (Inr False, []) | Some r \<Rightarrow>
       if py_strip r = [] \<or> py_strip (op_organization_id a) \<noteq> op_organization_id a then (Inr False, [])
       else case (q_get first (quarantine_state_key (q_sha env) m), get_quarantine_state env m) of
         (Some raw, Some state) \<Rightarrow>
           if map_of state ''organization_id'' = Some (JStr (op_organization_id a))
              \<and> map_of state ''authorization_request_id'' = Some (JStr (py_strip r)) \<and> acknowledgeable state
           then (case ack_script now m raw (recovery_fields env m a r state) of (ok, cs) \<Rightarrow> (Inr ok, cs))
           else (Inr False, [])
       | _ \<Rightarrow> (Inr False, []))"

section \<open>Bounded local execution\<close>

text \<open>\<open>enqueue_only\<close> of \<open>ScanQueueManager\<close>; \<open>durable\<close> tells whether a durable queue is configured.\<close>

definition enqueue_only :: "queue_env \<Rightarrow> bool \<Rightarrow> intent \<Rightarrow> string queue_run" where
  "enqueue_only env durable i =
    (if \<not> durable then (Inl QueueRuntimeError, [])
     else if i_request_id i = None \<and> (i_binding i \<noteq> None \<or> i_envelope i \<noteq> None) then (Inl QueueValueError, [])
     else enqueue env i)"

text \<open>\<open>execute_bounded\<close> with a durable queue, at the point the task has run: \<open>task\<close> is the name of its exception,
  if it raised, a timeout included. The exception is raised again after the failure is recorded.\<close>

definition bounded_failure :: "intent \<Rightarrow> failure" where
  "bounded_failure i =
    no_failure\<lparr> f_scan_id := Some (i_scan_id i), f_organization_id := i_organization_id i,
      f_request_id := i_request_id i, f_digest := map_option qb_digest (i_binding i),
      f_manifest_hash := map_option qb_manifest_hash (i_binding i),
      f_execution_ids := map_option qb_execution_ids (i_binding i),
      f_operation_ids := map_option qb_operation_ids (i_binding i),
      f_attempt_count := Some 1, f_max_attempts := Some MAX_DELIVERY_ATTEMPTS \<rparr>"

definition execute_bounded :: "queue_env \<Rightarrow> intent \<Rightarrow> string option \<Rightarrow> unit queue_run" where
  "execute_bounded env i task =
    (if (i_request_id i = None) \<noteq> (i_binding i = None) then (Inl QueueValueError, [])
     else run_bind (enqueue env (i\<lparr>i_envelope := None\<rparr>))
       (\<lambda>m. case task of
          None \<Rightarrow> emit (Xack m)
        | Some e \<Rightarrow>
            run_bind (if truthy (i_request_id i) then fail env m e False (bounded_failure i)
                      else fail env m e True (no_failure\<lparr> f_message_kind := Some LEGACY \<rparr>))
              (\<lambda>_. (Inl (HandlerRaised e), []))))"

end
