(* ===== verification/Queue_Properties.thy ===== *)
theory Queue_Properties
  imports Queue_Consumer
begin

text \<open>
  What the queue guarantees: bindings survive the wire, replayed publications add nothing, a handler sees
  only bound messages within the delivery bound, an authoritative message is acknowledged only after
  its handler returned; and two errors of the failure paths.
\<close>

section \<open>Commands of a run\<close>

fun acks :: "string \<Rightarrow> redis_command \<Rightarrow> bool" where
  "acks m (Xack m') = (m = m')"
| "acks m (Transaction cs) = list_ex (acks m) cs"
| "acks m c = False"

fun handles :: "redis_command \<Rightarrow> bool" where
  "handles (Handle scan org request envelope b) = True"
| "handles c = False"

lemma emit_simps [simp]: "fst (emit c) = Inr ()" "snd (emit c) = [c]"
  by (simp_all add: emit_def)

lemma run_bind_simps [simp]:
  "run_bind (Inr x, []) f = f x" "run_bind (Inl e, cs) f = (Inl e, cs)"
  by (simp_all add: run_bind_def split: prod.split)

lemma consumed_snd [simp]: "snd (consumed run) = snd run"
  by (cases run; cases "fst run") (auto simp: consumed_def run_bind_def split: sum.splits prod.splits)

lemma quarantine_commands:
  "c \<in> set (snd (quarantine env m reason f ev False)) \<Longrightarrow> \<not> handles c \<and> \<not> acks m' c"
  by (auto simp: quarantine_def Let_def split: option.splits if_splits)

lemma fail_commands:
  "c \<in> set (snd (fail env m code False f)) \<Longrightarrow> \<not> handles c \<and> \<not> acks m' c"
  using quarantine_commands [of c env m "py_strip code" f]
  by (auto simp: fail_def Let_def run_bind_def emit_def split: option.splits if_splits)

section \<open>Delivery\<close>

lemma after_handler_simps [simp]:
  "after_handler (Inr u, cs) settle m = (Inr True, cs @ [Xack m])"
  "snd (after_handler (Inl (HandlerRaised e), cs) settle m) = cs @ snd (settle e)"
  by (auto simp: after_handler_def split: prod.splits sum.splits)

lemma call_handler_trace: "snd (call_handler h scan org request envelope b) = [Handle scan org request envelope b]"
  by (simp add: call_handler_def split: option.splits)

lemma open_envelope_cases:
  "(\<exists>e. open_envelope h enc scan org = (Inl (HandlerRaised e), [])) \<or> (\<exists>x. open_envelope h enc scan org = (Inr x, []))"
  by (simp add: open_envelope_def split: sum.split)

lemma handle_bound_cases:
  obtains e where "handle_bound h message b = (Inl (HandlerRaised e), [])"
  | envelope where "handle_bound h message b = call_handler h (qb_scan_id b) (Some (qb_organization_id b))
      (Some (qb_request_id b)) envelope (Some b)" "accepts h 5"
proof -
  let ?open = "open_envelope h (or_else (map_of message ''credential_envelope'') []) (qb_scan_id b) (qb_organization_id b)"
  consider e where "?open = (Inl (HandlerRaised e), [])" | envelope where "?open = (Inr envelope, [])"
    using open_envelope_cases by blast
  then show ?thesis
  proof cases
    case 1
    then show ?thesis by (intro that(1)) (simp add: handle_bound_def)
  next
    case (2 envelope)
    show ?thesis
    proof (cases "accepts h 5")
      case True
      with 2 show ?thesis by (intro that(2) [of envelope]) (simp_all add: handle_bound_def)
    next
      case False
      with 2 show ?thesis by (intro that(1)) (simp add: handle_bound_def)
    qed
  qed
qed

lemma consume_bound_trace:
  assumes "c \<in> set (snd (consume_bound env h m message b))"
  shows "(handles c \<longrightarrow> (\<exists>envelope n. c = Handle (qb_scan_id b) (Some (qb_organization_id b)) (Some (qb_request_id b))
            envelope (Some b) \<and> q_attempts env m = Some n \<and> n \<le> MAX_DELIVERY_ATTEMPTS))
    \<and> (acks m c \<longrightarrow> (\<exists>envelope. Handle (qb_scan_id b) (Some (qb_organization_id b)) (Some (qb_request_id b))
            envelope (Some b) \<in> set (snd (consume_bound env h m message b))
          \<and> h_outcome h (qb_scan_id b) (Some (qb_organization_id b)) (Some (qb_request_id b)) envelope (Some b) = None))"
proof (cases "q_attempts env m")
  case None
  with assms show ?thesis using fail_commands by (auto simp: consume_bound_def)
next
  case (Some n)
  show ?thesis
  proof (cases "MAX_DELIVERY_ATTEMPTS < n")
    case True
    with Some assms show ?thesis using fail_commands by (auto simp: consume_bound_def)
  next
    case False
    let ?settle = "\<lambda>e. fail env m e False (bound_failure b n (MAX_DELIVERY_ATTEMPTS \<le> n))"
    have run: "consume_bound env h m message b = after_handler (handle_bound h message b) ?settle m"
      using Some False by (simp add: consume_bound_def)
    have quiet: "\<not> handles d \<and> \<not> acks m d" if "d \<in> set (snd (?settle e))" for d e
      using fail_commands [OF that] by blast
    show ?thesis
    proof (rule handle_bound_cases [of h message b])
      fix e assume "handle_bound h message b = (Inl (HandlerRaised e), [])"
      with assms run have "c \<in> set (snd (?settle e))" by simp
      with quiet show ?thesis by blast
    next
      fix envelope assume call: "handle_bound h message b = call_handler h (qb_scan_id b)
        (Some (qb_organization_id b)) (Some (qb_request_id b)) envelope (Some b)"
      show ?thesis
      proof (cases "h_outcome h (qb_scan_id b) (Some (qb_organization_id b)) (Some (qb_request_id b)) envelope (Some b)")
        case None
        with assms run call Some False show ?thesis
          by (auto simp: call_handler_def)
      next
        case (Some e)
        let ?call = "Handle (qb_scan_id b) (Some (qb_organization_id b)) (Some (qb_request_id b)) envelope (Some b)"
        from assms run call Some have "c = ?call \<or> c \<in> set (snd (?settle e))"
          by (auto simp: call_handler_def)
        with quiet \<open>q_attempts env m = Some n\<close> False show ?thesis by auto
      qed
    qed
  qed
qed

lemma validate_wire_shape:
  assumes "validate_wire sha message = Some (kind, scan, org, request)"
  shows "map_of message ''message_kind'' = Some kind \<and> map_of message ''scan_id'' = Some scan
    \<and> (truthy request \<longrightarrow> kind = AUTHORITATIVE \<and> binding_from_payload sha (map_of message) \<noteq> None)
    \<and> (\<not> truthy request \<longrightarrow> kind = LEGACY)"
  using assms
  by (auto simp: validate_wire_def Let_def safe_queue_text_def truthy_def split: if_splits option.splits)


lemma consume_message_bound:
  assumes "\<not> is_quarantined env m" and "validate_wire (q_sha env) message = Some (AUTHORITATIVE, scan, Some org, Some request)"
    and "binding_from_payload (q_sha env) (map_of message) = Some b" and "request \<noteq> []"
    and "qb_scan_id b = scan" "qb_organization_id b = org" "qb_request_id b = request"
  shows "consume_message env h m (Some message) = consume_bound env h m message b"
  using assms by (simp add: consume_message_def)

text \<open>How the handling of an authoritative message begins.\<close>

lemma authoritative_run:
  assumes "map_of message ''message_kind'' = Some AUTHORITATIVE" and "c \<in> set (snd (consume_message env h m (Some message)))"
    and "handles c \<or> acks m c"
  obtains b where "binding_from_payload (q_sha env) (map_of message) = Some b" "\<not> is_quarantined env m"
    "consume_message env h m (Some message) = consume_bound env h m message b"
proof -
  from assms(2) have unq: "\<not> is_quarantined env m" by (auto simp: consume_message_def)
  have quiet: "d \<in> set (snd (quarantine_invalid env m x code)) \<Longrightarrow> \<not> (handles d \<or> acks m d)" for d x code
    using fail_commands by (simp add: quarantine_invalid_def)
  show ?thesis
  proof (cases "validate_wire (q_sha env) message")
    case None
    with unq assms(2,3) quiet show ?thesis by (auto simp: consume_message_def)
  next
    case (Some v)
    obtain kind scan org request where v: "v = (kind, scan, org, request)" by (cases v)
    note shape = validate_wire_shape [OF Some [unfolded v]]
    have "truthy request" using shape assms(1) by (auto simp: AUTHORITATIVE_def LEGACY_def)
    with shape obtain b where b: "binding_from_payload (q_sha env) (map_of message) = Some b" by auto
    show ?thesis
    proof (cases "qb_scan_id b = scan \<and> Some (qb_organization_id b) = org \<and> Some (qb_request_id b) = request")
      case True
      with unq Some v \<open>truthy request\<close> b show ?thesis by (intro that [OF b unq]) (auto simp: consume_message_def)
    next
      case False
      with unq Some v \<open>truthy request\<close> b assms(2,3) quiet show ?thesis by (auto simp: consume_message_def)
    qed
  qed
qed


lemma fail_no_handle: "c \<in> set (snd (fail env m code acknowledge f)) \<Longrightarrow> \<not> handles c"
  by (auto simp: fail_def quarantine_def Let_def run_bind_def emit_def split: option.splits if_splits)

lemma after_handler_trace: "set (snd (after_handler run settle m)) \<subseteq> set (snd run) \<union> {Xack m} \<union> (\<Union>e. set (snd (settle e)))"
proof (cases run)
  case (Pair r cs)
  show ?thesis
  proof (cases "\<exists>e. r = Inl (HandlerRaised e)")
    case True
    with Pair show ?thesis by auto
  next
    case False
    with Pair show ?thesis by (auto simp: after_handler_def split: sum.splits queue_error.splits)
  qed
qed

lemma legacy_run:
  "Handle s o' r envelope (Some b) \<notin> set (snd (after_handler (handle_legacy h scan org request)
     (\<lambda>e. fail env m e True f) m))"
proof
  assume "Handle s o' r envelope (Some b) \<in> set (snd (after_handler (handle_legacy h scan org request)
     (\<lambda>e. fail env m e True f) m))"
  moreover have "Handle s o' r envelope (Some b) \<notin> set (snd (handle_legacy h scan org request))"
    by (simp add: handle_legacy_def call_handler_trace)
  ultimately obtain e where "Handle s o' r envelope (Some b) \<in> set (snd (fail env m e True f))"
    using after_handler_trace by fastforce
  then show False using fail_no_handle by fastforce
qed

section \<open>Properties\<close>

text \<open>A binding survives the queue: what \<open>create\<close> makes of any pairing of operations and executions is read
  back from its wire form as the same binding, whatever else the message carries.\<close>

theorem binding_survives_wire:
  assumes "create_binding sha scan org request manifest executions operations = Some b"
    and "\<And>k. k \<in> dom (wire_of_binding b) \<Longrightarrow> w k = wire_of_binding b k"
  shows "binding_from_payload sha w = Some b
    \<and> mset (zip (qb_operation_ids b) (qb_execution_ids b)) = mset (zip operations executions)"
  using create_binding_shape [OF assms(1)] payload_of_binding [OF _ _ assms(2)] by blast

text \<open>C23. The worker's handler is given a binding only for a message that is not quarantined, whose fields are a
  canonical binding with the right digest, and that was delivered at most five times.\<close>

theorem handler_needs_binding:
  assumes "Handle scan org request envelope (Some b) \<in> set (snd (consume_once env h claimed fresh))"
  shows "\<exists>m message n. (m, Some message) \<in> set (claimed @ fresh) \<and> \<not> is_quarantined env m
    \<and> binding_from_payload (q_sha env) (map_of message) = Some b \<and> binding_valid (q_sha env) b
    \<and> scan = qb_scan_id b \<and> org = Some (qb_organization_id b) \<and> request = Some (qb_request_id b)
    \<and> q_attempts env m = Some n \<and> n \<le> MAX_DELIVERY_ATTEMPTS"
proof -
  let ?c = "Handle scan org request envelope (Some b)"
  from assms obtain m fields_read where mem: "(m, fields_read) \<in> set (claimed @ fresh)"
      and run: "?c \<in> set (snd (consume_message env h m fields_read))"
    by (auto simp: consume_once_def split: if_splits list.splits)
  from run obtain message where message: "fields_read = Some message"
    using fail_no_handle by (fastforce simp: consume_message_def quarantine_invalid_def split: option.splits if_splits)
  have kind: "map_of message ''message_kind'' = Some AUTHORITATIVE"
  proof (rule ccontr)
    assume other: "map_of message ''message_kind'' \<noteq> Some AUTHORITATIVE"
    show False
    proof (cases "validate_wire (q_sha env) message")
      case None
      with run message show False
        using fail_no_handle by (fastforce simp: consume_message_def quarantine_invalid_def split: if_splits)
    next
      case (Some v)
      obtain k s o' r where v: "v = (k, s, o', r)" by (cases v)
      with Some validate_wire_shape [OF Some [unfolded v]] other have "\<not> truthy r" by auto
      with run message Some v show False using legacy_run by (auto simp: consume_message_def split: if_splits)
    qed
  qed
  from authoritative_run [OF kind run [unfolded message]] obtain b' where
    b': "binding_from_payload (q_sha env) (map_of message) = Some b'" "\<not> is_quarantined env m"
    "consume_message env h m (Some message) = consume_bound env h m message b'" by auto
  from run message b'(3) consume_bound_trace [of ?c env h m message b'] obtain n where
    "b = b'" "scan = qb_scan_id b'" "org = Some (qb_organization_id b')" "request = Some (qb_request_id b')"
    "q_attempts env m = Some n" "n \<le> MAX_DELIVERY_ATTEMPTS" by auto
  with b' mem message payload_shape [OF b'(1)] show ?thesis by blast
qed

lemma consume_bound_ack:
  assumes "c \<in> set (snd (consume_bound env h m message b))" and "acks m c"
  shows "\<exists>envelope. snd (consume_bound env h m message b) =
        [Handle (qb_scan_id b) (Some (qb_organization_id b)) (Some (qb_request_id b)) envelope (Some b), Xack m]
    \<and> h_outcome h (qb_scan_id b) (Some (qb_organization_id b)) (Some (qb_request_id b)) envelope (Some b) = None"
proof -
  from consume_bound_trace [OF assms(1)] assms(2) obtain envelope where
    "Handle (qb_scan_id b) (Some (qb_organization_id b)) (Some (qb_request_id b)) envelope (Some b)
      \<in> set (snd (consume_bound env h m message b))"
    and ok: "h_outcome h (qb_scan_id b) (Some (qb_organization_id b)) (Some (qb_request_id b)) envelope (Some b) = None"
    by blast
  then obtain n where n: "q_attempts env m = Some n" "n \<le> MAX_DELIVERY_ATTEMPTS"
    using consume_bound_trace by fastforce
  let ?settle = "\<lambda>e. fail env m e False (bound_failure b n (MAX_DELIVERY_ATTEMPTS \<le> n))"
  have run: "consume_bound env h m message b = after_handler (handle_bound h message b) ?settle m"
    using n by (simp add: consume_bound_def)
  show ?thesis
  proof (rule handle_bound_cases [of h message b])
    fix e assume "handle_bound h message b = (Inl (HandlerRaised e), [])"
    with run assms fail_commands show ?thesis by auto
  next
    fix env' assume call: "handle_bound h message b = call_handler h (qb_scan_id b)
      (Some (qb_organization_id b)) (Some (qb_request_id b)) env' (Some b)"
    show ?thesis
    proof (cases "h_outcome h (qb_scan_id b) (Some (qb_organization_id b)) (Some (qb_request_id b)) env' (Some b)")
      case None
      with run call show ?thesis by (intro exI [of _ env']) (simp add: call_handler_def)
    next
      case (Some e)
      with run call assms fail_commands show ?thesis by (auto simp: call_handler_def)
    qed
  qed
qed

text \<open>C24. When the consumer processes a delivered authoritative message, it acknowledges it only after the
  handler ran on the binding of the message and returned: the call comes before the acknowledgement, and
  no failure, quarantine or exceeded bound removes the message from the pending entries. (The recovery of a
  quarantined message, C27, is the other way a message is acknowledged.)\<close>

theorem acknowledged_after_handler:
  assumes "(if claimed = [] then fresh else claimed) = (m, Some message) # rest"
    and "map_of message ''message_kind'' = Some AUTHORITATIVE"
    and "snd (consume_once env h claimed fresh) = before @ c # later" and "acks m c"
  shows "\<exists>b envelope. binding_from_payload (q_sha env) (map_of message) = Some b
    \<and> before = [Handle (qb_scan_id b) (Some (qb_organization_id b)) (Some (qb_request_id b)) envelope (Some b)]
    \<and> h_outcome h (qb_scan_id b) (Some (qb_organization_id b)) (Some (qb_request_id b)) envelope (Some b) = None"
proof -
  have run: "consume_once env h claimed fresh = consume_message env h m (Some message)"
    unfolding consume_once_def assms(1) by simp
  then have c: "c \<in> set (snd (consume_message env h m (Some message)))" using assms(3) by simp
  from authoritative_run [OF assms(2) c] assms(4) obtain b where
    b: "binding_from_payload (q_sha env) (map_of message) = Some b"
    "consume_message env h m (Some message) = consume_bound env h m message b" by blast
  from consume_bound_ack [of c env h m message b] c b(2) assms(4) obtain envelope where
    "snd (consume_once env h claimed fresh) =
       [Handle (qb_scan_id b) (Some (qb_organization_id b)) (Some (qb_request_id b)) envelope (Some b), Xack m]"
    "h_outcome h (qb_scan_id b) (Some (qb_organization_id b)) (Some (qb_request_id b)) envelope (Some b) = None"
    using run by auto
  with b(1) assms(3,4) show ?thesis by (auto simp: append_eq_Cons_conv Cons_eq_append_conv)
qed


section \<open>Replayed publications\<close>

lemma intent_valid_bound:
  assumes "intent_valid sha i" and "i_request_id i = Some request" and "i_binding i = Some b"
  shows "binding_valid sha b \<and> keys_sorted (zip (qb_operation_ids b) (qb_execution_ids b))
    \<and> i_scan_id i = qb_scan_id b \<and> i_organization_id i = Some (qb_organization_id b) \<and> qb_organization_id b \<noteq> []
    \<and> qb_request_id b = py_strip request"
proof -
  from assms have org: "truthy (i_organization_id i)"
    and created: "create_binding sha (i_scan_id i) (or_else (i_organization_id i) []) (py_strip request)
      (qb_manifest_hash b) (qb_execution_ids b) (qb_operation_ids b) = Some b"
    by (simp_all add: intent_valid_def)
  from org obtain s where "i_organization_id i = Some s" "s \<noteq> []" by (cases "i_organization_id i") auto
  with create_binding_shape [OF created] show ?thesis by (simp add: or_else_def)
qed

lemma ids_json_inj [simp]: "ids_json a = ids_json b \<longleftrightarrow> a = b"
  by (metis ids_of_ids_json option.inject)

lemma intent_field_values:
  "map_of (intent_fields env i request b) ''scan_id'' = Some (i_scan_id i)"
  "map_of (intent_fields env i request b) ''organization_id'' = Some (or_else (i_organization_id i) [])"
  "map_of (intent_fields env i request b) ''enqueued_at'' = Some (q_now env)"
  "map_of (intent_fields env i request b) ''authorization_request_id'' = Some request"
  "map_of (intent_fields env i request b) ''credential_envelope'' = Some (or_else (i_envelope i) [])"
  "map_of (intent_fields env i request b) ''queue_binding_digest'' = Some (qb_digest b)"
  "map_of (intent_fields env i request b) ''manifest_hash'' = Some (qb_manifest_hash b)"
  "map_of (intent_fields env i request b) ''execution_ids_json'' = Some (ids_json (qb_execution_ids b))"
  "map_of (intent_fields env i request b) ''operation_ids_json'' = Some (ids_json (qb_operation_ids b))"
  "map_of (intent_fields env i request b) ''queue_binding_schema_version'' = Some (qb_schema_version b)"
  "map_of (intent_fields env i request b) ''message_kind'' = Some AUTHORITATIVE"
  by (simp_all add: intent_fields_def)

lemma same_compared_fields:
  assumes "binding_valid sha b" "binding_valid sha b'" "i_scan_id i = qb_scan_id b" "i_scan_id i' = qb_scan_id b'"
    and "i_organization_id i = Some (qb_organization_id b)" "i_organization_id i' = Some (qb_organization_id b')"
    and "qb_organization_id b = qb_organization_id b'" "qb_organization_id b \<noteq> []"
    and "qb_request_id b = request" "qb_request_id b' = request"
  shows "list_all (\<lambda>k. map_of (intent_fields env i request b) k = map_of (intent_fields env' i' request b') k)
    compared_fields \<longleftrightarrow> b' = b"
proof
  assume "list_all (\<lambda>k. map_of (intent_fields env i request b) k = map_of (intent_fields env' i' request b') k)
    compared_fields"
  then show "b' = b"
    using assms by (intro queue_binding.equality)
      (simp_all add: compared_fields_def intent_field_values)
next
  assume "b' = b"
  with assms(3-6,9,10) show "list_all (\<lambda>k. map_of (intent_fields env i request b) k = map_of (intent_fields env' i' request b') k)
    compared_fields" by (simp add: compared_fields_def intent_field_values)
qed

text \<open>C25. Publication is idempotent: while the queue remembers a request of a tenant, publishing it again with
  the same binding gives the identifier of the first entry and adds nothing, and publishing it with any
  other content is refused.\<close>

theorem publication_idempotent:
  assumes "intent_valid (q_sha env) i" and "i_request_id i = Some request" and "i_binding i = Some b"
    and "intent_valid (q_sha env) i'" and "i_request_id i' = Some request'" and "i_binding i' = Some b'"
    and "py_strip request' = py_strip request" and "i_organization_id i' = i_organization_id i"
    and "q_get env' (dedupe_key (q_sha env) (qb_organization_id b) (py_strip request)) = Some first"
    and "q_entry env' first = Some (map_of (intent_fields env i (py_strip request) b))" and "q_sha env' = q_sha env"
  shows "enqueue env' i' = (if b' = b then Inr first else Inl IdentityConflict, [])"
proof -
  note one = intent_valid_bound [OF assms(1-3)] and two = intent_valid_bound [OF assms(4-6)]
  have org: "qb_organization_id b = qb_organization_id b'" using one two assms(8) by simp
  have same: "list_all (\<lambda>k. map_of (intent_fields env i (py_strip request) b) k
      = map_of (intent_fields env' i' (py_strip request) b') k) compared_fields \<longleftrightarrow> b' = b"
    using one two assms(7) org by (intro same_compared_fields [where sha = "q_sha env"]) simp_all
  have "enqueue env' i' = enqueue_script env' (dedupe_key (q_sha env) (qb_organization_id b) (py_strip request))
      (intent_fields env' i' (py_strip request) b')"
    using assms(4-7,11) two org by (simp add: enqueue_def or_else_def)
  then show ?thesis
    using same assms(9,10) by (simp add: enqueue_script_def)
qed

section \<open>Delivery of a published intent\<close>

definition printable_intent :: "queue_env \<Rightarrow> queue_binding \<Rightarrow> bool" where
  "printable_intent env b = (safe_queue_text (qb_scan_id b) \<and> safe_queue_text (qb_organization_id b)
     \<and> safe_queue_text (qb_request_id b) \<and> safe_queue_text (q_now env))"

lemma intent_wire:
  assumes "i_scan_id i = qb_scan_id b" "i_organization_id i = Some (qb_organization_id b)" "qb_organization_id b \<noteq> []"
    and "qb_request_id b = request" and "k \<in> dom (wire_of_binding b)"
  shows "map_of (intent_fields env i request b) k = wire_of_binding b k"
proof -
  have "k \<in> {''scan_id'', ''organization_id'', ''authorization_request_id'', ''manifest_hash'', ''execution_ids_json'',
      ''operation_ids_json'', ''queue_binding_digest'', ''queue_binding_schema_version''}"
    using assms(5) by (auto simp: wire_of_binding_def)
  then show ?thesis
    unfolding insert_iff empty_iff simp_thms
    using assms(1-4) by (elim disjE) (simp_all add: intent_field_values wire_of_binding_def or_else_def)
qed


lemma intent_keys: "map fst (intent_fields env i request b) = [''scan_id'', ''organization_id'', ''enqueued_at'',
    ''authorization_request_id'', ''credential_envelope'', ''queue_binding_digest'', ''manifest_hash'',
    ''execution_ids_json'', ''operation_ids_json'', ''queue_binding_schema_version'', ''message_kind'']"
  by (simp add: intent_fields_def)

text \<open>C26. What is published can be consumed: let a valid intent with printable identities be published for a
  request the queue does not remember, with or without a credential envelope. When the entry it adds is
  delivered unquarantined, within the delivery bound, to a handler that takes the binding, and the envelope
  opens, the handler is called with the very binding, tenant and request that were published and the opened
  envelope, and when it returns the message is acknowledged.\<close>

theorem published_intent_handled:
  assumes "intent_valid (q_sha env) i" and "i_request_id i = Some request" and "i_binding i = Some b"
    and "printable_intent env b" and "q_get env (dedupe_key (q_sha env) (qb_organization_id b) (py_strip request)) = None"
    and "q_sha env' = q_sha env" and "\<not> is_quarantined env' m"
    and "q_attempts env' m = Some n" and "n \<le> MAX_DELIVERY_ATTEMPTS" and "accepts h 5"
    and "fst (open_envelope h (or_else (i_envelope i) []) (qb_scan_id b) (qb_organization_id b)) = Inr envelope"
    and "h_outcome h (qb_scan_id b) (Some (qb_organization_id b)) (Some (qb_request_id b)) envelope (Some b) = None"
  shows "\<exists>entry key. enqueue env i = (Inr (q_new_id env),
        [Transaction [Xadd [] entry, SetKey key (q_new_id env) (Some DEDUPE_TTL_SECONDS)]])
    \<and> consume_message env' h m (Some entry) =
        (Inr True, [Handle (qb_scan_id b) (Some (qb_organization_id b)) (Some (qb_request_id b)) envelope (Some b), Xack m])"
proof -
  let ?entry = "intent_fields env i (py_strip request) b"
  note one = intent_valid_bound [OF assms(1-3)]
  note safe = assms(4) [unfolded printable_intent_def]
  have org: "or_else (i_organization_id i) [] = qb_organization_id b" using one by (simp add: or_else_def)
  have "enqueue env i = (Inr (q_new_id env), [Transaction [Xadd [] ?entry,
      SetKey (dedupe_key (q_sha env) (qb_organization_id b) (py_strip request)) (q_new_id env) (Some DEDUPE_TTL_SECONDS)]])"
    using assms(1-3,5) org by (simp add: enqueue_def enqueue_script_def)
  moreover have payload: "binding_from_payload (q_sha env) (map_of ?entry) = Some b"
    using one by (intro payload_of_binding intent_wire) auto
  moreover have "validate_wire (q_sha env) ?entry =
      Some (AUTHORITATIVE, qb_scan_id b, Some (qb_organization_id b), Some (qb_request_id b))"
  proof -
    have "set (map fst ?entry) \<subseteq> WIRE_FIELDS" unfolding intent_keys by (simp add: WIRE_FIELDS_def binding_fields_def)
    moreover have "safe_queue_text (py_strip request)" "\<not> safe_queue_text []" "qb_request_id b = py_strip request"
      using one safe by (auto simp: safe_queue_text_def)
    ultimately show ?thesis
      using one safe payload
      by (simp add: validate_wire_def Let_def intent_field_values binding_fields_def or_else_def del: set_map)
  qed
  moreover have "handle_bound h ?entry b
      = call_handler h (qb_scan_id b) (Some (qb_organization_id b)) (Some (qb_request_id b)) envelope (Some b)"
  proof -
    let ?open = "open_envelope h (or_else (i_envelope i) []) (qb_scan_id b) (qb_organization_id b)"
    have "?open = (Inr envelope, [])"
      using assms(11) open_envelope_cases [of h "or_else (i_envelope i) []" "qb_scan_id b" "qb_organization_id b"] by auto
    moreover have "or_else (Some (or_else (i_envelope i) [])) [] = or_else (i_envelope i) []"
      by (simp add: or_else_def)
    ultimately show ?thesis using assms(10) by (simp add: handle_bound_def intent_field_values)
  qed
  moreover have "qb_request_id b \<noteq> []" using safe by (auto simp: safe_queue_text_def)
  ultimately show ?thesis
    using consume_message_bound [OF assms(7), of ?entry "qb_scan_id b" "qb_organization_id b" "qb_request_id b" b h] assms(6,8,9,12)
    by (auto simp: consume_bound_def call_handler_def)
qed

section \<open>Recovery\<close>

text \<open>C27. A quarantined message leaves the pending entries by recovery only on behalf of an operator with the
  recovery permission, of the tenant and for the request that the stored state names, with matching digests,
  and only while the text that was read before the check is still the one stored.\<close>

theorem recovery_needs_authority:
  assumes "acknowledge_quarantined first env now m a request = (Inr True, cs)"
  shows "\<exists>raw state r. op_permission a = ''execution:recovery'' \<and> request = Some r
    \<and> q_get first (quarantine_state_key (q_sha env) m) = Some raw
    \<and> q_get now (quarantine_state_key (q_sha now) m) = Some raw
    \<and> get_quarantine_state env m = Some state
    \<and> map_of state ''organization_id'' = Some (JStr (op_organization_id a))
    \<and> map_of state ''authorization_request_id'' = Some (JStr (py_strip r))
    \<and> map_of state ''quarantine_state_digest'' = Some (JStr (quarantine_state_digest (q_sha env) state))"
proof -
  have digest: "map_of state ''quarantine_state_digest'' = Some (JStr (quarantine_state_digest (q_sha env) state))"
    if "get_quarantine_state env m = Some state" for state
    using that by (auto simp: get_quarantine_state_def state_valid_def Let_def split: option.splits json.splits if_splits)
  show ?thesis
    using assms digest
    by (auto simp: acknowledge_quarantined_def issue_operator_def ack_script_def
        split: if_splits option.splits prod.splits)
qed

section \<open>Errors of the failure paths\<close>

lemma count_of_str_int [simp]: "0 \<le> n \<Longrightarrow> count_of (Some (str_int n)) = Some n"
  using str_nat_digits [of "nat n"] str_nat_nonempty [of "nat n"]
  by (simp add: count_of_def str_int_def str_nat_value)

lemma exceeded_evidence:
  assumes "f_attempt_count f = Some n" "f_max_attempts f = Some k" "0 \<le> k" "k < n"
  shows "\<not> evidence_valid sha m (failure_fields env m code ack f) q"
proof -
  have ne: "str_int n \<noteq> []" "str_int k \<noteq> []" by (rule str_int_nonempty)+
  have "map_of (failure_fields env m code ack f) ''attempt_count'' = Some (str_int n)"
    "map_of (failure_fields env m code ack f) ''max_attempts'' = Some (str_int k)"
    using assms ne by (auto simp: failure_fields_def evidence_entry_def identity_entries_def Let_def truthy_def map_add_def
        split: option.splits)
  with assms show ?thesis by (simp add: evidence_valid_def Let_def counts_ordered_def)
qed

text \<open>C28. An intent delivered more often than the bound is never quarantined: the evidence of the exceeded bound is
  itself refused, so the consumer raises, nothing is recorded, and the message stays to be delivered again.\<close>

theorem exceeded_delivery_not_quarantined:
  assumes "q_attempts env m = Some n" and "MAX_DELIVERY_ATTEMPTS < n"
  shows "consume_bound env h m message b = (Inl QueueValueError, [])"
proof -
  have "\<not> evidence_valid (q_sha env) m (failure_fields env m code False (bound_failure b n True)) True" for code
    using assms(2) by (intro exceeded_evidence) (auto simp: bound_failure_def MAX_DELIVERY_ATTEMPTS_def)
  then show ?thesis
    using assms by (simp add: consume_bound_def fail_def Let_def quarantine_def canonical_failure_evidence_def
        bound_failure_def consumed_def AUTHORITATIVE_def LEGACY_def)
qed

text \<open>A failing task of a governed intent run by \<open>execute_bounded\<close> leaves no failure record: the message kind is
  never passed on, so recording fails and the task's own exception is replaced.\<close>

theorem bounded_failure_unrecorded:
  assumes "enqueue env (i\<lparr>i_envelope := None\<rparr>) = (Inr m, cs)" and "i_request_id i = Some request"
    and "request \<noteq> []" and "i_binding i = Some b"
  shows "execute_bounded env i (Some e) = (Inl QueueValueError, cs)"
  using assms
  by (simp add: execute_bounded_def run_bind_def fail_def fail_admits_def kind_admits_def bounded_failure_def no_failure_def)


section \<open>A concrete run\<close>

definition sample_sha :: "string \<Rightarrow> string" where
  "sample_sha s = replicate 64 (CHR ''a'')"

definition sample_manifest :: string where
  "sample_manifest = replicate 64 (CHR ''0'')"

definition sample_queue_binding :: queue_binding where
  "sample_queue_binding = \<lparr> qb_scan_id = ''scan-1'', qb_organization_id = ''org'', qb_request_id = ''req-1'',
     qb_manifest_hash = sample_manifest, qb_execution_ids = [''exec-2'', ''exec-1''], qb_operation_ids = [''op-a'', ''op-b''],
     qb_digest = sample_sha [], qb_schema_version = SCHEMA_VERSION \<rparr>"

definition sample_intent :: intent where
  "sample_intent = \<lparr> i_scan_id = ''scan-1'', i_organization_id = Some ''org'', i_envelope = None,
     i_request_id = Some ''req-1'', i_binding = Some sample_queue_binding \<rparr>"

definition sample_env :: queue_env where
  "sample_env = \<lparr> q_sha = sample_sha, q_now = ''2026-01-01T00:00:00+00:00'', q_get = (\<lambda>k. None), q_entry = (\<lambda>k. None),
     q_new_id = ''1-0'', q_attempts = (\<lambda>k. Some 1), q_commits = True, q_acked = True \<rparr>"

definition sample_handler :: handler where
  "sample_handler = \<lparr> h_parameters = 5, h_variadic = False, h_outcome = (\<lambda>s r q e b. None),
     h_decrypt = (\<lambda>c s r. Inl ''ValueError'') \<rparr>"

definition sample_message :: queue_fields where
  "sample_message = intent_fields sample_env sample_intent ''req-1'' sample_queue_binding"

lemma sample_created:
  "create_binding sample_sha ''scan-1'' ''org'' ''req-1'' sample_manifest [''exec-1'', ''exec-2''] [''op-b'', ''op-a'']
     = Some sample_queue_binding"
  by code_simp

lemma sample_intent_valid: "intent_valid sample_sha sample_intent"
  by code_simp

lemma sample_q_sha [simp]: "q_sha sample_env = sample_sha"
  by (simp add: sample_env_def)

theorem binding_survives_wire_witness:
  "binding_from_payload sample_sha (wire_of_binding sample_queue_binding) = Some sample_queue_binding"
  using binding_survives_wire [OF sample_created, of "wire_of_binding sample_queue_binding"] by simp

theorem publication_idempotent_witness:
  "enqueue (sample_env\<lparr>q_get := \<lambda>k. Some ''1-0'', q_entry := \<lambda>k. Some (map_of sample_message)\<rparr>) sample_intent
     = (Inr ''1-0'', [])"
  using publication_idempotent [of sample_env sample_intent "''req-1''" sample_queue_binding sample_intent "''req-1''"
      sample_queue_binding "sample_env\<lparr>q_get := \<lambda>k. Some ''1-0'', q_entry := \<lambda>k. Some (map_of sample_message)\<rparr>" "''1-0''"]
    sample_intent_valid
  by (simp add: sample_intent_def sample_message_def sample_env_def py_strip_def py_lstrip_def py_space_def Let_def)

lemma sample_plain: "printable_intent sample_env sample_queue_binding"
  by code_simp

theorem published_intent_handled_witness:
  "\<exists>entry key. enqueue sample_env sample_intent = (Inr ''1-0'',
      [Transaction [Xadd [] entry, SetKey key ''1-0'' (Some DEDUPE_TTL_SECONDS)]])
    \<and> consume_message sample_env sample_handler ''1-0'' (Some entry) =
        (Inr True, [Handle ''scan-1'' (Some ''org'') (Some ''req-1'') None (Some sample_queue_binding), Xack ''1-0''])"
proof -
  have b: "qb_scan_id sample_queue_binding = ''scan-1''" "qb_organization_id sample_queue_binding = ''org''"
    "qb_request_id sample_queue_binding = ''req-1''" by (simp_all add: sample_queue_binding_def)
  have "\<not> is_quarantined sample_env ''1-0''" by (simp add: is_quarantined_def sample_env_def)
  moreover have "accepts sample_handler 5" by (simp add: accepts_def sample_handler_def)
  ultimately show ?thesis
    using published_intent_handled [of sample_env sample_intent "''req-1''" sample_queue_binding sample_env "''1-0''" 1 sample_handler None]
      sample_intent_valid sample_plain
    by (simp add: b sample_intent_def sample_env_def sample_handler_def MAX_DELIVERY_ATTEMPTS_def
        open_envelope_def or_else_def)
qed

lemma sample_run: "consume_message sample_env sample_handler ''1-0'' (Some sample_message)
    = (Inr True, [Handle ''scan-1'' (Some ''org'') (Some ''req-1'') None (Some sample_queue_binding), Xack ''1-0''])"
  by code_simp

theorem handler_needs_binding_witness: "binding_valid sample_sha sample_queue_binding"
  using handler_needs_binding [of "''scan-1''" "Some ''org''" "Some ''req-1''" None sample_queue_binding sample_env
      sample_handler "[(''1-0'', Some sample_message)]" "[]"] sample_run
  by (auto simp: consume_once_def)

theorem acknowledged_after_handler_witness:
  "\<exists>b. binding_from_payload sample_sha (map_of sample_message) = Some b"
proof -
  have "map_of sample_message ''message_kind'' = Some AUTHORITATIVE"
    by (simp add: sample_message_def intent_field_values)
  from acknowledged_after_handler [of "[]" "[(''1-0'', Some sample_message)]" "''1-0''" sample_message "[]" sample_env
      sample_handler _ "Xack ''1-0''" "[]", OF _ this] sample_run
  show ?thesis by (auto simp: consume_once_def)
qed

theorem exceeded_delivery_not_quarantined_witness:
  "consume_bound (sample_env\<lparr>q_attempts := \<lambda>m. Some 6\<rparr>) sample_handler ''1-0'' sample_message sample_queue_binding
     = (Inl QueueValueError, [])"
  by (rule exceeded_delivery_not_quarantined [of _ _ 6]) (simp_all add: MAX_DELIVERY_ATTEMPTS_def)

theorem bounded_failure_unrecorded_witness:
  "\<exists>cs. execute_bounded sample_env sample_intent (Some ''TimeoutError'') = (Inl QueueValueError, cs)"
proof -
  have "\<exists>cs. enqueue sample_env (sample_intent\<lparr>i_envelope := None\<rparr>) = (Inr ''1-0'', cs)"
    using sample_intent_valid
    by (auto simp: enqueue_def enqueue_script_def sample_intent_def sample_env_def)
  then show ?thesis
    using bounded_failure_unrecorded [of sample_env sample_intent "''1-0''" _ "''req-1''" sample_queue_binding]
    by (auto simp: sample_intent_def)
qed

definition sample_operator :: operator where
  "sample_operator = \<lparr> op_actor_id = ''admin'', op_organization_id = ''org'', op_session_binding = ''jti'',
     op_permission = ''execution:recovery'' \<rparr>"

text \<open>A message with an unknown field, quarantined and stored.\<close>

definition rejected_message :: queue_fields where
  "rejected_message = (''unknown'', ''1'') # sample_message"

definition quarantined_evidence :: queue_fields where
  "quarantined_evidence = [(''attempt_count'', ''1''), (''authorization_request_id'', ''req-1''),
     (''dispatch_message_id'', ''1-0''), (''error_code'', ''QUEUE_MESSAGE_CLASSIFICATION_REJECTED''),
     (''escalated'', ''1''), (''failure_category'', ''AMBIGUOUS_QUEUE_MESSAGE''),
     (''failure_observed_at'', ''2026-01-01T00:00:00+00:00''), (''max_attempts'', ''5''), (''message_id'', ''1-0''),
     (''message_kind'', ''AMBIGUOUS_UNCLASSIFIED''), (''organization_id'', ''org''), (''quarantined'', ''1''),
     (''requeue_required'', ''1''), (''scan_id'', ''scan-1'')]"

definition quarantined_state :: json where
  "quarantined_state = JObj (quarantine_state sample_env ''1-0'' ''QUEUE_MESSAGE_CLASSIFICATION_REJECTED''
     (invalid_failure sample_env ''1-0'' (Some rejected_message)) quarantined_evidence)"

definition quarantined_read :: jobj where
  "quarantined_read = [(''attempt_count'', JInt 1), (''authorization_request_id'', JStr ''req-1''),
     (''failure_evidence'', text_object quarantined_evidence),
     (''failure_evidence_digest'', JStr (sample_sha [])), (''max_attempts'', JInt 5), (''message_id'', JStr ''1-0''),
     (''message_kind'', JStr ''AMBIGUOUS_UNCLASSIFIED''), (''organization_id'', JStr ''org''),
     (''quarantine_state_digest'', JStr (sample_sha [])), (''quarantined_at'', JStr ''2026-01-01T00:00:00+00:00''),
     (''reason'', JStr ''QUEUE_MESSAGE_CLASSIFICATION_REJECTED''), (''scan_id'', JStr ''scan-1''),
     (''schema_version'', JStr ''queue-quarantine-v3''), (''status'', JStr ''QUARANTINED'')]"

definition quarantined_raw :: string where
  "quarantined_raw = json_dumps quarantined_state"

definition quarantined_env :: queue_env where
  "quarantined_env = sample_env\<lparr>q_get := \<lambda>k. Some quarantined_raw\<rparr>"

lemma quarantined_readable: "readable quarantined_state"
  by code_simp

lemma quarantined_object: "canon quarantined_state = JObj quarantined_read"
  by code_simp

lemma quarantined_loads: "json_loads quarantined_raw = Some (JObj quarantined_read)"
  using json_loads_dumps [OF quarantined_readable] by (simp add: quarantined_raw_def quarantined_object)

lemma sample_digests [simp]:
  "failure_evidence_digest sample_sha ev = sample_sha []" "quarantine_state_digest sample_sha st = sample_sha []"
  by (simp_all add: failure_evidence_digest_def quarantine_state_digest_def sample_sha_def)

lemma quarantined_evidence_read:
  "Option.bind (evidence_of (map_of quarantined_read ''failure_evidence''))
     (\<lambda>ev. canonical_failure_evidence sample_sha ''1-0'' ev True) = Some quarantined_evidence"
  by code_simp

lemma quarantined_valid: "state_valid sample_env ''1-0'' quarantined_read quarantined_evidence"
  by (simp add: state_valid_def Let_def quarantined_read_def quarantined_evidence_def QUARANTINE_STATE_FIELDS_def
      ids_json_value_def count_json_def count_of_def is_digit_def)

lemma quarantined_get: "get_quarantine_state quarantined_env ''1-0'' = Some quarantined_read"
proof -
  have "stored_quarantine quarantined_env ''1-0'' = Some quarantined_raw"
    by (simp add: stored_quarantine_def quarantined_env_def coalesce_def)
  moreover have "q_sha quarantined_env = sample_sha" by (simp add: quarantined_env_def)
  moreover have "state_valid quarantined_env ''1-0'' quarantined_read quarantined_evidence"
    using quarantined_valid by (simp add: state_valid_def quarantined_env_def)
  ultimately show ?thesis
    by (simp add: get_quarantine_state_def quarantined_loads quarantined_evidence_read)
qed

lemma quarantined_fields:
  "map_of quarantined_read ''organization_id'' = Some (JStr ''org'')"
  "map_of quarantined_read ''authorization_request_id'' = Some (JStr ''req-1'')" "acknowledgeable quarantined_read"
  "issue_operator sample_operator = Some sample_operator" "queue_text ''1-0''" "py_strip ''req-1'' = ''req-1''"
  "py_strip ''org'' = ''org''"
  by code_simp+

lemma sample_recovery:
  "fst (acknowledge_quarantined quarantined_env quarantined_env quarantined_env ''1-0'' sample_operator (Some ''req-1'')) = Inr True"
proof -
  have "q_get quarantined_env k = Some quarantined_raw" "q_acked quarantined_env" for k
    by (simp_all add: quarantined_env_def sample_env_def)
  moreover have "op_organization_id sample_operator = ''org''" by (simp add: sample_operator_def)
  ultimately show ?thesis
    using quarantined_fields
    by (simp add: acknowledge_quarantined_def quarantined_get ack_script_def)
qed

theorem recovery_needs_authority_witness:
  "\<exists>state. get_quarantine_state quarantined_env ''1-0'' = Some state
    \<and> map_of state ''organization_id'' = Some (JStr ''org'')"
  using recovery_needs_authority [of quarantined_env quarantined_env quarantined_env "''1-0''" sample_operator "Some ''req-1''"
      "snd (acknowledge_quarantined quarantined_env quarantined_env quarantined_env ''1-0'' sample_operator (Some ''req-1''))"]
    sample_recovery
  by (metis option.inject operator.simps(2) prod.collapse sample_operator_def)

end
