(* ===== verification/Rate_Limiter.thy ===== *)
theory Rate_Limiter
  imports Float64
begin

text \<open>
  \<open>backend/app/core/rate_limiter.py\<close>: the token bucket and the circuit breaker.  Clock readings
  (\<open>time.monotonic()\<close>) are arguments; all float arithmetic is rounded.  The lock of \<open>acquire\<close> is held for
  one turn of its loop and released before the sleep, so one turn is the atomic step: a bucket lives
  through a sequence of calls of all coroutines, and a caller's \<open>acquire\<close> is a loop over its turns with
  the calls the others make before each of them.  \<open>asyncio.sleep(d)\<close> is the assumption that the next
  turn reads the clock at least \<open>d\<close> later.
\<close>

section \<open>The token bucket\<close>

record bucket =
  rate_rps :: rat
  capacity :: rat
  tokens :: rat
  last_refill :: rat

definition clamp_rate :: "rat \<Rightarrow> rat" where
  "clamp_rate r = max (1/2) (min 20 r)"

definition new_bucket :: "rat \<Rightarrow> rat \<Rightarrow> rat \<Rightarrow> bucket" where
  "new_bucket rate burst now =
     \<lparr> rate_rps = clamp_rate rate, capacity = max 1 burst, tokens = max 1 burst, last_refill = now \<rparr>"

definition refill :: "rat \<Rightarrow> bucket \<Rightarrow> bucket" where
  "refill now b =
    (let elapsed = fl (now - last_refill b)
     in if 0 < elapsed
        then b\<lparr>tokens := min (capacity b) (fl (tokens b + fl (elapsed * rate_rps b))), last_refill := now\<rparr>
        else b)"

text \<open>One turn of the loop: \<open>None\<close> when the token was taken, else the time to sleep.\<close>

definition try_acquire :: "rat \<Rightarrow> bucket \<Rightarrow> bucket \<times> rat option" where
  "try_acquire now b =
    (let b' = refill now b
     in if 1 \<le> tokens b' then (b'\<lparr>tokens := fl (tokens b' - 1)\<rparr>, None)
        else (b', Some (max (fl (1/100)) (fl (fl (1 - tokens b') / rate_rps b')))))"

definition halve_rate :: "bucket \<Rightarrow> bucket" where
  "halve_rate b = b\<lparr>rate_rps := max (1/2) (fl (rate_rps b / 2))\<rparr>"

definition reset_rate :: "rat \<Rightarrow> bucket \<Rightarrow> bucket" where
  "reset_rate r b = b\<lparr>rate_rps := clamp_rate r\<rparr>"

text \<open>What any coroutine can do to a shared bucket: one turn of its \<open>acquire\<close>, \<open>halve_rate\<close> (called by
  \<open>check_throttle\<close>), \<open>reset_rate\<close>.\<close>

datatype limiter_call = Turn rat | Halve | Reset rat

fun limiter_step :: "bucket \<Rightarrow> limiter_call \<Rightarrow> bucket" where
  "limiter_step b (Turn now) = fst (try_acquire now b)"
| "limiter_step b Halve = halve_rate b"
| "limiter_step b (Reset r) = reset_rate r b"

definition limiter_run :: "bucket \<Rightarrow> limiter_call list \<Rightarrow> bucket" where
  "limiter_run b calls = foldl limiter_step b calls"

text \<open>The loop over a caller's turns, each with what the others did since its last one; \<open>None\<close> when the
  turns run out before a token is taken.\<close>

fun acquire :: "(limiter_call list \<times> rat) list \<Rightarrow> bucket \<Rightarrow> bucket option" where
  "acquire [] b = None"
| "acquire ((others, now) # later) b =
     (case try_acquire now (limiter_run b others) of (b', None) \<Rightarrow> Some b' | (b', Some _) \<Rightarrow> acquire later b')"

section \<open>The circuit breaker\<close>

datatype CircuitState = NORMAL | THROTTLED | TRIPPED

record breaker =
  pause_seconds :: rat
  consecutive_5xx :: nat
  consecutive_timeouts :: nat
  errors_in_throttled :: nat
  circuit_state :: CircuitState
  throttled_until :: "rat option"

definition new_breaker :: "rat \<Rightarrow> breaker" where
  "new_breaker pause = \<lparr> pause_seconds = pause, consecutive_5xx = 0, consecutive_timeouts = 0,
     errors_in_throttled = 0, circuit_state = NORMAL, throttled_until = None \<rparr>"

text \<open>\<open>if self.throttled_until\<close>: \<open>None\<close> and the float 0.0 are false.\<close>

definition throttle_end :: "breaker \<Rightarrow> rat option" where
  "throttle_end c = (case throttled_until c of Some t \<Rightarrow> (if t = 0 then None else Some t) | None \<Rightarrow> None)"

definition record_success :: "rat \<Rightarrow> breaker \<Rightarrow> breaker" where
  "record_success now c =
    (let c' = c\<lparr>consecutive_5xx := 0, consecutive_timeouts := 0\<rparr>
     in if circuit_state c' = THROTTLED
        then (case throttle_end c' of
                Some t \<Rightarrow> (if t \<le> now then c'\<lparr>circuit_state := NORMAL, errors_in_throttled := 0\<rparr> else c')
              | None \<Rightarrow> c')
        else c')"

definition count_error :: "rat \<Rightarrow> breaker \<Rightarrow> breaker" where
  "count_error now c =
    (case circuit_state c of
       NORMAL \<Rightarrow>
         (if 5 \<le> consecutive_5xx c \<or> 3 \<le> consecutive_timeouts c
          then c\<lparr>circuit_state := THROTTLED, throttled_until := Some (fl (now + pause_seconds c)),
                 errors_in_throttled := 0\<rparr>
          else c)
     | THROTTLED \<Rightarrow>
         (let c' = c\<lparr>errors_in_throttled := errors_in_throttled c + 1\<rparr>
          in if 5 \<le> errors_in_throttled c' then c'\<lparr>circuit_state := TRIPPED\<rparr> else c')
     | TRIPPED \<Rightarrow> c)"

text \<open>\<open>later\<close> is the second reading of the clock, inside \<open>record_success\<close>.\<close>

definition record_response :: "rat \<Rightarrow> rat \<Rightarrow> int option \<Rightarrow> bool \<Rightarrow> breaker \<Rightarrow> breaker" where
  "record_response now later status_code is_timeout c =
    (if is_timeout then count_error now (c\<lparr>consecutive_timeouts := consecutive_timeouts c + 1\<rparr>)
     else if status_code \<noteq> None \<and> the status_code \<noteq> 0 \<and> 500 \<le> the status_code
     then count_error now (c\<lparr>consecutive_5xx := consecutive_5xx c + 1\<rparr>)
     else record_success later c)"

definition is_tripped :: "breaker \<Rightarrow> bool" where
  "is_tripped c = (circuit_state c = TRIPPED)"

text \<open>\<open>check_throttle\<close>: the new breaker and limiter, and the time to sleep.\<close>

definition check_throttle :: "rat \<Rightarrow> breaker \<Rightarrow> bucket option \<Rightarrow> breaker \<times> bucket option \<times> rat option" where
  "check_throttle now c limiter =
    (case (circuit_state c, throttle_end c) of
       (THROTTLED, Some t) \<Rightarrow>
         (let remaining = fl (t - now)
          in (c\<lparr>circuit_state := NORMAL\<rparr>,
              if 0 < remaining then map_option halve_rate limiter else limiter,
              if 0 < remaining then Some remaining else None))
     | _ \<Rightarrow> (c, limiter, None))"

section \<open>Bucket facts\<close>

text \<open>What every operation keeps: a rate between 0.5 and 20, a capacity of at least one token, and
  between 0 and \<open>capacity\<close> tokens.\<close>

definition bucket_ok :: "bucket \<Rightarrow> bool" where
  "bucket_ok b = (1/2 \<le> rate_rps b \<and> rate_rps b \<le> 20 \<and> 1 \<le> capacity b
     \<and> 0 \<le> tokens b \<and> tokens b \<le> capacity b \<and> is_double (tokens b) \<and> is_double (capacity b))"

lemma refill_ok: "bucket_ok b \<Longrightarrow> bucket_ok (refill now b)"
  by (auto simp: bucket_ok_def refill_def Let_def min_def intro!: fl_nonneg mult_nonneg_nonneg add_nonneg_nonneg)

lemma refill_frame [simp]:
  "rate_rps (refill now b) = rate_rps b" "capacity (refill now b) = capacity b"
  by (simp_all add: refill_def Let_def)

lemma take_ok: "bucket_ok b \<Longrightarrow> 1 \<le> tokens b \<Longrightarrow> bucket_ok (b\<lparr>tokens := fl (tokens b - 1)\<rparr>)"
proof -
  assume b: "bucket_ok b" "1 \<le> tokens b"
  then have "fl (tokens b - 1) \<le> tokens b" by (intro fl_le) (simp_all add: bucket_ok_def)
  with b show ?thesis by (auto simp: bucket_ok_def intro: fl_nonneg)
qed

lemma try_acquire_ok: "bucket_ok b \<Longrightarrow> bucket_ok (fst (try_acquire now b))"
  by (simp add: try_acquire_def Let_def take_ok refill_ok)

lemma is_double_half: "is_double (1/2)"
proof -
  have "fl_pos (1/2) = 1/2"
  proof (rule fl_pos_exact [where k = 1 and j = "-1"])
    show "exponent (1/2) - 52 \<le> -1" using exponent_less [of "1/2" 51] by (simp add: pow2_def)
  qed (simp_all add: pow2_def)
  then show ?thesis by (simp add: is_double_def fl_def)
qed

lemma rates_ok: "bucket_ok b \<Longrightarrow> bucket_ok (halve_rate b)" "bucket_ok b \<Longrightarrow> bucket_ok (reset_rate r b)"
proof -
  have "is_double 20" using is_double_int [of 20] by simp
  then show "bucket_ok b \<Longrightarrow> bucket_ok (halve_rate b)"
    by (auto simp: bucket_ok_def halve_rate_def intro: fl_le)
qed (auto simp: bucket_ok_def reset_rate_def clamp_rate_def)

lemma new_bucket_ok: "is_double burst \<Longrightarrow> bucket_ok (new_bucket rate burst t0)"
  using is_double_int [of 1] by (auto simp: bucket_ok_def new_bucket_def clamp_rate_def max_def)

lemma limiter_step_ok: "bucket_ok b \<Longrightarrow> bucket_ok (limiter_step b call)"
  by (cases call) (simp_all add: try_acquire_ok rates_ok)

lemma limiter_run_ok: "bucket_ok b \<Longrightarrow> bucket_ok (limiter_run b calls)"
  by (induction calls arbitrary: b) (simp_all add: limiter_run_def limiter_step_ok)

lemma acquire_ok: "bucket_ok b \<Longrightarrow> acquire turns b = Some b' \<Longrightarrow> bucket_ok b'"
proof (induction turns b rule: acquire.induct)
  case (2 others now later b)
  then show ?case
    using try_acquire_ok [OF limiter_run_ok [of b others], of now] by (auto split: prod.splits option.splits)
qed simp

section \<open>The rate is respected\<close>

definition call_times :: "limiter_call list \<Rightarrow> rat list" where
  "call_times calls = concat (map (\<lambda>call. case call of Turn t \<Rightarrow> [t] | _ \<Rightarrow> []) calls)"

text \<open>The tokens handed out along a sequence of calls.\<close>

fun tokens_taken :: "bucket \<Rightarrow> limiter_call list \<Rightarrow> nat" where
  "tokens_taken b [] = 0"
| "tokens_taken b (call # calls) =
     (case call of Turn now \<Rightarrow> if snd (try_acquire now b) = None then 1 else 0 | _ \<Rightarrow> 0)
     + tokens_taken (limiter_step b call) calls"

lemma turn_last: "last_refill b \<le> t \<Longrightarrow> last_refill (fst (try_acquire t b)) = t"
  by (auto simp: try_acquire_def refill_def Let_def)

lemma rates_frame [simp]:
  "tokens (halve_rate b) = tokens b" "last_refill (halve_rate b) = last_refill b" "capacity (halve_rate b) = capacity b"
  "tokens (reset_rate r b) = tokens b" "last_refill (reset_rate r b) = last_refill b" "capacity (reset_rate r b) = capacity b"
  by (simp_all add: halve_rate_def reset_rate_def)

text \<open>A refill adds at most twenty tokens per second, up to rounding; taking a token removes one.\<close>

lemma refill_budget:
  assumes b: "bucket_ok b" and t: "last_refill b \<le> t"
  shows "tokens (refill t b) \<le> tokens b + 20 * (1 + 1 / 2 ^ 50) * (t - last_refill b) + capacity b / 2 ^ 52"
proof -
  define u :: rat where "u = 1 + 1 / 2 ^ 53"
  define e where "e = t - last_refill b"
  have e: "0 \<le> e" and u: "0 < u" "1 \<le> u" using t by (simp_all add: e_def u_def)
  have r: "0 \<le> rate_rps b" "rate_rps b \<le> 20" and k: "0 \<le> tokens b" "tokens b \<le> capacity b"
    using b by (auto simp: bucket_ok_def)
  have up: "fl x \<le> x * u" if "0 \<le> x" for x unfolding u_def by (rule fl_upper [OF that])
  have "fl (fl e * rate_rps b) \<le> fl e * rate_rps b * u" using e r by (intro up mult_nonneg_nonneg fl_nonneg)
  also have "\<dots> \<le> e * u * 20 * u" using up [OF e] e r u by (intro mult_right_mono mult_mono fl_nonneg) simp_all
  finally have g: "fl (fl e * rate_rps b) \<le> e * u * 20 * u" .
  have "fl (tokens b + fl (fl e * rate_rps b)) \<le> (tokens b + fl (fl e * rate_rps b)) * u"
    using e r k by (intro up add_nonneg_nonneg fl_nonneg mult_nonneg_nonneg)
  also have "\<dots> \<le> (tokens b + e * u * 20 * u) * u" using g u by (intro mult_right_mono) simp_all
  also have "\<dots> = tokens b + tokens b / 2 ^ 53 + e * 20 * (u * u * u)" by (simp add: u_def field_simps)
  also have "\<dots> \<le> tokens b + capacity b / 2 ^ 52 + e * 20 * (1 + 1 / 2 ^ 50)"
  proof (intro add_mono mult_left_mono order_refl)
    show "tokens b / 2 ^ 53 \<le> capacity b / 2 ^ 52" using k by simp
    show "u * u * u \<le> 1 + 1 / 2 ^ 50" by (simp add: u_def)
  qed (use e in simp)
  finally have up_to: "fl (tokens b + fl (fl e * rate_rps b)) \<le> tokens b + 20 * (1 + 1 / 2 ^ 50) * e + capacity b / 2 ^ 52"
    by (simp add: mult.commute add.assoc add.left_commute)
  have pos: "0 \<le> 20 * (1 + 1 / 2 ^ 50) * e" "0 \<le> capacity b / 2 ^ 52" using e k by simp_all
  show ?thesis
  proof (cases "0 < fl e")
    case True
    then have "tokens (refill t b) \<le> fl (tokens b + fl (fl e * rate_rps b))" by (simp add: refill_def e_def Let_def)
    with up_to show ?thesis unfolding e_def by linarith
  next
    case False
    then have "tokens (refill t b) = tokens b" by (simp add: refill_def e_def Let_def)
    with pos show ?thesis unfolding e_def by linarith
  qed
qed

lemma turn_budget:
  assumes b: "bucket_ok b" and t: "last_refill b \<le> t"
  shows "tokens (fst (try_acquire t b)) + (if snd (try_acquire t b) = None then 1 else 0)
    \<le> tokens b + 20 * (1 + 1 / 2 ^ 50) * (t - last_refill b) + capacity b / 2 ^ 51"
proof -
  let ?k = "tokens (refill t b)"
  have k: "?k \<le> capacity b" "0 < capacity b" using refill_ok [OF b, of t] b by (auto simp: bucket_ok_def)
  have half: "capacity b / 2 ^ 52 + capacity b / 2 ^ 52 = capacity b / 2 ^ 51" by simp
  have "fl (?k - 1) + 1 \<le> ?k + capacity b / 2 ^ 52" if "1 \<le> ?k"
  proof -
    have "fl (?k - 1) \<le> (?k - 1) * (1 + 1 / 2 ^ 53)" using that by (intro fl_upper) simp
    also have "\<dots> = ?k - 1 + (?k - 1) / 2 ^ 53" by (simp add: field_simps)
    also have "(?k - 1) / 2 ^ 53 \<le> capacity b / 2 ^ 52" using k by simp
    finally show ?thesis by simp
  qed
  with refill_budget [OF b t] half k show ?thesis by (auto simp: try_acquire_def Let_def)
qed

lemma taken_budget:
  assumes "bucket_ok b" and "sorted (last_refill b # call_times calls @ [t])"
  shows "of_nat (tokens_taken b calls)
    \<le> tokens b + 20 * (1 + 1 / 2 ^ 50) * (t - last_refill b) + of_nat (length calls) * (capacity b / 2 ^ 51)"
  using assms
proof (induction calls arbitrary: b)
  case Nil
  then show ?case by (simp add: bucket_ok_def)
next
  case (Cons call calls)
  note ok = limiter_step_ok [OF Cons.prems(1), of call]
  define K :: rat where "K = 20 * (1 + 1 / 2 ^ 50)"
  define q where "q = capacity b / 2 ^ 51"
  have q: "0 \<le> q" using Cons.prems(1) by (simp add: q_def bucket_ok_def)
  have more: "of_nat (length (call # calls)) * q = of_nat (length calls) * q + q" by (simp add: algebra_simps)
  have rate_change: ?case if "tokens b' = tokens b" "last_refill b' = last_refill b" "capacity b' = capacity b"
    "limiter_step b call = b'" "tokens_taken b (call # calls) = tokens_taken b' calls"
    "call_times (call # calls) = call_times calls" for b'
    using Cons.IH [OF ok, unfolded that(1-4)] Cons.prems(2) q more that(5,6)
    unfolding K_def [symmetric] q_def [symmetric] by simp
  show ?case
  proof (cases call)
    case (Turn now)
    with Cons.prems(2) have now: "last_refill b \<le> now" and rest: "sorted (now # call_times calls @ [t])"
      by (simp_all add: call_times_def)
    have "capacity (limiter_step b call) = capacity b" by (simp add: Turn try_acquire_def Let_def)
    let ?x = "(if snd (try_acquire now b) = None then 1 else 0) :: rat"
    let ?b = "fst (try_acquire now b)" and ?n = "of_nat (length calls) :: rat"
    have "of_nat (tokens_taken ?b calls) \<le> tokens ?b + K * (t - now) + ?n * q"
      using Cons.IH [OF ok] rest turn_last [OF now] \<open>capacity (limiter_step b call) = capacity b\<close>
      by (simp only: Turn limiter_step.simps K_def q_def)
    moreover have "tokens ?b + ?x \<le> tokens b + K * (now - last_refill b) + q"
      using turn_budget [OF Cons.prems(1) now] by (simp only: K_def q_def)
    moreover have "K * (t - last_refill b) = K * (t - now) + K * (now - last_refill b)" by (simp add: algebra_simps)
    moreover note more
    moreover have "of_nat (tokens_taken b (call # calls)) = ?x + of_nat (tokens_taken ?b calls)" by (simp add: Turn)
    ultimately show ?thesis unfolding K_def [symmetric] q_def [symmetric] by linarith
  next
    case Halve
    then show ?thesis by (intro rate_change [of "halve_rate b"]) (simp_all add: call_times_def)
  next
    case (Reset r)
    then show ?thesis by (intro rate_change [of "reset_rate r b"]) (simp_all add: call_times_def)
  qed
qed

section \<open>Waiting is bounded\<close>

text \<open>The sleeps are honoured: after a turn that asks to sleep \<open>d\<close>, the caller's next reading is at least
  \<open>d\<close> later.\<close>

fun paced :: "bucket \<Rightarrow> (limiter_call list \<times> rat) list \<Rightarrow> bool" where
  "paced b ((others, t) # (others', t') # turns) =
     (case try_acquire t (limiter_run b others) of
        (b', Some d) \<Rightarrow> t + d \<le> t' \<and> paced b' ((others', t') # turns) | _ \<Rightarrow> True)"
| "paced b _ = True"

definition turn_times :: "(limiter_call list \<times> rat) list \<Rightarrow> rat list" where
  "turn_times turns = concat (map (\<lambda>turn. call_times (fst turn) @ [snd turn]) turns)"

lemma fl_almost: "0 \<le> x \<Longrightarrow> x * (9999/10000) \<le> fl x"
  using fl_error [of x] mult_left_mono [of "9999/10000" "1 - 1 / 2 ^ 53" x] by simp

text \<open>A wait adds at least the tokens that were missing, up to rounding, and at least 0.004.\<close>

lemma wait_gains:
  assumes b: "bucket_ok b" and last: "last_refill b = t" and short: "tokens b < 1"
    and d: "d = max (fl (1/100)) (fl (fl (1 - tokens b) / rate_rps b))" and t': "t + d \<le> t'"
  shows "min 1 (9996/10000) \<le> tokens (refill t' b) \<and> (9996/10000 \<le> tokens b \<longrightarrow> 1 \<le> tokens (refill t' b))"
proof -
  define q where "q = (9999/10000 :: rat)"
  let ?r = "rate_rps b" and ?k = "tokens b"
  have r: "1/2 \<le> ?r" "0 < ?r" and k: "0 \<le> ?k" and cap: "1 \<le> capacity b" using b by (auto simp: bucket_ok_def)
  have q: "0 < q" "q < 1" by (simp_all add: q_def)
  have flq: "0 \<le> x \<Longrightarrow> x * q \<le> fl x" for x unfolding q_def by (rule fl_almost)
  have dd: "is_double d" by (simp add: d max_def)
  have d0: "0 < d" by (simp add: d less_max_iff_disj)
  then have el: "0 < fl (t' - t)" using t' by simp
  have del: "d \<le> fl (t' - t)" using t' by (intro fl_ge [OF dd]) simp
  define g where "g = fl (fl (t' - t) * ?r)"
  have refill: "tokens (refill t' b) = min (capacity b) (fl (?k + g))"
    using el by (simp add: refill_def Let_def last g_def)
  have g: "d * ?r * q \<le> g"
  proof -
    have "d * ?r * q \<le> (fl (t' - t) * ?r) * q" using del r q by (intro mult_right_mono) simp_all
    also have "\<dots> \<le> g" unfolding g_def using el r by (intro flq) (simp add: less_imp_le)
    finally show ?thesis .
  qed
  have "(1 - ?k) * q * q \<le> d * ?r"
  proof -
    have n: "(1 - ?k) * q \<le> fl (1 - ?k)" using short by (intro flq) simp
    then have "(1 - ?k) * q / ?r * q \<le> fl (1 - ?k) / ?r * q"
      using r q by (intro mult_right_mono divide_right_mono) simp_all
    also have "\<dots> \<le> fl (fl (1 - ?k) / ?r)" using short r by (intro flq divide_nonneg_pos fl_nonneg) simp_all
    also have "\<dots> \<le> d" by (simp add: d)
    finally show ?thesis using r by (simp add: field_simps)
  qed
  then have "(1 - ?k) * q * q * q \<le> d * ?r * q" using q by (intro mult_right_mono) simp_all
  with g have gain: "(1 - ?k) * (q * q * q) \<le> g" by (simp add: mult.assoc)
  have "q * q * q \<le> ?k + (1 - ?k) * (q * q * q)"
  proof -
    have "?k * (q * q * q) \<le> ?k * 1" using k by (intro mult_left_mono) (simp_all add: q_def)
    then show ?thesis by (simp add: left_diff_distrib)
  qed
  with gain have "q * q * q \<le> ?k + g" by linarith
  then have "q * q * q * q \<le> (?k + g) * q" using q by (intro mult_right_mono) simp_all
  also have "(?k + g) * q \<le> fl (?k + g)" using \<open>q * q * q \<le> ?k + g\<close> by (intro flq) (simp add: q_def)
  finally have almost: "9996/10000 \<le> fl (?k + g)" by (simp add: q_def)
  have "1 \<le> fl (?k + g)" if "9996/10000 \<le> ?k"
  proof -
    have "1/100 * q \<le> fl (1/100)" by (rule flq) simp
    also have "\<dots> \<le> d" by (simp add: d)
    finally have "1/100 * q * (1/2) \<le> d * ?r" using r d0 by (intro mult_mono) simp_all
    then have "1/100 * q * (1/2) * q \<le> d * ?r * q" using q by (intro mult_right_mono) simp_all
    with g have "1/100 * q * (1/2) * q \<le> g" by linarith
    then have "1/1000 \<le> g" by (simp add: q_def)
    with that have "1 \<le> ?k + g" by linarith
    then show ?thesis using is_double_int [of 1] by (intro fl_ge) simp_all
  qed
  with almost cap show ?thesis by (auto simp: refill)
qed

lemma refill_last: "last_refill b \<le> t \<Longrightarrow> last_refill (refill t b) = t"
  by (auto simp: refill_def Let_def)

lemma try_acquire_wait:
  "try_acquire t b = (b', Some d) \<Longrightarrow> b' = refill t b \<and> tokens b' < 1 \<and>
     d = max (fl (1/100)) (fl (fl (1 - tokens b') / rate_rps b'))"
  by (auto simp: try_acquire_def Let_def split: if_splits)

lemma three_turns:
  assumes "bucket_ok b" and "last_refill (limiter_run b others) \<le> t1" and "paced b [(others, t1), ([], t2), ([], t3)]"
  shows "\<exists>b'. acquire [(others, t1), ([], t2), ([], t3)] b = Some b'"
proof (cases "snd (try_acquire t1 (limiter_run b others))")
  case None
  then show ?thesis by (cases "try_acquire t1 (limiter_run b others)") simp
next
  case (Some d1)
  then obtain b1 where s1: "try_acquire t1 (limiter_run b others) = (b1, Some d1)"
    by (cases "try_acquire t1 (limiter_run b others)") simp
  note w1 = try_acquire_wait [OF s1] and idle = limiter_run_def [of _ "[]", simplified]
  have p2: "t1 + d1 \<le> t2" "paced b1 [([], t2), ([], t3)]" using assms(3) by (simp_all add: s1)
  have b1: "bucket_ok b1" "last_refill b1 = t1"
    using w1 assms limiter_run_ok [of b others] by (simp_all add: refill_ok refill_last)
  from wait_gains [OF b1 _ _ p2(1)] w1 have g1: "9996/10000 \<le> tokens (refill t2 b1)" by auto
  have "0 < fl (1/100 :: rat)" by simp
  also have "\<dots> \<le> d1" using w1 by simp
  finally have "t1 \<le> t2" using p2(1) by linarith
  show ?thesis
  proof (cases "snd (try_acquire t2 b1)")
    case None
    then show ?thesis by (cases "try_acquire t2 b1") (simp add: s1 idle)
  next
    case (Some d2)
    then obtain b2 where s2: "try_acquire t2 b1 = (b2, Some d2)" by (cases "try_acquire t2 b1") simp
    note w2 = try_acquire_wait [OF s2]
    have p3: "t2 + d2 \<le> t3" using p2(2) by (simp add: s2 idle)
    have b2: "bucket_ok b2" "last_refill b2 = t2" using w2 b1 \<open>t1 \<le> t2\<close> by (simp_all add: refill_ok refill_last)
    from wait_gains [OF b2 _ _ p3] w2 g1 have "1 \<le> tokens (refill t3 b2)" by auto
    then have "snd (try_acquire t3 b2) = None" by (simp add: try_acquire_def Let_def)
    then show ?thesis by (cases "try_acquire t3 b2") (simp add: s1 s2 idle)
  qed
qed

lemma run_last: "sorted (last_refill b # call_times calls @ [t]) \<Longrightarrow> last_refill (limiter_run b calls) \<le> t"
proof (induction calls arbitrary: b)
  case (Cons call calls)
  then show ?case
    by (cases call) (auto simp: limiter_run_def call_times_def turn_last)
qed (simp add: limiter_run_def)

text \<open>However often it was disturbed before, a caller is through after its next two undisturbed sleeps.\<close>

lemma undisturbed_acquires:
  assumes "bucket_ok b" and "sorted (last_refill b # turn_times (before @ [(others, t1), ([], t2), ([], t3)]))"
    and "paced b (before @ [(others, t1), ([], t2), ([], t3)])"
  shows "\<exists>b'. acquire (before @ [(others, t1), ([], t2), ([], t3)]) b = Some b'"
  using assms
proof (induction before arbitrary: b)
  case Nil
  then have "sorted (last_refill b # call_times others @ [t1])" by (auto simp: turn_times_def sorted_append)
  from three_turns [OF Nil(1) run_last [OF this]] Nil(3) show ?case by simp
next
  case (Cons turn before)
  obtain others' t where turn: "turn = (others', t)" by fastforce
  let ?later = "before @ [(others, t1), ([], t2), ([], t3)]"
  show ?case
  proof (cases "snd (try_acquire t (limiter_run b others'))")
    case None
    then show ?thesis by (cases "try_acquire t (limiter_run b others')") (simp add: turn)
  next
    case (Some d)
    then obtain b' where s: "try_acquire t (limiter_run b others') = (b', Some d)"
      by (cases "try_acquire t (limiter_run b others')") simp
    from Cons.prems(2) have times: "sorted (last_refill b # call_times others' @ [t])" "sorted (t # turn_times ?later)"
      by (auto simp: turn turn_times_def sorted_append)
    have last: "last_refill b' = t" using turn_last [OF run_last [OF times(1)]] by (simp add: s)
    have ok: "bucket_ok b'" using try_acquire_ok [OF limiter_run_ok [OF Cons.prems(1)], of t others'] by (simp add: s)
    have "paced b' ?later" using Cons.prems(3) by (cases before) (auto simp: turn s)
    from Cons.IH [OF ok _ this] times(2) show ?thesis by (simp add: turn s last)
  qed
qed

text \<open>C40. Whatever the coroutines sharing a limiter do, in any interleaving of their turns and of rate
  changes since its creation, it hands out at most \<open>capacity\<close> tokens and twenty per second (up to float
  rounding: a factor \<open>1 + 2^-50\<close> and \<open>capacity / 2^51\<close> per call), and every caller gets through: once
  nobody else touches the bucket during two of its sleeps in a row, its next turn at the latest takes
  a token.  The clock does not run backwards, and a sleep lasts at least as long as asked.\<close>

theorem limiter_admits_within_rate:
  assumes "is_double burst" and "sorted (t0 # call_times calls @ [t])"
    and "sorted (t0 # turn_times (before @ [(others, t1), ([], t2), ([], t3)]))"
    and "paced (new_bucket rate burst t0) (before @ [(others, t1), ([], t2), ([], t3)])"
  shows "of_nat (tokens_taken (new_bucket rate burst t0) calls)
      \<le> max 1 burst + 20 * (1 + 1 / 2 ^ 50) * (t - t0) + of_nat (length calls) * (max 1 burst / 2 ^ 51)
    \<and> bucket_ok (limiter_run (new_bucket rate burst t0) calls)
    \<and> (\<exists>b. acquire (before @ [(others, t1), ([], t2), ([], t3)]) (new_bucket rate burst t0) = Some b \<and> bucket_ok b)"
proof -
  let ?b = "new_bucket rate burst t0"
  have b: "bucket_ok ?b" "last_refill ?b = t0" "tokens ?b = max 1 burst" "capacity ?b = max 1 burst"
    using new_bucket_ok [OF assms(1)] by (simp_all add: new_bucket_def)
  from undisturbed_acquires [OF b(1), unfolded b(2), OF assms(3,4)] acquire_ok [OF b(1)]
  have "\<exists>b'. acquire (before @ [(others, t1), ([], t2), ([], t3)]) ?b = Some b' \<and> bucket_ok b'" by blast
  with taken_budget [OF b(1), unfolded b(2-4), OF assms(2)] limiter_run_ok [OF b(1)] show ?thesis by blast
qed

theorem limiter_admits_within_rate_witness:
  "tokens_taken (new_bucket 1 1 0) [Turn 0, Halve, Turn (1/2), Turn 2] = 2
   \<and> bucket_ok (limiter_run (new_bucket 1 1 0) [Turn 0, Halve, Turn (1/2), Turn 2])
   \<and> (\<exists>b. acquire [([Turn 0], 0), ([Turn 1, Halve], 1), ([], 3), ([], 4)] (new_bucket 1 1 0) = Some b \<and> bucket_ok b)"
proof -
  have "is_double (1 :: rat)" using is_double_int [of 1] by simp
  moreover have "sorted (0 # call_times [Turn 0, Halve, Turn (1/2), Turn 2] @ [2])"
    "sorted (0 # turn_times ([([Turn 0], 0)] @ [([Turn 1, Halve], 1), ([], 3), ([], 4)]))"
    "paced (new_bucket 1 1 0) ([([Turn 0], 0)] @ [([Turn 1, Halve], 1), ([], 3), ([], 4)])" by code_simp+
  ultimately have r: "bucket_ok (limiter_run (new_bucket 1 1 0) [Turn 0, Halve, Turn (1/2), Turn 2])
      \<and> (\<exists>b. acquire ([([Turn 0], 0)] @ [([Turn 1, Halve], 1), ([], 3), ([], 4)]) (new_bucket 1 1 0) = Some b \<and> bucket_ok b)"
    using limiter_admits_within_rate [of 1 0 "[Turn 0, Halve, Turn (1/2), Turn 2]" 2 "[([Turn 0], 0)]" "[Turn 1, Halve]" 1 3 4 1]
    by blast
  moreover have "tokens_taken (new_bucket 1 1 0) [Turn 0, Halve, Turn (1/2), Turn 2] = 2" by code_simp
  ultimately show ?thesis by simp
qed

section \<open>Circuit breaker facts\<close>

text \<open>One call on a breaker.\<close>

datatype breaker_call = Response rat rat "int option" bool | Check rat | Success rat

fun breaker_step :: "breaker \<Rightarrow> breaker_call \<Rightarrow> breaker" where
  "breaker_step c (Response now later code timeout) = record_response now later code timeout c"
| "breaker_step c (Check now) = fst (check_throttle now c None)"
| "breaker_step c (Success now) = record_success now c"

text \<open>A response that counts as an error.\<close>

fun is_error :: "breaker_call \<Rightarrow> bool" where
  "is_error (Response now later code timeout) =
     (timeout \<or> (code \<noteq> None \<and> the code \<noteq> 0 \<and> 500 \<le> the code))"
| "is_error _ = False"

lemmas breaker_defs = record_response_def record_success_def count_error_def check_throttle_def
  throttle_end_def Let_def

lemma tripped_stays: "circuit_state c = TRIPPED \<Longrightarrow> circuit_state (breaker_step c x) = TRIPPED"
  by (cases x) (auto simp: breaker_defs)

text \<open>How many errors a breaker in this condition has seen at least.\<close>

definition errors_seen :: "breaker \<Rightarrow> nat" where
  "errors_seen c = (case circuit_state c of
     NORMAL \<Rightarrow> max (consecutive_5xx c) (consecutive_timeouts c)
   | THROTTLED \<Rightarrow> max 3 (max (max (consecutive_5xx c) (consecutive_timeouts c)) (3 + errors_in_throttled c))
   | TRIPPED \<Rightarrow> 8)"

lemma errors_seen_step: "n \<ge> errors_seen c \<Longrightarrow> errors_seen (breaker_step c x) \<le> n + (if is_error x then 1 else 0)"
  by (cases x; cases "circuit_state c")
    (auto simp: errors_seen_def breaker_defs split: option.splits if_splits)

text \<open>The breaker trips for good and not lightly: a tripped breaker stays tripped under every
  sequence of calls, and a fresh breaker trips only after at least eight error responses (three to
  throttle it, five while it is throttled).\<close>

theorem breaker_trips_late_and_stays:
  "(is_tripped c \<longrightarrow> is_tripped (foldl breaker_step c calls))
   \<and> (is_tripped (foldl breaker_step (new_breaker pause) calls) \<longrightarrow> 8 \<le> length (filter is_error calls))"
proof
  show "is_tripped c \<longrightarrow> is_tripped (foldl breaker_step c calls)"
    by (induction calls arbitrary: c) (auto simp: is_tripped_def tripped_stays)
  have "errors_seen (foldl breaker_step (new_breaker pause) calls) \<le> length (filter is_error calls)"
  proof (induction calls rule: rev_induct)
    case (snoc x calls)
    from errors_seen_step [OF this, of x] show ?case by auto
  qed (simp add: errors_seen_def new_breaker_def)
  then show "is_tripped (foldl breaker_step (new_breaker pause) calls) \<longrightarrow> 8 \<le> length (filter is_error calls)"
    by (auto simp: is_tripped_def errors_seen_def)
qed

theorem breaker_trips_late_and_stays_witness:
  "is_tripped (foldl breaker_step (new_breaker 10) (replicate 8 (Response 1 1 None True))) \<and>
   is_tripped (foldl breaker_step (foldl breaker_step (new_breaker 10) (replicate 8 (Response 1 1 None True)))
     [Success 2, Check 3])"
proof -
  have "is_tripped (foldl breaker_step (new_breaker 10) (replicate 8 (Response 1 1 None True)))" by code_simp
  with breaker_trips_late_and_stays show ?thesis by blast
qed

text \<open>A client that calls \<open>check_throttle\<close> before each request.\<close>

fun polite_client :: "breaker \<Rightarrow> (rat \<times> rat \<times> rat \<times> int option \<times> bool) list \<Rightarrow> breaker" where
  "polite_client c [] = c"
| "polite_client c ((t0, t1, t2, code, timeout) # calls) =
     polite_client (record_response t1 t2 code timeout (fst (check_throttle t0 c None))) calls"

definition untripped :: "breaker \<Rightarrow> bool" where
  "untripped c = (0 < pause_seconds c \<and> (circuit_state c = NORMAL \<or>
     circuit_state c = THROTTLED \<and> throttle_end c \<noteq> None))"

lemma check_untripped: "untripped c \<Longrightarrow> circuit_state (fst (check_throttle t c l)) = NORMAL
    \<and> pause_seconds (fst (check_throttle t c l)) = pause_seconds c"
  by (auto simp: untripped_def check_throttle_def Let_def split: option.splits)

lemma untripped_step:
  assumes "untripped c" and "0 \<le> t1"
  shows "untripped (record_response t1 t2 code timeout (fst (check_throttle t0 c l)))"
proof -
  define c' where "c' = fst (check_throttle t0 c l)"
  with check_untripped [OF assms(1)] assms(1) have c': "circuit_state c' = NORMAL" "0 < pause_seconds c'"
    by (auto simp: untripped_def)
  with assms(2) have "0 < fl (t1 + pause_seconds c')" by (simp add: add_nonneg_pos)
  then have pos: "fl (t1 + pause_seconds c') \<noteq> 0" by linarith
  have "untripped (count_error t1 d)" if "circuit_state d = NORMAL" "pause_seconds d = pause_seconds c'" for d
    using that c'(2) pos by (simp add: untripped_def count_error_def throttle_end_def)
  with c' show ?thesis
    unfolding c'_def [symmetric] by (simp add: record_response_def record_success_def untripped_def Let_def)
qed

text \<open>A client that honours the throttle can never trip the breaker: \<open>check_throttle\<close> returns it to
  normal before each request, so the errors while throttled that the class comment counts are never
  reached, however many requests fail.\<close>

theorem polite_client_never_trips:
  assumes "0 < pause" and "\<forall>(t0, t1, t2, code, timeout) \<in> set calls. 0 \<le> t1"
  shows "\<not> is_tripped (polite_client (new_breaker pause) calls)"
proof -
  have "untripped c \<Longrightarrow> \<forall>(t0, t1, t2, code, timeout) \<in> set calls. 0 \<le> t1 \<Longrightarrow> untripped (polite_client c calls)" for c
    by (induction c calls rule: polite_client.induct) (auto simp: untripped_step)
  moreover have "untripped (new_breaker pause)" using assms(1) by (simp add: untripped_def new_breaker_def)
  ultimately have "untripped (polite_client (new_breaker pause) calls)" using assms(2) by blast
  then show ?thesis by (auto simp: untripped_def is_tripped_def)
qed

theorem polite_client_never_trips_witness:
  "\<not> is_tripped (polite_client (new_breaker 10) (replicate 20 (1, 1, 1, Some 503, False)))"
  by (rule polite_client_never_trips) simp_all

end
