(* ===== verification/Ip_Address.thy ===== *)
theory Ip_Address
  imports Regex Json "HOL-Library.Word"
begin

text \<open>
  The part of Python 3.11's \<open>ipaddress\<close> the code uses: addresses as machine words, \<open>ip_address\<close> of a
  string (dotted quads without leading zeros; hextets with one \<open>::\<close>, a dotted tail and a scope
  identifier), \<open>str\<close> of an address, membership in a network, and the \<open>is_*\<close> properties with the
  library's tables.
\<close>

unbundle bit_operations_syntax

section \<open>Addresses and networks\<close>

datatype ip_addr = IPv4Address "32 word" | IPv6Address "128 word" "string option"

datatype ip_network = Net4 "32 word" nat | Net6 "128 word" nat

fun v4 :: "int list \<Rightarrow> 32 word" where
  "v4 octets = word_of_int (foldl (\<lambda>n o'. 256 * n + o') 0 octets)"

fun v6 :: "int list \<Rightarrow> 128 word" where
  "v6 hextets = word_of_int (foldl (\<lambda>n h. 65536 * n + h) 0 hextets)"

text \<open>\<open>other._ip & self.netmask._ip == self.network_address._ip\<close>, and false across versions.\<close>

fun in_network :: "ip_addr \<Rightarrow> ip_network \<Rightarrow> bool" where
  "in_network (IPv4Address ip) (Net4 net n) = (ip AND push_bit (32 - n) (mask n) = net)"
| "in_network (IPv6Address ip scope) (Net6 net n) = (ip AND push_bit (128 - n) (mask n) = net)"
| "in_network _ _ = False"

definition in_any :: "ip_addr \<Rightarrow> ip_network list \<Rightarrow> bool" where
  "in_any ip nets = list_ex (in_network ip) nets"

section \<open>The tables of the library\<close>

definition PRIVATE_V4 :: "ip_network list" where
  "PRIVATE_V4 = [Net4 (v4 [0,0,0,0]) 8, Net4 (v4 [10,0,0,0]) 8, Net4 (v4 [127,0,0,0]) 8,
     Net4 (v4 [169,254,0,0]) 16, Net4 (v4 [172,16,0,0]) 12, Net4 (v4 [192,0,0,0]) 24,
     Net4 (v4 [192,0,0,170]) 31, Net4 (v4 [192,0,2,0]) 24, Net4 (v4 [192,168,0,0]) 16,
     Net4 (v4 [198,18,0,0]) 15, Net4 (v4 [198,51,100,0]) 24, Net4 (v4 [203,0,113,0]) 24,
     Net4 (v4 [240,0,0,0]) 4, Net4 (v4 [255,255,255,255]) 32]"

definition PRIVATE_V4_EXCEPTIONS :: "ip_network list" where
  "PRIVATE_V4_EXCEPTIONS = [Net4 (v4 [192,0,0,9]) 32, Net4 (v4 [192,0,0,10]) 32]"

definition PRIVATE_V6 :: "ip_network list" where
  "PRIVATE_V6 = [Net6 (v6 [0,0,0,0,0,0,0,1]) 128, Net6 (v6 [0,0,0,0,0,0,0,0]) 128,
     Net6 (v6 [0,0,0,0,0,0xFFFF,0,0]) 96, Net6 (v6 [0x64,0xFF9B,1,0,0,0,0,0]) 48,
     Net6 (v6 [0x100,0,0,0,0,0,0,0]) 64, Net6 (v6 [0x2001,0,0,0,0,0,0,0]) 23,
     Net6 (v6 [0x2001,0xDB8,0,0,0,0,0,0]) 32, Net6 (v6 [0x2002,0,0,0,0,0,0,0]) 16,
     Net6 (v6 [0xFC00,0,0,0,0,0,0,0]) 7, Net6 (v6 [0xFE80,0,0,0,0,0,0,0]) 10]"

definition PRIVATE_V6_EXCEPTIONS :: "ip_network list" where
  "PRIVATE_V6_EXCEPTIONS = [Net6 (v6 [0x2001,1,0,0,0,0,0,1]) 128, Net6 (v6 [0x2001,1,0,0,0,0,0,2]) 128,
     Net6 (v6 [0x2001,3,0,0,0,0,0,0]) 32, Net6 (v6 [0x2001,4,0x112,0,0,0,0,0]) 48,
     Net6 (v6 [0x2001,0x20,0,0,0,0,0,0]) 28, Net6 (v6 [0x2001,0x30,0,0,0,0,0,0]) 28]"

definition RESERVED_V6 :: "ip_network list" where
  "RESERVED_V6 = map (\<lambda>(h, n). Net6 (v6 [h,0,0,0,0,0,0,0]) n)
    [(0, 8), (0x100, 8), (0x200, 7), (0x400, 6), (0x800, 5), (0x1000, 4), (0x4000, 3), (0x6000, 3),
     (0x8000, 3), (0xA000, 3), (0xC000, 3), (0xE000, 4), (0xF000, 5), (0xF800, 6), (0xFE00, 9)]"

section \<open>Properties of addresses\<close>

fun is_loopback :: "ip_addr \<Rightarrow> bool" where
  "is_loopback (IPv4Address ip) = in_network (IPv4Address ip) (Net4 (v4 [127,0,0,0]) 8)"
| "is_loopback (IPv6Address ip s) = (ip = 1)"

fun is_unspecified :: "ip_addr \<Rightarrow> bool" where
  "is_unspecified (IPv4Address ip) = (ip = 0)"
| "is_unspecified (IPv6Address ip s) = (ip = 0)"

fun is_link_local :: "ip_addr \<Rightarrow> bool" where
  "is_link_local (IPv4Address ip) = in_network (IPv4Address ip) (Net4 (v4 [169,254,0,0]) 16)"
| "is_link_local (IPv6Address ip s) = in_network (IPv6Address ip s) (Net6 (v6 [0xFE80,0,0,0,0,0,0,0]) 10)"

fun is_multicast :: "ip_addr \<Rightarrow> bool" where
  "is_multicast (IPv4Address ip) = in_network (IPv4Address ip) (Net4 (v4 [224,0,0,0]) 4)"
| "is_multicast (IPv6Address ip s) = in_network (IPv6Address ip s) (Net6 (v6 [0xFF00,0,0,0,0,0,0,0]) 8)"

fun is_reserved :: "ip_addr \<Rightarrow> bool" where
  "is_reserved (IPv4Address ip) = in_network (IPv4Address ip) (Net4 (v4 [240,0,0,0]) 4)"
| "is_reserved (IPv6Address ip s) = in_any (IPv6Address ip s) RESERVED_V6"

definition ipv4_mapped :: "128 word \<Rightarrow> 32 word option" where
  "ipv4_mapped ip = (if drop_bit 32 ip = 0xFFFF then Some (ucast ip) else None)"

fun is_private :: "ip_addr \<Rightarrow> bool" where
  "is_private (IPv4Address ip) = (in_any (IPv4Address ip) PRIVATE_V4
     \<and> \<not> in_any (IPv4Address ip) PRIVATE_V4_EXCEPTIONS)"
| "is_private (IPv6Address ip s) =
     (case ipv4_mapped ip of
        Some m \<Rightarrow> in_any (IPv4Address m) PRIVATE_V4 \<and> \<not> in_any (IPv4Address m) PRIVATE_V4_EXCEPTIONS
      | None \<Rightarrow> in_any (IPv6Address ip s) PRIVATE_V6 \<and> \<not> in_any (IPv6Address ip s) PRIVATE_V6_EXCEPTIONS)"

fun is_global :: "ip_addr \<Rightarrow> bool" where
  "is_global (IPv4Address ip) = (\<not> in_network (IPv4Address ip) (Net4 (v4 [100,64,0,0]) 10)
     \<and> \<not> is_private (IPv4Address ip))"
| "is_global (IPv6Address ip s) = (\<not> is_private (IPv6Address ip s))"

section \<open>Parsing\<close>

definition read_digits :: "int \<Rightarrow> (char \<Rightarrow> nat) \<Rightarrow> string \<Rightarrow> int" where
  "read_digits base val s = foldl (\<lambda>n c. base * n + int (val c)) 0 s"

definition dec_value :: "char \<Rightarrow> nat" where
  "dec_value c = code_of c - 48"

definition hex_char :: "char \<Rightarrow> bool" where
  "hex_char c = (ascii_digit c \<or> in_range (CHR ''a'') (CHR ''f'') c \<or> in_range (CHR ''A'') (CHR ''F'') c)"

definition hex_value :: "char \<Rightarrow> nat" where
  "hex_value c = (if ascii_digit c then code_of c - 48
     else if in_range (CHR ''a'') (CHR ''f'') c then code_of c - 87 else code_of c - 55)"

definition parse_octet :: "string \<Rightarrow> int option" where
  "parse_octet s =
    (if s = [] \<or> \<not> list_all ascii_digit s \<or> 3 < length s \<or> (s \<noteq> ''0'' \<and> hd s = CHR ''0'') then None
     else (let n = read_digits 10 dec_value s in if 255 < n then None else Some n))"

fun collect :: "'a option list \<Rightarrow> 'a list option" where
  "collect [] = Some []"
| "collect (x # xs) = (case x of None \<Rightarrow> None | Some a \<Rightarrow> map_option ((#) a) (collect xs))"

definition parse_ipv4 :: "string \<Rightarrow> 32 word option" where
  "parse_ipv4 s =
    (let octets = py_split (CHR ''.'') s
     in if s = [] \<or> CHR ''/'' \<in> set s \<or> length octets \<noteq> 4 then None
        else map_option (\<lambda>os. v4 os) (collect (map parse_octet octets)))"

definition parse_hextet :: "string \<Rightarrow> int option" where
  "parse_hextet s = (if s = [] \<or> \<not> list_all hex_char s \<or> 4 < length s then None
     else Some (read_digits 16 hex_value s))"

definition hex_text :: "int \<Rightarrow> string" where
  "hex_text n = (let ds = [n div 4096 mod 16, n div 256 mod 16, n div 16 mod 16, n mod 16]
     in map (\<lambda>d. hex_digit (nat d)) (case dropWhile (\<lambda>d. d = 0) ds of [] \<Rightarrow> [0] | r \<Rightarrow> r))"

text \<open>The inner empty parts, in order: where \<open>::\<close> may stand.\<close>

definition skip_positions :: "string list \<Rightarrow> nat list" where
  "skip_positions parts = filter (\<lambda>i. parts ! i = []) [1..<length parts - 1]"

definition assemble :: "string list \<Rightarrow> nat \<Rightarrow> nat \<Rightarrow> nat \<Rightarrow> 128 word option" where
  "assemble parts hi lo skipped =
     (case (collect (map parse_hextet (take hi parts)), collect (map parse_hextet (drop (length parts - lo) parts))) of
        (Some hs, Some ls) \<Rightarrow> Some (v6 (hs @ replicate skipped 0 @ ls))
      | _ \<Rightarrow> None)"

definition parse_hextets :: "string list \<Rightarrow> 128 word option" where
  "parse_hextets parts =
    (if 9 < length parts then None
     else case skip_positions parts of
       [] \<Rightarrow> (if length parts \<noteq> 8 \<or> hd parts = [] \<or> last parts = [] then None
              else assemble parts 8 0 0)
     | [i] \<Rightarrow>
         (let hi = (if hd parts = [] then i - 1 else i);
              lo = length parts - i - 1 - (if last parts = [] then 1 else 0)
          in if (hd parts = [] \<and> hi \<noteq> 0) \<or> (last parts = [] \<and> lo \<noteq> 0) \<or> 8 - int (hi + lo) < 1 then None
             else assemble parts hi lo (8 - (hi + lo)))
     | _ \<Rightarrow> None)"

definition parse_ipv6_digits :: "string \<Rightarrow> 128 word option" where
  "parse_ipv6_digits s =
    (let parts = py_split (CHR '':'') s
     in if s = [] \<or> length parts < 3 then None
        else if CHR ''.'' \<in> set (last parts) then
          (case parse_ipv4 (last parts) of
             None \<Rightarrow> None
           | Some ip \<Rightarrow> parse_hextets (butlast parts @
               [hex_text (uint ip div 65536), hex_text (uint ip mod 65536)]))
        else parse_hextets parts)"

definition parse_ipv6 :: "string \<Rightarrow> ip_addr option" where
  "parse_ipv6 s =
    (if CHR ''/'' \<in> set s then None
     else case py_partition (CHR ''%'') s of
       (addr, False, _) \<Rightarrow> map_option (\<lambda>ip. IPv6Address ip None) (parse_ipv6_digits addr)
     | (addr, True, scope) \<Rightarrow>
         (if scope = [] \<or> CHR ''%'' \<in> set scope then None
          else map_option (\<lambda>ip. IPv6Address ip (Some scope)) (parse_ipv6_digits addr)))"

text \<open>\<open>ipaddress.ip_address(s)\<close>, \<open>None\<close> for its \<open>ValueError\<close>.\<close>

definition ip_address :: "string \<Rightarrow> ip_addr option" where
  "ip_address s = (case parse_ipv4 s of Some ip \<Rightarrow> Some (IPv4Address ip) | None \<Rightarrow> parse_ipv6 s)"

section \<open>Printing\<close>

definition octets_of :: "32 word \<Rightarrow> int list" where
  "octets_of ip = map (\<lambda>k. uint ip div 256 ^ k mod 256) [3, 2, 1, 0]"

definition hextets_of :: "128 word \<Rightarrow> int list" where
  "hextets_of ip = map (\<lambda>k. uint ip div 65536 ^ k mod 65536) [7, 6, 5, 4, 3, 2, 1, 0]"

text \<open>The loop of \<open>_compress_hextets\<close>: position, start and length of the current run of zeros, start
  and length of the longest one so far.\<close>

fun longest_zeros :: "string list \<Rightarrow> nat \<Rightarrow> nat \<Rightarrow> nat \<Rightarrow> nat \<Rightarrow> nat \<Rightarrow> nat \<times> nat" where
  "longest_zeros [] i start len best best_len = (best, best_len)"
| "longest_zeros (h # hs) i start len best best_len =
     (if h = ''0'' then
        (let start' = (if len = 0 then i else start); len' = len + 1
         in if best_len < len' then longest_zeros hs (i + 1) start' len' start' len'
            else longest_zeros hs (i + 1) start' len' best best_len)
      else longest_zeros hs (i + 1) 0 0 best best_len)"

definition compress_at :: "string list \<Rightarrow> nat \<Rightarrow> nat \<Rightarrow> string list" where
  "compress_at hs start len =
     (if start = 0 then [[]] else []) @ take start hs @ [[]] @ drop (start + len) hs
     @ (if start + len = length hs then [[]] else [])"

definition compress_hextets :: "string list \<Rightarrow> string list" where
  "compress_hextets hs = (case longest_zeros hs 0 0 0 0 0 of (start, len) \<Rightarrow>
     if 1 < len then compress_at hs start len else hs)"

definition ipv6_digits :: "128 word \<Rightarrow> string" where
  "ipv6_digits ip = join_with '':'' (compress_hextets (map (\<lambda>h. hex_text h) (hextets_of ip)))"

fun ip_text :: "ip_addr \<Rightarrow> string" where
  "ip_text (IPv4Address ip) = join_with ''.'' (map (\<lambda>o'. str_nat (nat o')) (octets_of ip))"
| "ip_text (IPv6Address ip scope) =
     ipv6_digits ip @ (case scope of None \<Rightarrow> [] | Some z \<Rightarrow> CHR ''%'' # z)"

end
