(* ===== verification/Url.thy ===== *)
theory Url
  imports Ip_Address
begin

text \<open>
  The part of Python 3.11's \<open>urllib.parse\<close> the code uses: \<open>urlsplit\<close> (and \<open>urlparse\<close>, whose
  \<open>params\<close> the code never reads) with the \<open>hostname\<close> and \<open>port\<close> attributes, and \<open>urlunsplit\<close>.
  The NFKC check of \<open>urlsplit\<close> finds nothing in code points below 256 and is left out.
  \<open>None\<close> stands for a raised \<open>ValueError\<close>.
\<close>

record split_url =
  su_scheme :: string
  su_netloc :: string
  su_path :: string
  su_query :: string
  su_fragment :: string

definition scheme_char :: "char \<Rightarrow> bool" where
  "scheme_char c = (ascii_alnum c \<or> c \<in> set ''+-.'')"

text \<open>The C0 controls and the space, stripped on the left; tab, CR and LF, removed everywhere.\<close>

definition clean_url :: "string \<Rightarrow> string" where
  "clean_url url = filter (\<lambda>c. code_of c \<notin> {9, 10, 13}) (dropWhile (\<lambda>c. code_of c \<le> 32) url)"

definition split_scheme :: "string \<Rightarrow> string \<times> string" where
  "split_scheme url =
    (case py_partition (CHR '':'') url of (pre, found, rest') \<Rightarrow>
       if found \<and> pre \<noteq> [] \<and> (ascii_upper (hd url) \<or> ascii_lower (hd url)) \<and> list_all scheme_char pre
       then (py_lower pre, rest') else ([], url))"

definition delimiter :: "char \<Rightarrow> bool" where
  "delimiter c = (c \<in> set ''/?#'')"

definition ip_future_pattern :: regex where
  "ip_future_pattern = RCat [RLit ''v'', RSome hex_char, RLit ''.'', RSome (\<lambda>c. code_of c \<noteq> 10)]"

text \<open>\<open>_check_bracketed_host\<close>: an IPvFuture text or an IPv6 address.\<close>

definition bracketed_host_ok :: "string \<Rightarrow> bool" where
  "bracketed_host_ok host =
    (if startswith ''v'' host then re_fullmatch ip_future_pattern host
     else (case ip_address host of Some (IPv6Address ip s) \<Rightarrow> True | _ \<Rightarrow> False))"

definition bracketed :: "string \<Rightarrow> string" where
  "bracketed netloc = fst (py_partition (CHR '']'') (snd (snd (py_partition (CHR ''['') netloc))))"

definition netloc_ok :: "string \<Rightarrow> bool" where
  "netloc_ok netloc =
    ((CHR ''['' \<in> set netloc \<longleftrightarrow> CHR '']'' \<in> set netloc) \<and>
     (CHR ''['' \<in> set netloc \<longrightarrow> bracketed_host_ok (bracketed netloc)))"

definition urlsplit :: "string \<Rightarrow> split_url option" where
  "urlsplit raw =
    (let su = split_scheme (clean_url raw);
         scheme = fst su; url = snd su;
         has_netloc = startswith ''//'' url;
         netloc = (if has_netloc then takeWhile (\<lambda>c. \<not> delimiter c) (drop 2 url) else []);
         rest = (if has_netloc then dropWhile (\<lambda>c. \<not> delimiter c) (drop 2 url) else url);
         frag = py_partition (CHR ''#'') rest;
         query = py_partition (CHR ''?'') (fst frag)
     in if has_netloc \<and> \<not> netloc_ok netloc then None
        else Some \<lparr> su_scheme = scheme, su_netloc = netloc, su_path = fst query,
                    su_query = snd (snd query), su_fragment = snd (snd frag) \<rparr>)"

text \<open>\<open>_hostinfo\<close>: the host text and the port text (\<open>None\<close> for none).\<close>

definition hostinfo :: "split_url \<Rightarrow> string \<times> string option" where
  "hostinfo u =
    (let info = snd (snd (py_rpartition (CHR ''@'') (su_netloc u)));
         open_br = py_partition (CHR ''['') info;
         host_port =
           (if fst (snd open_br)
            then (case py_partition (CHR '']'') (snd (snd open_br)) of (host, _, rest') \<Rightarrow>
                    (host, snd (snd (py_partition (CHR '':'') rest'))))
            else (case py_partition (CHR '':'') info of (host, _, port) \<Rightarrow> (host, port)))
     in (fst host_port, if snd host_port = [] then None else Some (snd host_port)))"

definition url_hostname :: "split_url \<Rightarrow> string option" where
  "url_hostname u =
    (let host = fst (hostinfo u)
     in if host = [] then None
        else (case py_partition (CHR ''%'') host of (name, found, zone) \<Rightarrow>
                Some (py_lower name @ (if found then CHR ''%'' # zone else []))))"

text \<open>The outer \<open>option\<close> is the \<open>ValueError\<close> of a port that is not a number up to 65535.\<close>

definition url_port :: "split_url \<Rightarrow> nat option option" where
  "url_port u =
    (case snd (hostinfo u) of
       None \<Rightarrow> Some None
     | Some text \<Rightarrow>
         (let n = foldl (\<lambda>n c. 10 * n + int (dec_value c)) 0 text
          in if list_all ascii_digit text \<and> n \<le> 65535 then Some (Some (nat n)) else None))"

definition USES_NETLOC :: "string list" where
  "USES_NETLOC = ['''', ''ftp'', ''http'', ''gopher'', ''nntp'', ''telnet'', ''imap'', ''wais'', ''file'',
     ''mms'', ''https'', ''shttp'', ''snews'', ''prospero'', ''rtsp'', ''rtsps'', ''rtspu'', ''rsync'', ''svn'',
     ''svn+ssh'', ''sftp'', ''nfs'', ''git'', ''git+ssh'', ''ws'', ''wss'']"

definition urlunsplit :: "split_url \<Rightarrow> string" where
  "urlunsplit u =
    (let path = su_path u;
         url = (if su_netloc u \<noteq> [] \<or> (su_scheme u \<noteq> [] \<and> su_scheme u \<in> set USES_NETLOC) \<or> startswith ''//'' path
                then ''//'' @ su_netloc u @ (if path \<noteq> [] \<and> \<not> startswith ''/'' path then ''/'' @ path else path)
                else path)
     in (if su_scheme u = [] then [] else su_scheme u @ '':'') @ url
        @ (if su_query u = [] then [] else ''?'' @ su_query u)
        @ (if su_fragment u = [] then [] else ''#'' @ su_fragment u))"

end
