(* ===== verification/Path_Sandbox.thy ===== *)
theory Path_Sandbox
  imports Json
begin

text \<open>
  \<open>backend/app/core/path_sandbox.py\<close> on a POSIX host.  An absolute path is its list of components
  (\<open>/\<close> is the empty list).  The file system is the parameter \<open>filesystem\<close>: how a path text is
  expanded and resolved (\<open>expanduser\<close>, \<open>resolve\<close>, \<open>absolute\<close>), which paths exist, which are
  symbolic links, the home directory, and where the module's own file lies.  Reason texts and the
  directory \<open>get_default_workspace_dir\<close> creates are not modelled.
\<close>

type_synonym path = "string list"

record filesystem =
  fs_resolve :: "string \<Rightarrow> path option"         \<comment> \<open>\<open>Path(s).expanduser().resolve()\<close>, \<open>None\<close> if it raises\<close>
  fs_strict_resolve :: "string \<Rightarrow> path option"  \<comment> \<open>the same with \<open>strict=True\<close>\<close>
  fs_absolute :: "string \<Rightarrow> path"               \<comment> \<open>\<open>Path(s).expanduser().absolute()\<close>\<close>
  fs_canonical :: "path \<Rightarrow> path"               \<comment> \<open>\<open>resolve()\<close> of an absolute path\<close>
  fs_exists :: "path \<Rightarrow> bool"
  fs_is_symlink :: "path \<Rightarrow> bool"
  fs_home :: path
  fs_module_file :: path                      \<comment> \<open>\<open>Path(__file__).resolve()\<close> of \<open>path_sandbox.py\<close>\<close>

definition path_text :: "path \<Rightarrow> string" where
  "path_text p = ''/'' @ join_with ''/'' p"

section \<open>The denylists\<close>

definition FORBIDDEN_POSIX_DIRECTORIES :: "string list" where
  "FORBIDDEN_POSIX_DIRECTORIES =
    [''/etc'', ''/root'', ''/var/run'', ''/proc'', ''/sys'', ''/dev'', ''/boot'', ''/bin'', ''/sbin'',
     ''/usr/bin'', ''/usr/sbin'', ''/private/etc'', ''/private/var'']"

definition backslash :: string where "backslash = [CHR 0x5C]"

definition FORBIDDEN_WINDOWS_DIRECTORIES :: "string list" where
  "FORBIDDEN_WINDOWS_DIRECTORIES = map (\<lambda>d. ''c:'' @ backslash @ d)
    [''windows'', ''winnt'', ''program files'', ''program files (x86)'', ''programdata'', ''recovery'',
     ''system volume information'']"

definition FORBIDDEN_FILE_PATTERNS :: "string list" where
  "FORBIDDEN_FILE_PATTERNS =
    [''id_rsa'', ''id_ed25519'', ''id_dsa'', ''credentials'', ''.aws/credentials'',
     ''.ssh/authorized_keys'', ''.kube/config'', ''shadow'', ''passwd'', ''sam'', ''system'', ''security'']"

section \<open>Path safety\<close>

definition names_sensitive_file :: "string \<Rightarrow> bool" where
  "names_sensitive_file raw =
    (let lower = map (\<lambda>c. if c = CHR 0x5C then CHR ''/'' else c) (py_lower raw)
     in list_ex (\<lambda>p. lower = p \<or> endswith (''/'' @ p) lower \<or> endswith (backslash @ p) lower)
          FORBIDDEN_FILE_PATTERNS)"

text \<open>\<open>resolved_str == d or resolved_str.startswith(d + sep)\<close>.\<close>

definition under :: "string \<Rightarrow> string \<Rightarrow> string \<Rightarrow> bool" where
  "under sep d s = (s = d \<or> startswith (d @ sep) s)"

definition in_protected_directory :: "filesystem \<Rightarrow> path \<Rightarrow> bool" where
  "in_protected_directory fs p =
    (let s = py_lower (path_text p)
     in list_ex (\<lambda>d. under ''/'' d s) FORBIDDEN_POSIX_DIRECTORIES
        \<or> list_ex (\<lambda>d. under backslash d s \<or> under ''/'' d s) FORBIDDEN_WINDOWS_DIRECTORIES
        \<or> list_ex (\<lambda>sub. under ''/'' (py_lower (path_text (fs_home fs @ [sub]))) s)
            [''.ssh'', ''.aws'', ''.kube'', ''.gnupg''])"

text \<open>\<open>resolved == root or root in resolved.parents\<close>.\<close>

definition contained :: "path \<Rightarrow> path \<Rightarrow> bool" where
  "contained root p = (take (length root) p = root)"

definition is_path_safe :: "filesystem \<Rightarrow> string \<Rightarrow> path list option \<Rightarrow> bool" where
  "is_path_safe fs path_str allowed_roots =
    (if path_str = [] then False
     else
     let raw = py_strip path_str
     in if names_sensitive_file raw then False
        else case fs_resolve fs raw of
          None \<Rightarrow> False
        | Some resolved \<Rightarrow>
            if \<not> fs_exists fs resolved then False
            else if in_protected_directory fs resolved then False
            else case allowed_roots of
              None \<Rightarrow> True
            | Some roots \<Rightarrow>
                let resolved_allowed = map (fs_canonical fs) (filter (fs_exists fs) roots)
                in resolved_allowed \<noteq> [] \<and> list_ex (\<lambda>root. contained root resolved) resolved_allowed)"

definition validate_path_sandbox :: "filesystem \<Rightarrow> string \<Rightarrow> path list option \<Rightarrow> bool" where
  "validate_path_sandbox = is_path_safe"

text \<open>\<open>None\<close> for the raised \<open>PathSandboxViolation\<close>.\<close>

definition assert_safe_path :: "filesystem \<Rightarrow> string \<Rightarrow> path list option \<Rightarrow> path option" where
  "assert_safe_path fs path_str allowed_roots =
     (if is_path_safe fs path_str allowed_roots then fs_resolve fs path_str else None)"

section \<open>Authorized workspaces\<close>

text \<open>The climb from the candidate to the root (or to \<open>/\<close>): true when it meets no link.\<close>

function climb :: "filesystem \<Rightarrow> path \<Rightarrow> path \<Rightarrow> bool" where
  "climb fs root current =
     (if current \<noteq> root \<and> fs_is_symlink fs current then False
      else if current = root \<or> current = [] then True
      else climb fs root (butlast current))"
  by pat_completeness auto
termination by (relation "measure (\<lambda>(fs, root, current). length current)") auto

declare climb.simps [simp del]

text \<open>The first root that contains the resolved path decides.\<close>

fun first_root :: "filesystem \<Rightarrow> path \<Rightarrow> path \<Rightarrow> path list \<Rightarrow> path option" where
  "first_root fs candidate resolved [] = None"
| "first_root fs candidate resolved (root # roots) =
     (if contained root resolved
      then (if climb fs root candidate then Some resolved else None)
      else first_root fs candidate resolved roots)"

text \<open>\<open>Path(__file__).resolve().parent.parent.parent.parent / "data" / "workspaces"\<close>, as text.\<close>

definition get_default_workspace_dir :: "filesystem \<Rightarrow> string" where
  "get_default_workspace_dir fs =
     path_text ((butlast ^^ 4) (fs_module_file fs) @ [''data'', ''workspaces''])"

text \<open>\<open>allowed_roots or [get_default_workspace_dir()]\<close>: without roots the managed directory is the only one.\<close>

definition authorized_roots :: "filesystem \<Rightarrow> string list option \<Rightarrow> string list" where
  "authorized_roots fs allowed_roots =
     (case allowed_roots of
        Some (r # rs) \<Rightarrow> r # rs
      | _ \<Rightarrow> [get_default_workspace_dir fs])"

definition resolve_authorized_workspace :: "filesystem \<Rightarrow> string \<Rightarrow> string list option \<Rightarrow> path option" where
  "resolve_authorized_workspace fs path_str allowed_roots =
    (let roots = authorized_roots fs allowed_roots
     in if path_str = [] then None
     else
     let candidate = fs_absolute fs path_str
     in if \<not> fs_exists fs candidate then None
        else case fs_strict_resolve fs path_str of
          None \<Rightarrow> None
        | Some resolved \<Rightarrow>
            first_root fs candidate resolved
              (concat (map (\<lambda>r. case fs_strict_resolve fs r of None \<Rightarrow> [] | Some p \<Rightarrow> [p]) roots)))"

section \<open>Evidence paths\<close>

definition path_parts :: "string \<Rightarrow> string list" where
  "path_parts s = filter (\<lambda>c. c \<noteq> [] \<and> c \<noteq> ''.'') (py_split (CHR ''/'') s)"

definition posix_text :: "string list \<Rightarrow> string" where
  "posix_text parts = (if parts = [] then ''.'' else join_with ''/'' parts)"

definition safe_workspace_relative_path :: "filesystem \<Rightarrow> string \<Rightarrow> path \<Rightarrow> string option" where
  "safe_workspace_relative_path fs raw_path workspace =
    (if \<not> startswith ''/'' raw_path then
       (if ''..'' \<in> set (path_parts raw_path) then None else Some (posix_text (path_parts raw_path)))
     else case fs_resolve fs raw_path of
       None \<Rightarrow> None
     | Some resolved \<Rightarrow>
         (if contained workspace resolved then Some (posix_text (drop (length workspace) resolved)) else None))"

section \<open>Facts and properties\<close>

lemma climb_no_links:
  "climb fs root p \<Longrightarrow> length root < k \<Longrightarrow> k \<le> length p \<Longrightarrow> \<not> fs_is_symlink fs (take k p)"
proof (induction fs root p rule: climb.induct)
  case (1 fs root current)
  have "current \<noteq> root" using 1(3,4) by auto
  with 1(2) have link: "\<not> fs_is_symlink fs current"
    and up: "current = [] \<or> climb fs root (butlast current)"
    by (simp_all add: climb.simps [of fs root current] split: if_splits)
  show ?case
  proof (cases "k = length current")
    case True
    with link show ?thesis by simp
  next
    case False
    with 1(4) have k: "k \<le> length (butlast current)" "current \<noteq> []" by auto
    have "\<not> fs_is_symlink fs (take k (butlast current))"
      by (rule 1(1)) (use k link up 1(3) \<open>current \<noteq> root\<close> in auto)
    moreover have "take k (butlast current) = take k current" using k(1) by (simp add: butlast_conv_take)
    ultimately show ?thesis by simp
  qed
qed

lemma first_root_some:
  "first_root fs candidate resolved roots = Some p \<Longrightarrow>
     p = resolved \<and> (\<exists>root \<in> set roots. contained root resolved \<and> climb fs root candidate)"
  by (induction roots) (auto split: if_splits)

text \<open>C38. A workspace is authorized only inside a root and without links: the path returned is the
  strict resolution of the candidate, lies in one of the resolved roots (the given ones, or the managed
  default directory when none is given), and no directory on the candidate's own path deeper than that
  root is a symbolic link.\<close>

theorem authorized_workspace_confined:
  assumes "resolve_authorized_workspace fs path_str allowed_roots = Some p"
  shows "fs_strict_resolve fs path_str = Some p \<and>
    (\<exists>r \<in> set (authorized_roots fs allowed_roots). \<exists>root. fs_strict_resolve fs r = Some root \<and> contained root p \<and>
       (\<forall>k. length root < k \<and> k \<le> length (fs_absolute fs path_str)
          \<longrightarrow> \<not> fs_is_symlink fs (take k (fs_absolute fs path_str))))"
proof -
  let ?c = "fs_absolute fs path_str"
  let ?roots = "concat (map (\<lambda>r. case fs_strict_resolve fs r of None \<Rightarrow> [] | Some p \<Rightarrow> [p])
      (authorized_roots fs allowed_roots))"
  from assms obtain resolved where res: "fs_strict_resolve fs path_str = Some resolved"
    and first: "first_root fs ?c resolved ?roots = Some p"
    by (auto simp: resolve_authorized_workspace_def Let_def split: if_splits option.splits)
  from first_root_some [OF first] obtain root where p: "p = resolved" and root: "root \<in> set ?roots"
    "contained root resolved" "climb fs root ?c" by blast
  from root(1) obtain r where "r \<in> set (authorized_roots fs allowed_roots)" "fs_strict_resolve fs r = Some root"
    by (auto split: option.splits)
  with res p root(2) climb_no_links [OF root(3)] show ?thesis by blast
qed

definition sample_fs :: filesystem where
  "sample_fs = \<lparr> fs_resolve = (\<lambda>s. Some (path_parts s)), fs_strict_resolve = (\<lambda>s. Some (path_parts s)),
     fs_absolute = path_parts, fs_canonical = (\<lambda>p. p), fs_exists = (\<lambda>_. True), fs_is_symlink = (\<lambda>p. p = [''data'']),
     fs_home = [''home'', ''scanner''],
     fs_module_file = [''app'', ''backend'', ''app'', ''core'', ''path_sandbox.py''] \<rparr>"

theorem authorized_workspace_confined_witness:
  "resolve_authorized_workspace sample_fs ''/data/ws/x'' (Some [''/srv'', ''/data/ws'']) = Some [''data'', ''ws'', ''x'']
   \<and> resolve_authorized_workspace sample_fs ''/app/data/workspaces/x'' None = Some [''app'', ''data'', ''workspaces'', ''x'']
   \<and> fs_strict_resolve sample_fs ''/data/ws/x'' = Some [''data'', ''ws'', ''x'']"
proof -
  have "resolve_authorized_workspace sample_fs ''/data/ws/x'' (Some [''/srv'', ''/data/ws'']) = Some [''data'', ''ws'', ''x'']"
    "resolve_authorized_workspace sample_fs ''/app/data/workspaces/x'' None = Some [''app'', ''data'', ''workspaces'', ''x'']"
    by code_simp+
  with authorized_workspace_confined [OF this(1)] show ?thesis by blast
qed

text \<open>A path the sandbox accepts exists, lies under none of the protected system, credential or
  home directories (compared without case), and lies in one of the configured roots when there are
  any.\<close>

theorem safe_path_unprotected:
  assumes "is_path_safe fs path_str roots"
  shows "\<exists>p. fs_resolve fs (py_strip path_str) = Some p \<and> fs_exists fs p
    \<and> (\<forall>d \<in> set FORBIDDEN_POSIX_DIRECTORIES. \<not> startswith (d @ ''/'') (py_lower (path_text p))
         \<and> py_lower (path_text p) \<noteq> d)
    \<and> (\<forall>rs. roots = Some rs \<longrightarrow> (\<exists>r \<in> set rs. fs_exists fs r
         \<and> contained (fs_canonical fs r) p))"
  using assms
  by (auto simp: is_path_safe_def Let_def in_protected_directory_def list_ex_iff under_def
      split: if_splits option.splits)

theorem safe_path_unprotected_witness:
  "is_path_safe sample_fs '' /srv/app'' (Some [[''srv'']]) \<and> \<not> startswith ''/etc/'' (py_lower ''/srv/app'')"
proof -
  have safe: "is_path_safe sample_fs '' /srv/app'' (Some [[''srv'']])" by code_simp
  from safe_path_unprotected [OF safe] obtain p where "fs_resolve sample_fs (py_strip '' /srv/app'') = Some p"
    "\<not> startswith (''/etc'' @ ''/'') (py_lower (path_text p))"
    by (auto simp: FORBIDDEN_POSIX_DIRECTORIES_def)
  moreover have "fs_resolve sample_fs (py_strip '' /srv/app'') = Some [''srv'', ''app'']" by code_simp
  moreover have "path_text [''srv'', ''app''] = ''/srv/app''" by (simp add: path_text_def)
  ultimately show ?thesis using safe by auto
qed

end
