(* ===== verification/Ssrf.thy ===== *)
theory Ssrf
  imports Url Path_Sandbox Timestamps
begin

text \<open>
  \<open>backend/app/core/ssrf_protector.py\<close>: classification of addresses, the target validation
  pipeline, construction and re-validation of sealed \<open>ValidatedTarget\<close>s, and the origin checks of
  the pinned transport.  Name resolution, HMAC-SHA256, SHA-256, the environment secrets, the file
  system and \<open>os.path.abspath\<close> are the parameters of the record \<open>gateway\<close>; the \<open>n\<close>-th lookup of a
  call gets the answer \<open>gw_dns n\<close>, which may change between lookups.  Reason texts are not modelled:
  a verdict is a truth value.
\<close>

section \<open>Errors and parameters\<close>

text \<open>\<open>PyValueError\<close> is a \<open>ValueError\<close> that is not an \<open>SSRFProtectionError\<close> (malformed URLs and
  ports, host names \<open>getaddrinfo\<close> cannot encode); \<open>PyTypeError\<close> a \<open>TypeError\<close>.\<close>

datatype gateway_error = SSRFProtectionError | PyValueError | PyTypeError

definition and_then :: "'e + 'a \<Rightarrow> ('a \<Rightarrow> 'e + 'b) \<Rightarrow> 'e + 'b" where
  "and_then r f = (case r of Inl e \<Rightarrow> Inl e | Inr x \<Rightarrow> f x)"

lemma and_then_simps [simp]: "and_then (Inl e) f = Inl e" "and_then (Inr x) f = f x"
  by (simp_all add: and_then_def)

lemma and_then_Inr: "and_then r f = Inr y \<longleftrightarrow> (\<exists>x. r = Inr x \<and> f x = Inr y)"
  by (cases r) simp_all

definition raise_none :: "'e \<Rightarrow> 'a option \<Rightarrow> 'e + 'a" where
  "raise_none e x = (case x of None \<Rightarrow> Inl e | Some a \<Rightarrow> Inr a)"

lemma raise_none_Inr [simp]: "raise_none e x = Inr a \<longleftrightarrow> x = Some a"
  by (cases x) (simp_all add: raise_none_def)

datatype dns_answer = Addresses "string list" | GaiError | UnencodableName

record gateway =
  gw_dns :: "nat \<Rightarrow> string \<Rightarrow> dns_answer"
  gw_hmac :: "string \<Rightarrow> string \<Rightarrow> string"  \<comment> \<open>key and message to the digest's bytes\<close>
  gw_sha256 :: "string \<Rightarrow> string"         \<comment> \<open>hexadecimal digest\<close>
  gw_target_secret :: "string option"
  gw_jwt_secret :: "string option"
  gw_ephemeral_key :: string
  gw_fs :: filesystem
  gw_abspath :: "string \<Rightarrow> string"

section \<open>Network classes\<close>

datatype NetworkClassification = PUBLIC | PRIVATE | LOOPBACK | LINK_LOCAL | METADATA | RESERVED
  | MULTICAST | UNSPECIFIED

definition METADATA_NETWORKS :: "ip_network list" where
  "METADATA_NETWORKS = [Net4 (v4 [169,254,169,254]) 32, Net4 (v4 [168,63,129,16]) 32,
     Net4 (v4 [100,100,100,200]) 32]"

definition LOOPBACK_NETWORKS :: "ip_network list" where
  "LOOPBACK_NETWORKS = [Net4 (v4 [127,0,0,0]) 8, Net6 (v6 [0,0,0,0,0,0,0,1]) 128]"

definition UNSPECIFIED_NETWORKS :: "ip_network list" where
  "UNSPECIFIED_NETWORKS = [Net4 (v4 [0,0,0,0]) 8, Net6 (v6 [0,0,0,0,0,0,0,0]) 128]"

definition LINK_LOCAL_NETWORKS :: "ip_network list" where
  "LINK_LOCAL_NETWORKS = [Net4 (v4 [169,254,0,0]) 16, Net6 (v6 [0xFE80,0,0,0,0,0,0,0]) 10]"

definition MULTICAST_NETWORKS :: "ip_network list" where
  "MULTICAST_NETWORKS = [Net4 (v4 [224,0,0,0]) 4, Net6 (v6 [0xFF00,0,0,0,0,0,0,0]) 8]"

definition RESERVED_NETWORKS :: "ip_network list" where
  "RESERVED_NETWORKS = [Net4 (v4 [240,0,0,0]) 4, Net4 (v4 [100,64,0,0]) 10, Net4 (v4 [192,0,0,0]) 24,
     Net4 (v4 [192,0,2,0]) 24, Net4 (v4 [198,51,100,0]) 24, Net4 (v4 [203,0,113,0]) 24,
     Net4 (v4 [198,18,0,0]) 15, Net4 (v4 [255,255,255,255]) 32,
     Net6 (v6 [0x2001,0xDB8,0,0,0,0,0,0]) 32, Net6 (v6 [0x100,0,0,0,0,0,0,0]) 64,
     Net6 (v6 [0x2001,2,0,0,0,0,0,0]) 48]"

definition PRIVATE_NETWORKS :: "ip_network list" where
  "PRIVATE_NETWORKS = [Net4 (v4 [10,0,0,0]) 8, Net4 (v4 [172,16,0,0]) 12, Net4 (v4 [192,168,0,0]) 16,
     Net6 (v6 [0xFC00,0,0,0,0,0,0,0]) 7]"

definition BLOCKED_NETWORKS :: "ip_network list" where
  "BLOCKED_NETWORKS = METADATA_NETWORKS @ LOOPBACK_NETWORKS @ UNSPECIFIED_NETWORKS
     @ LINK_LOCAL_NETWORKS @ MULTICAST_NETWORKS @ RESERVED_NETWORKS @ PRIVATE_NETWORKS"

definition BLOCKED_HOSTNAMES :: "string list" where
  "BLOCKED_HOSTNAMES = [''localhost'', ''localhost.localdomain'', ''metadata.google.internal'',
     ''metadata.internal'', ''instance-data'', ''169.254.169.254'']"

definition classify_ip :: "ip_addr \<Rightarrow> NetworkClassification" where
  "classify_ip ip =
    (if in_any ip METADATA_NETWORKS then METADATA
     else if is_loopback ip \<or> in_any ip LOOPBACK_NETWORKS then LOOPBACK
     else if is_unspecified ip \<or> in_any ip UNSPECIFIED_NETWORKS then UNSPECIFIED
     else if is_link_local ip \<or> in_any ip LINK_LOCAL_NETWORKS then LINK_LOCAL
     else if is_multicast ip \<or> in_any ip MULTICAST_NETWORKS then MULTICAST
     else if is_reserved ip \<or> in_any ip RESERVED_NETWORKS then RESERVED
     else if in_any ip PRIVATE_NETWORKS then PRIVATE
     else if is_global ip then PUBLIC
     else RESERVED)"

definition is_ip_allowed_for_policy :: "string \<Rightarrow> bool \<Rightarrow> bool" where
  "is_ip_allowed_for_policy ip_str allow_internal =
    (case ip_address (py_strip ip_str) of
       None \<Rightarrow> False
     | Some ip \<Rightarrow>
         (let classification = classify_ip ip
          in if classification \<in> {LOOPBACK, LINK_LOCAL, METADATA, RESERVED, MULTICAST, UNSPECIFIED} then False
             else if classification = PRIVATE then allow_internal
             else classification = PUBLIC))"

definition is_ip_allowed :: "string \<Rightarrow> bool" where
  "is_ip_allowed ip_str = is_ip_allowed_for_policy ip_str False"

section \<open>Target validation\<close>

definition resolve_hostname_ips :: "dns_answer \<Rightarrow> gateway_error + string list" where
  "resolve_hostname_ips answer =
    (case answer of Addresses ips \<Rightarrow> Inr (dict_fromkeys ips) | GaiError \<Rightarrow> Inr [] | UnencodableName \<Rightarrow> Inl PyValueError)"

definition reserved_name :: "string \<Rightarrow> bool" where
  "reserved_name host = (host \<in> set BLOCKED_HOSTNAMES \<or> host = ''localhost'' \<or> startswith ''localhost.'' host)"

definition internal_suffix :: "string \<Rightarrow> bool" where
  "internal_suffix host = (endswith ''.internal'' host \<or> endswith ''.local'' host)"

text \<open>Every address of a lookup is allowed, and there is one.\<close>

definition all_allowed :: "bool \<Rightarrow> string list \<Rightarrow> bool" where
  "all_allowed allow_internal ips =
     (ips \<noteq> [] \<and> list_all (\<lambda>ip. is_ip_allowed_for_policy ip allow_internal) ips)"

definition validate_target_url :: "gateway \<Rightarrow> string \<Rightarrow> bool \<Rightarrow> gateway_error + bool" where
  "validate_target_url gw url allow_internal =
    (if url = [] then Inr False
     else and_then (raise_none PyValueError (urlsplit (py_strip url))) (\<lambda>parsed.
       if py_lower (su_scheme parsed) \<notin> {''http'', ''https''} then Inr False
       else case url_hostname parsed of
         None \<Rightarrow> Inr False
       | Some hostname \<Rightarrow>
           let host = py_strip_chars ''[]'' (py_lower hostname)
           in if reserved_name host then Inr False
              else case ip_address host of
                Some ip \<Rightarrow> Inr (is_ip_allowed_for_policy (ip_text ip) allow_internal)
              | None \<Rightarrow>
                  if \<not> allow_internal \<and> internal_suffix host then Inr False
                  else and_then (resolve_hostname_ips (gw_dns gw 0 host)) (\<lambda>ips.
                    Inr (all_allowed allow_internal ips))))"

definition domain_part :: "string \<Rightarrow> string" where
  "domain_part s = hd (py_split (CHR '':'') s)"

definition validate_target_domain :: "gateway \<Rightarrow> string \<Rightarrow> bool \<Rightarrow> gateway_error + bool" where
  "validate_target_domain gw domain allow_internal =
    (if domain = [] then Inr False
     else
     let clean = domain_part (py_lower (py_strip domain))
     in if reserved_name clean then Inr False
        else if \<not> allow_internal \<and> internal_suffix clean then Inr False
        else and_then (resolve_hostname_ips (gw_dns gw 0 clean)) (\<lambda>ips. Inr (all_allowed allow_internal ips)))"

definition count_char :: "char \<Rightarrow> string \<Rightarrow> nat" where
  "count_char c s = count_if (\<lambda>d. d = c) s"

definition validate_target_ip :: "string \<Rightarrow> bool \<Rightarrow> bool" where
  "validate_target_ip ip_str allow_internal =
    (if ip_str = [] then False
     else
     let clean = py_strip ip_str;
         clean_ip =
           (if startswith ''['' clean
            then (if CHR '']'' \<in> set clean then takeWhile (\<lambda>c. c \<noteq> CHR '']'') (tl clean)
                  else py_strip_chars ''[]'' clean)
            else if count_char (CHR '':'') clean = 1 then domain_part clean
            else clean)
     in is_ip_allowed_for_policy clean_ip allow_internal)"

definition dangerous_chars :: string where
  "dangerous_chars = '';&|`$()<>'' @ [CHR 0x0A, CHR 0x0D, CHR 0x00]"

text \<open>\<open>t_type\<close> is the value of the enumeration, or the upper-cased text.  \<open>val.partition("://")\<close>: the part
  before the first separator, whether there is one, and the rest.\<close>

fun partition_scheme :: "string \<Rightarrow> string \<times> bool \<times> string" where
  "partition_scheme [] = ([], False, [])"
| "partition_scheme (c # cs) =
     (if startswith ''://'' (c # cs) then ([], True, drop 3 (c # cs))
      else (case partition_scheme cs of (a, f, b) \<Rightarrow> (c # a, f, b)))"

definition validate_target_security :: "gateway \<Rightarrow> string \<Rightarrow> string \<Rightarrow> bool \<Rightarrow> gateway_error + bool" where
  "validate_target_security gw t_type target_value allow_internal =
    (let val = py_strip target_value;
         is_http = startswith ''http://'' val \<or> startswith ''https://'' val
     in if t_type = ''URL'' then validate_target_url gw val allow_internal
        else if t_type \<in> {''WEB_APPLICATION'', ''API_ENDPOINT''} then
          (if \<not> is_http \<and> \<not> py_contains ''://'' val then
             (if CHR ''/'' \<notin> set val \<and> CHR '':'' \<notin> set val \<and> CHR ''.'' \<in> set val
              then validate_target_domain gw val allow_internal
              else validate_target_url gw (''https://'' @ val) allow_internal)
           else validate_target_url gw val allow_internal)
        else if t_type = ''DOMAIN'' then validate_target_domain gw val allow_internal
        else if t_type \<in> {''IP'', ''IP_ADDRESS''} then Inr (validate_target_ip val allow_internal)
        else if t_type \<in> {''LOCAL_PATH'', ''DOCKERFILE'', ''IAC_MANIFEST'', ''IAC_TEMPLATE''} then
          Inr (validate_path_sandbox (gw_fs gw) val None)
        else if t_type = ''GIT_REPOSITORY'' then
          (if is_http then validate_target_url gw val allow_internal
           else if startswith ''git@'' val then
             validate_target_domain gw (domain_part (snd (snd (py_partition (CHR ''@'') val)))) allow_internal
           else Inr (validate_path_sandbox (gw_fs gw) val None))
        else if t_type \<in> {''CONTAINER_IMAGE'', ''KUBERNETES_CLUSTER'', ''CLOUD_ACCOUNT''} then
          (case partition_scheme val of (provider, separator, identifier) \<Rightarrow>
             if list_ex (\<lambda>c. c \<in> set val) dangerous_chars then Inr False
             else if t_type = ''KUBERNETES_CLUSTER'' \<and> is_http then validate_target_url gw val allow_internal
             else if t_type = ''CLOUD_ACCOUNT'' then
               Inr (py_lower provider \<in> {''aws'', ''azure'', ''gcp''} \<and> separator \<and> identifier \<noteq> []
                    \<and> CHR ''/'' \<notin> set identifier)
             else if t_type = ''KUBERNETES_CLUSTER'' then
               Inr (py_lower provider = ''kubernetes'' \<and> separator \<and> identifier \<noteq> [])
             else Inr True)
        else Inr False)"

definition assert_safe :: "gateway_error + bool \<Rightarrow> gateway_error + unit" where
  "assert_safe verdict = and_then verdict (\<lambda>ok. if ok then Inr () else Inl SSRFProtectionError)"

definition assert_safe_url :: "gateway \<Rightarrow> string \<Rightarrow> bool \<Rightarrow> gateway_error + unit" where
  "assert_safe_url gw url allow_internal = assert_safe (validate_target_url gw url allow_internal)"

definition assert_safe_target :: "gateway \<Rightarrow> string \<Rightarrow> string \<Rightarrow> bool \<Rightarrow> gateway_error + unit" where
  "assert_safe_target gw t_type target_value allow_internal =
     assert_safe (validate_target_security gw t_type target_value allow_internal)"

end
