(* ===== verification/Ssrf_Targets.thy ===== *)
theory Ssrf_Targets
  imports Ssrf Json_Canonical
begin

text \<open>
  The sealed targets of \<open>backend/app/core/ssrf_protector.py\<close>: \<open>create_validated_target\<close> (the gate, the
  second lookup and the seal), \<open>validate_validated_target\<close> (the check at every execution boundary),
  the rebinding of URLs to the pinned address and the origin test.  The seal is HMAC-SHA256 over the
  target's identity, the decision identity, the policy version and the digest of the authorization
  context.
\<close>

section \<open>Types\<close>

datatype TargetType = URL | DOMAIN | IP | LOCAL_PATH | DOCKERFILE | IAC_MANIFEST | CLOUD_ACCOUNT
  | KUBERNETES_CLUSTER

fun type_value :: "TargetType \<Rightarrow> string" where
  "type_value URL = ''URL''"
| "type_value DOMAIN = ''DOMAIN''"
| "type_value IP = ''IP''"
| "type_value LOCAL_PATH = ''LOCAL_PATH''"
| "type_value DOCKERFILE = ''DOCKERFILE''"
| "type_value IAC_MANIFEST = ''IAC_MANIFEST''"
| "type_value CLOUD_ACCOUNT = ''CLOUD_ACCOUNT''"
| "type_value KUBERNETES_CLUSTER = ''KUBERNETES_CLUSTER''"

record validated_target =
  vt_target_id :: string
  vt_authorization_decision_id :: string
  vt_integrity_seal :: string
  vt_organization_id :: string
  vt_project_id :: "string option"
  vt_asset_id :: "string option"
  vt_workspace_id :: "string option"
  vt_target_type :: TargetType
  vt_raw_value :: string
  vt_canonical_value :: string
  vt_authorized_scope :: "string list"
  vt_resolved_addresses :: "string list"
  vt_selected_destination :: string
  vt_port :: "int option"
  vt_scheme :: "string option"
  vt_authorization_context :: jobj
  vt_policy_version :: string

definition APP_VERSION :: string where "APP_VERSION = ''14.3.0''"

section \<open>The seal\<close>

definition hexdigest :: "string \<Rightarrow> string" where
  "hexdigest bytes = concat (map (\<lambda>b. let n = (of_char b :: nat) in [hex_digit (n div 16), hex_digit (n mod 16)]) bytes)"

definition sha256_hex :: "gateway \<Rightarrow> string \<Rightarrow> string" where
  "sha256_hex gw s = gw_sha256 gw (utf8 s)"

definition GATEWAY_SEAL_DOMAIN :: string where
  "GATEWAY_SEAL_DOMAIN = ''cyberassess:validated-target-seal:v1''"

definition gateway_seal_key :: "gateway \<Rightarrow> string" where
  "gateway_seal_key gw =
    (let configured = (if truthy (gw_target_secret gw) then gw_target_secret gw else gw_jwt_secret gw)
     in case configured of
          None \<Rightarrow> gw_ephemeral_key gw
        | Some secret \<Rightarrow>
            (if secret \<noteq> [] \<and> py_strip secret \<noteq> []
             then gw_hmac gw (utf8 (py_strip secret)) GATEWAY_SEAL_DOMAIN
             else gw_ephemeral_key gw))"

definition seal_payload :: "string \<Rightarrow> string \<Rightarrow> string \<Rightarrow> string \<Rightarrow> string" where
  "seal_payload target_id decision_id policy context_digest =
     join_with '':'' [''GATEWAY_SEAL'', target_id, decision_id, policy, context_digest]"

definition compute_gateway_seal :: "gateway \<Rightarrow> string \<Rightarrow> string \<Rightarrow> string \<Rightarrow> string \<Rightarrow> string" where
  "compute_gateway_seal gw target_id decision_id policy context_digest =
     hexdigest (gw_hmac gw (gateway_seal_key gw) (utf8 (seal_payload target_id decision_id policy context_digest)))"

text \<open>\<open>context.get(key)\<close>.\<close>

definition context_get :: "jobj \<Rightarrow> string \<Rightarrow> json" where
  "context_get ctx key = (case map_of ctx key of None \<Rightarrow> JNull | Some v \<Rightarrow> v)"

definition context_material :: "jobj \<Rightarrow> string list \<Rightarrow> string option \<Rightarrow> json" where
  "context_material ctx scope workspace = JObj
    [(''allow_internal'', context_get ctx ''allow_internal''),
     (''active_probing_granted'', context_get ctx ''active_probing_granted''),
     (''state_changing_granted'', context_get ctx ''state_changing_granted''),
     (''dns_zone_authorized'', context_get ctx ''dns_zone_authorized''),
     (''cloud_provider'', context_get ctx ''cloud_provider''),
     (''authorized_scope'', JArr (map JStr scope)),
     (''workspace_id'', JStr (or_else workspace []))]"

text \<open>A frozen mapping is neither hashable nor serialisable: a \<open>TypeError\<close>.\<close>

fun has_mapping :: "json \<Rightarrow> bool" where
  "has_mapping (JObj kvs) = True"
| "has_mapping (JArr xs) = list_ex has_mapping xs"
| "has_mapping v = False"

definition validated_target_context_digest :: "gateway \<Rightarrow> validated_target \<Rightarrow> gateway_error + string" where
  "validated_target_context_digest gw vt =
    (let ctx = vt_authorization_context vt
     in if list_ex (\<lambda>k. has_mapping (context_get ctx k))
             [''allow_internal'', ''active_probing_granted'', ''state_changing_granted'', ''dns_zone_authorized'', ''cloud_provider'']
        then Inl PyTypeError
        else Inr (sha256_hex gw (json_dumps (context_material ctx (vt_authorized_scope vt) (vt_workspace_id vt)))))"

section \<open>Re-validation\<close>

definition target_identity :: "gateway \<Rightarrow> string \<Rightarrow> string \<Rightarrow> string" where
  "target_identity gw canonical selected = sha256_hex gw (canonical @ '':'' @ selected)"

definition decision_identity :: "gateway \<Rightarrow> string \<Rightarrow> string option \<Rightarrow> string option \<Rightarrow> string \<Rightarrow> string \<Rightarrow> string" where
  "decision_identity gw org project asset target_id policy =
     sha256_hex gw (join_with '':'' [org, or_else project [], or_else asset [], target_id, policy])"

definition is_bool :: "json \<Rightarrow> bool" where
  "is_bool v = (case v of JBool b \<Rightarrow> True | _ \<Rightarrow> False)"

definition ascii :: "string \<Rightarrow> bool" where
  "ascii s = list_all (\<lambda>c. (of_char c :: nat) < 128) s"

text \<open>\<open>hmac.compare_digest\<close> on strings raises a \<open>TypeError\<close> unless both are ASCII.\<close>

definition compare_digest :: "string \<Rightarrow> string \<Rightarrow> gateway_error + bool" where
  "compare_digest a b = (if ascii a \<and> ascii b then Inr (a = b) else Inl PyTypeError)"

definition require :: "bool \<Rightarrow> gateway_error + unit" where
  "require b = (if b then Inr () else Inl SSRFProtectionError)"

definition require_digest :: "string \<Rightarrow> string \<Rightarrow> gateway_error + unit" where
  "require_digest a b = and_then (compare_digest a b) require"

definition context_valid :: "validated_target \<Rightarrow> bool" where
  "context_valid vt =
    (let ctx = vt_authorization_context vt
     in list_all (\<lambda>k. is_bool (context_get ctx k))
          [''allow_internal'', ''active_probing_granted'', ''state_changing_granted'', ''dns_zone_authorized'']
        \<and> context_get ctx ''validated_by'' = JStr ''assert_safe_target''
        \<and> context_get ctx ''dns_zone_authorized'' = JBool (vt_target_type vt = DOMAIN))"

definition cloud_provider_valid :: "validated_target \<Rightarrow> gateway_error + unit" where
  "cloud_provider_valid vt =
    (let provider = context_get (vt_authorization_context vt) ''cloud_provider''
     in if vt_target_type vt \<notin> {CLOUD_ACCOUNT, KUBERNETES_CLUSTER} then Inr ()
        else if has_mapping provider then Inl PyTypeError
        else require (provider \<in> JStr ` {''aws'', ''azure'', ''gcp'', ''kubernetes''}))"

definition validate_validated_target :: "gateway \<Rightarrow> validated_target \<Rightarrow> gateway_error + unit" where
  "validate_validated_target gw vt =
    (let ctx = vt_authorization_context vt
     in and_then (require (list_all (\<lambda>s. s \<noteq> [])
          [vt_target_id vt, vt_authorization_decision_id vt, vt_integrity_seal vt, vt_organization_id vt,
           vt_canonical_value vt, vt_selected_destination vt, vt_policy_version vt]))
     (\<lambda>_. and_then (require (vt_policy_version vt = APP_VERSION))
     (\<lambda>_. and_then (require_digest (vt_target_id vt)
              (target_identity gw (vt_canonical_value vt) (vt_selected_destination vt)))
     (\<lambda>_. and_then (require_digest (vt_authorization_decision_id vt)
              (decision_identity gw (vt_organization_id vt) (vt_project_id vt) (vt_asset_id vt)
                 (vt_target_id vt) (vt_policy_version vt)))
     (\<lambda>_. and_then (require (context_valid vt))
     (\<lambda>_. and_then (cloud_provider_valid vt)
     (\<lambda>_. and_then (require (\<not> ((context_get ctx ''active_probing_granted'' = JBool True
              \<or> context_get ctx ''state_changing_granted'' = JBool True) \<and> \<not> truthy (vt_asset_id vt))))
     (\<lambda>_. and_then (validated_target_context_digest gw vt)
     (\<lambda>digest. require_digest (vt_integrity_seal vt)
         (compute_gateway_seal gw (vt_target_id vt) (vt_authorization_decision_id vt)
            (vt_policy_version vt) digest))))))))))"

section \<open>Construction\<close>

text \<open>\<open>int(text)\<close>: white space, a sign, digits with single underscores between them.\<close>

fun int_digits :: "int \<Rightarrow> string \<Rightarrow> int option" where
  "int_digits n [] = Some n"
| "int_digits n (c # s) =
     (if ascii_digit c then int_digits (10 * n + int (dec_value c)) s
      else if c = CHR ''_'' \<and> s \<noteq> [] \<and> ascii_digit (hd s) then int_digits n s
      else None)"

definition py_int :: "string \<Rightarrow> int option" where
  "py_int text =
    (let s = py_strip text;
         digits = (if s \<noteq> [] \<and> hd s \<in> {CHR ''+'', CHR ''-''} then tl s else s);
         sign = (if s \<noteq> [] \<and> hd s = CHR ''-'' then -1 else 1)
     in if digits = [] \<or> \<not> ascii_digit (hd digits) then None
        else map_option (\<lambda>n. sign * n) (int_digits 0 digits))"

text \<open>What the branch on the type computes: resolved addresses, destination, port and scheme.\<close>

type_synonym destination = "string list \<times> string \<times> int option \<times> string option"

definition url_destination :: "gateway \<Rightarrow> string \<Rightarrow> gateway_error + destination" where
  "url_destination gw canonical =
    and_then (raise_none PyValueError (urlsplit canonical)) (\<lambda>parsed.
    let scheme = (if su_scheme parsed \<noteq> [] then py_lower (su_scheme parsed) else ''http'');
        default_port = (if scheme = ''https'' then 443 else 80)
    in and_then (raise_none PyValueError (url_port parsed)) (\<lambda>p.
       let port = (case p of Some n \<Rightarrow> if n = 0 then default_port else int n | None \<Rightarrow> default_port)
       in case url_hostname parsed of
            None \<Rightarrow> Inr ([], canonical, Some port, Some scheme)
          | Some hostname \<Rightarrow>
              let clean_host = py_strip_chars ''[]'' hostname
              in and_then (resolve_hostname_ips (gw_dns gw 1 clean_host)) (\<lambda>ips.
                 Inr (ips, (if ips = [] then clean_host else hd ips), Some port, Some scheme))))"

definition ip_destination :: "string \<Rightarrow> destination" where
  "ip_destination canonical =
    (let clean_ip = py_strip_chars ''[]'' (domain_part canonical);
         port = (if count_char (CHR '':'') canonical = 1
                 then py_int (py_split (CHR '':'') canonical ! 1) else None)
     in ([clean_ip], clean_ip, port, None))"

definition target_destination :: "gateway \<Rightarrow> TargetType \<Rightarrow> string \<Rightarrow> gateway_error + destination" where
  "target_destination gw t_type canonical =
    (case t_type of
       URL \<Rightarrow> url_destination gw canonical
     | DOMAIN \<Rightarrow>
         (let clean_domain = domain_part (py_lower canonical)
          in and_then (resolve_hostname_ips (gw_dns gw 1 clean_domain)) (\<lambda>ips.
             Inr (ips, (if ips = [] then clean_domain else hd ips), None, None)))
     | IP \<Rightarrow> Inr (ip_destination canonical)
     | CLOUD_ACCOUNT \<Rightarrow> Inr ([], canonical, None, None)
     | KUBERNETES_CLUSTER \<Rightarrow> Inr ([], canonical, None, None)
     | _ \<Rightarrow> Inr ([], gw_abspath gw canonical, None, None))"

text \<open>The second application of the address policy.\<close>

definition recheck_addresses :: "TargetType \<Rightarrow> bool \<Rightarrow> string list \<Rightarrow> gateway_error + unit" where
  "recheck_addresses t_type allow_internal ips =
    require (t_type \<in> {URL, DOMAIN} \<longrightarrow>
      ips \<noteq> [] \<and> list_all (\<lambda>ip. ip_address ip \<noteq> None \<and> is_ip_allowed_for_policy ip allow_internal) ips)"

definition authorization_context :: "TargetType \<Rightarrow> string \<Rightarrow> bool \<Rightarrow> bool \<Rightarrow> bool \<Rightarrow> jobj" where
  "authorization_context t_type canonical allow_internal probing changing =
    [(''allow_internal'', JBool allow_internal),
     (''validated_by'', JStr ''assert_safe_target''),
     (''active_probing_granted'', JBool probing),
     (''state_changing_granted'', JBool changing),
     (''dns_zone_authorized'', JBool (t_type = DOMAIN)),
     (''cloud_provider'',
        (if t_type \<in> {CLOUD_ACCOUNT, KUBERNETES_CLUSTER} \<and> py_contains ''://'' canonical
         then JStr (py_lower (fst (partition_scheme canonical))) else JNull))]"

definition create_validated_target ::
  "gateway \<Rightarrow> TargetType \<Rightarrow> string \<Rightarrow> string \<Rightarrow> string option \<Rightarrow> string option \<Rightarrow> string option
     \<Rightarrow> bool \<Rightarrow> string list \<Rightarrow> bool \<Rightarrow> bool \<Rightarrow> gateway_error + validated_target" where
  "create_validated_target gw t_type value org project asset workspace allow_internal scope changing probing =
    and_then (require (\<not> ((probing \<or> changing) \<and> \<not> truthy asset)))
    (\<lambda>_. and_then (assert_safe_target gw (type_value t_type) value allow_internal)
    (\<lambda>_. let canonical = py_strip value
         in and_then (target_destination gw t_type canonical)
    (\<lambda>(ips, selected, port, scheme). and_then (recheck_addresses t_type allow_internal ips)
    (\<lambda>_. let ctx = authorization_context t_type canonical allow_internal probing changing;
             target_id = target_identity gw canonical selected;
             decision_id = decision_identity gw org project asset target_id APP_VERSION;
             digest = sha256_hex gw (json_dumps (context_material ctx scope workspace))
         in Inr \<lparr> vt_target_id = target_id, vt_authorization_decision_id = decision_id,
              vt_integrity_seal = compute_gateway_seal gw target_id decision_id APP_VERSION digest,
              vt_organization_id = org, vt_project_id = project, vt_asset_id = asset,
              vt_workspace_id = workspace, vt_target_type = t_type, vt_raw_value = value,
              vt_canonical_value = canonical, vt_authorized_scope = scope,
              vt_resolved_addresses = ips, vt_selected_destination = selected, vt_port = port,
              vt_scheme = scheme, vt_authorization_context = ctx, vt_policy_version = APP_VERSION \<rparr>))))"

section \<open>Use of a target\<close>

text \<open>\<open>urlsplit(v if "://" in v else "https://" + v)\<close>.\<close>

definition canonical_url :: "string \<Rightarrow> split_url option" where
  "canonical_url v = urlsplit (if py_contains ''://'' v then v else ''https://'' @ v)"

definition clean_hostname :: "split_url \<Rightarrow> string" where
  "clean_hostname u = py_strip_chars ''[]'' (py_lower (or_else (url_hostname u) []))"

text \<open>The constructor of the pinned transport and the host test of a request: the address it connects
  to, or the error.\<close>

definition transport_connects :: "gateway \<Rightarrow> validated_target \<Rightarrow> string \<Rightarrow> gateway_error + string" where
  "transport_connects gw vt request_host =
    and_then (validate_validated_target gw vt)
    (\<lambda>_. and_then (raise_none PyValueError (canonical_url (vt_canonical_value vt)))
    (\<lambda>parsed. let host = py_strip_chars ''[]'' (py_lower request_host)
       in and_then (require (host = clean_hostname parsed
            \<or> host = py_strip_chars ''[]'' (py_lower (vt_selected_destination vt))))
          (\<lambda>_. Inr (vt_selected_destination vt))))"

definition bind_url_to_validated_target :: "gateway \<Rightarrow> string \<Rightarrow> validated_target \<Rightarrow> gateway_error + (string \<times> string)" where
  "bind_url_to_validated_target gw url vt =
    and_then (validate_validated_target gw vt)
    (\<lambda>_. and_then (raise_none PyValueError (urlsplit (py_strip url)))
    (\<lambda>parsed. case url_hostname parsed of
        None \<Rightarrow> Inl SSRFProtectionError
      | Some host \<Rightarrow>
          and_then (require (host \<noteq> [] \<and> vt_selected_destination vt \<noteq> []))
          (\<lambda>_. and_then (raise_none PyValueError (url_port parsed))
          (\<lambda>port.
             let selected = vt_selected_destination vt;
                 bracketed_selected = (if CHR '':'' \<in> set selected \<and> \<not> startswith ''['' selected
                   then ''['' @ selected @ '']'' else selected);
                 netloc = (case port of Some n \<Rightarrow> if n = 0 then bracketed_selected
                             else bracketed_selected @ '':'' @ str_nat n | None \<Rightarrow> bracketed_selected)
             in Inr (urlunsplit (parsed\<lparr>su_netloc := netloc\<rparr>), host)))))"

definition is_url_in_validated_origin :: "gateway \<Rightarrow> string \<Rightarrow> validated_target \<Rightarrow> bool" where
  "is_url_in_validated_origin gw url vt =
    (case validate_validated_target gw vt of Inl e \<Rightarrow> False | Inr _ \<Rightarrow>
     (case (urlsplit (py_strip url), canonical_url (vt_canonical_value vt)) of
        (Some candidate, Some canonical) \<Rightarrow>
          clean_hostname candidate \<noteq> [] \<and> clean_hostname candidate = clean_hostname canonical
          \<and> \<not> (py_contains ''://'' (vt_canonical_value vt)
               \<and> py_lower (su_scheme candidate) \<noteq> py_lower (su_scheme canonical))
          \<and> (let own_port = (case vt_port vt of Some p \<Rightarrow> p | None \<Rightarrow> 0);
                 canonical_default = (if su_scheme canonical = ''https'' then 443 else 80);
                 candidate_default = (if py_lower (su_scheme candidate) = ''https'' then 443 else 80);
                 given = (\<lambda>p d. case p of Some n \<Rightarrow> if n = 0 then d else int n | None \<Rightarrow> d)
             in case (if own_port \<noteq> 0 then Some own_port
                      else map_option (\<lambda>p. given p canonical_default) (url_port canonical), url_port candidate) of
                  (Some expected, Some p) \<Rightarrow> given p candidate_default = expected
                | _ \<Rightarrow> False)
      | _ \<Rightarrow> False))"

end
