(* ===== verification/Ssrf_Properties.thy ===== *)
theory Ssrf_Properties
  imports Ssrf_Targets
begin

text \<open>
  What the gateway of \<open>ssrf_protector.py\<close> guarantees: which addresses pass, where a pinned destination
  comes from, which created targets the execution boundary accepts, and what the seal binds.
\<close>

section \<open>Addresses\<close>

lemma subnet:
  fixes ip :: "'w::len word"
  assumes "ip AND m1 = n1" "m1 AND m2 = m2" "n1 AND m2 = n2"
  shows "ip AND m2 = n2"
  using assms by (metis and.assoc)

lemma disjoint_nets:
  fixes ip :: "'w::len word"
  assumes "ip AND m1 = n1" "n1 AND m2 \<noteq> n2 AND m1"
  shows "ip AND m2 \<noteq> n2"
  using assms by (metis and.assoc and.commute)

definition EMBEDDED_V4 :: "ip_network list" where
  "EMBEDDED_V4 = [Net6 (v6 [0,0,0,0,0,0xFFFF,0,0]) 96, Net6 (v6 [0,0,0,0,0,0,0,0]) 96,
     Net6 (v6 [0x64,0xFF9B,0,0,0,0,0,0]) 96, Net6 (v6 [0x2002,0,0,0,0,0,0,0]) 16,
     Net6 (v6 [0x2001,0,0,0,0,0,0,0]) 32]"

definition FORBIDDEN_NETWORKS :: "ip_network list" where
  "FORBIDDEN_NETWORKS = METADATA_NETWORKS @ LOOPBACK_NETWORKS @ UNSPECIFIED_NETWORKS
     @ LINK_LOCAL_NETWORKS @ MULTICAST_NETWORKS @ RESERVED_NETWORKS"

lemma in_any_append [simp]: "in_any ip (a @ b) \<longleftrightarrow> in_any ip a \<or> in_any ip b"
  by (simp add: in_any_def)

lemma in_any_Cons [simp]: "in_any ip (n # ns) \<longleftrightarrow> in_network ip n \<or> in_any ip ns"
  by (simp add: in_any_def)

lemma in_any_Nil [simp]: "\<not> in_any ip []"
  by (simp add: in_any_def)

lemma classify_allowed:
  assumes "classify_ip ip \<in> {PUBLIC, PRIVATE}"
  shows "\<not> in_any ip FORBIDDEN_NETWORKS \<and> \<not> is_reserved ip
    \<and> (classify_ip ip = PUBLIC \<longrightarrow> is_global ip \<and> \<not> in_any ip PRIVATE_NETWORKS)
    \<and> (classify_ip ip = PRIVATE \<longrightarrow> in_any ip PRIVATE_NETWORKS)"
  using assms
  unfolding classify_ip_def FORBIDDEN_NETWORKS_def in_any_append
  by (auto split: if_splits)

text \<open>An executable test that a network meets none of a list.\<close>

fun apart :: "ip_network \<Rightarrow> ip_network \<Rightarrow> bool" where
  "apart (Net6 a k) (Net6 b l) =
     (a AND push_bit (128 - l) (mask l) \<noteq> b AND push_bit (128 - k) (mask k))"
| "apart (Net6 a k) (Net4 b l) = True"
| "apart (Net4 a k) n = False"

lemma apart_in_any:
  assumes "in_network (IPv6Address ip s) net" "list_all (apart net) nets"
  shows "\<not> in_any (IPv6Address ip s) nets"
proof -
  from assms(1) obtain a k where net: "net = Net6 a k" and a: "ip AND push_bit (128 - k) (mask k) = a"
    by (cases net) auto
  have "\<not> in_network (IPv6Address ip s) n" if "n \<in> set nets" for n
  proof (cases n)
    case (Net6 b l)
    from assms(2) that have "apart net n" by (auto simp: list_all_iff)
    then have "a AND push_bit (128 - l) (mask l) \<noteq> b AND push_bit (128 - k) (mask k)" by (simp add: net Net6)
    from disjoint_nets [OF a this] show ?thesis by (simp add: Net6)
  qed simp
  then show ?thesis by (auto simp: in_any_def list_ex_iff)
qed

lemma embedded_cases:
  assumes "in_any (IPv6Address ip s) EMBEDDED_V4"
  shows "is_reserved (IPv6Address ip s) \<or> in_network (IPv6Address ip s) (Net6 (v6 [0x2002,0,0,0,0,0,0,0]) 16)
    \<or> in_network (IPv6Address ip s) (Net6 (v6 [0x2001,0,0,0,0,0,0,0]) 32)"
proof -
  have r0: "is_reserved (IPv6Address ip s)" if "in_network (IPv6Address ip s) (Net6 (v6 [0,0,0,0,0,0,0,0]) 8)"
    using that by (simp add: RESERVED_V6_def del: v6.simps in_network.simps)
  let ?m = "\<lambda>k. push_bit (128 - k) (mask k) :: 128 word"
  have m: "?m 96 AND ?m 8 = ?m 8" by (simp add: mask_eq_exp_minus_1 push_bit_eq_mult)
  have z: "v6 [0,0,0,0,0,0xFFFF,0,0] AND ?m 8 = v6 [0,0,0,0,0,0,0,0]"
    "v6 [0,0,0,0,0,0,0,0] AND ?m 8 = v6 [0,0,0,0,0,0,0,0]"
    "v6 [0x64,0xFF9B,0,0,0,0,0,0] AND ?m 8 = v6 [0,0,0,0,0,0,0,0]"
    by (simp_all add: mask_eq_exp_minus_1 push_bit_eq_mult)
  from assms consider "ip AND ?m 96 = v6 [0,0,0,0,0,0xFFFF,0,0]" | "ip AND ?m 96 = v6 [0,0,0,0,0,0,0,0]"
    | "ip AND ?m 96 = v6 [0x64,0xFF9B,0,0,0,0,0,0]" | "ip AND ?m 16 = v6 [0x2002,0,0,0,0,0,0,0]"
    | "ip AND ?m 32 = v6 [0x2001,0,0,0,0,0,0,0]"
    unfolding EMBEDDED_V4_def in_any_Cons in_network.simps by auto
  then show ?thesis
    by cases (use r0 subnet [OF _ m z(1)] subnet [OF _ m z(2)] subnet [OF _ m z(3)]
      in \<open>simp_all del: v6.simps is_reserved.simps\<close>)
qed

text \<open>The transition ranges are neither global nor unique-local.\<close>

lemma tunnels_not_public:
  assumes "in_network (IPv6Address ip s) (Net6 (v6 [0x2002,0,0,0,0,0,0,0]) 16)
    \<or> in_network (IPv6Address ip s) (Net6 (v6 [0x2001,0,0,0,0,0,0,0]) 32)"
  shows "\<not> is_global (IPv6Address ip s)" "\<not> in_any (IPv6Address ip s) PRIVATE_NETWORKS"
proof -
  let ?m = "\<lambda>k. push_bit (128 - k) (mask k) :: 128 word"
  let ?a = "v6 [0x2002,0,0,0,0,0,0,0]" and ?b = "v6 [0x2001,0,0,0,0,0,0,0]"
  from assms consider (a) "ip AND ?m 16 = ?a" | (b) "ip AND ?m 32 = ?b" by auto
  note c = this
  have d: "drop_bit 112 (?m 16) = 0xFFFF" "drop_bit 112 ?a = 0x2002"
    "drop_bit 96 (?m 32) = 0xFFFFFFFF" "drop_bit 96 ?b = 0x20010000"
    "drop_bit 80 (0xFFFF :: 128 word) = 0" "drop_bit 64 (0xFFFF :: 128 word) = 0" by code_simp+
  have unmapped: "ipv4_mapped ip = None"
  proof (rule ccontr)
    assume "ipv4_mapped ip \<noteq> None"
    then have mapped: "drop_bit 32 ip = 0xFFFF" by (simp add: ipv4_mapped_def split: if_splits)
    from c show False
    proof cases
      case a
      have "drop_bit 112 ip AND 0xFFFF = (0x2002 :: 128 word)"
        using arg_cong [OF a, of "drop_bit 112"] d by (simp only: drop_bit_and)
      moreover have "drop_bit 112 ip = drop_bit 80 (drop_bit 32 ip)" by (simp add: drop_bit_drop_bit)
      ultimately show False using mapped d(5) by simp
    next
      case b
      have "drop_bit 96 ip AND 0xFFFFFFFF = (0x20010000 :: 128 word)"
        using arg_cong [OF b, of "drop_bit 96"] d by (simp only: drop_bit_and)
      moreover have "drop_bit 96 ip = drop_bit 64 (drop_bit 32 ip)" by (simp add: drop_bit_drop_bit)
      ultimately show False using mapped d(6) by simp
    qed
  qed
  have priv: "in_any (IPv6Address ip s) PRIVATE_V6"
  proof -
    have "ip AND ?m 23 = ?b" if "ip AND ?m 32 = ?b"
      by (rule subnet [OF that]) (simp_all add: mask_eq_exp_minus_1 push_bit_eq_mult)
    with c show ?thesis unfolding PRIVATE_V6_def in_any_Cons in_network.simps by blast
  qed
  have clear: "\<not> in_any (IPv6Address ip s) (PRIVATE_V6_EXCEPTIONS @ PRIVATE_NETWORKS)"
  proof -
    have "list_all (apart (Net6 ?a 16)) (PRIVATE_V6_EXCEPTIONS @ PRIVATE_NETWORKS)"
      "list_all (apart (Net6 ?b 32)) (PRIVATE_V6_EXCEPTIONS @ PRIVATE_NETWORKS)"
      by (simp_all add: PRIVATE_V6_EXCEPTIONS_def PRIVATE_NETWORKS_def mask_eq_exp_minus_1 push_bit_eq_mult)
    with assms apart_in_any show ?thesis by blast
  qed
  with priv unmapped show "\<not> is_global (IPv6Address ip s)" by simp
  from clear show "\<not> in_any (IPv6Address ip s) PRIVATE_NETWORKS" by simp
qed

lemma allowed_not_embedded:
  assumes "classify_ip (IPv6Address ip s) \<in> {PUBLIC, PRIVATE}"
  shows "\<not> in_any (IPv6Address ip s) EMBEDDED_V4"
  using classify_allowed [OF assms] embedded_cases [of ip s] tunnels_not_public [of ip s] assms by blast

text \<open>An address the policy lets through parses, lies in no metadata, loopback, unspecified,
  link-local, multicast or reserved network of the table, embeds no IPv4 address (mapped, compatible,
  NAT64, 6to4, Teredo), and is globally routable and outside the private networks unless internal
  addresses were explicitly allowed.\<close>

theorem allowed_address_is_routable:
  assumes "is_ip_allowed_for_policy text allow_internal"
  shows "\<exists>ip. ip_address (py_strip text) = Some ip \<and> \<not> in_any ip FORBIDDEN_NETWORKS
    \<and> \<not> in_any ip EMBEDDED_V4
    \<and> (if in_any ip PRIVATE_NETWORKS then allow_internal else is_global ip)"
proof -
  from assms obtain ip where ip: "ip_address (py_strip text) = Some ip"
    and c: "classify_ip ip = PUBLIC \<or> classify_ip ip = PRIVATE \<and> allow_internal"
    by (auto simp: is_ip_allowed_for_policy_def Let_def split: option.splits if_splits)
  then have k: "classify_ip ip \<in> {PUBLIC, PRIVATE}" by auto
  have "\<not> in_any ip EMBEDDED_V4"
  proof (cases ip)
    case (IPv4Address v)
    then show ?thesis by (simp add: EMBEDDED_V4_def)
  next
    case (IPv6Address v s)
    with allowed_not_embedded [of v s] k show ?thesis by simp
  qed
  with classify_allowed [OF k] ip c show ?thesis by auto
qed

theorem allowed_address_is_routable_witness:
  "is_ip_allowed_for_policy '' 8.8.8.8 '' False \<and> (\<exists>ip. ip_address ''8.8.8.8'' = Some ip \<and> is_global ip)
   \<and> \<not> is_ip_allowed_for_policy ''64:ff9b::a9fe:a9fe'' True \<and> \<not> is_ip_allowed_for_policy ''169.254.169.254'' True"
proof -
  have ok: "is_ip_allowed_for_policy '' 8.8.8.8 '' False" by code_simp
  have "py_strip '' 8.8.8.8 '' = ''8.8.8.8''" by code_simp
  with allowed_address_is_routable [OF ok] have "\<exists>ip. ip_address ''8.8.8.8'' = Some ip \<and> is_global ip"
    by (auto split: if_splits)
  moreover have "\<not> is_ip_allowed_for_policy ''64:ff9b::a9fe:a9fe'' True" by code_simp
  moreover have "\<not> is_ip_allowed_for_policy ''169.254.169.254'' True" by code_simp
  ultimately show ?thesis using ok by blast
qed

section \<open>Accepted URLs and pinned destinations\<close>

lemma resolved_answer:
  "resolve_hostname_ips answer = Inr ips \<Longrightarrow> ips \<noteq> [] \<Longrightarrow>
     \<exists>as. answer = Addresses as \<and> set ips = set as"
  by (auto simp: resolve_hostname_ips_def split: dns_answer.splits)

text \<open>The judgement of the host of a well-formed http(s) URL.\<close>

definition validate_host :: "gateway \<Rightarrow> string \<Rightarrow> bool \<Rightarrow> gateway_error + bool" where
  "validate_host gw host allow_internal =
    (if reserved_name host then Inr False
     else case ip_address host of
       Some ip \<Rightarrow> Inr (is_ip_allowed_for_policy (ip_text ip) allow_internal)
     | None \<Rightarrow>
         if \<not> allow_internal \<and> internal_suffix host then Inr False
         else and_then (resolve_hostname_ips (gw_dns gw 0 host)) (\<lambda>ips. Inr (all_allowed allow_internal ips)))"

lemma validate_target_url_host:
  assumes "url \<noteq> []" "urlsplit (py_strip url) = Some u" "py_lower (su_scheme u) \<in> {''http'', ''https''}"
    "url_hostname u = Some name"
  shows "validate_target_url gw url allow_internal = validate_host gw (py_strip_chars ''[]'' (py_lower name)) allow_internal"
  using assms unfolding validate_target_url_def validate_host_def by (simp add: raise_none_def Let_def del: insert_iff)

lemma validate_host_True:
  assumes "validate_host gw host allow_internal = Inr True"
  shows "\<not> reserved_name host \<and>
    (case ip_address host of Some ip \<Rightarrow> is_ip_allowed_for_policy (ip_text ip) allow_internal
      | None \<Rightarrow> \<exists>ips. resolve_hostname_ips (gw_dns gw 0 host) = Inr ips \<and> all_allowed allow_internal ips)"
  using assms unfolding validate_host_def
  by (auto simp: and_then_Inr split: if_splits option.splits)

text \<open>A URL the gateway accepts is an http(s) URL whose host is no reserved name; a literal host is an
  allowed address, and otherwise the lookup answered with at least one address and every one of them
  is allowed.\<close>

theorem accepted_url_is_safe:
  assumes "validate_target_url gw url allow_internal = Inr True"
  shows "\<exists>u name host. urlsplit (py_strip url) = Some u \<and> py_lower (su_scheme u) \<in> {''http'', ''https''}
    \<and> url_hostname u = Some name \<and> host = py_strip_chars ''[]'' (py_lower name) \<and> \<not> reserved_name host
    \<and> (case ip_address host of
         Some ip \<Rightarrow> is_ip_allowed_for_policy (ip_text ip) allow_internal
       | None \<Rightarrow> \<exists>answers. gw_dns gw 0 host = Addresses answers \<and> answers \<noteq> []
           \<and> (\<forall>a \<in> set answers. is_ip_allowed_for_policy a allow_internal))"
proof -
  from assms obtain u where u: "urlsplit (py_strip url) = Some u"
    by (cases "urlsplit (py_strip url)") (auto simp: validate_target_url_def raise_none_def split: if_splits)
  with assms have s: "py_lower (su_scheme u) \<in> {''http'', ''https''}"
    by (rule_tac ccontr) (simp add: validate_target_url_def raise_none_def del: insert_iff split: if_splits)
  with assms u obtain name where n: "url_hostname u = Some name"
    by (cases "url_hostname u") (simp_all add: validate_target_url_def raise_none_def del: insert_iff split: if_splits)
  note u = u s n
  let ?host = "py_strip_chars ''[]'' (py_lower name)"
  have "validate_host gw ?host allow_internal = Inr True"
    using assms validate_target_url_host [OF _ u] by (cases "url = []") (simp_all add: validate_target_url_def)
  note host = validate_host_True [OF this]
  have free: "\<not> reserved_name ?host" using host by blast
  have rest: "case ip_address ?host of Some ip \<Rightarrow> is_ip_allowed_for_policy (ip_text ip) allow_internal
      | None \<Rightarrow> \<exists>ips. resolve_hostname_ips (gw_dns gw 0 ?host) = Inr ips \<and> all_allowed allow_internal ips"
    using host by blast
  have "case ip_address ?host of Some ip \<Rightarrow> is_ip_allowed_for_policy (ip_text ip) allow_internal
       | None \<Rightarrow> \<exists>answers. gw_dns gw 0 ?host = Addresses answers \<and> answers \<noteq> []
           \<and> (\<forall>a \<in> set answers. is_ip_allowed_for_policy a allow_internal)"
  proof (cases "ip_address ?host")
    case None
    with rest obtain ips where r: "resolve_hostname_ips (gw_dns gw 0 ?host) = Inr ips"
      and ok: "all_allowed allow_internal ips" by auto
    from ok have "ips \<noteq> []" "\<forall>a \<in> set ips. is_ip_allowed_for_policy a allow_internal"
      by (simp_all add: all_allowed_def list_all_iff)
    with resolved_answer [OF r] None show ?thesis by fastforce
  qed (use rest in simp)
  with u free show ?thesis by blast
qed

definition sample_gateway :: gateway where
  "sample_gateway = \<lparr> gw_dns = (\<lambda>n host. Addresses (if n = 0 then [''8.8.8.8''] else [''1.1.1.1''])),
     gw_hmac = (\<lambda>k m. ''mac''), gw_sha256 = (\<lambda>s. ''d19e57''),
     gw_target_secret = None, gw_jwt_secret = Some ''secret'', gw_ephemeral_key = ''key'',
     gw_fs = sample_fs, gw_abspath = (\<lambda>s. s) \<rparr>"

theorem accepted_url_is_safe_witness:
  "validate_target_url sample_gateway ''https://h.io/a'' False = Inr True
   \<and> validate_target_url sample_gateway ''https://[::ffff:7f00:1]/'' True = Inr False
   \<and> (\<exists>u. urlsplit (py_strip ''https://h.io/a'') = Some u \<and> py_lower (su_scheme u) \<in> {''http'', ''https''})"
proof -
  have ok: "validate_target_url sample_gateway ''https://h.io/a'' False = Inr True" by code_simp
  have no: "validate_target_url sample_gateway ''https://[::ffff:7f00:1]/'' True = Inr False" by code_simp
  from ok no accepted_url_is_safe [OF ok] show ?thesis by blast
qed

lemma url_destination_pins:
  assumes "url_destination gw canonical = Inr (ips, selected, port, scheme)" "ips \<noteq> []"
  shows "selected = hd ips \<and> (\<exists>host answers. gw_dns gw 1 host = Addresses answers \<and> set ips = set answers)"
  using assms resolved_answer
  by (fastforce simp: url_destination_def and_then_Inr Let_def split: option.splits)

lemma domain_destination_pins:
  assumes "target_destination gw DOMAIN canonical = Inr (ips, selected, port, scheme)" "ips \<noteq> []"
  shows "selected = hd ips \<and> (\<exists>host answers. gw_dns gw 1 host = Addresses answers \<and> set ips = set answers)"
  using assms resolved_answer
  by (fastforce simp: target_destination_def and_then_Inr Let_def split: option.splits)

lemma require_Inr [simp]: "require b = Inr u \<longleftrightarrow> b"
  by (simp add: require_def)

lemma create_parts:
  assumes "create_validated_target gw t_type value org project asset workspace allow_internal scope changing probing = Inr vt"
  obtains ips selected port scheme where
    "assert_safe_target gw (type_value t_type) value allow_internal = Inr ()"
    "target_destination gw t_type (py_strip value) = Inr (ips, selected, port, scheme)"
    "recheck_addresses t_type allow_internal ips = Inr ()"
    "\<not> ((probing \<or> changing) \<and> \<not> truthy asset)"
    "vt = \<lparr> vt_target_id = target_identity gw (py_strip value) selected,
       vt_authorization_decision_id = decision_identity gw org project asset
         (target_identity gw (py_strip value) selected) APP_VERSION,
       vt_integrity_seal = compute_gateway_seal gw (target_identity gw (py_strip value) selected)
         (decision_identity gw org project asset (target_identity gw (py_strip value) selected) APP_VERSION)
         APP_VERSION (sha256_hex gw (json_dumps (context_material
           (authorization_context t_type (py_strip value) allow_internal probing changing) scope workspace))),
       vt_organization_id = org, vt_project_id = project, vt_asset_id = asset,
       vt_workspace_id = workspace, vt_target_type = t_type, vt_raw_value = value,
       vt_canonical_value = py_strip value, vt_authorized_scope = scope,
       vt_resolved_addresses = ips, vt_selected_destination = selected, vt_port = port,
       vt_scheme = scheme,
       vt_authorization_context = authorization_context t_type (py_strip value) allow_internal probing changing,
       vt_policy_version = APP_VERSION \<rparr>"
  using assms unfolding create_validated_target_def and_then_Inr Let_def
  by (auto simp: and_then_Inr split: prod.splits)

text \<open>C34. The destination a URL or domain target is pinned to comes from the second lookup, the one made
  when the target is constructed, and every address of that lookup was put to the policy: an answer
  that changes between the gate's lookup and this one cannot become the destination.\<close>

theorem pinned_destination_is_rechecked:
  assumes "create_validated_target gw t_type value org project asset workspace allow_internal scope changing probing = Inr vt"
    and "t_type \<in> {URL, DOMAIN}"
  shows "vt_selected_destination vt \<in> set (vt_resolved_addresses vt)
    \<and> (\<forall>a \<in> set (vt_resolved_addresses vt). is_ip_allowed_for_policy a allow_internal)
    \<and> (\<exists>host answers. gw_dns gw 1 host = Addresses answers \<and> set (vt_resolved_addresses vt) = set answers)"
proof -
  from assms(1) obtain ips selected port scheme where
    dest: "target_destination gw t_type (py_strip value) = Inr (ips, selected, port, scheme)"
    and re: "recheck_addresses t_type allow_internal ips = Inr ()"
    and vt: "vt_selected_destination vt = selected" "vt_resolved_addresses vt = ips"
    by (rule create_parts) simp
  from re assms(2) have ips: "ips \<noteq> []" "\<forall>a \<in> set ips. is_ip_allowed_for_policy a allow_internal"
    by (auto simp: recheck_addresses_def list_all_iff)
  have "selected = hd ips \<and> (\<exists>host answers. gw_dns gw 1 host = Addresses answers \<and> set ips = set answers)"
    using assms(2) dest url_destination_pins [OF _ ips(1)] domain_destination_pins [OF _ ips(1)]
    by (auto simp: target_destination_def)
  with ips vt show ?thesis by auto
qed

theorem pinned_destination_is_rechecked_witness:
  "\<exists>vt. create_validated_target sample_gateway URL ''https://h.io'' ''o'' None None None False [] False False = Inr vt
     \<and> vt_selected_destination vt = ''1.1.1.1'' \<and> is_ip_allowed_for_policy ''1.1.1.1'' False"
proof -
  have "case create_validated_target sample_gateway URL ''https://h.io'' ''o'' None None None False [] False False of
      Inr vt \<Rightarrow> vt_selected_destination vt = ''1.1.1.1'' | Inl e \<Rightarrow> False" by code_simp
  then obtain vt where vt: "create_validated_target sample_gateway URL ''https://h.io'' ''o'' None None None False [] False False = Inr vt"
    and d: "vt_selected_destination vt = ''1.1.1.1''"
    by (auto split: sum.splits)
  from pinned_destination_is_rechecked [OF vt] d have "is_ip_allowed_for_policy ''1.1.1.1'' False" by auto
  with vt d show ?thesis by blast
qed

section \<open>Created targets at the execution boundary\<close>

definition hex_text_ok :: "string \<Rightarrow> bool" where
  "hex_text_ok s = (s \<noteq> [] \<and> list_all (\<lambda>c. c \<in> set ''0123456789abcdef'') s)"

text \<open>What is documented of the hashes: a hexadecimal digest, a non-empty MAC.\<close>

definition hashes_ok :: "gateway \<Rightarrow> bool" where
  "hashes_ok gw = ((\<forall>s. hex_text_ok (gw_sha256 gw s)) \<and> (\<forall>k m. gw_hmac gw k m \<noteq> []))"

lemma hex_chars: "c \<in> set ''0123456789abcdef'' \<Longrightarrow> (of_char c :: nat) < 128 \<and> c \<noteq> CHR '':''"
  by (simp only: list.set insert_iff empty_iff, elim disjE) simp_all

lemma hex_ascii: "hex_text_ok s \<Longrightarrow> ascii s" "hex_text_ok s \<Longrightarrow> CHR '':'' \<notin> set s"
  unfolding hex_text_ok_def ascii_def list_all_iff using hex_chars by blast+

lemma hex_digit_cases: "n < 16 \<Longrightarrow> hex_digit n \<in> set ''0123456789abcdef''"
proof -
  assume "n < 16"
  then have "n < 10 \<and> n \<in> {0,1,2,3,4,5,6,7,8,9} \<or> \<not> n < 10 \<and> n \<in> {10,11,12,13,14,15}" by (simp, arith)
  then show ?thesis by (elim disjE conjE insertE) (simp_all add: hex_digit_def code_eq)
qed

lemma hexdigest_hex: "b \<noteq> [] \<Longrightarrow> hex_text_ok (hexdigest b)"
proof -
  have "list_all (\<lambda>c. c \<in> set ''0123456789abcdef'') (hexdigest b)"
  proof (induction b)
    case (Cons c b)
    have "(of_char c :: nat) div 16 < 16" using nat_of_char_less_256 [of c] by (simp add: less_mult_imp_div_less)
    with Cons hex_digit_cases show ?case
      by (simp add: hexdigest_def Let_def del: set_simps list.set)
  qed (simp add: hexdigest_def)
  moreover assume "b \<noteq> []"
  ultimately show ?thesis by (cases b) (auto simp: hex_text_ok_def hexdigest_def Let_def)
qed

lemma sha256_hex_ok: "hashes_ok gw \<Longrightarrow> hex_text_ok (sha256_hex gw s)"
  by (simp add: hashes_ok_def sha256_hex_def)

lemma seal_hex_ok: "hashes_ok gw \<Longrightarrow> hex_text_ok (compute_gateway_seal gw a b c d)"
  by (simp add: hashes_ok_def compute_gateway_seal_def hexdigest_hex)

lemma require_digest_self: "hex_text_ok s \<Longrightarrow> require_digest s s = Inr ()"
  by (simp add: require_digest_def compare_digest_def hex_ascii require_def)

lemma require_digest_Inr: "require_digest a b = Inr u \<longleftrightarrow> ascii a \<and> ascii b \<and> a = b"
  by (auto simp: require_digest_def compare_digest_def and_then_Inr)

lemma context_gets [simp]:
  fixes t v i p c
  defines "ctx \<equiv> authorization_context t v i p c"
  shows "context_get ctx ''allow_internal'' = JBool i" "context_get ctx ''active_probing_granted'' = JBool p"
    "context_get ctx ''state_changing_granted'' = JBool c" "context_get ctx ''dns_zone_authorized'' = JBool (t = DOMAIN)"
    "context_get ctx ''validated_by'' = JStr ''assert_safe_target''"
    "context_get ctx ''cloud_provider'' = (if t \<in> {CLOUD_ACCOUNT, KUBERNETES_CLUSTER} \<and> py_contains ''://'' v
         then JStr (py_lower (fst (partition_scheme v))) else JNull)"
  by (simp_all add: ctx_def context_get_def authorization_context_def)

definition is_http :: "string \<Rightarrow> bool" where
  "is_http val = (startswith ''http://'' val \<or> startswith ''https://'' val)"

lemma assert_safe_target_Inr:
  "assert_safe_target gw t v i = Inr u \<longleftrightarrow> validate_target_security gw t v i = Inr True"
  by (auto simp: assert_safe_target_def assert_safe_def and_then_Inr split: if_splits)

lemma security_cloud:
  assumes "validate_target_security gw ''CLOUD_ACCOUNT'' v i = Inr True"
  shows "case partition_scheme (py_strip v) of (provider, separator, identifier) \<Rightarrow>
     py_lower provider \<in> {''aws'', ''azure'', ''gcp''} \<and> separator"
  using assms by (simp add: validate_target_security_def Let_def split: prod.splits if_splits)

lemma security_kubernetes:
  assumes "validate_target_security gw ''KUBERNETES_CLUSTER'' v i = Inr True" "\<not> is_http (py_strip v)"
  shows "case partition_scheme (py_strip v) of (provider, separator, identifier) \<Rightarrow>
     py_lower provider = ''kubernetes'' \<and> separator"
  using assms by (simp add: validate_target_security_def is_http_def Let_def split: prod.splits if_splits)

lemma partition_scheme_contains: "partition_scheme s = (a, True, b) \<Longrightarrow> py_contains ''://'' s"
  by (induction s arbitrary: a b rule: partition_scheme.induct) (auto split: if_splits prod.splits)

lemma partition_http:
  assumes "is_http s" shows "fst (partition_scheme s) \<in> {''http'', ''https''} \<and> py_contains ''://'' s"
proof -
  from assms obtain r where "s = ''http://'' @ r \<or> s = ''https://'' @ r"
    unfolding is_http_def startswith_def by (metis append_take_drop_id)
  then show ?thesis by (auto simp: startswith_def)
qed

lemma safe_target_nonempty:
  assumes "validate_target_security gw (type_value t) v i = Inr True"
  shows "py_strip v \<noteq> []"
proof
  assume e: "py_strip v = []"
  have "validate_target_security gw (type_value t) v i = Inr False"
    by (cases t) (simp_all add: validate_target_security_def e validate_target_url_def validate_target_domain_def
      validate_target_ip_def validate_path_sandbox_def is_path_safe_def startswith_def dangerous_chars_def py_lower_def)
  with assms show False by simp
qed

lemma canon_scalars [simp]: "map (canon \<circ> JStr) xs = map JStr xs"
  by (induction xs) simp_all

lemma no_mapping_context:
  "\<not> list_ex (\<lambda>k. has_mapping (context_get (authorization_context t v i p c) k))
     [''allow_internal'', ''active_probing_granted'', ''state_changing_granted'', ''dns_zone_authorized'', ''cloud_provider'']"
  by simp

lemma created_cloud_provider:
  assumes "validate_target_security gw (type_value t) v i = Inr True"
    and "vt_target_type vt = t" "vt_authorization_context vt = authorization_context t (py_strip v) i p c"
  shows "cloud_provider_valid vt = Inr () \<longleftrightarrow> \<not> (t = KUBERNETES_CLUSTER \<and> is_http (py_strip v))"
proof -
  consider "t = CLOUD_ACCOUNT" | "t = KUBERNETES_CLUSTER" "is_http (py_strip v)"
    | "t = KUBERNETES_CLUSTER" "\<not> is_http (py_strip v)" | "t \<notin> {CLOUD_ACCOUNT, KUBERNETES_CLUSTER}" by blast
  then show ?thesis
  proof cases
    case 1
    with assms(1) security_cloud [of gw v i] partition_scheme_contains [of "py_strip v"]
    have "py_lower (fst (partition_scheme (py_strip v))) \<in> {''aws'', ''azure'', ''gcp''}
        \<and> py_contains ''://'' (py_strip v)" by (auto split: prod.splits)
    with 1 assms(2,3) show ?thesis by (auto simp: cloud_provider_valid_def)
  next
    case 2
    with partition_http [OF 2(2)]
    have "py_lower (fst (partition_scheme (py_strip v))) \<in> {''http'', ''https''}
        \<and> py_contains ''://'' (py_strip v)" by (auto simp: py_lower_def py_lower_char_def)
    with 2 assms(2,3) show ?thesis by (auto simp: cloud_provider_valid_def image_iff)
  next
    case 3
    with assms(1) security_kubernetes [of gw v i] partition_scheme_contains [of "py_strip v"]
    have "py_lower (fst (partition_scheme (py_strip v))) = ''kubernetes''
        \<and> py_contains ''://'' (py_strip v)" by (auto split: prod.splits)
    with 3 assms(2,3) show ?thesis by (auto simp: cloud_provider_valid_def)
  next
    case 4
    with assms(2) show ?thesis by (auto simp: cloud_provider_valid_def)
  qed
qed

lemma created_acceptance:
  assumes "create_validated_target gw t_type value org project asset workspace allow_internal scope changing probing = Inr vt"
    and "hashes_ok gw"
  shows "validate_validated_target gw vt = Inr () \<longleftrightarrow>
    org \<noteq> [] \<and> vt_selected_destination vt \<noteq> []
    \<and> \<not> (t_type = KUBERNETES_CLUSTER \<and> is_http (py_strip value))"
proof -
  from assms(1) obtain ips selected port scheme where
    safe: "assert_safe_target gw (type_value t_type) value allow_internal = Inr ()"
    and auth: "\<not> ((probing \<or> changing) \<and> \<not> truthy asset)"
    and vt: "vt = \<lparr> vt_target_id = target_identity gw (py_strip value) selected,
       vt_authorization_decision_id = decision_identity gw org project asset
         (target_identity gw (py_strip value) selected) APP_VERSION,
       vt_integrity_seal = compute_gateway_seal gw (target_identity gw (py_strip value) selected)
         (decision_identity gw org project asset (target_identity gw (py_strip value) selected) APP_VERSION)
         APP_VERSION (sha256_hex gw (json_dumps (context_material
           (authorization_context t_type (py_strip value) allow_internal probing changing) scope workspace))),
       vt_organization_id = org, vt_project_id = project, vt_asset_id = asset,
       vt_workspace_id = workspace, vt_target_type = t_type, vt_raw_value = value,
       vt_canonical_value = py_strip value, vt_authorized_scope = scope,
       vt_resolved_addresses = ips, vt_selected_destination = selected, vt_port = port,
       vt_scheme = scheme,
       vt_authorization_context = authorization_context t_type (py_strip value) allow_internal probing changing,
       vt_policy_version = APP_VERSION \<rparr>"
    by (rule create_parts)
  from safe have sec: "validate_target_security gw (type_value t_type) value allow_internal = Inr True"
    by (simp add: assert_safe_target_Inr)
  have ids: "hex_text_ok (target_identity gw a b)" "hex_text_ok (decision_identity gw o' p' a' t' v')"
    "hex_text_ok (compute_gateway_seal gw w x y z)" for a b o' p' a' t' v' w x y z
    using sha256_hex_ok [OF assms(2)] seal_hex_ok [OF assms(2)]
    by (simp_all add: target_identity_def decision_identity_def)
  have ne: "target_identity gw a b \<noteq> []" "decision_identity gw o' p' a' t' v' \<noteq> []"
    "compute_gateway_seal gw w x y z \<noteq> []" for a b o' p' a' t' v' w x y z
    using ids by (auto simp: hex_text_ok_def)
  have cloud: "cloud_provider_valid vt = Inr () \<longleftrightarrow> \<not> (t_type = KUBERNETES_CLUSTER \<and> is_http (py_strip value))"
    by (rule created_cloud_provider [OF sec]) (simp_all add: vt)
  have ctx: "context_valid vt" by (simp add: context_valid_def vt is_bool_def)
  have digest: "validated_target_context_digest gw vt = Inr (sha256_hex gw (json_dumps (context_material
       (authorization_context t_type (py_strip value) allow_internal probing changing) scope workspace)))"
    using no_mapping_context unfolding validated_target_context_digest_def Let_def by (simp add: vt)
  show ?thesis
    unfolding validate_validated_target_def Let_def and_then_Inr
    using cloud ctx digest auth safe_target_nonempty [OF sec] ne require_digest_self [OF ids(1)]
      require_digest_self [OF ids(2)] require_digest_self [OF ids(3)]
    by (auto simp: vt APP_VERSION_def)
qed

text \<open>A target the gateway has just created passes the re-validation of the execution boundary
  exactly when it names an organization and a destination and is not a Kubernetes API endpoint given
  as an http(s) URL: such a target is created and then always refused, because its recorded provider
  is \<open>http\<close> or \<open>https\<close>.\<close>

theorem created_target_accepted:
  assumes "create_validated_target gw t_type value org project asset workspace allow_internal scope changing probing = Inr vt"
    and "hashes_ok gw"
  shows "validate_validated_target gw vt = Inr () \<longleftrightarrow>
    org \<noteq> [] \<and> vt_selected_destination vt \<noteq> []
    \<and> \<not> (t_type = KUBERNETES_CLUSTER \<and> is_http (py_strip value))"
  by (rule created_acceptance [OF assms])

lemma sample_hashes_ok: "hashes_ok sample_gateway"
  by (simp add: hashes_ok_def sample_gateway_def hex_text_ok_def)

definition created :: "TargetType \<Rightarrow> string \<Rightarrow> gateway_error + validated_target" where
  "created t v = create_validated_target sample_gateway t v ''org'' None None None False [] False False"

theorem created_target_accepted_witness:
  "(\<exists>vt. created URL '' https://h.io '' = Inr vt \<and> validate_validated_target sample_gateway vt = Inr ())
   \<and> (\<exists>vt. created KUBERNETES_CLUSTER ''https://h.io'' = Inr vt \<and> validate_validated_target sample_gateway vt \<noteq> Inr ())"
proof -
  have u: "case created URL '' https://h.io '' of Inr vt \<Rightarrow> vt_selected_destination vt \<noteq> [] | Inl e \<Rightarrow> False"
    "case created KUBERNETES_CLUSTER ''https://h.io'' of Inr vt \<Rightarrow> True | Inl e \<Rightarrow> False"
    by code_simp+
  from u(1) obtain a where a: "created URL '' https://h.io '' = Inr a" "vt_selected_destination a \<noteq> []"
    by (auto split: sum.splits)
  from u(2) obtain b where b: "created KUBERNETES_CLUSTER ''https://h.io'' = Inr b"
    by (auto split: sum.splits)
  have "is_http (py_strip ''https://h.io'')" by code_simp
  with created_target_accepted [OF a(1) [unfolded created_def] sample_hashes_ok] a
    created_target_accepted [OF b [unfolded created_def] sample_hashes_ok] b
  show ?thesis by auto
qed

end
