(* ===== verification/Ssrf_Seal.thy ===== *)
theory Ssrf_Seal
  imports Ssrf_Properties
begin

text \<open>
  What the integrity seal of a validated target binds and what it does not, and the address an IP
  target is pinned to.
\<close>

section \<open>What the seal binds\<close>

text \<open>The texts the gateway hashes for a target (its identity, its decision's identity, its context) and
  the text it signs.\<close>

definition target_text :: "validated_target \<Rightarrow> string" where
  "target_text vt = vt_canonical_value vt @ '':'' @ vt_selected_destination vt"

definition decision_text :: "validated_target \<Rightarrow> string" where
  "decision_text vt = join_with '':''
     [vt_organization_id vt, or_else (vt_project_id vt) [], or_else (vt_asset_id vt) [], vt_target_id vt, vt_policy_version vt]"

definition context_text :: "validated_target \<Rightarrow> string" where
  "context_text vt = json_dumps (context_material (vt_authorization_context vt) (vt_authorized_scope vt) (vt_workspace_id vt))"

definition seal_text :: "gateway \<Rightarrow> validated_target \<Rightarrow> string" where
  "seal_text gw vt = seal_payload (vt_target_id vt) (vt_authorization_decision_id vt) (vt_policy_version vt)
     (sha256_hex gw (context_text vt))"

text \<open>A collision between two targets: corresponding texts of the two differ and still have the same
  SHA-256 digest, or, for the signed text, the same HMAC under the gateway's key.\<close>

definition seal_collision :: "gateway \<Rightarrow> validated_target \<Rightarrow> validated_target \<Rightarrow> bool" where
  "seal_collision gw vt vt' =
     (list_ex (\<lambda>text. text vt \<noteq> text vt' \<and> gw_sha256 gw (utf8 (text vt)) = gw_sha256 gw (utf8 (text vt')))
        [target_text, decision_text, context_text]
      \<or> (seal_text gw vt \<noteq> seal_text gw vt'
          \<and> gw_hmac gw (gateway_seal_key gw) (utf8 (seal_text gw vt)) = gw_hmac gw (gateway_seal_key gw) (utf8 (seal_text gw vt'))))"

lemma char_of_small: "m < 256 \<Longrightarrow> n < 256 \<Longrightarrow> (char_of m :: char) = char_of n \<longleftrightarrow> m = n" for m n :: nat
  by (simp add: code_eq)

lemma byte_bounds:
  "(of_char (c :: char) :: nat) div 64 < 4" "192 + (of_char c :: nat) div 64 < 256" "128 + (of_char c :: nat) mod 64 < 256"
proof -
  show d: "(of_char c :: nat) div 64 < 4" using nat_of_char_less_256 [of c] by (simp add: less_mult_imp_div_less)
  then show "192 + (of_char c :: nat) div 64 < 256" by linarith
  have "(of_char c :: nat) mod 64 < 64" by simp
  then show "128 + (of_char c :: nat) mod 64 < 256" by linarith
qed

lemma utf8_char_head:
  "of_char (hd (utf8_char c)) < (128 :: nat) \<longleftrightarrow> (of_char c :: nat) < 128"
  using byte_bounds(2) [of c] by (simp add: utf8_char_def Let_def)

lemma utf8_char_cases:
  assumes eq: "utf8_char c @ s = utf8_char d @ t" shows "c = d \<and> s = t"
proof -
  let ?c = "of_char c :: nat" and ?d = "of_char d :: nat"
  have "utf8_char x \<noteq> []" for x by (simp add: utf8_char_def Let_def)
  then have "hd (utf8_char c) = hd (utf8_char d)" by (metis eq hd_append2)
  then have side: "?c < 128 \<longleftrightarrow> ?d < 128" by (metis utf8_char_head)
  show ?thesis
  proof (cases "?c < 128")
    case True
    with eq side show ?thesis by (simp add: utf8_char_def)
  next
    case False
    note b = byte_bounds(2,3) [of c] byte_bounds(2,3) [of d]
    from False eq side have "char_of (192 + ?c div 64) = (char_of (192 + ?d div 64) :: char)"
      "char_of (128 + ?c mod 64) = (char_of (128 + ?d mod 64) :: char)" and st: "s = t"
      by (simp_all add: utf8_char_def Let_def)
    with b have "?c div 64 = ?d div 64" "?c mod 64 = ?d mod 64" by (simp_all only: char_of_small add_left_cancel)
    then have "?c = ?d" by (metis div_mult_mod_eq)
    with st show ?thesis by simp
  qed
qed

lemma utf8_inj: "utf8 a = utf8 b \<Longrightarrow> a = b"
proof (induction a arbitrary: b)
  case Nil
  then show ?case by (cases b) (auto simp: utf8_def utf8_char_def Let_def split: if_splits)
next
  case (Cons c a)
  then obtain d b' where b: "b = d # b'"
    by (cases b) (auto simp: utf8_def utf8_char_def Let_def split: if_splits)
  with Cons.prems have "utf8_char c @ utf8 a = utf8_char d @ utf8 b'" by (simp add: utf8_def)
  from utf8_char_cases [OF this] Cons.IH [of b'] b show ?case by simp
qed

lemma hex_digit_inj: "m < 16 \<Longrightarrow> n < 16 \<Longrightarrow> hex_digit m = hex_digit n \<Longrightarrow> m = n"
  by (metis hex_number_digit)

lemma hexdigest_inj: "hexdigest a = hexdigest b \<Longrightarrow> a = b"
proof (induction a arbitrary: b)
  case Nil
  then show ?case by (cases b) (auto simp: hexdigest_def Let_def)
next
  case (Cons c a)
  then obtain d b' where b: "b = d # b'" by (cases b) (auto simp: hexdigest_def Let_def)
  let ?c = "of_char c :: nat" and ?d = "of_char d :: nat"
  have lt: "?c div 16 < 16" "?d div 16 < 16" using nat_of_char_less_256 by (simp_all add: less_mult_imp_div_less)
  from Cons.prems have "hex_digit (?c div 16) = hex_digit (?d div 16)" "hex_digit (?c mod 16) = hex_digit (?d mod 16)"
    and rest: "hexdigest a = hexdigest b'" by (simp_all add: hexdigest_def Let_def b)
  with lt have "?c div 16 = ?d div 16" "?c mod 16 = ?d mod 16" by (auto intro: hex_digit_inj)
  then have "?c = ?d" by (metis div_mult_mod_eq)
  with rest Cons.IH [of b'] b show ?case by simp
qed

lemma split_colon:
  "a @ CHR '':'' # r = b @ CHR '':'' # q \<Longrightarrow> CHR '':'' \<notin> set a \<Longrightarrow> CHR '':'' \<notin> set b \<Longrightarrow> a = b \<and> r = q"
  by (induction a arbitrary: b) (auto simp: Cons_eq_append_conv append_eq_Cons_conv)

lemma canon_no_mapping: "\<not> has_mapping v \<Longrightarrow> canon v = v"
  by (induction v rule: canon.induct) (auto simp: list_ex_iff intro: map_idI)

lemma material_sorted:
  "sort_keys [(''allow_internal'', a), (''active_probing_granted'', b), (''state_changing_granted'', c),
     (''dns_zone_authorized'', d), (''cloud_provider'', e), (''authorized_scope'', f), (''workspace_id'', g)]
   = [(''active_probing_granted'', b), (''allow_internal'', a), (''authorized_scope'', f), (''cloud_provider'', e),
      (''dns_zone_authorized'', d), (''state_changing_granted'', c), (''workspace_id'', g)]"
  by (simp add: sort_keys_def)

lemma context_material_inj:
  assumes "json_dumps (context_material c s w) = json_dumps (context_material c' s' w')"
    and "\<forall>k \<in> {''allow_internal'', ''active_probing_granted'', ''state_changing_granted'', ''dns_zone_authorized'', ''cloud_provider''}.
      \<not> has_mapping (context_get c k) \<and> \<not> has_mapping (context_get c' k)"
  shows "(\<forall>k \<in> {''allow_internal'', ''active_probing_granted'', ''state_changing_granted'', ''dns_zone_authorized'', ''cloud_provider''}.
      context_get c k = context_get c' k) \<and> s = s' \<and> or_else w [] = or_else w' []"
proof -
  have "canon (context_material c s w) = canon (context_material c' s' w')"
    using assms(1) by (simp add: json_dumps_binds)
  moreover have "map JStr s = map JStr s' \<Longrightarrow> s = s'" by (metis inj_map_eq_map inj_def json.inject(3))
  ultimately show ?thesis using assms(2)
    by (simp add: context_material_def material_sorted canon_no_mapping)
qed

lemma validated_parts:
  assumes "validate_validated_target gw vt = Inr u"
  shows "vt_policy_version vt = APP_VERSION"
    "vt_target_id vt = target_identity gw (vt_canonical_value vt) (vt_selected_destination vt)"
    "vt_authorization_decision_id vt = decision_identity gw (vt_organization_id vt) (vt_project_id vt)
       (vt_asset_id vt) (vt_target_id vt) (vt_policy_version vt)"
    "vt_integrity_seal vt = compute_gateway_seal gw (vt_target_id vt) (vt_authorization_decision_id vt)
       APP_VERSION (sha256_hex gw (json_dumps (context_material (vt_authorization_context vt)
         (vt_authorized_scope vt) (vt_workspace_id vt))))"
    "\<forall>k \<in> {''allow_internal'', ''active_probing_granted'', ''state_changing_granted'', ''dns_zone_authorized'', ''cloud_provider''}.
       \<not> has_mapping (context_get (vt_authorization_context vt) k)"
proof -
  from assms obtain digest where p: "vt_policy_version vt = APP_VERSION"
    and t: "vt_target_id vt = target_identity gw (vt_canonical_value vt) (vt_selected_destination vt)"
    and d: "vt_authorization_decision_id vt = decision_identity gw (vt_organization_id vt) (vt_project_id vt)
       (vt_asset_id vt) (vt_target_id vt) (vt_policy_version vt)"
    and c: "validated_target_context_digest gw vt = Inr digest"
    and s: "vt_integrity_seal vt = compute_gateway_seal gw (vt_target_id vt) (vt_authorization_decision_id vt)
       (vt_policy_version vt) digest"
    unfolding validate_validated_target_def Let_def and_then_Inr require_digest_Inr require_Inr by blast
  from c have m: "\<not> list_ex (\<lambda>k. has_mapping (context_get (vt_authorization_context vt) k))
      [''allow_internal'', ''active_probing_granted'', ''state_changing_granted'', ''dns_zone_authorized'', ''cloud_provider'']"
    and digest: "digest = sha256_hex gw (json_dumps (context_material (vt_authorization_context vt)
         (vt_authorized_scope vt) (vt_workspace_id vt)))"
    unfolding validated_target_context_digest_def Let_def by (auto split: if_splits)
  show "vt_policy_version vt = APP_VERSION" by (rule p)
  show "vt_target_id vt = target_identity gw (vt_canonical_value vt) (vt_selected_destination vt)" by (rule t)
  show "vt_authorization_decision_id vt = decision_identity gw (vt_organization_id vt) (vt_project_id vt)
       (vt_asset_id vt) (vt_target_id vt) (vt_policy_version vt)" by (rule d)
  show "vt_integrity_seal vt = compute_gateway_seal gw (vt_target_id vt) (vt_authorization_decision_id vt)
       APP_VERSION (sha256_hex gw (json_dumps (context_material (vt_authorization_context vt)
         (vt_authorized_scope vt) (vt_workspace_id vt))))" using s p digest by simp
  show "\<forall>k \<in> {''allow_internal'', ''active_probing_granted'', ''state_changing_granted'', ''dns_zone_authorized'', ''cloud_provider''}.
       \<not> has_mapping (context_get (vt_authorization_context vt) k)" using m by auto
qed

lemma split_last_colon:
  assumes "a @ '':'' @ b = c @ '':'' @ d" and "CHR '':'' \<notin> set b" and "CHR '':'' \<notin> set d"
  shows "a = c \<and> b = d"
proof -
  have "rev b @ CHR '':'' # rev a = rev d @ CHR '':'' # rev c"
    using arg_cong [OF assms(1), of rev] by (simp only: rev_append append_assoc rev.simps append.simps)
  from split_colon [OF this] assms(2,3) show ?thesis by simp
qed

lemma same_decision_parts:
  assumes "decision_text vt = decision_text vt'"
    and "\<forall>x \<in> {vt, vt'}. CHR '':'' \<notin> set (vt_organization_id x) \<union> set (or_else (vt_project_id x) []) \<union> set (or_else (vt_asset_id x) [])"
  shows "vt_organization_id vt = vt_organization_id vt' \<and> or_else (vt_project_id vt) [] = or_else (vt_project_id vt') []
    \<and> or_else (vt_asset_id vt) [] = or_else (vt_asset_id vt') []"
proof -
  let ?r = "\<lambda>vt. vt_target_id vt @ CHR '':'' # vt_policy_version vt"
  have "vt_organization_id vt @ CHR '':'' # (or_else (vt_project_id vt) [] @ CHR '':'' # (or_else (vt_asset_id vt) [] @ CHR '':'' # ?r vt))
      = vt_organization_id vt' @ CHR '':'' # (or_else (vt_project_id vt') [] @ CHR '':'' # (or_else (vt_asset_id vt') [] @ CHR '':'' # ?r vt'))"
    using assms(1) by (simp add: decision_text_def)
  from split_colon [OF this] assms(2) have org: "vt_organization_id vt = vt_organization_id vt'"
    and r: "or_else (vt_project_id vt) [] @ CHR '':'' # (or_else (vt_asset_id vt) [] @ CHR '':'' # ?r vt)
      = or_else (vt_project_id vt') [] @ CHR '':'' # (or_else (vt_asset_id vt') [] @ CHR '':'' # ?r vt')" by simp_all
  from split_colon [OF r] assms(2) have project: "or_else (vt_project_id vt) [] = or_else (vt_project_id vt') []"
    and r: "or_else (vt_asset_id vt) [] @ CHR '':'' # ?r vt = or_else (vt_asset_id vt') [] @ CHR '':'' # ?r vt'" by simp_all
  from split_colon [OF r] assms(2) org project show ?thesis by simp
qed

lemma no_collision_texts:
  assumes "\<not> seal_collision gw vt vt'"
  shows "text \<in> {target_text, decision_text, context_text} \<Longrightarrow> sha256_hex gw (text vt) = sha256_hex gw (text vt')
      \<Longrightarrow> text vt = text vt'"
    "hexdigest (gw_hmac gw (gateway_seal_key gw) (utf8 (seal_text gw vt)))
      = hexdigest (gw_hmac gw (gateway_seal_key gw) (utf8 (seal_text gw vt'))) \<Longrightarrow> seal_text gw vt = seal_text gw vt'"
proof -
  show "text vt = text vt'" if pick: "text \<in> {target_text, decision_text, context_text}"
    and same: "sha256_hex gw (text vt) = sha256_hex gw (text vt')"
  proof (rule ccontr)
    assume "text vt \<noteq> text vt'"
    with pick assms same [unfolded sha256_hex_def] show False unfolding seal_collision_def list_ex_iff list.set by blast
  qed
  show "seal_text gw vt = seal_text gw vt'"
    if "hexdigest (gw_hmac gw (gateway_seal_key gw) (utf8 (seal_text gw vt)))
      = hexdigest (gw_hmac gw (gateway_seal_key gw) (utf8 (seal_text gw vt')))"
    using assms hexdigest_inj [OF that] unfolding seal_collision_def by blast
qed

text \<open>C35. The seal binds the authorization of a target: two targets the execution boundary accepts under
  one gateway with the same seal have the same target and decision identities, the same texts
  \<open>canonical:destination\<close> and \<open>organization:project:asset:target:policy\<close>, and the same granted
  authorizations, provider, scope and workspace, unless one of the texts hashed for the one collides
  with that of the other under SHA-256 or HMAC-SHA256.  Organization, project and asset are the same
  one by one when none contains the separator, and value and destination when neither destination does.\<close>

theorem seal_binds_authorization:
  assumes "validate_validated_target gw vt = Inr ()" "validate_validated_target gw vt' = Inr ()"
    and "vt_integrity_seal vt = vt_integrity_seal vt'" and "hashes_ok gw"
  shows "seal_collision gw vt vt' \<or>
    (vt_target_id vt = vt_target_id vt' \<and> vt_authorization_decision_id vt = vt_authorization_decision_id vt'
     \<and> target_text vt = target_text vt' \<and> decision_text vt = decision_text vt'
     \<and> ((\<forall>x \<in> {vt, vt'}. CHR '':'' \<notin> set (vt_organization_id x) \<union> set (or_else (vt_project_id x) []) \<union> set (or_else (vt_asset_id x) []))
        \<longrightarrow> vt_organization_id vt = vt_organization_id vt' \<and> or_else (vt_project_id vt) [] = or_else (vt_project_id vt') []
            \<and> or_else (vt_asset_id vt) [] = or_else (vt_asset_id vt') [])
     \<and> (CHR '':'' \<notin> set (vt_selected_destination vt) \<union> set (vt_selected_destination vt')
        \<longrightarrow> vt_canonical_value vt = vt_canonical_value vt' \<and> vt_selected_destination vt = vt_selected_destination vt')
     \<and> (\<forall>k \<in> {''allow_internal'', ''active_probing_granted'', ''state_changing_granted'', ''dns_zone_authorized'', ''cloud_provider''}.
          context_get (vt_authorization_context vt) k = context_get (vt_authorization_context vt') k)
     \<and> vt_authorized_scope vt = vt_authorized_scope vt'
     \<and> or_else (vt_workspace_id vt) [] = or_else (vt_workspace_id vt') [])"
proof (cases "seal_collision gw vt vt'")
  case False
  note inj = no_collision_texts [OF False]
  note v = validated_parts [OF assms(1)] and v' = validated_parts [OF assms(2)]
  have sealed: "vt_integrity_seal x = hexdigest (gw_hmac gw (gateway_seal_key gw) (utf8 (seal_text gw x)))"
    if "x = vt \<or> x = vt'" for x
    using that v(1,4) v'(1,4) by (auto simp: seal_text_def context_text_def compute_gateway_seal_def)
  have pay: "seal_text gw vt = seal_text gw vt'" using assms(3) sealed by (intro inj(2)) simp
  have nc: "CHR '':'' \<notin> set (vt_target_id x)" "CHR '':'' \<notin> set (vt_authorization_decision_id x)"
    if "x = vt \<or> x = vt'" for x
    using that v(2,3) v'(2,3) hex_ascii(2) [OF sha256_hex_ok [OF assms(4)]]
    by (auto simp: target_identity_def decision_identity_def)
  let ?d = "\<lambda>vt. sha256_hex gw (context_text vt)"
  from pay have "vt_target_id vt @ CHR '':'' # vt_authorization_decision_id vt @ CHR '':'' # APP_VERSION @ CHR '':'' # ?d vt
      = vt_target_id vt' @ CHR '':'' # vt_authorization_decision_id vt' @ CHR '':'' # APP_VERSION @ CHR '':'' # ?d vt'"
    by (simp add: seal_text_def seal_payload_def v(1) v'(1))
  from split_colon [OF this] nc have t: "vt_target_id vt = vt_target_id vt'"
    and r: "vt_authorization_decision_id vt @ CHR '':'' # APP_VERSION @ CHR '':'' # ?d vt
      = vt_authorization_decision_id vt' @ CHR '':'' # APP_VERSION @ CHR '':'' # ?d vt'" by blast+
  from split_colon [OF r] nc have d: "vt_authorization_decision_id vt = vt_authorization_decision_id vt'"
    and r: "?d vt = ?d vt'" by auto
  have c1: "target_text vt = target_text vt'"
    by (rule inj(1) [of target_text])
      (simp, simp only: target_text_def t [unfolded v(2) v'(2) target_identity_def])
  have c2: "decision_text vt = decision_text vt'"
    by (rule inj(1) [of decision_text])
      (simp, simp only: decision_text_def d [unfolded v(3) v'(3) decision_identity_def])
  have "context_text vt = context_text vt'" by (rule inj(1) [of context_text, OF _ r]) simp
  then have c3: "(\<forall>k \<in> {''allow_internal'', ''active_probing_granted'', ''state_changing_granted'', ''dns_zone_authorized'', ''cloud_provider''}.
      context_get (vt_authorization_context vt) k = context_get (vt_authorization_context vt') k)
     \<and> vt_authorized_scope vt = vt_authorized_scope vt'
     \<and> or_else (vt_workspace_id vt) [] = or_else (vt_workspace_id vt') []"
    by (intro context_material_inj) (use v(5) v'(5) in \<open>simp_all add: context_text_def\<close>)
  have p1: "(\<forall>x \<in> {vt, vt'}. CHR '':'' \<notin> set (vt_organization_id x) \<union> set (or_else (vt_project_id x) []) \<union> set (or_else (vt_asset_id x) []))
        \<longrightarrow> vt_organization_id vt = vt_organization_id vt' \<and> or_else (vt_project_id vt) [] = or_else (vt_project_id vt') []
            \<and> or_else (vt_asset_id vt) [] = or_else (vt_asset_id vt') []"
    by (rule impI) (rule same_decision_parts [OF c2])
  have p2: "CHR '':'' \<notin> set (vt_selected_destination vt) \<union> set (vt_selected_destination vt')
        \<longrightarrow> vt_canonical_value vt = vt_canonical_value vt' \<and> vt_selected_destination vt = vt_selected_destination vt'"
    by (rule impI) (rule split_last_colon [OF c1 [unfolded target_text_def]], simp_all)
  from t d c1 c2 p1 p2 c3 show ?thesis by (intro disjI2 conjI) (elim conjE, assumption)+
qed simp

text \<open>The seal does not bind where the canonical value ends: an accepted target whose destination
  contains a colon, as every IPv6 address does, is still accepted after the part before that colon has
  moved into the canonical value, although it now connects elsewhere.\<close>

theorem seal_separator_moves:
  assumes "validate_validated_target gw vt = Inr ()"
    and "vt_selected_destination vt = a @ '':'' @ b" and "b \<noteq> []"
  shows "validate_validated_target gw
      (vt\<lparr>vt_canonical_value := vt_canonical_value vt @ '':'' @ a, vt_selected_destination := b\<rparr>) = Inr ()"
proof -
  let ?w = "vt\<lparr>vt_canonical_value := vt_canonical_value vt @ '':'' @ a, vt_selected_destination := b\<rparr>"
  have ctx: "context_valid ?w = context_valid vt" "cloud_provider_valid ?w = cloud_provider_valid vt"
    "validated_target_context_digest gw ?w = validated_target_context_digest gw vt"
    by (simp_all add: context_valid_def cloud_provider_valid_def validated_target_context_digest_def Let_def)
  have id: "target_identity gw (vt_canonical_value ?w) (vt_selected_destination ?w)
      = target_identity gw (vt_canonical_value vt) (vt_selected_destination vt)"
    by (simp add: target_identity_def assms(2))
  show ?thesis
    using assms(1,3) unfolding validate_validated_target_def Let_def and_then_Inr ctx id by auto
qed

section \<open>Concrete targets\<close>

definition strict_gateway :: gateway where
  "strict_gateway = sample_gateway\<lparr>gw_sha256 := (\<lambda>s. hexdigest (CHR ''x'' # s)), gw_hmac := (\<lambda>k m. CHR ''m'' # m)\<rparr>"

lemma strict_gateway_ok: "hashes_ok strict_gateway" "\<not> seal_collision strict_gateway vt vt'"
proof -
  show "hashes_ok strict_gateway" by (simp add: hashes_ok_def strict_gateway_def hexdigest_hex)
  show "\<not> seal_collision strict_gateway vt vt'"
    by (auto simp: seal_collision_def strict_gateway_def dest!: hexdigest_inj utf8_inj)
qed

lemma create_seal:
  assumes "create_validated_target gw t_type value org project asset workspace allow_internal scope changing probing = Inr vt"
  shows "vt_integrity_seal vt = compute_gateway_seal gw (target_identity gw (py_strip value) (vt_selected_destination vt))
      (decision_identity gw org project asset (target_identity gw (py_strip value) (vt_selected_destination vt)) APP_VERSION)
      APP_VERSION (sha256_hex gw (json_dumps (context_material
        (authorization_context t_type (py_strip value) allow_internal probing changing) scope workspace)))"
  using assms by (rule create_parts) simp

definition strictly_created :: "string \<Rightarrow> gateway_error + validated_target" where
  "strictly_created v = create_validated_target strict_gateway URL v ''org'' None None None False [] False False"

lemma strictly_created_ok:
  assumes "v \<in> {''https://h.io'', '' https://h.io''}"
  shows "\<exists>vt. strictly_created v = Inr vt \<and> vt_raw_value vt = v \<and> vt_selected_destination vt = ''1.1.1.1''"
proof -
  have safe: "assert_safe_target strict_gateway (type_value URL) ''https://h.io'' False = Inr ()"
    "assert_safe_target strict_gateway (type_value URL) '' https://h.io'' False = Inr ()" by code_simp+
  have dest: "target_destination strict_gateway URL ''https://h.io'' = Inr ([''1.1.1.1''], ''1.1.1.1'', Some 443, Some ''https'')"
    by code_simp
  have re: "recheck_addresses URL False [''1.1.1.1''] = Inr ()" by code_simp
  have strip: "py_strip ''https://h.io'' = ''https://h.io''" "py_strip '' https://h.io'' = ''https://h.io''" by code_simp+
  from assms safe dest re strip show ?thesis
    by (auto simp: strictly_created_def create_validated_target_def require_def Let_def)
qed

theorem seal_binds_authorization_witness:
  "\<exists>vt vt'. validate_validated_target strict_gateway vt = Inr () \<and> validate_validated_target strict_gateway vt' = Inr ()
     \<and> vt_raw_value vt \<noteq> vt_raw_value vt' \<and> vt_integrity_seal vt = vt_integrity_seal vt'
     \<and> vt_target_id vt = vt_target_id vt'
     \<and> vt_selected_destination vt = vt_selected_destination vt' \<and> vt_authorized_scope vt = vt_authorized_scope vt'"
proof -
  obtain a where a: "strictly_created ''https://h.io'' = Inr a" "vt_raw_value a = ''https://h.io''" "vt_selected_destination a = ''1.1.1.1''"
    using strictly_created_ok [of "''https://h.io''"] by auto
  obtain b where b: "strictly_created '' https://h.io'' = Inr b" "vt_raw_value b = '' https://h.io''" "vt_selected_destination b = ''1.1.1.1''"
    using strictly_created_ok [of "'' https://h.io''"] by auto
  have strip: "py_strip ''https://h.io'' = py_strip '' https://h.io''" by code_simp
  have ok: "validate_validated_target strict_gateway a = Inr ()" "validate_validated_target strict_gateway b = Inr ()"
    using created_acceptance [OF a(1) [unfolded strictly_created_def] strict_gateway_ok(1)] a
      created_acceptance [OF b(1) [unfolded strictly_created_def] strict_gateway_ok(1)] b by auto
  have seal: "vt_integrity_seal a = vt_integrity_seal b"
    unfolding create_seal [OF a(1) [unfolded strictly_created_def]]
      create_seal [OF b(1) [unfolded strictly_created_def]] a(3) b(3) strip ..
  have "vt_target_id a = vt_target_id b \<and> vt_authorized_scope a = vt_authorized_scope b"
    using seal_binds_authorization [OF ok seal strict_gateway_ok(1)] strict_gateway_ok(2) [of a b] by blast
  with ok seal a(2,3) b(2,3) show ?thesis by (intro exI [of _ a] exI [of _ b]) simp
qed

definition v6_gateway :: gateway where
  "v6_gateway = sample_gateway\<lparr>gw_dns := (\<lambda>n host. Addresses [''2606:4700::1111''])\<rparr>"

lemma public_v6:
  "ip_address ''2606:4700::1111'' = Some (IPv6Address 0x26064700000000000000000000001111 None)"
  "is_ip_allowed_for_policy ''2606:4700::1111'' False"
proof -
  show a: "ip_address ''2606:4700::1111'' = Some (IPv6Address 0x26064700000000000000000000001111 None)" by code_simp
  have strip: "py_strip ''2606:4700::1111'' = ''2606:4700::1111''" by code_simp
  have "classify_ip (IPv6Address 0x26064700000000000000000000001111 None) = PUBLIC"
    by (simp add: classify_ip_def METADATA_NETWORKS_def LOOPBACK_NETWORKS_def UNSPECIFIED_NETWORKS_def
      LINK_LOCAL_NETWORKS_def MULTICAST_NETWORKS_def RESERVED_NETWORKS_def PRIVATE_NETWORKS_def RESERVED_V6_def
      PRIVATE_V6_def ipv4_mapped_def drop_bit_eq_div mask_eq_exp_minus_1 push_bit_eq_mult)
  with a strip show "is_ip_allowed_for_policy ''2606:4700::1111'' False" by (simp add: is_ip_allowed_for_policy_def Let_def)
qed

theorem seal_separator_moves_witness:
  "\<exists>vt. validate_validated_target v6_gateway vt = Inr () \<and> vt_selected_destination vt = ''2606:4700::1111''
     \<and> validate_validated_target v6_gateway
         (vt\<lparr>vt_canonical_value := vt_canonical_value vt @ '':'' @ ''2606'', vt_selected_destination := ''4700::1111''\<rparr>) = Inr ()"
proof -
  have strip: "py_strip ''h.io'' = ''h.io''" and clean: "domain_part (py_lower ''h.io'') = ''h.io''"
    and free: "\<not> reserved_name ''h.io''" "\<not> internal_suffix ''h.io''" by code_simp+
  have dns: "resolve_hostname_ips (gw_dns v6_gateway n ''h.io'') = Inr [''2606:4700::1111'']" for n
    by (simp add: v6_gateway_def resolve_hostname_ips_def)
  have "\<exists>vt. create_validated_target v6_gateway DOMAIN ''h.io'' ''org'' None None None False [] False False = Inr vt
      \<and> vt_selected_destination vt = ''2606:4700::1111''"
    by (simp add: create_validated_target_def require_def assert_safe_target_def assert_safe_def
      validate_target_security_def validate_target_domain_def target_destination_def recheck_addresses_def
      all_allowed_def strip clean free dns public_v6 Let_def)
  then obtain vt where vt: "create_validated_target v6_gateway DOMAIN ''h.io'' ''org'' None None None False [] False False = Inr vt"
    and d: "vt_selected_destination vt = ''2606:4700::1111''" by blast
  have "hashes_ok v6_gateway" using sample_hashes_ok by (simp add: v6_gateway_def hashes_ok_def)
  from created_acceptance [OF vt this] d have ok: "validate_validated_target v6_gateway vt = Inr ()" by simp
  have "vt_selected_destination vt = ''2606'' @ '':'' @ ''4700::1111''" using d by simp
  from seal_separator_moves [OF ok this] ok d show ?thesis by auto
qed

text \<open>An IPv6 address given as an IP target passes the gate, but the target is pinned to the text before
  its first colon, which is no address at all.\<close>

theorem ipv6_target_loses_address:
  "\<exists>vt. create_validated_target gw IP ''2606:4700::1111'' org project asset workspace False scope False False = Inr vt
     \<and> vt_selected_destination vt = ''2606'' \<and> ip_address (vt_selected_destination vt) = None"
proof -
  have strip: "py_strip ''2606:4700::1111'' = ''2606:4700::1111''" by code_simp
  have safe: "validate_target_ip ''2606:4700::1111'' False"
    using public_v6(2) by (simp add: validate_target_ip_def strip startswith_def count_char_def Let_def)
  have dest: "ip_destination ''2606:4700::1111'' = ([''2606''], ''2606'', None, None)" by code_simp
  have none: "ip_address ''2606'' = None" by code_simp
  show ?thesis
    by (simp add: create_validated_target_def require_def assert_safe_target_def assert_safe_def
      validate_target_security_def target_destination_def recheck_addresses_def safe dest strip none Let_def)
qed

end
