(* ===== verification/Audit_Log.thy ===== *)
theory Audit_Log
  imports Exec_Db Sanitize
begin

text \<open>
  The hash-chained audit log of \<open>backend/app/core/db.py\<close>: \<open>_insert_audit_event_conn\<close> appends a
  row that carries the hash of its predecessor, \<open>verify_audit_log_integrity\<close> recomputes the chain.
  The table is a list of rows in insertion order; both functions read it through their own
  \<open>ORDER BY\<close>.  SHA-256 is the parameter \<open>sha\<close>.
\<close>

section \<open>Rows and their canonical payload\<close>

record audit_row =
  al_id :: string
  al_sequence_number :: "int option"
  al_timestamp :: string
  al_actor :: string
  al_organization_id :: string
  al_action :: string
  al_object_type :: string
  al_object_id :: string
  al_result :: string
  al_source_ip :: "string option"
  al_correlation_id :: "string option"
  al_details_json :: string
  al_previous_event_hash :: "string option"
  al_event_hash :: "string option"

definition hashed_fields :: "audit_row \<Rightarrow> string list" where
  "hashed_fields r = [al_id r, al_timestamp r, al_actor r, al_organization_id r, al_action r,
     al_object_type r, al_object_id r, al_result r, al_details_json r]"

definition canonical_payload :: "audit_row \<Rightarrow> string option \<Rightarrow> string" where
  "canonical_payload r prev = join_with ''|'' (hashed_fields r @ [or_else prev ''''])"

section \<open>Appending\<close>

definition string_less :: "string \<Rightarrow> string \<Rightarrow> bool" where
  "string_less a b = (string_le a b \<and> a \<noteq> b)"

text \<open>\<open>ORDER BY sequence_number DESC NULLS LAST, timestamp DESC, id DESC\<close>: \<open>a\<close> comes first.\<close>

definition newer :: "audit_row \<Rightarrow> audit_row \<Rightarrow> bool" where
  "newer a b =
    (let tie = (if al_timestamp a \<noteq> al_timestamp b then string_less (al_timestamp b) (al_timestamp a)
                else string_le (al_id b) (al_id a))
     in case (al_sequence_number a, al_sequence_number b) of
          (Some x, Some y) \<Rightarrow> (if x \<noteq> y then y < x else tie)
        | (Some _, None) \<Rightarrow> True
        | (None, Some _) \<Rightarrow> False
        | (None, None) \<Rightarrow> tie)"

fun latest :: "audit_row list \<Rightarrow> audit_row option" where
  "latest [] = None"
| "latest (r # rs) = (case latest rs of None \<Rightarrow> Some r | Some s \<Rightarrow> Some (if newer r s then r else s))"

definition insert_audit_event :: "(string \<Rightarrow> string) \<Rightarrow> audit_row list \<Rightarrow> audit_event \<Rightarrow> audit_row list" where
  "insert_audit_event sha rows ev =
    (let last_row = latest rows;
         prev = (case last_row of None \<Rightarrow> None
                 | Some r \<Rightarrow> (if truthy (al_event_hash r) then al_event_hash r else None));
         seq = (case last_row of None \<Rightarrow> 0
                | Some r \<Rightarrow> (case al_sequence_number r of None \<Rightarrow> 0 | Some n \<Rightarrow> n)) + 1;
         row = \<lparr> al_id = ae_id ev, al_sequence_number = Some seq,
                 al_timestamp = isoformat (ae_timestamp ev), al_actor = ae_actor ev,
                 al_organization_id = ae_organization_id ev, al_action = ae_action ev,
                 al_object_type = ae_object_type ev, al_object_id = ae_object_id ev,
                 al_result = ae_result ev, al_source_ip = ae_source_ip ev,
                 al_correlation_id = ae_correlation_id ev,
                 al_details_json = json_text (JObj (sanitize_details (ae_details ev))),
                 al_previous_event_hash = prev, al_event_hash = None \<rparr>
     in rows @ [row\<lparr>al_event_hash := Some (sha (canonical_payload row prev))\<rparr>])"

definition append_events :: "(string \<Rightarrow> string) \<Rightarrow> audit_row list \<Rightarrow> audit_event list \<Rightarrow> audit_row list" where
  "append_events sha rows evs = foldl (insert_audit_event sha) rows evs"

section \<open>Verifying\<close>

text \<open>\<open>ORDER BY sequence_number ASC NULLS LAST, timestamp ASC, id ASC\<close>: \<open>a\<close> may come first.\<close>

definition older :: "audit_row \<Rightarrow> audit_row \<Rightarrow> bool" where
  "older a b =
    (let tie = (if al_timestamp a \<noteq> al_timestamp b then string_less (al_timestamp a) (al_timestamp b)
                else string_le (al_id a) (al_id b))
     in case (al_sequence_number a, al_sequence_number b) of
          (Some x, Some y) \<Rightarrow> (if x \<noteq> y then x < y else tie)
        | (Some _, None) \<Rightarrow> True
        | (None, Some _) \<Rightarrow> False
        | (None, None) \<Rightarrow> tie)"

fun insert_row :: "audit_row \<Rightarrow> audit_row list \<Rightarrow> audit_row list" where
  "insert_row r [] = [r]"
| "insert_row r (s # ss) = (if older r s then r # s # ss else s # insert_row r ss)"

definition chain_order :: "audit_row list \<Rightarrow> audit_row list" where
  "chain_order rows = foldr insert_row rows []"

fun verify_rows :: "(string \<Rightarrow> string) \<Rightarrow> string option \<Rightarrow> audit_row list \<Rightarrow> bool \<times> string option" where
  "verify_rows sha prev [] = (True, None)"
| "verify_rows sha prev (r # rs) =
     (if al_previous_event_hash r \<noteq> prev then (False, Some (al_id r))
      else if al_event_hash r \<noteq> Some (sha (canonical_payload r prev)) then (False, Some (al_id r))
      else verify_rows sha (al_event_hash r) rs)"

definition verify_audit_log_integrity ::
    "(string \<Rightarrow> string) \<Rightarrow> audit_row list \<Rightarrow> string option \<Rightarrow> bool \<times> string option" where
  "verify_audit_log_integrity sha rows organization =
     verify_rows sha None (chain_order
       (filter (\<lambda>r. truthy organization \<longrightarrow> organization = Some (al_organization_id r)) rows))"

section \<open>Appended logs are chains\<close>

text \<open>The rows an append sequence leaves: numbered from one and linked.\<close>

definition numbered :: "audit_row list \<Rightarrow> bool" where
  "numbered rows = (\<forall>k < length rows. al_sequence_number (rows ! k) = Some (int k + 1))"

definition head_hash :: "string option \<Rightarrow> audit_row list \<Rightarrow> string option" where
  "head_hash prev rows = (if rows = [] then prev else al_event_hash (last rows))"

definition chain :: "(string \<Rightarrow> string) \<Rightarrow> audit_row list \<Rightarrow> bool" where
  "chain sha rows = (numbered rows \<and> verify_rows sha None rows = (True, None))"

lemma verify_rows_append:
  "verify_rows sha prev (xs @ ys) = (True, None) \<longleftrightarrow>
     verify_rows sha prev xs = (True, None) \<and> verify_rows sha (head_hash prev xs) ys = (True, None)"
  by (induction xs arbitrary: prev) (auto simp: head_hash_def)

lemma verify_rows_prefix_fail:
  "verify_rows sha prev xs = (True, None) \<Longrightarrow>
     verify_rows sha prev (xs @ ys) = verify_rows sha (head_hash prev xs) ys"
  by (induction xs arbitrary: prev) (auto simp: head_hash_def split: if_splits)

lemma verified_hash: "verify_rows sha prev rows = (True, None) \<Longrightarrow> r \<in> set rows \<Longrightarrow>
    \<exists>p. al_event_hash r = Some (sha (canonical_payload r p))"
  by (induction rows arbitrary: prev) (auto split: if_splits)

lemma numbered_sorted: "numbered rows \<Longrightarrow> sorted_wrt (\<lambda>a b. older a b \<and> newer b a \<and> \<not> newer a b) rows"
  by (auto simp: sorted_wrt_iff_nth_less numbered_def older_def newer_def)

lemma numbered_snoc:
  "numbered (rows @ [r]) \<longleftrightarrow> numbered rows \<and> al_sequence_number r = Some (int (length rows) + 1)"
  by (auto simp: numbered_def nth_append less_Suc_eq)

lemma insert_row_first: "(\<forall>s \<in> set ss. older r s) \<Longrightarrow> insert_row r ss = r # ss"
  by (cases ss) auto

lemma chain_order_sorted: "sorted_wrt (\<lambda>a b. older a b) rows \<Longrightarrow> chain_order rows = rows"
  by (induction rows) (auto simp: chain_order_def insert_row_first)

lemma latest_sorted: "sorted_wrt (\<lambda>a b. older a b \<and> newer b a \<and> \<not> newer a b) rows \<Longrightarrow>
    latest rows = (if rows = [] then None else Some (last rows))"
  by (induction rows) auto

lemma sorted_older: "sorted_wrt (\<lambda>a b. older a b \<and> newer b a \<and> \<not> newer a b) rows \<Longrightarrow>
    chain_order rows = rows"
  by (rule chain_order_sorted) (erule sorted_wrt_mono_rel [rotated], simp)

lemmas numbered_order = numbered_sorted [THEN latest_sorted] numbered_sorted [THEN sorted_older]

lemma chain_append:
  assumes "chain sha rows" and "\<And>s. sha s \<noteq> []"
  shows "chain sha (insert_audit_event sha rows ev)"
proof -
  have num: "numbered rows" and ver: "verify_rows sha None rows = (True, None)"
    using assms(1) by (simp_all add: chain_def)
  have "truthy (al_event_hash (last rows))" if "rows \<noteq> []"
    using verified_hash [OF ver last_in_set [OF that]] assms(2) by (auto simp: truthy_def)
  moreover have "al_sequence_number (last rows) = Some (int (length rows))" if "rows \<noteq> []"
    using num that by (auto simp: numbered_def last_conv_nth of_nat_diff Suc_le_eq)
  ultimately show ?thesis
    using num ver
    by (auto simp: chain_def insert_audit_event_def Let_def numbered_order numbered_snoc
        verify_rows_append head_hash_def canonical_payload_def hashed_fields_def)
qed

lemma chain_empty: "chain sha []"
  by (simp add: chain_def numbered_def)

lemma chain_append_events:
  assumes "\<And>s. sha s \<noteq> []"
  shows "chain sha rows \<Longrightarrow> chain sha (append_events sha rows evs)"
  unfolding append_events_def
  by (induction evs arbitrary: rows) (simp_all add: chain_append assms)

lemma length_append_events: "length (append_events sha rows evs) = length rows + length evs"
  unfolding append_events_def
  by (induction evs arbitrary: rows) (simp_all add: insert_audit_event_def Let_def)

lemma chain_verifies: "chain sha rows \<Longrightarrow> verify_audit_log_integrity sha rows None = (True, None)"
  by (simp add: chain_def verify_audit_log_integrity_def numbered_order)

end
