(* ===== verification/Audit_Properties.thy ===== *)
theory Audit_Properties
  imports Audit_Log
begin

text \<open>
  What the audit hash chain guarantees, and what it does not: an appended log verifies, its last
  hash commits to every payload, a changed field or a removed inner event is found and named, while
  a truncated log and a log filtered to one tenant are not judged as the code's comment says.
\<close>

section \<open>Payloads\<close>

lemma join_with_cons: "xs \<noteq> [] \<Longrightarrow> join_with sep (x # xs) = x @ sep @ join_with sep xs"
  by (cases xs) auto

lemma join_with_snoc: "xs \<noteq> [] \<Longrightarrow> join_with sep (xs @ [x]) = join_with sep xs @ sep @ x"
  by (induction xs) (simp, metis append.assoc append_Cons append_Nil join_with.simps(2)
      join_with_cons snoc_eq_iff_butlast)

lemma join_with_update: "j < length xs \<Longrightarrow> \<exists>pre post. \<forall>x. join_with sep (xs[j := x]) = pre @ x @ post"
proof (induction xs arbitrary: j)
  case (Cons a xs)
  show ?case
  proof (cases j)
    case 0
    show ?thesis
    proof (cases xs)
      case Nil
      show ?thesis by (rule exI [of _ "[]"], rule exI [of _ "[]"]) (simp add: 0 Nil)
    next
      case (Cons b ys)
      show ?thesis
        by (rule exI [of _ "[]"], rule exI [of _ "sep @ join_with sep xs"]) (simp add: 0 Cons)
    qed
  next
    case (Suc k)
    with Cons.prems have "k < length xs" by simp
    from Cons.IH [OF this] obtain pre post where "\<And>x. join_with sep (xs[k := x]) = pre @ x @ post"
      by blast
    moreover have "xs[k := x] \<noteq> []" for x using \<open>k < length xs\<close> by auto
    ultimately have "\<forall>x. join_with sep ((a # xs)[j := x]) = (a @ sep @ pre) @ x @ post"
      by (simp add: Suc join_with_cons)
    then show ?thesis by blast
  qed
qed simp

lemma payload_changes:
  assumes "hashed_fields r' = (hashed_fields r)[j := x]" and "j < 9" and "x \<noteq> hashed_fields r ! j"
  shows "canonical_payload r' p \<noteq> canonical_payload r p"
proof -
  let ?xs = "hashed_fields r @ [or_else p '''']"
  have len: "length (hashed_fields r) = 9" by (simp add: hashed_fields_def)
  with assms(2) have "j < length ?xs" by simp
  from join_with_update [OF this] obtain pre post
    where eq: "\<And>y. join_with ''|'' (?xs[j := y]) = pre @ y @ post" by blast
  have "hashed_fields r' @ [or_else p ''''] = ?xs[j := x]"
    using assms(1,2) len by (simp add: list_update_append)
  moreover have "?xs = ?xs[j := hashed_fields r ! j]"
    using assms(2) len by (simp add: list_update_append)
  ultimately show ?thesis
    unfolding canonical_payload_def using eq assms(3) by (metis append_same_eq same_append_eq)
qed

text \<open>The text after the last bar is the predecessor's hash.\<close>

lemma last_bar:
  assumes "a @ ''|'' @ p = b @ ''|'' @ q" "CHR ''|'' \<notin> set p" "CHR ''|'' \<notin> set q"
  shows "a = b \<and> p = q"
proof -
  from assms(1) have "rev p @ CHR ''|'' # rev a = rev q @ CHR ''|'' # rev b"
    by (metis append.assoc append_Cons append_Nil rev.simps(2) rev_append)
  then have "takeWhile (\<lambda>c. c \<noteq> CHR ''|'') (rev p @ CHR ''|'' # rev a)
      = takeWhile (\<lambda>c. c \<noteq> CHR ''|'') (rev q @ CHR ''|'' # rev b)" by simp
  moreover have "takeWhile (\<lambda>c. c \<noteq> CHR ''|'') (rev p) = rev p"
    "takeWhile (\<lambda>c. c \<noteq> CHR ''|'') (rev q) = rev q"
    using assms(2,3) by (auto simp: takeWhile_eq_all_conv)
  ultimately have "p = q"
    using assms(2,3) by (simp add: takeWhile_append)
  with assms(1) show ?thesis by simp
qed

definition payload_of :: "audit_row \<Rightarrow> string" where
  "payload_of r = canonical_payload r (al_previous_event_hash r)"

definition event_text :: "audit_row \<Rightarrow> string" where
  "event_text r = join_with ''|'' (hashed_fields r)"

lemma payload_split: "canonical_payload r p = event_text r @ ''|'' @ or_else p ''''"
  by (simp add: canonical_payload_def event_text_def join_with_snoc hashed_fields_def)

text \<open>What the code relies on of SHA-256: hex digests are not empty and hold no bar.\<close>

definition digest_text :: "(string \<Rightarrow> string) \<Rightarrow> bool" where
  "digest_text sha = (\<forall>s. sha s \<noteq> [] \<and> CHR ''|'' \<notin> set (sha s))"

lemma digest_facts: "digest_text sha \<Longrightarrow> sha s \<noteq> [] \<and> [] \<noteq> sha s \<and> CHR ''|'' \<notin> set (sha s)"
  by (auto simp: digest_text_def) (metis)

lemma verified_snoc:
  "verify_rows sha None (rs @ [r]) = (True, None) \<longleftrightarrow> verify_rows sha None rs = (True, None) \<and>
     al_previous_event_hash r = head_hash None rs \<and> al_event_hash r = Some (sha (payload_of r))"
  by (auto simp: verify_rows_append payload_of_def)

lemma verified_head: "verify_rows sha None rs = (True, None) \<Longrightarrow> rs \<noteq> [] \<Longrightarrow>
    head_hash None rs = Some (sha (payload_of (last rs)))"
  by (cases rs rule: rev_cases) (auto simp: verified_snoc head_hash_def)

lemma head_commits:
  assumes "digest_text sha"
  shows "verify_rows sha None rs = (True, None) \<Longrightarrow> verify_rows sha None ss = (True, None) \<Longrightarrow>
    head_hash None rs = head_hash None ss \<Longrightarrow>
    inj_on sha (payload_of ` (set rs \<union> set ss)) \<Longrightarrow> map event_text rs = map event_text ss"
proof (induction rs arbitrary: ss rule: rev_induct)
  case Nil
  then show ?case by (cases ss rule: rev_cases) (auto simp: head_hash_def verified_snoc)
next
  case (snoc r rs)
  show ?case
  proof (cases ss rule: rev_cases)
    case Nil
    with snoc.prems show ?thesis by (auto simp: head_hash_def verified_snoc)
  next
    case (snoc ss' s)
    from snoc.prems snoc have hr: "al_previous_event_hash r = head_hash None rs"
      and hs: "al_previous_event_hash s = head_hash None ss'"
      and vr: "verify_rows sha None rs = (True, None)" and vs: "verify_rows sha None ss' = (True, None)"
      and same: "sha (payload_of r) = sha (payload_of s)"
      by (auto simp: verified_snoc head_hash_def)
    from same have "sha (payload_of r) = sha (payload_of s)" .
    moreover have "payload_of r \<in> payload_of ` (set (rs @ [r]) \<union> set ss)"
      "payload_of s \<in> payload_of ` (set (rs @ [r]) \<union> set ss)" using snoc by auto
    ultimately have "payload_of r = payload_of s" using snoc.prems(4) by (metis inj_onD)
    then have "event_text r @ ''|'' @ or_else (head_hash None rs) '''' =
        event_text s @ ''|'' @ or_else (head_hash None ss') ''''"
      by (simp add: payload_of_def payload_split hr hs)
    moreover have "CHR ''|'' \<notin> set (or_else (head_hash None t) '''')"
      if "verify_rows sha None t = (True, None)" for t
      using verified_head [OF that] assms by (cases "t = []") (auto simp: or_else_def digest_text_def head_hash_def)
    ultimately have "event_text r = event_text s"
      and prev: "or_else (head_hash None rs) '''' = or_else (head_hash None ss') ''''"
      using last_bar vr vs by blast+
    moreover have "head_hash None rs = head_hash None ss'"
      using prev verified_head [OF vr] verified_head [OF vs] assms
      by (cases "rs = []"; cases "ss' = []")
        (auto simp: or_else_def head_hash_def digest_facts split: if_splits)
    moreover have "inj_on sha (payload_of ` (set rs \<union> set ss'))"
      using snoc.prems(4) snoc by (auto intro: inj_on_subset)
    ultimately show ?thesis
      using snoc.IH [OF vr vs] snoc by simp
  qed
qed

section \<open>Properties of the log\<close>

text \<open>A sample log of two tenants.\<close>

definition sample_event :: "string \<Rightarrow> time \<Rightarrow> string \<Rightarrow> audit_event" where
  "sample_event eid t org = \<lparr> ae_id = eid, ae_timestamp = t, ae_actor = ''admin'',
     ae_organization_id = org, ae_action = ''ASSET_CREATED'', ae_object_type = ''asset'',
     ae_object_id = ''ast'', ae_result = ''SUCCESS'', ae_source_ip = None, ae_correlation_id = None,
     ae_details = [(''n'', JInt t)] \<rparr>"

definition sample_events :: "audit_event list" where
  "sample_events = [sample_event ''aud-1'' 1 ''org-a'', sample_event ''aud-2'' 2 ''org-b'',
     sample_event ''aud-3'' 3 ''org-b'']"

text \<open>A collision-free digest without bars.\<close>

definition toy_digest :: "string \<Rightarrow> string" where
  "toy_digest s = CHR ''h'' # concat (map (\<lambda>c. if c = CHR ''|'' then ''!a''
     else if c = CHR ''!'' then ''!b'' else [c]) s)"

definition sample_log :: "audit_row list" where
  "sample_log = append_events toy_digest [] sample_events"

lemma toy_digest_text: "digest_text toy_digest"
  by (auto simp: digest_text_def toy_digest_def)

lemma toy_digest_inj: "inj_on toy_digest A"
proof (rule inj_onI)
  have "concat (map (\<lambda>c. if c = CHR ''|'' then ''!a'' else if c = CHR ''!'' then ''!b'' else [c]) s) =
      concat (map (\<lambda>c. if c = CHR ''|'' then ''!a'' else if c = CHR ''!'' then ''!b'' else [c]) t)
      \<Longrightarrow> s = t" for s t
  proof (induction s arbitrary: t)
    case Nil
    then show ?case by (cases t) (auto split: if_splits)
  next
    case (Cons a s)
    then show ?case by (cases t) (auto split: if_splits)
  qed
  then show "x = y" if "toy_digest x = toy_digest y" for x y
    using that by (simp add: toy_digest_def)
qed

lemma appended_chain: "digest_text sha \<Longrightarrow> chain sha (append_events sha [] evs)"
  by (rule chain_append_events [OF digest_facts [THEN conjunct1] chain_empty])

text \<open>Every log the code writes verifies: starting from an empty table, after any sequence of
  audit events the integrity check of the whole log answers \<open>(True, None)\<close>.\<close>

theorem audit_log_verifies:
  assumes "digest_text sha"
  shows "verify_audit_log_integrity sha (append_events sha [] evs) None = (True, None)"
  by (rule chain_verifies [OF appended_chain [OF assms]])

theorem audit_log_verifies_witness:
  "verify_audit_log_integrity toy_digest sample_log None = (True, None) \<and> length sample_log = 3"
  unfolding sample_log_def
  by (simp add: audit_log_verifies [OF toy_digest_text] length_append_events sample_events_def)

text \<open>C37. The last hash commits to the whole log: two logs that both verify and end in the same hash
  record the same sequence of event texts, as long as the digest has no collision among their
  payloads.  Modifying, reordering, inserting or deleting events therefore changes the last hash.\<close>

theorem audit_head_commits:
  assumes "digest_text sha"
    and "verify_audit_log_integrity sha rows None = (True, None)"
    and "verify_audit_log_integrity sha rows' None = (True, None)"
    and "head_hash None (chain_order rows) = head_hash None (chain_order rows')"
    and "inj_on sha (payload_of ` (set (chain_order rows) \<union> set (chain_order rows')))"
  shows "map event_text (chain_order rows) = map event_text (chain_order rows')"
  using assms by (intro head_commits) (simp_all add: verify_audit_log_integrity_def)

lemma chain_order_rev: "numbered rows \<Longrightarrow> chain_order (rev rows) = rows"
proof (induction rows rule: rev_induct)
  case (snoc r rows)
  have "insert_row r ss = ss @ [r]" if "\<forall>s \<in> set ss. \<not> older r s" for ss
    using that by (induction ss) auto
  moreover have "\<not> older r s" if s: "s \<in> set rows" for s
  proof -
    from s obtain i where "i < length rows" "s = rows ! i" by (auto simp: in_set_conv_nth)
    moreover have "numbered rows" "al_sequence_number r = Some (int (length rows) + 1)"
      using snoc.prems by (simp_all add: numbered_snoc)
    ultimately show ?thesis by (simp add: numbered_def older_def)
  qed
  ultimately show ?case
    using snoc by (simp add: numbered_snoc chain_order_def)
qed (simp add: chain_order_def)

lemma chain_rev_verifies: "chain sha rows \<Longrightarrow> verify_audit_log_integrity sha (rev rows) None = (True, None)"
  by (simp add: chain_def verify_audit_log_integrity_def chain_order_rev)

theorem audit_head_commits_witness:
  "map event_text (chain_order (rev sample_log)) = map event_text (chain_order sample_log)"
proof -
  have c: "chain toy_digest sample_log"
    unfolding sample_log_def by (rule appended_chain [OF toy_digest_text])
  then have "head_hash None (chain_order (rev sample_log)) = head_hash None (chain_order sample_log)"
    by (simp add: chain_def chain_order_rev numbered_order)
  from audit_head_commits [OF toy_digest_text chain_rev_verifies [OF c] chain_verifies [OF c] this
      toy_digest_inj]
  show ?thesis .
qed

text \<open>A changed field is found and its event is named: in a log the code wrote, changing one hashed
  field of one event (everything but the sequence number, source address and correlation id is
  hashed), with the stored hashes left as they were, makes the check answer \<open>False\<close> with the
  identifier of that event, unless the two payloads collide.\<close>

theorem audit_change_detected:
  assumes "digest_text sha" and "rows = append_events sha [] evs" and "k < length rows"
    and "hashed_fields r = (hashed_fields (rows ! k))[j := x]" and "j < 9"
    and "x \<noteq> hashed_fields (rows ! k) ! j"
    and "al_sequence_number r = al_sequence_number (rows ! k)"
    and "al_previous_event_hash r = al_previous_event_hash (rows ! k)"
    and "al_event_hash r = al_event_hash (rows ! k)"
    and "inj_on sha {payload_of r, payload_of (rows ! k)}"
  shows "verify_audit_log_integrity sha (rows[k := r]) None = (False, Some (al_id r))"
proof -
  have ch: "chain sha rows" unfolding assms(2) by (rule appended_chain [OF assms(1)])
  then have num: "numbered (rows[k := r])"
    using assms(3,7) by (auto simp: chain_def numbered_def nth_list_update)
  have split: "rows = take k rows @ rows ! k # drop (Suc k) rows" using assms(3) by (rule id_take_nth_drop)
  then have "verify_rows sha None (take k rows @ [rows ! k] @ drop (Suc k) rows) = (True, None)"
    using ch by (simp add: chain_def)
  then have v: "verify_rows sha None (take k rows) = (True, None)"
    and prev: "al_previous_event_hash (rows ! k) = head_hash None (take k rows)"
    and hash: "al_event_hash (rows ! k) = Some (sha (payload_of (rows ! k)))"
    unfolding verify_rows_append by (auto simp: payload_of_def split: if_splits)
  have "payload_of r \<noteq> payload_of (rows ! k)"
    using payload_changes [OF assms(4-6)] assms(8) by (simp add: payload_of_def)
  with assms(10) have "sha (payload_of r) \<noteq> sha (payload_of (rows ! k))" by (auto dest: inj_onD)
  then have "verify_rows sha (head_hash None (take k rows)) (r # drop (Suc k) rows) = (False, Some (al_id r))"
    using assms(8,9) prev hash by (simp add: payload_of_def)
  then have "verify_rows sha None (rows[k := r]) = (False, Some (al_id r))"
    using v assms(3) by (simp add: upd_conv_take_nth_drop verify_rows_prefix_fail)
  then show ?thesis
    using num by (simp add: verify_audit_log_integrity_def numbered_order)
qed

lemma sample_rows:
  "length sample_log = 3" "map al_id sample_log = [''aud-1'', ''aud-2'', ''aud-3'']"
  "map al_organization_id sample_log = [''org-a'', ''org-b'', ''org-b'']"
  "map al_actor sample_log = [''admin'', ''admin'', ''admin'']"
  by (simp_all add: sample_log_def sample_events_def sample_event_def append_events_def
        insert_audit_event_def Let_def)

lemma sample_nth:
  "k < 3 \<Longrightarrow> al_id (sample_log ! k) = [''aud-1'', ''aud-2'', ''aud-3''] ! k"
  "k < 3 \<Longrightarrow> al_organization_id (sample_log ! k) = [''org-a'', ''org-b'', ''org-b''] ! k"
  "k < 3 \<Longrightarrow> al_actor (sample_log ! k) = [''admin'', ''admin'', ''admin''] ! k"
  unfolding sample_rows(2-4) [symmetric] by (simp_all add: sample_rows(1))

theorem audit_change_detected_witness:
  "verify_audit_log_integrity toy_digest
     (sample_log[1 := (sample_log ! 1)\<lparr>al_actor := ''mallory''\<rparr>]) None = (False, Some ''aud-2'')"
proof -
  let ?r = "(sample_log ! 1)\<lparr>al_actor := ''mallory''\<rparr>"
  have "hashed_fields ?r = (hashed_fields (sample_log ! 1))[2 := ''mallory'']"
    "''mallory'' \<noteq> hashed_fields (sample_log ! 1) ! 2"
    using sample_nth(3) [of 1] by (simp_all add: hashed_fields_def)
  from audit_change_detected [OF toy_digest_text sample_log_def _ this(1) _ this(2) _ _ _ toy_digest_inj]
  show ?thesis using sample_rows(1) sample_nth(1) [of 1] by simp
qed

text \<open>A removed event is found when a later one remains: deleting an inner event of a log the code
  wrote makes the check answer \<open>False\<close> with the identifier of the event that followed it, unless two
  payloads of the log collide.\<close>

theorem audit_deletion_detected:
  assumes "digest_text sha" and "rows = append_events sha [] evs" and "Suc k < length rows"
    and "inj_on sha (payload_of ` set rows)"
  shows "verify_audit_log_integrity sha (take k rows @ drop (Suc k) rows) None
    = (False, Some (al_id (rows ! Suc k)))"
proof -
  have num: "numbered rows" and ver: "verify_rows sha None rows = (True, None)"
    using appended_chain [OF assms(1)] by (simp_all add: assms(2) chain_def)
  define pre where "pre = take (Suc k) rows"
  have pre: "pre = take k rows @ [rows ! k]" and next_row: "drop (Suc k) rows = rows ! Suc k # drop (Suc (Suc k)) rows"
    using assms(3) by (simp_all add: pre_def take_Suc_conv_app_nth Cons_nth_drop_Suc)
  have "verify_rows sha None (pre @ drop (Suc k) rows) = (True, None)" using ver by (simp add: pre_def)
  then have vpre: "verify_rows sha None pre = (True, None)"
    and link: "al_previous_event_hash (rows ! Suc k) = head_hash None pre"
    unfolding next_row verify_rows_append by (auto split: if_splits)
  then have vk: "verify_rows sha None (take k rows) = (True, None)" by (simp add: pre verified_snoc)
  have "head_hash None pre \<noteq> head_hash None (take k rows)"
  proof
    assume "head_hash None pre = head_hash None (take k rows)"
    moreover have "inj_on sha (payload_of ` (set pre \<union> set (take k rows)))"
      by (rule inj_on_subset [OF assms(4)]) (auto simp: pre_def dest: in_set_takeD)
    ultimately have "map event_text pre = map event_text (take k rows)"
      by (intro head_commits [OF assms(1) vpre vk])
    then have "length pre = length (take k rows)" by (rule map_eq_imp_length_eq)
    then show False by (simp add: pre)
  qed
  then have "verify_rows sha None (take k rows @ drop (Suc k) rows) = (False, Some (al_id (rows ! Suc k)))"
    using vk link next_row by (simp add: verify_rows_prefix_fail)
  moreover have "chain_order (take k rows @ drop (Suc k) rows) = take k rows @ drop (Suc k) rows"
  proof (rule sorted_older)
    have "rows = take k rows @ rows ! k # drop (Suc k) rows"
      using assms(3) by (intro id_take_nth_drop) simp
    then have "sorted_wrt (\<lambda>a b. older a b \<and> newer b a \<and> \<not> newer a b)
        (take k rows @ rows ! k # drop (Suc k) rows)" using numbered_sorted [OF num] by simp
    then show "sorted_wrt (\<lambda>a b. older a b \<and> newer b a \<and> \<not> newer a b)
        (take k rows @ drop (Suc k) rows)" by (simp add: sorted_wrt_append)
  qed
  ultimately show ?thesis by (simp add: verify_audit_log_integrity_def)
qed

theorem audit_deletion_detected_witness:
  "verify_audit_log_integrity toy_digest (take 1 sample_log @ drop 2 sample_log) None
    = (False, Some ''aud-3'')"
  using audit_deletion_detected [OF toy_digest_text sample_log_def _ toy_digest_inj, of 1]
    sample_rows(1) sample_nth(1) [of 2] by (simp add: numeral_2_eq_2)

text \<open>Removing the newest events is not noticed: every prefix of a log the code wrote still
  verifies, although the function's comment says that any deleted record is reported.\<close>

theorem audit_truncation_unnoticed:
  assumes "digest_text sha"
  shows "verify_audit_log_integrity sha (take k (append_events sha [] evs)) None = (True, None)"
proof -
  let ?rows = "append_events sha [] evs"
  have ch: "chain sha ?rows" by (rule appended_chain [OF assms])
  then have "verify_rows sha None (take k ?rows @ drop k ?rows) = (True, None)"
    by (simp add: chain_def)
  then have "verify_rows sha None (take k ?rows) = (True, None)" unfolding verify_rows_append ..
  moreover have "numbered (take k ?rows)" using ch by (auto simp: chain_def numbered_def)
  ultimately show ?thesis by (intro chain_verifies) (simp add: chain_def)
qed

theorem audit_truncation_unnoticed_witness:
  "verify_audit_log_integrity toy_digest (take 1 sample_log) None = (True, None) \<and> length (take 1 sample_log) < length sample_log"
  using audit_truncation_unnoticed [OF toy_digest_text, of 1 sample_events]
  by (simp add: sample_log_def [symmetric] sample_rows(1))

text \<open>The check of one tenant's events misjudges an intact log: when the log's first event belongs
  to another organization, the check restricted to an organization with events answers \<open>False\<close> and
  names that organization's first event, because the chain runs over all tenants.\<close>

theorem tenant_check_misjudges:
  assumes "digest_text sha" and "rows = append_events sha [] evs" and "org \<noteq> []"
    and "rows \<noteq> []" and "al_organization_id (hd rows) \<noteq> org"
    and "filter (\<lambda>r. al_organization_id r = org) rows = r # rs"
  shows "verify_audit_log_integrity sha rows (Some org) = (False, Some (al_id r))"
proof -
  have num: "numbered rows" and ver: "verify_rows sha None rows = (True, None)"
    using appended_chain [OF assms(1)] by (simp_all add: assms(2) chain_def)
  from assms(6) obtain us vs where split: "rows = us @ r # vs" and us: "\<forall>u \<in> set us. al_organization_id u \<noteq> org"
    and org: "al_organization_id r = org" by (auto simp: filter_eq_Cons_iff)
  from assms(4,5) split org have "us \<noteq> []" by (cases us) auto
  from ver split have "verify_rows sha None us = (True, None)"
    and "al_previous_event_hash r = head_hash None us"
    by (auto simp: verify_rows_append split: if_splits)
  with verified_head \<open>us \<noteq> []\<close> have "al_previous_event_hash r \<noteq> None" by force
  moreover have "chain_order (filter (\<lambda>r. al_organization_id r = org) rows)
      = filter (\<lambda>r. al_organization_id r = org) rows"
    by (rule sorted_older) (rule sorted_wrt_filter [OF numbered_sorted [OF num]])
  moreover have "filter (\<lambda>r. Some org = Some (al_organization_id r)) rows = r # rs"
    using assms(6) by (simp add: eq_commute [of org])
  ultimately show ?thesis
    using assms(3,6) by (simp add: verify_audit_log_integrity_def eq_commute [of org])
qed

theorem tenant_check_misjudges_witness:
  "verify_audit_log_integrity toy_digest sample_log (Some ''org-b'') = (False, Some ''aud-2'')"
proof -
  have "filter (\<lambda>r. al_organization_id r = ''org-b'') sample_log = [sample_log ! 1, sample_log ! 2]"
    "sample_log \<noteq> []" "al_organization_id (hd sample_log) \<noteq> ''org-b''" "al_id (sample_log ! 1) = ''aud-2''"
    by (simp_all add: sample_log_def sample_events_def sample_event_def append_events_def
        insert_audit_event_def Let_def)
  with tenant_check_misjudges [OF toy_digest_text sample_log_def] show ?thesis by simp
qed

end
