(* ===== verification/Exec_Leases.thy ===== *)
theory Exec_Leases
  imports Exec_Properties
begin

text \<open>
  Leases are exclusive: one law for a claim protocol with expiring leases, stated as a locale and
  interpreted on the dispatch claim and on the recovery claim of the store.
\<close>

section \<open>Leases\<close>

text \<open>The answers a sequence of claims receives, each on the state the one before left.\<close>

fun answers :: "('s \<Rightarrow> 'a \<Rightarrow> time \<Rightarrow> 'l option \<times> 's) \<Rightarrow> 's \<Rightarrow> ('a \<times> time) list \<Rightarrow> 'l option list" where
  "answers claim s [] = []"
| "answers claim s ((a, t) # cs) = fst (claim s a t) # answers claim (snd (claim s a t)) cs"

text \<open>
  The contract of a lease: a claim operation on a state, at an instant, with arguments \<open>'a\<close>.  A claim
  that meets a live lease is refused and leaves it, and a granted lease is live from the claim
  until its expiry.
\<close>

locale fenced_lease =
  fixes inv :: "'s \<Rightarrow> bool" and claim :: "'s \<Rightarrow> 'a \<Rightarrow> time \<Rightarrow> 'l option \<times> 's"
    and expiry :: "'l \<Rightarrow> time" and held :: "'s \<Rightarrow> time \<Rightarrow> bool"
  assumes inv_kept: "inv s \<Longrightarrow> inv (snd (claim s a now))"
    and refused: "inv s \<Longrightarrow> held s now \<Longrightarrow> fst (claim s a now) = None"
    and kept: "inv s \<Longrightarrow> held s now \<Longrightarrow> held s t \<Longrightarrow> held (snd (claim s a now)) t"
    and granted: "inv s \<Longrightarrow> fst (claim s a now) = Some l \<Longrightarrow> t < expiry l \<Longrightarrow>
      held (snd (claim s a now)) t"
begin

lemma all_refused:
  assumes "inv s" and "\<And>b t. (b, t) \<in> set cs \<Longrightarrow> held s t"
  shows "set (answers claim s cs) \<subseteq> {None}"
  using assms
proof (induction cs arbitrary: s)
  case (Cons c cs)
  obtain b u where c: "c = (b, u)" by (cases c)
  have live: "held s u" using Cons.prems(2) [of b u] c by simp
  have "held (snd (claim s b u)) t" if "(b', t) \<in> set cs" for b' t
    using Cons.prems that by (intro kept [OF Cons.prems(1) live]) auto
  then have "set (answers claim (snd (claim s b u)) cs) \<subseteq> {None}"
    by (rule Cons.IH [OF inv_kept [OF Cons.prems(1)]])
  with refused [OF Cons.prems(1) live] show ?case by (simp add: c)
qed simp

lemma one_holder:
  assumes "inv s" and "fst (claim s a now) = Some l"
    and "\<And>b t. (b, t) \<in> set cs \<Longrightarrow> t < expiry l"
  shows "set (answers claim (snd (claim s a now)) cs) \<subseteq> {None}"
  using assms by (intro all_refused inv_kept) (auto intro: granted)

end

subsection \<open>The dispatch lease\<close>

text \<open>A worker's claim of a dispatch intent as a lease operation: the arguments are the call's
  environment, the worker and the lease seconds.\<close>

definition dispatch_claim ::
    "string \<Rightarrow> string \<Rightarrow> exec_db \<Rightarrow> env \<times> string \<times> int \<Rightarrow> time \<Rightarrow> dispatch_lease option \<times> exec_db" where
  "dispatch_claim eid org db a now =
    (case a of (env, worker, secs) \<Rightarrow>
       let res = claim_execution_dispatch_intent env db eid org worker secs (Some now)
       in (case fst res of Inr l \<Rightarrow> l | Inl _ \<Rightarrow> None, snd res))"

definition dispatch_held :: "string \<Rightarrow> string \<Rightarrow> exec_db \<Rightarrow> time \<Rightarrow> bool" where
  "dispatch_held eid org db t =
    sql_exists (\<lambda>i. i_execution_id i = eid \<and> i_organization_id i = org \<and> i_state i = CLAIMED
      \<and> after (i_lease_expires_at i) t) (dispatch_intents db)"

lemma dispatch_claim_row:
  assumes "fetchone [(i, q, fetchone (decisions_of db r)). i \<leftarrow> dispatch_intents db,
            i_execution_id i = eid, i_organization_id i = org,
            r \<leftarrow> runs_of_intent db i, q \<leftarrow> requests_of db r] = Some (i, q, d)"
  shows "i \<in> set (dispatch_intents db)" "i_execution_id i = eid" "i_organization_id i = org"
  using fetchone_Some_in [OF assms] by (auto split: if_splits)

lemma unique_intent:
  assumes "keys_unique db" "i \<in> set (dispatch_intents db)" "j \<in> set (dispatch_intents db)"
    "i_execution_id i = i_execution_id j"
  shows "i = j"
  using assms by (auto simp: keys_unique_def distinct_map dest: inj_onD)

lemma dispatch_refused:
  assumes "keys_unique db" and "dispatch_held eid org db now"
  shows "(\<forall>l. fst (claim_execution_dispatch_intent env db eid org worker secs (Some now)) \<noteq> Inr (Some l))
    \<and> dispatch_intents (snd (claim_execution_dispatch_intent env db eid org worker secs (Some now)))
        = dispatch_intents db"
proof -
  from assms(2) obtain j where j: "j \<in> set (dispatch_intents db)" "i_execution_id j = eid"
      "i_organization_id j = org" "i_state j = CLAIMED" "after (i_lease_expires_at j) now"
    by (auto simp: dispatch_held_def sql_exists_iff)
  have live: "i_state i = CLAIMED \<and> \<not> (i_lease_expires_at i = None \<or> not_after (i_lease_expires_at i) now)"
    if "fetchone [(i, q, fetchone (decisions_of db r)). i \<leftarrow> dispatch_intents db,
            i_execution_id i = eid, i_organization_id i = org,
            r \<leftarrow> runs_of_intent db i, q \<leftarrow> requests_of db r] = Some (i, q, d)" for i q d
  proof -
    have "i = j" using dispatch_claim_row [OF that] j by (intro unique_intent [OF assms(1)]) simp_all
    with j show ?thesis by (cases "i_lease_expires_at j") simp_all
  qed
  show ?thesis
    unfolding claim_execution_dispatch_intent_def Let_def reading_def
    by (auto simp: record_dispatch_rejection_def dest: live split: option.splits prod.splits if_splits)
qed

lemma dispatch_granted:
  assumes "fst (claim_execution_dispatch_intent env db eid org worker secs now) = Inr (Some l)"
    and "t < dl_expires_at l"
  shows "dispatch_held eid org (snd (claim_execution_dispatch_intent env db eid org worker secs now)) t"
proof -
  let ?res = "claim_execution_dispatch_intent env db eid org worker secs now"
  let ?hit = "\<lambda>x. i_execution_id x = eid \<and> i_organization_id x = org
    \<and> (i_state x = PENDING \<or> (i_state x = CLAIMED \<and> not_after (i_lease_expires_at x) (reading env now)))"
  let ?f = "claim_intent (reading env now) worker (e_uuid env 0) (reading env now + seconds secs)"
  define Q :: "dispatch_lease option outcome \<Rightarrow> bool" where "Q res \<longleftrightarrow> (fst res = Inr (Some l) \<longrightarrow>
      sql_rowcount ?hit (dispatch_intents db) = 1
      \<and> dispatch_intents (snd res) = sql_update ?hit ?f (dispatch_intents db)
      \<and> dl_expires_at l = reading env now + seconds secs)" for res
  have "Q ?res"
    unfolding claim_execution_dispatch_intent_def record_dispatch_rejection_def
    by (intro branch_flow [where Q = Q]; force simp: Q_def)
  with assms(1) have "sql_rowcount ?hit (dispatch_intents db) = 1
      \<and> dispatch_intents (snd ?res) = sql_update ?hit ?f (dispatch_intents db)
      \<and> dl_expires_at l = reading env now + seconds secs" by (simp add: Q_def)
  moreover from this obtain i where "i_execution_id i = eid" "i_organization_id i = org"
      "?f i \<in> set (sql_update ?hit ?f (dispatch_intents db))"
    using updated_row [of ?hit "dispatch_intents db" ?f] by blast
  ultimately show ?thesis
    using assms(2) by (auto simp: dispatch_held_def sql_exists_iff claim_intent_def intro!: bexI [of _ "?f i"])
qed

interpretation dispatch: fenced_lease keys_unique "dispatch_claim eid org" dl_expires_at
    "dispatch_held eid org" for eid org
proof unfold_locales
  fix s :: exec_db and a :: "env \<times> string \<times> int" and now t :: time and l
  obtain env worker secs where a: "a = (env, worker, secs)" by (cases a)
  show "keys_unique (snd (dispatch_claim eid org s a now))" if "keys_unique s"
    using that reaches_keys [OF reaches1 [OF exec_step.claim_dispatch]]
    by (simp add: dispatch_claim_def a Let_def)
  show "fst (dispatch_claim eid org s a now) = None" if "keys_unique s" "dispatch_held eid org s now"
    using dispatch_refused [OF that] by (auto simp: dispatch_claim_def a Let_def split: sum.split)
      (metis not_Some_eq)
  show "dispatch_held eid org (snd (dispatch_claim eid org s a now)) t"
    if "keys_unique s" "dispatch_held eid org s now" "dispatch_held eid org s t"
    using dispatch_refused [OF that(1,2)] that(3)
    by (simp add: dispatch_claim_def a Let_def dispatch_held_def)
  show "dispatch_held eid org (snd (dispatch_claim eid org s a now)) t"
    if "keys_unique s" "fst (dispatch_claim eid org s a now) = Some l" "t < dl_expires_at l"
    using that(2,3) by (auto simp: dispatch_claim_def a Let_def split: sum.splits intro: dispatch_granted)
qed

text \<open>C5. Mutual exclusion of workers: once a claim of a dispatch intent is granted, every further claim
  of it, by any worker, that arrives before the lease expires is refused, however many arrive.\<close>

theorem dispatch_lease_exclusive:
  assumes "keys_unique db"
    and "fst (dispatch_claim eid org db (env, worker, secs) now) = Some lease"
    and "\<And>a t. (a, t) \<in> set claims \<Longrightarrow> t < dl_expires_at lease"
  shows "set (answers (dispatch_claim eid org) (snd (dispatch_claim eid org db (env, worker, secs) now)) claims)
    \<subseteq> {None}"
  by (rule dispatch.one_holder [OF assms])

theorem dispatch_lease_exclusive_witness:
  "set (answers (dispatch_claim ''run-u1'' ''org'')
     (snd (dispatch_claim ''run-u1'' ''org'' approved_db (env_at 3, ''worker'', 30) 3))
     [((env_at 4, ''worker'', 30), 4), ((env_at 9, ''worker'', 60), 29999999)]) \<subseteq> {None}"
proof -
  have "fst (dispatch_claim ''run-u1'' ''org'' approved_db (env_at 3, ''worker'', 30) 3) =
    Some \<lparr> dl_execution_id = ''run-u1'', dl_organization_id = ''org'', dl_owner = ''worker'',
           dl_token = ''u0'', dl_expires_at = 30000003, dl_attempt_count = 1 \<rparr>" by code_simp
  then show ?thesis by (intro dispatch_lease_exclusive [OF sample_keys(3)]) auto
qed

subsection \<open>The recovery lease\<close>

definition recovery_claim ::
    "string \<Rightarrow> string \<Rightarrow> exec_db \<Rightarrow> env \<times> string \<times> string \<times> int \<Rightarrow> time \<Rightarrow> recovery_lease option \<times> exec_db" where
  "recovery_claim eid org db a now =
    (case a of (env, owner, gen, secs) \<Rightarrow>
       let res = claim_recovery (env\<lparr>e_now := (\<lambda>_. now)\<rparr>) db eid org owner gen secs
       in (case fst res of Inr l \<Rightarrow> l | Inl _ \<Rightarrow> None, snd res))"

definition recovery_live :: "string \<Rightarrow> string \<Rightarrow> exec_db \<Rightarrow> time \<Rightarrow> bool" where
  "recovery_live eid org db t =
    sql_exists (\<lambda>v. v_execution_id v = eid \<and> v_organization_id v = org
      \<and> after (v_lease_expires_at v) t) (recovery_states db)"

lemma updated_exists:
  "sql_rowcount P t = Suc 0 \<Longrightarrow> (\<And>r. P r \<Longrightarrow> G (f r)) \<Longrightarrow> \<exists>v \<in> set (sql_update P f t). G v"
  using updated_row [of P t f] by auto

lemma recovery_refused:
  assumes "keys_unique db" and "recovery_live eid org db (e_now env 0)"
  shows "(\<forall>l. fst (claim_recovery env db eid org owner gen secs) \<noteq> Inr (Some l))
    \<and> recovery_states (snd (claim_recovery env db eid org owner gen secs)) = recovery_states db"
proof -
  let ?res = "claim_recovery env db eid org owner gen secs"
  from assms(2) obtain v where v: "v \<in> set (recovery_states db)" "v_execution_id v = eid"
      "v_organization_id v = org" "after (v_lease_expires_at v) (e_now env 0)"
    by (auto simp: recovery_live_def sql_exists_iff)
  have found: "sql_find (\<lambda>v. v_execution_id v = eid \<and> v_organization_id v = org) (recovery_states db) = Some v"
    using assms(1) v
    by (intro sql_find_unique [where key = recovery_pk]) (auto simp: keys_unique_def recovery_pk_def)
  define Q :: "recovery_lease option outcome \<Rightarrow> bool" where
    "Q res \<longleftrightarrow> (\<forall>l. fst res \<noteq> Inr (Some l)) \<and> recovery_states (snd res) = recovery_states db" for res
  have "Q ?res"
    unfolding claim_recovery_def
    by (intro branch_flow [where Q = Q]; simp add: Q_def found v)
  then show ?thesis by (simp add: Q_def)
qed

lemma recovery_granted:
  assumes "fst (claim_recovery env db eid org owner gen secs) = Inr (Some l)" and "t < rl_lease_expires_at l"
  shows "recovery_live eid org (snd (claim_recovery env db eid org owner gen secs)) t"
proof -
  let ?res = "claim_recovery env db eid org owner gen secs"
  define Q :: "recovery_lease option outcome \<Rightarrow> bool" where
    "Q res \<longleftrightarrow> (fst res = Inr (Some l) \<longrightarrow> (\<exists>v \<in> set (recovery_states (snd res)).
       v_execution_id v = eid \<and> v_organization_id v = org
       \<and> v_lease_expires_at v = Some (rl_lease_expires_at l)))" for res
  have "Q ?res"
    unfolding claim_recovery_def
    by (intro branch_flow [where Q = Q];
        auto simp: Q_def fresh_recovery_def intro!: updated_exists split: option.splits)
  with assms show ?thesis by (auto simp: Q_def recovery_live_def sql_exists_iff)
qed

interpretation recovery: fenced_lease keys_unique "recovery_claim eid org" rl_lease_expires_at
    "recovery_live eid org" for eid org
proof unfold_locales
  fix s :: exec_db and a :: "env \<times> string \<times> string \<times> int" and now t :: time and l
  obtain env owner gen secs where a: "a = (env, owner, gen, secs)" by (cases a)
  let ?env = "env\<lparr>e_now := (\<lambda>_. now)\<rparr>"
  have now: "e_now ?env 0 = now" by simp
  show "keys_unique (snd (recovery_claim eid org s a now))" if "keys_unique s"
    using that reaches_keys [OF reaches1 [OF exec_step.claim_rec]]
    by (simp add: recovery_claim_def a Let_def)
  show "fst (recovery_claim eid org s a now) = None" if "keys_unique s" "recovery_live eid org s now"
    using recovery_refused [of s eid org ?env] that
    by (auto simp: recovery_claim_def a Let_def split: sum.split) (metis not_Some_eq)
  show "recovery_live eid org (snd (recovery_claim eid org s a now)) t"
    if "keys_unique s" "recovery_live eid org s now" "recovery_live eid org s t"
    using recovery_refused [of s eid org ?env] that
    by (simp add: recovery_claim_def a Let_def recovery_live_def)
  show "recovery_live eid org (snd (recovery_claim eid org s a now)) t"
    if "keys_unique s" "fst (recovery_claim eid org s a now) = Some l" "t < rl_lease_expires_at l"
    using that(2,3)
    by (auto simp: recovery_claim_def a Let_def split: sum.splits intro: recovery_granted)
qed

text \<open>One recovery owner at a time: once a worker is granted the recovery lease of an execution,
  every further recovery claim before that lease expires is refused.\<close>

theorem recovery_lease_exclusive:
  assumes "keys_unique db"
    and "fst (recovery_claim eid org db (env, owner, gen, secs) now) = Some lease"
    and "\<And>a t. (a, t) \<in> set claims \<Longrightarrow> t < rl_lease_expires_at lease"
  shows "set (answers (recovery_claim eid org)
    (snd (recovery_claim eid org db (env, owner, gen, secs) now)) claims) \<subseteq> {None}"
  by (rule recovery.one_holder [OF assms])

definition uncertain_db :: exec_db where
  "uncertain_db = snd (transition_process_ownership (env_at 5) running_db
     ((hd (process_ownerships running_db))\<lparr>o_ownership_state := LAUNCH_UNCERTAIN,
        o_worker_generation := Some ''gen'', o_launch_commit_state := UNCERTAIN\<rparr>)
     UNKNOWN ''worker'' ''launch'' (Some ''worker''))"

theorem recovery_lease_exclusive_witness:
  "set (answers (recovery_claim ''run-u1'' ''org'')
     (snd (recovery_claim ''run-u1'' ''org'' uncertain_db (env_at 6, ''r1'', ''g2'', 30) 6))
     [((env_at 7, ''r2'', ''g3'', 30), 7), ((env_at 8, ''r1'', ''g2'', 30), 30000005)]) \<subseteq> {None}"
proof -
  have "fst (recovery_claim ''run-u1'' ''org'' uncertain_db (env_at 6, ''r1'', ''g2'', 30) 6) =
    Some \<lparr> rl_execution_id = ''run-u1'', rl_organization_id = ''org'', rl_owner = ''r1'',
       rl_worker_generation = ''g2'', rl_lease_token = ''recovery-u0'', rl_lease_expires_at = 30000006,
       rl_attempt_number = 1, rl_correlation_id = Some ''corr'' \<rparr>" "keys_unique uncertain_db"
    by code_simp+
  then show ?thesis by (intro recovery_lease_exclusive) auto
qed

end
