(* ===== verification/Exec_Authority.thy ===== *)
theory Exec_Authority
  imports Exec_Properties
begin

text \<open>
  Which calls succeed only under live authority: finishing, guarded transitions and lease renewals;
  what the reaper settles, and what it can no longer settle.
\<close>

section \<open>Success needs live authority\<close>

text \<open>The two ways a finish can succeed: the recorded outcome repeated (\<open>replay\<close>), or the worker of a
  running run, holding its dispatch intent under live authority (\<open>fenced\<close>).\<close>

definition finish_replay :: "string \<Rightarrow> run_state \<Rightarrow> string option \<Rightarrow> exec_run \<Rightarrow> bool" where
  "finish_replay worker ts reason r =
    (r_state r = ts \<and> terminal ts \<and> r_reason_code r = reason \<and> r_worker_identity r = Some worker)"

definition finish_fenced :: "env \<Rightarrow> exec_db \<Rightarrow> string \<Rightarrow> string \<Rightarrow>
    dispatch_intent \<times> exec_run \<times> exec_request \<times> exec_decision \<Rightarrow> bool" where
  "finish_fenced env db worker token w = (case w of (i, r, q, d) \<Rightarrow>
     r_state r = RUNNING \<and> r_worker_identity r = Some worker
     \<and> held_by worker token i \<and> after (i_lease_expires_at i) (e_now env 2)
     \<and> q_state q = ''AUTHORIZED'' \<and> e_now env 3 < q_expires_at q
     \<and> d_approval_state d = ''APPROVED'' \<and> d_revoked_at d = None \<and> e_now env 4 < d_expires_at d
     \<and> \<not> is_token_revoked db (d_session_jti d))"

text \<open>C4. A worker's finish succeeds only in two ways.  Either it repeats the recorded outcome of a
  terminal run, and then nothing is written; or the run is running under this worker, the worker
  holds the dispatch intent under this token with a lease still live, the request is authorized and
  the decision approved, unrevoked, unexpired and of an unrevoked session.\<close>

theorem finish_needs_authority:
  assumes "fst (finish_execution env db eid org worker token ts reason pid pgid) = Inr True"
  shows "\<exists>w. fetchone (authority_rows db eid org) = Some w \<and>
    is_valid_execution_terminal_outcome ts reason \<and>
    ((finish_replay worker ts reason (fst (snd w))
        \<and> snd (finish_execution env db eid org worker token ts reason pid pgid) = db)
     \<or> finish_fenced env db worker token w)"
proof -
  define Q :: "bool outcome \<Rightarrow> bool" where "Q res \<longleftrightarrow> (fst res = Inr True \<longrightarrow>
    (\<exists>w. fetchone (authority_rows db eid org) = Some w \<and>
    is_valid_execution_terminal_outcome ts reason \<and>
    ((finish_replay worker ts reason (fst (snd w)) \<and> snd res = db)
     \<or> finish_fenced env db worker token w)))" for res
  have "Q (finish_execution env db eid org worker token ts reason pid pgid)"
    unfolding finish_execution_def record_dispatch_rejection_def
    by (intro branch_flow [where Q = Q]; simp add: Q_def finish_replay_def finish_fenced_def)
  with assms show ?thesis by (simp add: Q_def)
qed

theorem finish_needs_authority_witness:
  "\<exists>w. fetchone (authority_rows running_db ''run-u1'' ''org'') = Some w \<and>
    is_valid_execution_terminal_outcome SUCCEEDED None \<and>
    ((finish_replay ''worker'' SUCCEEDED None (fst (snd w)) \<and> finished_db = running_db)
     \<or> finish_fenced (env_at 5) running_db ''worker'' ''u1'' w)"
proof -
  have "fst (finish_execution (env_at 5) running_db ''run-u1'' ''org'' ''worker'' ''u1''
     SUCCEEDED None (Some 42) (Some ''42'')) = Inr True" by code_simp
  from finish_needs_authority [OF this] show ?thesis unfolding finished_db_def .
qed

section \<open>Guarded transitions, renewals, reaping\<close>

text \<open>The authority re-check of the dispatch update selects the same run, request and decision rows.\<close>

lemma authority_exists_run:
  assumes "authority_exists db now eid org extra"
  shows "\<exists>r \<in> set (execution_runs db). r_execution_id r = eid \<and> r_organization_id r = org \<and>
    (\<exists>q \<in> set (requests_of db r). q_state q = ''AUTHORIZED'' \<and> now < q_expires_at q) \<and>
    (\<exists>d \<in> set (decisions_of db r). d_approval_state d = ''APPROVED'' \<and> d_revoked_at d = None
        \<and> now < d_expires_at d \<and> extra d)"
  using assms by (auto simp: authority_exists_def sql_exists_iff)

lemma unique_rows:
  assumes "keys_unique db"
  shows "r \<in> set (execution_runs db) \<Longrightarrow> s \<in> set (execution_runs db) \<Longrightarrow>
      r_execution_id r = r_execution_id s \<Longrightarrow> r = s"
    and "q \<in> set (execution_requests db) \<Longrightarrow> p \<in> set (execution_requests db) \<Longrightarrow> q_id q = q_id p \<Longrightarrow> q = p"
    and "d \<in> set (execution_decisions db) \<Longrightarrow> e \<in> set (execution_decisions db) \<Longrightarrow> d_id d = d_id e \<Longrightarrow> d = e"
  using assms by (auto simp: keys_unique_def distinct_map dest: inj_onD)

lemma authority_exists_current:
  assumes "keys_unique db" and "(i, r, q, d) \<in> set (authority_rows db eid org)"
    and "authority_exists db now eid org extra"
  shows "q_state q = ''AUTHORIZED'' \<and> now < q_expires_at q \<and> d_approval_state d = ''APPROVED''
    \<and> d_revoked_at d = None \<and> now < d_expires_at d \<and> extra d"
proof -
  note row = authority_rowsD [OF assms(2)]
  from authority_exists_run [OF assms(3)] obtain r' q' d' where
    *: "r' \<in> set (execution_runs db)" "r_execution_id r' = eid" "q' \<in> set (requests_of db r')"
    "d' \<in> set (decisions_of db r')" "q_state q' = ''AUTHORIZED''" "now < q_expires_at q'"
    "d_approval_state d' = ''APPROVED''" "d_revoked_at d' = None" "now < d_expires_at d'" "extra d'"
    by blast
  have "r' = r" using *(1,2) row by (intro unique_rows(1) [OF assms(1)]) simp_all
  moreover from this have "q' = q" using *(3) row
    by (intro unique_rows(2) [OF assms(1)]) (auto simp: requests_of_def)
  moreover from \<open>r' = r\<close> have "d' = d" using *(4) row
    by (intro unique_rows(3) [OF assms(1)]) (auto simp: decisions_of_def)
  ultimately show ?thesis using *(5-10) by simp
qed

definition lawful_transition :: "env \<Rightarrow> exec_db \<Rightarrow> run_state \<Rightarrow> run_state \<Rightarrow> string option \<Rightarrow> string option \<Rightarrow>
    string option \<Rightarrow> dispatch_intent \<times> exec_run \<times> exec_request \<times> exec_decision \<Rightarrow> bool" where
  "lawful_transition env db old new reason who tok w = (case w of (i, r, q, d) \<Rightarrow>
     new \<in> set (EXECUTION_RUN_TRANSITIONS old) \<and> authority_current db (e_now env 1) q d
     \<and> i_state i = CLAIMED \<and> i_claimed_by i = who \<and> i_claim_token i = tok
     \<and> Some (d_worker_identity d) = who \<and> after (i_lease_expires_at i) (e_now env 1)
     \<and> (terminal new \<longrightarrow> is_valid_execution_terminal_outcome new reason))"

lemma run_authority_current:
  assumes "keys_unique db" and "(i, r, q, d) \<in> set (authority_rows db eid org)"
    and "sql_rowcount (\<lambda>x. r_execution_id x = eid \<and> r_organization_id x = org \<and> r_state x = old
       \<and> \<not> is_token_revoked db (d_session_jti d) \<and> run_authority_by_id db now x) (execution_runs db) = 1"
  shows "authority_current db now q d"
proof -
  note row = authority_rowsD [OF assms(2)]
  have "0 < sql_rowcount (\<lambda>x. r_execution_id x = eid \<and> r_organization_id x = org \<and> r_state x = old
       \<and> \<not> is_token_revoked db (d_session_jti d) \<and> run_authority_by_id db now x) (execution_runs db)"
    using assms(3) by simp
  then obtain x where x: "x \<in> set (execution_runs db)" "r_execution_id x = eid"
      "\<not> is_token_revoked db (d_session_jti d)" "run_authority_by_id db now x"
    by (auto simp: sql_rowcount_def count_if_pos_iff)
  then have "x = r" using row by (intro unique_rows(1) [OF assms(1)]) simp_all
  with x(4) obtain q' d' where *: "q' \<in> set (requests_of db r)" "q_state q' = ''AUTHORIZED''"
      "now < q_expires_at q'" "d' \<in> set (execution_decisions db)"
      "r_approved_decision_id r = Some (d_id d')" "d_approval_state d' = ''APPROVED''"
      "d_revoked_at d' = None" "now < d_expires_at d'"
    by (auto simp: run_authority_by_id_def sql_exists_iff)
  have "q' = q" using *(1) row by (intro unique_rows(2) [OF assms(1)]) (auto simp: requests_of_def)
  moreover have "d' = d" using *(4,5) row by (intro unique_rows(3) [OF assms(1)]) auto
  ultimately show ?thesis using * x(3) by (simp add: authority_current_def)
qed

text \<open>A guarded transition succeeds only under current authority: whatever the target state, a
  successful call found the request authorized and unexpired and the decision approved, unrevoked and
  unexpired, held a live dispatch lease, and moved along the transition table.  In particular the
  branch that admits a failed, cancelled or timed-out end after the authority was lost never commits.\<close>

theorem transition_needs_current_authority:
  assumes "keys_unique db"
    and "fst (transition_execution_run env db eid org old new reason pid who tok) = Inr True"
  shows "\<exists>w. fetchone (authority_rows db eid org) = Some w \<and> lawful_transition env db old new reason who tok w"
proof -
  define Q :: "bool outcome \<Rightarrow> bool" where "Q res \<longleftrightarrow> (fst res = Inr True \<longrightarrow>
    (\<exists>w. fetchone (authority_rows db eid org) = Some w \<and> lawful_transition env db old new reason who tok w))"
    for res
  have cur: "authority_current db now q d"
    if "fetchone (authority_rows db eid org) = Some (i, r, q, d)"
      "sql_rowcount (\<lambda>x. r_execution_id x = eid \<and> r_organization_id x = org \<and> r_state x = old
       \<and> \<not> is_token_revoked db (d_session_jti d) \<and> run_authority_by_id db now x) (execution_runs db) = 1"
    for i r q d now
    using run_authority_current [OF assms(1) fetchone_Some_in [OF that(1)] that(2)] .
  have "Q (transition_execution_run env db eid org old new reason pid who tok)"
    unfolding transition_execution_run_def
    by (intro branch_flow [where Q = Q]; simp add: Q_def lawful_transition_def)
      (frule (1) cur [simplified]; simp)
  with assms(2) show ?thesis by (simp add: Q_def)
qed

theorem transition_needs_current_authority_witness:
  "\<exists>w. fetchone (authority_rows claimed_db ''run-u1'' ''org'') = Some w \<and>
    lawful_transition (env_at 5) claimed_db STARTING CANCELLED (Some ''EXECUTION_CANCELLED'')
      (Some ''worker'') (Some ''u1'') w"
proof -
  have "fst (transition_execution_run (env_at 5) claimed_db ''run-u1'' ''org'' STARTING CANCELLED
     (Some ''EXECUTION_CANCELLED'') None (Some ''worker'') (Some ''u1'')) = Inr True"
    "keys_unique claimed_db" by code_simp+
  from transition_needs_current_authority [OF this(2,1)] show ?thesis .
qed

lemma filter_sql_update:
  "(\<And>x. P x \<Longrightarrow> key (f x) = key x) \<Longrightarrow>
     filter (\<lambda>x. key x = k) (sql_update P f t) = sql_update P f (filter (\<lambda>x. key x = k) t)"
  by (induction t) (auto simp: sql_update_def)

text \<open>An update that hits one row of the execution leaves exactly that row, updated.\<close>

lemma updated_intent:
  assumes "keys_unique db" and "i \<in> set (dispatch_intents db)" and "i_execution_id i = eid"
    and "sql_rowcount P (dispatch_intents db) = 1" and "\<And>x. P x \<Longrightarrow> i_execution_id x = eid"
    and "\<And>x. i_execution_id (f x) = i_execution_id x"
  shows "P i \<and> filter (\<lambda>x. i_execution_id x = eid) (sql_update P f (dispatch_intents db)) = [f i]"
proof -
  have d: "distinct (map i_execution_id (dispatch_intents db))" using assms(1) by (simp add: keys_unique_def)
  obtain j where j: "j \<in> set (dispatch_intents db)" "P j"
    using assms(4) count_if_pos_iff [of P "dispatch_intents db"] by (auto simp: sql_rowcount_def)
  then have "j = i" using assms(2,3,5) d by (auto simp: distinct_map dest: inj_onD)
  moreover have "filter (\<lambda>x. i_execution_id x = eid) (dispatch_intents db) = [i]"
    using filter_key [OF d assms(2)] assms(3) by simp
  ultimately show ?thesis using j(2) assms(6) by (simp add: filter_sql_update) (simp add: sql_update_def)
qed

text \<open>C12. A renewal never writes a lease past its authority: when a renewal succeeds, the dispatch intent
  of the execution is stored with exactly the returned expiry and is otherwise as it was, that expiry
  is at most the requested number of seconds away and at most the expiry the request and the decision
  have in that transaction, and it is granted only on a lease held by this worker under this token, with
  live authority. (A later expiry of the whole scan can still shorten the authority below the lease.)\<close>

theorem renewed_lease_is_capped:
  assumes "keys_unique db"
    and "fst (renew_execution_dispatch_lease env db eid org worker token secs now) = Inr (Some expiry)"
  shows "\<exists>i r q d. fetchone (filter (\<lambda>(i, r, q, d). held_by worker token i) (authority_rows db eid org))
        = Some (i, r, q, d)
    \<and> filter (\<lambda>x. i_execution_id x = eid)
          (dispatch_intents (snd (renew_execution_dispatch_lease env db eid org worker token secs now)))
        = [i\<lparr>i_lease_expires_at := Some expiry\<rparr>]
    \<and> expiry \<le> reading env now + seconds secs \<and> expiry \<le> q_expires_at q \<and> expiry \<le> d_expires_at d
    \<and> q_state q = ''AUTHORIZED'' \<and> d_approval_state d = ''APPROVED'' \<and> d_revoked_at d = None
    \<and> d_worker_identity d = worker \<and> \<not> is_token_revoked db (d_session_jti d)
    \<and> reading env now < q_expires_at q \<and> reading env now < d_expires_at d
    \<and> after (i_lease_expires_at i) (reading env now)"
proof -
  let ?res = "renew_execution_dispatch_lease env db eid org worker token secs now"
  let ?live = "authority_exists db (reading env now) eid org
    (\<lambda>d. d_worker_identity d = worker \<and> \<not> is_token_revoked db (d_session_jti d))"
  let ?hit = "\<lambda>x. i_execution_id x = eid \<and> i_organization_id x = org \<and> held_by worker token x
    \<and> after (i_lease_expires_at x) (reading env now) \<and> ?live"
  let ?f = "\<lambda>x. x\<lparr>i_lease_expires_at := Some expiry\<rparr>"
  let ?found = "fetchone (filter (\<lambda>(i, r, q, d). held_by worker token i) (authority_rows db eid org))"
  define Q :: "time option outcome \<Rightarrow> bool" where "Q res \<longleftrightarrow> (fst res = Inr (Some expiry) \<longrightarrow>
    (\<exists>i r q d. ?found = Some (i, r, q, d) \<and> expiry = min (reading env now + seconds secs)
        (min (q_expires_at q) (d_expires_at d)) \<and>
      sql_rowcount ?hit (dispatch_intents db) = 1 \<and>
      dispatch_intents (snd res) = sql_update ?hit ?f (dispatch_intents db)))" for res
  have "Q ?res"
    unfolding renew_execution_dispatch_lease_def record_dispatch_rejection_def
    by (intro branch_flow [where Q = Q]; simp add: Q_def)
  with assms(2) obtain i r q d where *: "?found = Some (i, r, q, d)"
      "expiry = min (reading env now + seconds secs) (min (q_expires_at q) (d_expires_at d))"
      "sql_rowcount ?hit (dispatch_intents db) = 1"
      "dispatch_intents (snd ?res) = sql_update ?hit ?f (dispatch_intents db)"
    by (auto simp: Q_def)
  have row: "(i, r, q, d) \<in> set (authority_rows db eid org)" using fetchone_Some_in [OF *(1)] by simp
  have hit: "?hit i \<and> filter (\<lambda>x. i_execution_id x = eid) (sql_update ?hit ?f (dispatch_intents db)) = [?f i]"
    using authority_rowsD(1,5) [OF row] by (intro updated_intent [OF assms(1) _ _ *(3)]) simp_all
  then have ?live by simp
  from authority_exists_current [OF assms(1) row this] *(1,2) hit show ?thesis
    unfolding *(4) by (intro exI [of _ i] exI [of _ r] exI [of _ q] exI [of _ d]) auto
qed

theorem renewed_lease_is_capped_witness:
  "\<exists>i r q d. fetchone (filter (\<lambda>(i, r, q, d). held_by ''worker'' ''u1'' i)
      (authority_rows running_db ''run-u1'' ''org'')) = Some (i, r, q, d)
    \<and> filter (\<lambda>x. i_execution_id x = ''run-u1'') (dispatch_intents (snd (renew_execution_dispatch_lease
          (env_at 6) running_db ''run-u1'' ''org'' ''worker'' ''u1'' 3600 None)))
        = [i\<lparr>i_lease_expires_at := Some 900000000\<rparr>]
    \<and> 900000000 \<le> q_expires_at q \<and> 900000000 \<le> d_expires_at d"
proof -
  have "fst (renew_execution_dispatch_lease (env_at 6) running_db ''run-u1'' ''org'' ''worker'' ''u1'' 3600 None)
    = Inr (Some 900000000)" by code_simp
  from renewed_lease_is_capped [OF sample_keys(4) this] show ?thesis by blast
qed

text \<open>With unique keys a run has one authority row.\<close>

lemma authority_row_unique:
  assumes "keys_unique db" and "w \<in> set (authority_rows db eid org)"
  shows "fetchone (authority_rows db eid org) = Some w"
proof -
  obtain v where v: "fetchone (authority_rows db eid org) = Some v"
    using assms(2) by (cases "authority_rows db eid org") auto
  obtain i r q d where w: "w = (i, r, q, d)" by (cases w)
  obtain i' r' q' d' where v': "v = (i', r', q', d')" by (cases v)
  note a = authority_rowsD [OF assms(2) [unfolded w]]
  note b = authority_rowsD [OF fetchone_Some_in [OF v, unfolded v']]
  have "r' = r" using a b by (intro unique_rows(1) [OF assms(1)]) simp_all
  moreover from this have "q' = q" "d' = d"
    using a b by (auto intro: unique_rows(2,3) [OF assms(1)])
  moreover have "i' = i"
    using assms(1) a(1,5) b(1,5) by (auto simp: keys_unique_def distinct_map dest: inj_onD)
  ultimately show ?thesis using v v' w by simp
qed

lemma rowcount_one:
  assumes "distinct (map key t)" "x \<in> set t" "P x" "\<And>y. P y \<Longrightarrow> key y = key x"
  shows "sql_rowcount P t = 1"
proof -
  have "sql_rowcount P t \<le> 1" using assms(1,4) by (intro sql_rowcount_distinct)
  moreover have "0 < sql_rowcount P t"
    using assms(2,3) by (auto simp: sql_rowcount_def count_if_pos_iff)
  ultimately show ?thesis by simp
qed

text \<open>C11. The reaper always settles what it may settle: when a non-terminal run with an open dispatch
  intent has lost its authority or its lease, reaping it with any reason-coded safe terminal state
  succeeds, makes the run terminal with that state and reason, and settles the intent.\<close>

theorem reaper_settles:
  assumes "keys_unique db" and "(i, r, q, d) \<in> set (authority_rows db eid org)" and "org \<noteq> []"
    and "\<not> terminal (r_state r)" and "i_state i \<in> {PENDING, CLAIMED}"
    and "authority_lost db (e_now env 1) i q d"
    and "ts \<in> {CANCELLED, TIMED_OUT, FAILED, EXECUTION_BLOCKED}"
    and "is_valid_execution_terminal_outcome ts (Some reason)"
  shows "fst (reap_execution_dispatch env db eid org ts reason actor) = Inr True \<and>
    (\<exists>r' \<in> set (execution_runs (snd (reap_execution_dispatch env db eid org ts reason actor))).
       run_key r' = run_key r \<and> r_state r' = ts \<and> r_reason_code r' = Some reason) \<and>
    (\<exists>i' \<in> set (dispatch_intents (snd (reap_execution_dispatch env db eid org ts reason actor))).
       i_execution_id i' = eid \<and> intent_settled i')"
proof -
  note row = authority_rowsD [OF assms(2)]
  let ?ih = "\<lambda>x. i_execution_id x = eid \<and> i_organization_id x = org \<and> i_state x \<in> {PENDING, CLAIMED}"
  let ?rh = "\<lambda>x. r_execution_id x = eid \<and> r_organization_id x = org \<and> \<not> terminal (r_state x)"
  have "sql_rowcount ?ih (dispatch_intents db) = 1"
    using assms(1,5) row by (intro rowcount_one [of i_execution_id _ i]) (auto simp: keys_unique_def)
  moreover have "sql_rowcount ?rh (execution_runs db) = 1"
    using assms(1,4) row by (intro rowcount_one [of r_execution_id _ r]) (auto simp: keys_unique_def)
  ultimately have counts: "sql_rowcount ?ih (dispatch_intents db) = 1" "sql_rowcount ?rh (execution_runs db) = 1" .
  have "\<exists>ds e m. fst (reap_execution_dispatch env db eid org ts reason actor) = Inr True \<and> ds \<in> {BLOCKED, DFAILED} \<and>
    dispatch_intents (snd (reap_execution_dispatch env db eid org ts reason actor)) =
      sql_update ?ih (settle_intent ds m e) (dispatch_intents db) \<and>
    execution_runs (snd (reap_execution_dispatch env db eid org ts reason actor)) =
      sql_update ?rh (\<lambda>x. x\<lparr>r_state := ts, r_reason_code := Some reason, r_finished_at := Some m\<rparr>)
        (execution_runs db)"
    using assms(3-8) counts authority_row_unique [OF assms(1,2)]
    by (simp add: reap_execution_dispatch_def Let_def) auto
  then obtain ds e m where *: "fst (reap_execution_dispatch env db eid org ts reason actor) = Inr True"
    "ds \<in> {BLOCKED, DFAILED}"
    "dispatch_intents (snd (reap_execution_dispatch env db eid org ts reason actor)) =
      sql_update ?ih (settle_intent ds m e) (dispatch_intents db)"
    "execution_runs (snd (reap_execution_dispatch env db eid org ts reason actor)) =
      sql_update ?rh (\<lambda>x. x\<lparr>r_state := ts, r_reason_code := Some reason, r_finished_at := Some m\<rparr>)
        (execution_runs db)" by blast
  have "settle_intent ds m e i \<in> set (sql_update ?ih (settle_intent ds m e) (dispatch_intents db))"
    using row assms(5) by (force simp: set_sql_update)
  moreover have "intent_settled (settle_intent ds m e i)"
    using *(2) by (auto simp: intent_settled_def settle_intent_def)
  moreover have "r\<lparr>r_state := ts, r_reason_code := Some reason, r_finished_at := Some m\<rparr> \<in>
      set (sql_update ?rh (\<lambda>x. x\<lparr>r_state := ts, r_reason_code := Some reason, r_finished_at := Some m\<rparr>)
        (execution_runs db))"
    using row assms(4) by (force simp: set_sql_update)
  ultimately show ?thesis
    unfolding *(3,4) using *(1) row(5)
    by (intro conjI bexI [of _ "settle_intent ds m e i"]
        bexI [of _ "r\<lparr>r_state := ts, r_reason_code := Some reason, r_finished_at := Some m\<rparr>"])
      (simp_all add: settle_intent_def)
qed

theorem reaper_settles_witness:
  "fst (reap_execution_dispatch (env_at 60000000) running_db ''run-u1'' ''org'' TIMED_OUT
     ''EXECUTION_AUTHORITY_EXPIRED'' ''reaper'') = Inr True"
proof -
  obtain i r q d where *: "authority_rows running_db ''run-u1'' ''org'' = [(i, r, q, d)]"
    "\<not> terminal (r_state r)" "i_state i \<in> {PENDING, CLAIMED}"
    "authority_lost running_db 60000000 i q d"
  proof
    let ?w = "hd (authority_rows running_db ''run-u1'' ''org'')"
    show "authority_rows running_db ''run-u1'' ''org'' =
      [(fst ?w, fst (snd ?w), fst (snd (snd ?w)), snd (snd (snd ?w)))]" by code_simp
    show "\<not> terminal (r_state (fst (snd ?w)))" by code_simp
    show "i_state (fst ?w) \<in> {PENDING, CLAIMED}" by code_simp
    show "authority_lost running_db 60000000 (fst ?w) (fst (snd (snd ?w))) (snd (snd (snd ?w)))"
      by code_simp
  qed
  have "e_now (env_at 60000000) 1 = 60000000"
    "is_valid_execution_terminal_outcome TIMED_OUT (Some ''EXECUTION_AUTHORITY_EXPIRED'')" by code_simp+
  with * show ?thesis
    by (intro conjunct1 [OF reaper_settles [OF sample_keys(4), of i r q d]]) simp_all
qed

lemma no_row: "(\<And>x. x \<in> set t \<Longrightarrow> \<not> P x) \<Longrightarrow> sql_rowcount P t = 0"
  by (simp add: sql_rowcount_def count_if_zero_iff)

text \<open>A settled intent closes the recovery paths: once the dispatch intent of an execution is
  completed, failed or blocked, no later reap, cancellation acknowledgement or settlement of that
  execution succeeds, whatever state its run is in.\<close>

theorem settled_intent_closes_reaping:
  assumes "keys_unique db" and "reaches db db'" and "i \<in> set (dispatch_intents db)" and "intent_settled i"
    and "i_execution_id i = eid"
  shows "fst (reap_execution_dispatch env db' eid org ts reason actor) \<noteq> Inr True \<and>
    fst (acknowledge_execution_cancellation env db' eid org worker token) \<noteq> Inr True \<and>
    fst (settle_execution_dispatch_intent env db' eid org worker token success code) \<noteq> Inr True"
proof -
  have k: "keys_unique db'" using assms(1,2) by (rule reaches_keys [rotated])
  have "i \<in> set (dispatch_intents db')"
    using rows_evolve_old [OF reaches_evolves(4) [OF assms(2,1)] assms(3)] assms(4)
    by (auto simp: intent_le_def)
  then have settled: "intent_settled x" if "x \<in> set (dispatch_intents db')" "i_execution_id x = eid" for x
    using that assms(4,5) k by (auto simp: keys_unique_def distinct_map dest: inj_onD)
  have none: "sql_rowcount P (dispatch_intents db') \<noteq> Suc 0"
    if "\<And>x. P x \<Longrightarrow> i_execution_id x = eid \<and> i_state x \<in> {PENDING, CLAIMED}" for P
    using no_row [of "dispatch_intents db'" P] that settled by (fastforce simp: intent_settled_def)
  have closed: "sql_rowcount (\<lambda>x. i_execution_id x = eid \<and> i_organization_id x = org \<and>
        (i_state x = PENDING \<or> i_state x = CLAIMED)) (dispatch_intents db') \<noteq> Suc 0"
    "sql_rowcount (\<lambda>x. i_execution_id x = eid \<and> i_organization_id x = org \<and>
        held_by worker token x \<and> E x) (dispatch_intents db') \<noteq> Suc 0" for E
    by (rule none; auto simp: held_by_def)+
  define Q :: "bool outcome \<Rightarrow> bool" where "Q res \<longleftrightarrow> fst res \<noteq> Inr True" for res
  have "Q (reap_execution_dispatch env db' eid org ts reason actor)"
    unfolding reap_execution_dispatch_def record_dispatch_rejection_def
    by (intro branch_flow [where Q = Q]; simp add: Q_def closed)
  moreover have "Q (acknowledge_execution_cancellation env db' eid org worker token)"
    unfolding acknowledge_execution_cancellation_def record_dispatch_rejection_def
    by (intro branch_flow [where Q = Q]; simp add: Q_def closed)
  moreover have "Q (settle_execution_dispatch_intent env db' eid org worker token success code)"
    unfolding settle_execution_dispatch_intent_def record_dispatch_rejection_def
    by (intro branch_flow [where Q = Q]; simp add: Q_def closed)
  ultimately show ?thesis by (simp add: Q_def)
qed

text \<open>Such a run exists: after a claim, its release and the revocation of the request, the run is still
  \<open>STARTING\<close> while its intent is blocked, and no reap settles it any more.\<close>

definition orphan_db :: exec_db where
  "orphan_db = snd (revoke_execution_request (env_at 6) (snd (release_execution_authority (env_at 5)
     claimed_db ''dec-u0'' ''org'' ''worker'' ''u0'' ''u1'')) ''req'' ''org'' ''admin'')"

theorem settled_intent_closes_reaping_witness:
  "map r_state (execution_runs orphan_db) = [STARTING] \<and>
   (\<forall>env org ts reason actor.
     fst (reap_execution_dispatch env orphan_db ''run-u1'' org ts reason actor) \<noteq> Inr True)"
proof -
  have "keys_unique orphan_db" "hd (dispatch_intents orphan_db) \<in> set (dispatch_intents orphan_db)"
    "intent_settled (hd (dispatch_intents orphan_db))"
    "i_execution_id (hd (dispatch_intents orphan_db)) = ''run-u1''" by code_simp+
  from settled_intent_closes_reaping [OF this(1) _ this(2-4)]
  have "fst (reap_execution_dispatch env orphan_db ''run-u1'' org ts reason actor) \<noteq> Inr True"
    for env org ts reason actor by (simp add: reaches_def)
  moreover have "map r_state (execution_runs orphan_db) = [STARTING]" by code_simp
  ultimately show ?thesis by blast
qed

end
