(* ===== verification/Exec_Approval.thy ===== *)
theory Exec_Approval
  imports Exec_Properties
begin

text \<open>
  Approval of execution requests: what it needs, what it creates, and the idempotent replays.
\<close>

section \<open>Approval and idempotent replays\<close>

text \<open>What an approval needs of the request it authorizes.\<close>

definition approvable :: "env \<Rightarrow> exec_db \<Rightarrow> string \<Rightarrow> string \<Rightarrow> string \<Rightarrow> exec_request \<Rightarrow> bool" where
  "approvable env db org fp approver q =
    (q_request_fingerprint q = fp \<and> q_state q = ''REQUESTED'' \<and> e_now env 0 < q_expires_at q
     \<and> probing_granted db (b_asset_id (q_binding q)) org (b_project_id (q_binding q))
     \<and> active_admin db approver org)"

lemma approve_authorized:
  assumes "fst (approve_execution_request env db rid org fp ikey approver jti worker gen) =
      Inr (''AUTHORIZED'', Some did, Some eid)"
  shows "\<exists>q corr. sql_find (\<lambda>q. q_id q = rid \<and> q_organization_id q = org) (execution_requests db) = Some q
    \<and> approvable env db org fp approver q \<and> e_correlation env = Some corr
    \<and> run_keys_free db eid rid org
    \<and> sql_rowcount (\<lambda>x. q_id x = rid \<and> q_organization_id x = org \<and> q_state x = ''REQUESTED'')
        (execution_requests db) = 1
    \<and> execution_requests (snd (approve_execution_request env db rid org fp ikey approver jti worker gen)) =
        sql_update (\<lambda>x. q_id x = rid \<and> q_organization_id x = org \<and> q_state x = ''REQUESTED'')
          (\<lambda>x. x\<lparr>q_state := ''AUTHORIZED'', q_approved_decision_id := Some did,
                  q_approval_idempotency_key := Some ikey\<rparr>) (execution_requests db)
    \<and> execution_decisions (snd (approve_execution_request env db rid org fp ikey approver jti worker gen)) =
        execution_decisions db @ [approved_decision q did approver jti worker (e_now env 0)]
    \<and> execution_runs (snd (approve_execution_request env db rid org fp ikey approver jti worker gen)) =
        execution_runs db @ [approved_run q eid did worker gen corr (e_now env 0)]
    \<and> dispatch_intents (snd (approve_execution_request env db rid org fp ikey approver jti worker gen)) =
        dispatch_intents db @ [pending_intent eid org (e_now env 0)]"
  (is "?P (snd (approve_execution_request env db rid org fp ikey approver jti worker gen))")
proof -
  define Q :: "approval outcome \<Rightarrow> bool" where
    "Q res \<longleftrightarrow> (fst res = Inr (''AUTHORIZED'', Some did, Some eid) \<longrightarrow> ?P (snd res))" for res
  have "Q (approve_execution_request env db rid org fp ikey approver jti worker gen)"
    unfolding approve_execution_request_def
    by (intro branch_flow [where Q = Q]; simp add: Q_def) (auto simp: approvable_def truthy_def split: option.splits)
  with assms show ?thesis by (simp add: Q_def)
qed

text \<open>C9. Approval authorizes exactly what was requested: it needs the request's fingerprint, an
  unexpired requested state, an active administrator of the tenant and an asset with probing granted;
  the decision and the run it creates carry the request's binding, expiry and snapshot, and the run
  starts in \<open>REQUESTED\<close> with one pending dispatch intent.\<close>

theorem approval_binds_request:
  assumes "fst (approve_execution_request env db rid org fp ikey approver jti worker gen) =
      Inr (''AUTHORIZED'', Some did, Some eid)"
  shows "\<exists>q \<in> set (execution_requests db). q_id q = rid \<and> q_organization_id q = org
    \<and> approvable env db org fp approver q
    \<and> (\<exists>d \<in> set (execution_decisions (snd (approve_execution_request env db rid org fp ikey approver jti worker gen))).
         d_id d = did \<and> d_organization_id d = org \<and> d_binding d = q_binding q
         \<and> d_expires_at d = q_expires_at q \<and> d_approver_user_id d = approver \<and> d_consumed_at d = None)
    \<and> (\<exists>r \<in> set (execution_runs (snd (approve_execution_request env db rid org fp ikey approver jti worker gen))).
         r_execution_id r = eid \<and> r_request_id r = rid \<and> r_organization_id r = org
         \<and> r_approved_decision_id r = Some did \<and> r_state r = REQUESTED
         \<and> r_snapshot r = snapshot_of (q_binding q) fp)
    \<and> pending_intent eid org (e_now env 0) \<in>
        set (dispatch_intents (snd (approve_execution_request env db rid org fp ikey approver jti worker gen)))"
proof -
  from approve_authorized [OF assms] obtain q corr where
    q: "sql_find (\<lambda>q. q_id q = rid \<and> q_organization_id q = org) (execution_requests db) = Some q"
    "approvable env db org fp approver q"
    and d: "execution_decisions (snd (approve_execution_request env db rid org fp ikey approver jti worker gen)) =
        execution_decisions db @ [approved_decision q did approver jti worker (e_now env 0)]"
    and r: "execution_runs (snd (approve_execution_request env db rid org fp ikey approver jti worker gen)) =
        execution_runs db @ [approved_run q eid did worker gen corr (e_now env 0)]"
    and i: "dispatch_intents (snd (approve_execution_request env db rid org fp ikey approver jti worker gen)) =
        dispatch_intents db @ [pending_intent eid org (e_now env 0)]" by blast
  from sql_find_Some [OF q(1)] have "q \<in> set (execution_requests db)" "q_id q = rid" "q_organization_id q = org"
    by auto
  moreover from q(2) have "q_request_fingerprint q = fp" by (simp add: approvable_def)
  ultimately show ?thesis
    using q(2) unfolding d r i
    by (intro bexI [of _ q]) (auto simp: approved_decision_def approved_run_def)
qed

theorem approval_binds_request_witness:
  "\<exists>q \<in> set (execution_requests requested_db). q_id q = ''req'' \<and> q_organization_id q = ''org''
    \<and> approvable (env_at 2) requested_db ''org'' ''fp'' ''admin'' q
    \<and> (\<exists>d \<in> set (execution_decisions approved_db). d_id d = ''dec-u0'' \<and> d_binding d = q_binding q)"
  using approval_binds_request [OF sample_approved] unfolding approved_db_def by blast

text \<open>Approval is idempotent: repeating a successful approval with the same fingerprint and approval
  key, by any approver and worker, answers \<open>REPLAY\<close> with the same decision and run and writes nothing.\<close>

theorem approval_replay:
  assumes "keys_unique db"
    and "fst (approve_execution_request env db rid org fp ikey approver jti worker gen) =
      Inr (''AUTHORIZED'', Some did, Some eid)"
    and "truthy (e_correlation env')"
  shows "approve_execution_request env' (snd (approve_execution_request env db rid org fp ikey approver
        jti worker gen)) rid org fp ikey approver' jti' worker' gen'
    = (Inr (''REPLAY'', Some did, Some eid),
       snd (approve_execution_request env db rid org fp ikey approver jti worker gen))"
proof -
  let ?db1 = "snd (approve_execution_request env db rid org fp ikey approver jti worker gen)"
  let ?P = "\<lambda>q. q_id q = rid \<and> q_organization_id q = org"
  let ?hit = "\<lambda>x. q_id x = rid \<and> q_organization_id x = org \<and> q_state x = ''REQUESTED''"
  let ?f = "\<lambda>x. x\<lparr>q_state := ''AUTHORIZED'', q_approved_decision_id := Some did,
                  q_approval_idempotency_key := Some ikey\<rparr>"
  from approve_authorized [OF assms(2)] obtain q corr where
    q: "sql_find ?P (execution_requests db) = Some q" "approvable env db org fp approver q"
    and free: "run_keys_free db eid rid org"
    and post: "execution_requests ?db1 = sql_update ?hit ?f (execution_requests db)"
    and r: "execution_runs ?db1 = execution_runs db @ [approved_run q eid did worker gen corr (e_now env 0)]"
    by blast
  have q_in: "q \<in> set (execution_requests db)" "?P q" using sql_find_Some [OF q(1)] by auto
  then have hit: "?hit q" using q(2) by (simp add: approvable_def)
  have "distinct (map q_id (execution_requests ?db1))"
    using assms(1) unfolding post by (simp add: map_sql_update keys_unique_def)
  moreover have "?f q \<in> set (execution_requests ?db1)"
    using q_in(1) hit unfolding post by (force simp: set_sql_update)
  ultimately have found: "sql_find ?P (execution_requests ?db1) = Some (?f q)"
    using q_in(2) by (intro sql_find_unique [where key = q_id]) auto
  have "\<not> (r_request_id x = rid \<and> r_organization_id x = org)" if "x \<in> set (execution_runs db)" for x
    using free that by (auto simp: run_keys_free_def sql_exists_iff)
  then have run: "get_execution_run_for_request ?db1 rid org =
      Some (approved_run q eid did worker gen corr (e_now env 0))"
    using q_in(2) unfolding get_execution_run_for_request_def r
    by (auto simp: sql_find_def approved_run_def fetchone_def filter_empty_conv split: list.split)
  show ?thesis
    using assms(3) q(2) found run
    by (simp add: approve_execution_request_def Let_def approvable_def approved_run_def commit_def)
qed

theorem approval_replay_witness:
  "approve_execution_request (env_at 7) approved_db ''req'' ''org'' ''fp'' ''approve'' ''other'' ''j2'' ''w2'' ''g2''
    = (Inr (''REPLAY'', Some ''dec-u0'', Some ''run-u1''), approved_db)"
proof -
  have "truthy (e_correlation (env_at 7))" by code_simp
  from approval_replay [OF sample_keys(2) sample_approved this] show ?thesis unfolding approved_db_def .
qed

text \<open>Recording a request is idempotent in its key: repeating a recorded request with the same
  organization, key and fingerprint returns the stored row and writes nothing, whatever the rest of
  the repeated request says; with another fingerprint it is refused and nothing is written.\<close>

theorem request_replay:
  assumes "fst (create_execution_request env db req) = Inr q"
    and "q_organization_id req2 = q_organization_id req" and "q_idempotency_key req2 = q_idempotency_key req"
  shows "\<exists>stored. q_request_fingerprint stored = q_request_fingerprint req \<and>
    create_execution_request env' (snd (create_execution_request env db req)) req2 =
      (if q_request_fingerprint req2 = q_request_fingerprint req
       then (Inr stored, snd (create_execution_request env db req))
       else (Inl ValueError, snd (create_execution_request env db req)))"
proof -
  let ?P = "\<lambda>q. q_organization_id q = q_organization_id req \<and> q_idempotency_key q = q_idempotency_key req"
  define Q :: "exec_request outcome \<Rightarrow> bool" where "Q res \<longleftrightarrow> (\<forall>x. fst res = Inr x \<longrightarrow>
    (\<exists>stored. q_request_fingerprint stored = q_request_fingerprint req \<and>
      sql_find ?P (execution_requests (snd res)) = Some stored))" for res
  have append: "sql_find P (t @ [x]) = Some x" if "sql_find P t = None" "P x" for P x and t :: "exec_request list"
    using that by (simp add: sql_find_None) (simp add: sql_find_def)
  have "Q (create_execution_request env db req)"
    unfolding create_execution_request_def
    by (intro branch_flow [where Q = Q]; simp add: Q_def append)
  with assms(1) obtain stored where "q_request_fingerprint stored = q_request_fingerprint req"
      "sql_find ?P (execution_requests (snd (create_execution_request env db req))) = Some stored"
    by (auto simp: Q_def)
  then show ?thesis
    using assms(2,3)
    by (intro exI [of _ stored])
      (simp add: create_execution_request_def [of env' "snd (create_execution_request env db req)"]
        Let_def commit_def rollback_def)
qed

theorem request_replay_witness:
  "\<exists>stored. q_request_fingerprint stored = ''fp'' \<and>
    create_execution_request (env_at 9) requested_db (sample_request\<lparr>q_id := ''other''\<rparr>) =
      (Inr stored, requested_db)"
  using request_replay [OF sample_requested, of "sample_request\<lparr>q_id := ''other''\<rparr>" "env_at 9"]
  by (simp add: sample_request_def flip: requested_db_def [unfolded sample_request_def])

end
