(* ===== verification/Exec_Tenancy.thy ===== *)
theory Exec_Tenancy
  imports Exec_Samples
begin

text \<open>
  Tenant isolation of the execution store: an operation called for one organization leaves every row
  of every other organization untouched and writes audit events of its own organization only.
\<close>

section \<open>The frame\<close>

definition foreign_rows :: "('r \<Rightarrow> string) \<Rightarrow> string \<Rightarrow> 'r list \<Rightarrow> 'r list" where
  "foreign_rows o_of org t = filter (\<lambda>r. o_of r \<noteq> org) t"

definition tenant_frame :: "string \<Rightarrow> exec_db \<Rightarrow> exec_db \<Rightarrow> bool" where
  "tenant_frame org db db' =
    (foreign_rows q_organization_id org (execution_requests db') =
       foreign_rows q_organization_id org (execution_requests db)
     \<and> foreign_rows d_organization_id org (execution_decisions db') =
       foreign_rows d_organization_id org (execution_decisions db)
     \<and> foreign_rows r_organization_id org (execution_runs db') =
       foreign_rows r_organization_id org (execution_runs db)
     \<and> foreign_rows i_organization_id org (dispatch_intents db') =
       foreign_rows i_organization_id org (dispatch_intents db)
     \<and> foreign_rows o_organization_id org (process_ownerships db') =
       foreign_rows o_organization_id org (process_ownerships db)
     \<and> foreign_rows v_organization_id org (recovery_states db') =
       foreign_rows v_organization_id org (recovery_states db)
     \<and> foreign_rows t_organization_id org (recovery_attempts db') =
       foreign_rows t_organization_id org (recovery_attempts db)
     \<and> revoked_tokens db' = revoked_tokens db
     \<and> foreign_rows sa_organization_id org (scan_requests db') =
       foreign_rows sa_organization_id org (scan_requests db)
     \<and> foreign_rows so_organization_id org (scan_operations db') =
       foreign_rows so_organization_id org (scan_operations db)
     \<and> organizations db' = organizations db \<and> users db' = users db \<and> assets db' = assets db
     \<and> foreign_rows ae_organization_id org (audit_events db') =
       foreign_rows ae_organization_id org (audit_events db))"

lemma foreign_rows_update:
  "(\<And>r. P r \<Longrightarrow> o_of r = org \<and> o_of (f r) = org) \<Longrightarrow>
     foreign_rows o_of org (sql_update P f t) = foreign_rows o_of org t"
  by (induction t) (auto simp: foreign_rows_def sql_update_def)

lemma foreign_rows_append [simp]:
  "foreign_rows o_of org (t @ u) = foreign_rows o_of org t @ foreign_rows o_of org u"
  "foreign_rows o_of org [] = []"
  "foreign_rows o_of org (x # t) = (if o_of x = org then [] else [x]) @ foreign_rows o_of org t"
  by (simp_all add: foreign_rows_def)

lemma row_organizations [simp]:
  "i_organization_id (settle_intent s n e i) = i_organization_id i"
  "i_organization_id (claim_intent n w k x i) = i_organization_id i"
  "i_organization_id (release_intent i) = i_organization_id i"
  "i_organization_id (blocked_before_dispatch n i) = i_organization_id i"
  "r_organization_id (cancelled_before_dispatch n r) = r_organization_id r"
  "d_organization_id (clear_claim d) = d_organization_id d"
  "d_organization_id (approved_decision q did a j w n) = q_organization_id q"
  "r_organization_id (approved_run q eid did w g c n) = q_organization_id q"
  "i_organization_id (pending_intent eid org n) = org"
  "o_organization_id (fresh_ownership eid org c n) = org"
  "v_organization_id (fresh_recovery eid org n) = org"
  "o_organization_id (advance_ownership rec p) = o_organization_id p"
  "ae_organization_id (audit_event_of en kk act og ac ot ob re co de) = og"
  by (simp_all add: settle_intent_def claim_intent_def release_intent_def blocked_before_dispatch_def
      cancelled_before_dispatch_def clear_claim_def approved_decision_def approved_run_def
      pending_intent_def fresh_ownership_def fresh_recovery_def advance_ownership_def
      audit_event_of_def)

lemma foreign_batch:
  "(\<And>f k. f \<in> set fs \<Longrightarrow> ae_organization_id (f k) = org) \<Longrightarrow>
     foreign_rows ae_organization_id org (audit_batch n fs) = []"
  by (auto simp: foreign_rows_def audit_batch_def filter_empty_conv in_set_enumerate_eq)

section \<open>The operations\<close>

text \<open>The calls made for one organization.  \<open>revoke_token\<close> is not among them: it names a session and no
  organization, and revokes the decisions approved in that session wherever they are.\<close>

inductive tenant_step :: "string \<Rightarrow> exec_db \<Rightarrow> exec_db \<Rightarrow> bool" for org where
  request: "q_organization_id req = org \<Longrightarrow> tenant_step org db (snd (create_execution_request env db req))"
| decide: "d_organization_id dec = org \<Longrightarrow> tenant_step org db (snd (create_execution_decision env db dec))"
| approve: "tenant_step org db (snd (approve_execution_request env db rid org fp ikey approver jti worker gen))"
| create_run: "r_organization_id run = org \<Longrightarrow> tenant_step org db (snd (create_execution_run env db run))"
| revoke_decision: "tenant_step org db (snd (revoke_execution_decision env db did org actor))"
| revoke_request: "tenant_step org db (snd (revoke_execution_request env db rid org actor))"
| claim_decision: "tenant_step org db (snd (claim_execution_decision env db did org jti worker revision now))"
| release_decision: "tenant_step org db (snd (release_execution_decision_claim env db did org worker token))"
| start: "tenant_step org db (snd (mark_execution_decision_started env db did org worker token dt pid pgid now))"
| claim_authority:
    "tenant_step org db (snd (claim_execution_authority env db did org jti worker revision tok now secs))"
| release_authority: "tenant_step org db (snd (release_execution_authority env db did org worker token dt'))"
| abort: "tenant_step org db (snd (abort_execution_start env db did org worker token dt' ts reason pid pgid))"
| finish: "tenant_step org db (snd (finish_execution env db eid org worker token ts code pid pgid))"
| claim_dispatch: "tenant_step org db (snd (claim_execution_dispatch_intent env db eid org worker secs now))"
| renew: "tenant_step org db (snd (renew_execution_dispatch_lease env db eid org worker token secs now))"
| acknowledge: "tenant_step org db (snd (acknowledge_execution_cancellation env db eid org worker token))"
| reap: "tenant_step org db (snd (reap_execution_dispatch env db eid org ts reason actor))"
| settle: "tenant_step org db (snd (settle_execution_dispatch_intent env db eid org worker token ok code))"
| transition: "tenant_step org db (snd (transition_execution_run env db eid org old new code pid who tok))"
| ownership: "o_organization_id rec = org \<Longrightarrow>
    tenant_step org db (snd (transition_process_ownership env db rec expected actor reason who))"
| attempt: "t_organization_id att = org \<Longrightarrow> tenant_step org db (snd (record_recovery_attempt env db att actor))"
| claim_rec: "tenant_step org db (snd (claim_recovery env db eid org owner gen secs))"
| renew_rec: "tenant_step org db (snd (renew_recovery env db eid org owner token gen secs))"
| complete_rec:
    "tenant_step org db (snd (complete_recovery env db eid org owner token gen status res code retry))"
| unconfirmed: "tenant_step org db (snd (record_unconfirmed_governed_recovery env db eid org pid pgid start session
      worker gen term res code retry exhausted actor))"
| unavailable: "tenant_step org db (snd (record_unavailable_governed_recovery env db eid org who gen' rworker rgen
      res code retry exhausted actor))"
| fence: "tenant_step org db (snd (transition_committed_process_to_recovery_blocked env db eid org worker gen reason actor))"
| settle_rec: "tenant_step org db (snd (settle_recovery_execution env jobs db eid org owner token gen term ts reason))"
| approve_scan: "tenant_step org db (snd (approve_scan_authorization_request env ok ok' db sid org approval))"
| transition_scan: "tenant_step org db (snd (transition_scan_authorization_request env db sid org target actor code'))"
| settle_dead: "tenant_step org db (snd (settle_execution_after_confirmed_termination env jobs db eid org ts reason term
      pid' pgid start session gen' who att' actor))"

lemma frame_flow:
  "(b \<Longrightarrow> tenant_frame org db (snd x)) \<Longrightarrow> (\<not> b \<Longrightarrow> tenant_frame org db (snd y)) \<Longrightarrow>
     tenant_frame org db (snd (if b then x else y))"
  "tenant_frame org db (snd (f a)) \<Longrightarrow> tenant_frame org db (snd (Let a f))"
  "(z = None \<Longrightarrow> tenant_frame org db (snd n)) \<Longrightarrow>
     (\<And>w. z = Some w \<Longrightarrow> tenant_frame org db (snd (g w))) \<Longrightarrow>
     tenant_frame org db (snd (case z of None \<Rightarrow> n | Some w \<Rightarrow> g w))"
  "(\<And>u v. p = (u, v) \<Longrightarrow> tenant_frame org db (snd (h u v))) \<Longrightarrow>
     tenant_frame org db (snd (case p of (u, v) \<Rightarrow> h u v))"
  "(l = [] \<Longrightarrow> tenant_frame org db (snd n)) \<Longrightarrow>
     (\<And>a t. l = a # t \<Longrightarrow> tenant_frame org db (snd (k a t))) \<Longrightarrow>
     tenant_frame org db (snd (case l of [] \<Rightarrow> n | a # t \<Rightarrow> k a t))"
  by (auto split: option.splits prod.splits list.splits)

lemmas frame_facts = tenant_frame_def cancelled_event_def record_dispatch_rejection_def
  or_else_def startable_def decision_claimable_def recovery_held_def projection_of_def

lemma create_execution_request_frame:
  "q_organization_id req \<noteq> [] \<Longrightarrow> tenant_frame (q_organization_id req) db (snd (create_execution_request env db req))"
  unfolding create_execution_request_def
  by (intro frame_flow; auto simp: frame_facts intro!: foreign_rows_update foreign_batch
      dest!: sql_find_Some)

lemma create_execution_decision_frame:
  "d_organization_id dec \<noteq> [] \<Longrightarrow> tenant_frame (d_organization_id dec) db (snd (create_execution_decision env db dec))"
  unfolding create_execution_decision_def
  by (intro frame_flow; auto simp: frame_facts intro!: foreign_rows_update foreign_batch
      dest!: sql_find_Some)

lemma approve_execution_request_frame:
  "org \<noteq> [] \<Longrightarrow> tenant_frame org db (snd (approve_execution_request env db rid org fp ikey approver jti worker gen))"
  unfolding approve_execution_request_def
  by (intro frame_flow; auto simp: frame_facts intro!: foreign_rows_update foreign_batch
      dest!: sql_find_Some)

lemma create_execution_run_frame:
  "r_organization_id run \<noteq> [] \<Longrightarrow> tenant_frame (r_organization_id run) db (snd (create_execution_run env db run))"
  unfolding create_execution_run_def
  by (intro frame_flow; auto simp: frame_facts intro!: foreign_rows_update foreign_batch
      dest!: sql_find_Some)

lemma revoke_execution_decision_frame:
  "org \<noteq> [] \<Longrightarrow> tenant_frame org db (snd (revoke_execution_decision env db did org actor))"
  unfolding revoke_execution_decision_def
  by (intro frame_flow; auto simp: frame_facts intro!: foreign_rows_update foreign_batch
      dest!: sql_find_Some)

lemma revoke_execution_request_frame:
  "org \<noteq> [] \<Longrightarrow> tenant_frame org db (snd (revoke_execution_request env db rid org actor))"
  unfolding revoke_execution_request_def
  by (intro frame_flow; auto simp: frame_facts intro!: foreign_rows_update foreign_batch
      dest!: sql_find_Some)

lemma claim_execution_decision_frame:
  "org \<noteq> [] \<Longrightarrow> tenant_frame org db (snd (claim_execution_decision env db did org jti worker revision now))"
  unfolding claim_execution_decision_def
  by (intro frame_flow; auto simp: frame_facts intro!: foreign_rows_update foreign_batch
      dest!: sql_find_Some)

lemma release_execution_decision_claim_frame:
  "org \<noteq> [] \<Longrightarrow> tenant_frame org db (snd (release_execution_decision_claim env db did org worker token))"
  unfolding release_execution_decision_claim_def
  by (intro frame_flow; auto simp: frame_facts intro!: foreign_rows_update foreign_batch
      dest!: sql_find_Some)

lemma mark_execution_decision_started_frame:
  "org \<noteq> [] \<Longrightarrow> tenant_frame org db (snd (mark_execution_decision_started env db did org worker token dt pid pgid now))"
  unfolding mark_execution_decision_started_def
  by (intro frame_flow; auto simp: frame_facts intro!: foreign_rows_update foreign_batch
      dest!: sql_find_Some)

lemma claim_execution_authority_frame:
  "org \<noteq> [] \<Longrightarrow> tenant_frame org db (snd (claim_execution_authority env db did org jti worker revision tok now secs))"
  unfolding claim_execution_authority_def
  by (intro frame_flow; auto simp: frame_facts intro!: foreign_rows_update foreign_batch
      dest!: sql_find_Some)

lemma release_execution_authority_frame:
  "org \<noteq> [] \<Longrightarrow> tenant_frame org db (snd (release_execution_authority env db did org worker token dt))"
  unfolding release_execution_authority_def
  by (intro frame_flow; auto simp: frame_facts intro!: foreign_rows_update foreign_batch
      dest!: sql_find_Some)

lemma abort_execution_start_frame:
  "org \<noteq> [] \<Longrightarrow> tenant_frame org db (snd (abort_execution_start env db did org worker token dt ts reason pid pgid))"
  unfolding abort_execution_start_def
  by (intro frame_flow; auto simp: frame_facts intro!: foreign_rows_update foreign_batch
      dest!: sql_find_Some)

lemma finish_execution_frame:
  "org \<noteq> [] \<Longrightarrow> tenant_frame org db (snd (finish_execution env db eid org worker token ts code pid pgid))"
  unfolding finish_execution_def
  by (intro frame_flow; auto simp: frame_facts intro!: foreign_rows_update foreign_batch
      dest!: sql_find_Some)

lemma claim_execution_dispatch_intent_frame:
  "org \<noteq> [] \<Longrightarrow> tenant_frame org db (snd (claim_execution_dispatch_intent env db eid org worker secs now))"
  unfolding claim_execution_dispatch_intent_def
  by (intro frame_flow; auto simp: frame_facts intro!: foreign_rows_update foreign_batch
      dest!: sql_find_Some)

lemma renew_execution_dispatch_lease_frame:
  "org \<noteq> [] \<Longrightarrow> tenant_frame org db (snd (renew_execution_dispatch_lease env db eid org worker token secs now))"
  unfolding renew_execution_dispatch_lease_def
  by (intro frame_flow; auto simp: frame_facts intro!: foreign_rows_update foreign_batch
      dest!: sql_find_Some)

lemma acknowledge_execution_cancellation_frame:
  "org \<noteq> [] \<Longrightarrow> tenant_frame org db (snd (acknowledge_execution_cancellation env db eid org worker token))"
  unfolding acknowledge_execution_cancellation_def
  by (intro frame_flow; auto simp: frame_facts intro!: foreign_rows_update foreign_batch
      dest!: sql_find_Some)

lemma reap_execution_dispatch_frame:
  "org \<noteq> [] \<Longrightarrow> tenant_frame org db (snd (reap_execution_dispatch env db eid org ts reason actor))"
  unfolding reap_execution_dispatch_def
  by (intro frame_flow; auto simp: frame_facts intro!: foreign_rows_update foreign_batch
      dest!: sql_find_Some)

lemma settle_execution_dispatch_intent_frame:
  "org \<noteq> [] \<Longrightarrow> tenant_frame org db (snd (settle_execution_dispatch_intent env db eid org worker token success code))"
  unfolding settle_execution_dispatch_intent_def
  by (intro frame_flow; auto simp: frame_facts intro!: foreign_rows_update foreign_batch
      dest!: sql_find_Some)

lemma transition_execution_run_frame:
  "org \<noteq> [] \<Longrightarrow> tenant_frame org db (snd (transition_execution_run env db eid org old new code pid who tok))"
  unfolding transition_execution_run_def
  by (intro frame_flow; auto simp: frame_facts intro!: foreign_rows_update foreign_batch
      dest!: sql_find_Some)

lemma transition_process_ownership_frame:
  "o_organization_id rec \<noteq> [] \<Longrightarrow> tenant_frame (o_organization_id rec) db (snd (transition_process_ownership env db rec expected actor reason who))"
  unfolding transition_process_ownership_def
  by (intro frame_flow; auto simp: frame_facts intro!: foreign_rows_update foreign_batch
      dest!: sql_find_Some)

lemma record_recovery_attempt_frame:
  "t_organization_id att \<noteq> [] \<Longrightarrow> tenant_frame (t_organization_id att) db (snd (record_recovery_attempt env db att actor))"
  unfolding record_recovery_attempt_def
  by (intro frame_flow; auto simp: frame_facts intro!: foreign_rows_update foreign_batch
      dest!: sql_find_Some)

lemma claim_recovery_frame:
  "org \<noteq> [] \<Longrightarrow> tenant_frame org db (snd (claim_recovery env db eid org owner gen secs))"
  unfolding claim_recovery_def
  by (intro frame_flow; auto simp: frame_facts intro!: foreign_rows_update foreign_batch
      dest!: sql_find_Some)

lemma renew_recovery_frame:
  "org \<noteq> [] \<Longrightarrow> tenant_frame org db (snd (renew_recovery env db eid org owner token gen secs))"
  unfolding renew_recovery_def
  by (intro frame_flow; auto simp: frame_facts intro!: foreign_rows_update foreign_batch
      dest!: sql_find_Some)

lemma complete_recovery_frame:
  "org \<noteq> [] \<Longrightarrow> tenant_frame org db (snd (complete_recovery env db eid org owner token gen status res code retry))"
  unfolding complete_recovery_def
  by (intro frame_flow; auto simp: frame_facts intro!: foreign_rows_update foreign_batch
      dest!: sql_find_Some)

lemma frame_flow_bool:
  "(b \<Longrightarrow> tenant_frame org db (snd x)) \<Longrightarrow> (\<not> b \<Longrightarrow> tenant_frame org db (snd y)) \<Longrightarrow>
     tenant_frame org db (snd (case b of True \<Rightarrow> x | False \<Rightarrow> y))"
  by (cases b) simp_all

lemma publish_failed_attempt_frame:
  "org \<noteq> [] \<Longrightarrow> tenant_frame org db (snd (publish_failed_attempt env db eid org r v status worker gen
     result err retry pre cancellation reason health evidence details))"
  unfolding publish_failed_attempt_def
  by (intro frame_flow; auto simp: frame_facts failed_attempt_state_def intro!: foreign_rows_update)

lemma record_unconfirmed_governed_recovery_frame:
  "org \<noteq> [] \<Longrightarrow> tenant_frame org db (snd (record_unconfirmed_governed_recovery env db eid org pid pgid token
     session worker gen termination result err retry exhausted actor))"
  unfolding record_unconfirmed_governed_recovery_def
  by (intro frame_flow frame_flow_bool publish_failed_attempt_frame; simp add: tenant_frame_def)

lemma record_unavailable_governed_recovery_frame:
  "org \<noteq> [] \<Longrightarrow> tenant_frame org db (snd (record_unavailable_governed_recovery env db eid org worker gen
     rworker rgen result err retry exhausted actor))"
  unfolding record_unavailable_governed_recovery_def
  by (intro frame_flow publish_failed_attempt_frame; simp add: tenant_frame_def)

lemma transition_committed_process_to_recovery_blocked_frame:
  "org \<noteq> [] \<Longrightarrow> tenant_frame org db (snd (transition_committed_process_to_recovery_blocked env db eid org
     worker gen reason actor))"
  unfolding transition_committed_process_to_recovery_blocked_def
  by (intro frame_flow frame_flow_bool; simp add: tenant_frame_def; (intro conjI foreign_rows_update; simp)?)

lemma settle_recovery_execution_frame:
  "org \<noteq> [] \<Longrightarrow> tenant_frame org db (snd (settle_recovery_execution env jobs db eid org owner token gen
     termination ts reason))"
  unfolding settle_recovery_execution_def
  by (intro frame_flow frame_flow_bool; simp add: tenant_frame_def; (intro conjI foreign_rows_update; simp)?)

lemma close_execution_frame:
  assumes "t_organization_id a = org" and "list_all (\<lambda>e. ae_organization_id e = org) evs"
  shows "tenant_frame org db (add_audit evs (close_execution db now row eid org ts reason termination pt number
     \<lparr>recovery_attempts := recovery_attempts db @ [a]\<rparr>))"
proof -
  obtain p r q d i v where row: "row = (p, r, q, d, i, v)" by (cases row)
  have "foreign_rows ae_organization_id org evs = []"
    using assms(2) by (auto simp: foreign_rows_def filter_empty_conv list_all_iff)
  then show ?thesis
    using assms(1) by (simp add: row close_execution_def Let_def tenant_frame_def)
      (intro conjI impI foreign_rows_update; auto)
qed

lemma settle_execution_after_confirmed_termination_frame:
  "org \<noteq> [] \<Longrightarrow> tenant_frame org db (snd (settle_execution_after_confirmed_termination env jobs db eid org ts
     reason termination pid pgid token session generation worker_id attestation actor))"
  unfolding settle_execution_after_confirmed_termination_def
  by (intro frame_flow frame_flow_bool; (simp only: outcome_simps)?; (rule close_execution_frame)?;
      simp add: tenant_frame_def)

text \<open>The scan authorizations: the rows of one operation are its parent's.\<close>

lemma materialize_child_tenant:
  assumes "tenant_frame (sa_organization_id p) db db1" and "materialize_child env p a now k x db1 = Inr (db2, l)"
  shows "tenant_frame (sa_organization_id p) db db2"
proof -
  have ops: "foreign_rows so_organization_id org (sql_update (\<lambda>y. so_operation_id y = oid \<and> so_organization_id y = org
        \<and> so_scan_request_id y = sid) (\<lambda>y. y\<lparr>so_child_request_id := u, so_child_decision_id := v,
        so_child_execution_id := w\<rparr>) t) = foreign_rows so_organization_id org t" for oid org sid u v w t
    by (rule foreign_rows_update) simp
  show ?thesis
    using assms
    by (auto simp: materialize_child_def Let_def tenant_frame_def child_request_def fresh_recovery_def ops
        split: if_splits)
qed

lemma materialize_children_tenant:
  "tenant_frame (sa_organization_id p) db db1 \<Longrightarrow> materialize_children env p a now k xs db1 = Inr (db2, ls) \<Longrightarrow>
     tenant_frame (sa_organization_id p) db db2"
proof (induction xs arbitrary: k db1 ls)
  case (Cons x xs)
  then obtain dbx l ls' where "materialize_child env p a now k x db1 = Inr (dbx, l)"
      "materialize_children env p a now (Suc k) xs dbx = Inr (db2, ls')"
    by (auto split: sum.splits)
  then show ?case using Cons.IH Cons.prems(1) materialize_child_tenant by blast
qed simp

lemma frame_refl [simp]: "tenant_frame org db db"
  by (simp add: tenant_frame_def)

lemma frame_parents:
  "tenant_frame org db db' \<Longrightarrow> (\<And>x. P x \<Longrightarrow> sa_organization_id x = org \<and> sa_organization_id (f x) = org) \<Longrightarrow>
     tenant_frame org db (db'\<lparr>scan_requests := sql_update P f (scan_requests db')\<rparr>)"
  by (simp add: tenant_frame_def foreign_rows_update)

lemma frame_audit:
  "tenant_frame org db db' \<Longrightarrow> list_all (\<lambda>e. ae_organization_id e = org) evs \<Longrightarrow>
     tenant_frame org db (add_audit evs db')"
  by (auto simp: tenant_frame_def foreign_rows_def filter_empty_conv list_all_iff)

lemma approve_scan_authorization_request_frame:
  "tenant_frame org db (snd (approve_scan_authorization_request env ok ok' db sid org a))"
proof -
  have leaf: "tenant_frame org db (snd (case materialize_children env p a now 0 xs db of Inl e \<Rightarrow> rollback db e
      | Inr (db1, ls) \<Rightarrow> f db1 ls))"
    if "sql_find (scan_parent sid org) (scan_requests db) = Some p"
      "\<And>db1 ls. tenant_frame org db db1 \<Longrightarrow> tenant_frame org db (snd (f db1 ls))"
    for p now xs and f :: "_ \<Rightarrow> _ \<Rightarrow> 'z outcome"
  proof -
    have "sa_organization_id p = org" using sql_find_Some [OF that(1)] by (simp add: scan_parent_def)
    then show ?thesis
      using that(2) materialize_children_tenant [OF frame_refl, where p = p and db = db and xs = xs]
      by (auto split: sum.splits)
  qed
  show ?thesis
    unfolding approve_scan_authorization_request_def
    by (intro frame_flow leaf; (assumption | auto simp: scan_parent_def intro!: frame_parents frame_audit)?)
qed

lemma transition_scan_authorization_request_frame:
  "tenant_frame org db (snd (transition_scan_authorization_request env db sid org target actor reason))"
proof -
  have "tenant_frame org db (revoke_children c org now db)" "tenant_frame org db (expire_children c org now db)"
    "tenant_frame org db (consume_children c org now db)" for c now
    by (auto simp: revoke_children_def expire_children_def consume_children_def tenant_frame_def
        intro!: foreign_rows_update)
  moreover have "scan_requests (revoke_children c org now db) = scan_requests db"
    "scan_requests (expire_children c org now db) = scan_requests db"
    "scan_requests (consume_children c org now db) = scan_requests db" for c now
    by (simp_all add: revoke_children_def expire_children_def consume_children_def)
  ultimately show ?thesis
    unfolding transition_scan_authorization_request_def
    by (intro frame_flow; simp add: frame_audit)
      (auto simp: tenant_frame_def scan_parent_def intro!: foreign_rows_update)
qed

section \<open>Isolation\<close>

lemma frame_trans: "tenant_frame org x y \<Longrightarrow> tenant_frame org y z \<Longrightarrow> tenant_frame org x z"
  by (simp add: tenant_frame_def)

lemma tenant_step_frame:
  assumes "tenant_step org db db'" and "org \<noteq> []"
  shows "tenant_frame org db db'"
  using assms
proof (cases rule: tenant_step.cases)
qed (auto intro: create_execution_request_frame create_execution_decision_frame
    approve_execution_request_frame create_execution_run_frame revoke_execution_decision_frame
    revoke_execution_request_frame claim_execution_decision_frame
    release_execution_decision_claim_frame mark_execution_decision_started_frame
    claim_execution_authority_frame release_execution_authority_frame abort_execution_start_frame
    finish_execution_frame claim_execution_dispatch_intent_frame renew_execution_dispatch_lease_frame
    acknowledge_execution_cancellation_frame reap_execution_dispatch_frame
    settle_execution_dispatch_intent_frame transition_execution_run_frame
    transition_process_ownership_frame record_recovery_attempt_frame claim_recovery_frame
    renew_recovery_frame complete_recovery_frame
    record_unconfirmed_governed_recovery_frame record_unavailable_governed_recovery_frame
    transition_committed_process_to_recovery_blocked_frame settle_recovery_execution_frame
    approve_scan_authorization_request_frame transition_scan_authorization_request_frame
    settle_execution_after_confirmed_termination_frame)

text \<open>C6. Tenant isolation: over any sequence of calls made for one organization, whichever operations that
  take an organization they are and whatever identifiers they name, the rows of every other
  organization stay as they were, in their order, in every execution and scan authorization table, no
  tenancy table and no revoked token changes, and the audit events appended are of that organization
  only. (Revoking a session is the one operation that takes no organization.)\<close>

theorem tenant_isolation:
  assumes "rtranclp (tenant_step org) db db'" and "org \<noteq> []"
  shows "tenant_frame org db db'"
  using assms(1)
proof (induction rule: rtranclp_induct)
  case (step y z)
  then show ?case using tenant_step_frame [OF step(2) assms(2)] frame_trans by blast
qed simp

theorem tenant_isolation_witness:
  "execution_runs (snd (reap_execution_dispatch (env_at 60000000) running_db ''run-u1'' ''evil'' FAILED
     ''EXECUTION_DISPATCH_FAILED'' ''mallory'')) = execution_runs running_db"
proof -
  let ?db = "snd (reap_execution_dispatch (env_at 60000000) running_db ''run-u1'' ''evil'' FAILED
     ''EXECUTION_DISPATCH_FAILED'' ''mallory'')"
  have "tenant_frame ''evil'' running_db ?db"
    by (rule tenant_isolation [OF r_into_rtranclp [of "tenant_step ''evil''", OF tenant_step.reap]]) simp
  moreover have "foreign_rows r_organization_id ''evil'' (execution_runs ?db) = execution_runs ?db"
    "foreign_rows r_organization_id ''evil'' (execution_runs running_db) = execution_runs running_db"
    by code_simp+
  ultimately show ?thesis by (simp add: tenant_frame_def)
qed

end
