(* ===== verification/Exec_Capability.thy ===== *)
theory Exec_Capability
  imports Exec_Termination Float64 Ssrf_Targets
begin

text \<open>
  The worker boundary: \<open>backend/app/core/execution_decision.py\<close> (issuing, checking, claiming and starting
  a launch capability), the worker identity of \<open>execution_service.py\<close> and \<open>GovernedExecutionContext\<close> of
  \<open>execution_context.py\<close>.

  A capability is a mutable object: \<open>cap_id\<close> stands for its identity, the registries hold identities.
  Error texts are not modelled; \<open>StoreFailed\<close> is an exception of the store that passes through.
\<close>

section \<open>Workers\<close>

datatype launch_error = ExecutionDecisionError | TargetError gateway_error | WorkerUnconfigured
  | MissingExecutionContextError | ExecutionContextExpiredError | ExecutionContextMismatchError
  | ExecutionContextCommandError | ContextInvalid | RegistryFull | StoreFailed db_error

text \<open>The environment variables (empty when unset) and the generation drawn at process start.\<close>

record worker_config =
  w_environment :: string
  w_identity :: string
  w_generation :: string
  w_process_generation :: string

definition requires_deployment_identity :: "worker_config \<Rightarrow> bool" where
  "requires_deployment_identity w = (py_lower (py_strip (w_environment w)) \<in> {''production'', ''enterprise''})"

definition get_worker_identity :: "worker_config \<Rightarrow> launch_error + string" where
  "get_worker_identity w =
    (if py_strip (w_identity w) \<noteq> [] then Inr (py_strip (w_identity w))
     else if requires_deployment_identity w then Inl WorkerUnconfigured else Inr ''local-worker'')"

definition get_worker_generation :: "worker_config \<Rightarrow> launch_error + string" where
  "get_worker_generation w =
    (if py_strip (w_generation w) \<noteq> [] then Inr (py_strip (w_generation w))
     else if requires_deployment_identity w then Inl WorkerUnconfigured else Inr (w_process_generation w))"

section \<open>Capabilities\<close>

record capability =
  cap_id :: nat
  cap_from_verifier :: bool  \<comment> \<open>\<open>_issuer_token is _CAPABILITY_TOKEN\<close>\<close>
  cap_decision :: exec_decision
  cap_target :: validated_target
  cap_tool_id :: string
  cap_operation_family :: string
  cap_options_digest :: string
  cap_command_digest :: string
  cap_worker_identity :: string
  cap_worker_generation :: string
  cap_claim_token :: "string option"
  cap_dispatch_token :: "string option"
  cap_execution_id :: "string option"

definition register_capability :: "nat list \<Rightarrow> nat \<Rightarrow> nat list" where
  "register_capability reg i = (if 4096 \<le> length reg then [i] else reg @ [i])"

definition operation_digest :: "(string \<Rightarrow> string) \<Rightarrow> jobj \<Rightarrow> string" where
  "operation_digest sha options = sha (json_dumps (JObj options))"

definition command_digest :: "(string \<Rightarrow> string) \<Rightarrow> string list \<Rightarrow> string option" where
  "command_digest sha command = (if command = [] then None else Some (sha (json_dumps (JArr (map JStr command)))))"

definition require_launch :: "launch_error \<Rightarrow> bool \<Rightarrow> launch_error + unit" where
  "require_launch e b = (if b then Inr () else Inl e)"

text \<open>\<open>==\<close> on the scalars of the policy rows, where \<open>True\<close> is \<open>1\<close>.\<close>

definition scalar_int :: "json \<Rightarrow> int option" where
  "scalar_int v = (case v of JInt n \<Rightarrow> Some n | JBool b \<Rightarrow> Some (if b then 1 else 0) | _ \<Rightarrow> None)"

definition scalar_eq :: "json \<Rightarrow> json \<Rightarrow> bool" where
  "scalar_eq a b = (a = b \<or> (scalar_int a \<noteq> None \<and> scalar_int a = scalar_int b))"

text \<open>A budget column holds integers.\<close>

definition budget_values :: "jobj \<Rightarrow> int list" where
  "budget_values d = map (\<lambda>kv. case scalar_int (snd kv) of None \<Rightarrow> 0 | Some n \<Rightarrow> n) d"

definition target_bound :: "exec_decision \<Rightarrow> validated_target \<Rightarrow> bool" where
  "target_bound d t =
    (d_organization_id d = vt_organization_id t \<and> b_project_id (d_binding d) = vt_project_id t
     \<and> Some (b_asset_id (d_binding d)) = vt_asset_id t \<and> b_target_id (d_binding d) = vt_target_id t
     \<and> b_authorization_decision_id (d_binding d) = vt_authorization_decision_id t
     \<and> b_target_policy_version (d_binding d) = vt_policy_version t)"

definition policy_allows :: "(string \<Rightarrow> string) \<Rightarrow> exec_decision \<Rightarrow> string \<Rightarrow> string \<Rightarrow> jobj \<Rightarrow> bool" where
  "policy_allows sha d tool family options =
    (let b = d_binding d
     in is_canonical_operation_policy_revision sha (b_operation_policy_revision b)
        \<and> (case get_operation_policy (b_tool_id b) (b_operation_family b) of None \<Rightarrow> False
           | Some p \<Rightarrow> b_tool_id b = tool \<and> b_operation_family b = family
               \<and> operation_digest sha (b_operation_options b) = operation_digest sha options
               \<and> list_all (\<lambda>kv. scalar_eq (jget (b_operation_options b) (fst kv)) (snd kv)) (p_required_options p)
               \<and> b_operation_policy_revision b = OPERATION_POLICY_REVISION sha
               \<and> jget (b_credential_scope b) ''provider'' = jget (b_operation_options b) ''provider''
               \<and> list_all (\<lambda>n. 0 < n) (budget_values (b_resource_budget b))
               \<and> list_all (\<lambda>n. 0 \<le> n) (budget_values (b_account_impact_budget b))))"

definition issue_execution_capability ::
    "env \<Rightarrow> gateway \<Rightarrow> worker_config \<Rightarrow> exec_db \<Rightarrow> nat list \<Rightarrow> nat \<Rightarrow> string \<Rightarrow> validated_target \<Rightarrow> string \<Rightarrow> string \<Rightarrow>
     jobj \<Rightarrow> string list \<Rightarrow> launch_error + capability \<times> nat list" where
  "issue_execution_capability env gw w db reg new_id decision_id target tool family options command =
    (if py_strip decision_id = [] then Inl ExecutionDecisionError
     else case command_digest (e_sha256 env) command of None \<Rightarrow> Inl ExecutionDecisionError | Some cd \<Rightarrow>
     case get_worker_identity w of Inl e \<Rightarrow> Inl e | Inr identity \<Rightarrow>
     case get_worker_generation w of Inl e \<Rightarrow> Inl e | Inr generation \<Rightarrow>
     if identity = [] \<or> generation = [] then Inl ExecutionDecisionError
     else case validate_validated_target gw target of Inl e \<Rightarrow> Inl (TargetError e) | Inr _ \<Rightarrow>
     case get_execution_decision db decision_id (Some (vt_organization_id target)) of
       None \<Rightarrow> Inl ExecutionDecisionError
     | Some d \<Rightarrow>
        if d_revoked_at d \<noteq> None \<or> d_expires_at d \<le> e_now env 0 then Inl ExecutionDecisionError
        else if d_approval_state d \<noteq> ''APPROVED'' then Inl ExecutionDecisionError
        else if d_session_jti d = [] \<or> is_token_revoked db (d_session_jti d) then Inl ExecutionDecisionError
        else if d_worker_identity d \<noteq> identity then Inl ExecutionDecisionError
        else if \<not> target_bound d target then Inl ExecutionDecisionError
        else if \<not> policy_allows (e_sha256 env) d tool family options then Inl ExecutionDecisionError
        else Inr (\<lparr> cap_id = new_id, cap_from_verifier = True, cap_decision = d, cap_target = target,
               cap_tool_id = tool, cap_operation_family = family,
               cap_options_digest = operation_digest (e_sha256 env) options, cap_command_digest = cd,
               cap_worker_identity = identity, cap_worker_generation = py_strip generation,
               cap_claim_token = None, cap_dispatch_token = None, cap_execution_id = None \<rparr>,
             register_capability reg new_id))"

definition cap_issued :: "nat list \<Rightarrow> capability \<Rightarrow> bool" where
  "cap_issued reg cap = (cap_id cap \<in> set reg \<and> cap_from_verifier cap)"

definition valid_for_launch ::
    "(string \<Rightarrow> string) \<Rightarrow> nat list \<Rightarrow> capability \<Rightarrow> string \<Rightarrow> string \<Rightarrow> jobj \<Rightarrow> string list \<Rightarrow> string \<Rightarrow> bool" where
  "valid_for_launch sha reg cap tool family options command worker =
    (cap_issued reg cap \<and> cap_tool_id cap = tool \<and> cap_operation_family cap = family
     \<and> cap_options_digest cap = operation_digest sha options
     \<and> command_digest sha command = Some (cap_command_digest cap) \<and> cap_worker_identity cap = worker)"

text \<open>The limit check; \<open>timeout\<close> is a float.\<close>

definition within_budget :: "jobj \<Rightarrow> rat \<Rightarrow> int \<Rightarrow> bool" where
  "within_budget budget timeout max_output =
    (case (scalar_int (jget budget ''timeout_seconds''), scalar_int (jget budget ''max_output_bytes'')) of
       (Some t, Some n) \<Rightarrow> 0 < timeout \<and> 0 < max_output \<and> timeout \<le> fl (of_int t) \<and> max_output \<le> n
     | _ \<Rightarrow> False)"

definition revalidate_and_claim ::
    "env \<Rightarrow> worker_config \<Rightarrow> nat list \<Rightarrow> exec_db \<Rightarrow> capability \<Rightarrow> string \<Rightarrow> string \<Rightarrow> jobj \<Rightarrow> string list \<Rightarrow> string \<Rightarrow>
     rat \<Rightarrow> int \<Rightarrow> string option \<Rightarrow> (launch_error + capability) \<times> exec_db" where
  "revalidate_and_claim env w reg db cap tool family options command worker timeout max_output dispatch_token =
    (if \<not> valid_for_launch (e_sha256 env) reg cap tool family options command worker
     then (Inl ExecutionDecisionError, db)
     else case get_worker_generation w of Inl e \<Rightarrow> (Inl e, db) | Inr generation \<Rightarrow>
     if generation \<noteq> cap_worker_generation cap then (Inl ExecutionDecisionError, db)
     else let d = cap_decision cap; now = e_now env 0 in
     if get_execution_decision db (d_id d) (Some (d_organization_id d)) \<noteq> Some d
     then (Inl ExecutionDecisionError, db)
     else if d_revoked_at d \<noteq> None \<or> d_consumed_at d \<noteq> None \<or> d_expires_at d \<le> now
     then (Inl ExecutionDecisionError, db)
     else if is_token_revoked db (d_session_jti d) then (Inl ExecutionDecisionError, db)
     else if \<not> is_canonical_operation_policy_revision (e_sha256 env) (b_operation_policy_revision (d_binding d))
     then (Inl ExecutionDecisionError, db)
     else if \<not> within_budget (b_resource_budget (d_binding d)) timeout max_output
     then (Inl ExecutionDecisionError, db)
     else case claim_execution_authority env db (d_id d) (d_organization_id d) (d_session_jti d)
            (d_worker_identity d) (b_operation_policy_revision (d_binding d)) dispatch_token (Some now) 30 of
       (Inl e, db') \<Rightarrow> (Inl (StoreFailed e), db')
     | (Inr None, db') \<Rightarrow> (Inl ExecutionDecisionError, db')
     | (Inr (Some a), db') \<Rightarrow>
         (Inr (cap\<lparr>cap_claim_token := Some (lc_token (al_decision a)),
                   cap_dispatch_token := Some (dl_token (al_dispatch a)),
                   cap_execution_id := Some (al_execution_id a)\<rparr>), db'))"

definition mark_started ::
    "env \<Rightarrow> exec_db \<Rightarrow> capability \<Rightarrow> int option \<Rightarrow> string option \<Rightarrow> (launch_error + unit) \<times> exec_db" where
  "mark_started env db cap pid pgid =
    (if \<not> truthy (cap_claim_token cap) then (Inl ExecutionDecisionError, db)
     else case mark_execution_decision_started env db (d_id (cap_decision cap)) (d_organization_id (cap_decision cap))
            (cap_worker_identity cap) (the (cap_claim_token cap)) (cap_dispatch_token cap) pid pgid None of
       (Inl e, db') \<Rightarrow> (Inl (StoreFailed e), db')
     | (Inr ok, db') \<Rightarrow> (if ok then Inr () else Inl ExecutionDecisionError, db'))"

definition release_claim :: "env \<Rightarrow> exec_db \<Rightarrow> capability \<Rightarrow> bool outcome" where
  "release_claim env db cap =
    (if \<not> truthy (cap_claim_token cap) \<or> \<not> truthy (cap_dispatch_token cap) then commit db False
     else release_execution_authority env db (d_id (cap_decision cap)) (d_organization_id (cap_decision cap))
            (cap_worker_identity cap) (the (cap_claim_token cap)) (the (cap_dispatch_token cap)))"

definition renew_capability :: "env \<Rightarrow> exec_db \<Rightarrow> capability \<Rightarrow> int \<Rightarrow> bool outcome" where
  "renew_capability env db cap lease_seconds =
    (if \<not> truthy (cap_execution_id cap) \<or> \<not> truthy (cap_dispatch_token cap) then commit db False
     else case renew_execution_dispatch_lease env db (the (cap_execution_id cap)) (d_organization_id (cap_decision cap))
            (cap_worker_identity cap) (the (cap_dispatch_token cap)) lease_seconds None of
       (Inl e, db') \<Rightarrow> (Inl e, db')
     | (Inr r, db') \<Rightarrow> (Inr (r \<noteq> None), db'))"

section \<open>Launch contexts\<close>

record governed_context =
  g_id :: nat
  g_execution_id :: string
  g_request_id :: string
  g_org_id :: string
  g_project_id :: "string option"
  g_asset_id :: string
  g_target_id :: string
  g_integrity_seal :: string
  g_authorization_decision_id :: string
  g_request_fingerprint :: string
  g_target_policy_version :: string
  g_policy_revision :: string
  g_tool_id :: string
  g_operation_family :: string
  g_operation_options :: json
  g_resource_budget :: json
  g_account_impact_budget :: json
  g_credential_scope :: json
  g_options_digest :: string
  g_resource_digest :: string
  g_impact_digest :: string
  g_credential_digest :: string
  g_revocation_reference :: string
  g_worker_identity :: string
  g_worker_generation :: string
  g_session_jti :: string
  g_expires_at :: time
  g_correlation_id :: string
  g_exact_command :: "string list"
  g_command_digest :: string
  g_authority_token :: string

text \<open>\<open>canonical_command_digest\<close>: the words must not be empty, non-ASCII characters stay as they are.\<close>

definition canonical_command_digest :: "(string \<Rightarrow> string) \<Rightarrow> string list \<Rightarrow> string option" where
  "canonical_command_digest sha command =
    (if command = [] \<or> [] \<in> set command then None else Some (sha (raw_text (JArr (map JStr command)))))"

text \<open>\<open>_require_nonblank\<close> strips the required texts; a blank one is an error.\<close>

definition required_texts :: "governed_context \<Rightarrow> string list" where
  "required_texts g = [g_execution_id g, g_request_id g, g_org_id g, g_asset_id g, g_target_id g,
     g_authorization_decision_id g, g_request_fingerprint g, g_integrity_seal g, g_target_policy_version g,
     g_policy_revision g, g_tool_id g, g_operation_family g, g_worker_identity g, g_worker_generation g,
     g_session_jti g, g_correlation_id g, g_authority_token g]"

definition stripped_context :: "governed_context \<Rightarrow> governed_context" where
  "stripped_context g = g\<lparr>g_execution_id := py_strip (g_execution_id g), g_request_id := py_strip (g_request_id g),
     g_org_id := py_strip (g_org_id g), g_asset_id := py_strip (g_asset_id g), g_target_id := py_strip (g_target_id g),
     g_authorization_decision_id := py_strip (g_authorization_decision_id g),
     g_request_fingerprint := py_strip (g_request_fingerprint g), g_integrity_seal := py_strip (g_integrity_seal g),
     g_target_policy_version := py_strip (g_target_policy_version g), g_policy_revision := py_strip (g_policy_revision g),
     g_tool_id := py_strip (g_tool_id g), g_operation_family := py_strip (g_operation_family g),
     g_worker_identity := py_strip (g_worker_identity g), g_worker_generation := py_strip (g_worker_generation g),
     g_session_jti := py_strip (g_session_jti g), g_correlation_id := py_strip (g_correlation_id g),
     g_authority_token := py_strip (g_authority_token g)\<rparr>"

text \<open>The tuples of pairs a budget and a scope are declared as. A number given as a Boolean, a float or a
  text would be converted, and then differ from the digest; so it is refused here.\<close>

definition json_int :: "json \<Rightarrow> bool" where
  "json_int v = (case v of JInt n \<Rightarrow> True | _ \<Rightarrow> False)"

definition json_str :: "json \<Rightarrow> bool" where
  "json_str v = (case v of JStr s \<Rightarrow> True | _ \<Rightarrow> False)"

definition pairs_with :: "(json \<Rightarrow> bool) \<Rightarrow> json \<Rightarrow> bool" where
  "pairs_with ok v = (case v of JArr ps \<Rightarrow>
       list_all (\<lambda>p. case p of JArr [JStr k, x] \<Rightarrow> ok x | _ \<Rightarrow> False) ps | _ \<Rightarrow> False)"

definition digests_bound :: "(string \<Rightarrow> string) \<Rightarrow> governed_context \<Rightarrow> bool" where
  "digests_bound sha g =
    (canonical_command_digest sha (g_exact_command g) = Some (g_command_digest g)
     \<and> canonical_binding_digest sha (g_operation_options g) = Some (g_options_digest g)
     \<and> canonical_binding_digest sha (g_resource_budget g) = Some (g_resource_digest g)
     \<and> canonical_binding_digest sha (g_account_impact_budget g) = Some (g_impact_digest g)
     \<and> canonical_binding_digest sha (g_credential_scope g) = Some (g_credential_digest g))"

text \<open>The validation of a constructed context; every failure of it is a validation error.\<close>

definition construct_context :: "env \<Rightarrow> governed_context \<Rightarrow> launch_error + governed_context" where
  "construct_context env g =
    (if list_all (\<lambda>s. py_strip s \<noteq> []) (required_texts g)
        \<and> pairs_with (\<lambda>x. True) (g_operation_options g) \<and> pairs_with json_int (g_resource_budget g)
        \<and> pairs_with json_int (g_account_impact_budget g) \<and> pairs_with json_str (g_credential_scope g)
        \<and> list_all hex64 [g_options_digest g, g_resource_digest g, g_impact_digest g, g_credential_digest g]
        \<and> digests_bound (e_sha256 env) g \<and> e_now env 1 < g_expires_at g
     then Inr (stripped_context g) else Inl ContextInvalid)"

text \<open>The issued contexts by identity, with their expiry.\<close>

definition register_context :: "env \<Rightarrow> (nat \<times> time) list \<Rightarrow> governed_context \<Rightarrow> launch_error + (nat \<times> time) list" where
  "register_context env reg g =
    (let kept = (if 4096 \<le> length reg then filter (\<lambda>c. \<not> snd c \<le> e_now env 2) reg else reg)
     in if 4096 \<le> length kept then Inl RegistryFull else Inr (kept @ [(g_id g, g_expires_at g)]))"

text \<open>The columns \<open>get_execution_run\<close> returns hold no \<open>project_id\<close>.\<close>

definition run_project_id :: "exec_run \<Rightarrow> string option" where
  "run_project_id r = None"

definition run_snapshot_matches :: "exec_run \<Rightarrow> exec_decision \<Rightarrow> bool" where
  "run_snapshot_matches r d =
    (run_project_id r = b_project_id (d_binding d)
     \<and> s_target_policy_version (r_snapshot r) = Some (b_target_policy_version (d_binding d))
     \<and> s_operation_options (r_snapshot r) = b_operation_options (d_binding d)
     \<and> s_resource_budget (r_snapshot r) = b_resource_budget (d_binding d)
     \<and> s_account_impact_budget (r_snapshot r) = b_account_impact_budget (d_binding d)
     \<and> s_credential_scope (r_snapshot r) = b_credential_scope (d_binding d))"

definition context_of ::
    "nat \<Rightarrow> capability \<Rightarrow> exec_run \<Rightarrow> string list \<Rightarrow> string \<Rightarrow> string \<Rightarrow> string \<Rightarrow> string \<Rightarrow> string \<Rightarrow> governed_context" where
  "context_of new_id cap r command cd od rd ad kd =
    (let d = cap_decision cap; b = d_binding d; eid = the (cap_execution_id cap)
     in \<lparr> g_id = new_id, g_execution_id = eid, g_request_id = r_request_id r, g_org_id = d_organization_id d,
          g_project_id = b_project_id b, g_asset_id = b_asset_id b, g_target_id = b_target_id b,
          g_integrity_seal = vt_integrity_seal (cap_target cap),
          g_authorization_decision_id = b_authorization_decision_id b,
          g_request_fingerprint = the (s_request_fingerprint (r_snapshot r)),
          g_target_policy_version = b_target_policy_version b, g_policy_revision = b_operation_policy_revision b,
          g_tool_id = cap_tool_id cap, g_operation_family = cap_operation_family cap,
          g_operation_options = freeze_value (JObj (b_operation_options b)),
          g_resource_budget = freeze_value (JObj (b_resource_budget b)),
          g_account_impact_budget = freeze_value (JObj (b_account_impact_budget b)),
          g_credential_scope = freeze_value (JObj (b_credential_scope b)),
          g_options_digest = od, g_resource_digest = rd, g_impact_digest = ad, g_credential_digest = kd,
          g_revocation_reference = ''session-jti:'' @ d_session_jti d,
          g_worker_identity = cap_worker_identity cap, g_worker_generation = cap_worker_generation cap,
          g_session_jti = d_session_jti d, g_expires_at = d_expires_at d,
          g_correlation_id = or_else (r_correlation_id r) (''corr-execution-'' @ eid),
          g_exact_command = command, g_command_digest = cd, g_authority_token = the (cap_dispatch_token cap) \<rparr>)"

definition issue_execution_context ::
    "env \<Rightarrow> nat list \<Rightarrow> (nat \<times> time) list \<Rightarrow> exec_db \<Rightarrow> capability \<Rightarrow> nat \<Rightarrow> string list \<Rightarrow>
     launch_error + governed_context \<times> (nat \<times> time) list" where
  "issue_execution_context env reg contexts db cap new_id command =
    (let d = cap_decision cap; b = d_binding d; sha = e_sha256 env
     in if \<not> truthy (cap_execution_id cap) \<or> \<not> truthy (cap_dispatch_token cap) \<or> \<not> truthy (cap_claim_token cap)
     then Inl ExecutionDecisionError
     else if \<not> valid_for_launch sha reg cap (cap_tool_id cap) (cap_operation_family cap) (b_operation_options b)
            command (cap_worker_identity cap)
     then Inl ExecutionDecisionError
     else case get_execution_run db (the (cap_execution_id cap)) (d_organization_id d) of
       None \<Rightarrow> Inl ExecutionDecisionError
     | Some r \<Rightarrow>
        if r_approved_decision_id r \<noteq> Some (d_id d) \<or> r_organization_id r \<noteq> d_organization_id d
           \<or> r_worker_generation r \<noteq> Some (cap_worker_generation cap)
           \<or> s_request_fingerprint (r_snapshot r) = None
           \<or> s_operation_policy_revision (r_snapshot r) \<noteq> Some (b_operation_policy_revision b)
           \<or> \<not> run_snapshot_matches r d
        then Inl ExecutionDecisionError
        else case (canonical_binding_digest sha (JObj (b_operation_options b)),
                   canonical_binding_digest sha (JObj (b_resource_budget b)),
                   canonical_binding_digest sha (JObj (b_account_impact_budget b)),
                   canonical_binding_digest sha (JObj (b_credential_scope b)),
                   canonical_command_digest sha command) of
          (Some od, Some rd, Some ad, Some kd, Some cd) \<Rightarrow>
            (case construct_context env (context_of new_id cap r command cd od rd ad kd) of
               Inl e \<Rightarrow> Inl e
             | Inr g \<Rightarrow> (case register_context env contexts g of Inl e \<Rightarrow> Inl e
                         | Inr contexts' \<Rightarrow> Inr (g, contexts')))
        | _ \<Rightarrow> Inl ExecutionContextCommandError)"

subsection \<open>Checks of a context\<close>

definition context_issued :: "(nat \<times> time) list \<Rightarrow> governed_context \<Rightarrow> bool" where
  "context_issued contexts g = (g_id g \<in> fst ` set contexts)"

definition assert_live :: "(nat \<times> time) list \<Rightarrow> time \<Rightarrow> governed_context \<Rightarrow> launch_error + unit" where
  "assert_live contexts now g =
    (if \<not> context_issued contexts g then Inl MissingExecutionContextError
     else if g_expires_at g \<le> now then Inl ExecutionContextExpiredError else Inr ())"

definition assert_launch ::
    "(string \<Rightarrow> string) \<Rightarrow> (nat \<times> time) list \<Rightarrow> time \<Rightarrow> governed_context \<Rightarrow> string \<Rightarrow> string \<Rightarrow> string list \<Rightarrow> launch_error + unit" where
  "assert_launch sha contexts now g eid org command =
    (case assert_live contexts now g of Inl e \<Rightarrow> Inl e | Inr _ \<Rightarrow>
     if eid \<noteq> g_execution_id g \<or> org \<noteq> g_org_id g then Inl ExecutionContextMismatchError
     else if canonical_command_digest sha command \<noteq> Some (g_command_digest g) then Inl ExecutionContextCommandError
     else Inr ())"

definition assert_bound_to_capability ::
    "(string \<Rightarrow> string) \<Rightarrow> (nat \<times> time) list \<Rightarrow> governed_context \<Rightarrow> capability \<Rightarrow> launch_error + unit" where
  "assert_bound_to_capability sha contexts g cap =
    (let d = cap_decision cap; b = d_binding d
     in if \<not> context_issued contexts g then Inl MissingExecutionContextError
     else if cap_execution_id cap \<noteq> Some (g_execution_id g) then Inl ExecutionContextMismatchError
     else if g_org_id g = d_organization_id d \<and> g_project_id g = b_project_id b \<and> g_asset_id g = b_asset_id b
        \<and> g_integrity_seal g = vt_integrity_seal (cap_target cap)
        \<and> g_authorization_decision_id g = b_authorization_decision_id b
        \<and> g_target_policy_version g = b_target_policy_version b \<and> g_tool_id g = cap_tool_id cap
        \<and> g_operation_family g = cap_operation_family cap
        \<and> Some (g_options_digest g) = canonical_binding_digest sha (JObj (b_operation_options b))
        \<and> Some (g_resource_digest g) = canonical_binding_digest sha (JObj (b_resource_budget b))
        \<and> Some (g_impact_digest g) = canonical_binding_digest sha (JObj (b_account_impact_budget b))
        \<and> Some (g_credential_digest g) = canonical_binding_digest sha (JObj (b_credential_scope b))
        \<and> g_policy_revision g = b_operation_policy_revision b \<and> g_worker_identity g = cap_worker_identity cap
        \<and> g_worker_generation g = cap_worker_generation cap \<and> g_session_jti g = d_session_jti d
        \<and> Some (g_authority_token g) = cap_dispatch_token cap
        \<and> g_revocation_reference g = ''session-jti:'' @ d_session_jti d
     then Inr () else Inl ExecutionContextMismatchError)"

end
