(* ===== verification/Capability_Lemmas.thy ===== *)
theory Capability_Lemmas
  imports Exec_Capability Exec_Samples Ssrf_Properties
begin

text \<open>
  The digests of commands determine the command; what an issued, claimed and contextualised capability
  says about the store; a sample launch.
\<close>

section \<open>Command digests\<close>

lemma scan_raw: "scan_string (raw_escape c @ s) = map_option (\<lambda>(x, t). (c # x, t)) (scan_string s)"
proof (cases "127 \<le> (of_char c :: nat)")
  case True
  then have "c \<noteq> CHR 0x22" "c \<noteq> CHR 0x5C" "\<not> (of_char c :: nat) < 32" by auto
  with True show ?thesis by (simp add: raw_escape_def scan_string.simps)
qed (simp add: raw_escape_def scan_escape)

lemma scan_raw_string: "scan_string (concat (map raw_escape x) @ CHR 0x22 # s) = Some (x, s)"
  by (induction x) (simp_all add: scan_raw scan_string.simps(2))

lemma raw_string_inj:
  assumes "raw_string a @ s = raw_string b @ t"
  shows "a = b \<and> s = t"
proof -
  have "concat (map raw_escape a) @ CHR 0x22 # s = concat (map raw_escape b) @ CHR 0x22 # t"
    using assms by (simp add: raw_string_def)
  then have "Some (a, s) = Some (b, t)" by (metis scan_raw_string)
  then show ?thesis by simp
qed

lemma join_Cons: "join_with sep (s # ss) = s @ (if ss = [] then [] else sep @ join_with sep ss)"
  by (cases ss) simp_all

definition words_text :: "string list \<Rightarrow> string" where
  "words_text xs = join_with '','' (map raw_string xs) @ '']''"

lemma words_text_simps:
  "words_text [] = '']''"
  "words_text (x # xs) = raw_string x @ (if xs = [] then '']'' else CHR '','' # words_text xs)"
  by (simp_all add: words_text_def join_Cons)

lemma words_text_inj: "words_text xs = words_text ys \<Longrightarrow> xs = ys"
proof (induction xs arbitrary: ys)
  case Nil
  then show ?case by (cases ys) (auto simp: words_text_simps raw_string_def)
next
  case (Cons x xs)
  then obtain y zs where ys: "ys = y # zs" by (cases ys) (auto simp: words_text_simps raw_string_def)
  from raw_string_inj [OF Cons.prems [unfolded ys words_text_simps]] Cons.IH [of zs]
  show ?case unfolding ys by (cases "xs = []"; cases "zs = []") auto
qed

lemma canonical_command_injective:
  assumes "canonical_command_digest sha a = Some h" and "canonical_command_digest sha b = Some h"
  shows "a = b \<or> (\<exists>x y. x \<noteq> y \<and> sha x = sha y)"
proof -
  have rendered: "raw_text (JArr (map JStr c)) = CHR ''['' # words_text c" for c
    by (simp add: words_text_def comp_def)
  have "sha (CHR ''['' # words_text a) = sha (CHR ''['' # words_text b)"
    using assms unfolding canonical_command_digest_def rendered by (simp split: if_splits)
  then show ?thesis using words_text_inj by blast
qed

lemma command_injective:
  assumes "command_digest sha a = Some h" and "command_digest sha b = Some h"
  shows "a = b \<or> (\<exists>x y. x \<noteq> y \<and> sha x = sha y)"
proof -
  have loads: "json_loads (json_dumps (JArr (map JStr c))) = Some (JArr (map JStr c))" for c
    using json_loads_dumps [of "JArr (map JStr c)"] by (simp add: list_all_iff comp_def)
  have "sha (json_dumps (JArr (map JStr a))) = sha (json_dumps (JArr (map JStr b)))"
    using assms unfolding command_digest_def by (simp split: if_splits)
  moreover have "a = b" if "json_dumps (JArr (map JStr a)) = json_dumps (JArr (map JStr b))"
  proof -
    from that loads have "map JStr a = map JStr b" by (metis json.inject(4) option.inject)
    then show ?thesis by (simp add: inj_map_eq_map inj_def)
  qed
  ultimately show ?thesis by blast
qed

section \<open>What an issued capability stands for\<close>

lemma issued_facts:
  assumes "issue_execution_capability env gw w db reg k did target tool family options command = Inr (cap, reg')"
  obtains d cd where "cap_decision cap = d" "cap_target cap = target" "cap_tool_id cap = tool"
    "cap_operation_family cap = family" "cap_command_digest cap = cd" "cap_claim_token cap = None"
    "cap_options_digest cap = operation_digest (e_sha256 env) options"
    "command_digest (e_sha256 env) command = Some cd" "validate_validated_target gw target = Inr ()"
    "get_execution_decision db did (Some (vt_organization_id target)) = Some d"
    "d_revoked_at d = None" "e_now env 0 < d_expires_at d" "d_approval_state d = ''APPROVED''"
    "\<not> is_token_revoked db (d_session_jti d)" "d_worker_identity d = cap_worker_identity cap"
    "target_bound d target" "policy_allows (e_sha256 env) d tool family options"
    "reg' = register_capability reg k" "cap_id cap = k" "cap_from_verifier cap"
  using assms
  by (auto simp: issue_execution_capability_def Let_def split: if_splits option.splits sum.splits)

lemma claimed_facts:
  assumes "revalidate_and_claim env w reg db cap tool family options command worker timeout max_output token = (Inr cap', db')"
  shows "valid_for_launch (e_sha256 env) reg cap tool family options command worker"
    "get_execution_decision db (d_id (cap_decision cap)) (Some (d_organization_id (cap_decision cap))) = Some (cap_decision cap)"
    "d_revoked_at (cap_decision cap) = None \<and> d_consumed_at (cap_decision cap) = None \<and> e_now env 0 < d_expires_at (cap_decision cap)"
    "\<not> is_token_revoked db (d_session_jti (cap_decision cap))"
    "within_budget (b_resource_budget (d_binding (cap_decision cap))) timeout max_output"
    "cap_decision cap' = cap_decision cap" "cap_target cap' = cap_target cap" "cap_tool_id cap' = cap_tool_id cap"
    "cap_operation_family cap' = cap_operation_family cap" "cap_command_digest cap' = cap_command_digest cap"
    "cap_worker_identity cap' = cap_worker_identity cap" "cap_options_digest cap' = cap_options_digest cap"
  using assms
  by (auto simp: revalidate_and_claim_def Let_def split: if_splits option.splits sum.splits prod.splits)

lemma context_facts:
  assumes "issue_execution_context env reg contexts db cap k command = Inr (g, contexts')"
  obtains r od rd ad kd cd where
    "valid_for_launch (e_sha256 env) reg cap (cap_tool_id cap) (cap_operation_family cap)
       (b_operation_options (d_binding (cap_decision cap))) command (cap_worker_identity cap)"
    "truthy (cap_execution_id cap)" "truthy (cap_dispatch_token cap)"
    "get_execution_run db (the (cap_execution_id cap)) (d_organization_id (cap_decision cap)) = Some r"
    "r_approved_decision_id r = Some (d_id (cap_decision cap))" "run_snapshot_matches r (cap_decision cap)"
    "canonical_binding_digest (e_sha256 env) (JObj (b_operation_options (d_binding (cap_decision cap)))) = Some od"
    "canonical_binding_digest (e_sha256 env) (JObj (b_resource_budget (d_binding (cap_decision cap)))) = Some rd"
    "canonical_binding_digest (e_sha256 env) (JObj (b_account_impact_budget (d_binding (cap_decision cap)))) = Some ad"
    "canonical_binding_digest (e_sha256 env) (JObj (b_credential_scope (d_binding (cap_decision cap)))) = Some kd"
    "canonical_command_digest (e_sha256 env) command = Some cd"
    "construct_context env (context_of k cap r command cd od rd ad kd) = Inr g"
    "register_context env contexts g = Inr contexts'"
  using assms
  by (auto simp: issue_execution_context_def Let_def split: if_splits option.splits sum.splits)

lemma context_of_facts:
  assumes "construct_context env (context_of k cap r command cd od rd ad kd) = Inr g"
  shows "g_exact_command g = command" "g_command_digest g = cd" "g_id g = k"
    "g_org_id g = py_strip (d_organization_id (cap_decision cap))"
    "g_execution_id g = py_strip (the (cap_execution_id cap))"
    "g_expires_at g = d_expires_at (cap_decision cap)"
    "g = stripped_context (context_of k cap r command cd od rd ad kd)"
  using assms
  by (auto simp: construct_context_def stripped_context_def context_of_def Let_def split: if_splits)

section \<open>A sample launch\<close>

text \<open>The approved sample, its binding naming a target created by the gateway, with a full budget.\<close>

definition launch_binding :: exec_binding where
  "launch_binding = sample_binding\<lparr>b_target_id := ''d19e57'', b_authorization_decision_id := ''d19e57'',
     b_target_policy_version := APP_VERSION, b_operation_policy_revision := sample_digest [],
     b_resource_budget := [(''max_output_bytes'', JInt 1000), (''timeout_seconds'', JInt 300)]\<rparr>"

definition launch_decision :: exec_decision where
  "launch_decision = (hd (execution_decisions approved_db))\<lparr>d_binding := launch_binding\<rparr>"

definition launch_db :: exec_db where
  "launch_db = approved_db\<lparr>execution_decisions := [launch_decision],
     execution_requests := map (\<lambda>q. q\<lparr>q_binding := launch_binding\<rparr>) (execution_requests approved_db),
     execution_runs := map (\<lambda>r. r\<lparr>r_snapshot := (r_snapshot r)\<lparr>s_target_policy_version := Some APP_VERSION,
       s_operation_policy_revision := Some (sample_digest []),
       s_resource_budget := b_resource_budget launch_binding\<rparr>\<rparr>) (execution_runs approved_db)\<rparr>"

definition launch_env :: "time \<Rightarrow> env" where
  "launch_env t = (env_at t)\<lparr>e_sha256 := sample_digest\<rparr>"

lemma launch_env_simps [simp]: "e_sha256 (launch_env t) = sample_digest" "e_now (launch_env t) n = t"
  by (simp_all add: launch_env_def env_at_def)

definition launch_worker :: worker_config where
  "launch_worker = \<lparr> w_environment = ''production'', w_identity = ''worker'', w_generation = ''gen'', w_process_generation = ''x'' \<rparr>"

lemma launch_worker_simps: "get_worker_identity launch_worker = Inr ''worker''" "get_worker_generation launch_worker = Inr ''gen''"
  by code_simp+

lemma launch_target:
  obtains vt where "validate_validated_target sample_gateway vt = Inr ()" "target_bound launch_decision vt"
    "vt_organization_id vt = ''org''" "vt_integrity_seal vt = ''6d6163''"
proof -
  let ?made = "create_validated_target sample_gateway URL ''https://h.io'' ''org'' None (Some ''asset'') None False [] False False"
  have "case ?made of Inr vt \<Rightarrow> vt_selected_destination vt \<noteq> [] | Inl e \<Rightarrow> False" by code_simp
  then obtain vt where vt: "?made = Inr vt" "vt_selected_destination vt \<noteq> []" by (cases ?made) auto
  have seal: "hexdigest ''mac'' = ''6d6163''" by code_simp
  have ok: "validate_validated_target sample_gateway vt = Inr ()"
    using created_acceptance [OF vt(1) sample_hashes_ok] vt(2) by simp
  from vt(1) have fields: "vt_target_id vt = ''d19e57'' \<and> vt_authorization_decision_id vt = ''d19e57'' \<and> vt_policy_version vt = APP_VERSION
      \<and> vt_organization_id vt = ''org'' \<and> vt_project_id vt = None \<and> vt_asset_id vt = Some ''asset''
      \<and> vt_integrity_seal vt = ''6d6163''"
    by (rule create_parts) (simp add: target_identity_def decision_identity_def sha256_hex_def compute_gateway_seal_def sample_gateway_def seal)
  have "d_organization_id launch_decision = ''org''" by code_simp
  with fields have "target_bound launch_decision vt"
    by (simp add: target_bound_def launch_decision_def launch_binding_def sample_binding_def)
  with ok fields show thesis using that by blast
qed

lemma launch_rows:
  "get_execution_decision launch_db ''dec-u0'' (Some ''org'') = Some launch_decision"
  "is_token_revoked launch_db ''jti'' = False"
  by code_simp+

lemma launch_decision_simps:
  "d_id launch_decision = ''dec-u0''" "d_organization_id launch_decision = ''org''" "d_session_jti launch_decision = ''jti''"
  "d_worker_identity launch_decision = ''worker''" "d_approval_state launch_decision = ''APPROVED''"
  "d_revoked_at launch_decision = None" "d_consumed_at launch_decision = None" "d_expires_at launch_decision = 900000000"
  by code_simp+

lemma launch_policy: "policy_allows sample_digest launch_decision ''nmap'' ''network_assessment'' []"
proof -
  have rev: "OPERATION_POLICY_REVISION sample_digest = sample_digest []"
    by (simp add: OPERATION_POLICY_REVISION_def sample_digest_def)
  have "map_option p_required_options (get_operation_policy ''nmap'' ''network_assessment'') = Some []" by code_simp
  then obtain p where "get_operation_policy ''nmap'' ''network_assessment'' = Some p" "p_required_options p = []" by auto
  then show ?thesis
    using rev by (simp add: policy_allows_def launch_decision_def launch_binding_def sample_binding_def
        is_canonical_operation_policy_revision_def budget_values_def scalar_int_def)
qed

definition launch_capability :: "validated_target \<Rightarrow> capability" where
  "launch_capability vt = \<lparr> cap_id = 0, cap_from_verifier = True, cap_decision = launch_decision, cap_target = vt,
     cap_tool_id = ''nmap'', cap_operation_family = ''network_assessment'', cap_options_digest = sample_digest [],
     cap_command_digest = sample_digest [], cap_worker_identity = ''worker'', cap_worker_generation = ''gen'',
     cap_claim_token = None, cap_dispatch_token = None, cap_execution_id = None \<rparr>"

lemma sample_digest_same: "sample_digest s = sample_digest []"
  by (simp add: sample_digest_def)

lemma launch_digests:
  "command_digest sample_digest [''nmap''] = Some (sample_digest [])" "operation_digest sample_digest os = sample_digest []"
  by (simp_all add: command_digest_def operation_digest_def sample_digest_def)

lemma launch_issued:
  assumes "validate_validated_target sample_gateway vt = Inr ()" "target_bound launch_decision vt" "vt_organization_id vt = ''org''"
  shows "issue_execution_capability (launch_env 3) sample_gateway launch_worker launch_db [] 0 ''dec-u0'' vt ''nmap''
     ''network_assessment'' [] [''nmap''] = Inr (launch_capability vt, [0])"
proof -
  have strip: "py_strip ''dec-u0'' \<noteq> []" "py_strip ''gen'' = ''gen''" by code_simp+
  show ?thesis
    using assms strip by (simp add: issue_execution_capability_def launch_digests launch_worker_simps launch_rows
        launch_decision_simps launch_policy launch_capability_def register_capability_def)
qed

definition launch_claim :: "authority_lease option outcome" where
  "launch_claim = claim_execution_authority (launch_env 3) launch_db ''dec-u0'' ''org'' ''jti'' ''worker'' (sample_digest []) None (Some 3) 30"

definition claimed_launch_db :: exec_db where
  "claimed_launch_db = snd launch_claim"

lemma launch_claimed:
  "(case fst launch_claim of Inr (Some a) \<Rightarrow> lc_token (al_decision a) = ''u0'' \<and> dl_token (al_dispatch a) = ''u1''
      \<and> al_execution_id a = ''run-u1'' | _ \<Rightarrow> False)"
  by code_simp

definition claimed_capability :: "validated_target \<Rightarrow> capability" where
  "claimed_capability vt = (launch_capability vt)\<lparr>cap_claim_token := Some ''u0'', cap_dispatch_token := Some ''u1'',
     cap_execution_id := Some ''run-u1''\<rparr>"

lemma launch_revalidated:
  "revalidate_and_claim (launch_env 3) launch_worker [0] launch_db (launch_capability vt) ''nmap'' ''network_assessment'' [] [''nmap'']
     ''worker'' 60 100 None = (Inr (claimed_capability vt), claimed_launch_db)"
proof -
  from launch_claimed obtain a where a: "fst launch_claim = Inr (Some a)" "lc_token (al_decision a) = ''u0''"
    "dl_token (al_dispatch a) = ''u1''" "al_execution_id a = ''run-u1''"
    by (auto split: sum.splits option.splits)
  have claim: "claim_execution_authority (launch_env 3) launch_db ''dec-u0'' ''org'' ''jti'' ''worker'' (sample_digest []) None (Some 3) 30
      = (Inr (Some a), claimed_launch_db)"
    using a(1) unfolding launch_claim_def claimed_launch_db_def by (metis prod.collapse)
  have rev: "b_operation_policy_revision (d_binding launch_decision) = sample_digest []"
    "is_canonical_operation_policy_revision sample_digest (sample_digest [])"
    by (simp_all add: launch_decision_def launch_binding_def is_canonical_operation_policy_revision_def
        OPERATION_POLICY_REVISION_def sample_digest_def)
  have budget: "within_budget (b_resource_budget (d_binding launch_decision)) 60 100"
    by code_simp
  show ?thesis
    using a(2-4) by (simp add: revalidate_and_claim_def valid_for_launch_def cap_issued_def launch_capability_def launch_digests
        launch_worker_simps launch_decision_simps launch_rows rev budget claim claimed_capability_def)
qed

definition launched_run :: exec_run where
  "launched_run = hd (execution_runs claimed_launch_db)"

lemma launched_run_found: "get_execution_run claimed_launch_db ''run-u1'' ''org'' = Some launched_run"
  by code_simp

lemma launched_run_simps:
  "r_approved_decision_id launched_run = Some ''dec-u0''" "r_organization_id launched_run = ''org''"
  "r_worker_generation launched_run = Some ''gen''" "s_request_fingerprint (r_snapshot launched_run) = Some ''fp''"
  "s_operation_policy_revision (r_snapshot launched_run) = Some (b_operation_policy_revision (d_binding launch_decision))"
  "run_snapshot_matches launched_run launch_decision" "r_request_id launched_run = ''req''"
  "r_correlation_id launched_run = Some ''corr''"
  by code_simp+

lemma launch_binding_digests:
  "canonical_binding_digest sample_digest (JObj (b_operation_options (d_binding launch_decision))) = Some (sample_digest [])"
  "canonical_binding_digest sample_digest (JObj (b_resource_budget (d_binding launch_decision))) = Some (sample_digest [])"
  "canonical_binding_digest sample_digest (JObj (b_account_impact_budget (d_binding launch_decision))) = Some (sample_digest [])"
  "canonical_binding_digest sample_digest (JObj (b_credential_scope (d_binding launch_decision))) = Some (sample_digest [])"
  "canonical_command_digest sample_digest [''nmap''] = Some (sample_digest [])"
  by code_simp+

definition launch_target_sample :: validated_target where
  "launch_target_sample = \<lparr> vt_target_id = ''d19e57'', vt_authorization_decision_id = ''d19e57'', vt_integrity_seal = ''6d6163'',
     vt_organization_id = ''org'', vt_project_id = None, vt_asset_id = Some ''asset'', vt_workspace_id = None,
     vt_target_type = URL, vt_raw_value = [], vt_canonical_value = [], vt_authorized_scope = [], vt_resolved_addresses = [],
     vt_selected_destination = [], vt_port = None, vt_scheme = None, vt_authorization_context = [], vt_policy_version = APP_VERSION \<rparr>"

definition launch_context :: governed_context where
  "launch_context = context_of 7 (claimed_capability launch_target_sample) launched_run [''nmap''] (sample_digest []) (sample_digest [])
     (sample_digest []) (sample_digest []) (sample_digest [])"

lemma launch_context_valid:
  "construct_context (launch_env 4) launch_context = Inr launch_context" "g_id launch_context = 7"
  "g_expires_at launch_context = 900000000" "g_execution_id launch_context = ''run-u1''" "g_org_id launch_context = ''org''"
  "g_command_digest launch_context = sample_digest []"
  by code_simp+

lemma launch_context_issued:
  assumes "vt_integrity_seal vt = ''6d6163''"
  shows "issue_execution_context (launch_env 4) [0] [] claimed_launch_db (claimed_capability vt) 7 [''nmap'']
    = Inr (launch_context, [(7, 900000000)])"
proof -
  have same: "context_of 7 (claimed_capability vt) launched_run [''nmap''] (sample_digest []) (sample_digest [])
     (sample_digest []) (sample_digest []) (sample_digest []) = launch_context"
    using assms by (simp add: launch_context_def context_of_def claimed_capability_def launch_capability_def
        launch_target_sample_def Let_def)
  have sel: "cap_decision (claimed_capability vt) = launch_decision" "cap_execution_id (claimed_capability vt) = Some ''run-u1''"
    "cap_dispatch_token (claimed_capability vt) = Some ''u1''" "cap_claim_token (claimed_capability vt) = Some ''u0''"
    "cap_worker_generation (claimed_capability vt) = ''gen''"
    by (simp_all add: claimed_capability_def launch_capability_def)
  have valid: "valid_for_launch sample_digest [0] (claimed_capability vt) (cap_tool_id (claimed_capability vt))
      (cap_operation_family (claimed_capability vt)) (b_operation_options (d_binding launch_decision)) [''nmap'']
      (cap_worker_identity (claimed_capability vt))"
    by (simp add: valid_for_launch_def cap_issued_def claimed_capability_def launch_capability_def launch_digests)
  show ?thesis
    unfolding issue_execution_context_def Let_def sel
    by (simp add: valid launched_run_found launched_run_simps launch_decision_simps launch_binding_digests same
        launch_context_valid register_context_def del: launched_run_simps(5)) (simp add: launched_run_simps)
qed

end
