(* ===== verification/Capability_Properties.thy ===== *)
theory Capability_Properties
  imports Capability_Lemmas
begin

text \<open>
  What a worker can launch: the approved operation with its exact command, on a live authority.
\<close>

section \<open>What is launched\<close>

text \<open>C15. Only the approved operation is launched. When a worker's capability was issued, then revalidated and
  claimed (perhaps much later, with the store changed in between), then given a context, and that context
  passes the check before a launch, the decision it was issued for is approved, bound to the validated
  target, conforming to the operation policy, neither revoked, consumed nor expired at the claim, and
  unexpired at the launch; the launch names its organization; the tool, the family and a timeout within the
  budget were those of the decision; and the launched command is the one the capability was issued for,
  unless a hash collides.\<close>

theorem launch_is_the_approved_operation:
  assumes issue: "issue_execution_capability env gw w db reg k did target tool family options command = Inr (cap, reg')"
    and claim: "revalidate_and_claim env1 w1 reg1 db1 cap tool1 family1 options1 command1 worker timeout max_output token = (Inr cap1, db1')"
    and ctx: "issue_execution_context env2 reg2 contexts db2 cap1 k2 command2 = Inr (g, contexts')"
    and launch: "assert_launch sha contexts3 now g eid org command3 = Inr ()"
    and sha: "e_sha256 env = sha" "e_sha256 env1 = sha" "e_sha256 env2 = sha"
  shows "\<exists>d. cap_decision cap = d \<and> get_execution_decision db did (Some (vt_organization_id target)) = Some d
    \<and> get_execution_decision db1 (d_id d) (Some (d_organization_id d)) = Some d
    \<and> d_approval_state d = ''APPROVED'' \<and> d_revoked_at d = None \<and> d_consumed_at d = None
    \<and> e_now env1 0 < d_expires_at d \<and> now < d_expires_at d \<and> \<not> is_token_revoked db1 (d_session_jti d)
    \<and> validate_validated_target gw target = Inr () \<and> target_bound d target
    \<and> tool1 = b_tool_id (d_binding d) \<and> family1 = b_operation_family (d_binding d)
    \<and> get_operation_policy tool1 family1 \<noteq> None
    \<and> within_budget (b_resource_budget (d_binding d)) timeout max_output
    \<and> worker = d_worker_identity d \<and> org = py_strip (d_organization_id d)
    \<and> (command = command1 \<and> command1 = command2 \<and> command2 = command3 \<or> (\<exists>x y. x \<noteq> y \<and> sha x = sha y))"
proof -
  from issued_facts [OF issue] obtain d cd where d: "cap_decision cap = d" "cap_tool_id cap = tool"
    "cap_operation_family cap = family" "cap_command_digest cap = cd" "command_digest sha command = Some cd"
    "validate_validated_target gw target = Inr ()"
    "get_execution_decision db did (Some (vt_organization_id target)) = Some d" "d_approval_state d = ''APPROVED''"
    "d_worker_identity d = cap_worker_identity cap" "target_bound d target" "policy_allows sha d tool family options"
    unfolding sha by metis
  note c = claimed_facts [OF claim, unfolded sha d]
  have c1: "cap_tool_id cap = tool1" "cap_operation_family cap = family1" "command_digest sha command1 = Some cd"
    "cap_worker_identity cap = worker"
    using c(1) d(4) by (simp_all add: valid_for_launch_def)
  obtain r od rd ad kd cd2 where x:
    "valid_for_launch sha reg2 cap1 (cap_tool_id cap1) (cap_operation_family cap1)
       (b_operation_options (d_binding (cap_decision cap1))) command2 (cap_worker_identity cap1)"
    "canonical_command_digest sha command2 = Some cd2"
    "construct_context env2 (context_of k2 cap1 r command2 cd2 od rd ad kd) = Inr g"
    by (rule context_facts [OF ctx, unfolded sha]) (rule that; assumption)
  from x(1) have cmd2: "command_digest sha command2 = Some (cap_command_digest cap1)" by (simp add: valid_for_launch_def)
  note g = context_of_facts [OF x(3)]
  from launch have l: "g_expires_at g > now" "org = g_org_id g" "canonical_command_digest sha command3 = Some (g_command_digest g)"
    by (auto simp: assert_launch_def assert_live_def split: if_splits sum.splits)
  have "command = command1 \<or> (\<exists>x y. x \<noteq> y \<and> sha x = sha y)" by (rule command_injective [OF d(5) c1(3)])
  moreover have "command1 = command2 \<or> (\<exists>x y. x \<noteq> y \<and> sha x = sha y)"
    using command_injective [OF c1(3)] cmd2 c(10) d(4) by simp
  moreover have "command2 = command3 \<or> (\<exists>x y. x \<noteq> y \<and> sha x = sha y)"
    using canonical_command_injective [OF x(2)] l(3) g(2) by simp
  ultimately have "command = command1 \<and> command1 = command2 \<and> command2 = command3 \<or> (\<exists>x y. x \<noteq> y \<and> sha x = sha y)"
    by blast
  moreover have "tool1 = b_tool_id (d_binding d)" "family1 = b_operation_family (d_binding d)"
    "get_operation_policy tool1 family1 \<noteq> None"
    using d(2,3,11) c1(1,2) by (auto simp: policy_allows_def Let_def split: option.splits)
  moreover have "worker = d_worker_identity d" using d(9) c1(4) by simp
  moreover have "now < d_expires_at d" "org = py_strip (d_organization_id d)"
    using l(1,2) g(4,6) c(6) d(1) by simp_all
  moreover note d(1,6,7,8,10) c(2,3,4,5)
  ultimately show ?thesis unfolding d(1) by (intro exI [of _ d] conjI) (simp_all only: simp_thms)
qed

theorem launch_is_the_approved_operation_witness:
  "\<exists>vt d. validate_validated_target sample_gateway vt = Inr () \<and> target_bound d vt
     \<and> get_execution_decision launch_db ''dec-u0'' (Some (vt_organization_id vt)) = Some d \<and> d_approval_state d = ''APPROVED''
     \<and> assert_launch sample_digest [(7, 900000000)] 5 launch_context ''run-u1'' ''org'' [''nmap''] = Inr ()"
proof -
  obtain vt where vt: "validate_validated_target sample_gateway vt = Inr ()" "target_bound launch_decision vt"
    "vt_organization_id vt = ''org''" "vt_integrity_seal vt = ''6d6163''" by (rule launch_target)
  have launch: "assert_launch sample_digest [(7, 900000000)] 5 launch_context ''run-u1'' ''org'' [''nmap''] = Inr ()"
    by (simp add: assert_launch_def assert_live_def context_issued_def launch_context_valid launch_binding_digests)
  from launch_is_the_approved_operation [OF launch_issued [OF vt(1-3)] launch_revalidated launch_context_issued [OF vt(4)] launch]
  have "\<exists>d. get_execution_decision launch_db ''dec-u0'' (Some (vt_organization_id vt)) = Some d \<and> d_approval_state d = ''APPROVED''
      \<and> target_bound d vt" by (auto simp only: launch_env_simps simp_thms)
  with vt(1) launch show ?thesis by blast
qed

text \<open>C16. An execution bound to a project never gets a launch context: the stored run is read without its project
  identity, so the snapshot never matches a decision that names a project, whatever else holds.\<close>

theorem project_bound_execution_blocked:
  assumes "b_project_id (d_binding (cap_decision cap)) \<noteq> None"
  shows "\<exists>e. issue_execution_context env reg contexts db cap k command = Inl e"
proof (cases "issue_execution_context env reg contexts db cap k command")
  case (Inr p)
  then obtain g contexts' where "issue_execution_context env reg contexts db cap k command = Inr (g, contexts')"
    by (cases p) simp
  from context_facts [OF this] assms show ?thesis
    by (metis run_project_id_def run_snapshot_matches_def)
qed blast

theorem project_bound_execution_blocked_witness:
  "\<exists>e. issue_execution_context (launch_env 4) [0] [] claimed_launch_db
     ((claimed_capability launch_target_sample)\<lparr>cap_decision := launch_decision\<lparr>d_binding := launch_binding\<lparr>b_project_id := Some ''p''\<rparr>\<rparr>\<rparr>)
     7 [''nmap''] = Inl e"
  by (rule project_bound_execution_blocked) simp

text \<open>A context just issued is accepted: when no text of its capability is padded with blanks, it passes the
  check against that capability, and until the decision expires the check before a launch of the same
  execution with the same command.\<close>

theorem issued_context_accepted:
  assumes "issue_execution_context env reg contexts db cap k command = Inr (g, contexts')"
    and "list_all (\<lambda>s. py_strip s = s) [the (cap_execution_id cap), d_organization_id (cap_decision cap),
      b_asset_id (d_binding (cap_decision cap)), vt_integrity_seal (cap_target cap),
      b_authorization_decision_id (d_binding (cap_decision cap)), b_target_policy_version (d_binding (cap_decision cap)),
      b_operation_policy_revision (d_binding (cap_decision cap)), cap_tool_id cap, cap_operation_family cap,
      cap_worker_identity cap, cap_worker_generation cap, d_session_jti (cap_decision cap), the (cap_dispatch_token cap)]"
    and "now < d_expires_at (cap_decision cap)"
  shows "assert_bound_to_capability (e_sha256 env) contexts' g cap = Inr ()
    \<and> assert_launch (e_sha256 env) contexts' now g (the (cap_execution_id cap)) (d_organization_id (cap_decision cap)) command = Inr ()"
proof -
  obtain r od rd ad kd cd where x: "truthy (cap_execution_id cap)" "truthy (cap_dispatch_token cap)"
    "canonical_binding_digest (e_sha256 env) (JObj (b_operation_options (d_binding (cap_decision cap)))) = Some od"
    "canonical_binding_digest (e_sha256 env) (JObj (b_resource_budget (d_binding (cap_decision cap)))) = Some rd"
    "canonical_binding_digest (e_sha256 env) (JObj (b_account_impact_budget (d_binding (cap_decision cap)))) = Some ad"
    "canonical_binding_digest (e_sha256 env) (JObj (b_credential_scope (d_binding (cap_decision cap)))) = Some kd"
    "canonical_command_digest (e_sha256 env) command = Some cd"
    "construct_context env (context_of k cap r command cd od rd ad kd) = Inr g"
    "register_context env contexts g = Inr contexts'"
    by (rule context_facts [OF assms(1)]) (rule that; assumption)
  note g = context_of_facts [OF x(8)]
  have registered: "context_issued contexts' g"
    using x(9) by (auto simp: register_context_def context_issued_def Let_def split: if_splits)
  have tokens: "cap_execution_id cap = Some (the (cap_execution_id cap))" "cap_dispatch_token cap = Some (the (cap_dispatch_token cap))"
    using x(1,2) by (cases "cap_execution_id cap"; cases "cap_dispatch_token cap"; simp add: truthy_def)+
  have "assert_bound_to_capability (e_sha256 env) contexts' g cap = Inr ()"
    using registered tokens assms(2) x(3-6)
    by (simp add: assert_bound_to_capability_def g(7) stripped_context_def context_of_def Let_def)
  moreover have "assert_launch (e_sha256 env) contexts' now g (the (cap_execution_id cap)) (d_organization_id (cap_decision cap)) command = Inr ()"
    using registered assms(2,3) x(7) g(2,4-6) by (simp add: assert_launch_def assert_live_def)
  ultimately show ?thesis by blast
qed

theorem issued_context_accepted_witness:
  "assert_bound_to_capability sample_digest [(7, 900000000)] launch_context (claimed_capability launch_target_sample) = Inr ()
   \<and> assert_launch sample_digest [(7, 900000000)] 5 launch_context ''run-u1'' ''org'' [''nmap''] = Inr ()"
proof -
  let ?cap = "claimed_capability launch_target_sample"
  have "vt_integrity_seal launch_target_sample = ''6d6163''" by (simp add: launch_target_sample_def)
  note issued = launch_context_issued [OF this]
  have "list_all (\<lambda>s. py_strip s = s) [the (cap_execution_id ?cap), d_organization_id (cap_decision ?cap),
      b_asset_id (d_binding (cap_decision ?cap)), vt_integrity_seal (cap_target ?cap),
      b_authorization_decision_id (d_binding (cap_decision ?cap)), b_target_policy_version (d_binding (cap_decision ?cap)),
      b_operation_policy_revision (d_binding (cap_decision ?cap)), cap_tool_id ?cap, cap_operation_family ?cap,
      cap_worker_identity ?cap, cap_worker_generation ?cap, d_session_jti (cap_decision ?cap), the (cap_dispatch_token ?cap)]"
    "5 < d_expires_at (cap_decision ?cap)" by code_simp+
  from issued_context_accepted [OF issued this] show ?thesis
    by (simp add: claimed_capability_def launch_capability_def launch_decision_simps)
qed

end
