(* ===== verification/Exec_Terminal.thy ===== *)
theory Exec_Terminal
  imports Exec_Capability Exec_Termination
begin

text \<open>
  The end of an execution as its worker records it: \<open>record_no_process\<close>, \<open>record_terminal\<close> and
  \<open>settle_execution\<close> of \<open>backend/app/core/execution_service.py\<close>, with the evidence they read.

  \<open>envs n\<close> serves the \<open>n\<close>-th part: the worker's own readings (0), the ownership transition (1), the
  settlement of the run (2), the fallback (3). A missing reason (a success has none) is passed to the store
  as the empty text. The claim digests of the evidence are not modelled, since nothing here reads them.
\<close>

section \<open>Evidence\<close>

type_synonym replay_evidence =
  "exec_run \<times> process_ownership \<times> recovery_state \<times> dispatch_intent \<times> recovery_attempt option"

definition get_execution_replay_evidence :: "exec_db \<Rightarrow> string \<Rightarrow> string \<Rightarrow> replay_evidence option" where
  "get_execution_replay_evidence db eid org =
    (if py_strip eid = [] \<or> py_strip org = [] then None
     else case (sql_find (\<lambda>r. r_execution_id r = eid \<and> r_organization_id r = org) (execution_runs db),
                get_process_ownership db eid org,
                sql_find (\<lambda>v. v_execution_id v = eid \<and> v_organization_id v = org) (recovery_states db),
                sql_find (\<lambda>i. i_execution_id i = eid \<and> i_organization_id i = org) (dispatch_intents db)) of
       (Some r, Some p, Some v, Some i) \<Rightarrow> Some (r, p, v, i, latest_confirmed db eid org)
     | _ \<Rightarrow> None)"

definition durable_execution_evidence :: "exec_db \<Rightarrow> capability \<Rightarrow> replay_evidence option" where
  "durable_execution_evidence db cap =
    (if \<not> truthy (cap_execution_id cap) then None
     else case get_execution_replay_evidence db (the (cap_execution_id cap)) (d_organization_id (cap_decision cap)) of
       None \<Rightarrow> None
     | Some (r, e) \<Rightarrow>
        if r_worker_identity r = Some (cap_worker_identity cap) \<and> r_worker_generation r = Some (cap_worker_generation cap)
           \<and> r_approved_decision_id r = Some (d_id (cap_decision cap))
        then Some (r, e) else None)"

definition expected_terminal_dispatch :: "run_state \<Rightarrow> dispatch_state" where
  "expected_terminal_dispatch ts =
    (if ts \<in> {SUCCEEDED, PARTIAL_RESULTS_WITH_WARNING} then COMPLETED
     else if ts \<in> {CANCELLED, EXECUTION_BLOCKED} then BLOCKED else DFAILED)"

definition claim_digests :: "(string \<Rightarrow> string) \<Rightarrow> capability \<Rightarrow> (string \<times> string) option" where
  "claim_digests sha cap =
    (case (cap_claim_token cap, cap_dispatch_token cap) of
       (Some c, Some t) \<Rightarrow>
         (case (execution_claim_digest sha c, execution_claim_digest sha t) of
            (Some a, Some b) \<Rightarrow> Some (a, b) | _ \<Rightarrow> None)
     | _ \<Rightarrow> None)"

text \<open>The recovery part of a proof: status, attempt number and attempt, or an error.\<close>

definition recovery_attempt_consistent :: "exec_run \<Rightarrow> recovery_state \<Rightarrow> recovery_attempt \<Rightarrow> bool" where
  "recovery_attempt_consistent r v t =
    (list_all (\<lambda>s. py_strip s \<noteq> []) [t_attempt_id t, t_worker_identity t, t_reason_code t]
     \<and> nonblank (t_correlation_id t) \<and> nonblank (t_health_reference t)
     \<and> t_started_at t \<noteq> None \<and> t_completed_at t \<noteq> None
     \<and> t_requested_at t \<le> the (t_started_at t) \<and> the (t_started_at t) \<le> the (t_completed_at t)
     \<and> t_execution_id t = r_execution_id r \<and> t_organization_id t = r_organization_id r
     \<and> Some (t_worker_identity t) = r_worker_identity r \<and> t_worker_generation t = r_worker_generation r
     \<and> t_attempt_number t = v_attempt_number v \<and> t_status t = RV_CONFIRMED_TERMINATED
     \<and> t_correlation_id t = r_correlation_id r \<and> Some (t_reason_code t) = r_reason_code r
     \<and> t_cancellation_status t \<in> set (map Some [''CONFIRMED'', ''KILLED'', ''ALREADY_EXITED'', ''NO_EXTERNAL_PROCESS'',
          ''PRE_DISPATCH''])
     \<and> t_error_code t = None \<and> t_next_retry_at t = None \<and> t_escalation_level t = v_escalation_level v)"

definition proof_recovery_fields :: "replay_evidence \<Rightarrow> (string \<times> nat \<times> string option) option" where
  "proof_recovery_fields e =
    (case e of (r, p, v, i, latest) \<Rightarrow>
     if v_status v \<notin> {RV_REQUESTED, RV_CONFIRMED_TERMINATED} \<or> v_last_error v \<noteq> None \<or> v_owner v \<noteq> None
        \<or> v_lease_token v \<noteq> None \<or> v_lease_expires_at v \<noteq> None \<or> v_next_retry_at v \<noteq> None
     then None
     else if v_status v = RV_REQUESTED then
       (if latest = None \<and> v_attempt_number v = 0 \<and> v_last_outcome v = None \<and> v_escalation_level v = 0
        then Some (''REQUESTED'', 0, None) else None)
     else case latest of None \<Rightarrow> None | Some t \<Rightarrow>
       if 1 \<le> v_attempt_number v \<and> nonblank (v_last_outcome v) \<and> recovery_attempt_consistent r v t
       then Some (''CONFIRMED_TERMINATED'', v_attempt_number v, Some (t_attempt_id t)) else None)"

text \<open>The fields both kinds of proof have.\<close>

definition worker_proof ::
    "string \<Rightarrow> capability \<Rightarrow> exec_run \<Rightarrow> run_state \<Rightarrow> dispatch_state \<Rightarrow> string \<Rightarrow> ProcessContainerType \<Rightarrow>
     LaunchCommitState \<Rightarrow> string \<times> string \<Rightarrow> string option \<Rightarrow> time \<Rightarrow> string \<times> nat \<times> string option \<Rightarrow> jobj" where
  "worker_proof ty cap r ts dispatch ownership container committed digests reason now recovery =
    [(''schema_version'', JStr ''execution-proof-v2''), (''proof_type'', JStr ty),
     (''execution_id'', jopt (cap_execution_id cap)),
     (''organization_id'', JStr (d_organization_id (cap_decision cap))), (''request_id'', JStr (r_request_id r)),
     (''decision_id'', JStr (d_id (cap_decision cap))), (''terminal_state'', JStr (state_name ts)),
     (''dispatch_state'', JStr (dispatch_state_name dispatch)), (''ownership_state'', JStr ownership),
     (''container_type'', JStr (container_name container)), (''launch_commit_state'', JStr (commit_name committed)),
     (''worker_identity'', JStr (cap_worker_identity cap)), (''worker_generation'', JStr (cap_worker_generation cap)),
     (''correlation_id'', jopt (r_correlation_id r)), (''claim_identity_digest'', JStr (fst digests)),
     (''dispatch_identity_digest'', JStr (snd digests)), (''reason_code'', jopt reason),
     (''observed_at'', JStr (isoformat now)), (''recovery_status'', JStr (fst recovery)),
     (''recovery_attempt_number'', JInt (int (fst (snd recovery)))),
     (''recovery_attempt_id'', jopt (snd (snd recovery)))]"

section \<open>No process\<close>

definition no_process_record :: "capability \<Rightarrow> string \<Rightarrow> string \<Rightarrow> time \<Rightarrow> process_ownership" where
  "no_process_record cap correlation proof_text now =
    \<lparr> o_execution_id = the (cap_execution_id cap), o_organization_id = d_organization_id (cap_decision cap),
      o_ownership_state = NO_EXTERNAL_PROCESS, o_container_type = CNONE, o_container_identity = None,
      o_root_process_id = None, o_root_process_start_token = None, o_process_group_id = None, o_session_id = None,
      o_worker_generation = Some (cap_worker_generation cap), o_launch_commit_state = NOT_ATTEMPTED,
      o_no_process_proof = Some proof_text, o_identity_attestation = None, o_correlation_id = correlation,
      o_created_at = now, o_launched_at = None, o_last_verified_at = Some now, o_terminalized_at = None,
      o_updated_at = now \<rparr>"

definition record_no_process ::
    "(nat \<Rightarrow> env) \<Rightarrow> exec_db \<Rightarrow> capability \<Rightarrow> string \<Rightarrow> string \<Rightarrow> run_state option \<Rightarrow> dispatch_state option \<Rightarrow> bool outcome" where
  "record_no_process envs db cap proof_code reason terminal_state dispatch_arg =
    (let sha = e_sha256 (envs 0); now = e_now (envs 0) 0;
         ts = (case terminal_state of Some s \<Rightarrow> s
               | None \<Rightarrow> if take 19 reason = ''EXECUTION_CANCELLED'' then CANCELLED else EXECUTION_BLOCKED);
         dispatch = (case dispatch_arg of Some s \<Rightarrow> s | None \<Rightarrow> expected_terminal_dispatch ts)
     in if reason \<notin> set EXECUTION_REASON_CODES \<or> proof_code \<noteq> reason \<or> \<not> truthy (cap_execution_id cap)
     then commit db False
     else if ts \<notin> {CANCELLED, EXECUTION_BLOCKED, FAILED, TIMED_OUT} \<or> dispatch \<noteq> expected_terminal_dispatch ts
     then commit db False
     else case durable_execution_evidence db cap of None \<Rightarrow> commit db False
     | Some (r, p, v, i, latest) \<Rightarrow>
        if i_state i \<notin> {CLAIMED, PENDING, BLOCKED} then commit db False
        else case (claim_digests sha cap, proof_recovery_fields (r, p, v, i, latest)) of
          (Some digests, Some recovery) \<Rightarrow>
            if \<not> nonblank (r_correlation_id r) then commit db False
            else (case encode_execution_proof sha ''NO_EXTERNAL_PROCESS''
                     (worker_proof ''NO_EXTERNAL_PROCESS'' cap r ts dispatch ''NO_EXTERNAL_PROCESS'' CNONE NOT_ATTEMPTED
                        digests (Some reason) now recovery @ [(''proof_code'', JStr proof_code)]) of
              None \<Rightarrow> commit db False
            | Some t \<Rightarrow>
               (case transition_process_ownership (envs 1) db (no_process_record cap (the (r_correlation_id r)) t now)
                       UNKNOWN ''system'' reason (Some (cap_worker_identity cap)) of
                  (Inl ValueError, db') \<Rightarrow> (Inr False, db')
                | out \<Rightarrow> out))
        | _ \<Rightarrow> commit db False)"

section \<open>A terminated process\<close>

text \<open>\<open>str\<close> of a payload value; no array or object equals what it is compared with in the end.\<close>

definition json_str_text :: "json \<Rightarrow> string option" where
  "json_str_text v = (case v of JNull \<Rightarrow> Some ''None'' | JStr s \<Rightarrow> Some s | JInt n \<Rightarrow> Some (str_int n)
     | JBool b \<Rightarrow> Some (if b then ''True'' else ''False'') | _ \<Rightarrow> None)"

definition json_is_number :: "json \<Rightarrow> int option \<Rightarrow> bool" where
  "json_is_number v n = (case n of None \<Rightarrow> v = JNull | Some k \<Rightarrow> jnumber v k)"

text \<open>The complete identity a replay must present; \<open>None\<close> when \<open>int\<close> of the group raises.\<close>

definition replay_input_bad ::
    "bool \<Rightarrow> int option \<Rightarrow> string option \<Rightarrow> string option \<Rightarrow> int option \<Rightarrow> string option \<Rightarrow> bool option" where
  "replay_input_bad windows pid pgid token session termination =
    or_chain [Some (case pid of None \<Rightarrow> True | Some n \<Rightarrow> n \<le> 1),
      Some (windows \<and> pgid \<noteq> None),
      (if windows then Some False else case pgid of None \<Rightarrow> Some True
        | Some g \<Rightarrow> if \<not> py_isdigit g then Some True else int_test g (\<lambda>n. n \<le> 1)),
      Some (\<not> nonblank token), Some (windows \<and> session \<noteq> None),
      Some (\<not> windows \<and> (case session of None \<Rightarrow> True | Some s \<Rightarrow> s < 0)),
      Some (termination \<notin> {Some ''KILLED'', Some ''ALREADY_EXITED''})]"

definition replay_payload_matches ::
    "jobj \<Rightarrow> process_ownership \<Rightarrow> run_state \<Rightarrow> string option \<Rightarrow> int option \<Rightarrow> string option \<Rightarrow> string option \<Rightarrow>
     int option \<Rightarrow> string option \<Rightarrow> bool" where
  "replay_payload_matches payload p ts reason pid pgid token session termination =
    (set (map fst payload) = set EXECUTION_PROOF_TERMINATION_KEYS
     \<and> jget payload ''terminal_state'' = JStr (state_name ts) \<and> jget payload ''reason_code'' = jopt reason
     \<and> jget payload ''termination_status'' = jopt termination
     \<and> json_is_number (jget payload ''process_id'') pid
     \<and> json_str_text (jget payload ''process_group_id'') = Some (py_str pgid)
     \<and> json_str_text (jget payload ''process_start_token'') = Some (py_str token)
     \<and> json_is_number (jget payload ''session_id'') session
     \<and> json_is_number (jget payload ''process_id'') (o_root_process_id p)
     \<and> json_str_text (jget payload ''process_group_id'') = Some (py_str (o_process_group_id p))
     \<and> jget payload ''process_start_token'' = jopt (o_root_process_start_token p)
     \<and> json_str_text (jget payload ''session_id'') = Some (py_str (o_session_id p))
     \<and> jget payload ''identity_attestation'' = jopt (o_identity_attestation p))"

definition replay_evidence_matches ::
    "(string \<Rightarrow> string) \<Rightarrow> capability \<Rightarrow> jobj \<Rightarrow> process_ownership \<Rightarrow> exec_run \<Rightarrow> run_state \<Rightarrow> string \<times> string \<Rightarrow>
     string \<times> nat \<times> string option \<Rightarrow> bool" where
  "replay_evidence_matches sha cap payload p r ts digests recovery =
    (jget payload ''execution_id'' = jopt (cap_execution_id cap)
     \<and> jget payload ''organization_id'' = JStr (d_organization_id (cap_decision cap))
     \<and> jget payload ''request_id'' = JStr (r_request_id r) \<and> jget payload ''decision_id'' = JStr (d_id (cap_decision cap))
     \<and> jget payload ''dispatch_state'' = JStr (dispatch_state_name (expected_terminal_dispatch ts))
     \<and> jget payload ''ownership_state'' = JStr ''TERMINAL''
     \<and> jget payload ''container_type'' = JStr (container_name (o_container_type p))
     \<and> jget payload ''launch_commit_state'' = JStr (commit_name (o_launch_commit_state p))
     \<and> jget payload ''worker_identity'' = JStr (cap_worker_identity cap)
     \<and> jget payload ''worker_generation'' = JStr (cap_worker_generation cap)
     \<and> jget payload ''correlation_id'' = jopt (r_correlation_id r)
     \<and> jget payload ''claim_identity_digest'' = JStr (fst digests)
     \<and> jget payload ''dispatch_identity_digest'' = JStr (snd digests)
     \<and> jget payload ''recovery_status'' = JStr (fst recovery)
     \<and> jnumber (jget payload ''recovery_attempt_number'') (int (fst (snd recovery)))
     \<and> jget payload ''recovery_attempt_id'' = jopt (snd (snd recovery))
     \<and> jget payload ''identity_attestation_digest'' = jopt (canonical_binding_digest sha (jopt (o_identity_attestation p))))"

text \<open>The POSIX attestation of the row; \<open>None\<close> when the ticks of the token raise.\<close>

definition recorded_posix_identity :: "(string \<Rightarrow> string) \<Rightarrow> process_ownership \<Rightarrow> bool option" where
  "recorded_posix_identity sha p =
    (case (Option.bind (o_identity_attestation p) (parse_posix_attestation sha), o_root_process_id p,
           Py_Text.py_int (py_str (o_process_group_id p)), Py_Text.py_int (py_str (o_session_id p))) of
       (Some att, Some pid, Some pgid, Some session) \<Rightarrow>
         (let parts = posix_parts (or_else (o_root_process_start_token p) []); boot = fst (the parts); ticks = snd (the parts)
          in map_option Not (or_chain
            [Some (pid \<le> 1), Some (pgid \<le> 1), Some (session < 0), Some (pa_verification_result att \<noteq> ''VERIFIED''),
             Some (pa_worker_generation att \<noteq> or_else (o_worker_generation p) []), Some (parts = None),
             Some (\<not> boot_shape boot), Some (\<not> py_isdigit ticks), int_test ticks (\<lambda>n. n \<le> 0), Some (pa_boot_id att \<noteq> boot),
             int_test ticks (\<lambda>n. pa_root_start_ticks att \<noteq> n), Some (pa_root_start_ticks att \<le> 0),
             Some (pa_session_id att \<noteq> session), Some (pa_process_group_id att \<noteq> pgid), Some (pa_process_group_id att \<le> 1),
             Some (o_container_identity p \<noteq> Some (posix_container (str_int session) (str_int pgid)))]))
     | _ \<Rightarrow> Some False)"

definition recovery_outcome_matches :: "process_ownership \<Rightarrow> recovery_state \<Rightarrow> recovery_attempt option \<Rightarrow> jobj \<Rightarrow> string \<Rightarrow> bool" where
  "recovery_outcome_matches p v latest payload status =
    (status \<noteq> ''CONFIRMED_TERMINATED''
     \<or> (v_last_outcome v = o_no_process_proof p
        \<and> (case latest of None \<Rightarrow> False | Some t \<Rightarrow> jopt (t_cancellation_status t) = jget payload ''termination_status'')))"

definition replay_terminal ::
    "(nat \<Rightarrow> env) \<Rightarrow> exec_db \<Rightarrow> capability \<Rightarrow> process_ownership \<Rightarrow> run_state \<Rightarrow> string option \<Rightarrow> int option \<Rightarrow>
     string option \<Rightarrow> string option \<Rightarrow> int option \<Rightarrow> string option \<Rightarrow> bool option" where
  "replay_terminal envs db cap p ts reason pid pgid token session termination =
    (let sha = e_sha256 (envs 0); windows = (o_container_type p = WINDOWS_JOB) in
     if ts \<notin> {FAILED, TIMED_OUT, CANCELLED} \<or> \<not> is_valid_execution_terminal_outcome ts reason then Some False
     else case replay_input_bad windows pid pgid token session termination of
       None \<Rightarrow> None | Some True \<Rightarrow> Some False
     | Some False \<Rightarrow>
       if \<not> nonblank (o_no_process_proof p) then Some False
       else case decode_execution_proof sha (o_no_process_proof p) (Some ''TERMINATION_CONFIRMED'') of
         None \<Rightarrow> Some False
       | Some payload \<Rightarrow>
         if \<not> replay_payload_matches payload p ts reason pid pgid token session termination then Some False
         else case durable_execution_evidence db cap of
           None \<Rightarrow> Some False
         | Some (r, p', v, i, latest) \<Rightarrow>
           if py_strip (o_correlation_id p) = [] \<or> Some (o_correlation_id p) \<noteq> r_correlation_id r then Some False
           else (case (claim_digests sha cap, proof_recovery_fields (r, p', v, i, latest)) of
              (Some digests, Some recovery) \<Rightarrow>
                if \<not> replay_evidence_matches sha cap payload p r ts digests recovery then Some False
                else (case (if windows
                        then Some (validate_windows_ownership sha (e_now (envs 0) 0) p (Some (cap_worker_identity cap)) True \<noteq> None)
                        else recorded_posix_identity sha p) of
                   None \<Rightarrow> None
                 | Some ok \<Rightarrow> Some (ok \<and> o_terminalized_at p \<noteq> None
                      \<and> jget payload ''observed_at'' = jtime (o_terminalized_at p)
                      \<and> recovery_outcome_matches p v latest payload (fst recovery)))
            | _ \<Rightarrow> Some False))"

text \<open>A process of a governed row that the caller names exactly: its process, group and session, or \<open>None\<close>.\<close>

definition named_posix ::
    "(string \<Rightarrow> string) \<Rightarrow> process_ownership \<Rightarrow> int option \<Rightarrow> string option \<Rightarrow> string option \<Rightarrow> int option \<Rightarrow> bool option" where
  "named_posix sha p pid pgid token session =
    (case (o_root_process_id p, Py_Text.py_int (py_str (o_session_id p))) of
       (Some rpid, Some stored) \<Rightarrow>
         (let group = py_str (o_process_group_id p);
              parts = posix_parts (or_else (o_root_process_start_token p) []); boot = fst (the parts); ticks = snd (the parts)
          in unless
            [Some (rpid \<le> 1), Some (\<not> py_isdigit group), int_test group (\<lambda>n. n \<le> 1), Some (stored < 0),
             Some (case pid of None \<Rightarrow> True | Some n \<Rightarrow> n \<le> 1),
             (case pgid of None \<Rightarrow> Some True | Some g \<Rightarrow> if \<not> py_isdigit g then Some True else int_test g (\<lambda>n. n \<le> 1)),
             Some (\<not> nonblank token), Some (case session of None \<Rightarrow> True | Some k \<Rightarrow> k < 0),
             Some (pid \<noteq> Some rpid), Some (pgid \<noteq> Some group), Some (session \<noteq> Some stored),
             Some (token \<noteq> o_root_process_start_token p), Some (\<not> nonblank (o_identity_attestation p))]
            (case parse_posix_attestation sha (the (o_identity_attestation p)) of
               None \<Rightarrow> Some False
             | Some att \<Rightarrow> map_option Not (or_chain
                [Some (pa_verification_result att \<noteq> ''VERIFIED''),
                 Some (pa_worker_generation att \<noteq> or_else (o_worker_generation p) []), Some (parts = None),
                 Some (\<not> boot_shape boot), Some (\<not> py_isdigit ticks), int_test ticks (\<lambda>n. n \<le> 0),
                 Some (pa_boot_id att \<noteq> boot), int_test ticks (\<lambda>n. pa_root_start_ticks att \<noteq> n),
                 Some (pa_root_start_ticks att \<le> 0), Some (pa_session_id att \<noteq> stored),
                 Some (Some (pa_process_group_id att) \<noteq> Py_Text.py_int group), Some (pa_process_group_id att \<le> 1),
                 Some (o_container_identity p \<noteq> Some (posix_container (py_str (o_session_id p)) group))])))
     | _ \<Rightarrow> Some False)"

definition named_windows ::
    "env \<Rightarrow> job_registry \<Rightarrow> capability \<Rightarrow> process_ownership \<Rightarrow> int option \<Rightarrow> string option \<Rightarrow> string option \<Rightarrow> int option \<Rightarrow> bool" where
  "named_windows env jobs cap p pid pgid token session =
    (case require_empty_job (e_sha256 env) (e_now env 0) jobs p (Some (cap_worker_identity cap)) of
       None \<Rightarrow> False
     | Some att \<Rightarrow> pid = Some (wa_root_process_id att) \<and> pgid = None \<and> session = None
         \<and> token = Some (wa_root_process_start_token att))"

definition process_fields :: "(string \<Rightarrow> string) \<Rightarrow> process_ownership \<Rightarrow> int option \<Rightarrow> string option \<Rightarrow> int option \<Rightarrow> string \<Rightarrow> jobj" where
  "process_fields sha p pid pgid session termination =
    [(''termination_status'', JStr termination), (''process_id'', (case pid of None \<Rightarrow> JNull | Some n \<Rightarrow> JInt n)),
     (''process_group_id'', jopt pgid), (''process_start_token'', jopt (o_root_process_start_token p)),
     (''session_id'', (case session of None \<Rightarrow> JNull | Some n \<Rightarrow> JInt n)),
     (''identity_attestation'', jopt (o_identity_attestation p)),
     (''identity_attestation_digest'', jopt (canonical_binding_digest sha (jopt (o_identity_attestation p))))]"

definition record_terminal ::
    "(nat \<Rightarrow> env) \<Rightarrow> job_registry \<Rightarrow> exec_db \<Rightarrow> capability \<Rightarrow> run_state \<Rightarrow> string option \<Rightarrow> int option \<Rightarrow> string option \<Rightarrow>
     string option \<Rightarrow> int option \<Rightarrow> string option \<Rightarrow> bool outcome" where
  "record_terminal envs jobs db cap ts reason pid pgid token session termination_arg =
    (let sha = e_sha256 (envs 0); now = e_now (envs 0) 1 in
     if \<not> truthy (cap_execution_id cap) then commit db False
     else case get_process_ownership db (the (cap_execution_id cap)) (d_organization_id (cap_decision cap)) of
       None \<Rightarrow> commit db False
     | Some p \<Rightarrow>
       if o_ownership_state p = TERMINAL
       then (case replay_terminal envs db cap p ts reason pid pgid token session termination_arg of
               None \<Rightarrow> rollback db ValueError | Some ok \<Rightarrow> commit db ok)
       else if o_ownership_state p \<noteq> EXTERNAL_PROCESS_GOVERNED then commit db False
       else if ts \<notin> {SUCCEEDED, PARTIAL_RESULTS_WITH_WARNING, FAILED, TIMED_OUT, CANCELLED}
          \<or> \<not> is_valid_execution_terminal_outcome ts reason then commit db False
       else
       let termination = (case termination_arg of None \<Rightarrow> ''ALREADY_EXITED'' | Some t \<Rightarrow> t) in
       if termination \<notin> {''KILLED'', ''ALREADY_EXITED''} then commit db False
       else case (if o_container_type p = WINDOWS_JOB then Some (named_windows (envs 0) jobs cap p pid pgid token session)
                  else named_posix sha p pid pgid token session) of
         None \<Rightarrow> rollback db ValueError
       | Some False \<Rightarrow> commit db False
       | Some True \<Rightarrow>
         case durable_execution_evidence db cap of None \<Rightarrow> commit db False
         | Some (r, p', v, i, latest) \<Rightarrow>
           if \<not> nonblank (r_correlation_id r) then commit db False
           else (case (claim_digests sha cap, proof_recovery_fields (r, p', v, i, latest)) of
             (Some digests, Some recovery) \<Rightarrow>
               (case encode_execution_proof sha ''TERMINATION_CONFIRMED''
                   (worker_proof ''TERMINATION_CONFIRMED'' cap r ts (expected_terminal_dispatch ts) ''TERMINAL''
                      (o_container_type p) (o_launch_commit_state p) digests reason now recovery
                    @ process_fields sha p pid pgid session termination) of
                  None \<Rightarrow> commit db False
                | Some t \<Rightarrow>
                   transition_process_ownership (envs 1) db
                     (p\<lparr>o_ownership_state := TERMINAL, o_no_process_proof := Some t,
                        o_correlation_id := the (r_correlation_id r), o_updated_at := now, o_terminalized_at := Some now\<rparr>)
                     EXTERNAL_PROCESS_GOVERNED ''system'' (or_else reason []) (Some (cap_worker_identity cap)))
           | _ \<Rightarrow> commit db False))"

section \<open>Settlement\<close>

text \<open>The transaction of \<open>settle_execution\<close>: the ownership row and the run are closed together, or not at all.
  \<open>Inr False\<close> is the rejection that rolls back.\<close>

definition close_with_authority ::
    "(nat \<Rightarrow> env) \<Rightarrow> job_registry \<Rightarrow> exec_db \<Rightarrow> capability \<Rightarrow> run_state \<Rightarrow> string option \<Rightarrow> int option \<Rightarrow> string option \<Rightarrow>
     string option \<Rightarrow> int option \<Rightarrow> string option \<Rightarrow> bool outcome" where
  "close_with_authority envs jobs db cap ts reason pid pgid token session termination =
    (let org = d_organization_id (cap_decision cap);
         recorded = (if pid = None
           then record_no_process envs db cap (or_else reason []) (or_else reason []) (Some ts) (Some (expected_terminal_dispatch ts))
           else record_terminal envs jobs db cap ts reason pid pgid token session
                  (Some (case termination of None \<Rightarrow> ''ALREADY_EXITED'' | Some t \<Rightarrow> t)))
     in case recorded of
       (Inl e, db1) \<Rightarrow> rollback db e
     | (Inr False, db1) \<Rightarrow> commit db False
     | (Inr True, db1) \<Rightarrow>
        (case (if pid = None
               then abort_execution_start (envs 2) db1 (d_id (cap_decision cap)) org (cap_worker_identity cap)
                      (or_else (cap_claim_token cap) []) (the (cap_dispatch_token cap)) ts (or_else reason []) None None
               else finish_execution (envs 2) db1 (the (cap_execution_id cap)) org (cap_worker_identity cap)
                      (the (cap_dispatch_token cap)) ts reason pid pgid) of
           (Inl e, db2) \<Rightarrow> rollback db e
         | (Inr False, db2) \<Rightarrow> commit db False
         | (Inr True, db2) \<Rightarrow> commit db2 True))"

definition settle_execution ::
    "(nat \<Rightarrow> env) \<Rightarrow> job_registry \<Rightarrow> exec_db \<Rightarrow> capability \<Rightarrow> run_state \<Rightarrow> string option \<Rightarrow> int option \<Rightarrow> string option \<Rightarrow>
     string option \<Rightarrow> int option \<Rightarrow> string option \<Rightarrow> bool outcome" where
  "settle_execution envs jobs db cap ts reason pid pgid token session termination_arg =
    (let eid = or_else (cap_execution_id cap) []; org = d_organization_id (cap_decision cap);
         gen = Some (cap_worker_generation cap); worker = Some (cap_worker_identity cap);
         termination = (if pid = None then termination_arg
           else Some (case termination_arg of None \<Rightarrow> ''ALREADY_EXITED'' | Some t \<Rightarrow> t))
     in if \<not> truthy (cap_execution_id cap) \<or> \<not> truthy (cap_dispatch_token cap) then commit db False
     else case close_with_authority envs jobs db cap ts reason pid pgid token session termination of
       (Inr False, db') \<Rightarrow>
         if reason = Some ''EXECUTION_CANCELLED'' \<and> pid \<noteq> None
         then (if termination \<notin> {Some ''KILLED'', Some ''ALREADY_EXITED''} then commit db False
               else case get_process_ownership db eid org of None \<Rightarrow> commit db False
               | Some p \<Rightarrow> settle_execution_after_confirmed_termination (envs 3) jobs db eid org ts ''EXECUTION_CANCELLED''
                     (the termination) pid pgid token session gen worker (o_identity_attestation p) ''process-supervisor'')
         else if reason = Some ''EXECUTION_CANCELLED_BEFORE_PROCESS_CREATION'' \<and> pid = None
         then settle_execution_after_confirmed_termination (envs 3) jobs db eid org ts
                ''EXECUTION_CANCELLED_BEFORE_PROCESS_CREATION'' ''NO_EXTERNAL_PROCESS'' None None None None gen worker None
                ''process-supervisor''
         else commit db False
     | out \<Rightarrow> out)"

text \<open>\<open>abort_start\<close> and \<open>finish\<close> of a capability.\<close>

definition capability_abort_start ::
    "(nat \<Rightarrow> env) \<Rightarrow> job_registry \<Rightarrow> exec_db \<Rightarrow> capability \<Rightarrow> run_state \<Rightarrow> string \<Rightarrow> int option \<Rightarrow> string option \<Rightarrow> bool outcome" where
  "capability_abort_start envs jobs db cap ts reason pid pgid =
    settle_execution envs jobs db cap ts (Some reason) pid pgid None None None"

definition capability_finish ::
    "(nat \<Rightarrow> env) \<Rightarrow> job_registry \<Rightarrow> exec_db \<Rightarrow> capability \<Rightarrow> run_state \<Rightarrow> string option \<Rightarrow> int option \<Rightarrow> string option \<Rightarrow> bool outcome" where
  "capability_finish envs jobs db cap ts reason pid pgid =
    settle_execution envs jobs db cap ts (Some (if truthy reason then the reason else ''PROCESS_TERMINALIZED'')) pid pgid None None None"

end
