(* ===== verification/Terminal_Properties.thy ===== *)
theory Terminal_Properties
  imports Exec_Terminal Settlement_Properties
begin

text \<open>
  Settling an execution from its worker: all or nothing, and what a capability alone cannot settle.
\<close>

section \<open>Refused settlements\<close>

lemma refused_settlement_unchanged:
  "fst (settle_execution_after_confirmed_termination env jobs db eid org ts reason termination
      pid pgid token session generation worker_id attestation actor) = Inr True
   \<or> snd (settle_execution_after_confirmed_termination env jobs db eid org ts reason termination
      pid pgid token session generation worker_id attestation actor) = db"
proof -
  let ?Q = "\<lambda>x. fst x = Inr True \<or> snd x = db"
  show ?thesis
    unfolding settle_execution_after_confirmed_termination_def
    apply (intro branch_flow [where Q = ?Q] branch_bool [where Q = ?Q])
    apply (simp_all only: outcome_simps simp_thms)
    done
qed

lemma closing_all_or_nothing:
  "fst (close_with_authority envs jobs db cap ts reason pid pgid token session termination) = Inr True
   \<or> snd (close_with_authority envs jobs db cap ts reason pid pgid token session termination) = db"
  by (auto simp: close_with_authority_def Let_def commit_def rollback_def split: prod.splits sum.splits bool.splits)

text \<open>C17. A settlement by the worker is all or nothing: unless it answers yes, the store is exactly what it was,
  ownership row, run, dispatch intent and audit log, whichever step refused and whatever was already written.\<close>

theorem settlement_all_or_nothing:
  "fst (settle_execution envs jobs db cap ts reason pid pgid token session termination) = Inr True
   \<or> snd (settle_execution envs jobs db cap ts reason pid pgid token session termination) = db"
proof -
  obtain a d where close: "close_with_authority envs jobs db cap ts reason pid pgid token session
      (if pid = None then termination else Some (case termination of None \<Rightarrow> ''ALREADY_EXITED'' | Some t \<Rightarrow> t)) = (a, d)"
    by fastforce
  have same: "a = Inr True \<or> d = db"
    using closing_all_or_nothing [of envs jobs db cap ts reason pid pgid token session
      "if pid = None then termination else Some (case termination of None \<Rightarrow> ''ALREADY_EXITED'' | Some t \<Rightarrow> t)"]
    unfolding close by simp
  then show ?thesis
    unfolding settle_execution_def Let_def close
    using refused_settlement_unchanged
    by (auto simp: commit_def split: sum.splits bool.splits option.splits)
qed

section \<open>A process without its token\<close>

lemma not_nonblank_None: "\<not> nonblank None"
  by (simp add: nonblank_def)

lemma replay_needs_token: "replay_input_bad windows pid pgid None session termination \<noteq> Some False"
  by (auto simp: replay_input_bad_def or_chain_False not_nonblank_None simp del: or_chain.simps)

lemma named_posix_needs_token: "named_posix sha p pid pgid None session \<noteq> Some True"
  by (auto simp: named_posix_def unless_def Let_def or_chain_False not_nonblank_None simp del: or_chain.simps split: option.splits bool.splits)

lemma record_terminal_needs_token:
  "fst (record_terminal envs jobs db cap ts reason pid pgid None session termination) \<noteq> Inr True"
proof -
  have "replay_terminal envs db cap p ts reason pid pgid None session termination \<noteq> Some True" for p
    using replay_needs_token by (auto simp: replay_terminal_def Let_def split: option.splits bool.splits)
  moreover have "\<not> named_windows env jobs cap p pid pgid None session" for env p
    by (simp add: named_windows_def split: option.split)
  ultimately show ?thesis
    using named_posix_needs_token
    by (auto simp: record_terminal_def Let_def commit_def rollback_def split: option.splits bool.splits if_splits)
qed

lemma chain_blocked: "Some True \<in> set ts \<Longrightarrow> map_option Not (or_chain ts) \<noteq> Some True"
  using or_chain_False [of ts] by (cases "or_chain ts") auto

lemma settlement_needs_token:
  "fst (settle_execution_after_confirmed_termination env jobs db eid org ts reason ''ALREADY_EXITED'' pid pgid None session
     generation worker_id attestation actor) \<noteq> Inr True"
proof -
  let ?Q = "\<lambda>x. fst x \<noteq> Inr True"
  have "termination_input ''ALREADY_EXITED'' pid pgid None session attestation \<noteq> Some True"
    by (simp add: termination_input_def process_statuses_def del: or_chain.simps map_option_eq_Some)
       (rule chain_blocked, simp)
  then show ?thesis
    unfolding settle_execution_after_confirmed_termination_def
    by (auto simp: Let_def commit_def rollback_def split: option.splits bool.splits)
qed

text \<open>C18. A capability cannot settle its own process: \<open>finish\<close> and \<open>abort_start\<close> pass neither the start token nor
  the session of the process, without which no terminal proof is recorded, so with a process they never
  succeed and leave the store as it was.\<close>

theorem capability_cannot_settle_process:
  "fst (capability_finish envs jobs db cap ts reason (Some n) pgid) \<noteq> Inr True
   \<and> fst (capability_abort_start envs jobs db cap ts code (Some n) pgid) \<noteq> Inr True"
proof -
  have "fst (settle_execution envs jobs db cap ts r (Some n) pgid None None None) \<noteq> Inr True" for r
  proof -
    obtain a d where rec: "record_terminal envs jobs db cap ts r (Some n) pgid None None (Some ''ALREADY_EXITED'') = (a, d)" by fastforce
    with record_terminal_needs_token have "a \<noteq> Inr True" by (metis fst_conv)
    then have "fst (close_with_authority envs jobs db cap ts r (Some n) pgid None None (Some ''ALREADY_EXITED'')) \<noteq> Inr True"
      by (auto simp: close_with_authority_def Let_def rec commit_def rollback_def split: sum.splits bool.splits)
    then show ?thesis
      using settlement_needs_token
      by (auto simp: settle_execution_def Let_def commit_def split: sum.splits bool.splits option.splits prod.splits)
  qed
  then show ?thesis by (simp add: capability_finish_def capability_abort_start_def)
qed

end
