(* ===== verification/Spec2Isabelle.thy ===== *)
theory Spec2Isabelle
  imports Prelude Correlator_Properties Cancellation_Properties Exec_Refinement Auth_Password Auth_Properties
    Queue_Properties Grading Rate_Limiter Ssrf_Seal Audit_Properties Exec_Leases
    Exec_Authority Exec_Approval Exec_Tenancy Capability_Properties Terminal_Properties
begin

text \<open>
A verification development for the core of CyberAssess, the security-assessment platform of this
  repository (\<open>src/backend/app/core\<close>, Python).

  \<^bold>\<open>The program.\<close>  Administrators approve requests to run an assessment tool against an asset; a worker
  claims the approved decision and the dispatch intent of its run, starts the tool as a governed
  process, renews its lease, and settles the outcome; the approval of a whole scan creates one
  authorized execution per selected operation, and its revocation, expiry or consumption is carried
  over to them; coordinators recover or settle runs whose worker,
  process or authority is gone. Every operation is one transaction on a tenant-scoped SQL store
  (\<open>db.py\<close>) that also appends audit events. Around that store stand: authentication (\<open>auth.py\<close>), the
  gateway that decides which network targets may be reached and seals them (\<open>ssrf_protector.py\<close>), the
  operation policy (\<open>tool_operation_policy.py\<close>), terminal proofs and process attestations
  (\<open>execution_context.py\<close>, \<open>windows_job.py\<close>), the durable queue of execution intents (\<open>queue.py\<close>), the path sandbox, redaction of stored data, finding
  correlation, grading and risk, and client-side rate limiting.

  \<^bold>\<open>Theories, and the code they model.\<close>

  \<^item> Vocabulary: \<open>Prelude\<close> (Python strings, dictionaries, lemma collections), \<open>Tables\<close> (SQL tables as
    lists, selects and updates, and the locales \<open>row_steps\<close> and \<open>row_evolution\<close> on how rows change),
    \<open>Timestamps\<close>, \<open>Float64\<close> (rounding of binary64 arithmetic), \<open>Py_Text\<close>, \<open>Regex\<close>, \<open>Json\<close>,
    \<open>Json_Canonical\<close> (the canonical text determines the value), \<open>Json_Parse\<close> (strict parsing inverts it).
  \<^item> Execution store: \<open>Exec_Schema\<close> and \<open>Exec_Db\<close> hold the rows, the store and the reads of \<open>db.py\<close> and the
    state tables of \<open>models.py\<close>. \<open>Exec_Requests\<close> models requests, approval and revocation, \<open>Exec_Scan\<close>
    the approval and the transitions of whole scan authorizations,
    \<open>Exec_Dispatch\<close> claims, leases, start, finish, abort and the reaper, \<open>Exec_Process\<close> ownership
    transitions and recovery leases, \<open>Exec_Recovery\<close>, \<open>Exec_Settlement\<close> and \<open>Exec_Termination\<close> the
    recording of failed recoveries and the settlements. Each method of \<open>DatabaseManager\<close> is the function
    of the same name, from the environment (clock readings, fresh identifiers, correlation, SHA-256) and
    the store to an \<open>outcome\<close>: a result or a raised error, and the store after commit or rollback.
  \<^item> Its theorems: \<open>Exec_Lifecycle\<close> and \<open>Exec_Recovery_Steps\<close> show for every operation how rows may change;
    \<open>Exec_Invariants\<close> has the step relation \<open>exec_step\<close>, with a step for every method of \<open>DatabaseManager\<close>
    that writes an execution table (schema migrations aside), and what follows for any sequence
    (\<open>reaches\<close>). What may change even in a closed row is part of the orders on rows: the expiry of a
    whole scan moves the expiry of its requests and decisions, its revocation and consumption mark
    decisions revoked or consumed, in whatever state they are. \<open>Exec_Properties\<close>, \<open>Exec_Leases\<close>, \<open>Exec_Authority\<close>, \<open>Exec_Approval\<close>,
    \<open>Exec_Tenancy\<close> and \<open>Settlement_Properties\<close> hold the properties, \<open>Exec_Refinement\<close> the refinement of
    the abstract life cycle, \<open>Exec_Samples\<close> the concrete store the witnesses run on.
  \<^item> Proofs and attestations: \<open>Exec_Proof\<close> (the codec of terminal proofs over Base64 and canonical JSON),
    \<open>Attestation\<close>, \<open>Windows_Jobs\<close> (the registry of attested jobs).
  \<^item> Authentication: \<open>Auth_Password\<close>, \<open>Auth\<close> (key ring, scopes, tokens, revocation, caller identification,
    guards), \<open>Auth_Properties\<close>.
  \<^item> Targets: \<open>Ip_Address\<close>, \<open>Url\<close>, \<open>Ssrf\<close>, \<open>Ssrf_Targets\<close>, with \<open>Ssrf_Properties\<close> and \<open>Ssrf_Seal\<close>;
    \<open>Path_Sandbox\<close>; \<open>Operation_Policy\<close>.
  \<^item> Launch: \<open>Exec_Capability\<close> (\<open>execution_decision.py\<close>, the worker identity, \<open>GovernedExecutionContext\<close>),
    \<open>Capability_Lemmas\<close>, \<open>Capability_Properties\<close>. An object is named by an identifier, a registry of
    issued objects is a list of them.
  \<^item> Settlement by the worker (\<open>execution_service.py\<close>): \<open>Exec_Terminal\<close> (\<open>record_no_process\<close>,
    \<open>record_terminal\<close>, \<open>settle_execution\<close>), \<open>Terminal_Properties\<close>.
  \<^item> Cancellation (\<open>execution_service.py\<close>): \<open>Exec_Cancellation\<close> (reading back a process identity, and the
    coordinator's \<open>cancel_request\<close> with other clients between its transactions), \<open>Cancellation_Lemmas\<close>,
    \<open>Cancellation_Samples\<close>, \<open>Cancellation_Properties\<close>.
  \<^item> Job queue: \<open>Queue_Binding\<close> (bindings and their wire form), \<open>Queue_Failure\<close> (failure evidence, quarantine,
    \<open>fail\<close>), \<open>Queue_Consumer\<close> (\<open>enqueue\<close>, \<open>consume_once\<close>, recovery, \<open>execute_bounded\<close> of \<open>queue.py\<close>) and
    \<open>Queue_Properties\<close>. An operation is a function of the replies Redis gave, to its result and the trace of
    commands it sent; no semantics of Redis is assumed beyond the meaning of a reply.
  \<^item> Findings and evidence: \<open>Audit_Log\<close> and \<open>Audit_Properties\<close> (the hash chain), \<open>Sanitize\<close>,
    \<open>Correlator\<close> and \<open>Correlator_Properties\<close>, \<open>Grading\<close> (grades and contextual risk), \<open>Rate_Limiter\<close>.

  \<^bold>\<open>What is shown.\<close>  Final rows stay final and runs move only along the life cycle, over any sequence of
  operations; a decision starts once, a revoked one never; leases exclude each other; no operation
  touches another tenant's rows; approval binds the exact request; a settlement needs lost authority and
  closes all rows with a decodable proof; a worker launches only the approved command on live authority
  and settles it wholly or not at all;
  a confirmed cancellation left a terminal run, and a process is
  signalled only with its recorded identity; proofs decode to what was encoded and are unique. Sessions
  survive key rotation and end with logout, callers in production are who the database says and hold no
  scope beyond their role (a system administrator's wildcard holds every scope). Pinned destinations were checked, seals bind the authorization up to a
  collision between the texts of the two targets, the audit chain commits to its content. A queued intent is handed to
  the worker only with its exact binding and leaves the queue only after it was handled, or by authorized
  recovery. Correlation loses no finding and invents none, deadlines are exact, and a shared
  rate limiter keeps its rate under any interleaving of its callers; scores lie in their ranges.
  Some properties state a defect of the code (kind error); they are listed as findings in the manifest.

  \<^bold>\<open>Conventions.\<close>  Times are integers, microseconds of UTC; the stored ISO texts compare alike. A string is
  a list of code points below 256. Columns that SQL restricts to an enumeration are datatypes, except
  \<open>q_state\<close> and \<open>d_approval_state\<close>, which stay texts; a nullable column is an \<open>option\<close>, and a comparison
  with NULL is written as SQL decides it (NULLs sort first, as in SQLite). A \<open>_json\<close> column is the
  association list of its sorted serialisation. Row locks and serialisable isolation make each call one
  step. Uniqueness of primary keys is the predicate \<open>keys_unique\<close>, an invariant of every operation.
  Float arithmetic is rounded by \<open>fl\<close> in source order. Reason texts and log lines are not modelled, so a
  verdict with a reason is a truth value and an exception is a value of an error type.

  SHA-256, HMAC, PBKDF2, PyJWT, DNS, the file system, environment secrets, kernel answers about
  processes and the order of Python sets are parameters. SHA-256 is a function from the text, encoded as
  UTF-8, to the hexadecimal digest; theorems that need injectivity conclude \<open>or\<close> a collision between texts the code
  hashes. The read-only revalidations in the approval of a whole scan (stored manifest, policy, target,
  replayed child rows) are arguments with arbitrary verdicts: what is shown holds for every verdict.

  \<^bold>\<open>Fuel.\<close>  The JSON parser takes as fuel the length of its text plus one, and the path and loop models the
  length of what they traverse; that it suffices is proved where a theorem depends on it (\<open>parse_plain\<close>,
  \<open>limiter_admits_within_rate\<close>).

  \<^bold>\<open>Not modelled, and why.\<close>  \<open>list_audit_events\<close> (SQL leaves the order of equal timestamps open); floats and
  characters beyond 255 in JSON texts (refused by the parser model); the tenancy tables' own operations
  and the recording of a scan authorization (one step may replace those tables and append audit events);
  the revalidation of a scan's stored manifest; the process supervisor, scanner adapters, engines, exporters, installers,
  HTTP routing and front end (process control, network and presentation around the core); semaphores
  and timeouts of the queue manager; the orchestrator, the observation service, the scan execution
  authority, supply-chain checks and migrations; the launch records of \<open>execution_service.py\<close>
  (\<open>record_posix_launch\<close> and its kin) and contexts without a scan.
\<close>

end
